(* ===== verification/Py_Prelude.thy ===== *)
theory Py_Prelude
  imports Complex_Main "HOL-Library.Sublist"
begin

text \<open>
  What every component of the development shares: Python's exceptions as values, the result
  type of code that may raise, Python values as \<open>json.loads\<close> produces them, dictionary
  access with its \<open>KeyError\<close>, Python's equality across numeric types, the string
  operations the sources use, and two locales for components that are run over a sequence of
  events.  Lemmas that rewrite unconditionally are declared \<open>simp\<close>; the collection
  \<open>py_simps\<close> holds the definitions that proofs unfold together.
\<close>

named_theorems py_simps \<open>definitions of Python operations that proofs unfold together\<close>

section \<open>Exceptions and results\<close>

text \<open>
  The exception classes the sources raise, catch or let pass.  \<open>Refusal\<close> is the class of
  \<open>apps/base/shared-api/boundary.py\<close> (an HTTP status and an error code).
\<close>

datatype exn =
    ValueError string
  | JSONDecodeError
  | UnicodeError
  | KeyError string
  | IndexError
  | TypeError
  | AttributeError
  | OverflowError
  | ZeroDivisionError
  | OSError
  | FileNotFoundError
  | FileExistsError
  | TimeoutError
  | RuntimeError string
  | RecursionError
  | CancelledError
  | Refusal int string
  | HTTPError
  | SqliteError

type_synonym 'a res = "exn + 'a"

text \<open>\<open>JSONDecodeError\<close> and \<open>UnicodeError\<close> derive from \<open>ValueError\<close>;
  \<open>FileNotFoundError\<close>, \<open>FileExistsError\<close> and \<open>TimeoutError\<close> derive from
  \<open>OSError\<close>; \<open>KeyError\<close> and \<open>IndexError\<close> from \<open>LookupError\<close>.  An
  \<open>except\<close> clause names classes, so it is modelled by these predicates.\<close>

fun is_ValueError :: "exn \<Rightarrow> bool" where
  "is_ValueError (ValueError _) = True"
| "is_ValueError JSONDecodeError = True"
| "is_ValueError UnicodeError = True"
| "is_ValueError _ = False"

fun is_OSError :: "exn \<Rightarrow> bool" where
  "is_OSError OSError = True"
| "is_OSError FileNotFoundError = True"
| "is_OSError FileExistsError = True"
| "is_OSError TimeoutError = True"
| "is_OSError _ = False"

text \<open>\<open>except (OSError, ValueError)\<close>\<close>

definition os_or_value :: "exn \<Rightarrow> bool" where
  "os_or_value e = (is_OSError e \<or> is_ValueError e)"

lemma os_or_value_intros [intro]:
  "is_OSError e \<Longrightarrow> os_or_value e" "is_ValueError e \<Longrightarrow> os_or_value e"
  by (simp_all add: os_or_value_def)

lemma os_or_value_simps [simp]:
  "os_or_value (ValueError m)" "os_or_value UnicodeError" "os_or_value JSONDecodeError"
  "os_or_value OSError" "os_or_value FileNotFoundError" "os_or_value TimeoutError"
  by (simp_all add: os_or_value_def)

fun is_KeyError :: "exn \<Rightarrow> bool" where
  "is_KeyError (KeyError _) = True"
| "is_KeyError _ = False"

text \<open>Loops that stop at the first exception.\<close>

fun mapM_res :: "('a \<Rightarrow> 'b res) \<Rightarrow> 'a list \<Rightarrow> 'b list res" where
  "mapM_res f [] = Inr []"
| "mapM_res f (x # xs) =
     (case f x of Inl e \<Rightarrow> Inl e
      | Inr y \<Rightarrow> (case mapM_res f xs of Inl e \<Rightarrow> Inl e | Inr ys \<Rightarrow> Inr (y # ys)))"

fun foldM_res :: "('s \<Rightarrow> 'a \<Rightarrow> 's res) \<Rightarrow> 's \<Rightarrow> 'a list \<Rightarrow> 's res" where
  "foldM_res f s [] = Inr s"
| "foldM_res f s (x # xs) = (case f s x of Inl e \<Rightarrow> Inl e | Inr t \<Rightarrow> foldM_res f t xs)"

lemma mapM_res_cong [fundef_cong]:
  "xs = ys \<Longrightarrow> (\<And>x. x \<in> set ys \<Longrightarrow> f x = g x) \<Longrightarrow> mapM_res f xs = mapM_res g ys"
  by (induction ys arbitrary: xs) (auto split: sum.splits)

lemma mapM_res_length: "mapM_res f xs = Inr ys \<Longrightarrow> length ys = length xs"
  by (induction xs arbitrary: ys) (auto split: sum.splits)

lemma mapM_res_set: "mapM_res f xs = Inr ys \<Longrightarrow> y \<in> set ys \<Longrightarrow> \<exists>x\<in>set xs. f x = Inr y"
  by (induction xs arbitrary: ys) (auto split: sum.splits)

lemma mapM_res_image: "mapM_res f xs = Inr ys \<Longrightarrow> x \<in> set xs \<Longrightarrow> \<exists>y \<in> set ys. f x = Inr y"
  by (induction xs arbitrary: ys) (auto split: sum.splits)

lemma mapM_res_list_all2: "mapM_res f xs = Inr ys \<Longrightarrow> list_all2 (\<lambda>x y. f x = Inr y) xs ys"
  by (induction xs arbitrary: ys) (auto split: sum.splits)

lemma foldM_res_invariant:
  "foldM_res f s xs = Inr t \<Longrightarrow> P s \<Longrightarrow> (\<And>s x t. x \<in> set xs \<Longrightarrow> P s \<Longrightarrow> f s x = Inr t \<Longrightarrow> P t) \<Longrightarrow> P t"
proof (induction xs arbitrary: s)
  case Nil
  then show ?case by simp
next
  case (Cons x xs)
  from Cons.prems(1) obtain u where u: "f s x = Inr u" and rest: "foldM_res f u xs = Inr t"
    by (auto split: sum.splits)
  have "P u" using Cons.prems(2,3) u by auto
  with Cons.IH [OF rest] Cons.prems(3) show ?case by auto
qed

lemma foldM_res_Inl: "foldM_res f s xs = Inl e \<Longrightarrow> \<exists>t x. x \<in> set xs \<and> f t x = Inl e"
proof (induction xs arbitrary: s)
  case Nil
  then show ?case by simp
next
  case (Cons x xs)
  show ?case
  proof (cases "f s x")
    case (Inl d)
    with Cons.prems show ?thesis by auto
  next
    case (Inr u)
    with Cons.prems have "foldM_res f u xs = Inl e" by simp
    from Cons.IH [OF this] show ?thesis by auto
  qed
qed

lemma foldM_res_append:
  "foldM_res f s (xs @ ys) = (case foldM_res f s xs of Inl e \<Rightarrow> Inl e | Inr t \<Rightarrow> foldM_res f t ys)"
  by (induction xs arbitrary: s) (auto split: sum.splits)

section \<open>Floats and Python values\<close>

text \<open>
  A finite float is the rational it denotes; \<open>Inf True\<close> is \<open>-inf\<close>.  The two zeros are
  one value, as for Python's comparisons.  Which rationals are floats, and rounding, is the
  matter of the theory \<open>Py_Float\<close>.
\<close>

datatype flt = Fin rat | Inf bool | NaN

text \<open>
  The values of \<open>json.loads\<close>.  A dictionary keeps insertion order, so it is an association
  list (with distinct keys, \<open>json_wf\<close>).  Strings are lists of code points below 256.
\<close>

datatype pyv =
    PNone
  | PBool bool
  | PInt int
  | PFloat flt
  | PStr string
  | PList "pyv list"
  | PDict "(string \<times> pyv) list"

type_synonym pydict = "(string \<times> pyv) list"

fun json_wf :: "pyv \<Rightarrow> bool" where
  "json_wf (PList vs) = (\<forall>v \<in> set vs. json_wf v)"
| "json_wf (PDict d) = (distinct (map fst d) \<and> (\<forall>kv \<in> set d. json_wf (snd kv)))"
| "json_wf _ = True"

text \<open>\<open>d[k]\<close>, \<open>d.get(k)\<close>, \<open>d.get(k, x)\<close>, \<open>d[k] = v\<close> and \<open>d.pop(k, None)\<close>.\<close>

definition item :: "pydict \<Rightarrow> string \<Rightarrow> pyv res" where
  "item d k = (case map_of d k of None \<Rightarrow> Inl (KeyError k) | Some v \<Rightarrow> Inr v)"

definition dget_or :: "pydict \<Rightarrow> string \<Rightarrow> pyv \<Rightarrow> pyv" where
  "dget_or d k x = (case map_of d k of None \<Rightarrow> x | Some v \<Rightarrow> v)"

definition dget :: "pydict \<Rightarrow> string \<Rightarrow> pyv" where
  "dget d k = dget_or d k PNone"

definition dhas :: "pydict \<Rightarrow> string \<Rightarrow> bool" where
  "dhas d k = (map_of d k \<noteq> None)"

fun dset :: "('k \<times> 'v) list \<Rightarrow> 'k \<Rightarrow> 'v \<Rightarrow> ('k \<times> 'v) list" where
  "dset [] k v = [(k, v)]"
| "dset ((k', v') # d) k v = (if k' = k then (k, v) # d else (k', v') # dset d k v)"

definition dpop :: "('k \<times> 'v) list \<Rightarrow> 'k \<Rightarrow> ('k \<times> 'v) list" where
  "dpop d k = filter (\<lambda>kv. fst kv \<noteq> k) d"

definition keyset :: "('k \<times> 'v) list \<Rightarrow> 'k set" where
  "keyset d = set (map fst d)"

lemma map_of_dset [simp]: "map_of (dset d k v) = (map_of d)(k \<mapsto> v)"
  by (induction d) auto

lemma map_of_dpop: "map_of (dpop d k) = (map_of d)(k := None)"
  by (induction d) (auto simp: dpop_def)

lemma fst_set_dset [simp]: "fst ` set (dset d k v) = insert k (fst ` set d)"
  by (induction d k v rule: dset.induct) (simp_all add: insert_commute)

lemma distinct_dset [simp]: "distinct (map fst (dset d k v)) = distinct (map fst d)"
proof (induction d k v rule: dset.induct)
  case (2 k' v' d k v)
  have "k' \<in> fst ` set (dset d k v) \<longleftrightarrow> k' = k \<or> k' \<in> fst ` set d"
    by simp
  with 2 show ?case by auto
qed simp

lemma length_dset: "k \<notin> fst ` set d \<Longrightarrow> length (dset d k v) = Suc (length d)"
  by (induction d) auto

lemma length_dset_le: "length (dset d k v) \<le> Suc (length d)"
  by (induction d) auto

lemma length_dpop_le: "length (dpop d k) \<le> length d"
  by (simp add: dpop_def)

lemma distinct_dpop: "distinct (map fst d) \<Longrightarrow> distinct (map fst (dpop d k))"
  by (induction d) (auto simp: dpop_def)

lemma keyset_dset [simp]: "keyset (dset d k v) = insert k (keyset d)"
  by (simp add: keyset_def)

lemma keyset_dpop [simp]: "keyset (dpop d k) = keyset d - {k}"
  by (auto simp: keyset_def dpop_def)

lemma dget_Some [simp]: "map_of d k = Some v \<Longrightarrow> dget d k = v"
  by (simp add: dget_def dget_or_def)

lemma item_Inr_iff [simp]: "item d k = Inr v \<longleftrightarrow> map_of d k = Some v"
  by (auto simp: item_def split: option.splits)

text \<open>\<open>dict(pairs)\<close>, and counting a key up.\<close>

definition dict_of :: "('k \<times> 'v) list \<Rightarrow> ('k \<times> 'v) list" where
  "dict_of kvs = foldl (\<lambda>d kv. dset d (fst kv) (snd kv)) [] kvs"

definition dbump :: "('k \<times> nat) list \<Rightarrow> 'k \<Rightarrow> ('k \<times> nat) list" where
  "dbump d k = map (\<lambda>kn. if fst kn = k then (k, Suc (snd kn)) else kn) d"

lemma dbump_keys [simp]: "map fst (dbump d k) = map fst d"
  by (auto simp: dbump_def)

lemma dbump_sum:
  "distinct (map fst d) \<Longrightarrow> k \<in> fst ` set d \<Longrightarrow> sum_list (map snd (dbump d k)) = Suc (sum_list (map snd d))"
proof (induction d)
  case (Cons kn d)
  show ?case
  proof (cases "fst kn = k")
    case True
    with Cons.prems(1) have "k \<notin> fst ` set d" by auto
    then have "dbump d k = d" unfolding dbump_def by (intro map_idI) force
    with True show ?thesis by (simp add: dbump_def)
  next
    case False
    with Cons show ?thesis by (simp add: dbump_def)
  qed
qed simp

subsection \<open>Type tests and equality\<close>

text \<open>\<open>type(v) is int\<close> excludes booleans; \<open>isinstance(v, dict)\<close> and the others are
  constructor tests.\<close>

fun is_int :: "pyv \<Rightarrow> bool" where
  "is_int (PInt _) = True" | "is_int _ = False"

fun is_str :: "pyv \<Rightarrow> bool" where
  "is_str (PStr _) = True" | "is_str _ = False"

fun is_list :: "pyv \<Rightarrow> bool" where
  "is_list (PList _) = True" | "is_list _ = False"

fun is_dict :: "pyv \<Rightarrow> bool" where
  "is_dict (PDict _) = True" | "is_dict _ = False"

fun is_bool :: "pyv \<Rightarrow> bool" where
  "is_bool (PBool _) = True" | "is_bool _ = False"

text \<open>\<open>num_of v\<close> is the number Python compares \<open>v\<close> as: a boolean is 0 or 1.\<close>

fun num_of :: "pyv \<Rightarrow> flt option" where
  "num_of (PBool b) = Some (Fin (if b then 1 else 0))"
| "num_of (PInt i) = Some (Fin (of_int i))"
| "num_of (PFloat f) = Some f"
| "num_of _ = None"

fun flt_eq :: "flt \<Rightarrow> flt \<Rightarrow> bool" where
  "flt_eq (Fin a) (Fin b) = (a = b)"
| "flt_eq (Inf a) (Inf b) = (a = b)"
| "flt_eq _ _ = False"

text \<open>Python's \<open>==\<close>: numbers across types, containers element by element, dictionaries
  regardless of order.\<close>

fun py_eq :: "pyv \<Rightarrow> pyv \<Rightarrow> bool" where
  "py_eq PNone w = (w = PNone)"
| "py_eq (PStr s) w = (w = PStr s)"
| "py_eq (PList vs) w =
     (case w of PList ws \<Rightarrow> list_all2 py_eq vs ws | _ \<Rightarrow> False)"
| "py_eq (PDict d) w =
     (case w of
        PDict e \<Rightarrow> length d = length e \<and>
          list_all (\<lambda>kv. case map_of e (fst kv) of None \<Rightarrow> False | Some x \<Rightarrow> py_eq (snd kv) x) d
      | _ \<Rightarrow> False)"
| "py_eq v w = (case num_of v of None \<Rightarrow> False
     | Some a \<Rightarrow> (case num_of w of None \<Rightarrow> False | Some b \<Rightarrow> flt_eq a b))"

lemma py_eq_int_iff [simp]: "py_eq (PInt i) (PInt j) \<longleftrightarrow> i = j"
  by simp

text \<open>\<open>bool(v)\<close>\<close>

fun truthy :: "pyv \<Rightarrow> bool" where
  "truthy PNone = False"
| "truthy (PBool b) = b"
| "truthy (PInt i) = (i \<noteq> 0)"
| "truthy (PFloat f) = (f \<noteq> Fin 0)"
| "truthy (PStr s) = (s \<noteq> [])"
| "truthy (PList vs) = (vs \<noteq> [])"
| "truthy (PDict d) = (d \<noteq> [])"

text \<open>\<open>v in {''a'', ...}\<close> for a set or dictionary of strings: a list or dictionary is not
  hashable.\<close>

definition str_in :: "pyv \<Rightarrow> string list \<Rightarrow> bool res" where
  "str_in v names =
     (case v of PStr s \<Rightarrow> Inr (s \<in> set names) | PList _ \<Rightarrow> Inl TypeError | PDict _ \<Rightarrow> Inl TypeError
      | _ \<Rightarrow> Inr False)"

lemma str_in_True [simp]: "str_in v names = Inr True \<longleftrightarrow> (\<exists>s \<in> set names. v = PStr s)"
  by (cases v) (auto simp: str_in_def)

text \<open>\<open>len(v)\<close>\<close>

definition py_len :: "pyv \<Rightarrow> nat res" where
  "py_len v = (case v of PStr s \<Rightarrow> Inr (length s) | PList vs \<Rightarrow> Inr (length vs) | PDict d \<Rightarrow> Inr (length d)
     | _ \<Rightarrow> Inl TypeError)"

section \<open>Strings\<close>

text \<open>\<open>str.encode()\<close>: UTF-8 of code points below 256; the bytes are characters again.\<close>

definition utf8 :: "string \<Rightarrow> string" where
  "utf8 s = concat (map (\<lambda>c. let n = of_char c :: nat in
     if n < 128 then [c] else [char_of (192 + n div 64), char_of (128 + n mod 64)]) s)"

text \<open>\<open>hmac.compare_digest\<close> of two strings accepts ASCII only.\<close>

definition compare_digest_str :: "string \<Rightarrow> string \<Rightarrow> bool res" where
  "compare_digest_str a b =
     (if list_all (\<lambda>c. (of_char c :: nat) < 128) (a @ b) then Inr (a = b) else Inl TypeError)"

text \<open>ASCII and Latin-1 whitespace, as \<open>str.isspace\<close> and \<open>str.strip\<close> see it.\<close>

definition is_space :: "char \<Rightarrow> bool" where
  "is_space c = (let n = of_char c :: nat in
     9 \<le> n \<and> n \<le> 13 \<or> 28 \<le> n \<and> n \<le> 32 \<or> n = 133 \<or> n = 160)"

definition strip :: "string \<Rightarrow> string" where
  "strip s = rev (dropWhile is_space (rev (dropWhile is_space s)))"

definition is_digit :: "char \<Rightarrow> bool" where
  "is_digit c = (let n = of_char c :: nat in 48 \<le> n \<and> n \<le> 57)"

definition is_lower :: "char \<Rightarrow> bool" where
  "is_lower c = (let n = of_char c :: nat in 97 \<le> n \<and> n \<le> 122)"

definition is_upper :: "char \<Rightarrow> bool" where
  "is_upper c = (let n = of_char c :: nat in 65 \<le> n \<and> n \<le> 90)"

definition is_alnum :: "char \<Rightarrow> bool" where
  "is_alnum c = (is_digit c \<or> is_lower c \<or> is_upper c)"

text \<open>\<open>[0-9a-f]\<close>\<close>

definition is_hex :: "char \<Rightarrow> bool" where
  "is_hex c = (let n = of_char c :: nat in 48 \<le> n \<and> n \<le> 57 \<or> 97 \<le> n \<and> n \<le> 102)"

text \<open>\<open>[0-9a-f]{n}\<close> against the whole string: SHA-256 digests (64) and job ids (32).\<close>

definition hex_string :: "nat \<Rightarrow> string \<Rightarrow> bool" where
  "hex_string n s = (length s = n \<and> list_all is_hex s)"

text \<open>\<open>[a-f0-9]{8}(?:-[a-f0-9]{4}){3}-[a-f0-9]{12}\<close>\<close>

definition uuid_string :: "string \<Rightarrow> bool" where
  "uuid_string s = (length s = 36 \<and>
     list_all (\<lambda>(i, c). if i \<in> {8, 13, 18, 23} then c = CHR ''-'' else is_hex c)
       (zip [0..<36] s))"

definition starts_with :: "string \<Rightarrow> string \<Rightarrow> bool" where
  "starts_with s p = (take (length p) s = p)"

definition ends_with :: "string \<Rightarrow> string \<Rightarrow> bool" where
  "ends_with s p = (length p \<le> length s \<and> drop (length s - length p) s = p)"

lemma starts_with_append [simp]: "starts_with (p @ s) p"
  by (simp add: starts_with_def)

lemma starts_with_iff: "starts_with s p \<longleftrightarrow> (\<exists>t. s = p @ t)"
  by (auto simp: starts_with_def) (metis append_take_drop_id)

lemma ends_with_append: "length t \<le> length s \<Longrightarrow> ends_with (x @ s) t = ends_with s t"
  by (simp add: ends_with_def)

lemma ends_with_last: "ends_with s t \<Longrightarrow> t \<noteq> [] \<Longrightarrow> last s = last t"
  by (auto simp: ends_with_def) (metis last_drop length_greater_0_conv diff_less drop_all le_less_linear)

text \<open>\<open>p in s\<close> for strings, and \<open>s.split(c)\<close> for a single character.\<close>

fun contains :: "string \<Rightarrow> string \<Rightarrow> bool" where
  "contains [] p = (p = [])"
| "contains (c # s) p = (starts_with (c # s) p \<or> contains s p)"

fun split_on :: "char \<Rightarrow> string \<Rightarrow> string list" where
  "split_on c [] = [[]]"
| "split_on c (x # s) =
     (if x = c then [] # split_on c s
      else (case split_on c s of [] \<Rightarrow> [[x]] | w # ws \<Rightarrow> (x # w) # ws))"

text \<open>Decimal numbers: the value of a digit string and the digits of a number.\<close>

definition digit_val :: "char \<Rightarrow> int" where
  "digit_val c = int (of_char c) - 48"

definition int_of_digits :: "string \<Rightarrow> int" where
  "int_of_digits s = foldl (\<lambda>n c. 10 * n + digit_val c) 0 s"

definition digits :: "string \<Rightarrow> bool" where
  "digits s = (s \<noteq> [] \<and> list_all is_digit s)"

fun show_nat :: "nat \<Rightarrow> string" where
  "show_nat n = (if n < 10 then [char_of (48 + n)] else show_nat (n div 10) @ [char_of (48 + n mod 10)])"

declare show_nat.simps [simp del]

lemma digit_chars [simp]:
  "char_of (48 :: nat) = CHR ''0''" "char_of (49 :: nat) = CHR ''1''" "char_of (50 :: nat) = CHR ''2''"
  "char_of (51 :: nat) = CHR ''3''" "char_of (52 :: nat) = CHR ''4''" "char_of (53 :: nat) = CHR ''5''"
  "char_of (54 :: nat) = CHR ''6''" "char_of (55 :: nat) = CHR ''7''" "char_of (56 :: nat) = CHR ''8''"
  "char_of (57 :: nat) = CHR ''9''"
  by (simp_all add: char_of_def bit_0)

definition show_int :: "int \<Rightarrow> string" where
  "show_int i = (if i < 0 then CHR ''-'' # show_nat (nat (- i)) else show_nat (nat i))"

lemma digit_char:
  assumes "n < 10"
  shows "is_digit (char_of (48 + n))" and "digit_val (char_of (48 + n)) = int n"
proof -
  have "of_char (char_of (48 + n) :: char) = (48 + n :: nat)"
    using assms by (simp add: of_char_of)
  then show "is_digit (char_of (48 + n))" and "digit_val (char_of (48 + n)) = int n"
    using assms by (simp_all add: is_digit_def digit_val_def)
qed

lemma digits_show_nat: "digits (show_nat n)"
proof (induction n rule: show_nat.induct)
  case (1 n)
  then show ?case
    by (subst show_nat.simps) (auto simp: digits_def digit_char show_nat.simps [of "n div 10"])
qed

lemma int_of_digits_show_nat: "int_of_digits (show_nat n) = int n"
proof (induction n rule: show_nat.induct)
  case (1 n)
  have "10 * int (n div 10) + int (n mod 10) = int n"
    by presburger
  with 1 show ?case
    by (subst show_nat.simps) (auto simp: int_of_digits_def digit_char)
qed

lemma digit_val_bounds: "is_digit c \<Longrightarrow> 0 \<le> digit_val c \<and> digit_val c \<le> 9"
  by (auto simp: is_digit_def digit_val_def Let_def)

lemma int_of_digits_bounds:
  "list_all is_digit s \<Longrightarrow> 0 \<le> int_of_digits s \<and> int_of_digits s < 10 ^ length s"
proof (induction s rule: rev_induct)
  case Nil
  then show ?case by (simp add: int_of_digits_def)
next
  case (snoc c s)
  then have "0 \<le> int_of_digits s" "int_of_digits s < 10 ^ length s" "0 \<le> digit_val c" "digit_val c \<le> 9"
    using digit_val_bounds [of c] by auto
  then show ?case by (simp add: int_of_digits_def)
qed

lemma show_nat_inject: "show_nat m = show_nat n \<Longrightarrow> m = n"
  by (metis int_of_digits_show_nat of_nat_eq_iff)

section \<open>Components run over a sequence of events\<close>

text \<open>
  A component whose state changes by a total step function.  What one step keeps, a run keeps;
  a quantity no step decreases, no run decreases.
\<close>

locale run_invariant =
  fixes step :: "'s \<Rightarrow> 'e \<Rightarrow> 's"
    and inv :: "'s \<Rightarrow> bool"
  assumes step_inv: "inv s \<Longrightarrow> inv (step s e)"
begin

lemma run_inv: "inv s \<Longrightarrow> inv (foldl step s es)"
  by (induction es arbitrary: s) (auto intro: step_inv)

lemma run_inv_prefix: "inv s \<Longrightarrow> prefix ds es \<Longrightarrow> inv (foldl step s ds)"
  by (rule run_inv)

end

locale monotone_run = run_invariant step inv
  for step :: "'s \<Rightarrow> 'e \<Rightarrow> 's" and inv +
  fixes quantity :: "'s \<Rightarrow> 'm::preorder"
  assumes step_mono: "inv s \<Longrightarrow> quantity s \<le> quantity (step s e)"
begin

lemma run_mono: "inv s \<Longrightarrow> quantity s \<le> quantity (foldl step s es)"
proof (induction es arbitrary: s)
  case Nil
  then show ?case by simp
next
  case (Cons e es)
  have "quantity s \<le> quantity (step s e)"
    using Cons.prems by (rule step_mono)
  also have "\<dots> \<le> quantity (foldl step (step s e) es)"
    using Cons.prems by (intro Cons.IH step_inv)
  finally show ?case by simp
qed

end

end
