(* ===== verification/Py_Float.thy ===== *)
theory Py_Float
  imports Py_Prelude "HOL-Library.Log_Nat"
begin

text \<open>
  Python's \<open>float\<close> is IEEE 754 binary64 with round-half-to-even.  \<open>rnd\<close> rounds a
  rational to 53 significant bits (and never below the unit \<open>2 powi -1074\<close> of the subnormal
  numbers); \<open>to_float\<close> adds the overflow to infinity.  The locale \<open>rounding\<close> states
  what the components rely on when they add or multiply floats, and is interpreted on
  \<open>rnd\<close>.  The operations at the end are Python's arithmetic and comparisons over ints and
  floats: int with int is exact, anything with a float rounds, comparison is exact.
\<close>

section \<open>Rounding to binary64\<close>

definition ilog2 :: "rat \<Rightarrow> int" where
  "ilog2 q = (if 1 \<le> q then int (floorlog 2 (nat \<lfloor>q\<rfloor>)) - 1
              else - int (floorlog 2 (nat (\<lceil>1 / q\<rceil> - 1))))"

definition ulp_exp :: "rat \<Rightarrow> int" where
  "ulp_exp q = max (ilog2 q - 52) (- 1074)"

definition round_half_even :: "rat \<Rightarrow> int" where
  "round_half_even x =
     (let f = \<lfloor>x\<rfloor>; r = x - of_int f
      in if r < 1 / 2 then f else if 1 / 2 < r then f + 1 else if even f then f else f + 1)"

definition rnd_pos :: "rat \<Rightarrow> rat" where
  "rnd_pos q = of_int (round_half_even (q / 2 powi (ulp_exp q))) * 2 powi (ulp_exp q)"

definition rnd :: "rat \<Rightarrow> rat" where
  "rnd q = (if q = 0 then 0 else if 0 < q then rnd_pos q else - rnd_pos (- q))"

definition to_float :: "rat \<Rightarrow> flt" where
  "to_float q = (let r = rnd q in if \<bar>r\<bar> < 2 ^ 1024 then Fin r else Inf (r < 0))"

subsection \<open>The rounding function\<close>

lemma nat_less_power_rat: "n < 2 ^ k \<Longrightarrow> of_nat n + 1 \<le> (2::rat) ^ k"
proof -
  assume "n < 2 ^ k"
  then have "(of_nat (Suc n) :: rat) \<le> of_nat (2 ^ k)"
    by (simp only: of_nat_le_iff Suc_le_eq)
  then show ?thesis by simp
qed

lemma nat_ceiling_pred:
  assumes "(1::rat) < x"
  shows "0 < nat (\<lceil>x\<rceil> - 1)" and "of_nat (nat (\<lceil>x\<rceil> - 1)) = of_int \<lceil>x\<rceil> - (1::rat)"
proof -
  have c: "1 < \<lceil>x\<rceil>" using assms by (simp add: less_ceiling_iff)
  then show "0 < nat (\<lceil>x\<rceil> - 1)" by linarith
  have "int (nat (\<lceil>x\<rceil> - 1)) = \<lceil>x\<rceil> - 1" using c by (intro nat_0_le) linarith
  then show "of_nat (nat (\<lceil>x\<rceil> - 1)) = of_int \<lceil>x\<rceil> - (1::rat)"
    by (metis of_int_1 of_int_diff of_int_of_nat_eq)
qed

lemma ilog2_lower:
  assumes "0 < q" shows "2 powi (ilog2 q) \<le> q"
proof (cases "1 \<le> q")
  case True
  define n where "n = nat \<lfloor>q\<rfloor>"
  have n: "0 < n" "of_nat n \<le> q" using True by (auto simp: n_def le_floor_iff)
  have "floorlog 2 n > 0" using n by (simp add: floorlog_def)
  then have "(2::rat) powi (int (floorlog 2 n) - 1) = 2 ^ (floorlog 2 n - 1)"
    by (metis One_nat_def Suc_leI int_ops(2) of_nat_diff power_int_of_nat)
  also have "\<dots> = of_nat (2 ^ (floorlog 2 n - 1))" by simp
  also have "\<dots> \<le> of_nat n" using floorlog_bounds [of n 2] n by (simp only: of_nat_le_iff)
  also note n(2)
  finally show ?thesis using True by (simp add: ilog2_def n_def)
next
  case False
  define n where "n = nat (\<lceil>1 / q\<rceil> - 1)"
  have "1 < 1 / q" using False assms by simp
  then have n: "0 < n" "of_nat n = of_int \<lceil>1 / q\<rceil> - (1::rat)"
    using nat_ceiling_pred [of "1 / q"] by (simp_all add: n_def)
  have "n < 2 ^ floorlog 2 n" using floorlog_bounds [of n 2] n by simp
  then have "of_nat n + 1 \<le> (2::rat) ^ floorlog 2 n"
    by (rule nat_less_power_rat)
  then have "1 / q \<le> 2 ^ floorlog 2 n" using n by linarith
  then have "1 / 2 ^ floorlog 2 n \<le> q" using assms by (simp add: field_simps)
  then show ?thesis using False by (simp add: ilog2_def n_def power_int_minus field_simps)
qed

lemma ilog2_upper:
  assumes "0 < q" shows "q < 2 powi (ilog2 q + 1)"
proof (cases "1 \<le> q")
  case True
  define n where "n = nat \<lfloor>q\<rfloor>"
  have n: "0 < n" "q < of_nat n + 1" using True by (auto simp: n_def le_floor_iff) linarith+
  have "n < 2 ^ floorlog 2 n" using floorlog_bounds [of n 2] n by simp
  then have "of_nat n + 1 \<le> (2::rat) ^ floorlog 2 n"
    by (rule nat_less_power_rat)
  then show ?thesis using True n by (simp add: ilog2_def n_def)
next
  case False
  define n where "n = nat (\<lceil>1 / q\<rceil> - 1)"
  have "1 < 1 / q" using False assms by simp
  then have n: "0 < n" "of_nat n = of_int \<lceil>1 / q\<rceil> - (1::rat)"
    using nat_ceiling_pred [of "1 / q"] by (simp_all add: n_def)
  have fl: "0 < floorlog 2 n" using n by (simp add: floorlog_def)
  have "2 ^ (floorlog 2 n - 1) \<le> n" using floorlog_bounds [of n 2] n by simp
  then have "of_nat (2 ^ (floorlog 2 n - 1)) \<le> (of_nat n :: rat)"
    by (simp only: of_nat_le_iff)
  then have "(2::rat) ^ (floorlog 2 n - 1) \<le> of_nat n" by simp
  also have "\<dots> < 1 / q" using n by linarith
  finally have "q < 1 / 2 ^ (floorlog 2 n - 1)" using assms by (simp add: field_simps)
  moreover have "- int (floorlog 2 n) + 1 = - int (floorlog 2 n - 1)" using fl by simp
  then have "(2::rat) powi (- int (floorlog 2 n) + 1) = 1 / 2 ^ (floorlog 2 n - 1)"
    by (simp only: power_int_minus power_int_of_nat inverse_eq_divide)
  moreover have "ilog2 q = - int (floorlog 2 n)" using False by (simp add: ilog2_def n_def)
  ultimately show ?thesis by (simp only:)
qed

lemma powi_mono: "i \<le> j \<Longrightarrow> (2::rat) powi i \<le> 2 powi j"
  by (rule power_int_increasing) auto

lemma powi_less_cancel: "(2::rat) powi i < 2 powi j \<Longrightarrow> i < j"
  using powi_mono [of j i] by linarith

lemma powi_split: "(2::rat) powi i = 2 powi j * 2 powi (i - j)"
  by (simp add: power_int_add [symmetric])

lemma ilog2_less: "0 < q \<Longrightarrow> q < 2 powi k \<Longrightarrow> ilog2 q < k"
  using ilog2_lower [of q] powi_less_cancel [of "ilog2 q" k] by linarith

lemma ilog2_mono: assumes "0 < p" "p \<le> q" shows "ilog2 p \<le> ilog2 q"
  using ilog2_less [of p "ilog2 q + 1"] ilog2_upper [of q] assms by simp

lemma ulp_exp_mono: "0 < p \<Longrightarrow> p \<le> q \<Longrightarrow> ulp_exp p \<le> ulp_exp q"
  using ilog2_mono [of p q] by (simp add: ulp_exp_def max_def)

lemma round_half_even_int [simp]: "round_half_even (of_int m) = m"
  by (simp add: round_half_even_def)

lemma round_half_even_mono: "x \<le> y \<Longrightarrow> round_half_even x \<le> round_half_even y"
proof -
  assume le: "x \<le> y"
  then have fl: "\<lfloor>x\<rfloor> \<le> \<lfloor>y\<rfloor>" by (rule floor_mono)
  show ?thesis
  proof (cases "\<lfloor>x\<rfloor> = \<lfloor>y\<rfloor>")
    case True
    with le show ?thesis by (simp add: round_half_even_def Let_def)
  next
    case False
    with fl have "\<lfloor>x\<rfloor> + 1 \<le> \<lfloor>y\<rfloor>" by simp
    then show ?thesis by (simp add: round_half_even_def Let_def)
  qed
qed

lemma round_half_even_nonneg: "0 \<le> x \<Longrightarrow> 0 \<le> round_half_even x"
  using round_half_even_mono [of 0 x] round_half_even_int [of 0] by simp

lemma scaled_bound:
  assumes "0 < q" shows "q / 2 powi (ulp_exp q) < 2 ^ 53"
proof -
  have "q < 2 powi (ilog2 q + 1)" using assms by (rule ilog2_upper)
  also have "\<dots> \<le> 2 powi (ulp_exp q + 53)" by (rule powi_mono) (simp add: ulp_exp_def)
  also have "\<dots> = 2 powi (ulp_exp q) * 2 ^ 53"
    by (subst powi_split [of _ "ulp_exp q"]) (simp add: power_int_def)
  finally show ?thesis by (simp add: divide_simps mult.commute)
qed

lemma round_mantissa:
  assumes "0 < q"
  shows "0 \<le> round_half_even (q / 2 powi (ulp_exp q))"
    and "round_half_even (q / 2 powi (ulp_exp q)) \<le> 2 ^ 53"
proof -
  show "0 \<le> round_half_even (q / 2 powi (ulp_exp q))"
    using assms by (intro round_half_even_nonneg) simp
  have "q / 2 powi (ulp_exp q) \<le> of_int (2 ^ 53)" using scaled_bound [OF assms] by simp
  then show "round_half_even (q / 2 powi (ulp_exp q)) \<le> 2 ^ 53"
    using round_half_even_mono [of "q / 2 powi (ulp_exp q)" "of_int (2 ^ 53)"]
    by (simp only: round_half_even_int)
qed

lemma rnd_pos_nonneg: "0 < q \<Longrightarrow> 0 \<le> rnd_pos q"
  using round_mantissa(1) [of q] by (simp add: rnd_pos_def)

text \<open>A number with at most 53 significant bits and a large enough unit is its own rounding.\<close>

lemma rnd_pos_exact_small:
  assumes m: "0 < m" "m < 2 ^ 53" and k: "- 1074 \<le> k"
  shows "rnd_pos (of_int m * 2 powi k) = of_int m * 2 powi k"
proof -
  let ?x = "of_int m * 2 powi k :: rat"
  have pos: "0 < ?x" using m by simp
  have "(of_int m :: rat) < of_int (2 ^ 53)" using m by (simp only: of_int_less_iff)
  then have "?x < 2 ^ 53 * 2 powi k" by simp
  also have "\<dots> = 2 powi (53 + k)" by (simp add: power_int_add)
  finally have "ilog2 ?x < 53 + k" using pos ilog2_less by blast
  then have u: "ulp_exp ?x \<le> k" using k by (simp add: ulp_exp_def)
  define n where "n = m * 2 ^ nat (k - ulp_exp ?x)"
  have "2 powi k = (2::rat) powi (ulp_exp ?x) * 2 powi (k - ulp_exp ?x)" by (rule powi_split)
  also have "(2::rat) powi (k - ulp_exp ?x) = 2 ^ nat (k - ulp_exp ?x)"
    using u by (simp add: power_int_def)
  finally have "?x = of_int n * 2 powi (ulp_exp ?x)" by (simp add: n_def mult.commute)
  then have "?x / 2 powi (ulp_exp ?x) = of_int n" by (metis nonzero_mult_div_cancel_right power_int_not_zero zero_neq_numeral)
  then show ?thesis using \<open>?x = of_int n * 2 powi (ulp_exp ?x)\<close>
    by (metis rnd_pos_def round_half_even_int)
qed

lemma rnd_pos_exact:
  assumes m: "0 < m" "m \<le> 2 ^ 53" and k: "- 1074 \<le> k"
  shows "rnd_pos (of_int m * 2 powi k) = of_int m * 2 powi k"
proof (cases "m = 2 ^ 53")
  case True
  have "(of_int m * 2 powi k :: rat) = of_int (2 ^ 52) * 2 powi (k + 1)"
    by (simp add: True power_int_add)
  then show ?thesis using rnd_pos_exact_small [of "2 ^ 52" "k + 1"] k by simp
next
  case False
  then show ?thesis using rnd_pos_exact_small m k by simp
qed

lemma rnd_pos_representable:
  assumes "0 < q"
  shows "\<exists>m k. rnd_pos q = of_int m * 2 powi k \<and> 0 \<le> m \<and> m \<le> 2 ^ 53 \<and> - 1074 \<le> k"
  using round_mantissa [OF assms]
  by (intro exI [of _ "round_half_even (q / 2 powi (ulp_exp q))"] exI [of _ "ulp_exp q"])
     (simp add: rnd_pos_def ulp_exp_def)

lemma rnd_pos_le_power:
  assumes "0 < p" "p \<le> 2 powi e" "ulp_exp p \<le> e"
  shows "rnd_pos p \<le> 2 powi e"
proof -
  let ?u = "2 powi (ulp_exp p) :: rat"
  have e: "2 powi e = of_int (2 ^ nat (e - ulp_exp p)) * ?u"
    using assms(3) powi_split [of e "ulp_exp p"] by (simp add: power_int_def)
  then have "p / ?u \<le> of_int (2 ^ nat (e - ulp_exp p))"
    using assms(2) by (simp add: divide_simps)
  from round_half_even_mono [OF this]
  have "round_half_even (p / ?u) \<le> 2 ^ nat (e - ulp_exp p)" by (simp only: round_half_even_int)
  then have "(of_int (round_half_even (p / ?u)) :: rat) \<le> of_int (2 ^ nat (e - ulp_exp p))"
    by (simp only: of_int_le_iff)
  then show ?thesis unfolding e rnd_pos_def by (rule mult_right_mono) simp
qed

lemma rnd_pos_ge_power:
  assumes "2 powi e \<le> q" "ulp_exp q \<le> e"
  shows "2 powi e \<le> rnd_pos q"
proof -
  let ?u = "2 powi (ulp_exp q) :: rat"
  have e: "2 powi e = of_int (2 ^ nat (e - ulp_exp q)) * ?u"
    using assms(2) powi_split [of e "ulp_exp q"] by (simp add: power_int_def)
  then have "of_int (2 ^ nat (e - ulp_exp q)) \<le> q / ?u"
    using assms(1) by (simp add: divide_simps)
  from round_half_even_mono [OF this]
  have "2 ^ nat (e - ulp_exp q) \<le> round_half_even (q / ?u)" by (simp only: round_half_even_int)
  then have "(of_int (2 ^ nat (e - ulp_exp q)) :: rat) \<le> of_int (round_half_even (q / ?u))"
    by (simp only: of_int_le_iff)
  then show ?thesis unfolding e rnd_pos_def by (rule mult_right_mono) simp
qed

lemma rnd_pos_mono:
  assumes "0 < p" "p \<le> q" shows "rnd_pos p \<le> rnd_pos q"
proof (cases "ulp_exp p = ulp_exp q")
  case True
  have "p / 2 powi (ulp_exp q) \<le> q / 2 powi (ulp_exp q)"
    using assms(2) by (intro divide_right_mono) simp_all
  from round_half_even_mono [OF this] show ?thesis
    unfolding rnd_pos_def True by (intro mult_right_mono) simp_all
next
  case False
  let ?e = "ilog2 q"
  have q: "0 < q" using assms by linarith
  have "ulp_exp p < ulp_exp q" using ulp_exp_mono [OF assms] False by simp
  then have u: "ulp_exp q = ?e - 52" "ilog2 p < ?e" "ulp_exp p < ?e - 52"
    by (auto simp: ulp_exp_def max_def split: if_splits)
  have "p < 2 powi (ilog2 p + 1)" using assms(1) by (rule ilog2_upper)
  also have "\<dots> \<le> 2 powi ?e" using u by (intro powi_mono) simp
  finally have "rnd_pos p \<le> 2 powi ?e" using assms(1) u by (intro rnd_pos_le_power) simp_all
  also have "\<dots> \<le> rnd_pos q" using u ilog2_lower [OF q] by (intro rnd_pos_ge_power) simp_all
  finally show ?thesis .
qed

lemma rnd_pos_idem: assumes "0 < q" shows "rnd_pos q = 0 \<or> rnd_pos (rnd_pos q) = rnd_pos q"
proof -
  obtain m k where mk: "rnd_pos q = of_int m * 2 powi k" "0 \<le> m" "m \<le> 2 ^ 53" "- 1074 \<le> k"
    using rnd_pos_representable [OF assms] by blast
  then show ?thesis using rnd_pos_exact [of m k] by (cases "m = 0") simp_all
qed

subsection \<open>What the components rely on\<close>

text \<open>The laws of rounding the components use: it is monotone, fixes what is already rounded,
  and is symmetric about zero.\<close>

locale rounding =
  fixes fl :: "rat \<Rightarrow> rat"
  assumes fl_mono: "a \<le> b \<Longrightarrow> fl a \<le> fl b"
    and fl_idem: "fl (fl a) = fl a"
    and fl_neg: "fl (- a) = - fl a"
begin

lemma fl_zero: "fl 0 = 0"
  using fl_neg [of 0] by simp

lemma fl_nonneg: "0 \<le> a \<Longrightarrow> 0 \<le> fl a"
  using fl_mono [of 0 a] fl_zero by simp

lemma fl_add_ge: "fl a = a \<Longrightarrow> 0 \<le> b \<Longrightarrow> a \<le> fl (a + b)"
  using fl_mono [of a "a + b"] by simp

lemma fl_le: "a \<le> b \<Longrightarrow> fl b = b \<Longrightarrow> fl a \<le> b"
  using fl_mono [of a b] by simp

lemma fl_abs: "\<bar>fl a\<bar> = fl \<bar>a\<bar>"
  using fl_neg [of a] fl_nonneg [of a] fl_nonneg [of "- a"] by (auto simp: abs_if)

end

lemma rnd_mono: assumes "a \<le> b" shows "rnd a \<le> rnd b"
proof -
  consider "0 < a" | "a \<le> 0" "0 \<le> b" | "b < 0" by linarith
  then show ?thesis
  proof cases
    case 1
    then show ?thesis using assms rnd_pos_mono by (simp add: rnd_def)
  next
    case 2
    then show ?thesis
      using rnd_pos_nonneg [of b] rnd_pos_nonneg [of "- a"] by (auto simp: rnd_def)
  next
    case 3
    then show ?thesis using assms rnd_pos_mono [of "- b" "- a"] by (simp add: rnd_def)
  qed
qed

lemma rnd_neg: "rnd (- a) = - rnd a"
  by (simp add: rnd_def)

lemma rnd_idem: "rnd (rnd a) = rnd a"
proof -
  consider "a = 0" | "0 < a" | "0 < - a" by linarith
  then show ?thesis
  proof cases
    case 1
    then show ?thesis by (simp add: rnd_def)
  next
    case 2
    then show ?thesis using rnd_pos_idem [of a] rnd_pos_nonneg [of a] by (auto simp: rnd_def)
  next
    case 3
    then show ?thesis using rnd_pos_idem [of "- a"] rnd_pos_nonneg [of "- a"] by (auto simp: rnd_def)
  qed
qed

interpretation binary64: rounding rnd
  by unfold_locales (simp_all add: rnd_mono rnd_idem rnd_neg)

lemma rnd_dyadic:
  assumes "\<bar>m\<bar> \<le> 2 ^ 53" "- 1074 \<le> k"
  shows "rnd (of_int m * 2 powi k) = of_int m * 2 powi k"
proof -
  consider "m = 0" | "0 < m" | "0 < - m" by linarith
  then show ?thesis
  proof cases
    case 1
    then show ?thesis by (simp add: rnd_def)
  next
    case 2
    then show ?thesis using rnd_pos_exact [of m k] assms by (simp add: rnd_def)
  next
    case 3
    then have "rnd (of_int (- m) * 2 powi k) = of_int (- m) * 2 powi k"
      using rnd_pos_exact [of "- m" k] assms by (simp add: rnd_def mult_less_0_iff)
    then show ?thesis using rnd_neg [of "of_int m * 2 powi k"] by simp
  qed
qed

lemma rnd_of_int: "\<bar>m\<bar> \<le> 2 ^ 53 \<Longrightarrow> rnd (of_int m) = of_int m"
  using rnd_dyadic [of m 0] by simp

lemma to_float_small:
  assumes "\<bar>q\<bar> \<le> 2 ^ 1023" shows "to_float q = Fin (rnd q)"
proof -
  have "rnd (of_int 1 * 2 powi 1023) = (of_int 1 * 2 powi 1023 :: rat)"
    by (rule rnd_dyadic) simp_all
  then have top: "rnd (2 ^ 1023) = 2 ^ 1023" by simp
  have "\<bar>rnd q\<bar> = rnd \<bar>q\<bar>" by (rule binary64.fl_abs)
  also have "\<dots> \<le> 2 ^ 1023" using assms top by (rule binary64.fl_le)
  also have "\<dots> < 2 ^ 1024" by simp
  finally show ?thesis by (simp add: to_float_def)
qed

section \<open>Arithmetic and comparison\<close>

fun flt_add :: "flt \<Rightarrow> flt \<Rightarrow> flt" where
  "flt_add (Fin a) (Fin b) = to_float (a + b)"
| "flt_add (Inf s) (Inf t) = (if s = t then Inf s else NaN)"
| "flt_add (Inf s) (Fin _) = Inf s"
| "flt_add (Fin _) (Inf t) = Inf t"
| "flt_add _ _ = NaN"

fun flt_neg :: "flt \<Rightarrow> flt" where
  "flt_neg (Fin a) = Fin (- a)"
| "flt_neg (Inf s) = Inf (\<not> s)"
| "flt_neg NaN = NaN"

definition flt_sub :: "flt \<Rightarrow> flt \<Rightarrow> flt" where
  "flt_sub a b = flt_add a (flt_neg b)"

fun flt_mul :: "flt \<Rightarrow> flt \<Rightarrow> flt" where
  "flt_mul (Fin a) (Fin b) = to_float (a * b)"
| "flt_mul (Inf s) (Inf t) = Inf (s \<noteq> t)"
| "flt_mul (Inf s) (Fin b) = (if b = 0 then NaN else Inf (s \<noteq> (b < 0)))"
| "flt_mul (Fin a) (Inf t) = (if a = 0 then NaN else Inf (t \<noteq> (a < 0)))"
| "flt_mul _ _ = NaN"

fun flt_div :: "flt \<Rightarrow> flt \<Rightarrow> flt res" where
  "flt_div (Fin a) (Fin b) = (if b = 0 then Inl ZeroDivisionError else Inr (to_float (a / b)))"
| "flt_div (Inf s) (Fin b) = (if b = 0 then Inl ZeroDivisionError else Inr (Inf (s \<noteq> (b < 0))))"
| "flt_div NaN (Fin b) = (if b = 0 then Inl ZeroDivisionError else Inr NaN)"
| "flt_div (Fin _) (Inf _) = Inr (Fin 0)"
| "flt_div _ _ = Inr NaN"

fun flt_lt :: "flt \<Rightarrow> flt \<Rightarrow> bool" where
  "flt_lt (Fin a) (Fin b) = (a < b)"
| "flt_lt (Inf s) (Inf t) = (s \<and> \<not> t)"
| "flt_lt (Inf s) (Fin _) = s"
| "flt_lt (Fin _) (Inf t) = (\<not> t)"
| "flt_lt _ _ = False"

definition flt_le :: "flt \<Rightarrow> flt \<Rightarrow> bool" where
  "flt_le a b = (flt_lt a b \<or> flt_eq a b)"

definition flt_finite :: "flt \<Rightarrow> bool" where
  "flt_finite a = (case a of Fin _ \<Rightarrow> True | _ \<Rightarrow> False)"

lemma flt_le_Fin [simp]: "flt_le (Fin a) (Fin b) = (a \<le> b)"
  by (auto simp: flt_le_def)

lemma flt_sub_Fin: "flt_sub (Fin a) (Fin b) = to_float (a - b)"
  by (simp add: flt_sub_def)

text \<open>The integer a value is, if it is one for arithmetic; the float it converts to.\<close>

fun int_val :: "pyv \<Rightarrow> int option" where
  "int_val (PBool b) = Some (if b then 1 else 0)"
| "int_val (PInt i) = Some i"
| "int_val _ = None"

definition float_of_int :: "int \<Rightarrow> flt res" where
  "float_of_int i = (case to_float (of_int i) of Fin q \<Rightarrow> Inr (Fin q) | _ \<Rightarrow> Inl OverflowError)"

definition float_val :: "pyv \<Rightarrow> flt res" where
  "float_val v = (case v of PFloat f \<Rightarrow> Inr f
     | _ \<Rightarrow> (case int_val v of Some i \<Rightarrow> float_of_int i | None \<Rightarrow> Inl TypeError))"

definition py_arith :: "(int \<Rightarrow> int \<Rightarrow> int) \<Rightarrow> (flt \<Rightarrow> flt \<Rightarrow> flt) \<Rightarrow> pyv \<Rightarrow> pyv \<Rightarrow> pyv res" where
  "py_arith f g v w =
     (case (int_val v, int_val w) of
        (Some i, Some j) \<Rightarrow> Inr (PInt (f i j))
      | _ \<Rightarrow> (case float_val v of Inl e \<Rightarrow> Inl e | Inr a \<Rightarrow>
               (case float_val w of Inl e \<Rightarrow> Inl e | Inr b \<Rightarrow> Inr (PFloat (g a b)))))"

definition py_add :: "pyv \<Rightarrow> pyv \<Rightarrow> pyv res" where
  "py_add = py_arith (+) flt_add"

definition py_sub :: "pyv \<Rightarrow> pyv \<Rightarrow> pyv res" where
  "py_sub = py_arith (-) flt_sub"

definition py_mul :: "pyv \<Rightarrow> pyv \<Rightarrow> pyv res" where
  "py_mul = py_arith (*) flt_mul"

text \<open>\<open>i / j\<close> on ints is the correctly rounded quotient; a result beyond the floats is an
  \<open>OverflowError\<close>.\<close>

definition int_truediv :: "int \<Rightarrow> int \<Rightarrow> flt res" where
  "int_truediv i j =
     (if j = 0 then Inl ZeroDivisionError
      else (case to_float (of_int i / of_int j) of Fin q \<Rightarrow> Inr (Fin q) | _ \<Rightarrow> Inl OverflowError))"

definition py_truediv :: "pyv \<Rightarrow> pyv \<Rightarrow> flt res" where
  "py_truediv v w =
     (case (int_val v, int_val w) of
        (Some i, Some j) \<Rightarrow> int_truediv i j
      | _ \<Rightarrow> (case float_val v of Inl e \<Rightarrow> Inl e | Inr a \<Rightarrow>
               (case float_val w of Inl e \<Rightarrow> Inl e | Inr b \<Rightarrow> flt_div a b)))"

text \<open>Numeric \<open><\<close> and \<open><=\<close>: exact, a \<open>TypeError\<close> on anything that is not a number.\<close>

definition py_lt :: "pyv \<Rightarrow> pyv \<Rightarrow> bool res" where
  "py_lt v w = (case num_of v of None \<Rightarrow> Inl TypeError | Some a \<Rightarrow>
     (case num_of w of None \<Rightarrow> Inl TypeError | Some b \<Rightarrow> Inr (flt_lt a b)))"

definition py_le :: "pyv \<Rightarrow> pyv \<Rightarrow> bool res" where
  "py_le v w = (case num_of v of None \<Rightarrow> Inl TypeError | Some a \<Rightarrow>
     (case num_of w of None \<Rightarrow> Inl TypeError | Some b \<Rightarrow> Inr (flt_le a b)))"

lemma float_of_int_small: "\<bar>i\<bar> \<le> 2 ^ 53 \<Longrightarrow> float_of_int i = Inr (Fin (of_int i))"
proof -
  assume i: "\<bar>i\<bar> \<le> 2 ^ 53"
  have "\<bar>of_int i :: rat\<bar> = of_int \<bar>i\<bar>" by simp
  also have "\<dots> \<le> of_int (2 ^ 53)" using i by (simp only: of_int_le_iff)
  also have "\<dots> \<le> 2 ^ 1023" by simp
  finally show ?thesis using i by (simp add: float_of_int_def to_float_small rnd_of_int)
qed

lemma to_float_exact: "\<bar>m\<bar> \<le> 2 ^ 53 \<Longrightarrow> of_int m = q \<Longrightarrow> to_float q = Fin q"
  using float_of_int_small [of m] by (auto simp: float_of_int_def split: flt.splits)

lemma to_float_numeral [simp]:
  "to_float 0 = Fin 0" "to_float 1 = Fin 1"
  "(numeral n :: int) \<le> 9007199254740992 \<Longrightarrow> to_float (numeral n) = Fin (numeral n)"
  using to_float_exact [of 0 0] to_float_exact [of 1 1] to_float_exact [of "numeral n" "numeral n"] by simp_all

lemma float_val_PInt [simp]: "\<bar>i\<bar> \<le> 2 ^ 53 \<Longrightarrow> float_val (PInt i) = Inr (Fin (of_int i))"
  using float_of_int_small by (simp add: float_val_def)

lemma float_val_PFloat [simp]: "float_val (PFloat f) = Inr f"
  by (simp add: float_val_def)

text \<open>An equation for evaluation: a small integer needs no rounding.\<close>

lemma to_float_code [code]:
  "to_float q =
     (let (n, d) = quotient_of q in
      if d = 1 \<and> \<bar>n\<bar> \<le> 9007199254740992 then Fin q
      else (let r = rnd q in if \<bar>r\<bar> < 2 ^ 1024 then Fin r else Inf (r < 0)))"
proof (cases "quotient_of q")
  case (Pair n d)
  then show ?thesis
    using quotient_of_div [OF Pair] to_float_exact [of n q] by (auto simp: to_float_def Let_def)
qed

lemma float_of_int_bounded:
  "\<bar>i\<bar> \<le> 2 ^ 1023 \<Longrightarrow> float_of_int i = Inr (Fin (rnd (of_int i)))"
proof -
  assume i: "\<bar>i\<bar> \<le> 2 ^ 1023"
  have "\<bar>of_int i :: rat\<bar> = of_int \<bar>i\<bar>" by simp
  also have "\<dots> \<le> of_int (2 ^ 1023)" using i by (simp only: of_int_le_iff)
  also have "\<dots> = 2 ^ 1023" by (simp only: of_int_power of_int_numeral)
  finally show ?thesis by (simp add: float_of_int_def to_float_small)
qed

end
