(* ===== verification/Py_Json.thy ===== *)
theory Py_Json
  imports Py_Float
begin

text \<open>
  What the sources use of \<open>json.loads\<close>.  The parser itself is not modelled: a component
  takes the tree the text denotes, or that there is none.  What the sources add to the parser
  is: the \<open>object_pairs_hook\<close> functions that refuse a repeated key, and the
  \<open>parse_constant\<close> functions that refuse \<open>NaN\<close> and \<open>Infinity\<close>.
\<close>

datatype jtree =
    JNull
  | JBool bool
  | JInt int
  | JReal rat
  | JConst flt
  | JStr string
  | JArr "jtree list"
  | JObj "(string \<times> jtree) list"

text \<open>A plain \<open>json.loads\<close>: the last of several equal keys wins; a decimal literal is
  rounded to a float (and may overflow to infinity).\<close>

fun loads :: "jtree \<Rightarrow> pyv" where
  "loads JNull = PNone"
| "loads (JBool b) = PBool b"
| "loads (JInt i) = PInt i"
| "loads (JReal q) = PFloat (to_float q)"
| "loads (JConst f) = PFloat f"
| "loads (JStr s) = PStr s"
| "loads (JArr ts) = PList (map loads ts)"
| "loads (JObj kvs) =
     PDict (foldl (\<lambda>d kv. dset d (fst kv) (snd kv)) [] (map (\<lambda>kt. (fst kt, loads (snd kt))) kvs))"

text \<open>The hook \<open>unique\<close>/\<open>_pairs\<close>/\<open>pairs\<close>: build the dictionary, refuse a repeated
  key.\<close>

definition pairs_step :: "string \<Rightarrow> pydict \<Rightarrow> string \<times> pyv \<Rightarrow> pydict res" where
  "pairs_step msg result kv =
     (if map_of result (fst kv) \<noteq> None then Inl (ValueError msg)
      else Inr (dset result (fst kv) (snd kv)))"

definition pairs :: "string \<Rightarrow> (string \<times> pyv) list \<Rightarrow> pydict res" where
  "pairs msg kvs = foldM_res (pairs_step msg) [] kvs"

text \<open>\<open>json.loads\<close> with the hook; \<open>strict\<close> says whether constants are refused too.\<close>

fun loads_unique :: "bool \<Rightarrow> string \<Rightarrow> jtree \<Rightarrow> pyv res" where
  "loads_unique strict msg (JConst f) =
     (if strict then Inl (ValueError ''non-finite JSON constant'') else Inr (PFloat f))"
| "loads_unique strict msg (JArr ts) =
     (case mapM_res (loads_unique strict msg) ts of Inl e \<Rightarrow> Inl e | Inr vs \<Rightarrow> Inr (PList vs))"
| "loads_unique strict msg (JObj kvs) =
     (case mapM_res (\<lambda>kt. case loads_unique strict msg (snd kt) of
          Inl e \<Rightarrow> Inl e | Inr v \<Rightarrow> Inr (fst kt, v)) kvs of
        Inl e \<Rightarrow> Inl e
      | Inr kvs' \<Rightarrow> (case pairs msg kvs' of Inl e \<Rightarrow> Inl e | Inr d \<Rightarrow> Inr (PDict d)))"
| "loads_unique strict msg t = Inr (loads t)"

lemma pairs_append:
  assumes "distinct (map fst r)" and "foldM_res (pairs_step msg) r kvs = Inr d"
  shows "d = r @ kvs \<and> distinct (map fst (r @ kvs))"
  using assms
proof (induction kvs arbitrary: r)
  case Nil
  then show ?case by simp
next
  case (Cons kv kvs)
  from Cons.prems(2) have new: "map_of r (fst kv) = None"
    and rest: "foldM_res (pairs_step msg) (dset r (fst kv) (snd kv)) kvs = Inr d"
    by (auto simp: pairs_step_def [of msg r kv] split: if_splits)
  have "dset r (fst kv) (snd kv) = r @ [kv]"
    using new by (induction r) (auto split: if_splits)
  moreover have "distinct (map fst (r @ [kv]))"
    using Cons.prems(1) new by (auto simp: map_of_eq_None_iff)
  ultimately show ?case using Cons.IH [of "r @ [kv]"] rest by simp
qed

lemma pairs_Inr: "pairs msg kvs = Inr d \<Longrightarrow> d = kvs \<and> distinct (map fst kvs)"
  using pairs_append [of "[]" msg kvs d] by (simp add: pairs_def)

lemma pairs_Inl: "pairs msg kvs = Inl e \<Longrightarrow> e = ValueError msg"
proof -
  have "foldM_res (pairs_step msg) r kvs = Inl e \<Longrightarrow> e = ValueError msg" for r
    by (induction kvs arbitrary: r) (auto simp: pairs_step_def split: if_splits sum.splits)
  then show "pairs msg kvs = Inl e \<Longrightarrow> e = ValueError msg" by (simp add: pairs_def)
qed

end
