(* ===== verification/Psu_Energy.thy ===== *)
theory Psu_Energy
  imports Py_Json
begin

text \<open>
  \<open>lib/workstation/telemetry_power.py\<close>: discovery of the power supply's sensor, the
  gap-aware energy counter \<open>advance\<close>, its state file and the metrics text.  A directory of
  sysfs attributes is a function from names to what opening and reading the attribute finds; the
  sensor's file names, the clock and SHA-256 are parameters.  States and samples are Python
  dictionaries, as in the code, because the state comes from a JSON file.
\<close>

section \<open>Sensor attributes\<close>

datatype attr = Absent | Unreadable | NotRegular | Contents string

type_synonym attr_dir = "string \<Rightarrow> attr"

definition is_ascii :: "char \<Rightarrow> bool" where
  "is_ascii c = ((of_char c :: nat) < 128)"

definition read_at :: "attr_dir \<Rightarrow> string \<Rightarrow> nat \<Rightarrow> string res" where
  "read_at directory name limit =
     (case directory name of
        Absent \<Rightarrow> Inl FileNotFoundError
      | Unreadable \<Rightarrow> Inl OSError
      | NotRegular \<Rightarrow> Inl (ValueError ''non-regular sensor attribute'')
      | Contents value \<Rightarrow>
          if limit < length value then Inl (ValueError ''oversized sensor attribute'')
          else if \<not> list_all is_ascii value then Inl UnicodeError
          else Inr (strip value))"

definition MAX_POWER_WATTS :: rat where
  "MAX_POWER_WATTS = 100000"

definition psu_watts :: "string \<Rightarrow> flt res" where
  "psu_watts value =
     (if \<not> (digits value \<and> length value \<le> 12) then Inl (ValueError ''invalid power sample'')
      else case int_truediv (int_of_digits value) 1000000 of
        Inl e \<Rightarrow> Inl e
      | Inr watts \<Rightarrow>
          if flt_lt (Fin MAX_POWER_WATTS) watts
          then Inl (ValueError ''power sample outside parsing bound'') else Inr watts)"

text \<open>Opening a directory: it may have vanished or be refused.\<close>

datatype opened = Vanished | Denied | Opened attr_dir

fun open_dir :: "opened \<Rightarrow> attr_dir res" where
  "open_dir Vanished = Inl FileNotFoundError"
| "open_dir Denied = Inl OSError"
| "open_dir (Opened d) = Inr d"

definition boot_id_of :: "opened \<Rightarrow> string option" where
  "boot_id_of proc =
     (case open_dir proc of
        Inl _ \<Rightarrow> None
      | Inr descriptor \<Rightarrow>
          (case read_at descriptor ''boot_id'' 128 of
             Inl _ \<Rightarrow> None
           | Inr value \<Rightarrow> if uuid_string value then Some value else None))"

section \<open>Discovery\<close>

text \<open>
  An entry of \<open>/sys/class/hwmon\<close>: its name, the components of its resolved path below
  \<open>/sys/devices\<close> (or the exception of resolving it, a \<open>ValueError\<close> when it is outside),
  and its directory.
\<close>

record hwmon_entry =
  he_name :: string
  he_path :: "string list res"
  he_dir :: opened

definition hwmon_name :: "string \<Rightarrow> bool" where
  "hwmon_name s = (starts_with s ''hwmon'' \<and> digits (drop 5 s) \<and> length (drop 5 s) \<le> 8)"

definition parent_name :: "string list \<Rightarrow> string" where
  "parent_name path = (if 2 \<le> length path then last (butlast path) else ''devices'')"

fun scan_hwmon :: "nat \<Rightarrow> string list list \<Rightarrow> hwmon_entry list \<Rightarrow> string list list res" where
  "scan_hwmon count matches [] = Inr matches"
| "scan_hwmon count matches (entry # entries) =
     (if 128 \<le> count then Inl (ValueError ''too many hwmon entries'')
      else if \<not> hwmon_name (he_name entry) then scan_hwmon (Suc count) matches entries
      else case he_path entry of Inl e \<Rightarrow> Inl e | Inr path \<Rightarrow>
        (case open_dir (he_dir entry) of Inl e \<Rightarrow> Inl e | Inr descriptor \<Rightarrow>
          (case read_at descriptor ''name'' 128 of
             Inl e \<Rightarrow>
               if os_or_value e then scan_hwmon (Suc count) matches entries
               else Inl e
           | Inr name \<Rightarrow>
               if name = ''corsairpsu'' then
                 if parent_name path \<noteq> ''hwmon''
                 then Inl (ValueError ''unexpected Corsair hwmon layout'')
                 else scan_hwmon (Suc count) (matches @ [path]) entries
               else scan_hwmon (Suc count) matches entries)))"

definition RAILS :: "(string \<times> string \<times> string) list" where
  "RAILS = [(''2'', ''12v'', ''power +12v''), (''3'', ''5v'', ''power +5v''),
            (''4'', ''3v3'', ''power +3.3v'')]"

definition rail_step :: "attr_dir \<Rightarrow> pydict \<Rightarrow> string \<times> string \<times> string \<Rightarrow> pydict res" where
  "rail_step descriptor rails row =
     (case row of (channel, rail, label) \<Rightarrow>
       (case read_at descriptor (''power'' @ channel @ ''_label'') 128 of
          Inl e \<Rightarrow> if e = FileNotFoundError then Inr rails else Inl e
        | Inr observed_label \<Rightarrow>
            if observed_label \<noteq> label then Inl (ValueError ''unexpected rail identity'')
            else (case (case read_at descriptor (''power'' @ channel @ ''_input'') 128 of
                          Inl e \<Rightarrow> Inl e | Inr text \<Rightarrow> psu_watts text) of
                    Inl e \<Rightarrow> if os_or_value e then Inr rails else Inl e
                  | Inr w \<Rightarrow> Inr (dset rails rail (PFloat w)))))"

definition read_sensor :: "attr_dir \<Rightarrow> (flt \<times> pydict) res" where
  "read_sensor descriptor =
     (case read_at descriptor ''name'' 128 of Inl e \<Rightarrow> Inl e | Inr name \<Rightarrow>
      if name \<noteq> ''corsairpsu'' then Inl (ValueError ''unexpected total power identity'')
      else case read_at descriptor ''power1_label'' 128 of Inl e \<Rightarrow> Inl e | Inr label \<Rightarrow>
      if label \<noteq> ''power total'' then Inl (ValueError ''unexpected total power identity'')
      else case read_at descriptor ''power1_input'' 128 of Inl e \<Rightarrow> Inl e | Inr text \<Rightarrow>
      case psu_watts text of Inl e \<Rightarrow> Inl e | Inr w \<Rightarrow>
      case foldM_res (rail_step descriptor) [] RAILS of Inl e \<Rightarrow> Inl e | Inr rails \<Rightarrow> Inr (w, rails))"

definition unavailable :: "string \<Rightarrow> pydict" where
  "unavailable reason = [(''reason'', PStr reason), (''watts'', PNone), (''rails'', PDict [])]"

definition join_path :: "string list \<Rightarrow> string" where
  "join_path ps = (case ps of [] \<Rightarrow> ''.'' | p # qs \<Rightarrow> p @ concat (map (\<lambda>q. CHR ''/'' # q) qs))"

text \<open>
  \<open>collect\<close>: the listing of \<open>/sys/class/hwmon\<close>, the matched directory when it is opened
  again, the directory of \<open>boot_id\<close> and the two clocks are what the environment supplies.
\<close>

definition collect_body ::
  "(string \<Rightarrow> string) \<Rightarrow> hwmon_entry list res \<Rightarrow> (string list \<Rightarrow> opened) \<Rightarrow> opened \<Rightarrow> int \<times> int \<Rightarrow> pydict res" where
  "collect_body sha256 scandir reopen proc clock =
     (case scandir of Inl e \<Rightarrow> Inl e | Inr entries \<Rightarrow>
      case scan_hwmon 0 [] entries of Inl e \<Rightarrow> Inl e | Inr matches \<Rightarrow>
      if matches = [] then Inr (unavailable ''not_detected'')
      else if length matches \<noteq> 1 then Inr (unavailable ''ambiguous_devices'')
      else let path = hd matches in
      case open_dir (reopen path) of Inl e \<Rightarrow> Inl e | Inr descriptor \<Rightarrow>
      case read_sensor descriptor of Inl e \<Rightarrow> Inl e | Inr (watts, rails) \<Rightarrow>
      let identity = join_path (butlast (butlast path))
      in Inr [(''reason'', PStr ''available''), (''watts'', PFloat watts), (''rails'', PDict rails),
              (''device'', PStr (sha256 identity)),
              (''boot_id'', case boot_id_of proc of None \<Rightarrow> PNone | Some b \<Rightarrow> PStr b),
              (''unix_ns'', PInt (fst clock)), (''monotonic_ns'', PInt (snd clock))])"

definition collect ::
  "(string \<Rightarrow> string) \<Rightarrow> hwmon_entry list res \<Rightarrow> (string list \<Rightarrow> opened) \<Rightarrow> opened \<Rightarrow> int \<times> int \<Rightarrow> pydict res" where
  "collect sha256 scandir reopen proc clock =
     (case collect_body sha256 scandir reopen proc clock of
        Inr sample \<Rightarrow> Inr sample
      | Inl e \<Rightarrow>
          if e = FileNotFoundError then Inr (unavailable ''sensor_unavailable'')
          else if os_or_value e then Inr (unavailable ''invalid_sensor'')
          else Inl e)"

section \<open>The energy state\<close>

definition MAX_GAP_SECONDS :: rat where
  "MAX_GAP_SECONDS = 90"

definition CLOCK_TOLERANCE_SECONDS :: rat where
  "CLOCK_TOLERANCE_SECONDS = 1 / 4"

text \<open>The float literal \<open>1e30\<close>.\<close>

definition FINITE_MAXIMUM :: rat where
  "FINITE_MAXIMUM = 1000000000000000019884624838656"

fun finite_num :: "pyv \<Rightarrow> rat \<Rightarrow> bool" where
  "finite_num (PInt i) maximum = (0 \<le> i \<and> of_int i \<le> maximum)"
| "finite_num (PFloat f) maximum = (flt_le (Fin 0) f \<and> flt_le f (Fin maximum) \<and> flt_finite f)"
| "finite_num _ maximum = False"

definition ANCHOR_KEYS :: "string list" where
  "ANCHOR_KEYS = [''boot_id'', ''device'', ''unix_ns'', ''monotonic_ns'', ''watts'']"

definition clock_ns :: "pyv \<Rightarrow> bool" where
  "clock_ns v = (case v of PInt n \<Rightarrow> 0 < n \<and> n < 2 ^ 63 | _ \<Rightarrow> False)"

definition anchor_ok :: "pyv \<Rightarrow> bool" where
  "anchor_ok value =
     (case value of
        PDict d \<Rightarrow>
          set (map fst d) = set ANCHOR_KEYS
          \<and> (case dget d ''boot_id'' of PStr s \<Rightarrow> uuid_string s | _ \<Rightarrow> False)
          \<and> (case dget d ''device'' of PStr s \<Rightarrow> hex_string 64 s | _ \<Rightarrow> False)
          \<and> clock_ns (dget d ''unix_ns'') \<and> clock_ns (dget d ''monotonic_ns'')
          \<and> finite_num (dget d ''watts'') MAX_POWER_WATTS
      | _ \<Rightarrow> False)"

definition STATE_KEYS :: "string list" where
  "STATE_KEYS = [''schema'', ''output_energy_joules'', ''covered_seconds'', ''anchor'']"

definition state_ok :: "pyv \<Rightarrow> bool" where
  "state_ok value =
     (case value of
        PDict d \<Rightarrow>
          set (map fst d) = set STATE_KEYS
          \<and> dget d ''schema'' = PInt 1
          \<and> finite_num (dget d ''output_energy_joules'') FINITE_MAXIMUM
          \<and> finite_num (dget d ''covered_seconds'') FINITE_MAXIMUM
          \<and> (dget d ''anchor'' = PNone \<or> anchor_ok (dget d ''anchor''))
      | _ \<Rightarrow> False)"

definition validate_state :: "pyv \<Rightarrow> pydict res" where
  "validate_state value =
     (if \<not> state_ok value
      then Inl (ValueError ''invalid PSU energy state; retain for owner inspection'')
      else case value of PDict d \<Rightarrow> Inr d | _ \<Rightarrow> Inl TypeError)"

definition initial_state :: pydict where
  "initial_state = [(''schema'', PInt 1), (''output_energy_joules'', PFloat (Fin 0)),
                    (''covered_seconds'', PFloat (Fin 0)), (''anchor'', PNone)]"

definition current_anchor :: "pydict \<Rightarrow> pydict" where
  "current_anchor sample = map (\<lambda>key. (key, dget sample key)) ANCHOR_KEYS"

text \<open>\<open>(now - before) / 1e9\<close>: an int difference converted to float, then a float
  division.\<close>

definition seconds_between :: "pyv \<Rightarrow> pyv \<Rightarrow> flt res" where
  "seconds_between now before =
     (case py_sub now before of Inl e \<Rightarrow> Inl e
      | Inr diff \<Rightarrow> py_truediv diff (PFloat (Fin 1000000000)))"

definition within_gap :: "flt \<Rightarrow> bool" where
  "within_gap t = (flt_lt (Fin 0) t \<and> flt_le t (Fin MAX_GAP_SECONDS))"

fun flt_abs :: "flt \<Rightarrow> flt" where
  "flt_abs (Fin a) = Fin \<bar>a\<bar>" | "flt_abs (Inf _) = Inf False" | "flt_abs NaN = NaN"

text \<open>The \<open>else\<close> branch: add the trapezoid and the covered time.\<close>

definition add_interval :: "pydict \<Rightarrow> pyv \<Rightarrow> pyv \<Rightarrow> flt \<Rightarrow> pydict res" where
  "add_interval state old_watts watts elapsed =
     (case py_add old_watts watts of Inl e \<Rightarrow> Inl e | Inr both \<Rightarrow>
      case py_mul both (PFloat elapsed) of Inl e \<Rightarrow> Inl e | Inr product \<Rightarrow>
      case py_truediv product (PInt 2) of Inl e \<Rightarrow> Inl e | Inr joules \<Rightarrow>
      case py_add (dget state ''output_energy_joules'') (PFloat joules) of Inl e \<Rightarrow> Inl e | Inr energy \<Rightarrow>
      case py_add (dget state ''covered_seconds'') (PFloat elapsed) of Inl e \<Rightarrow> Inl e | Inr covered \<Rightarrow>
      Inr (dset (dset state ''output_energy_joules'' energy) ''covered_seconds'' covered))"

definition advance_interval :: "pydict \<Rightarrow> pydict \<Rightarrow> pydict \<Rightarrow> (pydict \<times> string) res" where
  "advance_interval state old current =
     (case seconds_between (dget current ''monotonic_ns'') (dget old ''monotonic_ns'') of
        Inl e \<Rightarrow> Inl e | Inr elapsed \<Rightarrow>
      case seconds_between (dget current ''unix_ns'') (dget old ''unix_ns'') of
        Inl e \<Rightarrow> Inl e | Inr wall_elapsed \<Rightarrow>
      if dget current ''boot_id'' \<noteq> dget old ''boot_id'' then Inr (state, ''boot_changed'')
      else if dget current ''device'' \<noteq> dget old ''device'' then Inr (state, ''device_changed'')
      else if \<not> within_gap elapsed \<or> \<not> within_gap wall_elapsed then Inr (state, ''sample_gap'')
      else if flt_lt (Fin CLOCK_TOLERANCE_SECONDS) (flt_abs (flt_sub elapsed wall_elapsed))
        then Inr (state, ''clock_discontinuity'')
      else case add_interval state (dget old ''watts'') (dget current ''watts'') elapsed of
        Inl e \<Rightarrow> Inl e | Inr state' \<Rightarrow> Inr (state', ''available''))"

definition advance :: "pyv option \<Rightarrow> pydict \<Rightarrow> (pydict \<times> string) res" where
  "advance previous sample =
     (case (case previous of Some p \<Rightarrow> validate_state p | None \<Rightarrow> Inr initial_state) of
        Inl e \<Rightarrow> Inl e
      | Inr state \<Rightarrow>
          let current = current_anchor sample in
          if \<not> anchor_ok (PDict current) then Inr (dset state ''anchor'' PNone, ''sample_unavailable'')
          else (case (case dget state ''anchor'' of
                        PDict old \<Rightarrow> advance_interval state old current
                      | _ \<Rightarrow> Inr (state, ''new_interval'')) of
                  Inl e \<Rightarrow> Inl e
                | Inr (state', reason) \<Rightarrow>
                    (case validate_state (PDict (dset state' ''anchor'' (PDict current))) of
                       Inl e \<Rightarrow> Inl e | Inr state'' \<Rightarrow> Inr (state'', reason))))"

section \<open>The state directory\<close>

text \<open>
  What a name of the state directory is, as \<open>os.open\<close> with \<open>O_NOFOLLOW\<close> and
  \<open>os.fstat\<close> see it.  Modes are numbers: \<open>0o600\<close> is 384 and \<open>0o644\<close> is 420.
\<close>

record file_info =
  fi_regular :: bool
  fi_owned :: bool
  fi_nlink :: int
  fi_mode :: int
  fi_bytes :: string

datatype fentry = NoFile | Symlink | Refused | File file_info

type_synonym state_dir = "string \<Rightarrow> fentry"

definition STATE_FILE :: string where
  "STATE_FILE = ''.psu-energy.json''"

definition MAX_STATE_BYTES :: nat where
  "MAX_STATE_BYTES = 4096"

definition file_check :: "file_info \<Rightarrow> int option \<Rightarrow> unit res" where
  "file_check info mode =
     (if \<not> fi_regular info \<or> \<not> fi_owned info \<or> fi_nlink info \<noteq> 1
         \<or> (case mode of None \<Rightarrow> False | Some m \<Rightarrow> fi_mode info \<noteq> m)
      then Inl (ValueError ''refusing unowned, aliased or unsafe telemetry file'') else Inr ())"

definition check_existing :: "state_dir \<Rightarrow> string \<Rightarrow> int option \<Rightarrow> unit res" where
  "check_existing dir name mode =
     (case dir name of
        NoFile \<Rightarrow> Inr ()
      | Symlink \<Rightarrow> Inl (ValueError ''refusing a symlink telemetry file'')
      | Refused \<Rightarrow> Inl OSError
      | File info \<Rightarrow> file_check info mode)"

definition read_state :: "(string \<Rightarrow> jtree res) \<Rightarrow> state_dir \<Rightarrow> pydict option res" where
  "read_state parse dir =
     (case dir STATE_FILE of
        NoFile \<Rightarrow> Inr None
      | Symlink \<Rightarrow> Inl OSError
      | Refused \<Rightarrow> Inl OSError
      | File info \<Rightarrow>
          (case file_check info (Some 384) of Inl e \<Rightarrow> Inl e | Inr _ \<Rightarrow>
           if MAX_STATE_BYTES < length (fi_bytes info)
           then Inl (ValueError ''oversized PSU energy state'')
           else case parse (fi_bytes info) of Inl e \<Rightarrow> Inl e | Inr tree \<Rightarrow>
           case loads_unique False ''duplicate energy state key'' tree of Inl e \<Rightarrow> Inl e | Inr value \<Rightarrow>
           case validate_state value of Inl e \<Rightarrow> Inl e | Inr d \<Rightarrow> Inr (Some d)))"

text \<open>
  \<open>Directory.write\<close>, call by call.  The environment says which system calls fail, how much of the text has
  reached the file when writing it fails, the token of the temporary name, and what another process puts under the
  target name while the temporary file is being written.  The result has every state the
  directory goes through, so that a crash leaves one of them, and the last of them at the end.
\<close>

datatype syscall = OpenTemp | WriteText | FlushText | ChmodTemp | SyncTemp | CloseTemp | RenameTemp | SyncDirectory | UnlinkTemp

record write_env =
  we_fails :: "syscall \<Rightarrow> bool"
  we_partial :: nat
  we_token :: string
  we_other :: "fentry option"

definition temp_name :: "write_env \<Rightarrow> string" where
  "temp_name env = ''.telemetry-'' @ we_token env"

definition own_file :: "int \<Rightarrow> string \<Rightarrow> fentry" where
  "own_file mode text = File \<lparr>fi_regular = True, fi_owned = True, fi_nlink = 1, fi_mode = mode, fi_bytes = text\<rparr>"

definition existing_mode :: "string \<Rightarrow> int option" where
  "existing_mode name = (if name = STATE_FILE then Some 384 else None)"

text \<open>The \<open>with os.fdopen\<close> block: write and flush, set the mode, sync and close the temporary file.\<close>

definition write_temp :: "write_env \<Rightarrow> state_dir \<Rightarrow> string \<Rightarrow> int \<Rightarrow> state_dir list \<times> unit res" where
  "write_temp env dir text mode =
     (let partial = dir(temp_name env := own_file 384 (take (we_partial env) text));
          whole = dir(temp_name env := own_file 384 text);
          ready = dir(temp_name env := own_file mode text) in
      if we_fails env WriteText \<or> we_fails env FlushText then ([partial], Inl OSError)
      else if we_fails env ChmodTemp then ([partial, whole], Inl OSError)
      else if we_fails env SyncTemp \<or> we_fails env CloseTemp then ([partial, whole, ready], Inl OSError)
      else ([partial, whole, ready], Inr ()))"

text \<open>The second look at the target, the rename and the sync of the directory; whether the temporary name is still there.\<close>

definition write_replace :: "write_env \<Rightarrow> state_dir \<Rightarrow> string \<Rightarrow> state_dir list \<times> unit res \<times> bool" where
  "write_replace env dir name =
     (let seen = (case we_other env of None \<Rightarrow> dir | Some e \<Rightarrow> dir(name := e)) in
      case check_existing seen name (existing_mode name) of Inl e \<Rightarrow> ([seen], Inl e, True) | Inr _ \<Rightarrow>
      if we_fails env RenameTemp then ([seen], Inl OSError, True)
      else ([seen, seen(name := seen (temp_name env), temp_name env := NoFile)],
            if we_fails env SyncDirectory then Inl OSError else Inr (), False))"

definition write_file :: "write_env \<Rightarrow> state_dir \<Rightarrow> string \<Rightarrow> string \<Rightarrow> int \<Rightarrow> state_dir list \<times> unit res" where
  "write_file env dir name text mode =
     (if name \<notin> {STATE_FILE, ''hardware.prom''} \<or> mode \<notin> {384, 420}
      then ([dir], Inl (ValueError ''unsupported telemetry output''))
      else case check_existing dir name (existing_mode name) of Inl e \<Rightarrow> ([dir], Inl e) | Inr _ \<Rightarrow>
      if we_fails env OpenTemp \<or> dir (temp_name env) \<noteq> NoFile then ([dir], Inl OSError)
      else let opened = dir(temp_name env := own_file 384 []) in
      case write_temp env opened text mode of (filling, r) \<Rightarrow>
      case (case r of Inl e \<Rightarrow> ([], Inl e, True) | Inr _ \<Rightarrow> write_replace env (last filling) name) of (replacing, r', temporary) \<Rightarrow>
      let states = dir # opened # filling @ replacing in
      if \<not> temporary then (states, r')
      else if we_fails env UnlinkTemp then (states, Inl OSError)
      else (states @ [(last states)(temp_name env := NoFile)], r'))"

definition energy_body ::
  "(string \<Rightarrow> jtree res) \<Rightarrow> (pydict \<Rightarrow> string) \<Rightarrow> write_env \<Rightarrow> state_dir \<Rightarrow> pydict
     \<Rightarrow> state_dir list \<times> (pydict option \<times> string) res" where
  "energy_body parse dumps env dir sample =
     (case read_state parse dir of Inl e \<Rightarrow> ([dir], Inl e) | Inr previous \<Rightarrow>
      case advance (map_option PDict previous) sample of Inl e \<Rightarrow> ([dir], Inl e) | Inr (state, reason) \<Rightarrow>
      if previous = None \<and> dget state ''anchor'' = PNone
      then ([dir], Inr (None, ''sample_unavailable''))
      else case write_file env dir STATE_FILE (dumps state @ [CHR 0x0A]) 384 of (states, r) \<Rightarrow>
      (states, case r of Inl e \<Rightarrow> Inl e | Inr _ \<Rightarrow> Inr (Some state, reason)))"

definition energy ::
  "(string \<Rightarrow> jtree res) \<Rightarrow> (pydict \<Rightarrow> string) \<Rightarrow> write_env \<Rightarrow> state_dir \<Rightarrow> pydict
     \<Rightarrow> state_dir list \<times> (pydict option \<times> string) res" where
  "energy parse dumps env dir sample =
     (case energy_body parse dumps env dir sample of
        (states, Inr r) \<Rightarrow> (states, Inr r)
      | (states, Inl e) \<Rightarrow>
          if os_or_value e \<or> e = RecursionError
          then (states, Inr (None, ''state_unavailable'')) else (states, Inl e))"

section \<open>Metrics text\<close>

text \<open>\<open>g12\<close> is Python's \<open>:.12g\<close> formatting of a number; the quotients by \<open>1e9\<close>
  are computed as in \<open>seconds_between\<close>.\<close>

definition line_flag :: "string \<Rightarrow> bool \<Rightarrow> string" where
  "line_flag name b = name @ '' '' @ (if b then ''1'' else ''0'')"

definition rail_lines :: "(pyv \<Rightarrow> string) \<Rightarrow> pydict \<Rightarrow> string \<Rightarrow> string list" where
  "rail_lines g12 rails rail =
     (let value = dget rails rail in
      line_flag (''workstation_psu_rail_available{rail=\"'' @ rail @ ''\"}'') (value \<noteq> PNone)
      # (if value \<noteq> PNone
         then [''workstation_psu_rail_power_watts{rail=\"'' @ rail @ ''\"} '' @ g12 value] else []))"

definition stamp :: "(pyv \<Rightarrow> string) \<Rightarrow> pyv \<Rightarrow> string res" where
  "stamp g12 ns = (case py_truediv ns (PFloat (Fin 1000000000)) of
      Inl e \<Rightarrow> Inl e | Inr t \<Rightarrow> Inr (g12 (PFloat t)))"

definition metrics_lines ::
  "(pyv \<Rightarrow> string) \<Rightarrow> pydict \<Rightarrow> pydict option \<Rightarrow> string \<Rightarrow> string list res" where
  "metrics_lines g12 sample energy_state energy_reason =
     (let watts = dget sample ''watts'';
          head = [line_flag ''workstation_psu_available'' (watts \<noteq> PNone),
                  ''workstation_psu_status{reason=\"''
                    @ (case dget sample ''reason'' of PStr r \<Rightarrow> r | _ \<Rightarrow> [])
                    @ ''\"} 1''];
          rails = (case dget sample ''rails'' of PDict d \<Rightarrow> d | _ \<Rightarrow> [])
      in case (if watts = PNone then Inr []
               else (case stamp g12 (dget sample ''unix_ns'') of Inl e \<Rightarrow> Inl e | Inr s \<Rightarrow>
                 Inr ([''workstation_psu_output_power_watts '' @ g12 watts,
                       ''workstation_psu_sample_timestamp_seconds '' @ s]
                      @ concat (map (\<lambda>row. rail_lines g12 rails (fst (snd row))) RAILS)))) of
        Inl e \<Rightarrow> Inl e
      | Inr power_lines \<Rightarrow>
      let available = (case energy_state of None \<Rightarrow> False | Some d \<Rightarrow> dget d ''anchor'' \<noteq> PNone);
          tail = [line_flag ''workstation_psu_energy_available'' available,
                  ''workstation_psu_energy_status{reason=\"'' @ energy_reason @ ''\"} 1'']
      in case energy_state of
        None \<Rightarrow> Inr (head @ power_lines @ tail)
      | Some d \<Rightarrow>
          let totals = [''workstation_psu_output_energy_joules_total '' @ g12 (dget d ''output_energy_joules''),
                        ''workstation_psu_energy_covered_seconds_total '' @ g12 (dget d ''covered_seconds'')]
          in (case dget d ''anchor'' of
                PDict a \<Rightarrow> (case stamp g12 (dget a ''unix_ns'') of Inl e \<Rightarrow> Inl e | Inr s \<Rightarrow>
                  Inr (head @ power_lines @ tail @ totals @ [''workstation_psu_energy_sample_timestamp_seconds '' @ s]))
              | _ \<Rightarrow> Inr (head @ power_lines @ tail @ totals)))"

definition metrics ::
  "(pyv \<Rightarrow> string) \<Rightarrow> pydict \<Rightarrow> pydict option \<Rightarrow> string \<Rightarrow> string res" where
  "metrics g12 sample energy_state energy_reason =
     (case metrics_lines g12 sample energy_state energy_reason of
        Inl e \<Rightarrow> Inl e | Inr lines \<Rightarrow> Inr (concat (map (\<lambda>l. l @ [CHR 0x0A]) lines)))"

section \<open>Lemmas: arithmetic on bounded numbers\<close>

lemma rnd_int_bound: "\<bar>m\<bar> \<le> 2 ^ 53 \<Longrightarrow> of_int m = q \<Longrightarrow> rnd q = q"
  using rnd_of_int [of m] by simp

lemma rnd_FINITE_MAXIMUM: "rnd FINITE_MAXIMUM = FINITE_MAXIMUM"
proof -
  have "rnd (of_int 7105427357601002 * 2 powi 47) = of_int 7105427357601002 * (2::rat) powi 47"
    by (rule rnd_dyadic) simp_all
  then show ?thesis by (simp add: FINITE_MAXIMUM_def)
qed

text \<open>The value of a bounded number, as a rational.\<close>

fun rat_of :: "pyv \<Rightarrow> rat" where
  "rat_of (PInt i) = of_int i"
| "rat_of (PFloat (Fin q)) = q"
| "rat_of _ = 0"

lemma finite_num_cases:
  assumes "finite_num v m"
  obtains i where "v = PInt i" "0 \<le> i" "of_int i \<le> m"
    | q where "v = PFloat (Fin q)" "0 \<le> q" "q \<le> m"
proof (cases v)
  case (PFloat f)
  then show ?thesis using assms that by (cases f) (auto simp: flt_finite_def)
qed (use assms that in auto)

lemma float_val_finite:
  assumes "finite_num v m" "rnd m = m" "m \<le> 2 ^ 1023"
  shows "\<exists>q. float_val v = Inr (Fin q) \<and> 0 \<le> q \<and> q \<le> m"
  using assms(1)
proof (cases rule: finite_num_cases)
  case (1 i)
  have "(of_int i :: rat) \<le> 2 ^ 1023" using 1 assms by linarith
  then have "(of_int i :: rat) \<le> of_int (2 ^ 1023)" by (simp only: of_int_power of_int_numeral)
  then have "i \<le> 2 ^ 1023" by (simp only: of_int_le_iff)
  then have "float_of_int i = Inr (Fin (rnd (of_int i)))" using 1 by (intro float_of_int_bounded) simp
  then show ?thesis
    using 1 binary64.fl_nonneg [of "of_int i"] binary64.fl_le [of "of_int i" m] assms
    by (simp add: float_val_def)
next
  case (2 q)
  then show ?thesis by (simp add: float_val_def)
qed

lemma py_add_finite:
  assumes v: "finite_num v a" "rnd a = a" and w: "finite_num w b" "rnd b = b"
    and s: "rnd (a + b) = a + b" "a + b \<le> 2 ^ 1023"
  shows "\<exists>r. py_add v w = Inr r \<and> finite_num r (a + b)"
proof -
  have nn: "0 \<le> a" "0 \<le> b" using v(1) w(1) by (auto elim!: finite_num_cases)
  from float_val_finite [OF v] s nn obtain p where p: "float_val v = Inr (Fin p)" "0 \<le> p" "p \<le> a" by force
  from float_val_finite [OF w] s nn obtain q where q: "float_val w = Inr (Fin q)" "0 \<le> q" "q \<le> b" by force
  have fl: "flt_add (Fin p) (Fin q) = Fin (rnd (p + q))" using p q s by (simp add: to_float_small)
  have "0 \<le> rnd (p + q)" "rnd (p + q) \<le> a + b"
    using p q s binary64.fl_nonneg [of "p + q"] binary64.fl_le [of "p + q" "a + b"] by auto
  then have "finite_num (PFloat (flt_add (Fin p) (Fin q))) (a + b)"
    unfolding fl by (simp add: flt_finite_def)
  moreover have "\<exists>r. py_add v w = Inr r \<and> (r = PFloat (flt_add (Fin p) (Fin q)) \<or> finite_num r (a + b))"
    using v(1)
  proof (cases rule: finite_num_cases)
    case (1 i)
    from w(1) show ?thesis
    proof (cases rule: finite_num_cases)
      case (1 j)
      then show ?thesis using \<open>v = PInt i\<close> \<open>0 \<le> i\<close> \<open>of_int i \<le> a\<close>
        by (simp add: py_add_def py_arith_def add_mono)
    next
      case (2 y)
      then show ?thesis using \<open>v = PInt i\<close> p q by (simp add: py_add_def py_arith_def)
    qed
  next
    case (2 x)
    then show ?thesis using p q by (simp add: py_add_def py_arith_def)
  qed
  ultimately show ?thesis by blast
qed

lemma py_add_total:
  assumes v: "finite_num v m" "rnd m = m" "m \<le> 2 ^ 1022" and j: "0 \<le> j" "j \<le> 2 ^ 1022"
  shows "\<exists>r. py_add v (PFloat (Fin j)) = Inr (PFloat (Fin r)) \<and> rnd r = r"
proof -
  have "(2::rat) ^ 1022 \<le> 2 ^ 1023" by simp
  with v(3) have m: "m \<le> 2 ^ 1023" by linarith
  from float_val_finite [OF v(1,2) m] obtain p where
    p: "float_val v = Inr (Fin p)" "0 \<le> p" "p \<le> m" by blast
  have "(2::rat) ^ 1022 + 2 ^ 1022 = 2 ^ 1023" by simp
  with p j v have "\<bar>p + j\<bar> \<le> 2 ^ 1023" by linarith
  then have "flt_add (Fin p) (Fin j) = Fin (rnd (p + j))" by (simp add: to_float_small)
  moreover have "py_add v (PFloat (Fin j)) = Inr (PFloat (flt_add (Fin p) (Fin j)))"
    using v(1) p(1) by (cases rule: finite_num_cases) (simp_all add: py_add_def py_arith_def float_val_def)
  ultimately show ?thesis by (simp add: rnd_idem)
qed

lemma py_add_float:
  assumes "rnd c = c" "0 \<le> c" "c \<le> 2 ^ 1022" "0 \<le> j" "j \<le> 2 ^ 1022"
  shows "py_add (PFloat (Fin c)) (PFloat (Fin j)) = Inr (PFloat (Fin (rnd (c + j))))"
    and "c \<le> rnd (c + j)"
proof -
  have "(2::rat) ^ 1022 + 2 ^ 1022 = 2 ^ 1023" by simp
  with assms have "\<bar>c + j\<bar> \<le> 2 ^ 1023" by linarith
  then show "py_add (PFloat (Fin c)) (PFloat (Fin j)) = Inr (PFloat (Fin (rnd (c + j))))"
    by (simp add: py_add_def py_arith_def float_val_def to_float_small)
  show "c \<le> rnd (c + j)" using assms by (intro binary64.fl_add_ge) simp_all
qed

text \<open>Rounding moves a number below \<open>2 ^ k\<close> by at most half a unit in its last place.\<close>

lemma round_half_even_error: "\<bar>of_int (round_half_even x) - x\<bar> \<le> 1 / 2"
proof -
  define f r where "f = \<lfloor>x\<rfloor>" and "r = x - of_int f"
  have r: "0 \<le> r" "r < 1" and x: "x = of_int f + r"
    using floor_correct [of x] by (simp_all add: f_def r_def)
  have "round_half_even x = f \<and> r \<le> 1 / 2 \<or> round_half_even x = f + 1 \<and> 1 / 2 \<le> r"
    unfolding round_half_even_def Let_def f_def [symmetric] r_def [symmetric] by (cases "r < 1 / 2"; cases "1 / 2 < r") simp_all
  then show ?thesis
    using r unfolding x by (elim disjE conjE) simp_all
qed

lemma rnd_pos_error:
  assumes "0 < q" "q < 2 powi k" "- 1021 \<le> k"
  shows "\<bar>rnd_pos q - q\<bar> \<le> 2 powi (k - 54)"
proof -
  let ?u = "2 powi (ulp_exp q) :: rat"
  have "ulp_exp q \<le> k - 53" using ilog2_less [OF assms(1,2)] assms(3) by (simp add: ulp_exp_def)
  then have u: "?u \<le> 2 powi (k - 53)" by (rule powi_mono)
  have "rnd_pos q - q = (of_int (round_half_even (q / ?u)) - q / ?u) * ?u"
    by (simp add: rnd_pos_def algebra_simps)
  then have "\<bar>rnd_pos q - q\<bar> = \<bar>of_int (round_half_even (q / ?u)) - q / ?u\<bar> * ?u"
    by (simp add: abs_mult)
  also have "\<dots> \<le> 1 / 2 * ?u" by (rule mult_right_mono [OF round_half_even_error]) simp
  also have "\<dots> \<le> 1 / 2 * 2 powi (k - 53)" using u by simp
  also have "\<dots> = 2 powi (k - 54)" using powi_split [of "k - 53" "k - 54"] by simp
  finally show ?thesis .
qed

lemma rnd_error: "0 \<le> q \<Longrightarrow> q < 2 powi k \<Longrightarrow> - 1021 \<le> k \<Longrightarrow> \<bar>rnd q - q\<bar> \<le> 2 powi (k - 54)"
  using rnd_pos_error [of q k] by (auto simp: rnd_def)

text \<open>The trapezoid of one interval, with the rounding of each operation: at most 100 kW for 90 s.\<close>

definition trapezoid :: "rat \<Rightarrow> rat \<Rightarrow> rat \<Rightarrow> rat" where
  "trapezoid a b t = rnd (rnd (rnd (a + b) * t) / 2)"

lemma trapezoid_error:
  assumes "0 \<le> a" "a \<le> MAX_POWER_WATTS" "0 \<le> b" "b \<le> MAX_POWER_WATTS" "0 < t" "t \<le> 90"
  shows "\<bar>trapezoid a b t - (a + b) / 2 * t\<bar> \<le> 1 / 100000000"
proof -
  define s p where "s = rnd (a + b)" and "p = rnd (s * t)"
  have r: "rnd 200000 = 200000" "rnd 18000000 = 18000000"
    using rnd_int_bound [of 200000 200000] rnd_int_bound [of 18000000 18000000] by simp_all
  have ab: "0 \<le> a + b" "a + b \<le> 200000" using assms by (simp_all add: MAX_POWER_WATTS_def)
  have s: "0 \<le> s" "s \<le> 200000"
    using ab r binary64.fl_nonneg [of "a + b"] binary64.fl_le [of "a + b" 200000] by (simp_all add: s_def)
  have st: "0 \<le> s * t" "s * t \<le> 200000 * 90" using s assms(5,6) mult_mono [of s 200000 t 90] by simp_all
  have p: "0 \<le> p" "p \<le> 18000000"
    using st r binary64.fl_nonneg [of "s * t"] binary64.fl_le [of "s * t" 18000000] by (simp_all add: p_def)
  have e1: "\<bar>s - (a + b)\<bar> \<le> 1 / 68719476736"
    using rnd_error [of "a + b" 18] ab by (simp add: s_def power_int_def field_simps)
  have e2: "\<bar>p - s * t\<bar> \<le> 1 / 536870912"
    using rnd_error [of "s * t" 25] st by (simp add: p_def power_int_def field_simps)
  have e3: "\<bar>trapezoid a b t - p / 2\<bar> \<le> 1 / 1073741824"
    using rnd_error [of "p / 2" 24] p by (simp add: trapezoid_def s_def p_def power_int_def field_simps)
  have "\<bar>(s - (a + b)) * t\<bar> \<le> 1 / 68719476736 * 90"
    unfolding abs_mult using assms(5,6) by (intro mult_mono [OF e1]) simp_all
  then have e4: "\<bar>s * t - (a + b) * t\<bar> \<le> 1 / 68719476736 * 90" by (simp only: left_diff_distrib)
  have half: "(a + b) / 2 * t = (a + b) * t / 2" by simp
  show ?thesis unfolding half using e2 e3 e4 by linarith
qed

definition MAX_INTERVAL_JOULES :: rat where
  "MAX_INTERVAL_JOULES = 9000000"

lemma watts_value: "finite_num v MAX_POWER_WATTS \<Longrightarrow> float_val v = Inr (Fin (rat_of v))"
  by (erule finite_num_cases) (simp_all add: MAX_POWER_WATTS_def)

lemma watts_range: "finite_num v MAX_POWER_WATTS \<Longrightarrow> 0 \<le> rat_of v \<and> rat_of v \<le> MAX_POWER_WATTS"
  by (erule finite_num_cases) simp_all

lemma watts_sum:
  assumes v: "finite_num v MAX_POWER_WATTS" and w: "finite_num w MAX_POWER_WATTS" and both: "py_add v w = Inr both"
  shows "float_val both = Inr (Fin (rnd (rat_of v + rat_of w)))"
proof -
  have big: "(2::rat) ^ 28 \<le> 2 ^ 1023" by (rule power_increasing) simp_all
  have "\<bar>rat_of v + rat_of w\<bar> \<le> 2 ^ 1023"
    using watts_range [OF v] watts_range [OF w] big by (simp add: MAX_POWER_WATTS_def)
  then have fl: "flt_add (Fin (rat_of v)) (Fin (rat_of w)) = Fin (rnd (rat_of v + rat_of w))"
    by (simp add: to_float_small)
  from v show ?thesis
  proof (cases rule: finite_num_cases)
    case (1 i)
    from w show ?thesis
    proof (cases rule: finite_num_cases)
      case (1 j)
      with \<open>v = PInt i\<close> both have "both = PInt (i + j)" by (simp add: py_add_def py_arith_def)
      moreover have "\<bar>i + j\<bar> \<le> 2 ^ 53"
        using 1 \<open>0 \<le> i\<close> \<open>of_int i \<le> MAX_POWER_WATTS\<close> by (simp add: MAX_POWER_WATTS_def)
      ultimately show ?thesis
        using 1 \<open>v = PInt i\<close> rnd_of_int [of "i + j"] by simp
    next
      case (2 y)
      then show ?thesis
        using \<open>v = PInt i\<close> both fl watts_value [OF v] by (auto simp: py_add_def py_arith_def)
    qed
  next
    case (2 x)
    then show ?thesis
      using both fl watts_value [OF w] by (auto simp: py_add_def py_arith_def split: sum.splits)
  qed
qed

lemma interval_joules:
  assumes "finite_num ow MAX_POWER_WATTS" "finite_num w MAX_POWER_WATTS" "0 < e" "e \<le> 90"
  shows "\<exists>both p j. py_add ow w = Inr both \<and> py_mul both (PFloat (Fin e)) = Inr (PFloat (Fin p))
    \<and> py_truediv (PFloat (Fin p)) (PInt 2) = Inr (Fin j) \<and> 0 \<le> j \<and> j \<le> MAX_INTERVAL_JOULES
    \<and> j = trapezoid (rat_of ow) (rat_of w) e"
proof -
  have r: "rnd 100000 = 100000" "rnd 200000 = 200000" "rnd 18000000 = 18000000" "rnd 9000000 = 9000000"
    using rnd_int_bound [of 100000 100000] rnd_int_bound [of 200000 200000]
      rnd_int_bound [of 18000000 18000000] rnd_int_bound [of 9000000 9000000] by simp_all
  have big: "(2::rat) ^ 28 \<le> 2 ^ 1023" by (rule power_increasing) simp_all
  obtain both where both: "py_add ow w = Inr both" "finite_num both 200000"
    using py_add_finite [of ow 100000 w 100000] assms r big by (auto simp: MAX_POWER_WATTS_def)
  obtain b where b: "float_val both = Inr (Fin b)" "0 \<le> b" "b \<le> 200000"
    using float_val_finite [OF both(2)] r big by auto
  have be: "0 \<le> b * e" "b * e \<le> 200000 * 90" using b assms mult_mono [of b 200000 e 90] by simp_all
  define p where "p = rnd (b * e)"
  have p: "0 \<le> p" "p \<le> 18000000"
    using be r binary64.fl_nonneg [of "b * e"] binary64.fl_le [of "b * e" 18000000] by (auto simp: p_def)
  have mul: "py_mul both (PFloat (Fin e)) = Inr (PFloat (Fin p))"
    using both(2) b(1) be big
    by (cases rule: finite_num_cases)
       (simp_all add: py_mul_def py_arith_def float_val_def to_float_small p_def)
  define j where "j = rnd (p / 2)"
  have j: "0 \<le> j" "j \<le> 9000000"
    using p r binary64.fl_nonneg [of "p / 2"] binary64.fl_le [of "p / 2" 9000000] by (auto simp: j_def)
  have two: "float_of_int 2 = Inr (Fin 2)" using float_of_int_small [of 2] by simp
  have "py_truediv (PFloat (Fin p)) (PInt 2) = Inr (Fin j)"
    using p big by (simp add: py_truediv_def float_val_def two to_float_small j_def)
  moreover have "j = trapezoid (rat_of ow) (rat_of w) e"
    using watts_sum [OF assms(1,2) both(1)] b(1) by (simp add: trapezoid_def j_def p_def)
  ultimately show ?thesis using both mul j by (auto simp: MAX_INTERVAL_JOULES_def)
qed

text \<open>Totals as the program writes them: floats, already rounded.\<close>

definition float_total :: "pyv \<Rightarrow> bool" where
  "float_total v = (case v of PFloat (Fin q) \<Rightarrow> rnd q = q | _ \<Rightarrow> False)"

abbreviation joules :: "pydict \<Rightarrow> rat" where
  "joules d \<equiv> rat_of (dget d ''output_energy_joules'')"

abbreviation covered :: "pydict \<Rightarrow> rat" where
  "covered d \<equiv> rat_of (dget d ''covered_seconds'')"

definition float_totals :: "pydict \<Rightarrow> bool" where
  "float_totals d = (float_total (dget d ''output_energy_joules'') \<and> float_total (dget d ''covered_seconds''))"

lemma dget_dset [simp]: "dget (dset d k v) k' = (if k' = k then v else dget d k')"
  by (simp add: dget_def dget_or_def)

lemma FINITE_MAXIMUM_small: "FINITE_MAXIMUM \<le> 2 ^ 1022" "FINITE_MAXIMUM \<le> 2 ^ 1023"
  by (simp_all add: FINITE_MAXIMUM_def)

lemma small_joules: "0 \<le> j \<Longrightarrow> j \<le> MAX_INTERVAL_JOULES \<Longrightarrow> j \<le> 2 ^ 1022"
proof -
  have "(2::rat) ^ 28 \<le> 2 ^ 1022" by (rule power_increasing) simp_all
  then show "0 \<le> j \<Longrightarrow> j \<le> MAX_INTERVAL_JOULES \<Longrightarrow> j \<le> 2 ^ 1022"
    by (simp add: MAX_INTERVAL_JOULES_def)
qed

text \<open>\<open>add_interval\<close> never raises on a valid state, and with the program's own totals it
  never decreases either of them.\<close>

lemma add_interval_total:
  assumes e: "finite_num (dget d ''output_energy_joules'') FINITE_MAXIMUM"
    and c: "finite_num (dget d ''covered_seconds'') FINITE_MAXIMUM"
    and w: "finite_num ow MAX_POWER_WATTS" "finite_num w MAX_POWER_WATTS"
    and t: "0 < t" "t \<le> 90"
  shows "\<exists>d'. add_interval d ow w (Fin t) = Inr d' \<and> float_totals d' \<and> dget d' ''anchor'' = dget d ''anchor''
    \<and> keyset d' = keyset d \<union> {''output_energy_joules'', ''covered_seconds''}
    \<and> dget d' ''schema'' = dget d ''schema''
    \<and> (float_totals d \<longrightarrow> joules d \<le> joules d' \<and> covered d' = rnd (covered d + t) \<and> covered d \<le> covered d'
         \<and> joules d' = rnd (joules d + trapezoid (rat_of ow) (rat_of w) t))"
proof -
  obtain both p j where j: "py_add ow w = Inr both" "py_mul both (PFloat (Fin t)) = Inr (PFloat (Fin p))"
    "py_truediv (PFloat (Fin p)) (PInt 2) = Inr (Fin j)" "0 \<le> j" "j \<le> MAX_INTERVAL_JOULES"
    "j = trapezoid (rat_of ow) (rat_of w) t"
    using interval_joules [OF w t] by blast
  note js = small_joules [OF j(4,5)]
  have ts: "t \<le> 2 ^ 1022" using small_joules [of t] t by (simp add: MAX_INTERVAL_JOULES_def)
  obtain en where en: "py_add (dget d ''output_energy_joules'') (PFloat (Fin j)) = Inr (PFloat (Fin en))"
    "rnd en = en" using py_add_total [OF e rnd_FINITE_MAXIMUM FINITE_MAXIMUM_small(1) j(4) js] by blast
  obtain co where co: "py_add (dget d ''covered_seconds'') (PFloat (Fin t)) = Inr (PFloat (Fin co))"
    "rnd co = co" using py_add_total [OF c rnd_FINITE_MAXIMUM FINITE_MAXIMUM_small(1) _ ts] t by auto
  let ?d' = "dset (dset d ''output_energy_joules'' (PFloat (Fin en))) ''covered_seconds'' (PFloat (Fin co))"
  have grow: "joules d \<le> en \<and> co = rnd (covered d + t) \<and> covered d \<le> co \<and> en = rnd (joules d + j)"
    if f: "float_totals d"
  proof -
    obtain x y where xy: "dget d ''output_energy_joules'' = PFloat (Fin x)" "rnd x = x"
      "dget d ''covered_seconds'' = PFloat (Fin y)" "rnd y = y"
      using f by (auto simp: float_totals_def float_total_def split: pyv.splits flt.splits)
    then show ?thesis
      using e c en co py_add_float [of x j] py_add_float [of y t] j js t ts FINITE_MAXIMUM_small
      by (auto simp: flt_finite_def)
  qed
  have "add_interval d ow w (Fin t) = Inr ?d'"
    using j en co by (simp add: add_interval_def)
  then show ?thesis
    using en co grow j by (intro exI [of _ ?d']) (auto simp: float_totals_def float_total_def)
qed

text \<open>The seconds between two clock readings: the difference as a float, divided by \<open>1e9\<close>.\<close>

definition clock_seconds :: "pyv \<Rightarrow> pyv \<Rightarrow> rat" where
  "clock_seconds now before = rnd (rnd (rat_of now - rat_of before) / 1000000000)"

lemma seconds_between_total:
  assumes "clock_ns a" "clock_ns b" shows "seconds_between a b = Inr (Fin (clock_seconds a b))"
proof -
  obtain m n where mn: "a = PInt m" "0 < m" "m < 2 ^ 63" "b = PInt n" "0 < n" "n < 2 ^ 63"
    using assms by (auto simp: clock_ns_def split: pyv.splits)
  then have d: "\<bar>m - n\<bar> \<le> 2 ^ 63" by linarith
  have "(2::int) ^ 63 \<le> 2 ^ 1023" by (rule power_increasing) simp_all
  with d have fl: "float_of_int (m - n) = Inr (Fin (rnd (of_int (m - n))))"
    by (intro float_of_int_bounded) linarith
  have "rnd (of_int 1 * 2 powi 63) = of_int 1 * 2 powi 63" by (rule rnd_dyadic) simp_all
  then have top: "rnd (2 ^ 63) = (2 ^ 63 :: rat)" by simp
  have "\<bar>of_int (m - n) :: rat\<bar> = of_int \<bar>m - n\<bar>" by simp
  also have "\<dots> \<le> of_int (2 ^ 63)" using d by (simp only: of_int_le_iff)
  finally have "\<bar>of_int (m - n) :: rat\<bar> \<le> 2 ^ 63" by simp
  then have "\<bar>rnd (of_int (m - n))\<bar> \<le> 2 ^ 63"
    using binary64.fl_le [OF _ top, of "\<bar>of_int (m - n)\<bar>"] binary64.fl_abs [of "of_int (m - n)"] by simp
  then have "\<bar>rnd (of_int (m - n)) / 1000000000\<bar> \<le> 2 ^ 63" by simp
  also have "(2::rat) ^ 63 \<le> 2 ^ 1023" by (rule power_increasing) simp_all
  finally have "to_float (rnd (of_int (m - n)) / 1000000000) = Fin (rnd (rnd (of_int (m - n)) / 1000000000))"
    by (rule to_float_small)
  then show ?thesis
    using mn fl by (simp add: clock_seconds_def seconds_between_def py_sub_def py_arith_def py_truediv_def float_val_def)
qed

lemma anchor_ok_dict: "anchor_ok v \<Longrightarrow> \<exists>d. v = PDict d"
  by (cases v) (simp_all add: anchor_ok_def)

lemma anchor_okD:
  assumes "anchor_ok (PDict d)"
  shows "clock_ns (dget d ''unix_ns'')" "clock_ns (dget d ''monotonic_ns'')"
    "finite_num (dget d ''watts'') MAX_POWER_WATTS"
  using assms by (simp_all add: anchor_ok_def)

lemma state_okD:
  assumes "state_ok (PDict d)"
  shows "finite_num (dget d ''output_energy_joules'') FINITE_MAXIMUM"
    "finite_num (dget d ''covered_seconds'') FINITE_MAXIMUM"
    "dget d ''anchor'' = PNone \<or> anchor_ok (dget d ''anchor'')"
  using assms by (simp_all add: state_ok_def)

lemma validate_state_Inr [simp]: "validate_state v = Inr d \<longleftrightarrow> v = PDict d \<and> state_ok v"
  by (cases v) (auto simp: validate_state_def state_ok_def)

lemma validate_state_Inl: "validate_state v = Inl e \<Longrightarrow> \<exists>m. e = ValueError m"
  by (cases v) (auto simp: validate_state_def state_ok_def split: if_splits)

lemma initial_state_ok: "state_ok (PDict initial_state)"
  by (simp add: state_ok_def initial_state_def STATE_KEYS_def dget_def dget_or_def
      FINITE_MAXIMUM_def flt_finite_def)

lemma initial_totals: "float_totals initial_state" "joules initial_state = 0" "covered initial_state = 0"
  by (simp_all add: float_totals_def float_total_def initial_state_def dget_def dget_or_def rnd_def)

text \<open>What becomes of the interval between an anchor and a sample, in numbers: the reason of \<open>advance\<close>.\<close>

definition interval_reason :: "pydict \<Rightarrow> pydict \<Rightarrow> string" where
  "interval_reason old sample =
     (let t = clock_seconds (dget sample ''monotonic_ns'') (dget old ''monotonic_ns'');
          w = clock_seconds (dget sample ''unix_ns'') (dget old ''unix_ns'') in
      if dget sample ''boot_id'' \<noteq> dget old ''boot_id'' then ''boot_changed''
      else if dget sample ''device'' \<noteq> dget old ''device'' then ''device_changed''
      else if \<not> (0 < t \<and> t \<le> 90 \<and> 0 < w \<and> w \<le> 90) then ''sample_gap''
      else if 1 / 4 < \<bar>rnd (t - w)\<bar> then ''clock_discontinuity''
      else ''available'')"

definition sample_reason :: "pydict \<Rightarrow> pydict \<Rightarrow> string" where
  "sample_reason p sample =
     (if \<not> anchor_ok (PDict (current_anchor sample)) then ''sample_unavailable''
      else case dget p ''anchor'' of PDict old \<Rightarrow> interval_reason old sample | _ \<Rightarrow> ''new_interval'')"

lemma interval_reason_available:
  "interval_reason old sample = ''available'' \<Longrightarrow>
     0 < clock_seconds (dget sample ''monotonic_ns'') (dget old ''monotonic_ns'')
   \<and> clock_seconds (dget sample ''monotonic_ns'') (dget old ''monotonic_ns'') \<le> 90"
  by (simp add: interval_reason_def Let_def split: if_splits)

text \<open>One interval: it is left out for its reason, with the totals as they were, or it is added.\<close>

lemma advance_interval_spec:
  assumes d: "state_ok (PDict d)" and old: "anchor_ok (PDict old)" and cur: "anchor_ok (PDict cur)"
  shows "\<exists>d'. advance_interval d old cur = Inr (d', interval_reason old cur) \<and>
    (if interval_reason old cur \<noteq> ''available'' then d' = d
     else add_interval d (dget old ''watts'') (dget cur ''watts'')
       (Fin (clock_seconds (dget cur ''monotonic_ns'') (dget old ''monotonic_ns''))) = Inr d')"
proof -
  let ?t = "clock_seconds (dget cur ''monotonic_ns'') (dget old ''monotonic_ns'')"
  let ?w = "clock_seconds (dget cur ''unix_ns'') (dget old ''unix_ns'')"
  note t = seconds_between_total [OF anchor_okD(2) [OF cur] anchor_okD(2) [OF old]]
  note w = seconds_between_total [OF anchor_okD(1) [OF cur] anchor_okD(1) [OF old]]
  have "(2::rat) ^ 7 \<le> 2 ^ 1023" by (rule power_increasing) simp_all
  then have big: "(128::rat) \<le> 2 ^ 1023" by simp
  have diff: "flt_sub (Fin ?t) (Fin ?w) = Fin (rnd (?t - ?w))" if "0 < ?t \<and> ?t \<le> 90 \<and> 0 < ?w \<and> ?w \<le> 90"
  proof -
    have "\<bar>?t - ?w\<bar> \<le> 128" using that by linarith
    then show ?thesis unfolding flt_sub_Fin by (rule to_float_small [OF order_trans [OF _ big]])
  qed
  show ?thesis
  proof (cases "0 < ?t \<and> ?t \<le> 90 \<and> 0 < ?w \<and> ?w \<le> 90")
    case True
    then obtain d' where d': "add_interval d (dget old ''watts'') (dget cur ''watts'') (Fin ?t) = Inr d'"
      using add_interval_total [OF state_okD(1,2) [OF d] anchor_okD(3) [OF old] anchor_okD(3) [OF cur]]
      by blast
    then show ?thesis using True
      by (simp add: advance_interval_def t w diff interval_reason_def Let_def within_gap_def MAX_GAP_SECONDS_def CLOCK_TOLERANCE_SECONDS_def)
  next
    case False
    then show ?thesis
      by (auto simp: advance_interval_def t w interval_reason_def Let_def within_gap_def MAX_GAP_SECONDS_def)
  qed
qed

text \<open>The whole step from a valid state.\<close>

definition start_state :: "pyv option \<Rightarrow> pydict" where
  "start_state previous = (case previous of Some (PDict d) \<Rightarrow> d | _ \<Rightarrow> initial_state)"

lemma advance_spec:
  assumes "case previous of None \<Rightarrow> True | Some p \<Rightarrow> state_ok p"
  defines "d \<equiv> start_state previous"
  shows "advance previous sample =
    (if \<not> anchor_ok (PDict (current_anchor sample)) then Inr (dset d ''anchor'' PNone, ''sample_unavailable'')
     else case (case dget d ''anchor'' of PDict old \<Rightarrow> advance_interval d old (current_anchor sample)
                | _ \<Rightarrow> Inr (d, ''new_interval'')) of
            Inl e \<Rightarrow> Inl e
          | Inr (d', r) \<Rightarrow> (case validate_state (PDict (dset d' ''anchor'' (PDict (current_anchor sample)))) of
              Inl e \<Rightarrow> Inl e | Inr d'' \<Rightarrow> Inr (d'', r)))"
    and "state_ok (PDict d)"
proof -
  have "(case previous of Some p \<Rightarrow> validate_state p | None \<Rightarrow> Inr initial_state) = Inr d \<and> state_ok (PDict d)"
  proof (cases previous)
    case None
    then show ?thesis by (simp add: d_def start_state_def initial_state_ok)
  next
    case (Some p)
    with assms(1) have ok: "state_ok p" by simp
    then obtain q where "p = PDict q" by (cases p) (simp_all add: state_ok_def)
    with ok Some show ?thesis by (simp add: d_def start_state_def)
  qed
  then show "state_ok (PDict d)"
    and "advance previous sample =
    (if \<not> anchor_ok (PDict (current_anchor sample)) then Inr (dset d ''anchor'' PNone, ''sample_unavailable'')
     else case (case dget d ''anchor'' of PDict old \<Rightarrow> advance_interval d old (current_anchor sample)
                | _ \<Rightarrow> Inr (d, ''new_interval'')) of
            Inl e \<Rightarrow> Inl e
          | Inr (d', r) \<Rightarrow> (case validate_state (PDict (dset d' ''anchor'' (PDict (current_anchor sample)))) of
              Inl e \<Rightarrow> Inl e | Inr d'' \<Rightarrow> Inr (d'', r)))"
    by (simp_all add: advance_def Let_def)
qed

lemma state_ok_anchor:
  assumes "state_ok (PDict d)" "v = PNone \<or> anchor_ok v"
  shows "state_ok (PDict (dset d ''anchor'' v))"
  using assms by (auto simp: state_ok_def STATE_KEYS_def)

lemma current_anchor_has [simp]:
  "dget (current_anchor sample) k = (if k \<in> set ANCHOR_KEYS then dget sample k else PNone)"
  by (auto simp: current_anchor_def ANCHOR_KEYS_def dget_def dget_or_def)

lemma float_totals_dset_anchor [simp]: "float_totals (dset d ''anchor'' v) = float_totals d"
  by (simp add: float_totals_def)

lemma interval_reason_current [simp]: "interval_reason old (current_anchor sample) = interval_reason old sample"
proof -
  have "dget (current_anchor sample) k = dget sample k" if "k \<in> set ANCHOR_KEYS" for k
    using that by simp
  then have "dget (current_anchor sample) ''boot_id'' = dget sample ''boot_id''" "dget (current_anchor sample) ''device'' = dget sample ''device''"
    "dget (current_anchor sample) ''unix_ns'' = dget sample ''unix_ns''"
    "dget (current_anchor sample) ''monotonic_ns'' = dget sample ''monotonic_ns''"
    by (simp_all add: ANCHOR_KEYS_def)
  then show ?thesis by (simp only: interval_reason_def)
qed

text \<open>Every step is either idle, with the totals as they were, or adds one observed interval.\<close>

lemma advance_step:
  assumes ok: "state_ok (PDict p)" and fl: "float_totals p"
    and step: "advance (Some (PDict p)) sample = Inr (s, r)"
  shows "r = sample_reason p sample \<and> state_ok (PDict s) \<and> float_totals s \<and> joules p \<le> joules s \<and> covered p \<le> covered s
    \<and> dget s ''anchor'' = (if r = ''sample_unavailable'' then PNone else PDict (current_anchor sample))
    \<and> (r \<noteq> ''available'' \<and> joules s = joules p \<and> covered s = covered p
       \<or> r = ''available'' \<and> (\<exists>old t. dget p ''anchor'' = PDict old
         \<and> t = clock_seconds (dget sample ''monotonic_ns'') (dget old ''monotonic_ns'') \<and> 0 < t \<and> t \<le> 90
         \<and> finite_num (dget old ''watts'') MAX_POWER_WATTS \<and> finite_num (dget sample ''watts'') MAX_POWER_WATTS
         \<and> covered s = rnd (covered p + t)
         \<and> joules s = rnd (joules p + trapezoid (rat_of (dget old ''watts'')) (rat_of (dget sample ''watts'')) t)))"
proof -
  let ?cur = "current_anchor sample"
  have start: "start_state (Some (PDict p)) = p" by (simp add: start_state_def)
  note spec = advance_spec(1) [of "Some (PDict p)" sample, unfolded start]
  have named: "interval_reason old x \<noteq> ''sample_unavailable''" for old x
    by (simp add: interval_reason_def Let_def)
  show ?thesis
  proof (cases "anchor_ok (PDict ?cur)")
    case False
    then show ?thesis using step spec ok fl by (auto intro: state_ok_anchor simp: sample_reason_def)
  next
    case cur: True
    show ?thesis
    proof (cases "\<exists>old. dget p ''anchor'' = PDict old")
      case True
      then obtain old where PDict: "dget p ''anchor'' = PDict old" by blast
      then have old: "anchor_ok (PDict old)" using state_okD(3) [OF ok] by simp
      let ?t = "clock_seconds (dget ?cur ''monotonic_ns'') (dget old ''monotonic_ns'')"
      obtain d' where d': "advance_interval p old ?cur = Inr (d', interval_reason old ?cur)"
        and alt: "if interval_reason old ?cur \<noteq> ''available'' then d' = p
          else add_interval p (dget old ''watts'') (dget ?cur ''watts'') (Fin ?t) = Inr d'"
        using advance_interval_spec [OF ok old cur] by blast
      have s: "s = dset d' ''anchor'' (PDict ?cur)" "state_ok (PDict s)" "r = interval_reason old sample"
        using step spec ok cur PDict d' by (auto split: sum.splits)
      have reason: "r = sample_reason p sample" using s(3) cur PDict by (simp add: sample_reason_def)
      show ?thesis
      proof (cases "r = ''available''")
        case True
        then have add: "add_interval p (dget old ''watts'') (dget ?cur ''watts'') (Fin ?t) = Inr d'"
          and t: "0 < ?t" "?t \<le> 90"
          using alt s(3) interval_reason_available [of old ?cur] by simp_all
        have same: "dget ?cur ''watts'' = dget sample ''watts''" "dget ?cur ''monotonic_ns'' = dget sample ''monotonic_ns''"
          by (simp_all add: ANCHOR_KEYS_def)
        obtain f: "float_totals d'" and grow: "joules p \<le> joules d'" "covered p \<le> covered d'"
          and exact: "covered d' = rnd (covered p + ?t)"
            "joules d' = rnd (joules p + trapezoid (rat_of (dget old ''watts'')) (rat_of (dget ?cur ''watts'')) ?t)"
          using add_interval_total [OF state_okD(1,2) [OF ok] anchor_okD(3) [OF old] anchor_okD(3) [OF cur] t] add fl by force
        have totals: "joules s = joules d'" "covered s = covered d'" "float_totals s" "dget s ''anchor'' = PDict ?cur"
          using f by (simp_all add: s(1))
        have "\<exists>old t. dget p ''anchor'' = PDict old
            \<and> t = clock_seconds (dget sample ''monotonic_ns'') (dget old ''monotonic_ns'') \<and> 0 < t \<and> t \<le> 90
            \<and> finite_num (dget old ''watts'') MAX_POWER_WATTS \<and> finite_num (dget sample ''watts'') MAX_POWER_WATTS
            \<and> covered s = rnd (covered p + t)
            \<and> joules s = rnd (joules p + trapezoid (rat_of (dget old ''watts'')) (rat_of (dget sample ''watts'')) t)"
          using PDict t anchor_okD(3) [OF old] anchor_okD(3) [OF cur] exact unfolding totals same by blast
        then show ?thesis using reason True s(2) totals grow by simp
      next
        case False
        then show ?thesis using alt s reason fl named by auto
      qed
    next
      case False
      then have none: "dget p ''anchor'' = PNone" using state_okD(3) [OF ok] anchor_ok_dict by blast
      have "s = dset p ''anchor'' (PDict ?cur) \<and> r = ''new_interval''"
        using step cur ok by (simp add: spec none split: sum.splits if_splits)
      moreover have "state_ok (PDict (dset p ''anchor'' (PDict ?cur)))" by (rule state_ok_anchor [OF ok]) (simp add: cur)
      ultimately show ?thesis using fl cur by (simp add: sample_reason_def none)
    qed
  qed
qed

text \<open>None of the arithmetic can raise.\<close>

lemma advance_Inl:
  assumes "advance previous sample = Inl e" shows "\<exists>m. e = ValueError m"
proof (cases "case previous of None \<Rightarrow> True | Some p \<Rightarrow> state_ok p")
  case False
  then obtain p where p: "previous = Some p" "\<not> state_ok p" by (auto split: option.splits)
  then have "validate_state p = Inl e" using assms
    by (auto simp: advance_def split: sum.splits)
  then show ?thesis by (rule validate_state_Inl)
next
  case True
  let ?d = "start_state previous" and ?cur = "current_anchor sample"
  note spec = advance_spec(1) [OF True, of sample] advance_spec(2) [OF True]
  show ?thesis
  proof (cases "anchor_ok (PDict ?cur)")
    case False
    then show ?thesis using assms spec(1) by simp
  next
    case cur: True
    show ?thesis
    proof (cases "dget ?d ''anchor''")
      case (PDict old)
      then have "anchor_ok (PDict old)" using state_okD(3) [OF spec(2)] by simp
      then obtain d' where "advance_interval ?d old ?cur = Inr (d', interval_reason old ?cur)"
        using advance_interval_spec [OF spec(2) _ cur] by blast
      then show ?thesis using assms spec(1) cur PDict
        by (auto split: sum.splits dest: validate_state_Inl)
    qed (use assms spec(1) cur in \<open>auto split: sum.splits dest: validate_state_Inl\<close>)
  qed
qed

section \<open>Properties\<close>

text \<open>C2: one step of the energy counter, from a valid state whose totals are floats as the
  program writes them.  The reason is the one that the two samples have by \<open>sample_reason\<close>: no usable sample,
  no anchor, another boot, another device, a time outside \<open>(0, 90]\<close> s on one of the clocks, clocks more than a
  quarter second apart, and \<open>available\<close> exactly when there is none of these.  The sample becomes the new anchor, if it is usable.
  When the interval is \<open>available\<close>, its time \<open>t\<close> is added to the coverage and the trapezoid of both wattages over
  \<open>t\<close> to the energy, each sum rounded to a float; the trapezoid is within \<open>10 ^ -8\<close> J of the exact one.  With any other reason both
  totals stay.  So neither total decreases, and the new state is valid again.\<close>

theorem advance_counts_observed_intervals:
  assumes ok: "state_ok (PDict p)" and fl: "float_totals p"
    and step: "advance (Some (PDict p)) sample = Inr (s, r)"
  shows "r = sample_reason p sample
    \<and> dget s ''anchor'' = (if r = ''sample_unavailable'' then PNone else PDict (current_anchor sample))
    \<and> state_ok (PDict s) \<and> float_totals s \<and> joules p \<le> joules s \<and> covered p \<le> covered s
    \<and> (r \<noteq> ''available'' \<longrightarrow> joules s = joules p \<and> covered s = covered p)
    \<and> (r = ''available'' \<longrightarrow> (\<exists>old t a b. dget p ''anchor'' = PDict old
         \<and> t = clock_seconds (dget sample ''monotonic_ns'') (dget old ''monotonic_ns'')
         \<and> a = rat_of (dget old ''watts'') \<and> b = rat_of (dget sample ''watts'')
         \<and> covered s = rnd (covered p + t) \<and> joules s = rnd (joules p + trapezoid a b t)
         \<and> \<bar>trapezoid a b t - (a + b) / 2 * t\<bar> \<le> 1 / 100000000))"
  using advance_step [OF ok fl step] trapezoid_error watts_range by blast

text \<open>Concrete samples for the witnesses: two readings of one device, 10 s apart.\<close>

definition sample_boot :: string where
  "sample_boot = ''01234567-89ab-cdef-0123-456789abcdef''"

definition sample_device :: string where
  "sample_device = replicate 64 (CHR ''a'')"

definition sample_at :: "int \<Rightarrow> rat \<Rightarrow> pydict" where
  "sample_at ns w = [(''reason'', PStr ''available''), (''watts'', PFloat (Fin w)), (''rails'', PDict []),
     (''device'', PStr sample_device), (''boot_id'', PStr sample_boot),
     (''unix_ns'', PInt ns), (''monotonic_ns'', PInt ns)]"

definition sample_state :: pydict where
  "sample_state = [(''schema'', PInt 1), (''output_energy_joules'', PFloat (Fin 0)),
     (''covered_seconds'', PFloat (Fin 0)), (''anchor'', PDict (current_anchor (sample_at 1000000000 100)))]"

definition sample_result :: pydict where
  "sample_result = [(''schema'', PInt 1), (''output_energy_joules'', PFloat (Fin 1500)),
     (''covered_seconds'', PFloat (Fin 10)), (''anchor'', PDict (current_anchor (sample_at 11000000000 200)))]"

lemma sample_state_ok: "state_ok (PDict sample_state)"
  by code_simp

lemma sample_state_totals: "float_totals sample_state"
  by code_simp

lemma sample_seconds: "seconds_between (PInt 11000000000) (PInt 1000000000) = Inr (Fin 10)"
  using float_of_int_small [of 10000000000] to_float_exact [of 10 10]
  by (simp add: seconds_between_def py_sub_def py_arith_def py_truediv_def float_val_def)

lemma sample_joules:
  "add_interval sample_state (PFloat (Fin 100)) (PFloat (Fin 200)) (Fin 10)
   = Inr (dset (dset sample_state ''output_energy_joules'' (PFloat (Fin 1500))) ''covered_seconds'' (PFloat (Fin 10)))"
  using float_of_int_small [of 2] to_float_exact [of 10 10] to_float_exact [of 300 300]
    to_float_exact [of 3000 3000] to_float_exact [of 1500 1500]
  by (simp add: add_interval_def py_add_def py_mul_def py_arith_def py_truediv_def float_val_def
      sample_state_def dget_def dget_or_def)

lemma sample_anchor_ok: "anchor_ok (PDict (current_anchor (sample_at 11000000000 200)))"
  by code_simp

lemma sample_result_ok: "state_ok (PDict sample_result)"
  by code_simp

lemma sample_advance:
  "advance (Some (PDict sample_state)) (sample_at 11000000000 200) = Inr (sample_result, ''available'')"
proof -
  let ?cur = "current_anchor (sample_at 11000000000 200)"
  let ?old = "current_anchor (sample_at 1000000000 100)"
  have anchor: "dget sample_state ''anchor'' = PDict ?old"
    by (simp add: sample_state_def dget_def dget_or_def)
  have fields: "dget (sample_at n w) ''monotonic_ns'' = PInt n" "dget (sample_at n w) ''unix_ns'' = PInt n"
    "dget (sample_at n w) ''watts'' = PFloat (Fin w)" "dget (sample_at n w) ''boot_id'' = PStr sample_boot"
    "dget (sample_at n w) ''device'' = PStr sample_device" for n w
    by (simp_all add: sample_at_def dget_def dget_or_def)
  have "to_float 0 = Fin 0" using to_float_exact [of 0 0] by simp
  then have "advance_interval sample_state ?old ?cur =
    Inr (dset (dset sample_state ''output_energy_joules'' (PFloat (Fin 1500))) ''covered_seconds'' (PFloat (Fin 10)), ''available'')"
    by (simp add: advance_interval_def fields ANCHOR_KEYS_def sample_seconds sample_joules
        within_gap_def MAX_GAP_SECONDS_def CLOCK_TOLERANCE_SECONDS_def flt_sub_Fin)
  moreover have "dset (dset (dset sample_state ''output_energy_joules'' (PFloat (Fin 1500)))
      ''covered_seconds'' (PFloat (Fin 10))) ''anchor'' (PDict ?cur) = sample_result"
    by (simp add: sample_state_def sample_result_def)
  ultimately show ?thesis
    using sample_state_ok sample_anchor_ok sample_result_ok
    by (simp add: advance_def Let_def validate_state_def anchor)
qed

theorem advance_counts_observed_intervals_witness:
  "sample_reason sample_state (sample_at 11000000000 200) = ''available''
   \<and> (\<exists>t. covered sample_result = rnd (covered sample_state + t)
        \<and> joules sample_result = rnd (joules sample_state + trapezoid 100 200 t))"
proof -
  have "dget sample_state ''anchor'' = PDict (current_anchor (sample_at 1000000000 100))"
    by (simp add: sample_state_def dget_def dget_or_def)
  moreover have "rat_of (dget (sample_at n w) ''watts'') = w" for n w
    by (simp add: sample_at_def dget_def dget_or_def)
  ultimately show ?thesis
    using advance_counts_observed_intervals [OF sample_state_ok sample_state_totals sample_advance]
    by (auto simp: ANCHOR_KEYS_def)
qed

text \<open>C22: whatever the file held and whatever the sample is, the only exception
  \<open>advance\<close> raises is a \<open>ValueError\<close>: none of its arithmetic can raise a type,
  overflow or division error.\<close>

theorem advance_raises_only_ValueError:
  assumes "advance previous sample = Inl e" shows "\<exists>m. e = ValueError m"
  using advance_Inl [OF assms] .

theorem advance_raises_only_ValueError_witness:
  "advance (Some PNone) [] = Inl (ValueError ''invalid PSU energy state; retain for owner inspection'')
   \<and> (\<exists>m. ValueError ''invalid PSU energy state; retain for owner inspection'' = ValueError m)"
proof -
  have h: "advance (Some PNone) [] = Inl (ValueError ''invalid PSU energy state; retain for owner inspection'')"
    by (simp add: advance_def validate_state_def state_ok_def)
  show ?thesis using h advance_raises_only_ValueError [OF h] by blast
qed

subsection \<open>The counter over a sequence of samples\<close>

text \<open>What the state file holds after one round of \<open>Directory.energy\<close> whose file
  operations succeed: an exception of \<open>advance\<close> leaves it, and no file is created while
  there is nothing to anchor.\<close>

definition observe :: "pydict option \<Rightarrow> pydict \<Rightarrow> pydict option" where
  "observe stored sample =
     (case advance (map_option PDict stored) sample of
        Inl _ \<Rightarrow> stored
      | Inr (state, _) \<Rightarrow> if stored = None \<and> dget state ''anchor'' = PNone then None else Some state)"

definition stored_ok :: "pydict option \<Rightarrow> bool" where
  "stored_ok stored = (case stored of None \<Rightarrow> True | Some d \<Rightarrow> state_ok (PDict d) \<and> float_totals d)"

definition stored_joules :: "pydict option \<Rightarrow> rat" where
  "stored_joules stored = (case stored of None \<Rightarrow> 0 | Some d \<Rightarrow> joules d)"

lemma advance_None: "advance None sample = advance (Some (PDict initial_state)) sample"
  using initial_state_ok by (simp add: advance_def validate_state_def)

lemma observe_step:
  assumes "stored_ok stored"
  shows "stored_ok (observe stored sample)" "stored_joules stored \<le> stored_joules (observe stored sample)"
proof -
  let ?d = "case stored of None \<Rightarrow> initial_state | Some d \<Rightarrow> d"
  have ok: "state_ok (PDict ?d)" "float_totals ?d"
    using assms by (auto simp: stored_ok_def initial_state_ok initial_totals split: option.splits)
  have adv: "advance (map_option PDict stored) sample = advance (Some (PDict ?d)) sample"
    by (simp add: advance_None split: option.splits)
  have j: "stored_joules stored = joules ?d"
    by (simp add: stored_joules_def initial_totals split: option.splits)
  have "stored_ok (observe stored sample) \<and> stored_joules stored \<le> stored_joules (observe stored sample)"
  proof (cases "advance (Some (PDict ?d)) sample")
    case (Inl e)
    then show ?thesis using assms by (simp add: observe_def adv)
  next
    case (Inr sr)
    obtain s r where sr: "sr = (s, r)" by (cases sr)
    have "state_ok (PDict s) \<and> float_totals s \<and> joules ?d \<le> joules s"
      using advance_step [OF ok Inr [unfolded sr]] by blast
    then show ?thesis using Inr sr j
      by (auto simp: observe_def adv stored_ok_def stored_joules_def initial_totals)
  qed
  then show "stored_ok (observe stored sample)" "stored_joules stored \<le> stored_joules (observe stored sample)"
    by simp_all
qed

interpretation psu_counter: monotone_run observe stored_ok stored_joules
  by unfold_locales (simp_all add: observe_step)

text \<open>C7: over any sequence of samples, from any state file the program can have written
  (or none), the energy total on disk never decreases and the file stays valid.\<close>

theorem energy_total_monotone:
  assumes "stored_ok stored"
  shows "stored_joules stored \<le> stored_joules (foldl observe stored samples)
    \<and> stored_ok (foldl observe stored samples)"
  using psu_counter.run_mono [OF assms] psu_counter.run_inv [OF assms] by blast

theorem energy_total_monotone_witness:
  "stored_joules None \<le> stored_joules (foldl observe None [sample_at 1 5, sample_at 2 6])"
proof -
  have "stored_ok None" by (simp add: stored_ok_def)
  from energy_total_monotone [OF this] show ?thesis by blast
qed

subsection \<open>Discovery and the state file\<close>

lemma read_at_Inl: "read_at d n l = Inl e \<Longrightarrow> os_or_value e"
  by (auto simp: read_at_def split: attr.splits if_splits)

lemma open_dir_Inl: "open_dir x = Inl e \<Longrightarrow> os_or_value e"
  by (cases x) auto

lemma psu_watts_value:
  assumes "digits s" "length s \<le> 12"
  shows "\<exists>w. int_truediv (int_of_digits s) 1000000 = Inr (Fin w) \<and> 0 \<le> w"
proof -
  have b: "0 \<le> int_of_digits s" "int_of_digits s < 10 ^ length s"
    using assms int_of_digits_bounds [of s] by (auto simp: digits_def)
  have "(10::int) ^ length s \<le> 10 ^ 12" using assms by (intro power_increasing) simp_all
  with b have "int_of_digits s < 10 ^ 12" by linarith
  then have "(of_int (int_of_digits s) :: rat) < of_int (10 ^ 12)" by (simp only: of_int_less_iff)
  then have le: "of_int (int_of_digits s) / 1000000 \<le> (2 ^ 40 :: rat)" by simp
  have "(2::rat) ^ 40 \<le> 2 ^ 1023" by (rule power_increasing) simp_all
  with le have "of_int (int_of_digits s) / 1000000 \<le> (2 ^ 1023 :: rat)" by linarith
  then show ?thesis
    using b binary64.fl_nonneg [of "of_int (int_of_digits s) / 1000000"]
    by (simp add: int_truediv_def to_float_small)
qed

lemma psu_watts_Inr: assumes "psu_watts s = Inr w" shows "finite_num (PFloat w) MAX_POWER_WATTS"
proof -
  have d: "digits s" "length s \<le> 12" using assms by (auto simp: psu_watts_def split: if_splits)
  obtain q where "int_truediv (int_of_digits s) 1000000 = Inr (Fin q)" "0 \<le> q"
    using psu_watts_value [OF d] by blast
  then show ?thesis using assms d by (auto simp: psu_watts_def flt_finite_def split: if_splits)
qed

lemma psu_watts_Inl: assumes "psu_watts s = Inl e" shows "os_or_value e"
proof (cases "digits s \<and> length s \<le> 12")
  case True
  then obtain q where "int_truediv (int_of_digits s) 1000000 = Inr (Fin q)" "0 \<le> q"
    using psu_watts_value by blast
  then show ?thesis using assms True by (auto simp: psu_watts_def split: if_splits)
next
  case False
  then show ?thesis using assms by (auto simp: psu_watts_def split: if_splits)
qed

lemma rail_step_Inl: "rail_step d rails row = Inl e \<Longrightarrow> os_or_value e"
  by (auto simp: rail_step_def split: prod.splits sum.splits if_splits dest: read_at_Inl psu_watts_Inl)

lemma read_sensor_Inl: "read_sensor d = Inl e \<Longrightarrow> os_or_value e"
  by (auto simp: read_sensor_def split: sum.splits if_splits
      dest: read_at_Inl psu_watts_Inl foldM_res_Inl rail_step_Inl)

lemma read_sensor_Inr: "read_sensor d = Inr (w, rails) \<Longrightarrow> finite_num (PFloat w) MAX_POWER_WATTS"
  by (auto simp: read_sensor_def split: sum.splits if_splits dest: psu_watts_Inr)

text \<open>A failure of the scan is one of the caught exceptions or comes from resolving the path of an entry.\<close>

definition unresolved :: "hwmon_entry list \<Rightarrow> exn \<Rightarrow> bool" where
  "unresolved es e = (\<exists>x \<in> set es. hwmon_name (he_name x) \<and> he_path x = Inl e)"

lemma scan_hwmon_Inl: "scan_hwmon n ms es = Inl e \<Longrightarrow> os_or_value e \<or> unresolved es e"
proof (induction es arbitrary: n ms)
  case Nil
  then show ?case by simp
next
  case (Cons x es)
  have IH: "scan_hwmon k xs es = Inl e \<Longrightarrow> os_or_value e \<or> unresolved (x # es) e" for k xs
    using Cons.IH by (auto simp: unresolved_def)
  show ?case
  proof (cases "he_path x")
    case (Inl y)
    then show ?thesis using Cons.prems IH by (auto simp: unresolved_def split: if_splits)
  next
    case path: (Inr p)
    show ?thesis
    proof (cases "open_dir (he_dir x)")
      case (Inl y)
      then show ?thesis using Cons.prems path IH open_dir_Inl by (auto split: if_splits)
    next
      case (Inr d)
      then show ?thesis using Cons.prems path IH read_at_Inl
        by (auto split: if_splits sum.splits)
    qed
  qed
qed

text \<open>C23: \<open>collect\<close> turns every failure into a sample that says why, except an exception that is neither an \<open>OSError\<close> nor
  a \<open>ValueError\<close> and comes from resolving a path or listing the class directory: it is raised.  (With
  \<open>resolve(strict=True)\<close> a loop of links is such a \<open>RuntimeError\<close>.)  A sample has a wattage
  exactly when its reason is \<open>available\<close>; then the wattage is a finite float in
  \<open>[0, 100000]\<close>, and exactly one hwmon entry is a Corsair supply.\<close>

theorem collect_raises_only_unresolved:
  "case collect sha scandir reopen proc clock of
     Inl e \<Rightarrow> \<not> os_or_value e \<and> (case scandir of Inl e' \<Rightarrow> e' = e | Inr es \<Rightarrow> unresolved es e)
   | Inr s \<Rightarrow> (dget s ''reason'' = PStr ''available'' \<longleftrightarrow> dget s ''watts'' \<noteq> PNone)
       \<and> (dget s ''watts'' \<noteq> PNone \<longrightarrow> finite_num (dget s ''watts'') MAX_POWER_WATTS
            \<and> (\<exists>es path. scandir = Inr es \<and> scan_hwmon 0 [] es = Inr [path]))"
proof -
  let ?body = "collect_body sha scandir reopen proc clock"
  have ok: "os_or_value e \<or> (case scandir of Inl e' \<Rightarrow> e' = e | Inr es \<Rightarrow> unresolved es e)" if "?body = Inl e" for e
    using that
    by (auto simp: collect_body_def Let_def split: sum.splits if_splits
        dest: scan_hwmon_Inl open_dir_Inl read_sensor_Inl)
  have un: "dget (unavailable r) ''reason'' = PStr r" "dget (unavailable r) ''watts'' = PNone" for r
    by (simp_all add: unavailable_def dget_def dget_or_def)
  show ?thesis
  proof (cases ?body)
    case (Inl e)
    then show ?thesis using ok [OF Inl] un by (auto simp: collect_def)
  next
    case (Inr s)
    then show ?thesis
      using un read_sensor_Inr
      by (auto simp: collect_def collect_body_def Let_def length_Suc_conv dget_def [of "_ # _"] dget_or_def
          split: sum.splits if_splits prod.splits list.splits)
  qed
qed

definition sample_attrs :: attr_dir where
  "sample_attrs n =
     (if n = ''name'' then Contents ''corsairpsu''
      else if n = ''power1_label'' then Contents ''power total''
      else if n = ''power1_input'' then Contents ''250000000'' else Absent)"

definition sample_entry :: hwmon_entry where
  "sample_entry = \<lparr>he_name = ''hwmon3'', he_path = Inr [''pci0'', ''usb1'', ''hwmon'', ''hwmon3''],
                   he_dir = Opened sample_attrs\<rparr>"

definition looped_entry :: hwmon_entry where
  "looped_entry = sample_entry\<lparr>he_path := Inl (RuntimeError ''Symlink loop'')\<rparr>"

text \<open>One readable supply; and a loop of links, which escapes.\<close>

lemma collect_samples:
  "case collect (\<lambda>_. sample_device) (Inr [sample_entry]) (\<lambda>_. Opened sample_attrs) Vanished (1, 2) of
     Inl _ \<Rightarrow> False | Inr s \<Rightarrow> dget s ''watts'' = PFloat (Fin 250)"
  "collect (\<lambda>_. sample_device) (Inr [looped_entry]) (\<lambda>_. Opened sample_attrs) Vanished (1, 2) = Inl (RuntimeError ''Symlink loop'')"
  by code_simp+

theorem collect_raises_only_unresolved_witness:
  "(\<exists>s. collect (\<lambda>_. sample_device) (Inr [sample_entry]) (\<lambda>_. Opened sample_attrs) Vanished (1, 2) = Inr s
      \<and> finite_num (dget s ''watts'') MAX_POWER_WATTS)
   \<and> unresolved [looped_entry] (RuntimeError ''Symlink loop'')"
proof -
  let ?c = "\<lambda>es. collect (\<lambda>_. sample_device) (Inr es) (\<lambda>_. Opened sample_attrs) Vanished (1, 2)"
  obtain s where s: "?c [sample_entry] = Inr s" "dget s ''watts'' = PFloat (Fin 250)"
    using collect_samples(1) by (auto split: sum.splits)
  from collect_raises_only_unresolved [where sha = "\<lambda>_. sample_device" and scandir = "Inr [sample_entry]"
      and reopen = "\<lambda>_. Opened sample_attrs" and proc = Vanished and clock = "(1, 2)"] s
  have "finite_num (dget s ''watts'') MAX_POWER_WATTS" by simp
  moreover from collect_raises_only_unresolved [where sha = "\<lambda>_. sample_device" and scandir = "Inr [looped_entry]"
      and reopen = "\<lambda>_. Opened sample_attrs" and proc = Vanished and clock = "(1, 2)"]
  have "unresolved [looped_entry] (RuntimeError ''Symlink loop'')" by (simp add: collect_samples(2))
  ultimately show ?thesis using s by blast
qed

lemma read_state_Inl:
  assumes "read_state parse dir = Inl e"
    and "\<And>s y. parse s = Inl y \<Longrightarrow> is_ValueError y \<or> y = RecursionError"
  shows "os_or_value e \<or> e = RecursionError"
proof -
  have hook: "os_or_value y" if "loads_unique False m tree = Inl y" for m tree y
    using that
  proof (induction False m tree arbitrary: y rule: loads_unique.induct)
    case (2 msg ts)
    have "mapM_res (loads_unique False msg) xs = Inl e \<Longrightarrow> set xs \<subseteq> set ts \<Longrightarrow> os_or_value e" for xs e
      using 2(1) by (induction xs) (auto split: sum.splits)
    then show ?case using 2(2) by (auto split: sum.splits)
  next
    case (3 msg kvs)
    have "mapM_res (\<lambda>kt. case loads_unique False msg (snd kt) of Inl e \<Rightarrow> Inl e | Inr v \<Rightarrow> Inr (fst kt, v)) xs
        = Inl e \<Longrightarrow> set xs \<subseteq> set kvs \<Longrightarrow> os_or_value e" for xs e
      using 3(1) by (induction xs) (auto split: sum.splits)
    then show ?case using 3(2) by (auto split: sum.splits dest: pairs_Inl)
  qed auto
  show ?thesis
    using assms hook
    by (auto simp: read_state_def file_check_def split: fentry.splits sum.splits if_splits option.splits
        dest!: validate_state_Inl)
qed

text \<open>What holds of the directory while the state file is written: nothing but the state file and the temporary file changes, and
  the state file is the old one, what another process put there, or the complete new one.\<close>

definition found :: "write_env \<Rightarrow> state_dir \<Rightarrow> fentry set" where
  "found env dir = {dir STATE_FILE} \<union> set_option (we_other env)"

definition only_replaces :: "write_env \<Rightarrow> state_dir \<Rightarrow> string \<Rightarrow> state_dir \<Rightarrow> bool" where
  "only_replaces env dir text d =
     ((\<forall>n. n \<noteq> STATE_FILE \<and> n \<noteq> temp_name env \<longrightarrow> d n = dir n)
      \<and> (d STATE_FILE \<in> found env dir \<or> d STATE_FILE = own_file 384 text))"

lemma temp_name_differs [simp]: "temp_name env \<noteq> STATE_FILE" "STATE_FILE \<noteq> temp_name env"
  by (simp_all add: temp_name_def STATE_FILE_def)

lemma check_existing_Inl: "check_existing dir name m = Inl e \<Longrightarrow> os_or_value e"
  by (auto simp: check_existing_def file_check_def split: fentry.splits if_splits)

lemma check_existing_entry: "check_existing d n m = check_existing (\<lambda>_. d n) n m"
  by (simp add: check_existing_def)

definition refused_entry :: "fentry \<Rightarrow> bool" where
  "refused_entry e = (check_existing (\<lambda>_. e) STATE_FILE (Some 384) \<noteq> Inr ())"

lemma write_temp_spec:
  assumes "write_temp env d text 384 = (ds, r)"
  shows "ds \<noteq> [] \<and> (\<forall>x \<in> set ds. \<exists>e. x = d(temp_name env := e))
    \<and> (\<forall>e. r = Inl e \<longrightarrow> e = OSError) \<and> (r = Inr () \<longrightarrow> last ds = d(temp_name env := own_file 384 text))"
  using assms by (auto simp: write_temp_def Let_def split: if_splits)

lemma write_replace_spec:
  assumes "write_replace env d STATE_FILE = (ds, r, left)" and "d (temp_name env) = own_file 384 text"
  shows "ds \<noteq> [] \<and> (\<forall>x \<in> set ds. only_replaces env d text x) \<and> (\<forall>e. r = Inl e \<longrightarrow> os_or_value e)
    \<and> (\<not> left \<longrightarrow> last ds (temp_name env) = NoFile \<and> last ds STATE_FILE = own_file 384 text
         \<and> (r = Inr () \<or> we_fails env SyncDirectory))
    \<and> (left \<longrightarrow> last ds STATE_FILE \<in> found env d \<and> r \<noteq> Inr ())
    \<and> (\<forall>e. we_other env = Some e \<and> refused_entry e \<longrightarrow> left)"
proof -
  have os: "os_or_value OSError" by (simp add: os_or_value_def)
  have seen: "check_existing (d(STATE_FILE := e)) STATE_FILE m = check_existing (\<lambda>_. e) STATE_FILE m" for e m
    by (simp add: check_existing_def)
  show ?thesis
    using assms os
    by (cases "we_other env")
      (auto simp: write_replace_def Let_def existing_mode_def only_replaces_def found_def refused_entry_def seen
        dest: check_existing_Inl split: sum.splits if_splits)
qed

lemma only_replaces_refl: "only_replaces env dir text dir"
  by (simp add: only_replaces_def found_def)

lemma only_replaces_temp:
  "only_replaces env dir text (dir(temp_name env := e))"
  "only_replaces env (dir(temp_name env := e)) text d \<Longrightarrow> only_replaces env dir text d"
  "only_replaces env dir text d \<Longrightarrow> only_replaces env dir text (d(temp_name env := e))"
  by (auto simp: only_replaces_def found_def)

text \<open>The whole of \<open>write\<close> on the state file.\<close>

lemma write_file_spec:
  assumes "write_file env dir STATE_FILE text 384 = (ds, r)"
  shows "ds \<noteq> [] \<and> hd ds = dir \<and> (\<forall>d \<in> set ds. only_replaces env dir text d)
    \<and> (\<forall>e. r = Inl e \<longrightarrow> os_or_value e)
    \<and> (r = Inr () \<longrightarrow> last ds STATE_FILE = own_file 384 text)
    \<and> (last ds STATE_FILE \<in> found env dir \<or> r = Inr () \<or> we_fails env SyncDirectory)
    \<and> (\<not> we_fails env UnlinkTemp \<longrightarrow> last ds (temp_name env) = dir (temp_name env))
    \<and> (\<forall>e. we_other env = Some e \<and> refused_entry e \<longrightarrow> last ds STATE_FILE \<in> {dir STATE_FILE, e})"
proof -
  let ?tmp = "temp_name env"
  have os: "os_or_value OSError" by (simp add: os_or_value_def)
  consider (early) e where "write_file env dir STATE_FILE text 384 = ([dir], Inl e)" "os_or_value e"
    | (late) "dir ?tmp = NoFile" "write_file env dir STATE_FILE text 384 =
        (case write_temp env (dir(?tmp := own_file 384 [])) text 384 of (filling, r) \<Rightarrow>
         case (case r of Inl e \<Rightarrow> ([], Inl e, True) | Inr _ \<Rightarrow> write_replace env (last filling) STATE_FILE) of (replacing, r', temporary) \<Rightarrow>
         let states = dir # dir(?tmp := own_file 384 []) # filling @ replacing in
         if \<not> temporary then (states, r') else if we_fails env UnlinkTemp then (states, Inl OSError)
         else (states @ [(last states)(?tmp := NoFile)], r'))"
  proof (cases "check_existing dir STATE_FILE (existing_mode STATE_FILE)")
    case (Inl e)
    then show ?thesis by (intro early [of e] check_existing_Inl [OF Inl]) (simp add: write_file_def)
  next
    case (Inr u)
    show ?thesis
    proof (cases "we_fails env OpenTemp \<or> dir ?tmp \<noteq> NoFile")
      case True
      then show ?thesis by (intro early [of OSError] os) (simp add: write_file_def Inr)
    next
      case False
      then show ?thesis by (intro late) (simp_all add: write_file_def Inr Let_def)
    qed
  qed
  then show ?thesis
  proof cases
    case early
    then show ?thesis using assms by (auto simp: only_replaces_refl found_def)
  next
    case late
    let ?d0 = "dir(?tmp := own_file 384 [])"
    obtain filling w where w: "write_temp env ?d0 text 384 = (filling, w)" by fastforce
    note fs = write_temp_spec [OF w]
    have fill: "only_replaces env dir text x \<and> x STATE_FILE = dir STATE_FILE" if "x \<in> set filling" for x
      using fs that only_replaces_temp(1) by fastforce
    show ?thesis
    proof (cases w)
      case (Inl e)
      then show ?thesis
        using assms late w fs fill os last_in_set [of filling]
        by (auto simp: Let_def only_replaces_refl only_replaces_temp found_def split: if_splits)
    next
      case (Inr u)
      have ready: "last filling = dir(?tmp := own_file 384 text)" using fs Inr by simp
      obtain replacing r' left where rp: "write_replace env (last filling) STATE_FILE = (replacing, r', left)"
        by (metis prod_cases3)
      note rs = write_replace_spec [OF rp, of "text", unfolded ready]
      have rs': "replacing \<noteq> []" "\<And>x. x \<in> set replacing \<Longrightarrow> only_replaces env dir text x" "\<And>e. r' = Inl e \<Longrightarrow> os_or_value e"
        "\<not> left \<Longrightarrow> last replacing ?tmp = NoFile \<and> last replacing STATE_FILE = own_file 384 text \<and> (r' = Inr () \<or> we_fails env SyncDirectory)"
        "left \<Longrightarrow> last replacing STATE_FILE \<in> found env dir \<and> r' \<noteq> Inr ()"
        "\<And>e. we_other env = Some e \<and> refused_entry e \<Longrightarrow> left"
        using rs only_replaces_temp(2) by (auto simp: found_def)
      have states: "ds = (dir # ?d0 # filling @ replacing) @ (if left \<and> \<not> we_fails env UnlinkTemp then [(last replacing)(?tmp := NoFile)] else [])"
        "r = (if left \<and> we_fails env UnlinkTemp then Inl OSError else r')"
        using assms late w Inr rp rs'(1) by (auto simp: Let_def split: if_splits)
      have kept: "\<forall>d \<in> set ds. only_replaces env dir text d"
        using fill rs'(1,2) only_replaces_refl only_replaces_temp(1,3) last_in_set [OF rs'(1)] unfolding states by auto
      show ?thesis
      proof (cases left)
        case True
        then show ?thesis using kept states rs' os late(1) by (auto simp: found_def)
      next
        case False
        then show ?thesis using kept states rs' os late(1) by auto
      qed
    qed
  qed
qed

lemma advance_valid: "advance previous sample = Inr (s, r) \<Longrightarrow> state_ok (PDict s)"
proof -
  assume step: "advance previous sample = Inr (s, r)"
  have valid: "case previous of None \<Rightarrow> True | Some p \<Rightarrow> state_ok p"
    using step by (cases previous) (auto simp: advance_def split: sum.splits)
  note spec = advance_spec(1) [OF valid, of sample] advance_spec(2) [OF valid]
  show "state_ok (PDict s)"
  proof (cases "anchor_ok (PDict (current_anchor sample))")
    case False
    then show ?thesis using step spec(1) state_ok_anchor [OF spec(2), of PNone] by simp
  next
    case True
    then show ?thesis using step spec(1) by (auto split: sum.splits)
  qed
qed

lemma read_own_state:
  assumes "d STATE_FILE = own_file 384 text" "length text \<le> MAX_STATE_BYTES" "parse text = Inr tree"
    and "loads_unique False ''duplicate energy state key'' tree = Inr (PDict s)" "state_ok (PDict s)"
  shows "read_state parse d = Inr (Some s)"
  using assms by (simp add: read_state_def own_file_def file_check_def validate_state_def)

text \<open>C11: the energy update of a state directory never raises, when reading JSON fails at most with a
  \<open>ValueError\<close> or a \<open>RecursionError\<close>, whichever system calls fail and whatever another process puts under the name
  meanwhile.  Through all the states of the directory nothing but the state file and the temporary file changes, and the state file is
  the old one, the one of the other process, or the complete owner-only file of the next state, which is valid.
  The temporary file is gone at the end unless its removal failed.  With a state as result, the file holds exactly this state, and reading it
  gives the state back when the JSON round trip does and the size is in bounds; without one, the file is not the new one, unless the last
  directory sync failed after the rename.  A link, a foreign or an unsafe file put there in between is never replaced.\<close>

theorem energy_update_is_atomic:
  assumes "\<And>s y. parse s = Inl y \<Longrightarrow> is_ValueError y \<or> y = RecursionError"
  shows "\<exists>ds s reason. energy parse dumps env dir sample = (ds, Inr (s, reason)) \<and> ds \<noteq> [] \<and> hd ds = dir
    \<and> (\<forall>d \<in> set ds. d = dir \<or> (\<exists>previous st r. read_state parse dir = Inr previous
         \<and> advance (map_option PDict previous) sample = Inr (st, r) \<and> state_ok (PDict st)
         \<and> only_replaces env dir (dumps st @ [CHR 0x0A]) d))
    \<and> (\<not> we_fails env UnlinkTemp \<longrightarrow> last ds (temp_name env) = dir (temp_name env))
    \<and> (\<forall>e. we_other env = Some e \<and> refused_entry e \<longrightarrow> last ds STATE_FILE \<in> {dir STATE_FILE, e})
    \<and> (case s of
         None \<Rightarrow> reason \<in> {''state_unavailable'', ''sample_unavailable''}
           \<and> (last ds STATE_FILE \<in> found env dir \<or> we_fails env SyncDirectory)
       | Some st \<Rightarrow> (\<exists>previous. read_state parse dir = Inr previous \<and> advance (map_option PDict previous) sample = Inr (st, reason))
           \<and> state_ok (PDict st) \<and> last ds STATE_FILE = own_file 384 (dumps st @ [CHR 0x0A])
           \<and> (\<forall>tree. length (dumps st @ [CHR 0x0A]) \<le> MAX_STATE_BYTES \<and> parse (dumps st @ [CHR 0x0A]) = Inr tree
                \<and> loads_unique False ''duplicate energy state key'' tree = Inr (PDict st)
                \<longrightarrow> read_state parse (last ds) = Inr (Some st)))"
proof -
  have quiet: "dir STATE_FILE \<in> found env dir" by (simp add: found_def)
  have fails: "energy parse dumps env dir sample = ([dir], Inr (None, ''state_unavailable''))"
    if "energy_body parse dumps env dir sample = ([dir], Inl e)" "os_or_value e \<or> e = RecursionError" for e
    using that by (simp add: energy_def)
  show ?thesis
  proof (cases "read_state parse dir")
    case (Inl e)
    then show ?thesis using fails [of e] read_state_Inl [OF Inl assms] quiet by (simp add: energy_body_def)
  next
    case prev: (Inr previous)
    show ?thesis
    proof (cases "advance (map_option PDict previous) sample")
      case (Inl e)
      then show ?thesis using fails [of e] prev advance_Inl [OF Inl] quiet by (auto simp: energy_body_def os_or_value_def)
    next
      case (Inr sr)
      obtain st reason where sr: "sr = (st, reason)" by (cases sr)
      have ok: "state_ok (PDict st)" using advance_valid Inr sr by blast
      show ?thesis
      proof (cases "previous = None \<and> dget st ''anchor'' = PNone")
        case True
        then show ?thesis using prev Inr sr quiet by (simp add: energy_def energy_body_def)
      next
        case False
        obtain ds w where w: "write_file env dir STATE_FILE (dumps st @ [CHR 0x0A]) 384 = (ds, w)" by fastforce
        note ws = write_file_spec [OF w]
        have body: "energy_body parse dumps env dir sample = (ds, case w of Inl e \<Rightarrow> Inl e | Inr _ \<Rightarrow> Inr (Some st, reason))"
          using False by (auto simp: energy_body_def prev Inr sr w)
        have e: "energy parse dumps env dir sample = (ds, Inr (case w of Inl e \<Rightarrow> (None, ''state_unavailable'') | Inr _ \<Rightarrow> (Some st, reason)))"
          using body ws by (cases w) (simp_all add: energy_def)
        have each: "\<forall>d \<in> set ds. \<exists>previous st r. read_state parse dir = Inr previous
           \<and> advance (map_option PDict previous) sample = Inr (st, r) \<and> state_ok (PDict st)
           \<and> only_replaces env dir (dumps st @ [CHR 0x0A]) d"
          using ws prev Inr sr ok by blast
        have reread: "read_state parse (last ds) = Inr (Some st)"
          if "w = Inr ()" "length (dumps st @ [CHR 0x0A]) \<le> MAX_STATE_BYTES" "parse (dumps st @ [CHR 0x0A]) = Inr tree"
            "loads_unique False ''duplicate energy state key'' tree = Inr (PDict st)" for tree
          using ws that ok by (intro read_own_state) simp_all
        show ?thesis
          using ws each reread prev Inr sr ok by (cases w) (auto simp: e)
      qed
    qed
  qed
qed

definition calm :: write_env where
  "calm = \<lparr>we_fails = (\<lambda>_. False), we_partial = 1, we_token = ''00'', we_other = None\<rparr>"

lemma calm_energy:
  "snd (energy (\<lambda>_. Inl JSONDecodeError) (\<lambda>_. ''{}'') calm (\<lambda>_. NoFile) (sample_at 1000000000 100)) = Inr (Some sample_state, ''new_interval'')"
  by code_simp

theorem energy_update_is_atomic_witness:
  "\<exists>ds. energy (\<lambda>_. Inl JSONDecodeError) (\<lambda>_. ''{}'') calm (\<lambda>_. NoFile) (sample_at 1000000000 100)
       = (ds, Inr (Some sample_state, ''new_interval''))
     \<and> state_ok (PDict sample_state) \<and> last ds STATE_FILE = own_file 384 (''{}'' @ [CHR 0x0A])"
proof -
  have h: "\<And>s y. (Inl JSONDecodeError :: jtree res) = Inl y \<Longrightarrow> is_ValueError y \<or> y = RecursionError" by auto
  from energy_update_is_atomic [where parse = "\<lambda>_. Inl JSONDecodeError" and dumps = "\<lambda>_. ''{}''" and env = calm
      and dir = "\<lambda>_. NoFile" and sample = "sample_at 1000000000 100", OF h] calm_energy
  show ?thesis by force
qed

end
