(* ===== verification/Cache_Pool.thy ===== *)
theory Cache_Pool
  imports Py_Prelude
begin

text \<open>
  \<open>infrastructure/hyperloom/sglang-owner-adapter/cache_policy_model.py\<close>: the pool of
  recurrent checkpoints with least-recently-used eviction, path trimming and locks.  The
  \<open>Node\<close> objects of the code are shared by the node list, the chains and the parent and
  children references, so they live in a store: a node is its index in \<open>p_nodes\<close>, in the
  order of creation.  A \<open>RuntimeError\<close> is an \<open>Inl\<close>.
\<close>

section \<open>Pool state\<close>

definition CHUNK :: int where
  "CHUNK = 2048"

definition POOL :: nat where
  "POOL = 19"

record node =
  n_path :: string
  n_pos :: int
  n_parent :: "nat option"
  n_children :: "nat list"
  n_value :: bool
  n_locked :: bool
  n_mru :: nat

datatype event = Evict string int | Trim string int

record pool =
  p_cap :: int
  p_finish_new_leaf :: bool
  p_clock :: nat
  p_nodes :: "node list"
  p_chains :: "(string \<times> (int \<times> nat) list) list"
  p_pinned :: "nat list"
  p_events :: "event list"

definition new_pool :: "int \<Rightarrow> bool \<Rightarrow> pool res" where
  "new_pool cap finish_new_leaf =
     (if cap = 0 \<or> cap < -1
      then Inl (ValueError ''cap must be -1 (unlimited) or a positive integer'')
      else Inr \<lparr>p_cap = cap, p_finish_new_leaf = finish_new_leaf, p_clock = 1, p_nodes = [],
                p_chains = [], p_pinned = [], p_events = []\<rparr>)"

text \<open>\<open>Node(path, pos, parent)\<close> appends itself to the children of its parent; appending to
  \<open>self.nodes\<close> is the next thing both callers do.\<close>

definition new_node :: "string \<Rightarrow> int \<Rightarrow> nat option \<Rightarrow> node" where
  "new_node path pos parent =
     \<lparr>n_path = path, n_pos = pos, n_parent = parent, n_children = [], n_value = False,
      n_locked = False, n_mru = 0\<rparr>"

definition add_child :: "nat option \<Rightarrow> nat \<Rightarrow> node list \<Rightarrow> node list" where
  "add_child parent child nodes =
     (case parent of None \<Rightarrow> nodes
      | Some j \<Rightarrow> nodes[j := (nodes ! j)\<lparr>n_children := n_children (nodes ! j) @ [child]\<rparr>])"

definition append_node :: "node \<Rightarrow> node list \<Rightarrow> node list" where
  "append_node n nodes = add_child (n_parent n) (length nodes) nodes @ [n]"

definition set_node :: "nat \<Rightarrow> (node \<Rightarrow> node) \<Rightarrow> node list \<Rightarrow> node list" where
  "set_node i f nodes = nodes[i := f (nodes ! i)]"

section \<open>Accounting and eviction\<close>

definition used :: "pool \<Rightarrow> nat" where
  "used p = length (filter n_value (p_nodes p)) + length (p_pinned p)"

definition candidates :: "node list \<Rightarrow> nat list" where
  "candidates nodes = filter (\<lambda>i. n_value (nodes ! i) \<and> \<not> n_locked (nodes ! i)) [0..<length nodes]"

text \<open>\<open>min(candidates, key=mru)\<close>: the first of the smallest.\<close>

fun min_by :: "('a \<Rightarrow> nat) \<Rightarrow> 'a \<Rightarrow> 'a list \<Rightarrow> 'a" where
  "min_by key best [] = best"
| "min_by key best (x # xs) = min_by key (if key x < key best then x else best) xs"

definition evict_lru :: "pool \<Rightarrow> pool res" where
  "evict_lru p =
     (case candidates (p_nodes p) of
        [] \<Rightarrow> Inl (RuntimeError ''pool exhausted with only locked states'')
      | c # cs \<Rightarrow>
          let victim = min_by (\<lambda>i. n_mru (p_nodes p ! i)) c cs; n = p_nodes p ! victim
          in Inr (p\<lparr>p_nodes := set_node victim (n_value_update (\<lambda>_. False)) (p_nodes p),
                    p_events := p_events p @ [Evict (n_path n) (n_pos n)]\<rparr>))"

definition allocate :: "pool \<Rightarrow> pool res" where
  "allocate p = (if POOL \<le> used p then evict_lru p else Inr p)"

section \<open>The tree\<close>

definition chain_of :: "pool \<Rightarrow> string \<Rightarrow> (int \<times> nat) list" where
  "chain_of p path = (case map_of (p_chains p) path of None \<Rightarrow> [] | Some c \<Rightarrow> c)"

text \<open>\<open>chain_node\<close>: the node at a position of a path, created below the nearest smaller
  position when there is none.\<close>

definition chain_node :: "pool \<Rightarrow> string \<Rightarrow> int \<Rightarrow> pool \<times> nat" where
  "chain_node p path pos =
     (let chain = chain_of p path in
      case map_of chain pos of
        Some i \<Rightarrow> (p\<lparr>p_chains := dset (p_chains p) path chain\<rparr>, i)
      | None \<Rightarrow>
          let below = filter (\<lambda>q. q < pos) (map fst chain);
              parent = (if below = [] then None else map_of chain (Max (set below)));
              i = length (p_nodes p)
          in (p\<lparr>p_nodes := append_node (new_node path pos parent) (p_nodes p),
                p_chains := dset (p_chains p) path (dset chain pos i)\<rparr>, i))"

text \<open>The holders of a value on the way from a node to its root, deepest first.  A parent is
  created before its child (\<open>wf_pool\<close> below), so the walk goes to smaller indices.\<close>

fun holders :: "node list \<Rightarrow> nat \<Rightarrow> nat list" where
  "holders nodes i =
     (let rest = (case n_parent (nodes ! i) of
                    None \<Rightarrow> []
                  | Some j \<Rightarrow> if j < i then holders nodes j else [])
      in if n_value (nodes ! i) then i # rest else rest)"

declare holders.simps [simp del]

fun trim_loop :: "nat \<Rightarrow> int \<Rightarrow> node list \<Rightarrow> event list \<Rightarrow> nat list \<Rightarrow> node list \<times> event list" where
  "trim_loop tail excess nodes events [] = (nodes, events)"
| "trim_loop tail excess nodes events (i # is) =
     (if excess \<le> 0 \<or> i = tail then (nodes, events)
      else if n_locked (nodes ! i) \<or> length (n_children (nodes ! i)) \<noteq> 1
      then trim_loop tail excess nodes events is
      else trim_loop tail (excess - 1) (set_node i (n_value_update (\<lambda>_. False)) nodes)
             (events @ [Trim (n_path (nodes ! i)) (n_pos (nodes ! i))]) is)"

definition trim :: "pool \<Rightarrow> nat \<Rightarrow> pool" where
  "trim p tail =
     (if p_cap p < 0 then p
      else let hs = holders (p_nodes p) tail;
               (nodes, events) = trim_loop tail (int (length hs) - p_cap p) (p_nodes p) (p_events p) (rev hs)
           in p\<lparr>p_nodes := nodes, p_events := events\<rparr>)"

definition unlock :: "nat option \<Rightarrow> node list \<Rightarrow> node list" where
  "unlock lock nodes = (case lock of None \<Rightarrow> nodes | Some i \<Rightarrow> set_node i (n_locked_update (\<lambda>_. False)) nodes)"

definition insert_stash :: "pool \<Rightarrow> string \<Rightarrow> int \<Rightarrow> nat option \<Rightarrow> (pool \<times> nat) res" where
  "insert_stash p path pos lock =
     (case allocate p of Inl e \<Rightarrow> Inl e | Inr p1 \<Rightarrow>
      let (p2, i) = chain_node p1 path pos;
          nodes = set_node i (\<lambda>n. n\<lparr>n_value := True, n_mru := p_clock p2\<rparr>) (p_nodes p2);
          nodes' = set_node i (n_locked_update (\<lambda>_. True)) (unlock lock nodes);
          p3 = p2\<lparr>p_nodes := nodes', p_clock := Suc (p_clock p2)\<rparr>
      in Inr (trim p3 i, i))"

section \<open>Requests\<close>

fun max_by_pos :: "int \<times> nat \<Rightarrow> (int \<times> nat) list \<Rightarrow> int \<times> nat" where
  "max_by_pos best [] = best"
| "max_by_pos best (x # xs) = max_by_pos (if fst best < fst x then x else best) xs"

definition match_prefix :: "pool \<Rightarrow> string \<Rightarrow> int \<Rightarrow> pool \<times> nat option" where
  "match_prefix p path prompt =
     (case filter (\<lambda>(q, i). n_value (p_nodes p ! i) \<and> q \<le> prompt - 1) (chain_of p path) of
        [] \<Rightarrow> (p, None)
      | h # hits \<Rightarrow>
          let best = snd (max_by_pos h hits)
          in (p\<lparr>p_nodes := set_node best (\<lambda>n. n\<lparr>n_mru := p_clock p, n_locked := True\<rparr>) (p_nodes p),
                p_clock := Suc (p_clock p)\<rparr>, Some best))"

text \<open>\<open>math.ceil((prompt - cached) / CHUNK)\<close>; the float quotient by a power of two is exact
  below 2^53.\<close>

definition chunks_of :: "int \<Rightarrow> int \<Rightarrow> nat" where
  "chunks_of prompt cached = nat (- ((cached - prompt) div CHUNK))"

text \<open>The loop body for the chunks that are not the last; \<open>k\<close> counts those left.\<close>

fun prefill_loop :: "nat \<Rightarrow> pool \<Rightarrow> string \<Rightarrow> int \<Rightarrow> int \<Rightarrow> nat option \<Rightarrow> (pool \<times> nat option) res" where
  "prefill_loop 0 p path prompt pos lock = Inr (p, lock)"
| "prefill_loop (Suc k) p path prompt pos lock =
     (let pos' = min (pos + CHUNK) prompt in
      case insert_stash p path pos' lock of Inl e \<Rightarrow> Inl e
      | Inr (p', i) \<Rightarrow> prefill_loop k p' path prompt pos' (Some i))"

definition prefill :: "pool \<Rightarrow> nat \<Rightarrow> string \<Rightarrow> int \<Rightarrow> (pool \<times> int \<times> nat) res" where
  "prefill p rid path prompt =
     (let (p1, matched) = match_prefix p path prompt;
          cached = (case matched of None \<Rightarrow> 0 | Some i \<Rightarrow> n_pos (p_nodes p1 ! i))
      in case allocate p1 of Inl e \<Rightarrow> Inl e | Inr p2 \<Rightarrow>
      let p3 = p2\<lparr>p_pinned := List.insert rid (p_pinned p2)\<rparr>
      in case prefill_loop (chunks_of prompt cached - 1) p3 path prompt cached matched of
        Inl e \<Rightarrow> Inl e
      | Inr (p4, lock) \<Rightarrow>
          (case insert_stash p4 path prompt lock of Inl e \<Rightarrow> Inl e
           | Inr (p5, i) \<Rightarrow> Inr (p5, cached, i)))"

text \<open>\<open>finish\<close>: the donated leaf is not entered into the chains.\<close>

definition finish_leaf :: "pool \<Rightarrow> string \<Rightarrow> int \<Rightarrow> int \<Rightarrow> pool res" where
  "finish_leaf p path prompt completion =
     (case allocate p of Inl e \<Rightarrow> Inl e | Inr p1 \<Rightarrow>
      case map_of (chain_of p1 path) prompt of None \<Rightarrow> Inl (KeyError path)
      | Some parent \<Rightarrow>
          let leaf = (new_node path (prompt + completion) (Some parent))
                       \<lparr>n_value := True, n_mru := p_clock p1\<rparr>
          in Inr (trim (p1\<lparr>p_nodes := append_node leaf (p_nodes p1), p_clock := Suc (p_clock p1)\<rparr>)
                    (length (p_nodes p1))))"

definition finish :: "pool \<Rightarrow> nat \<Rightarrow> string \<Rightarrow> int \<Rightarrow> int \<Rightarrow> nat \<Rightarrow> pool res" where
  "finish p rid path prompt completion lock =
     (case (if p_finish_new_leaf p then finish_leaf p path prompt completion else Inr p) of
        Inl e \<Rightarrow> Inl e
      | Inr p1 \<Rightarrow>
          Inr (p1\<lparr>p_nodes := set_node lock (\<lambda>n. n\<lparr>n_locked := False, n_mru := p_clock p1\<rparr>) (p_nodes p1),
                  p_clock := Suc (p_clock p1), p_pinned := removeAll rid (p_pinned p1)\<rparr>))"

record request =
  r_rid :: nat
  r_path :: string
  r_prompt :: int
  r_completion :: int

fun prefill_all :: "pool \<Rightarrow> request list \<Rightarrow> (pool \<times> (nat \<times> int) list \<times> (nat \<times> nat) list) res" where
  "prefill_all p [] = Inr (p, [], [])"
| "prefill_all p (r # rs) =
     (case prefill p (r_rid r) (r_path r) (r_prompt r) of Inl e \<Rightarrow> Inl e
      | Inr (p1, cached, lock) \<Rightarrow>
      (case prefill_all p1 rs of Inl e \<Rightarrow> Inl e
       | Inr (p2, cs, ls) \<Rightarrow> Inr (p2, (r_rid r, cached) # cs, (r_rid r, lock) # ls)))"

definition finish_step :: "(nat \<times> nat) list \<Rightarrow> pool \<Rightarrow> request \<Rightarrow> pool res" where
  "finish_step locks p r =
     (case map_of locks (r_rid r) of None \<Rightarrow> Inl (KeyError (show_nat (r_rid r)))
      | Some lock \<Rightarrow> finish p (r_rid r) (r_path r) (r_prompt r) (r_completion r) lock)"

text \<open>\<open>group\<close>: prefill in admission order, finish in the order of the completions
  (\<open>sorted\<close> is stable).  The request ids of a group are distinct ordinals, so the two
  dictionaries are association lists with one entry per request.\<close>

definition group :: "pool \<Rightarrow> request list \<Rightarrow> (pool \<times> (nat \<times> int) list) res" where
  "group p requests =
     (case prefill_all p requests of Inl e \<Rightarrow> Inl e | Inr (p1, cached, locks) \<Rightarrow>
      case foldM_res (finish_step locks) p1 (sort_key r_completion requests) of Inl e \<Rightarrow> Inl e
      | Inr p2 \<Rightarrow> Inr (p2, cached))"

section \<open>Replaying a menu\<close>

definition RETAINED_COMPLETIONS :: "(string \<times> int) list" where
  "RETAINED_COMPLETIONS =
     [(''long-c1-cold'', 737), (''long-c1-warm'', 737), (''long-c2-cold-a'', 804),
      (''long-c2-cold-b'', 538), (''long-c2-warm-a'', 804), (''long-c2-warm-b'', 538)]"

definition NOMINAL_COMPLETION :: int where
  "NOMINAL_COMPLETION = 512"

text \<open>\<open>re.fullmatch(r"r\d+", part)\<close> and \<open>"-".join\<close>\<close>

definition run_part :: "string \<Rightarrow> bool" where
  "run_part part = (starts_with part ''r'' \<and> digits (drop 1 part))"

fun join_dash :: "string list \<Rightarrow> string" where
  "join_dash [] = []"
| "join_dash [p] = p"
| "join_dash (p # ps) = p @ ''-'' @ join_dash ps"

definition completion_for :: "string \<Rightarrow> int" where
  "completion_for case_id =
     (let family = join_dash (filter (\<lambda>part. \<not> run_part part) (split_on (CHR ''-'') case_id))
      in case map_of RETAINED_COMPLETIONS family of None \<Rightarrow> NOMINAL_COMPLETION | Some n \<Rightarrow> n)"

text \<open>A row of the menu: the cache salt, the input tokens and the case.\<close>

record bound_row =
  b_salt :: string
  b_tokens :: int
  b_case :: string

definition request_of :: "(nat \<times> bound_row) list \<Rightarrow> nat \<Rightarrow> request res" where
  "request_of bound ordinal =
     (case map_of bound ordinal of None \<Rightarrow> Inl IndexError
      | Some row \<Rightarrow> Inr \<lparr>r_rid = ordinal, r_path = b_salt row, r_prompt = b_tokens row,
                         r_completion = completion_for (b_case row)\<rparr>)"

definition replay_step ::
  "(nat \<times> bound_row) list \<Rightarrow> bool \<Rightarrow> pool \<times> (nat \<times> int) list \<Rightarrow> nat list \<Rightarrow> (pool \<times> (nat \<times> int) list) res" where
  "replay_step bound b_first s ordinals =
     (case s of (p, results) \<Rightarrow>
       (case mapM_res (request_of bound) (if b_first then rev ordinals else ordinals) of
          Inl e \<Rightarrow> Inl e
        | Inr requests \<Rightarrow>
            (case group p requests of Inl e \<Rightarrow> Inl e
             | Inr (p', cached) \<Rightarrow> Inr (p', foldl (\<lambda>d kv. dset d (fst kv) (snd kv)) results cached))))"

definition replay ::
  "nat list list \<Rightarrow> (nat \<times> bound_row) list \<Rightarrow> int \<Rightarrow> bool \<Rightarrow> string \<Rightarrow> (nat \<times> int) list res" where
  "replay groups bound cap finish_new_leaf admission =
     (if admission \<noteq> ''b-first'' \<and> admission \<noteq> ''a-first''
      then Inl (ValueError ''admission must be b-first or a-first'')
      else case new_pool cap finish_new_leaf of Inl e \<Rightarrow> Inl e | Inr p \<Rightarrow>
      case foldM_res (replay_step bound (admission = ''b-first'')) (p, []) groups of
        Inl e \<Rightarrow> Inl e
      | Inr (p', results) \<Rightarrow> Inr (sort_key fst results))"

section \<open>Lemmas: the store of nodes\<close>

definition vcount :: "node list \<Rightarrow> nat" where
  "vcount nodes = length (filter n_value nodes)"

lemma used_vcount: "used p = vcount (p_nodes p) + length (p_pinned p)"
  by (simp add: used_def vcount_def)

lemma vcount_map: "vcount nodes = length (filter id (map n_value nodes))"
  by (simp add: vcount_def filter_map o_def)

lemma filter_id_update:
  "i < length bs \<Longrightarrow> length (filter id (bs[i := b])) + (if bs ! i then 1 else 0)
     = length (filter id bs) + (if b then 1 else 0)"
proof (induction bs arbitrary: i)
  case (Cons c bs)
  show ?case
  proof (cases i)
    case 0
    then show ?thesis by simp
  next
    case (Suc k)
    with Cons.prems have "k < length bs" by simp
    from Cons.IH [OF this] Suc show ?thesis by (cases c) (simp_all del: if_split)
  qed
qed simp

lemma vcount_set_node:
  assumes "i < length nodes"
  shows "vcount (set_node i f nodes) + (if n_value (nodes ! i) then 1 else 0)
     = vcount nodes + (if n_value (f (nodes ! i)) then 1 else 0)"
  using filter_id_update [of i "map n_value nodes" "n_value (f (nodes ! i))"] assms
  by (simp add: vcount_map set_node_def map_update)

lemma length_set_node [simp]: "length (set_node i f nodes) = length nodes"
  by (simp add: set_node_def)

lemma length_add_child [simp]: "length (add_child parent c nodes) = length nodes"
  by (simp add: add_child_def split: option.splits)

lemma length_append_node [simp]: "length (append_node n nodes) = Suc (length nodes)"
  by (simp add: append_node_def)

lemma nth_set_node: "j < length nodes \<Longrightarrow> set_node i f nodes ! j = (if i = j then f (nodes ! j) else nodes ! j)"
  by (auto simp: set_node_def nth_list_update)

lemma length_unlock [simp]: "length (unlock lock nodes) = length nodes"
  by (simp add: unlock_def split: option.splits)

lemma nth_unlock: "j < length nodes \<Longrightarrow>
    unlock lock nodes ! j = (if lock = Some j then (nodes ! j)\<lparr>n_locked := False\<rparr> else nodes ! j)"
  by (auto simp: unlock_def nth_set_node split: option.splits)

text \<open>Adding a child touches the children of one node only.\<close>

lemma nth_add_child: "j < length nodes \<Longrightarrow>
    \<exists>cs. add_child parent c nodes ! j = (nodes ! j)\<lparr>n_children := cs\<rparr>"
proof (cases parent)
  case None
  then show ?thesis by (intro exI [of _ "n_children (nodes ! j)"]) (simp add: add_child_def)
next
  case (Some i)
  assume "j < length nodes"
  then show ?thesis using Some
    by (cases "i = j")
       (auto simp: add_child_def nth_list_update intro: exI [of _ "n_children (nodes ! j)"])
qed

lemma add_child_fields:
  assumes "j < length nodes"
  shows "n_path (add_child q c nodes ! j) = n_path (nodes ! j)"
    "n_pos (add_child q c nodes ! j) = n_pos (nodes ! j)"
    "n_parent (add_child q c nodes ! j) = n_parent (nodes ! j)"
    "n_value (add_child q c nodes ! j) = n_value (nodes ! j)"
    "n_locked (add_child q c nodes ! j) = n_locked (nodes ! j)"
    "n_mru (add_child q c nodes ! j) = n_mru (nodes ! j)"
  using nth_add_child [OF assms, of q c] by auto

lemma vcount_append_node: "vcount (append_node n nodes) = vcount nodes + (if n_value n then 1 else 0)"
proof -
  have "map n_value (add_child (n_parent n) (length nodes) nodes) = map n_value nodes"
    by (rule nth_equalityI) (simp_all add: add_child_fields)
  then show ?thesis by (simp add: vcount_map append_node_def)
qed

lemma nth_append_node: "j < length nodes \<Longrightarrow> append_node n nodes ! j = add_child (n_parent n) (length nodes) nodes ! j"
  by (simp add: append_node_def nth_append)

lemma nth_append_node_new [simp]: "append_node n nodes ! length nodes = n"
  by (simp add: append_node_def nth_append)

subsection \<open>What eviction and trimming may change\<close>

text \<open>\<open>cleared\<close>: some unlocked nodes lost their value, nothing else changed.\<close>

definition cleared :: "node list \<Rightarrow> node list \<Rightarrow> bool" where
  "cleared ns ms = (length ms = length ns \<and>
     (\<forall>j < length ns. ms ! j = ns ! j \<or> ms ! j = (ns ! j)\<lparr>n_value := False\<rparr> \<and> \<not> n_locked (ns ! j)))"

lemma cleared_refl [simp]: "cleared ns ns"
  by (simp add: cleared_def)

lemma cleared_trans: "cleared ns ms \<Longrightarrow> cleared ms ks \<Longrightarrow> cleared ns ks"
proof -
  assume a: "cleared ns ms" and b: "cleared ms ks"
  have "ks ! j = ns ! j \<or> ks ! j = (ns ! j)\<lparr>n_value := False\<rparr> \<and> \<not> n_locked (ns ! j)"
    if "j < length ns" for j
  proof -
    have "ms ! j = ns ! j \<or> ms ! j = (ns ! j)\<lparr>n_value := False\<rparr> \<and> \<not> n_locked (ns ! j)"
      using a that by (simp add: cleared_def)
    moreover have "ks ! j = ms ! j \<or> ks ! j = (ms ! j)\<lparr>n_value := False\<rparr> \<and> \<not> n_locked (ms ! j)"
      using a b that by (simp add: cleared_def)
    ultimately show ?thesis by (elim disjE conjE) simp_all
  qed
  then show "cleared ns ks" using a b by (simp add: cleared_def)
qed

lemma cleared_set_node: "\<not> n_locked (ns ! i) \<Longrightarrow> cleared ns (set_node i (n_value_update (\<lambda>_. False)) ns)"
  by (auto simp: cleared_def nth_set_node)

lemma vcount_clear: "i < length ns \<Longrightarrow> vcount (set_node i (n_value_update (\<lambda>_. False)) ns)
    = vcount ns - (if n_value (ns ! i) then 1 else 0)"
  using vcount_set_node [of i ns "n_value_update (\<lambda>_. False)"] by simp

lemma cleared_length: "cleared ns ms \<Longrightarrow> length ms = length ns"
  by (simp add: cleared_def)

lemma cleared_fields:
  assumes "cleared ns ms" "j < length ns"
  shows "n_path (ms ! j) = n_path (ns ! j)" "n_pos (ms ! j) = n_pos (ns ! j)"
    "n_parent (ms ! j) = n_parent (ns ! j)" "n_locked (ms ! j) = n_locked (ns ! j)"
    "n_children (ms ! j) = n_children (ns ! j)" "n_mru (ms ! j) = n_mru (ns ! j)"
    "n_value (ms ! j) \<Longrightarrow> n_value (ns ! j)" "n_locked (ns ! j) \<Longrightarrow> ms ! j = ns ! j"
  using assms by (force simp: cleared_def)+

lemma cleared_vcount: assumes "cleared ns ms" shows "vcount ms \<le> vcount ns"
proof -
  have "{j. j < length ms \<and> n_value (ms ! j)} \<subseteq> {j. j < length ns \<and> n_value (ns ! j)}"
    using cleared_fields(7) [OF assms] cleared_length [OF assms] by auto
  then have "card {j. j < length ms \<and> n_value (ms ! j)} \<le> card {j. j < length ns \<and> n_value (ns ! j)}"
    by (intro card_mono) simp_all
  then show ?thesis by (simp add: vcount_def length_filter_conv_card)
qed

lemma min_by_in: "min_by key x xs \<in> insert x (set xs)"
proof (induction xs arbitrary: x)
  case (Cons y ys)
  have "min_by key (if key y < key x then y else x) ys \<in> insert (if key y < key x then y else x) (set ys)"
    by (rule Cons.IH)
  then show ?case by (auto split: if_splits)
qed simp

lemma min_by_le: "y \<in> insert x (set xs) \<Longrightarrow> key (min_by key x xs) \<le> key y"
proof (induction xs arbitrary: x y)
  case (Cons z zs)
  let ?b = "if key z < key x then z else x"
  have b: "key (min_by key ?b zs) \<le> key ?b" by (rule Cons.IH) simp
  have "y \<in> set zs \<Longrightarrow> key (min_by key ?b zs) \<le> key y" by (rule Cons.IH) simp
  with b Cons.prems show ?case by (auto split: if_splits)
qed simp

lemma candidates_iff: "i \<in> set (candidates nodes) \<longleftrightarrow>
    i < length nodes \<and> n_value (nodes ! i) \<and> \<not> n_locked (nodes ! i)"
  by (auto simp: candidates_def)

text \<open>Eviction takes the value of one unlocked node, a least recently used one.\<close>

lemma evict_lru_Inr:
  assumes "evict_lru p = Inr q"
  shows "\<exists>v. v \<in> set (candidates (p_nodes p))
    \<and> (\<forall>i \<in> set (candidates (p_nodes p)). n_mru (p_nodes p ! v) \<le> n_mru (p_nodes p ! i))
    \<and> q = p\<lparr>p_nodes := set_node v (n_value_update (\<lambda>_. False)) (p_nodes p),
           p_events := p_events p @ [Evict (n_path (p_nodes p ! v)) (n_pos (p_nodes p ! v))]\<rparr>"
proof -
  obtain c cs where c: "candidates (p_nodes p) = c # cs"
    using assms by (auto simp: evict_lru_def split: list.splits)
  let ?v = "min_by (\<lambda>i. n_mru (p_nodes p ! i)) c cs"
  have "?v \<in> set (candidates (p_nodes p))" using min_by_in [of _ c cs] by (simp add: c)
  moreover have "\<forall>i \<in> set (candidates (p_nodes p)). n_mru (p_nodes p ! ?v) \<le> n_mru (p_nodes p ! i)"
    using min_by_le [of _ c cs "\<lambda>i. n_mru (p_nodes p ! i)"] by (simp add: c)
  ultimately show ?thesis using assms by (intro exI [of _ ?v]) (simp add: evict_lru_def c Let_def)
qed

lemma allocate_Inr:
  assumes "allocate p = Inr q"
  shows "cleared (p_nodes p) (p_nodes q)" "p_chains q = p_chains p" "p_pinned q = p_pinned p"
    "p_clock q = p_clock p" "p_cap q = p_cap p" "p_finish_new_leaf q = p_finish_new_leaf p"
    "used p \<le> POOL \<Longrightarrow> used q < POOL"
proof -
  have "cleared (p_nodes p) (p_nodes q) \<and> p_chains q = p_chains p \<and> p_pinned q = p_pinned p \<and>
    p_clock q = p_clock p \<and> p_cap q = p_cap p \<and> p_finish_new_leaf q = p_finish_new_leaf p \<and>
    (used p \<le> POOL \<longrightarrow> used q < POOL)"
  proof (cases "POOL \<le> used p")
    case True
    then have "evict_lru p = Inr q" using assms by (simp add: allocate_def)
    from evict_lru_Inr [OF this] obtain v where
      v: "v < length (p_nodes p)" "n_value (p_nodes p ! v)" "\<not> n_locked (p_nodes p ! v)"
      and q: "q = p\<lparr>p_nodes := set_node v (n_value_update (\<lambda>_. False)) (p_nodes p),
           p_events := p_events p @ [Evict (n_path (p_nodes p ! v)) (n_pos (p_nodes p ! v))]\<rparr>"
      by (auto simp: candidates_iff)
    have "vcount (p_nodes q) < vcount (p_nodes p)"
      using vcount_set_node [of v "p_nodes p" "n_value_update (\<lambda>_. False)"] v q by simp
    then show ?thesis using v q by (simp add: cleared_set_node used_vcount)
  next
    case False
    then show ?thesis using assms by (simp add: allocate_def)
  qed
  then show "cleared (p_nodes p) (p_nodes q)" "p_chains q = p_chains p" "p_pinned q = p_pinned p"
    "p_clock q = p_clock p" "p_cap q = p_cap p" "p_finish_new_leaf q = p_finish_new_leaf p"
    "used p \<le> POOL \<Longrightarrow> used q < POOL" by simp_all
qed

text \<open>Allocation can fail only when the locked nodes and the pinned requests fill the pool.\<close>

lemma allocate_total:
  assumes "finite L" "\<And>i. i < length (p_nodes p) \<Longrightarrow> n_locked (p_nodes p ! i) \<Longrightarrow> i \<in> L"
    and "card L + length (p_pinned p) < POOL"
  shows "\<exists>q. allocate p = Inr q"
proof (cases "candidates (p_nodes p)")
  case Nil
  then have none: "i \<notin> set (candidates (p_nodes p))" for i by simp
  have "{i. i < length (p_nodes p) \<and> n_value (p_nodes p ! i)} \<subseteq> L"
    using none assms(2) by (auto simp: candidates_iff)
  then have "vcount (p_nodes p) \<le> card L"
    using assms(1) by (simp add: vcount_def length_filter_conv_card card_mono)
  then have "used p < POOL" using assms(3) by (simp add: used_vcount)
  then show ?thesis by (simp add: allocate_def)
next
  case (Cons c cs)
  then show ?thesis by (simp add: allocate_def evict_lru_def Let_def)
qed

lemma trim_loop_cleared:
  "trim_loop tail x ns es hs = (ms, fs) \<Longrightarrow> cleared ns ms \<and> (tail < length ns \<longrightarrow> ms ! tail = ns ! tail)"
proof (induction hs arbitrary: x ns es)
  case Nil
  then show ?case by simp
next
  case (Cons i hs)
  show ?case
  proof (cases "x \<le> 0 \<or> i = tail")
    case True
    then show ?thesis using Cons.prems by auto
  next
    case go: False
    show ?thesis
    proof (cases "n_locked (ns ! i) \<or> length (n_children (ns ! i)) \<noteq> 1")
      case True
      then show ?thesis using Cons.prems Cons.IH go by simp
    next
      case False
      let ?ns = "set_node i (n_value_update (\<lambda>_. False)) ns"
      have c: "cleared ns ?ns" using False by (simp add: cleared_set_node)
      have "cleared ?ns ms \<and> (tail < length ?ns \<longrightarrow> ms ! tail = ?ns ! tail)"
        by (rule Cons.IH) (use Cons.prems go False in simp)
      then show ?thesis using c cleared_trans go by (auto simp: nth_set_node)
    qed
  qed
qed

lemma trim_frame:
  "cleared (p_nodes p) (p_nodes (trim p i))" "p_chains (trim p i) = p_chains p"
  "p_pinned (trim p i) = p_pinned p" "p_clock (trim p i) = p_clock p" "p_cap (trim p i) = p_cap p"
  "p_finish_new_leaf (trim p i) = p_finish_new_leaf p"
  "i < length (p_nodes p) \<Longrightarrow> p_nodes (trim p i) ! i = p_nodes p ! i"
  using trim_loop_cleared
  by (auto simp: trim_def Let_def split: prod.splits)

subsection \<open>Well-formed pools\<close>

text \<open>Parents precede their children; a chain maps distinct positions to nodes at those
  positions of that path.\<close>

definition wf_pool :: "pool \<Rightarrow> bool" where
  "wf_pool p = ((\<forall>path. distinct (map fst (chain_of p path))) \<and>
     (\<forall>i < length (p_nodes p). \<forall>j. n_parent (p_nodes p ! i) = Some j \<longrightarrow> j < i) \<and>
     (\<forall>path q i. map_of (chain_of p path) q = Some i \<longrightarrow>
        i < length (p_nodes p) \<and> n_path (p_nodes p ! i) = path \<and> n_pos (p_nodes p ! i) = q))"

text \<open>Later pools keep every node's identity and every chain entry.\<close>

definition extends :: "pool \<Rightarrow> pool \<Rightarrow> bool" where
  "extends p q = (length (p_nodes p) \<le> length (p_nodes q) \<and>
     (\<forall>i < length (p_nodes p). n_path (p_nodes q ! i) = n_path (p_nodes p ! i)
        \<and> n_pos (p_nodes q ! i) = n_pos (p_nodes p ! i) \<and> n_parent (p_nodes q ! i) = n_parent (p_nodes p ! i)) \<and>
     (\<forall>path pos i. map_of (chain_of p path) pos = Some i \<longrightarrow> map_of (chain_of q path) pos = Some i))"

lemma extends_refl [simp]: "extends p p"
  by (simp add: extends_def)

lemma extends_trans: "extends p q \<Longrightarrow> extends q r \<Longrightarrow> extends p r"
  unfolding extends_def by (metis order_less_le_trans order_trans)

definition locked_in :: "pool \<Rightarrow> nat set \<Rightarrow> bool" where
  "locked_in p L = (\<forall>i < length (p_nodes p). n_locked (p_nodes p ! i) \<longrightarrow> i \<in> L)"

text \<open>A change of values, locks, use marks and events only.\<close>

definition retouched :: "pool \<Rightarrow> pool \<Rightarrow> bool" where
  "retouched p q = (length (p_nodes q) = length (p_nodes p) \<and> p_chains q = p_chains p \<and>
     (\<forall>i < length (p_nodes p). n_path (p_nodes q ! i) = n_path (p_nodes p ! i)
        \<and> n_pos (p_nodes q ! i) = n_pos (p_nodes p ! i) \<and> n_parent (p_nodes q ! i) = n_parent (p_nodes p ! i)))"

lemma retouched_wf: "retouched p q \<Longrightarrow> wf_pool p \<Longrightarrow> wf_pool q"
  by (auto simp: retouched_def wf_pool_def chain_of_def)

lemma retouched_extends: "retouched p q \<Longrightarrow> extends p q"
  by (auto simp: retouched_def extends_def chain_of_def)

lemma retouched_allocate: "allocate p = Inr q \<Longrightarrow> retouched p q"
  using allocate_Inr(1,2) [of p q] cleared_fields [of "p_nodes p" "p_nodes q"] cleared_length [of "p_nodes p" "p_nodes q"]
  by (simp add: retouched_def)

lemma retouched_trim: "retouched p (trim p i)"
  using trim_frame(1,2) [of p i] cleared_fields [of "p_nodes p" "p_nodes (trim p i)"]
    cleared_length [of "p_nodes p" "p_nodes (trim p i)"]
  by (simp add: retouched_def)

lemma locked_in_cleared: "cleared (p_nodes p) (p_nodes q) \<Longrightarrow> locked_in p L \<Longrightarrow> locked_in q L"
  using cleared_fields(4) [of "p_nodes p" "p_nodes q"] cleared_length [of "p_nodes p" "p_nodes q"]
  by (simp add: locked_in_def)

lemma locked_in_mono: "locked_in p L \<Longrightarrow> L \<subseteq> M \<Longrightarrow> locked_in p M"
  by (auto simp: locked_in_def)

lemma chain_of_dset: "chain_of (p\<lparr>p_chains := dset (p_chains p) path c\<rparr>) path' = (if path' = path then c else chain_of p path')"
  by (simp add: chain_of_def)

lemma chain_node_spec:
  assumes wf: "wf_pool p" and q: "chain_node p path pos = (q, i)"
  shows "wf_pool q" "extends p q" "i < length (p_nodes q)" "map_of (chain_of q path) pos = Some i"
    "vcount (p_nodes q) = vcount (p_nodes p)" "p_pinned q = p_pinned p" "p_clock q = p_clock p"
    "p_cap q = p_cap p" "p_finish_new_leaf q = p_finish_new_leaf p" "locked_in p L \<Longrightarrow> locked_in q L"
proof -
  have "wf_pool q \<and> extends p q \<and> i < length (p_nodes q) \<and> map_of (chain_of q path) pos = Some i
    \<and> vcount (p_nodes q) = vcount (p_nodes p) \<and> p_pinned q = p_pinned p \<and> p_clock q = p_clock p
    \<and> p_cap q = p_cap p \<and> p_finish_new_leaf q = p_finish_new_leaf p \<and> (locked_in p L \<longrightarrow> locked_in q L)"
  proof (cases "map_of (chain_of p path) pos")
    case (Some k)
    then have q': "q = p\<lparr>p_chains := dset (p_chains p) path (chain_of p path)\<rparr>" "i = k"
      using q by (simp_all add: chain_node_def)
    have ch: "chain_of q path' = chain_of p path'" for path'
      by (simp add: q' chain_of_dset)
    have nodes: "p_nodes q = p_nodes p" by (simp add: q')
    have "wf_pool q" using wf by (simp add: wf_pool_def ch nodes)
    moreover have "i < length (p_nodes p)" using wf Some q'(2) by (simp add: wf_pool_def)
    ultimately show ?thesis using Some q'
      by (simp add: extends_def locked_in_def chain_of_dset del: map_of_eq_Some_iff)
  next
    case None
    let ?c = "chain_of p path" and ?n = "length (p_nodes p)"
    let ?below = "filter (\<lambda>r. r < pos) (map fst ?c)"
    define parent where "parent = (if ?below = [] then None else map_of ?c (Max (set ?below)))"
    have "chain_node p path pos = (p\<lparr>p_nodes := append_node (new_node path pos parent) (p_nodes p),
        p_chains := dset (p_chains p) path (dset ?c pos ?n)\<rparr>, ?n)"
      unfolding chain_node_def Let_def None parent_def by (simp only: option.case)
    then have q': "q = p\<lparr>p_nodes := append_node (new_node path pos parent) (p_nodes p),
        p_chains := dset (p_chains p) path (dset ?c pos ?n)\<rparr>" "i = ?n"
      using q by simp_all
    have par: "parent = Some j \<Longrightarrow> j < ?n" for j
      using wf by (auto simp: parent_def wf_pool_def split: if_splits)
    have ch: "chain_of q path' = (if path' = path then dset ?c pos ?n else chain_of p path')" for path'
      by (simp add: q' chain_of_def)
    have old: "n_path (p_nodes q ! k) = n_path (p_nodes p ! k)" "n_pos (p_nodes q ! k) = n_pos (p_nodes p ! k)"
      "n_parent (p_nodes q ! k) = n_parent (p_nodes p ! k)" "n_locked (p_nodes q ! k) = n_locked (p_nodes p ! k)"
      if "k < ?n" for k
      using that by (simp_all add: q' nth_append_node add_child_fields)
    have new: "p_nodes q ! ?n = new_node path pos parent" "length (p_nodes q) = Suc ?n"
      by (simp_all add: q')
    have "wf_pool q"
      using wf old new par ch
      by (auto simp: wf_pool_def less_Suc_eq new_node_def split: if_splits simp del: map_of_eq_Some_iff)
    moreover have "extends p q"
      using old new ch None by (auto simp: extends_def)
    moreover have "locked_in p L \<longrightarrow> locked_in q L"
      using old new by (auto simp: locked_in_def less_Suc_eq new_node_def)
    moreover have "vcount (p_nodes q) = vcount (p_nodes p)"
      by (simp add: q' vcount_append_node new_node_def)
    ultimately show ?thesis using ch new q' by simp
  qed
  then show "wf_pool q" "extends p q" "i < length (p_nodes q)" "map_of (chain_of q path) pos = Some i"
    "vcount (p_nodes q) = vcount (p_nodes p)" "p_pinned q = p_pinned p" "p_clock q = p_clock p"
    "p_cap q = p_cap p" "p_finish_new_leaf q = p_finish_new_leaf p" "locked_in p L \<Longrightarrow> locked_in q L"
    by simp_all
qed


subsection \<open>Stashes\<close>

lemma vcount_unlock [simp]: "(\<And>l. lock = Some l \<Longrightarrow> l < length ns) \<Longrightarrow> vcount (unlock lock ns) = vcount ns"
  using vcount_set_node [of _ ns "n_locked_update (\<lambda>_. False)"]
  by (auto simp: unlock_def split: option.splits)

definition at_node :: "pool \<Rightarrow> nat option \<Rightarrow> bool" where
  "at_node p lock = (\<forall>l \<in> set_option lock. l < length (p_nodes p))"

lemma at_node_simps [simp]: "at_node p None" "at_node p (Some i) \<longleftrightarrow> i < length (p_nodes p)"
  by (simp_all add: at_node_def)

lemma insert_stash_spec:
  assumes q: "insert_stash p path pos lock = Inr (q, i)" and wf: "wf_pool p"
    and lock: "at_node p lock"
  shows "wf_pool q" "extends p q" "i < length (p_nodes q)" "map_of (chain_of q path) pos = Some i"
    "used p \<le> POOL \<Longrightarrow> used q \<le> POOL" "p_pinned q = p_pinned p"
    "p_cap q = p_cap p" "p_finish_new_leaf q = p_finish_new_leaf p"
    "locked_in p L \<Longrightarrow> locked_in q (insert i (L - set_option lock))"
    "n_value (p_nodes q ! i) \<and> n_locked (p_nodes q ! i)"
proof -
  obtain p1 where p1: "allocate p = Inr p1"
    using q by (auto simp: insert_stash_def split: sum.splits)
  obtain p2 k where p2: "chain_node p1 path pos = (p2, k)" by fastforce
  let ?ns = "set_node k (\<lambda>n. n\<lparr>n_value := True, n_mru := p_clock p2\<rparr>) (p_nodes p2)"
  let ?ms = "set_node k (n_locked_update (\<lambda>_. True)) (unlock lock ?ns)"
  define p3 where "p3 = p2\<lparr>p_nodes := ?ms, p_clock := Suc (p_clock p2)\<rparr>"
  have q': "q = trim p3 k" "i = k" using q by (auto simp: insert_stash_def p1 p2 p3_def)
  note a = allocate_Inr [OF p1] and ra = retouched_allocate [OF p1]
  have wf1: "wf_pool p1" by (rule retouched_wf [OF ra wf])
  note c = chain_node_spec [OF wf1 p2]
  have lock2: "lock = Some l \<Longrightarrow> l < length (p_nodes p2)" for l
    using lock ra c(2) by (auto simp: at_node_def retouched_def extends_def)
  have r3: "retouched p2 p3"
    by (auto simp: p3_def retouched_def nth_set_node nth_unlock)
  have rt: "retouched p3 q" unfolding q' by (rule retouched_trim)
  note t = trim_frame [where p = p3 and i = k]
  show wfq: "wf_pool q" by (rule retouched_wf [OF rt retouched_wf [OF r3 c(1)]])
  show "extends p q"
    using retouched_extends [OF ra] c(2) retouched_extends [OF r3] retouched_extends [OF rt]
    by (blast intro: extends_trans)
  have len: "length (p_nodes q) = length (p_nodes p2)" "length (p_nodes p3) = length (p_nodes p2)"
    using r3 rt by (simp_all add: retouched_def)
  show il: "i < length (p_nodes q)" using c(3) q' len by simp
  show "map_of (chain_of q path) pos = Some i"
    using c(4) q' r3 rt by (simp add: retouched_def chain_of_def)
  show "p_pinned q = p_pinned p" "p_cap q = p_cap p" "p_finish_new_leaf q = p_finish_new_leaf p"
    using a c t q' by (simp_all add: p3_def)
  have "vcount ?ms = vcount ?ns"
    using vcount_set_node [of k "unlock lock ?ns" "n_locked_update (\<lambda>_. True)"] c(3) lock2 by simp
  also have "\<dots> \<le> Suc (vcount (p_nodes p2))"
    using vcount_set_node [of k "p_nodes p2" "\<lambda>n. n\<lparr>n_value := True, n_mru := p_clock p2\<rparr>"] c(3)
    by (simp split: if_splits)
  finally have v: "vcount (p_nodes p3) \<le> Suc (vcount (p_nodes p2))" by (simp add: p3_def)
  show "used q \<le> POOL" if "used p \<le> POOL"
  proof -
    have "used p1 < POOL" by (rule a(7) [OF that])
    then have "vcount (p_nodes p2) + length (p_pinned p1) < POOL" using c(5) by (simp add: used_vcount)
    moreover have "vcount (p_nodes q) \<le> vcount (p_nodes p3)"
      unfolding q' by (rule cleared_vcount [OF t(1)])
    moreover have "p_pinned q = p_pinned p1" using c t q' by (simp add: p3_def)
    ultimately show ?thesis using v by (simp add: used_vcount)
  qed
  have k3: "n_value (p_nodes p3 ! k) \<and> n_locked (p_nodes p3 ! k)"
    using c(3) by (auto simp: p3_def nth_set_node nth_unlock)
  then show "n_value (p_nodes q ! i) \<and> n_locked (p_nodes q ! i)"
    using t(7) c(3) len q' by simp
  show "locked_in q (insert i (L - set_option lock))" if "locked_in p L"
  proof -
    have "locked_in p2 L" using that a(1) c(10) locked_in_cleared by blast
    then have "locked_in p3 (insert i (L - set_option lock))"
      using q' by (auto simp: p3_def locked_in_def nth_set_node nth_unlock split: if_splits)
    then show ?thesis using t(1) q' locked_in_cleared by blast
  qed
qed

text \<open>A stash fails only on an allocation that finds nothing to evict.\<close>

lemma insert_stash_total:
  assumes "finite L" "locked_in p L" "card L + length (p_pinned p) < POOL"
  shows "\<exists>q i. insert_stash p path pos lock = Inr (q, i)"
proof -
  obtain p1 where "allocate p = Inr p1"
    using allocate_total [OF assms(1) _ assms(3)] assms(2) by (auto simp: locked_in_def)
  then show ?thesis by (simp add: insert_stash_def case_prod_beta)
qed


text \<open>The positions a stash adds to the chains.\<close>

lemma chain_node_pos: "chain_node p path pos = (q, i) \<Longrightarrow>
    keyset (chain_of q path') = (if path' = path then insert pos (keyset (chain_of p path')) else keyset (chain_of p path'))"
proof -
  assume q: "chain_node p path pos = (q, i)"
  have "pos \<in> keyset (chain_of p path)" if "map_of (chain_of p path) pos = Some k" for k
    using that by (metis domI dom_map_of_conv_image_fst image_set keyset_def)
  moreover have "p_chains q = dset (p_chains p) path
      (if map_of (chain_of p path) pos = None then dset (chain_of p path) pos (length (p_nodes p)) else chain_of p path)"
    using q by (auto simp: chain_node_def Let_def split: option.splits)
  then have "chain_of q path' = (if path' = path then if map_of (chain_of p path) pos = None
      then dset (chain_of p path) pos (length (p_nodes p)) else chain_of p path else chain_of p path')"
    by (simp add: chain_of_def)
  ultimately show ?thesis by auto
qed

lemma retouched_chain_of: "retouched p q \<Longrightarrow> chain_of q path = chain_of p path"
  by (simp add: retouched_def chain_of_def)

lemma insert_stash_pos:
  assumes q: "insert_stash p path pos lock = Inr (q, i)"
  shows "keyset (chain_of q path') = (if path' = path then insert pos (keyset (chain_of p path')) else keyset (chain_of p path'))"
proof -
  obtain p1 where p1: "allocate p = Inr p1"
    using q by (auto simp: insert_stash_def split: sum.splits)
  obtain p2 k where p2: "chain_node p1 path pos = (p2, k)" by fastforce
  have "chain_of q path' = chain_of p2 path'"
    using q trim_frame(2) by (auto simp: insert_stash_def p1 p2 chain_of_def)
  moreover have "chain_of p1 path'' = chain_of p path''" for path''
    using retouched_allocate [OF p1] by (rule retouched_chain_of)
  ultimately show ?thesis using chain_node_pos [OF p2, of path'] by simp
qed

subsection \<open>Matching\<close>

lemma max_by_pos_in: "max_by_pos h hs \<in> insert h (set hs)"
proof (induction hs arbitrary: h)
  case (Cons y ys)
  have "max_by_pos (if fst h < fst y then y else h) ys \<in> insert (if fst h < fst y then y else h) (set ys)"
    by (rule Cons.IH)
  then show ?case by (auto split: if_splits)
qed simp

lemma max_by_pos_ge: "x \<in> insert h (set hs) \<Longrightarrow> fst x \<le> fst (max_by_pos h hs)"
proof (induction hs arbitrary: h x)
  case (Cons y ys)
  let ?b = "if fst h < fst y then y else h"
  have "fst ?b \<le> fst (max_by_pos ?b ys)" by (rule Cons.IH) simp
  moreover have "x \<in> set ys \<Longrightarrow> fst x \<le> fst (max_by_pos ?b ys)" by (rule Cons.IH) simp
  ultimately show ?case using Cons.prems by (auto split: if_splits)
qed simp

text \<open>A match is the deepest node of the path that holds a value short of the last token.\<close>

definition servable :: "pool \<Rightarrow> string \<Rightarrow> int \<Rightarrow> nat \<Rightarrow> bool" where
  "servable p path prompt i = (map_of (chain_of p path) (n_pos (p_nodes p ! i)) = Some i \<and>
     n_value (p_nodes p ! i) \<and> n_pos (p_nodes p ! i) < prompt)"

lemma match_prefix_spec:
  assumes wf: "wf_pool p" and q: "match_prefix p path prompt = (q, m)"
  shows "retouched p q" "used q = used p" "p_pinned q = p_pinned p" "p_cap q = p_cap p"
    "p_finish_new_leaf q = p_finish_new_leaf p"
    "locked_in p L \<Longrightarrow> locked_in q (L \<union> set_option m)"
    "m = Some i \<Longrightarrow> servable p path prompt i
       \<and> (\<forall>j. servable p path prompt j \<longrightarrow> n_pos (p_nodes p ! j) \<le> n_pos (p_nodes p ! i))"
    "m = None \<Longrightarrow> \<not> servable p path prompt j"
proof -
  let ?f = "\<lambda>(q, i). n_value (p_nodes p ! i) \<and> q \<le> prompt - 1"
  let ?hits = "filter ?f (chain_of p path)"
  have entry: "i < length (p_nodes p) \<and> n_pos (p_nodes p ! i) = r \<and> map_of (chain_of p path) r = Some i"
    if "(r, i) \<in> set (chain_of p path)" for r i
    using wf that by (auto simp: wf_pool_def)
  have hit: "(n_pos (p_nodes p ! j), j) \<in> set ?hits \<longleftrightarrow> servable p path prompt j" for j
    using entry by (auto simp: servable_def dest: map_of_SomeD)
  have "retouched p q \<and> used q = used p \<and> p_pinned q = p_pinned p \<and> p_cap q = p_cap p \<and>
    p_finish_new_leaf q = p_finish_new_leaf p \<and> (locked_in p L \<longrightarrow> locked_in q (L \<union> set_option m)) \<and>
    (m = Some i \<longrightarrow> servable p path prompt i
       \<and> (\<forall>j. servable p path prompt j \<longrightarrow> n_pos (p_nodes p ! j) \<le> n_pos (p_nodes p ! i))) \<and>
    (m = None \<longrightarrow> \<not> servable p path prompt j)"
  proof (cases ?hits)
    case Nil
    then have "q = p" "m = None" using q by (simp_all add: match_prefix_def)
    moreover have "\<not> servable p path prompt j" for j using hit [of j, unfolded Nil] by simp
    ultimately show ?thesis by (simp add: retouched_def)
  next
    case (Cons h hs)
    let ?b = "max_by_pos h hs"
    have b: "?b \<in> set ?hits" using max_by_pos_in [of h hs] Cons by simp
    have q': "q = p\<lparr>p_nodes := set_node (snd ?b) (\<lambda>n. n\<lparr>n_mru := p_clock p, n_locked := True\<rparr>) (p_nodes p),
        p_clock := Suc (p_clock p)\<rparr>" "m = Some (snd ?b)"
      using q unfolding match_prefix_def Cons by (auto simp: Let_def)
    have bi: "snd ?b < length (p_nodes p)" "n_pos (p_nodes p ! snd ?b) = fst ?b"
      using b entry [of "fst ?b" "snd ?b"] by auto
    have sb: "servable p path prompt (snd ?b)" using hit [of "snd ?b"] b bi by simp
    have "n_pos (p_nodes p ! j) \<le> fst ?b" if "servable p path prompt j" for j
      using max_by_pos_ge [of "(n_pos (p_nodes p ! j), j)" h hs] that hit [of j, unfolded Cons] by simp
    moreover have "used q = used p"
      using vcount_set_node [OF bi(1), of "\<lambda>n. n\<lparr>n_mru := p_clock p, n_locked := True\<rparr>"]
      by (simp add: q' used_vcount)
    moreover have "retouched p q" by (auto simp: q' retouched_def nth_set_node)
    ultimately show ?thesis using sb bi q'
      by (auto simp: locked_in_def nth_set_node split: if_splits)
  qed
  then show "retouched p q" "used q = used p" "p_pinned q = p_pinned p" "p_cap q = p_cap p"
    "p_finish_new_leaf q = p_finish_new_leaf p"
    "locked_in p L \<Longrightarrow> locked_in q (L \<union> set_option m)"
    "m = Some i \<Longrightarrow> servable p path prompt i
       \<and> (\<forall>j. servable p path prompt j \<longrightarrow> n_pos (p_nodes p ! j) \<le> n_pos (p_nodes p ! i))"
    "m = None \<Longrightarrow> \<not> servable p path prompt j" by blast+
qed


subsection \<open>Prefill and finish\<close>

text \<open>\<open>frontier f\<close>: every node of a path lies at a chunk boundary or at \<open>f path\<close>, the length
  of the prompts of that path.\<close>

definition frontier :: "(string \<Rightarrow> int) \<Rightarrow> pool \<Rightarrow> bool" where
  "frontier f p = (\<forall>path. \<forall>q \<in> keyset (chain_of p path). 0 < q \<and> (CHUNK dvd q \<or> q = f path))"

lemma frontier_insert:
  "frontier f p \<Longrightarrow> insert_stash p path pos lock = Inr (q, i) \<Longrightarrow> 0 < pos \<Longrightarrow> CHUNK dvd pos \<or> pos = f path
    \<Longrightarrow> frontier f q"
  unfolding frontier_def using insert_stash_pos [of p path pos lock q i] by (metis insertE)

lemma frontier_retouched: "retouched p q \<Longrightarrow> frontier f p \<Longrightarrow> frontier f q"
  by (simp add: frontier_def retouched_chain_of)

lemma used_pin:
  assumes "used p < POOL" shows "used (p\<lparr>p_pinned := List.insert r (p_pinned p)\<rparr>) \<le> POOL"
  using assms by (simp add: used_vcount List.insert_def)

lemma retouched_pin: "retouched p (p\<lparr>p_pinned := rs\<rparr>)"
  by (simp add: retouched_def)

lemma prefill_loop_spec:
  assumes "prefill_loop k p path prompt pos lock = Inr (q, lock')" "wf_pool p"
    "at_node p lock"
  shows "wf_pool q \<and> extends p q \<and> (used p \<le> POOL \<longrightarrow> used q \<le> POOL) \<and> p_pinned q = p_pinned p \<and>
    p_finish_new_leaf q = p_finish_new_leaf p \<and> at_node q lock' \<and>
    (locked_in p (L \<union> set_option lock) \<longrightarrow> locked_in q (L \<union> set_option lock'))"
  using assms
proof (induction k arbitrary: p pos lock)
  case 0
  then show ?case by auto
next
  case (Suc k)
  let ?pos = "min (pos + CHUNK) prompt"
  obtain p1 i where s: "insert_stash p path ?pos lock = Inr (p1, i)"
    and r: "prefill_loop k p1 path prompt ?pos (Some i) = Inr (q, lock')"
    using Suc.prems(1) by (auto simp: Let_def split: sum.splits prod.splits)
  note i = insert_stash_spec [OF s Suc.prems(2,3)]
  have "wf_pool q \<and> extends p1 q \<and> (used p1 \<le> POOL \<longrightarrow> used q \<le> POOL) \<and> p_pinned q = p_pinned p1 \<and>
    p_finish_new_leaf q = p_finish_new_leaf p1 \<and> at_node q lock' \<and>
    (locked_in p1 (L \<union> set_option (Some i)) \<longrightarrow> locked_in q (L \<union> set_option lock'))"
    by (rule Suc.IH [OF r i(1)]) (simp add: i(3))
  moreover have "locked_in p1 (L \<union> set_option (Some i))" if "locked_in p (L \<union> set_option lock)"
    using locked_in_mono [OF i(9) [OF that]] by auto
  ultimately show ?case using i(2,5-8) extends_trans by auto
qed

lemma prefill_loop_frontier:
  assumes "prefill_loop k p path prompt pos lock = Inr (q, lock')" "frontier f p"
    "f path = prompt" "0 < prompt" "0 \<le> pos" "CHUNK dvd pos \<or> pos = prompt"
  shows "frontier f q"
  using assms
proof (induction k arbitrary: p pos lock)
  case 0
  then show ?case by simp
next
  case (Suc k)
  let ?pos = "min (pos + CHUNK) prompt"
  obtain p1 i where s: "insert_stash p path ?pos lock = Inr (p1, i)"
    and r: "prefill_loop k p1 path prompt ?pos (Some i) = Inr (q, lock')"
    using Suc.prems(1) by (auto simp: Let_def split: sum.splits prod.splits)
  have c: "0 < ?pos" "CHUNK dvd ?pos \<or> ?pos = prompt"
    using Suc.prems(4-6) by (auto simp: min_def CHUNK_def)
  have "frontier f p1"
    by (rule frontier_insert [OF Suc.prems(2) s c(1)]) (use c Suc.prems(3) in simp)
  then show ?case using Suc.IH [OF r] Suc.prems(3,4) c by simp
qed

lemma prefill_loop_total:
  assumes "wf_pool p" "at_node p lock" "finite L"
    "locked_in p (L \<union> set_option lock)" "Suc (card L) + length (p_pinned p) < POOL"
  shows "\<exists>q lock'. prefill_loop k p path prompt pos lock = Inr (q, lock')"
  using assms
proof (induction k arbitrary: p pos lock)
  case 0
  then show ?case by simp
next
  case (Suc k)
  let ?pos = "min (pos + CHUNK) prompt"
  have "card (L \<union> set_option lock) \<le> Suc (card L)"
    using card_Un_le [of L "set_option lock"] by (cases lock) simp_all
  then obtain p1 i where s: "insert_stash p path ?pos lock = Inr (p1, i)"
    using insert_stash_total [of "L \<union> set_option lock" p path ?pos lock] Suc.prems(3-5)
    by (cases lock) auto
  note i = insert_stash_spec [OF s Suc.prems(1,2)]
  have "locked_in p1 (L \<union> set_option (Some i))"
    using locked_in_mono [OF i(9) [OF Suc.prems(4)]] by auto
  then have "\<exists>q lock'. prefill_loop k p1 path prompt ?pos (Some i) = Inr (q, lock')"
    using Suc.IH [of p1 "Some i"] i(1,3,6) Suc.prems(3,5) by simp
  then show ?case by (simp add: s Let_def)
qed


lemma servable_node: "wf_pool p \<Longrightarrow> servable p path prompt i \<Longrightarrow> i < length (p_nodes p)"
  unfolding wf_pool_def servable_def by blast

lemma map_of_keyset: "map_of c k = Some v \<Longrightarrow> k \<in> keyset c"
  by (metis domI dom_map_of_conv_image_fst image_set keyset_def)

text \<open>What one prefill leaves behind: one lock at the prompt, one pinned slot.\<close>

lemma prefill_spec:
  assumes q: "prefill p rid path prompt = Inr (q, cached, i)" and wf: "wf_pool p"
  shows "wf_pool q" "extends p q" "used p \<le> POOL \<Longrightarrow> used q \<le> POOL"
    "p_pinned q = List.insert rid (p_pinned p)" "p_finish_new_leaf q = p_finish_new_leaf p"
    "i < length (p_nodes q)" "map_of (chain_of q path) prompt = Some i"
    "locked_in p L \<Longrightarrow> locked_in q (insert i L)"
    "frontier f p \<Longrightarrow> f path = prompt \<Longrightarrow> 0 < prompt \<Longrightarrow>
       frontier f q \<and> CHUNK dvd cached \<and> 0 \<le> cached \<and> cached < prompt"
proof -
  obtain p1 m where p1: "match_prefix p path prompt = (p1, m)" by fastforce
  define c where "c = (case m of None \<Rightarrow> 0 | Some i \<Rightarrow> n_pos (p_nodes p1 ! i))"
  obtain p2 where p2: "allocate p1 = Inr p2"
    using q by (auto simp: prefill_def p1 Let_def split: sum.splits)
  define p3 where "p3 = p2\<lparr>p_pinned := List.insert rid (p_pinned p2)\<rparr>"
  obtain p4 lock where p4: "prefill_loop (chunks_of prompt c - 1) p3 path prompt c m = Inr (p4, lock)"
    using q by (auto simp: prefill_def p1 p2 Let_def c_def p3_def split: sum.splits)
  have s: "insert_stash p4 path prompt lock = Inr (q, i)" and cached: "cached = c"
    using q p4 by (auto simp: prefill_def p1 p2 Let_def c_def p3_def split: sum.splits)
  note M = match_prefix_spec [OF wf p1] and A = allocate_Inr [OF p2]
  have r3: "retouched p p3"
    using M(1) retouched_allocate [OF p2] by (simp add: retouched_def p3_def)
  have wf3: "wf_pool p3" by (rule retouched_wf [OF r3 wf])
  have m: "i < length (p_nodes p) \<and> n_pos (p_nodes p1 ! i) = n_pos (p_nodes p ! i)
      \<and> servable p path prompt i" if "m = Some i" for i
    using M(7) [OF that] M(1) servable_node [OF wf] by (auto simp: retouched_def)
  have m3: "at_node p3 m" using m r3 by (auto simp: at_node_def retouched_def)
  note P = prefill_loop_spec [OF p4 wf3 m3]
  have P': "wf_pool p4" "extends p3 p4" "used p3 \<le> POOL \<Longrightarrow> used p4 \<le> POOL" "p_pinned p4 = p_pinned p3"
    "p_finish_new_leaf p4 = p_finish_new_leaf p3" "at_node p4 lock"
    "locked_in p3 (L \<union> set_option m) \<Longrightarrow> locked_in p4 (L \<union> set_option lock)" for L
    using P [of L] by simp_all
  note I = insert_stash_spec [OF s P'(1) P'(6)]
  show "wf_pool q" by (rule I(1))
  show "extends p q"
    using retouched_extends [OF r3] P'(2) I(2) extends_trans by blast
  show "p_pinned q = List.insert rid (p_pinned p)" "p_finish_new_leaf q = p_finish_new_leaf p"
    using I(6,8) P'(4,5) A(3,6) M(3,5) by (simp_all add: p3_def)
  show "i < length (p_nodes q)" "map_of (chain_of q path) prompt = Some i" by (rule I)+
  show "used q \<le> POOL" if "used p \<le> POOL"
    using I(5) P'(3) used_pin [of p2 rid] A(7) M(2) that by (simp add: p3_def)
  show "locked_in q (insert i L)" if "locked_in p L"
  proof -
    have "locked_in p2 (L \<union> set_option m)"
      using locked_in_cleared [OF A(1)] M(6) [OF that] by blast
    then have "locked_in p4 (L \<union> set_option lock)" by (intro P'(7)) (simp add: p3_def locked_in_def)
    from I(9) [OF this] show ?thesis by (rule locked_in_mono) auto
  qed
  show "frontier f q \<and> CHUNK dvd cached \<and> 0 \<le> cached \<and> cached < prompt"
    if f: "frontier f p" "f path = prompt" "0 < prompt"
  proof -
    have c: "CHUNK dvd c \<and> 0 \<le> c \<and> c < prompt"
    proof (cases m)
      case None
      then show ?thesis using f by (simp add: c_def)
    next
      case (Some j)
      have "n_pos (p_nodes p ! j) \<in> keyset (chain_of p path)"
        using m [OF Some] map_of_keyset unfolding servable_def by metis
      then have "0 < n_pos (p_nodes p ! j) \<and> (CHUNK dvd n_pos (p_nodes p ! j) \<or> n_pos (p_nodes p ! j) = prompt)"
        using f(1,2) unfolding frontier_def by blast
      then show ?thesis using m [OF Some] Some by (auto simp: c_def servable_def)
    qed
    have "frontier f p3" by (rule frontier_retouched [OF r3 f(1)])
    then have "frontier f p4"
      by (rule prefill_loop_frontier [OF p4]) (use f c in auto)
    then have "frontier f q"
      by (rule frontier_insert [OF _ s]) (use f in auto)
    then show ?thesis using c cached by simp
  qed
qed

lemma prefill_total:
  assumes wf: "wf_pool p" and L: "finite L" "locked_in p L"
    and room: "card L + length (p_pinned p) + 2 < POOL"
  shows "\<exists>q c i. prefill p rid path prompt = Inr (q, c, i)"
proof -
  obtain p1 m where p1: "match_prefix p path prompt = (p1, m)" by fastforce
  define c where "c = (case m of None \<Rightarrow> 0 | Some i \<Rightarrow> n_pos (p_nodes p1 ! i))"
  note M = match_prefix_spec [OF wf p1]
  let ?L = "L \<union> set_option m"
  have card: "card ?L \<le> Suc (card L)" "finite ?L"
    using card_Un_le [of L "set_option m"] L(1) by (cases m; simp)+
  have l1: "locked_in p1 ?L" using M(6) [OF L(2)] .
  obtain p2 where p2: "allocate p1 = Inr p2"
    using allocate_total [OF card(2), of p1] l1 card(1) room M(3) by (auto simp: locked_in_def)
  note A = allocate_Inr [OF p2]
  define p3 where "p3 = p2\<lparr>p_pinned := List.insert rid (p_pinned p2)\<rparr>"
  have r3: "retouched p p3"
    using M(1) retouched_allocate [OF p2] by (simp add: retouched_def p3_def)
  have wf3: "wf_pool p3" by (rule retouched_wf [OF r3 wf])
  have m: "i < length (p_nodes p)" if "m = Some i" for i
    using M(7) [OF that] servable_node [OF wf] by blast
  have m3: "at_node p3 m" using m r3 by (auto simp: at_node_def retouched_def)
  have l3: "locked_in p3 ?L"
    using locked_in_cleared [OF A(1) l1] by (simp add: p3_def locked_in_def)
  have pin: "length (p_pinned p3) \<le> Suc (length (p_pinned p))"
    using A(3) M(3) by (simp add: p3_def List.insert_def)
  obtain p4 lock where p4: "prefill_loop (chunks_of prompt c - 1) p3 path prompt c m = Inr (p4, lock)"
    using prefill_loop_total [OF wf3 m3 L(1) l3] pin room by fastforce
  note P = prefill_loop_spec [OF p4 wf3 m3, of L]
  have l4: "locked_in p4 (L \<union> set_option lock)" using P l3 by simp
  have "finite (L \<union> set_option lock)" "card (L \<union> set_option lock) + length (p_pinned p4) < POOL"
    using card_Un_le [of L "set_option lock"] L(1) P pin room by (cases lock; simp)+
  then obtain q i where "insert_stash p4 path prompt lock = Inr (q, i)"
    using insert_stash_total l4 by blast
  then show ?thesis using p4 by (simp add: prefill_def p1 p2 Let_def p3_def c_def)
qed


text \<open>A finished request gives back its slot and its lock.\<close>

lemma append_leaf:
  assumes wf: "wf_pool p" and par: "\<And>j. n_parent n = Some j \<Longrightarrow> j < length (p_nodes p)"
    and ns: "p_nodes q = append_node n (p_nodes p)" "p_chains q = p_chains p"
  shows "wf_pool q" "extends p q"
proof -
  have ch: "chain_of q path = chain_of p path" for path by (simp add: chain_of_def ns)
  have old: "n_path (p_nodes q ! k) = n_path (p_nodes p ! k)" "n_pos (p_nodes q ! k) = n_pos (p_nodes p ! k)"
    "n_parent (p_nodes q ! k) = n_parent (p_nodes p ! k)" if "k < length (p_nodes p)" for k
    using that by (simp_all add: ns nth_append_node add_child_fields)
  show "wf_pool q" using wf old par
    by (auto simp: wf_pool_def ch ns(1) less_Suc_eq simp del: map_of_eq_Some_iff)
  show "extends p q" using old by (simp add: extends_def ch ns(1))
qed

lemma finish_leaf_spec:
  assumes q: "finish_leaf p path prompt completion = Inr q" and wf: "wf_pool p"
  shows "wf_pool q" "extends p q" "used p \<le> POOL \<Longrightarrow> used q \<le> POOL" "p_pinned q = p_pinned p"
    "p_finish_new_leaf q = p_finish_new_leaf p" "locked_in p L \<Longrightarrow> locked_in q L"
    "chain_of q path' = chain_of p path'"
proof -
  obtain p1 where p1: "allocate p = Inr p1"
    using q by (auto simp: finish_leaf_def split: sum.splits)
  then obtain par where par: "map_of (chain_of p1 path) prompt = Some par"
    using q by (auto simp: finish_leaf_def split: option.splits)
  define leaf where "leaf = (new_node path (prompt + completion) (Some par))\<lparr>n_value := True, n_mru := p_clock p1\<rparr>"
  define p2 where "p2 = p1\<lparr>p_nodes := append_node leaf (p_nodes p1), p_clock := Suc (p_clock p1)\<rparr>"
  have q': "q = trim p2 (length (p_nodes p1))"
    using q by (simp add: finish_leaf_def p1 par leaf_def p2_def Let_def)
  note A = allocate_Inr [OF p1] and T = trim_frame(1-6) [of p2 "length (p_nodes p1)"]
  have r1: "retouched p p1" by (rule retouched_allocate [OF p1])
  have wf1: "wf_pool p1" by (rule retouched_wf [OF r1 wf])
  have "par < length (p_nodes p1)" using wf1 par unfolding wf_pool_def by blast
  then have a: "wf_pool p2" "extends p1 p2"
    using append_leaf [OF wf1, of leaf p2] by (simp_all add: leaf_def new_node_def p2_def)
  have rt: "retouched p2 q" unfolding q' by (rule retouched_trim)
  show "wf_pool q" by (rule retouched_wf [OF rt a(1)])
  show "extends p q"
    using retouched_extends [OF r1] a(2) retouched_extends [OF rt] extends_trans by blast
  show "p_pinned q = p_pinned p" "p_finish_new_leaf q = p_finish_new_leaf p"
    using A T by (simp_all add: q' p2_def)
  show "chain_of q path' = chain_of p path'"
    using T(2) A(2) by (simp add: q' p2_def chain_of_def)
  show "used q \<le> POOL" if "used p \<le> POOL"
  proof -
    have "vcount (p_nodes q) \<le> vcount (p_nodes p2)" unfolding q' by (rule cleared_vcount [OF T(1)])
    also have "\<dots> = Suc (vcount (p_nodes p1))"
      by (simp add: p2_def vcount_append_node leaf_def)
    finally show ?thesis
      using A(7) [OF that] T(3) by (simp add: used_vcount q' p2_def)
  qed
  show "locked_in q L" if "locked_in p L"
  proof -
    have "locked_in p1 L" by (rule locked_in_cleared [OF A(1) that])
    then have "locked_in p2 L"
      by (auto simp: locked_in_def p2_def less_Suc_eq nth_append_node add_child_fields leaf_def new_node_def)
    then show ?thesis unfolding q' by (rule locked_in_cleared [OF T(1)])
  qed
qed

lemma finish_spec:
  assumes q: "finish p rid path prompt completion lock = Inr q" and wf: "wf_pool p"
    and lock: "lock < length (p_nodes p)"
  shows "wf_pool q" "extends p q" "used p \<le> POOL \<Longrightarrow> used q \<le> POOL"
    "p_pinned q = removeAll rid (p_pinned p)" "locked_in p L \<Longrightarrow> locked_in q (L - {lock})"
    "chain_of q path' = chain_of p path'" "p_finish_new_leaf q = p_finish_new_leaf p"
proof -
  obtain p1 where p1: "(if p_finish_new_leaf p then finish_leaf p path prompt completion else Inr p) = Inr p1"
    and q': "q = p1\<lparr>p_nodes := set_node lock (\<lambda>n. n\<lparr>n_locked := False, n_mru := p_clock p1\<rparr>) (p_nodes p1),
                  p_clock := Suc (p_clock p1), p_pinned := removeAll rid (p_pinned p1)\<rparr>"
    using q by (auto simp: finish_def split: sum.splits)
  have L: "wf_pool p1" "extends p p1" "used p \<le> POOL \<Longrightarrow> used p1 \<le> POOL" "p_pinned p1 = p_pinned p"
    "p_finish_new_leaf p1 = p_finish_new_leaf p" "locked_in p L \<Longrightarrow> locked_in p1 L"
    "chain_of p1 path' = chain_of p path'" for L path'
    using p1 finish_leaf_spec [of p path prompt completion p1] wf by (simp_all split: if_splits)
  have lock1: "lock < length (p_nodes p1)" using L(2) lock by (simp add: extends_def)
  have r: "retouched p1 q" by (auto simp: q' retouched_def nth_set_node)
  show "wf_pool q" by (rule retouched_wf [OF r L(1)])
  show "extends p q" using L(2) retouched_extends [OF r] extends_trans by blast
  show "p_pinned q = removeAll rid (p_pinned p)" "p_finish_new_leaf q = p_finish_new_leaf p"
    using L by (simp_all add: q')
  show "chain_of q path' = chain_of p path'" using L(7) retouched_chain_of [OF r] by simp
  have "vcount (p_nodes q) = vcount (p_nodes p1)"
    using vcount_set_node [OF lock1, of "\<lambda>n. n\<lparr>n_locked := False, n_mru := p_clock p1\<rparr>"] by (simp add: q')
  moreover have "length (p_pinned q) \<le> length (p_pinned p1)"
    by (simp add: q' removeAll_filter_not_eq)
  ultimately show "used q \<le> POOL" if "used p \<le> POOL"
    using L(3) [OF that] by (simp add: used_vcount)
  show "locked_in q (L - {lock})" if "locked_in p L"
    using L(6) [OF that] by (auto simp: q' locked_in_def nth_set_node split: if_splits)
qed

lemma finish_total:
  assumes wf: "wf_pool p" and L: "finite L" "locked_in p L" "card L + length (p_pinned p) < POOL"
    and node: "map_of (chain_of p path) prompt = Some i"
  shows "\<exists>q. finish p rid path prompt completion lock = Inr q"
proof -
  obtain p1 where p1: "allocate p = Inr p1"
    using allocate_total [OF L(1) _ L(3)] L(2) by (auto simp: locked_in_def)
  have "chain_of p1 path = chain_of p path"
    by (rule retouched_chain_of [OF retouched_allocate [OF p1]])
  then show ?thesis using p1 node by (simp add: finish_def finish_leaf_def Let_def)
qed


subsection \<open>Groups of requests\<close>

definition lock_of :: "pool \<Rightarrow> request \<Rightarrow> nat \<times> nat \<Rightarrow> bool" where
  "lock_of p r l = (fst l = r_rid r \<and> snd l < length (p_nodes p)
     \<and> map_of (chain_of p (r_path r)) (r_prompt r) = Some (snd l))"

definition chunk_hit :: "request \<Rightarrow> nat \<times> int \<Rightarrow> bool" where
  "chunk_hit r c = (fst c = r_rid r \<and> CHUNK dvd snd c \<and> 0 \<le> snd c \<and> snd c < r_prompt r)"

definition same_prompt :: "(string \<Rightarrow> int) \<Rightarrow> request \<Rightarrow> bool" where
  "same_prompt f r = (f (r_path r) = r_prompt r \<and> 0 < r_prompt r)"

lemma lock_of_extends: "extends p q \<Longrightarrow> lock_of p r l \<Longrightarrow> lock_of q r l"
  by (auto simp: lock_of_def extends_def simp del: map_of_eq_Some_iff)

lemma prefill_all_spec:
  assumes "prefill_all p rs = Inr (q, cs, ls)" "wf_pool p"
  shows "wf_pool q \<and> extends p q \<and> (used p \<le> POOL \<longrightarrow> used q \<le> POOL)
    \<and> set (p_pinned q) = set (p_pinned p) \<union> r_rid ` set rs
    \<and> length (p_pinned q) \<le> length (p_pinned p) + length rs
    \<and> (\<forall>L. locked_in p L \<longrightarrow> locked_in q (L \<union> snd ` set ls))
    \<and> list_all2 (lock_of q) rs ls \<and> map fst cs = map r_rid rs
    \<and> (frontier f p \<longrightarrow> list_all (same_prompt f) rs \<longrightarrow> frontier f q \<and> list_all2 chunk_hit rs cs)"
  using assms
proof (induction rs arbitrary: p cs ls)
  case Nil
  then show ?case by simp
next
  case (Cons r rs)
  obtain p1 c l cs' ls' where p1: "prefill p (r_rid r) (r_path r) (r_prompt r) = Inr (p1, c, l)"
    and p2: "prefill_all p1 rs = Inr (q, cs', ls')"
    and out: "cs = (r_rid r, c) # cs'" "ls = (r_rid r, l) # ls'"
    using Cons.prems(1) by (auto split: sum.splits)
  note P = prefill_spec [OF p1 Cons.prems(2)]
  have I: "wf_pool q" "extends p1 q" "used p1 \<le> POOL \<Longrightarrow> used q \<le> POOL"
    "set (p_pinned q) = set (p_pinned p1) \<union> r_rid ` set rs"
    "length (p_pinned q) \<le> length (p_pinned p1) + length rs"
    "\<And>L. locked_in p1 L \<Longrightarrow> locked_in q (L \<union> snd ` set ls')"
    "list_all2 (lock_of q) rs ls'" "map fst cs' = map r_rid rs"
    "frontier f p1 \<Longrightarrow> list_all (same_prompt f) rs \<Longrightarrow> frontier f q \<and> list_all2 chunk_hit rs cs'"
    using Cons.IH [OF p2 P(1)] by simp_all
  have "extends p q" using P(2) I(2) extends_trans by blast
  moreover have "used p \<le> POOL \<longrightarrow> used q \<le> POOL" using P(3) I(3) by blast
  moreover have "set (p_pinned q) = set (p_pinned p) \<union> r_rid ` set (r # rs)" using P(4) I(4) by auto
  moreover have "length (p_pinned q) \<le> length (p_pinned p) + length (r # rs)"
    using P(4) I(5) by (simp add: List.insert_def split: if_splits)
  moreover have "locked_in q (L \<union> snd ` set ls)" if "locked_in p L" for L
    using I(6) [OF P(8) [OF that]] by (simp add: out)
  moreover have "list_all2 (lock_of q) (r # rs) ls"
    using I(7) lock_of_extends [OF I(2), of r "(r_rid r, l)"] P(6,7) by (simp add: out lock_of_def)
  moreover have "map fst cs = map r_rid (r # rs)" using I(8) by (simp add: out)
  moreover have "frontier f q \<and> list_all2 chunk_hit (r # rs) cs"
    if "frontier f p" "list_all (same_prompt f) (r # rs)"
    using P(9) [OF that(1)] I(9) that(2) by (simp add: out chunk_hit_def same_prompt_def)
  ultimately show ?case using I(1) by blast
qed

lemma prefill_all_total:
  assumes "wf_pool p" "finite L" "locked_in p L"
    "card L + length (p_pinned p) + 2 * length rs < POOL"
  shows "\<exists>q cs ls. prefill_all p rs = Inr (q, cs, ls)"
  using assms
proof (induction rs arbitrary: p L)
  case Nil
  then show ?case by simp
next
  case (Cons r rs)
  obtain p1 c l where p1: "prefill p (r_rid r) (r_path r) (r_prompt r) = Inr (p1, c, l)"
    using prefill_total [OF Cons.prems(1-3)] Cons.prems(4) by fastforce
  note P = prefill_spec [OF p1 Cons.prems(1)]
  have "card (insert l L) \<le> Suc (card L)" by (simp add: card_insert_le_m1 Cons.prems(2) card_insert_if)
  moreover have "length (p_pinned p1) \<le> Suc (length (p_pinned p))"
    using P(4) by (simp add: List.insert_def)
  ultimately have "card (insert l L) + length (p_pinned p1) + 2 * length rs < POOL"
    using Cons.prems(4) by simp
  then have "\<exists>q cs ls. prefill_all p1 rs = Inr (q, cs, ls)"
    using Cons.IH [OF P(1) _ P(8) [OF Cons.prems(3)]] Cons.prems(2) by simp
  then show ?case using p1 by auto
qed

definition holds_lock :: "(nat \<times> nat) list \<Rightarrow> pool \<Rightarrow> request \<Rightarrow> bool" where
  "holds_lock locks p r = (\<exists>l. map_of locks (r_rid r) = Some l \<and> lock_of p r (r_rid r, l))"

lemma finish_step_lock: "map_of locks (r_rid r) = Some l \<Longrightarrow>
    finish_step locks p r = finish p (r_rid r) (r_path r) (r_prompt r) (r_completion r) l"
  by (simp add: finish_step_def)

lemma finish_all_spec:
  assumes "foldM_res (finish_step locks) p rs = Inr q" "wf_pool p" "list_all (holds_lock locks p) rs"
  shows "wf_pool q \<and> (used p \<le> POOL \<longrightarrow> used q \<le> POOL) \<and> (\<forall>path. chain_of q path = chain_of p path)
    \<and> set (p_pinned q) = set (p_pinned p) - r_rid ` set rs
    \<and> (\<forall>L. locked_in p L \<longrightarrow> locked_in q (L - {l. \<exists>r \<in> set rs. map_of locks (r_rid r) = Some l}))"
  using assms
proof (induction rs arbitrary: p)
  case Nil
  then show ?case by simp
next
  case (Cons r rs)
  from Cons.prems(3) obtain l where l: "map_of locks (r_rid r) = Some l" "lock_of p r (r_rid r, l)"
    by (auto simp: holds_lock_def)
  obtain p1 where p1: "finish p (r_rid r) (r_path r) (r_prompt r) (r_completion r) l = Inr p1"
    and q: "foldM_res (finish_step locks) p1 rs = Inr q"
    using Cons.prems(1) by (auto simp: finish_step_lock [OF l(1)] split: sum.splits)
  have "l < length (p_nodes p)" using l(2) by (simp add: lock_of_def)
  note F = finish_spec [OF p1 Cons.prems(2) this]
  have "list_all (holds_lock locks p1) rs"
    using Cons.prems(3) lock_of_extends [OF F(2)] by (fastforce simp: list_all_iff holds_lock_def)
  then have I: "wf_pool q" "used p1 \<le> POOL \<Longrightarrow> used q \<le> POOL" "\<And>path. chain_of q path = chain_of p1 path"
    "set (p_pinned q) = set (p_pinned p1) - r_rid ` set rs"
    "\<And>L. locked_in p1 L \<Longrightarrow> locked_in q (L - {l. \<exists>r \<in> set rs. map_of locks (r_rid r) = Some l})"
    using Cons.IH [OF q F(1)] by simp_all
  have "locked_in q (L - {l. \<exists>r \<in> set (r # rs). map_of locks (r_rid r) = Some l})" if "locked_in p L" for L
    using I(5) [OF F(5) [OF that]] by (rule locked_in_mono) (use l in auto)
  moreover have "set (p_pinned q) = set (p_pinned p) - r_rid ` set (r # rs)" using I(4) F(4) by auto
  ultimately show ?case using I(1-3) F(3,6) by simp
qed

lemma finish_all_total:
  assumes "wf_pool p" "list_all (holds_lock locks p) rs"
    "finite L" "locked_in p L" "card L + length (p_pinned p) < POOL"
  shows "\<exists>q. foldM_res (finish_step locks) p rs = Inr q"
  using assms
proof (induction rs arbitrary: p L)
  case Nil
  then show ?case by simp
next
  case (Cons r rs)
  from Cons.prems(2) obtain l where l: "map_of locks (r_rid r) = Some l" "lock_of p r (r_rid r, l)"
    by (auto simp: holds_lock_def)
  then have node: "map_of (chain_of p (r_path r)) (r_prompt r) = Some l" "l < length (p_nodes p)"
    by (simp_all add: lock_of_def)
  obtain p1 where p1: "finish p (r_rid r) (r_path r) (r_prompt r) (r_completion r) l = Inr p1"
    using finish_total [OF Cons.prems(1,3,4,5) node(1)] by blast
  note F = finish_spec [OF p1 Cons.prems(1) node(2)]
  have h: "list_all (holds_lock locks p1) rs"
    using Cons.prems(2) lock_of_extends [OF F(2)] by (fastforce simp: list_all_iff holds_lock_def)
  have "card (L - {l}) \<le> card L" using Cons.prems(3) by (simp add: card_mono)
  moreover have "length (p_pinned p1) \<le> length (p_pinned p)" using F(4) by (simp add: removeAll_filter_not_eq)
  ultimately have "card (L - {l}) + length (p_pinned p1) < POOL" using Cons.prems(5) by simp
  then have "\<exists>q. foldM_res (finish_step locks) p1 rs = Inr q"
    using Cons.IH [OF F(1) h _ F(5) [OF Cons.prems(4)]] Cons.prems(3) by simp
  then show ?case using p1 by (simp add: finish_step_lock [OF l(1)])
qed


text \<open>Between groups no node is locked and no slot is pinned.\<close>

definition quiet :: "pool \<Rightarrow> bool" where
  "quiet p = (wf_pool p \<and> used p \<le> POOL \<and> locked_in p {} \<and> p_pinned p = [])"

lemma group_locks:
  assumes "list_all2 (lock_of p) rs ls" "distinct (map r_rid rs)"
  shows "list_all (holds_lock ls p) rs" "{l. \<exists>r \<in> set rs. map_of ls (r_rid r) = Some l} = snd ` set ls"
proof -
  have keys: "map fst ls = map r_rid rs"
    using assms(1) by (induction rule: list_all2_induct) (simp_all add: lock_of_def)
  have d: "distinct (map fst ls)" using keys assms(2) by simp
  have of: "map_of ls (r_rid r) = Some (snd l)" if "(r, l) \<in> set (zip rs ls)" for r l
  proof -
    have "lock_of p r l" using assms(1) that by (auto simp: list_all2_iff)
    then have "fst l = r_rid r" by (simp add: lock_of_def)
    moreover have "l \<in> set ls" using that by (rule set_zip_rightD)
    ultimately show ?thesis using d by (metis map_of_eq_Some_iff prod.collapse)
  qed
  have len: "length rs = length ls" using assms(1) by (rule list_all2_lengthD)
  have left: "\<exists>l. (r, l) \<in> set (zip rs ls)" if "r \<in> set rs" for r
    using that len by (metis in_set_impl_in_set_zip1)
  show "list_all (holds_lock ls p) rs"
    using left of assms(1) by (fastforce simp: list_all_iff holds_lock_def list_all2_iff lock_of_def)
  show "{l. \<exists>r \<in> set rs. map_of ls (r_rid r) = Some l} = snd ` set ls"
  proof -
    have "fst ` set ls = r_rid ` set rs" using arg_cong [OF keys, of set] by simp
    then have "{l. \<exists>r \<in> set rs. map_of ls (r_rid r) = Some l} = ran (map_of ls)"
      by (auto simp: ran_def simp del: map_of_eq_Some_iff)
         (metis (no_types, lifting) fst_conv image_iff map_of_SomeD)
    then show ?thesis using ran_distinct [OF d] by simp
  qed
qed

lemma finish_order: "list_all P rs \<Longrightarrow> list_all P (sort_key k rs)" "set (sort_key k rs) = set rs"
  by (simp_all add: list_all_iff)

lemma group_spec:
  assumes g: "group p rs = Inr (q, cached)" and p: "quiet p" and d: "distinct (map r_rid rs)"
  shows "quiet q \<and> map fst cached = map r_rid rs \<and>
    (frontier f p \<longrightarrow> list_all (same_prompt f) rs \<longrightarrow> frontier f q \<and> list_all2 chunk_hit rs cached)"
proof -
  obtain p1 ls where p1: "prefill_all p rs = Inr (p1, cached, ls)"
    and q: "foldM_res (finish_step ls) p1 (sort_key r_completion rs) = Inr q"
    using g by (auto simp: group_def split: sum.splits)
  have wf: "wf_pool p" using p by (simp add: quiet_def)
  note A = prefill_all_spec [OF p1 wf, of f]
  have l2: "list_all2 (lock_of p1) rs ls" using A by blast
  note G = group_locks [OF l2 d]
  have wf1: "wf_pool p1" using A by blast
  note B = finish_all_spec [OF q wf1 finish_order(1) [OF G(1)], unfolded finish_order(2) G(2)]
  have "locked_in p {}" using p by (simp add: quiet_def)
  then have "locked_in p1 ({} \<union> snd ` set ls)" using A by blast
  then have "locked_in q ({} \<union> snd ` set ls - snd ` set ls)" using B by blast
  then have "locked_in q {}" by simp
  moreover have "p_pinned q = []" using A B p by (simp add: quiet_def)
  moreover have "used q \<le> POOL" using A B p by (simp add: quiet_def)
  ultimately have "quiet q" using B by (simp add: quiet_def)
  moreover have "frontier f p1 \<Longrightarrow> frontier f q" using B by (simp add: frontier_def)
  ultimately show ?thesis using A by blast
qed

text \<open>Nine requests never exhaust the nineteen slots: each holds one lock and one pinned slot.\<close>

lemma group_total:
  assumes p: "quiet p" and d: "distinct (map r_rid rs)" and n: "length rs \<le> 9"
  shows "\<exists>q cached. group p rs = Inr (q, cached)"
proof -
  have wf: "wf_pool p" and L: "locked_in p {}" and pin: "p_pinned p = []"
    using p by (simp_all add: quiet_def)
  obtain p1 cached ls where p1: "prefill_all p rs = Inr (p1, cached, ls)"
    using prefill_all_total [OF wf _ L, of rs] n pin by (fastforce simp: POOL_def)
  note A = prefill_all_spec [OF p1 wf]
  have l2: "list_all2 (lock_of p1) rs ls" using A by blast
  have "length ls = length rs" using l2 by (simp add: list_all2_lengthD)
  then have "card (snd ` set ls) \<le> length rs" using card_image_le [OF finite_set, of snd ls] card_length [of ls] by linarith
  moreover have "length (p_pinned p1) \<le> length rs" using A pin by simp
  ultimately have "card (snd ` set ls) + length (p_pinned p1) < POOL" using n by (simp add: POOL_def)
  moreover have "locked_in p1 (snd ` set ls)" using A L by (metis sup_bot_left)
  moreover have "wf_pool p1" using A by blast
  ultimately obtain q where "foldM_res (finish_step ls) p1 (sort_key r_completion rs) = Inr q"
    using finish_all_total [OF _ finish_order(1) [OF group_locks(1) [OF l2 d]]] by blast
  then show ?thesis by (simp add: group_def p1)
qed


subsection \<open>Trimming a path\<close>

fun lineage :: "node list \<Rightarrow> nat \<Rightarrow> nat list" where
  "lineage nodes i =
     i # (case n_parent (nodes ! i) of None \<Rightarrow> [] | Some j \<Rightarrow> if j < i then lineage nodes j else [])"

declare lineage.simps [simp del]

lemma holders_lineage: "holders nodes i = filter (\<lambda>j. n_value (nodes ! j)) (lineage nodes i)"
proof (induction i rule: less_induct)
  case (less i)
  then show ?case
    by (subst holders.simps, subst lineage.simps) (auto simp: Let_def split: option.splits)
qed

lemma lineage_le: "j \<in> set (lineage nodes i) \<Longrightarrow> j \<le> i"
proof (induction i arbitrary: j rule: less_induct)
  case (less i)
  from less.prems less.IH show ?case
    by (subst (asm) lineage.simps) (fastforce split: option.splits if_splits)
qed

lemma lineage_distinct: "distinct (lineage nodes i)"
proof (induction i rule: less_induct)
  case (less i)
  then show ?case
    by (subst lineage.simps) (auto split: option.splits dest: lineage_le)
qed

lemma lineage_cong:
  "length ms = length ns \<Longrightarrow> (\<And>j. j < length ns \<Longrightarrow> n_parent (ms ! j) = n_parent (ns ! j)) \<Longrightarrow> i < length ns \<Longrightarrow>
    lineage ms i = lineage ns i"
proof (induction i rule: less_induct)
  case (less i)
  then show ?case
    by (subst (1 2) lineage.simps) (auto split: option.splits)
qed

text \<open>The loop clears a prefix-closed choice of the holders: no more than the excess, none that is
  locked, a fork or a leaf, and all the rest while the excess lasts.\<close>

definition trimmable :: "node \<Rightarrow> bool" where
  "trimmable n = (\<not> n_locked n \<and> length (n_children n) = 1)"

lemma trim_loop_spec:
  assumes "trim_loop tail x ns es hs = (ms, fs)" "distinct hs" "\<forall>h \<in> set hs. h < length ns \<and> n_value (ns ! h)"
  shows "(\<forall>j < length ns. j \<notin> set hs \<longrightarrow> ms ! j = ns ! j)
    \<and> (\<forall>h \<in> set hs. \<not> n_value (ms ! h) \<longrightarrow> h \<noteq> tail \<and> trimmable (ns ! h))
    \<and> int (length (filter (\<lambda>h. \<not> n_value (ms ! h)) hs)) \<le> max 0 x
    \<and> (x \<le> int (length (filter (\<lambda>h. \<not> n_value (ms ! h)) hs)) \<or>
        (\<forall>h \<in> set (takeWhile (\<lambda>h. h \<noteq> tail) hs). n_value (ms ! h) \<longrightarrow> \<not> trimmable (ns ! h)))"
  using assms
proof (induction hs arbitrary: x ns es)
  case Nil
  then show ?case by simp
next
  case (Cons i hs)
  show ?case
  proof (cases "x \<le> 0 \<or> i = tail")
    case True
    then have "ms = ns" using Cons.prems(1) by auto
    moreover have "filter (\<lambda>h. \<not> n_value (ns ! h)) (i # hs) = []"
      using Cons.prems(3) by (simp add: filter_empty_conv)
    ultimately show ?thesis using True Cons.prems(3) by auto
  next
    case go: False
    show ?thesis
    proof (cases "n_locked (ns ! i) \<or> length (n_children (ns ! i)) \<noteq> 1")
      case True
      then have r: "trim_loop tail x ns es hs = (ms, fs)" using Cons.prems(1) go by simp
      have "ms ! i = ns ! i" "n_value (ns ! i)" using Cons.IH [OF r] Cons.prems(2,3) by simp_all
      then show ?thesis using Cons.IH [OF r] Cons.prems(2,3) go True by (auto simp: trimmable_def)
    next
      case False
      let ?ns = "set_node i (n_value_update (\<lambda>_. False)) ns"
      have r: "trim_loop tail (x - 1) ?ns (es @ [Trim (n_path (ns ! i)) (n_pos (ns ! i))]) hs = (ms, fs)"
        using Cons.prems(1) go False by simp
      have tr: "trimmable (?ns ! h) = trimmable (ns ! h)" for h
        using Cons.prems(3) by (cases "h = i") (simp_all add: set_node_def trimmable_def)
      have out: "?ns ! j = ns ! j" if "j \<in> set hs" for j
        using that Cons.prems(2,3) by (auto simp: nth_set_node)
      have "\<forall>h \<in> set hs. h < length ?ns \<and> n_value (?ns ! h)"
        using Cons.prems(3) out by simp
      note I = Cons.IH [OF r _ this]
      have "\<not> n_value (ms ! i)" using I Cons.prems(2,3) by (simp add: nth_set_node)
      moreover have "trimmable (ns ! i)" using False by (simp add: trimmable_def)
      ultimately show ?thesis using I Cons.prems(2,3) go out by (auto simp: nth_set_node tr)
    qed
  qed
qed

lemma trim_spec:
  assumes cap: "0 \<le> p_cap p" and i: "i < length (p_nodes p)" and q: "q = trim p i"
  shows "\<forall>j < length (p_nodes p). n_value (p_nodes p ! j) \<longrightarrow> \<not> n_value (p_nodes q ! j) \<longrightarrow>
      j \<in> set (holders (p_nodes p) i) \<and> j \<noteq> i \<and> trimmable (p_nodes p ! j)"
    "min (int (length (holders (p_nodes p) i))) (p_cap p) \<le> int (length (holders (p_nodes q) i))"
    "int (length (holders (p_nodes q) i)) \<le> p_cap p \<or>
       (\<forall>j \<in> set (holders (p_nodes q) i). j = i \<or> \<not> trimmable (p_nodes q ! j))"
proof -
  let ?hs = "holders (p_nodes p) i" and ?l = "lineage (p_nodes p) i"
  let ?x = "int (length ?hs) - p_cap p"
  obtain ms fs where l: "trim_loop i ?x (p_nodes p) (p_events p) (rev ?hs) = (ms, fs)" by fastforce
  have ms: "p_nodes q = ms" using cap l by (simp add: q trim_def Let_def)
  have c: "cleared (p_nodes p) ms" using trim_loop_cleared [OF l] by blast
  have h: "?hs = filter (\<lambda>j. n_value (p_nodes p ! j)) ?l" by (rule holders_lineage)
  have le: "j < length (p_nodes p)" if "j \<in> set ?l" for j using lineage_le [OF that] i by simp
  have "\<forall>h \<in> set (rev ?hs). h < length (p_nodes p) \<and> n_value (p_nodes p ! h)"
    using le by (simp add: h)
  note S = trim_loop_spec [OF l _ this]
  have d: "distinct (rev ?hs)" using lineage_distinct by (simp add: h)
  have "lineage ms i = ?l"
    using cleared_length [OF c] cleared_fields(3) [OF c] i by (intro lineage_cong) simp_all
  then have "holders ms i = filter (\<lambda>j. n_value (ms ! j)) ?l" by (simp add: holders_lineage)
  also have "\<dots> = filter (\<lambda>j. n_value (ms ! j)) ?hs"
    unfolding h filter_filter using cleared_fields(7) [OF c] le by (intro filter_cong) auto
  finally have hq: "holders ms i = filter (\<lambda>j. n_value (ms ! j)) ?hs" .
  have cut: "length (filter (\<lambda>h. \<not> n_value (ms ! h)) (rev ?hs)) + length (holders ms i) = length ?hs"
    using sum_length_filter_compl [of "\<lambda>j. n_value (ms ! j)" ?hs] by (simp add: hq rev_filter [symmetric])
  show "\<forall>j < length (p_nodes p). n_value (p_nodes p ! j) \<longrightarrow> \<not> n_value (p_nodes q ! j) \<longrightarrow>
      j \<in> set ?hs \<and> j \<noteq> i \<and> trimmable (p_nodes p ! j)"
    using S d unfolding ms by (metis set_rev)
  show "min (int (length ?hs)) (p_cap p) \<le> int (length (holders (p_nodes q) i))"
    using S d cut unfolding ms by linarith
  have tw: "j \<in> set (takeWhile (\<lambda>h. h \<noteq> i) (rev ?hs))" if "j \<in> set ?hs" "j \<noteq> i" for j
  proof -
    obtain ts where ts: "?l = i # ts" using lineage.simps by blast
    then have "i \<notin> set ts" using lineage_distinct [of "p_nodes p" i] by simp
    then have ni: "\<forall>h \<in> set (rev (filter (\<lambda>j. n_value (p_nodes p ! j)) ts)). h \<noteq> i" by auto
    have "rev ?hs = rev (filter (\<lambda>j. n_value (p_nodes p ! j)) ts) @ (if n_value (p_nodes p ! i) then [i] else [])"
      by (simp add: h ts)
    then have "takeWhile (\<lambda>h. h \<noteq> i) (rev ?hs) = rev (filter (\<lambda>j. n_value (p_nodes p ! j)) ts)"
      using ni by (simp add: takeWhile_append takeWhile_eq_all_conv)
    then have tk: "set (takeWhile (\<lambda>h. h \<noteq> i) (rev ?hs)) = set (filter (\<lambda>j. n_value (p_nodes p ! j)) ts)"
      by simp
    have "j \<in> set (filter (\<lambda>j. n_value (p_nodes p ! j)) ts)"
      using that by (auto simp: h ts split: if_splits)
    then show ?thesis unfolding tk .
  qed
  have tm: "trimmable (ms ! j) = trimmable (p_nodes p ! j)" if "j \<in> set ?hs" for j
    using that le [of j] cleared_fields(4,5) [OF c] by (simp add: h trimmable_def)
  show "int (length (holders (p_nodes q) i)) \<le> p_cap p \<or>
       (\<forall>j \<in> set (holders (p_nodes q) i). j = i \<or> \<not> trimmable (p_nodes q ! j))"
  proof (cases "?x \<le> int (length (filter (\<lambda>h. \<not> n_value (ms ! h)) (rev ?hs)))")
    case True
    then show ?thesis using cut unfolding ms by linarith
  next
    case False
    then have "\<forall>h \<in> set (takeWhile (\<lambda>h. h \<noteq> i) (rev ?hs)). n_value (ms ! h) \<longrightarrow> \<not> trimmable (p_nodes p ! h)"
      using S d by blast
    then show ?thesis using tw tm unfolding ms by (auto simp: hq)
  qed
qed


subsection \<open>Menus\<close>

text \<open>A menu: every group names at most nine distinct ordinals of the bound rows, and the rows of a
  salt have one prompt length.\<close>

definition row_ok :: "(string \<Rightarrow> int) \<Rightarrow> (nat \<times> bound_row) list \<Rightarrow> nat \<Rightarrow> bool" where
  "row_ok f bound ordinal =
     (case map_of bound ordinal of None \<Rightarrow> False | Some row \<Rightarrow> f (b_salt row) = b_tokens row \<and> 0 < b_tokens row)"

definition menu_ok :: "(string \<Rightarrow> int) \<Rightarrow> (nat \<times> bound_row) list \<Rightarrow> nat list list \<Rightarrow> bool" where
  "menu_ok f bound groups =
     list_all (\<lambda>g. distinct g \<and> length g \<le> 9 \<and> list_all (row_ok f bound) g) groups"

definition outcome_ok :: "(nat \<times> bound_row) list \<Rightarrow> nat \<times> int \<Rightarrow> bool" where
  "outcome_ok bound kv = (case map_of bound (fst kv) of None \<Rightarrow> False
     | Some row \<Rightarrow> CHUNK dvd snd kv \<and> 0 \<le> snd kv \<and> snd kv < b_tokens row)"

lemma requests_ok:
  assumes "list_all (row_ok f bound) os"
  shows "\<exists>rs. mapM_res (request_of bound) os = Inr rs \<and> map r_rid rs = os \<and> list_all (same_prompt f) rs \<and>
    list_all (\<lambda>r. \<exists>row. map_of bound (r_rid r) = Some row \<and> b_tokens row = r_prompt r) rs"
  using assms
proof (induction os)
  case (Cons ord os)
  then obtain row where "map_of bound ord = Some row" "f (b_salt row) = b_tokens row" "0 < b_tokens row"
    by (auto simp: row_ok_def split: option.splits)
  with Cons show ?case by (auto simp: request_of_def same_prompt_def)
qed simp

lemma foldl_dset:
  "fst ` set (foldl (\<lambda>d kv. dset d (fst kv) (snd kv)) d kvs) = fst ` set d \<union> fst ` set kvs"
  "set (foldl (\<lambda>d kv. dset d (fst kv) (snd kv)) d kvs) \<subseteq> set d \<union> set kvs"
proof -
  have s: "set (dset d k v) \<subseteq> insert (k, v) (set d)" for d :: "('a \<times> 'b) list" and k v
    by (induction d k v rule: dset.induct) auto
  show "fst ` set (foldl (\<lambda>d kv. dset d (fst kv) (snd kv)) d kvs) = fst ` set d \<union> fst ` set kvs"
    by (induction kvs arbitrary: d) auto
  show "set (foldl (\<lambda>d kv. dset d (fst kv) (snd kv)) d kvs) \<subseteq> set d \<union> set kvs"
  proof (induction kvs arbitrary: d)
    case (Cons kv kvs)
    have "set (foldl (\<lambda>d kv. dset d (fst kv) (snd kv)) (dset d (fst kv) (snd kv)) kvs)
        \<subseteq> set (dset d (fst kv) (snd kv)) \<union> set kvs" by (rule Cons.IH)
    then show ?case using s [of d "fst kv" "snd kv"] by auto
  qed simp
qed

definition run_ok :: "(string \<Rightarrow> int) \<Rightarrow> (nat \<times> bound_row) list \<Rightarrow> pool \<times> (nat \<times> int) list \<Rightarrow> bool" where
  "run_ok f bound s = (quiet (fst s) \<and> frontier f (fst s) \<and> list_all (outcome_ok bound) (snd s))"

lemma replay_step_ok:
  assumes s: "run_ok f bound s" and g: "distinct g" "length g \<le> 9" "list_all (row_ok f bound) g"
  shows "\<exists>t. replay_step bound b s g = Inr t \<and> run_ok f bound t \<and> fst ` set (snd t) = fst ` set (snd s) \<union> set g"
proof -
  obtain p results where ps: "s = (p, results)" by fastforce
  let ?os = "if b then rev g else g"
  have os: "distinct ?os" "length ?os \<le> 9" "list_all (row_ok f bound) ?os" "set ?os = set g"
    using g by (simp_all add: list_all_iff)
  obtain rs where rs: "mapM_res (request_of bound) ?os = Inr rs" "map r_rid rs = ?os" "list_all (same_prompt f) rs"
    "list_all (\<lambda>r. \<exists>row. map_of bound (r_rid r) = Some row \<and> b_tokens row = r_prompt r) rs"
    using requests_ok [OF os(3)] by blast
  have p: "quiet p" "frontier f p" "list_all (outcome_ok bound) results" using s by (simp_all add: run_ok_def ps)
  have d: "distinct (map r_rid rs)" using rs(2) os(1) by simp
  have "length rs \<le> 9" using rs(2) os(2) by (metis length_map)
  then obtain q cached where q: "group p rs = Inr (q, cached)" using group_total [OF p(1) d] by blast
  note G = group_spec [OF q p(1) d, of f]
  let ?t = "(q, foldl (\<lambda>d kv. dset d (fst kv) (snd kv)) results cached)"
  have hits: "list_all2 chunk_hit rs cached" using G p(2) rs(3) by blast
  then have "outcome_ok bound kv" if mem: "kv \<in> set cached" for kv
  proof -
    obtain r where r: "(r, kv) \<in> set (zip rs cached)"
      by (rule in_set_impl_in_set_zip2 [OF list_all2_lengthD [OF hits] mem])
    then have c: "chunk_hit r kv" using hits by (auto simp: list_all2_iff)
    have "r \<in> set rs" using r by (rule set_zip_leftD)
    then obtain row where "map_of bound (r_rid r) = Some row" "b_tokens row = r_prompt r"
      using rs(4) by (auto simp: list_all_iff)
    then show ?thesis using c by (simp add: chunk_hit_def outcome_ok_def)
  qed
  then have "list_all (outcome_ok bound) (snd ?t)"
    using p(3) foldl_dset(2) [of results cached] by (auto simp: list_all_iff)
  moreover have "fst ` set (snd ?t) = fst ` set results \<union> set g"
  proof -
    have "map fst cached = ?os" using G rs(2) by simp
    from arg_cong [OF this, of set] have "fst ` set cached = set g" by (cases b) simp_all
    then show ?thesis by (simp add: foldl_dset(1))
  qed
  moreover have "replay_step bound b s g = Inr ?t" using rs(1) q by (simp add: replay_step_def ps)
  moreover have "quiet q" "frontier f q" using G p(2) rs(3) by blast+
  ultimately show ?thesis by (intro exI [of _ ?t]) (simp add: run_ok_def ps)
qed

lemma replay_run:
  assumes "run_ok f bound s" "menu_ok f bound groups"
  shows "\<exists>t. foldM_res (replay_step bound b) s groups = Inr t \<and> run_ok f bound t
    \<and> fst ` set (snd t) = fst ` set (snd s) \<union> \<Union> (set ` set groups)"
  using assms
proof (induction groups arbitrary: s)
  case (Cons g groups)
  obtain u where u: "replay_step bound b s g = Inr u" "run_ok f bound u"
    "fst ` set (snd u) = fst ` set (snd s) \<union> set g"
    using replay_step_ok [OF Cons.prems(1), of g b] Cons.prems(2) by (auto simp: menu_ok_def)
  with Cons.IH [OF u(2)] Cons.prems(2) show ?case by (auto simp: menu_ok_def)
qed simp

lemma new_pool_ok:
  assumes "new_pool cap leaf = Inr p" shows "run_ok f bound (p, [])"
  using assms by (auto simp: new_pool_def run_ok_def quiet_def wf_pool_def frontier_def chain_of_def
      locked_in_def used_def keyset_def split: if_splits)


section \<open>Properties\<close>

text \<open>C1.  Replaying a menu whose groups have at most nine distinct requests and whose rows of a
  salt share one prompt length always returns, with one result per ordinal in order; each
  request is served from a prefix that is a whole number of chunks and shorter than its prompt,
  whatever the cap, the admission order and the leaf option.\<close>

theorem replay_serves_chunks:
  assumes "cap = -1 \<or> 0 < cap" "admission \<in> {''b-first'', ''a-first''}" "menu_ok f bound groups"
  shows "\<exists>results. replay groups bound cap leaf admission = Inr results
    \<and> sorted (map fst results) \<and> fst ` set results = \<Union> (set ` set groups)
    \<and> (\<forall>kv \<in> set results. outcome_ok bound kv)"
proof -
  obtain p where p: "new_pool cap leaf = Inr p" using assms(1) by (auto simp: new_pool_def)
  obtain s where s: "foldM_res (replay_step bound (admission = ''b-first'')) (p, []) groups = Inr s"
    and r: "run_ok f bound s" "fst ` set (snd s) = fst ` set (snd (p, [] :: (nat \<times> int) list)) \<union> \<Union> (set ` set groups)"
    using replay_run [OF new_pool_ok [OF p] assms(3)] by blast
  have "admission \<noteq> ''b-first'' \<longrightarrow> admission = ''a-first''" using assms(2) by blast
  then have "replay groups bound cap leaf admission = Inr (sort_key fst (snd s))"
    using p s by (cases "admission = ''b-first''") (simp_all add: replay_def case_prod_beta)
  moreover have "\<forall>kv \<in> set (snd s). outcome_ok bound kv"
    using r(1) by (simp add: run_ok_def list_all_iff)
  ultimately show ?thesis using r(2) by simp
qed

definition demo_rows :: "(nat \<times> bound_row) list" where
  "demo_rows = [(0, \<lparr>b_salt = ''a'', b_tokens = 5000, b_case = ''long-c1-cold-r1''\<rparr>),
                (1, \<lparr>b_salt = ''a'', b_tokens = 5000, b_case = ''long-c1-warm-r1''\<rparr>)]"

theorem replay_serves_chunks_witness:
  "\<exists>results. replay [[0], [1]] demo_rows (-1) False ''b-first'' = Inr results
    \<and> sorted (map fst results) \<and> fst ` set results = {0, 1} \<and> (\<forall>kv \<in> set results. outcome_ok demo_rows kv)"
  using replay_serves_chunks [of "-1" "''b-first''" "\<lambda>_. 5000" demo_rows "[[0], [1]]" False]
  by (simp add: menu_ok_def row_ok_def demo_rows_def insert_commute)

text \<open>C10.  A group of at most nine requests with distinct ids, started on a quiet pool (well formed,
  within the nineteen slots, nothing locked or pinned), never exhausts the pool and leaves it
  quiet.\<close>

theorem group_keeps_pool_quiet:
  assumes "quiet p" "distinct (map r_rid rs)" "length rs \<le> 9"
  shows "\<exists>q cached. group p rs = Inr (q, cached) \<and> quiet q \<and> map fst cached = map r_rid rs"
  using group_total [OF assms] group_spec [OF _ assms(1,2)] by blast

theorem group_keeps_pool_quiet_witness:
  "\<exists>q cached. group \<lparr>p_cap = 2, p_finish_new_leaf = True, p_clock = 1, p_nodes = [], p_chains = [],
        p_pinned = [], p_events = []\<rparr>
      [\<lparr>r_rid = 4, r_path = ''a'', r_prompt = 9000, r_completion = 10\<rparr>,
       \<lparr>r_rid = 5, r_path = ''a'', r_prompt = 9000, r_completion = 7\<rparr>] = Inr (q, cached)
    \<and> quiet q \<and> map fst cached = [4, 5]"
  using group_keeps_pool_quiet [of "\<lparr>p_cap = 2, p_finish_new_leaf = True, p_clock = 1, p_nodes = [],
      p_chains = [], p_pinned = [], p_events = []\<rparr>"
      "[\<lparr>r_rid = 4, r_path = ''a'', r_prompt = 9000, r_completion = 10\<rparr>,
        \<lparr>r_rid = 5, r_path = ''a'', r_prompt = 9000, r_completion = 7\<rparr>]"]
  by (simp add: quiet_def wf_pool_def chain_of_def used_def locked_in_def)

text \<open>C16.  Eviction raises exactly when every value is locked; otherwise it takes the value of one
  unlocked node that was used least recently, and changes nothing else but the event log.\<close>

theorem evict_lru_least_recent:
  "case evict_lru p of
     Inl e \<Rightarrow> \<forall>n \<in> set (p_nodes p). n_value n \<longrightarrow> n_locked n
   | Inr q \<Rightarrow> \<exists>v < length (p_nodes p). n_value (p_nodes p ! v) \<and> \<not> n_locked (p_nodes p ! v)
       \<and> (\<forall>n \<in> set (p_nodes p). n_value n \<longrightarrow> n_locked n \<or> n_mru (p_nodes p ! v) \<le> n_mru n)
       \<and> q = p\<lparr>p_nodes := (p_nodes p)[v := (p_nodes p ! v)\<lparr>n_value := False\<rparr>],
              p_events := p_events p @ [Evict (n_path (p_nodes p ! v)) (n_pos (p_nodes p ! v))]\<rparr>"
proof (cases "evict_lru p")
  case (Inl e)
  then have "candidates (p_nodes p) = []" by (auto simp: evict_lru_def Let_def split: list.splits)
  then have "\<not> (i < length (p_nodes p) \<and> n_value (p_nodes p ! i) \<and> \<not> n_locked (p_nodes p ! i))" for i
    using candidates_iff [of i "p_nodes p"] by simp
  then show ?thesis using Inl by (auto simp: in_set_conv_nth)
next
  case (Inr q)
  from evict_lru_Inr [OF Inr] obtain v where v: "v \<in> set (candidates (p_nodes p))"
    "\<forall>i \<in> set (candidates (p_nodes p)). n_mru (p_nodes p ! v) \<le> n_mru (p_nodes p ! i)"
    and q: "q = p\<lparr>p_nodes := set_node v (n_value_update (\<lambda>_. False)) (p_nodes p),
           p_events := p_events p @ [Evict (n_path (p_nodes p ! v)) (n_pos (p_nodes p ! v))]\<rparr>"
    by blast
  have "n_locked n \<or> n_mru (p_nodes p ! v) \<le> n_mru n" if n: "n \<in> set (p_nodes p)" "n_value n" for n
  proof -
    obtain i where i: "i < length (p_nodes p)" "n = p_nodes p ! i" using n(1) by (auto simp: in_set_conv_nth)
    then show ?thesis using v(2) n(2) candidates_iff [of i "p_nodes p"] by blast
  qed
  then show ?thesis using v(1) q candidates_iff [of v "p_nodes p"]
    unfolding Inr sum.case set_node_def by blast
qed

definition demo_node :: "int \<Rightarrow> nat option \<Rightarrow> nat list \<Rightarrow> nat \<Rightarrow> node" where
  "demo_node pos parent children mru = (new_node ''a'' pos parent)\<lparr>n_children := children, n_value := True, n_mru := mru\<rparr>"

definition demo_pool :: pool where
  "demo_pool = \<lparr>p_cap = 1, p_finish_new_leaf = False, p_clock = 4,
     p_nodes = [demo_node 2048 None [1] 1, demo_node 4096 (Some 0) [2] 2, demo_node 5000 (Some 1) [] 3],
     p_chains = [(''a'', [(2048, 0), (4096, 1), (5000, 2)])], p_pinned = [], p_events = []\<rparr>"

theorem evict_lru_least_recent_witness: "\<exists>q. evict_lru demo_pool = Inr q \<and> \<not> n_value (p_nodes q ! 0)"
  using evict_lru_least_recent [of demo_pool]
  by (simp add: evict_lru_def candidates_def demo_pool_def demo_node_def new_node_def Let_def set_node_def upt_rec)

text \<open>C15.  With a cap, trimming takes values only from unlocked holders of the path that have exactly
  one child, never from the tail, leaves at least the cap, and stops above it only when every
  other holder left is locked, a fork or a leaf.\<close>

theorem trim_respects_cap:
  assumes "0 < p_cap p" "i < length (p_nodes p)"
  shows "(\<forall>j < length (p_nodes p). n_value (p_nodes p ! j) \<longrightarrow> \<not> n_value (p_nodes (trim p i) ! j) \<longrightarrow>
      j \<in> set (holders (p_nodes p) i) \<and> j \<noteq> i \<and> trimmable (p_nodes p ! j))
    \<and> min (int (length (holders (p_nodes p) i))) (p_cap p) \<le> int (length (holders (p_nodes (trim p i)) i))
    \<and> (int (length (holders (p_nodes (trim p i)) i)) \<le> p_cap p \<or>
       (\<forall>j \<in> set (holders (p_nodes (trim p i)) i). j = i \<or> \<not> trimmable (p_nodes (trim p i) ! j)))"
  using trim_spec [of p i "trim p i"] assms by simp

theorem trim_respects_cap_witness: "1 \<le> length (holders (p_nodes (trim demo_pool 2)) 2)"
  using trim_respects_cap [of demo_pool 2]
  by (simp add: demo_pool_def demo_node_def new_node_def holders.simps [of _ 2] holders.simps [of _ 1] holders.simps [of _ 0])

text \<open>C17.  A match is the deepest node of the path that holds a value and ends before the last token
  of the prompt; there is none only when no node qualifies; and matching changes no value and no
  position, only the lock and the use mark of the match.\<close>

theorem match_prefix_deepest:
  assumes "wf_pool p" "match_prefix p path prompt = (q, m)"
  shows "retouched p q \<and> used q = used p \<and>
    (case m of None \<Rightarrow> \<forall>j. \<not> servable p path prompt j
     | Some i \<Rightarrow> servable p path prompt i
         \<and> (\<forall>j. servable p path prompt j \<longrightarrow> n_pos (p_nodes p ! j) \<le> n_pos (p_nodes p ! i)))"
  using match_prefix_spec [OF assms] by (simp split: option.splits)

lemma demo_pool_wf: "wf_pool demo_pool"
  by (auto simp: wf_pool_def demo_pool_def chain_of_def demo_node_def new_node_def less_Suc_eq
      split: if_splits simp del: map_of_eq_Some_iff)

theorem match_prefix_deepest_witness: "servable demo_pool ''a'' 5000 1"
  using match_prefix_deepest [OF demo_pool_wf, of "''a''" 5000 "fst (match_prefix demo_pool ''a'' 5000)" "Some 1"]
  by (simp add: match_prefix_def demo_pool_def chain_of_def demo_node_def new_node_def)

end
