(* ===== verification/Gateway.thy ===== *)
theory Gateway
  imports Py_Float
begin

text \<open>
  \<open>apps/base/shared-api/boundary.py\<close>: the ASGI boundary of the shared API.  A call is
  modelled up to the point where it answers, hands the request on, or launches the backend for a
  chat completion; between reading the body and launching there is no await, so that part is one
  step.  The end of a launched request is a second step, with what ended it.  Bytes are strings;
  the files, JSON, the clocks and the identity of the running task are supplied by the
  environment.
\<close>

section \<open>Requests and state\<close>

definition CHAT_MODELS :: "(string \<times> int \<times> int) list" where
  "CHAT_MODELS = [(''Qwen3.8-27B-FP8'', 32768, 4096), (''Qwen3.5-9B'', 4096, 1024)]"

definition MAX_BODY :: nat where
  "MAX_BODY = 1024 * 1024"

definition CHAT_FIELDS :: "string list" where
  "CHAT_FIELDS =
     [''model'', ''messages'', ''stream'', ''stream_options'', ''max_tokens'',
      ''max_completion_tokens'', ''temperature'', ''top_p'', ''top_k'', ''seed'', ''stop'',
      ''tools'', ''tool_choice'', ''parallel_tool_calls'', ''response_format'',
      ''presence_penalty'', ''frequency_penalty'', ''chat_template_kwargs'', ''n'']"

definition PHASES :: "string list" where
  "PHASES = [''ready'', ''starting'', ''draining'', ''unavailable'', ''maintenance'']"

type_synonym headers = "(string \<times> string) list"

record scope =
  s_type :: string
  s_path :: string
  s_raw_path :: string
  s_method :: string
  s_headers :: headers

datatype message = Disconnect | Chunk string bool

record env =
  e_browser_file :: "string res"
  e_control_file :: "string res"
  e_loads :: "string \<Rightarrow> pyv res"
  e_dumps :: "pyv \<Rightarrow> string"
  e_time :: flt
  e_monotonic :: flt
  e_task :: nat

text \<open>\<open>self.state\<close>, \<open>self.active\<close> and \<open>self.requests\<close>; \<open>g_cancelled\<close> are the tasks
  on which \<open>cancel()\<close> has been called.\<close>

record gateway =
  g_phase :: string
  g_model :: pyv
  g_images :: bool
  g_active :: "(nat \<times> flt) list"
  g_cancelled :: "nat list"
  g_requests :: "(string \<times> nat) list"

definition new_gateway :: gateway where
  "new_gateway =
     \<lparr>g_phase = ''unavailable'', g_model = PNone, g_images = False, g_active = [], g_cancelled = [],
      g_requests = [(''ok'', 0), (''refused'', 0), (''backend_error'', 0), (''cancelled'', 0), (''limited'', 0)]\<rparr>"

definition bump :: "string \<Rightarrow> gateway \<Rightarrow> gateway" where
  "bump name g = g\<lparr>g_requests := dbump (g_requests g) name\<rparr>"

text \<open>What a step does beside changing the state: a JSON reply, the metrics text, the inner
  application called as it is, the backend launched with a body, the stream closed, an
  exception that leaves the boundary, or waiting for a body that does not come.\<close>

datatype action =
    Respond int pyv
  | Respond_metrics "string list"
  | Pass_on scope
  | Launch scope string
  | Close_stream
  | Escape exn
  | Waiting

section \<open>Helpers\<close>

definition secret_json :: "env \<Rightarrow> string res \<Rightarrow> pydict res" where
  "secret_json env text =
     (case text of Inl e \<Rightarrow> Inl e | Inr s \<Rightarrow>
      case e_loads env s of Inl e \<Rightarrow> Inl e
      | Inr (PDict d) \<Rightarrow> Inr d
      | Inr _ \<Rightarrow> Inl (ValueError ''invalid secret document''))"

definition header :: "headers \<Rightarrow> string \<Rightarrow> string" where
  "header hs name = (case map_of hs name of None \<Rightarrow> [] | Some v \<Rightarrow> v)"

text \<open>\<open>len(expected) < 32 or not compare_digest(auth, "Bearer " + expected)\<close>\<close>

definition service_key_ok :: "string \<Rightarrow> pyv \<Rightarrow> bool res" where
  "service_key_ok auth expected =
     (case py_len expected of Inl e \<Rightarrow> Inl e | Inr n \<Rightarrow>
      if n < 32 then Inr False
      else case expected of PStr s \<Rightarrow> compare_digest_str auth (''Bearer '' @ s) | _ \<Rightarrow> Inl TypeError)"

definition as_dict :: "pyv \<Rightarrow> pydict res" where
  "as_dict v = (case v of PDict d \<Rightarrow> Inr d | _ \<Rightarrow> Inl AttributeError)"

definition browser_record :: "pydict \<Rightarrow> string \<Rightarrow> flt \<Rightarrow> pydict res" where
  "browser_record credentials uid now =
     (case as_dict (dget_or credentials ''users'' (PDict [])) of Inl e \<Rightarrow> Inl e | Inr users \<Rightarrow>
      if \<not> truthy (dget users uid) then Inl (Refusal 403 ''browser_user_not_provisioned'')
      else case as_dict (dget users uid) of Inl e \<Rightarrow> Inl e | Inr record \<Rightarrow>
      case py_le (dget_or record ''expires_at'' (PInt 0)) (PFloat now) of Inl e \<Rightarrow> Inl e | Inr expired \<Rightarrow>
      if expired then Inl (Refusal 403 ''browser_user_not_provisioned'') else Inr record)"

definition browser_key :: "headers \<Rightarrow> string \<Rightarrow> pydict \<Rightarrow> flt \<Rightarrow> bool \<Rightarrow> (pyv \<times> string) res" where
  "browser_key hs path credentials now need_virtual_key =
     (case service_key_ok (header hs ''authorization'') (dget_or credentials ''service_key'' (PStr [])) of
        Inl e \<Rightarrow> Inl e | Inr ok \<Rightarrow>
      if \<not> ok then Inl (Refusal 401 ''invalid_application_credential'')
      else let uid = header hs ''x-openwebui-user-id'' in
      case browser_record credentials uid now of Inl e \<Rightarrow> Inl e | Inr record \<Rightarrow>
      if ends_with path ''images/generations'' \<and> \<not> truthy (dget_or record ''images'' (PBool False))
      then Inl (Refusal 403 ''image_permission_denied'')
      else let key = dget_or record ''key'' (PStr []) in
      if \<not> need_virtual_key then Inr (key, uid)
      else case key of
        PStr k \<Rightarrow> if \<not> starts_with k ''sk-'' \<or> length k < 24
                  then Inl (Refusal 403 ''browser_user_not_provisioned'') else Inr (key, uid)
      | _ \<Rightarrow> Inl AttributeError)"

text \<open>\<open>read_body\<close>; \<open>None\<close> while the messages run out before the last part.\<close>

fun read_body :: "nat \<Rightarrow> string \<Rightarrow> message list \<Rightarrow> string res option" where
  "read_body limit body [] = None"
| "read_body limit body (Disconnect # ms) = Some (Inl CancelledError)"
| "read_body limit body (Chunk part again # ms) =
     (if limit < length (body @ part) then Some (Inl (Refusal 413 ''request_too_large''))
      else if again then read_body limit (body @ part) ms
      else Some (Inr (body @ part)))"

section \<open>Status and metrics\<close>

definition state_value :: "gateway \<Rightarrow> pyv" where
  "state_value g =
     PDict [(''phase'', PStr (g_phase g)), (''model'', g_model g), (''images'', PBool (g_images g)),
            (''active'', PInt (int (length (g_active g))))]"

definition error_value :: "string \<Rightarrow> pyv" where
  "error_value code = PDict [(''error'', PDict [(''code'', PStr code)])]"

text \<open>\<open>f"{x:.3f}"\<close>\<close>

definition fixed3 :: "flt \<Rightarrow> string" where
  "fixed3 f = (case f of
     Fin q \<Rightarrow> let n = nat (round_half_even (\<bar>q\<bar> * 1000)); d = show_nat (n mod 1000)
             in (if q < 0 then ''-'' else []) @ show_nat (n div 1000) @ ''.''
                @ replicate (3 - length d) (CHR ''0'') @ d
   | Inf s \<Rightarrow> if s then ''-inf'' else ''inf'' | NaN \<Rightarrow> ''nan'')"

fun max_flt :: "flt \<Rightarrow> flt list \<Rightarrow> flt" where
  "max_flt best [] = best"
| "max_flt best (x # xs) = max_flt (if flt_lt best x then x else best) xs"

definition oldest :: "flt \<Rightarrow> gateway \<Rightarrow> flt" where
  "oldest now g = (case map (\<lambda>t. flt_sub now (snd t)) (g_active g) of [] \<Rightarrow> Fin 0 | x # xs \<Rightarrow> max_flt x xs)"

definition service_metrics :: "flt \<Rightarrow> gateway \<Rightarrow> string list" where
  "service_metrics now g =
     map (\<lambda>name. ''workstation_service_phase{phase=\"'' @ name @ ''\"} '' @ (if name = g_phase g then ''1'' else ''0'')) PHASES
     @ [''workstation_service_active_requests '' @ show_nat (length (g_active g)),
        ''workstation_service_oldest_request_seconds '' @ fixed3 (oldest now g)]
     @ map (\<lambda>kn. ''workstation_service_requests_total{result=\"'' @ fst kn @ ''\"} '' @ show_nat (snd kn)) (g_requests g)"

section \<open>The handlers\<close>

text \<open>\<open>control\<close>\<close>

definition control_allowed :: "env \<Rightarrow> scope \<Rightarrow> headers \<Rightarrow> unit res" where
  "control_allowed env sc hs =
     (case e_control_file env of Inl e \<Rightarrow> Inl e | Inr text \<Rightarrow>
      let key = strip text in
      if s_method sc \<noteq> ''POST'' \<or> length key < 32 \<or> header hs ''authorization'' \<noteq> utf8 (''Bearer '' @ key)
      then Inl (Refusal 401 ''invalid_control_credential'') else Inr ())"

definition control_state :: "pydict \<Rightarrow> (string \<times> pyv \<times> bool \<times> bool) res" where
  "control_state data =
     (let phase = dget data ''phase''; model = dget data ''model'';
          images = dget_or data ''images'' (PBool False); cancel = (dget data ''cancel'' = PBool True) in
      case str_in phase PHASES of Inl e \<Rightarrow> Inl e | Inr known \<Rightarrow>
      if \<not> known then Inl (Refusal 400 ''invalid_phase'')
      else case (if phase = PStr ''ready'' \<or> phase = PStr ''starting''
                 then str_in model (map fst CHAT_MODELS) else Inr True) of Inl e \<Rightarrow> Inl e | Inr model_ok \<Rightarrow>
      if \<not> model_ok then Inl (Refusal 400 ''invalid_model'')
      else if \<not> is_bool images \<or> (images = PBool True \<and> model \<noteq> PStr ''Qwen3.5-9B'')
      then Inl (Refusal 400 ''images_require_split_profile'')
      else if cancel \<and> phase \<noteq> PStr ''draining'' \<and> phase \<noteq> PStr ''unavailable''
      then Inl (Refusal 400 ''invalid_cancel_phase'')
      else case phase of PStr p \<Rightarrow> Inr (p, model, images = PBool True \<and> p = ''ready'', cancel) | _ \<Rightarrow> Inl TypeError)"

definition control :: "env \<Rightarrow> gateway \<Rightarrow> scope \<Rightarrow> headers \<Rightarrow> message list \<Rightarrow> (gateway \<times> action) res" where
  "control env g sc hs ms =
     (case control_allowed env sc hs of Inl e \<Rightarrow> Inl e | Inr _ \<Rightarrow>
      case read_body 4096 [] ms of None \<Rightarrow> Inr (g, Waiting) | Some (Inl e) \<Rightarrow> Inl e | Some (Inr body) \<Rightarrow>
      case e_loads env body of Inl e \<Rightarrow> Inl e | Inr value \<Rightarrow>
      case as_dict value of Inl e \<Rightarrow> Inl e | Inr data \<Rightarrow>
      case control_state data of Inl e \<Rightarrow> Inl e | Inr (phase, model, images, cancel) \<Rightarrow>
      let g' = g\<lparr>g_phase := phase, g_model := model, g_images := images,
                 g_cancelled := g_cancelled g @ (if cancel then map fst (g_active g) else [])\<rparr>
      in Inr (g', Respond 200 (state_value g')))"

text \<open>\<open>chat\<close>: the checks of the request, and the launch.\<close>

definition chat_checks :: "gateway \<Rightarrow> pydict \<Rightarrow> pydict res" where
  "chat_checks g body =
     (let data = dpop body ''user'' in
      if \<not> list_all (\<lambda>kv. fst kv \<in> set CHAT_FIELDS) data then Inl (Refusal 400 ''unsupported_request_field'')
      else let model = dget data ''model'' in
      case str_in model (map fst CHAT_MODELS) of Inl e \<Rightarrow> Inl e | Inr known \<Rightarrow>
      if \<not> known then Inl (Refusal 404 ''unknown_model'')
      else if g_phase g \<noteq> ''ready'' \<or> g_model g \<noteq> model then Inl (Refusal 503 ''requested_model_unavailable'')
      else if 4 \<le> length (g_active g) then Inl (Refusal 429 ''service_concurrency_limit'')
      else if \<not> py_eq (dget_or data ''n'' (PInt 1)) (PInt 1) then Inl (Refusal 400 ''one_completion_per_request'')
      else if dhas data ''max_tokens'' \<and> dhas data ''max_completion_tokens''
      then Inl (Refusal 400 ''ambiguous_output_limit'')
      else let field = (if dhas data ''max_completion_tokens'' then ''max_completion_tokens'' else ''max_tokens'');
               cap = (case model of PStr m \<Rightarrow> snd (the (map_of CHAT_MODELS m)) | _ \<Rightarrow> 0) in
      case dget_or data field (PInt cap) of
        PInt limit \<Rightarrow>
          if \<not> (1 \<le> limit \<and> limit \<le> cap) then Inl (Refusal 400 ''output_limit_exceeded'')
          else Inr (dset data field (PInt limit))
      | _ \<Rightarrow> Inl (Refusal 400 ''output_limit_exceeded''))"

definition chat :: "env \<Rightarrow> gateway \<Rightarrow> scope \<Rightarrow> message list \<Rightarrow> (gateway \<times> action) res" where
  "chat env g sc ms =
     (if s_method sc \<noteq> ''POST'' then Inl (Refusal 405 ''method_not_allowed'')
      else case read_body MAX_BODY [] ms of None \<Rightarrow> Inr (g, Waiting) | Some (Inl e) \<Rightarrow> Inl e | Some (Inr raw) \<Rightarrow>
      case e_loads env raw of Inl e \<Rightarrow> Inl e
      | Inr (PDict body) \<Rightarrow>
          (case chat_checks g body of Inl e \<Rightarrow> Inl e | Inr data \<Rightarrow>
           let text = e_dumps env (PDict data) in
           Inr (g\<lparr>g_active := dset (g_active g) (e_task env) (e_monotonic env)\<rparr>,
                Launch (sc\<lparr>s_headers := s_headers sc @ [(''content-length'', show_nat (length text))]\<rparr>) text))
      | Inr _ \<Rightarrow> Inl (Refusal 400 ''invalid_request''))"

text \<open>How a launched request ends: the backend returned or raised, the caller disconnected, the
  deadline passed, or the task was cancelled (and whether the caller had disconnected by then).\<close>

datatype ending = Backend_done "exn option" | Caller_gone | Deadline | Task_cancelled bool

text \<open>The \<open>except\<close> clauses of \<open>__call__\<close>.\<close>

definition handle_exn :: "gateway \<Rightarrow> bool \<Rightarrow> exn \<Rightarrow> gateway \<times> action" where
  "handle_exn g started e =
     (case e of
        Refusal status code \<Rightarrow>
          (bump (if status = 429 then ''limited'' else ''refused'') g,
           Respond status (PDict [(''error'', PDict [(''code'', PStr code), (''message'', PStr code)])]))
      | JSONDecodeError \<Rightarrow> (g, if started then Escape e else Respond 400 (error_value ''invalid_json''))
      | _ \<Rightarrow>
          if os_or_value e \<or> e = TypeError \<or> is_KeyError e
          then (bump ''backend_error'' g,
                if started then Escape e else Respond 503 (error_value ''service_configuration_unavailable''))
          else (g, Escape e))"

definition result_of :: "int \<Rightarrow> string" where
  "result_of status = (if status < 400 then ''ok'' else if status = 429 then ''limited''
     else if 500 \<le> status then ''backend_error'' else ''refused'')"

definition drop_task :: "nat \<Rightarrow> gateway \<Rightarrow> gateway" where
  "drop_task t g = g\<lparr>g_active := dpop (g_active g) t\<rparr>"

definition chat_end :: "gateway \<Rightarrow> nat \<Rightarrow> int option \<Rightarrow> ending \<Rightarrow> gateway \<times> action list" where
  "chat_end g t status ending =
     (let started = (status \<noteq> None);
          timed_out = (drop_task t (bump ''backend_error'' g),
                       [if started then Close_stream else Respond 504 (error_value ''request_deadline'')]);
          cancelled = (\<lambda>gone. (drop_task t (bump ''cancelled'' g),
                       (if \<not> started \<and> \<not> gone then [Respond 503 (error_value ''request_cancelled'')] else [])
                       @ [Escape CancelledError]))
      in case ending of
           Backend_done None \<Rightarrow>
             (drop_task t (bump (result_of (case status of None \<Rightarrow> 500 | Some s \<Rightarrow> s)) g), [])
         | Backend_done (Some e) \<Rightarrow>
             if e = TimeoutError then timed_out
             else if e = CancelledError then cancelled False
             else (let (g', a) = handle_exn (drop_task t g) started e in (g', [a]))
         | Caller_gone \<Rightarrow> cancelled True
         | Deadline \<Rightarrow> timed_out
         | Task_cancelled gone \<Rightarrow> cancelled gone)"

text \<open>\<open>__call__\<close>: the routes, and the exceptions of everything that does not launch.\<close>

definition webui_scope :: "env \<Rightarrow> scope \<Rightarrow> headers \<Rightarrow> (scope \<times> headers) res" where
  "webui_scope env sc hs =
     (if s_path sc \<notin> {''/webui/v1/models'', ''/webui/v1/chat/completions''}
      then Inl (Refusal 404 ''unsupported_route'')
      else case secret_json env (e_browser_file env) of Inl e \<Rightarrow> Inl e | Inr credentials \<Rightarrow>
      case browser_key hs (s_path sc) credentials (e_time env) True of Inl e \<Rightarrow> Inl e
      | Inr (PStr key, _) \<Rightarrow>
          let path = drop 6 (s_path sc) in
          Inr (sc\<lparr>s_path := path, s_raw_path := utf8 path\<rparr>, dset hs ''authorization'' (utf8 (''Bearer '' @ key)))
      | Inr _ \<Rightarrow> Inl TypeError)"

definition route :: "env \<Rightarrow> gateway \<Rightarrow> scope \<Rightarrow> message list \<Rightarrow> (gateway \<times> action) res" where
  "route env g sc ms =
     (let hs = dict_of (s_headers sc); path = s_path sc in
      if path = ''/_service/status'' then Inr (g, Respond 200 (state_value g))
      else if path = ''/_service/metrics'' then Inr (g, Respond_metrics (service_metrics (e_monotonic env) g))
      else if path = ''/_service/control'' then control env g sc hs ms
      else case (if starts_with path ''/webui/'' then webui_scope env sc hs
                 else if list_ex (\<lambda>kv. starts_with (fst kv) ''x-openwebui-'') hs
                 then Inl (Refusal 400 ''untrusted_identity_header'')
                 else Inr (sc, hs)) of Inl e \<Rightarrow> Inl e | Inr (sc', hs') \<Rightarrow>
      let sc'' = sc'\<lparr>s_headers := filter (\<lambda>kv. fst kv \<in> {''authorization'', ''content-type'', ''accept''}) hs'\<rparr> in
      if s_path sc'' = ''/v1/chat/completions'' then chat env g sc'' ms
      else if s_path sc'' \<in> {''/v1/responses'', ''/responses''} then Inl (Refusal 501 ''responses_api_not_qualified'')
      else Inr (g, Pass_on sc''))"

definition call :: "env \<Rightarrow> gateway \<Rightarrow> scope \<Rightarrow> message list \<Rightarrow> gateway \<times> action" where
  "call env g sc ms =
     (if s_type sc \<noteq> ''http'' then (g, Pass_on sc)
      else case route env g sc ms of Inl e \<Rightarrow> handle_exn g False e | Inr r \<Rightarrow> r)"

section \<open>The gateway as a state machine\<close>

datatype event = Call env scope "message list" | Ended nat "int option" ending

definition gateway_step :: "gateway \<Rightarrow> event \<Rightarrow> gateway" where
  "gateway_step g ev =
     (case ev of
        Call env sc ms \<Rightarrow> fst (call env g sc ms)
      | Ended t status ending \<Rightarrow>
          if t \<in> keyset (g_active g) then fst (chat_end g t status ending) else g)"


section \<open>Lemmas\<close>

definition gateway_ok :: "gateway \<Rightarrow> bool" where
  "gateway_ok g =
     (length (g_active g) \<le> 4 \<and> distinct (map fst (g_active g)) \<and> g_phase g \<in> set PHASES
      \<and> (g_images g \<longrightarrow> g_phase g = ''ready'' \<and> g_model g = PStr ''Qwen3.5-9B'')
      \<and> (g_phase g \<in> {''ready'', ''starting''} \<longrightarrow> (\<exists>m \<in> fst ` set CHAT_MODELS. g_model g = PStr m))
      \<and> map fst (g_requests g) = [''ok'', ''refused'', ''backend_error'', ''cancelled'', ''limited''])"

lemma bump_fields [simp]:
  "g_phase (bump n g) = g_phase g" "g_model (bump n g) = g_model g" "g_images (bump n g) = g_images g"
  "g_active (bump n g) = g_active g" "g_cancelled (bump n g) = g_cancelled g"
  "map fst (g_requests (bump n g)) = map fst (g_requests g)"
  by (simp_all add: bump_def)

lemma drop_task_fields [simp]:
  "g_phase (drop_task t g) = g_phase g" "g_model (drop_task t g) = g_model g" "g_images (drop_task t g) = g_images g"
  "g_active (drop_task t g) = dpop (g_active g) t" "g_requests (drop_task t g) = g_requests g"
  by (simp_all add: drop_task_def)

lemma gateway_ok_bump: "gateway_ok g \<Longrightarrow> gateway_ok (bump n g)"
  by (simp add: gateway_ok_def)

lemma gateway_ok_drop: "gateway_ok g \<Longrightarrow> gateway_ok (drop_task t g)"
  using length_dpop_le [of "g_active g" t] by (simp add: gateway_ok_def distinct_dpop)

lemma handle_exn_state: "fst (handle_exn g started e) = g \<or> (\<exists>n. fst (handle_exn g started e) = bump n g)"
  by (cases e) (auto simp: handle_exn_def)

lemma handle_exn_action: "snd (handle_exn g started e) \<noteq> Launch sc text" "snd (handle_exn g started e) \<noteq> Pass_on sc"
  by (cases e; simp add: handle_exn_def)+

lemma gateway_ok_handle: "gateway_ok g \<Longrightarrow> gateway_ok (fst (handle_exn g started e))"
  using handle_exn_state [of g started e] gateway_ok_bump by auto

text \<open>What the control route accepts.\<close>

lemma control_state_Inr:
  assumes "control_state data = Inr (phase, model, images, cancel)"
  shows "phase \<in> set PHASES"
    "phase \<in> {''ready'', ''starting''} \<Longrightarrow> \<exists>m \<in> fst ` set CHAT_MODELS. model = PStr m"
    "images \<Longrightarrow> phase = ''ready'' \<and> model = PStr ''Qwen3.5-9B''"
    "cancel \<Longrightarrow> phase \<in> {''draining'', ''unavailable''}"
proof -
  obtain p where p: "dget data ''phase'' = PStr p" "p \<in> set PHASES"
    using assms by (cases "dget data ''phase''") (simp_all add: control_state_def str_in_def Let_def split: if_splits)
  let ?images = "dget_or data ''images'' (PBool False)" and ?model = "dget data ''model''"
  have ok: "p = ''ready'' \<or> p = ''starting'' \<Longrightarrow> str_in ?model (map fst CHAT_MODELS) = Inr True"
    using assms p by (auto simp: control_state_def Let_def str_in_def [of "PStr p"] simp del: str_in_True split: if_splits sum.splits)
  have img: "?images = PBool True \<Longrightarrow> ?model = PStr ''Qwen3.5-9B''"
    using assms p by (auto simp: control_state_def Let_def str_in_def [of "PStr p"] split: if_splits sum.splits)
  have can: "dget data ''cancel'' = PBool True \<Longrightarrow> p = ''draining'' \<or> p = ''unavailable''"
    using assms p by (auto simp: control_state_def Let_def str_in_def [of "PStr p"] split: if_splits sum.splits)
  have out: "phase = p \<and> model = ?model \<and> images = (?images = PBool True \<and> p = ''ready'') \<and> cancel = (dget data ''cancel'' = PBool True)"
    using assms p by (auto simp: control_state_def Let_def str_in_def [of "PStr p"] split: if_splits sum.splits)
  show "phase \<in> set PHASES"
    "phase \<in> {''ready'', ''starting''} \<Longrightarrow> \<exists>m \<in> fst ` set CHAT_MODELS. model = PStr m"
    "images \<Longrightarrow> phase = ''ready'' \<and> model = PStr ''Qwen3.5-9B''"
    "cancel \<Longrightarrow> phase \<in> {''draining'', ''unavailable''}"
    using out p ok img can by auto
qed

lemma control_Inr:
  assumes "control env g sc hs ms = Inr (g', a)"
  shows "control_allowed env sc hs = Inr ()"
    "g' = g \<or> (\<exists>data phase model images cancel. control_state data = Inr (phase, model, images, cancel)
       \<and> g' = g\<lparr>g_phase := phase, g_model := model, g_images := images,
               g_cancelled := g_cancelled g @ (if cancel then map fst (g_active g) else [])\<rparr>)"
    "a = Waiting \<or> a = Respond 200 (state_value g')"
proof -
  show "control_allowed env sc hs = Inr ()"
    using assms by (auto simp: control_def split: sum.splits)
  show "g' = g \<or> (\<exists>data phase model images cancel. control_state data = Inr (phase, model, images, cancel)
       \<and> g' = g\<lparr>g_phase := phase, g_model := model, g_images := images,
               g_cancelled := g_cancelled g @ (if cancel then map fst (g_active g) else [])\<rparr>)"
    using assms unfolding control_def Let_def by (fastforce split: sum.splits option.splits)
  show "a = Waiting \<or> a = Respond 200 (state_value g')"
    using assms unfolding control_def Let_def by (auto split: sum.splits option.splits)
qed

lemma gateway_ok_control: "gateway_ok g \<Longrightarrow> control env g sc hs ms = Inr (g', a) \<Longrightarrow> gateway_ok g'"
proof -
  assume g: "gateway_ok g" and c: "control env g sc hs ms = Inr (g', a)"
  from control_Inr(2) [OF c] show "gateway_ok g'"
  proof (elim disjE exE conjE)
    fix data phase model images cancel
    assume s: "control_state data = Inr (phase, model, images, cancel)"
      and g': "g' = g\<lparr>g_phase := phase, g_model := model, g_images := images,
               g_cancelled := g_cancelled g @ (if cancel then map fst (g_active g) else [])\<rparr>"
    show ?thesis using g control_state_Inr [OF s] by (simp add: gateway_ok_def g')
  qed (use g in simp)
qed

text \<open>What a chat request must satisfy to be launched.\<close>

definition admissible :: "gateway \<Rightarrow> pydict \<Rightarrow> bool" where
  "admissible g data =
     (\<exists>m context cap field limit. map_of CHAT_MODELS m = Some (context, cap) \<and> dget data ''model'' = PStr m
        \<and> g_phase g = ''ready'' \<and> g_model g = PStr m \<and> length (g_active g) < 4
        \<and> fst ` set data \<subseteq> set CHAT_FIELDS
        \<and> field \<in> {''max_tokens'', ''max_completion_tokens''} \<and> map_of data field = Some (PInt limit)
        \<and> 1 \<le> limit \<and> limit \<le> cap
        \<and> \<not> (dhas data ''max_tokens'' \<and> dhas data ''max_completion_tokens''))"

lemma user_not_chat_field: "''user'' \<notin> set CHAT_FIELDS"
  by (simp add: CHAT_FIELDS_def)

lemma chat_models_cap: "m \<in> fst ` set CHAT_MODELS \<Longrightarrow> \<exists>c cap. map_of CHAT_MODELS m = Some (c, cap)"
  by (auto simp: CHAT_MODELS_def)

lemma chat_checks_Inr:
  assumes "chat_checks g body = Inr data"
  shows "admissible g data"
proof -
  let ?d = "dpop body ''user''"
  let ?field = "if dhas ?d ''max_completion_tokens'' then ''max_completion_tokens'' else ''max_tokens''"
  have fields: "fst ` set ?d \<subseteq> set CHAT_FIELDS"
    using assms by (auto simp: chat_checks_def Let_def list_all_iff split: if_splits)
  have known: "str_in (dget ?d ''model'') (map fst CHAT_MODELS) = Inr True"
    using assms by (auto simp: chat_checks_def Let_def split: if_splits sum.splits)
  then obtain m where m: "dget ?d ''model'' = PStr m" "m \<in> fst ` set CHAT_MODELS" by auto
  obtain c cap where cap: "map_of CHAT_MODELS m = Some (c, cap)" using chat_models_cap [OF m(2)] by blast
  have checks: "g_phase g = ''ready''" "g_model g = PStr m" "length (g_active g) < 4"
    "\<not> (dhas ?d ''max_tokens'' \<and> dhas ?d ''max_completion_tokens'')"
    using assms m by (simp_all add: chat_checks_def Let_def str_in_def split: if_splits)
  have "(case dget_or ?d ?field (PInt cap) of
        PInt limit \<Rightarrow>
          if \<not> (1 \<le> limit \<and> limit \<le> cap) then Inl (Refusal 400 ''output_limit_exceeded'')
          else Inr (dset ?d ?field (PInt limit))
      | _ \<Rightarrow> Inl (Refusal 400 ''output_limit_exceeded'')) = Inr data"
    using assms m cap checks
    by (simp add: chat_checks_def Let_def str_in_def split: if_splits)
  then obtain limit where l: "1 \<le> limit" "limit \<le> cap" "data = dset ?d ?field (PInt limit)"
    by (auto split: pyv.splits if_splits)
  have "?field \<in> set CHAT_FIELDS" by (simp add: CHAT_FIELDS_def)
  moreover have "dget data ''model'' = PStr m" using m(1) by (simp add: l(3) dget_def dget_or_def)
  moreover have "\<not> (dhas data ''max_tokens'' \<and> dhas data ''max_completion_tokens'')"
    using checks(4) by (auto simp: l(3) dhas_def)
  moreover have "map_of data ?field = Some (PInt limit)" by (simp add: l(3))
  moreover have "?field \<in> {''max_tokens'', ''max_completion_tokens''}" by simp
  ultimately show ?thesis
    unfolding admissible_def using cap checks l(1,2) fields
    by (intro exI [of _ m] exI [of _ c] exI [of _ cap] exI [of _ ?field] exI [of _ limit]) (simp add: l(3))
qed

lemma chat_Inr:
  assumes "chat env g sc ms = Inr (g', a)"
  shows "(g' = g \<and> a = Waiting) \<or> (\<exists>data. admissible g data \<and> g' = g\<lparr>g_active := dset (g_active g) (e_task env) (e_monotonic env)\<rparr>
      \<and> a = Launch (sc\<lparr>s_headers := s_headers sc @ [(''content-length'', show_nat (length (e_dumps env (PDict data))))]\<rparr>)
                   (e_dumps env (PDict data)))"
  using assms chat_checks_Inr unfolding chat_def Let_def
  by (fastforce split: if_splits option.splits sum.splits pyv.splits)


text \<open>The four ways a route answers.\<close>

definition FORWARDED :: "string list" where
  "FORWARDED = [''authorization'', ''content-type'', ''accept'', ''content-length'']"

definition routed :: "env \<Rightarrow> gateway \<Rightarrow> scope \<Rightarrow> gateway \<Rightarrow> action \<Rightarrow> bool" where
  "routed env g sc g' a =
     ((g' = g \<and> (\<forall>sc' text. a \<noteq> Launch sc' text) \<and> (\<forall>sc'. a = Pass_on sc' \<longrightarrow> fst ` set (s_headers sc') \<subseteq> set FORWARDED))
      \<or> (s_path sc = ''/_service/control'' \<and> (\<exists>hs ms. hs = dict_of (s_headers sc) \<and> control env g sc hs ms = Inr (g', a)))
      \<or> (\<exists>sc' data. admissible g data \<and> g' = g\<lparr>g_active := dset (g_active g) (e_task env) (e_monotonic env)\<rparr>
           \<and> a = Launch sc' (e_dumps env (PDict data)) \<and> fst ` set (s_headers sc') \<subseteq> set FORWARDED))"

lemma control_action: "control env g sc hs ms = Inr (g', a) \<Longrightarrow> a \<noteq> Launch sc' text \<and> a \<noteq> Pass_on sc'"
  using control_Inr(3) [of env g sc hs ms g' a] by auto

lemma chat_routed:
  assumes "chat env g sc' ms = Inr (g', a)" "fst ` set (s_headers sc') \<subseteq> {''authorization'', ''content-type'', ''accept''}"
  shows "routed env g sc g' a"
proof -
  have sub: "fst ` set (s_headers sc' @ [(''content-length'', v)]) \<subseteq> set FORWARDED" for v
    using assms(2) by (auto simp: FORWARDED_def)
  from chat_Inr [OF assms(1)] show ?thesis
  proof (elim disjE exE conjE)
    fix data
    assume d: "admissible g data" "g' = g\<lparr>g_active := dset (g_active g) (e_task env) (e_monotonic env)\<rparr>"
      "a = Launch (sc'\<lparr>s_headers := s_headers sc' @ [(''content-length'', show_nat (length (e_dumps env (PDict data))))]\<rparr>)
                   (e_dumps env (PDict data))"
    show ?thesis unfolding routed_def
      by (intro disjI2 exI [of _ "sc'\<lparr>s_headers := s_headers sc' @ [(''content-length'', show_nat (length (e_dumps env (PDict data))))]\<rparr>"]
          exI [of _ data]) (use d sub in simp)
  qed (simp add: routed_def)
qed

lemma route_Inr:
  assumes r: "route env g sc ms = Inr (g', a)"
  shows "routed env g sc g' a"
proof -
  let ?hs = "dict_of (s_headers sc)"
  consider "s_path sc = ''/_service/status''" | "s_path sc = ''/_service/metrics''"
    | "s_path sc = ''/_service/control''"
    | "s_path sc \<noteq> ''/_service/status''" "s_path sc \<noteq> ''/_service/metrics''" "s_path sc \<noteq> ''/_service/control''" by blast
  then show ?thesis
  proof cases
    case 4
    let ?sc = "\<lambda>sc' hs'. sc'\<lparr>s_headers := filter (\<lambda>kv. fst kv \<in> {''authorization'', ''content-type'', ''accept''}) hs'\<rparr>"
    obtain sc' hs' where s: "(case (if starts_with (s_path sc) ''/webui/'' then webui_scope env sc ?hs
                 else if list_ex (\<lambda>kv. starts_with (fst kv) ''x-openwebui-'') ?hs
                 then Inl (Refusal 400 ''untrusted_identity_header'')
                 else Inr (sc, ?hs)) of Inl e \<Rightarrow> False | Inr x \<Rightarrow> x = (sc', hs'))"
      and rest: "(if s_path sc' = ''/v1/chat/completions'' then chat env g (?sc sc' hs') ms
      else if s_path sc' \<in> {''/v1/responses'', ''/responses''} then Inl (Refusal 501 ''responses_api_not_qualified'')
      else Inr (g, Pass_on (?sc sc' hs'))) = Inr (g', a)"
      using r 4 unfolding route_def Let_def by (auto split: sum.splits if_splits)
    have sub: "fst ` set (s_headers (?sc sc' hs')) \<subseteq> {''authorization'', ''content-type'', ''accept''}" by auto
    show ?thesis
    proof (cases "s_path sc' = ''/v1/chat/completions''")
      case True
      then show ?thesis using rest chat_routed [OF _ sub] by simp
    next
      case False
      then show ?thesis using rest sub by (auto simp: routed_def FORWARDED_def split: if_splits)
    qed
  qed (use r in \<open>auto simp: route_def routed_def Let_def\<close>)
qed

lemma gateway_ok_admit:
  assumes "gateway_ok g" "length (g_active g) < 4"
  shows "gateway_ok (g\<lparr>g_active := dset (g_active g) t now\<rparr>)"
  using assms length_dset_le [of "g_active g" t now] by (simp add: gateway_ok_def)

lemma gateway_ok_call: "gateway_ok g \<Longrightarrow> gateway_ok (fst (call env g sc ms))"
proof -
  assume g: "gateway_ok g"
  show "gateway_ok (fst (call env g sc ms))"
  proof (cases "route env g sc ms")
    case (Inl e)
    then show ?thesis using g gateway_ok_handle by (simp add: call_def)
  next
    case (Inr r)
    obtain g' a where ga: "r = (g', a)" by fastforce
    have "routed env g sc g' a" using route_Inr Inr ga by blast
    then have "gateway_ok g'"
      unfolding routed_def
    proof (elim disjE exE conjE)
      fix sc' data
      assume "admissible g data" "g' = g\<lparr>g_active := dset (g_active g) (e_task env) (e_monotonic env)\<rparr>"
      then show ?thesis using gateway_ok_admit [OF g] by (auto simp: admissible_def)
    qed (use g gateway_ok_control in auto)
    then show ?thesis using g by (simp add: call_def Inr ga)
  qed
qed

lemma gateway_ok_end: "gateway_ok g \<Longrightarrow> gateway_ok (fst (chat_end g t status ending))"
  using gateway_ok_handle [OF gateway_ok_drop]
  by (auto simp: chat_end_def Let_def case_prod_beta gateway_ok_drop gateway_ok_bump split: ending.splits option.splits)

lemma new_gateway_ok: "gateway_ok new_gateway"
  by (simp add: gateway_ok_def new_gateway_def PHASES_def)

interpretation gateway_run: run_invariant gateway_step gateway_ok
  by unfold_locales
     (auto simp: gateway_step_def gateway_ok_call gateway_ok_end split: event.splits)

section \<open>Properties\<close>

text \<open>C4.  Whatever requests arrive and however they end, at most four chats are active, images are
  on only in the ready phase of the split profile, a ready or starting gateway names a known
  model, and the counters are the five the metrics list.\<close>

theorem gateway_always_ok: "gateway_ok (foldl gateway_step new_gateway events)"
  using new_gateway_ok by (rule gateway_run.run_inv)

text \<open>C6.  The backend is launched only with a body that serialises an admissible request: the
  gateway is ready for exactly its model and below its concurrency limit, it has only known
  fields, and one explicit output limit within the cap of the model; and only the credential
  and content headers are passed on.\<close>

theorem launched_requests_admissible:
  assumes "call env g sc ms = (g', Launch sc' text)"
  shows "\<exists>data. admissible g data \<and> text = e_dumps env (PDict data)
    \<and> g' = g\<lparr>g_active := dset (g_active g) (e_task env) (e_monotonic env)\<rparr>
    \<and> fst ` set (s_headers sc') \<subseteq> set FORWARDED"
proof -
  have "\<exists>r. route env g sc ms = Inr r"
    using assms handle_exn_action(1) [of g False _ sc' "text"]
    by (cases "route env g sc ms") (auto simp: call_def split: if_splits dest: arg_cong [where f = snd])
  then have r: "route env g sc ms = Inr (g', Launch sc' text)"
    using assms by (auto simp: call_def split: if_splits)
  show ?thesis using route_Inr [OF r] by (auto simp: routed_def dest: control_action)
qed

definition demo_env :: env where
  "demo_env = \<lparr>e_browser_file = Inl OSError, e_control_file = Inr (replicate 32 (CHR ''k'')),
     e_loads = (\<lambda>_. Inr (PDict [(''model'', PStr ''Qwen3.5-9B''), (''user'', PStr ''u'')])),
     e_dumps = (\<lambda>_. ''body''), e_time = Fin 0, e_monotonic = Fin 7, e_task = 1\<rparr>"

definition demo_gateway :: gateway where
  "demo_gateway = new_gateway\<lparr>g_phase := ''ready'', g_model := PStr ''Qwen3.5-9B''\<rparr>"

definition demo_scope :: "string \<Rightarrow> headers \<Rightarrow> scope" where
  "demo_scope path hs = \<lparr>s_type = ''http'', s_path = path, s_raw_path = path, s_method = ''POST'', s_headers = hs\<rparr>"

lemma demo_call: "call demo_env demo_gateway (demo_scope ''/v1/chat/completions'' []) [Chunk ''x'' False]
   = (demo_gateway\<lparr>g_active := [(1, Fin 7)]\<rparr>,
      Launch (demo_scope ''/v1/chat/completions'' [(''content-length'', ''4'')]) ''body'')"
  by (simp add: call_def route_def demo_scope_def dict_of_def starts_with_def Let_def chat_def MAX_BODY_def
      demo_env_def chat_checks_def dpop_def dget_def dget_or_def CHAT_FIELDS_def str_in_def CHAT_MODELS_def
      demo_gateway_def new_gateway_def dhas_def show_nat.simps)

theorem launched_requests_admissible_witness: "\<exists>data. admissible demo_gateway data \<and> ''body'' = e_dumps demo_env (PDict data)"
  using launched_requests_admissible [OF demo_call] by blast

text \<open>C14.  The phase, the model and the image switch change only through the control route: a POST
  whose authorization header is the bearer form of a control key of at least 32 characters.\<close>

theorem state_changes_need_control_key:
  assumes "call env g sc ms = (g', a)" "(g_phase g', g_model g', g_images g') \<noteq> (g_phase g, g_model g, g_images g)"
  shows "s_path sc = ''/_service/control'' \<and> s_method sc = ''POST'' \<and>
    (\<exists>text. e_control_file env = Inr text \<and> 32 \<le> length (strip text)
      \<and> header (dict_of (s_headers sc)) ''authorization'' = utf8 (''Bearer '' @ strip text))"
proof (cases "route env g sc ms")
  case (Inl e)
  then show ?thesis using assms handle_exn_state [of g False e]
    by (auto simp: call_def split: if_splits dest!: arg_cong [where f = fst])
next
  case (Inr r)
  then have r: "s_type sc = ''http''" "route env g sc ms = Inr (g', a)" using assms by (auto simp: call_def split: if_splits)
  obtain ms' where p: "s_path sc = ''/_service/control''" "control env g sc (dict_of (s_headers sc)) ms' = Inr (g', a)"
    using route_Inr [OF r(2)] assms(2) by (auto simp: routed_def)
  show ?thesis using p(1) control_Inr(1) [OF p(2)]
    by (auto simp: control_allowed_def Let_def split: sum.splits if_splits)
qed

lemma demo_control: "call (demo_env\<lparr>e_loads := \<lambda>_. Inr (PDict [(''phase'', PStr ''draining'')])\<rparr>) demo_gateway
    (demo_scope ''/_service/control'' [(''authorization'', ''Bearer '' @ replicate 32 (CHR ''k''))]) [Chunk ''x'' False]
   = (demo_gateway\<lparr>g_phase := ''draining'', g_model := PNone, g_images := False\<rparr>,
      Respond 200 (state_value (demo_gateway\<lparr>g_phase := ''draining'', g_model := PNone, g_images := False\<rparr>)))"
  by (simp add: call_def route_def demo_scope_def dict_of_def Let_def control_def control_allowed_def demo_env_def
      strip_def is_space_def header_def utf8_def control_state_def dget_def dget_or_def str_in_def PHASES_def as_dict_def
      demo_gateway_def new_gateway_def numeral_eq_Suc)

theorem state_changes_need_control_key_witness:
  "32 \<le> length (strip (replicate 32 (CHR ''k'')))"
  using state_changes_need_control_key [OF demo_control]
  by (simp add: demo_gateway_def new_gateway_def demo_env_def)



end
