(* ===== verification/Web_Search.thy ===== *)
theory Web_Search
  imports Py_Prelude
begin

text \<open>
  \<open>apps/base/shared-api/web_search.py\<close>: the check of public URLs, the durable request
  ceiling with its three counters, one bounded provider request, and the two tools built on it.
  The counter table is a dictionary from period to value; a transaction that raises leaves it as
  it was.  The provider, the credential file, the JSON parser and the address classification of
  \<open>ipaddress\<close> are supplied by the environment.
\<close>

section \<open>Public URLs\<close>

text \<open>\<open>urlsplit\<close> for a string without spaces and control characters.  The authority is what
  follows \<open>//\<close> up to the first slash, question mark or hash; a user name is present when it has
  an at sign; an unbracketed host ends at the first colon.\<close>

definition partition_at :: "char \<Rightarrow> string \<Rightarrow> string \<times> string option" where
  "partition_at c s =
     (takeWhile (\<lambda>x. x \<noteq> c) s, case dropWhile (\<lambda>x. x \<noteq> c) s of [] \<Rightarrow> None | _ # t \<Rightarrow> Some t)"

definition lower_char :: "char \<Rightarrow> char" where
  "lower_char c = (if is_upper c then char_of (of_char c + 32 :: nat) else c)"

definition lower :: "string \<Rightarrow> string" where
  "lower s = map lower_char s"

definition scheme_char :: "char \<Rightarrow> bool" where
  "scheme_char c = (is_alnum c \<or> c \<in> {CHR ''+'', CHR ''-'', CHR ''.''})"

definition split_scheme :: "string \<Rightarrow> string \<times> string" where
  "split_scheme s =
     (case partition_at (CHR '':'') s of
        (a, Some t) \<Rightarrow>
          if a \<noteq> [] \<and> (is_lower (hd a) \<or> is_upper (hd a)) \<and> list_all scheme_char a then (lower a, t) else ([], s)
      | (a, None) \<Rightarrow> ([], s))"

definition authority :: "string \<Rightarrow> string" where
  "authority rest =
     (if starts_with rest ''//'' then takeWhile (\<lambda>c. c \<notin> {CHR ''/'', CHR ''?'', CHR ''#''}) (drop 2 rest) else [])"

definition host_info :: "string \<Rightarrow> string" where
  "host_info netloc = rev (takeWhile (\<lambda>c. c \<noteq> CHR ''@'') (rev netloc))"

definition host_port :: "string \<Rightarrow> string \<times> string" where
  "host_port info =
     (case partition_at (CHR ''['') info of
        (_, Some bracketed) \<Rightarrow>
          (case partition_at (CHR '']'') bracketed of (host, after) \<Rightarrow>
             (host, case snd (partition_at (CHR '':'') (case after of None \<Rightarrow> [] | Some a \<Rightarrow> a)) of
                      None \<Rightarrow> [] | Some p \<Rightarrow> p))
      | (_, None) \<Rightarrow>
          (case partition_at (CHR '':'') info of (host, port) \<Rightarrow> (host, case port of None \<Rightarrow> [] | Some p \<Rightarrow> p)))"

definition port_ok :: "string \<Rightarrow> bool" where
  "port_ok port = (port = [] \<or> (digits port \<and> int_of_digits port \<in> {80, 443}))"

definition rstrip_dots :: "string \<Rightarrow> string" where
  "rstrip_dots s = rev (dropWhile (\<lambda>c. c = CHR ''.'') (rev s))"

definition PRIVATE_SUFFIXES :: "string list" where
  "PRIVATE_SUFFIXES = [''.local'', ''.localhost'', ''.internal'', ''.lan'', ''.home'', ''.test'', ''.invalid'', ''.onion'', ''.arpa'']"

text \<open>\<open>[a-z0-9](?:[a-z0-9.-]*[a-z0-9])?\<close>, no empty label, last label not all digits.\<close>

definition dns_name :: "string \<Rightarrow> bool" where
  "dns_name host =
     (let word = (\<lambda>c. is_lower c \<or> is_digit c) in
      host \<noteq> [] \<and> word (hd host) \<and> word (last host)
      \<and> list_all (\<lambda>c. word c \<or> c = CHR ''.'' \<or> c = CHR ''-'') host
      \<and> \<not> contains host ''..'' \<and> \<not> digits (last (split_on (CHR ''.'') host)))"

record addresses =
  ip_global :: "string \<Rightarrow> bool option"
  bracket_ok :: "string \<Rightarrow> bool"

definition public_host :: "addresses \<Rightarrow> string \<Rightarrow> bool" where
  "public_host ips host =
     (host \<noteq> [] \<and> CHR ''.'' \<in> set host \<and> CHR ''%'' \<notin> set host \<and> \<not> list_ex (ends_with host) PRIVATE_SUFFIXES
      \<and> (case ip_global ips host of Some g \<Rightarrow> g | None \<Rightarrow> dns_name host))"

definition url_host :: "string \<Rightarrow> string" where
  "url_host value = rstrip_dots (lower (fst (host_port (host_info (authority (snd (split_scheme value)))))))"

definition url_ok :: "addresses \<Rightarrow> string \<Rightarrow> bool" where
  "url_ok ips value =
     (let netloc = authority (snd (split_scheme value)) in
      fst (split_scheme value) \<in> {''http'', ''https''} \<and> CHR ''@'' \<notin> set netloc
      \<and> ((CHR ''['' \<in> set netloc \<or> CHR '']'' \<in> set netloc) \<longrightarrow> bracket_ok ips netloc)
      \<and> port_ok (snd (host_port (host_info netloc)))
      \<and> CHR 0x5C \<notin> set value \<and> public_host ips (url_host value))"

definition plain_text :: "string \<Rightarrow> bool" where
  "plain_text s = list_all (\<lambda>c. \<not> is_space c \<and> 32 \<le> (of_char c :: nat)) s"

definition public_url :: "addresses \<Rightarrow> pyv \<Rightarrow> string res" where
  "public_url ips value =
     (case value of
        PStr s \<Rightarrow>
          if 1 \<le> length s \<and> length s \<le> 2048 \<and> plain_text s \<and> url_ok ips s then Inr s
          else Inl (Refusal 400 ''public_http_url_required'')
      | _ \<Rightarrow> Inl (Refusal 400 ''public_http_url_required''))"

section \<open>The policy\<close>

definition PROVIDERS :: "(string \<times> string) list" where
  "PROVIDERS = [(''exa'', ''https://api.exa.ai''), (''tavily'', ''https://api.tavily.com'')]"

definition MAX_RESPONSE :: nat where
  "MAX_RESPONSE = 2 * 1024 * 1024"

definition POLICY_KEYS :: "string list" where
  "POLICY_KEYS = [''provider'', ''monthly_requests'', ''daily_requests'', ''requests_per_minute'', ''max_results'', ''max_content_chars'']"

record policy =
  p_provider :: string
  p_monthly :: int
  p_daily :: int
  p_minute :: int
  p_max_results :: int
  p_max_content :: int

definition policy_int :: "pydict \<Rightarrow> string \<Rightarrow> int res" where
  "policy_int d k = (case dget d k of
     PInt n \<Rightarrow> if 1 \<le> n \<and> n \<le> 100000 then Inr n else Inl (ValueError ''invalid web search policy'')
   | _ \<Rightarrow> Inl (ValueError ''invalid web search policy''))"

text \<open>\<open>WebSearch.__init__\<close>; a provider that is not hashable makes the membership test raise.\<close>

definition load_policy :: "pyv \<Rightarrow> int option \<Rightarrow> policy res" where
  "load_policy value content_limit =
     (case value of
        PDict d \<Rightarrow>
          if fst ` set d \<noteq> set POLICY_KEYS then Inl (ValueError ''invalid web search policy'')
          else (case str_in (dget d ''provider'') (map fst PROVIDERS) of Inl e \<Rightarrow> Inl e | Inr known \<Rightarrow>
          if \<not> known then Inl (ValueError ''invalid web search policy'')
          else case mapM_res (policy_int d) (tl POLICY_KEYS) of
            Inr [monthly, daily, minute, results, content] \<Rightarrow>
              if 3 < results \<or> 12000 < content then Inl (ValueError ''invalid web search policy'')
              else (case content_limit of
                 None \<Rightarrow> Inr \<lparr>p_provider = (case dget d ''provider'' of PStr s \<Rightarrow> s | _ \<Rightarrow> []), p_monthly = monthly, p_daily = daily,
                           p_minute = minute, p_max_results = results, p_max_content = content\<rparr>
               | Some limit \<Rightarrow>
                   if \<not> (1 \<le> limit \<and> limit \<le> content) then Inl (ValueError ''invalid web content limit'')
                   else Inr \<lparr>p_provider = (case dget d ''provider'' of PStr s \<Rightarrow> s | _ \<Rightarrow> []), p_monthly = monthly, p_daily = daily,
                           p_minute = minute, p_max_results = results, p_max_content = limit\<rparr>)
          | Inl e \<Rightarrow> Inl e
          | Inr _ \<Rightarrow> Inl (ValueError ''invalid web search policy''))
      | _ \<Rightarrow> Inl (ValueError ''invalid web search policy''))"

section \<open>The request ceiling\<close>

text \<open>A UTC time down to the minute, and \<open>strftime\<close>.\<close>

record utc =
  t_year :: nat
  t_month :: nat
  t_day :: nat
  t_hour :: nat
  t_minute :: nat

definition pad2 :: "nat \<Rightarrow> string" where
  "pad2 n = (if n < 10 then ''0'' else []) @ show_nat n"

definition month_period :: "utc \<Rightarrow> string" where
  "month_period t = ''month:'' @ show_nat (t_year t) @ ''-'' @ pad2 (t_month t)"

definition day_period :: "utc \<Rightarrow> string" where
  "day_period t = ''day:'' @ show_nat (t_year t) @ ''-'' @ pad2 (t_month t) @ ''-'' @ pad2 (t_day t)"

definition minute_period :: "utc \<Rightarrow> string" where
  "minute_period t = ''minute:'' @ show_nat (t_year t) @ ''-'' @ pad2 (t_month t) @ ''-'' @ pad2 (t_day t)
     @ ''T'' @ pad2 (t_hour t) @ '':'' @ pad2 (t_minute t)"

definition periods :: "policy \<Rightarrow> utc \<Rightarrow> (string \<times> int) list" where
  "periods pol t = [(month_period t, p_monthly pol), (day_period t, p_daily pol), (minute_period t, p_minute pol)]"

text \<open>What is at the path of the database: nothing, a symlink to something, a path that cannot be
  made or looked at, something that is no usable database (broken, locked, or without the
  table), or the table.\<close>

datatype database = No_database | Db_symlink database | Db_denied | Db_unusable | Db_table "(string \<times> pyv) list"

fun followed :: "database \<Rightarrow> database" where
  "followed (Db_symlink d) = followed d"
| "followed d = d"

definition check_period :: "pydict \<Rightarrow> string \<times> int \<Rightarrow> unit res" where
  "check_period usage pl =
     (case map_of usage (fst pl) of
        None \<Rightarrow> Inr ()
      | Some (PInt n) \<Rightarrow>
          if n < 0 then Inl (Refusal 503 ''web_search_accounting_unavailable'')
          else if snd pl \<le> n
          then Inl (Refusal 429 (''web_search_'' @ takeWhile (\<lambda>c. c \<noteq> CHR '':'') (fst pl) @ ''_limit''))
          else Inr ()
      | Some _ \<Rightarrow> Inl (Refusal 503 ''web_search_accounting_unavailable''))"

definition count_period :: "pydict \<Rightarrow> string \<times> int \<Rightarrow> pydict" where
  "count_period usage pl =
     dset usage (fst pl) (PInt (case map_of usage (fst pl) of Some (PInt n) \<Rightarrow> n + 1 | _ \<Rightarrow> 1))"

definition reserve_table :: "policy \<Rightarrow> utc \<Rightarrow> pydict \<Rightarrow> pydict res" where
  "reserve_table pol t usage =
     (case mapM_res (check_period usage) (periods pol t) of
        Inl e \<Rightarrow> Inl e
      | Inr _ \<Rightarrow> Inr (foldl count_period usage (periods pol t)))"

definition reserve :: "policy \<Rightarrow> utc \<Rightarrow> database \<Rightarrow> database \<times> exn option" where
  "reserve pol t db =
     (case db of
        Db_symlink _ \<Rightarrow> (db, Some (Refusal 503 ''web_search_accounting_unavailable''))
      | Db_denied \<Rightarrow> (db, Some OSError)
      | Db_unusable \<Rightarrow> (db, Some (Refusal 503 ''web_search_accounting_unavailable''))
      | No_database \<Rightarrow>
          (case reserve_table pol t [] of Inl e \<Rightarrow> (db, Some e) | Inr usage \<Rightarrow> (Db_table usage, None))
      | Db_table usage \<Rightarrow>
          (case reserve_table pol t usage of Inl e \<Rightarrow> (db, Some e) | Inr usage' \<Rightarrow> (Db_table usage', None)))"

section \<open>One provider request\<close>

datatype exchange = Transport_error | Timed_out | Response int "string list"

text \<open>The service, and the requests it has sent to the provider: target and payload of each.\<close>

record service =
  w_policy :: policy
  w_active :: int
  w_database :: database
  w_sent :: "(string \<times> pyv) list"

record world =
  o_key_file :: "string res"
  o_now :: utc
  o_exchange :: "string \<Rightarrow> (string \<times> string) list \<Rightarrow> pyv \<Rightarrow> exchange"
  o_loads :: "string \<Rightarrow> pyv res"
  o_addresses :: addresses

definition credential :: "world \<Rightarrow> string res" where
  "credential io =
     (case o_key_file io of
        Inl e \<Rightarrow> if is_OSError e then Inl (Refusal 503 ''web_search_credential_missing'') else Inl e
      | Inr source \<Rightarrow>
          let key = strip (take 4097 source) in
          if \<not> (16 \<le> length key \<and> length key \<le> 4096) \<or> \<not> plain_text key
          then Inl (Refusal 503 ''web_search_credential_invalid'') else Inr key)"

definition status :: "world \<Rightarrow> service \<Rightarrow> pydict res" where
  "status io w =
     (let s0 = [(''provider'', PStr (p_provider (w_policy w))), (''status'', PStr ''configured-not-qualified''),
                (''monthly_request_limit'', PInt (p_monthly (w_policy w))), (''monthly_reserved'', PInt 0)]
      in case (case credential io of
                 Inr _ \<Rightarrow> Inr s0
               | Inl (Refusal _ code) \<Rightarrow> Inr (dset s0 ''status'' (PStr code))
               | Inl e \<Rightarrow> Inl e) of
           Inl e \<Rightarrow> Inl e
         | Inr s1 \<Rightarrow>
             (let broken = dset s1 ''status'' (PStr ''web_search_accounting_unavailable'')
              in case followed (w_database w) of
                   No_database \<Rightarrow> Inr s1
                 | Db_denied \<Rightarrow> Inl OSError
                 | Db_table usage \<Rightarrow>
                     (case map_of usage (month_period (o_now io)) of
                        None \<Rightarrow> Inr (dset s1 ''monthly_reserved'' (PInt 0))
                      | Some (PInt n) \<Rightarrow> Inr (if n < 0 then broken else dset s1 ''monthly_reserved'' (PInt n))
                      | Some _ \<Rightarrow> Inr broken)
                 | _ \<Rightarrow> Inr broken))"

fun read_response :: "string \<Rightarrow> string list \<Rightarrow> string res" where
  "read_response raw [] = Inr raw"
| "read_response raw (part # parts) =
     (if MAX_RESPONSE < length (raw @ part) then Inl (Refusal 502 ''web_search_response_too_large'')
      else read_response (raw @ part) parts)"

definition provider_answer :: "(string \<Rightarrow> pyv res) \<Rightarrow> exchange \<Rightarrow> pydict res" where
  "provider_answer parse x =
     (case x of
        Transport_error \<Rightarrow> Inl HTTPError
      | Timed_out \<Rightarrow> Inl TimeoutError
      | Response code parts \<Rightarrow>
          if code = 429 then Inl (Refusal 429 ''web_search_provider_limit'')
          else if code \<noteq> 200 then Inl (Refusal 503 ''web_search_provider_unavailable'')
          else (case read_response [] parts of Inl e \<Rightarrow> Inl e | Inr raw \<Rightarrow>
          case parse raw of Inl e \<Rightarrow> Inl e
          | Inr (PDict d) \<Rightarrow> Inr d
          | Inr _ \<Rightarrow> Inl (Refusal 502 ''web_search_invalid_response'')))"

text \<open>\<open>except (httpx.HTTPError, TimeoutError, ValueError, TypeError)\<close>\<close>

definition provider_failure :: "exn \<Rightarrow> exn" where
  "provider_failure e =
     (if e = HTTPError \<or> e = TimeoutError \<or> is_ValueError e \<or> e = TypeError
      then Refusal 503 ''web_search_provider_unavailable'' else e)"

definition request_headers :: "policy \<Rightarrow> string \<Rightarrow> (string \<times> string) list" where
  "request_headers pol key =
     (if p_provider pol = ''exa'' then [(''x-api-key'', key)] else [(''Authorization'', ''Bearer '' @ key)])"

text \<open>The part before the exchange and the part after it; another request can run in between.\<close>

definition open_request :: "world \<Rightarrow> service \<Rightarrow> service \<times> string res" where
  "open_request io w =
     (case credential io of Inl e \<Rightarrow> (w, Inl e) | Inr key \<Rightarrow>
      if 2 \<le> w_active w then (w, Inl (Refusal 429 ''web_search_busy''))
      else (case reserve (w_policy w) (o_now io) (w_database w) of
        (db, Some e) \<Rightarrow> (w\<lparr>w_database := db\<rparr>, Inl (provider_failure e))
      | (db, None) \<Rightarrow> (w\<lparr>w_database := db, w_active := w_active w + 1\<rparr>, Inr key)))"

definition close_request :: "world \<Rightarrow> service \<Rightarrow> exchange \<Rightarrow> service \<times> pydict res" where
  "close_request io w x =
     (w\<lparr>w_active := w_active w - 1\<rparr>,
      case provider_answer (o_loads io) x of Inl e \<Rightarrow> Inl (provider_failure e) | Inr d \<Rightarrow> Inr d)"

definition provider_target :: "policy \<Rightarrow> string \<Rightarrow> string" where
  "provider_target pol endpoint =
     (case map_of PROVIDERS (p_provider pol) of None \<Rightarrow> [] | Some u \<Rightarrow> u) @ endpoint"

definition request :: "world \<Rightarrow> service \<Rightarrow> string \<Rightarrow> pyv \<Rightarrow> service \<times> pydict res" where
  "request io w endpoint data =
     (case open_request io w of
        (w', Inl e) \<Rightarrow> (w', Inl e)
      | (w', Inr key) \<Rightarrow>
          (let pol = w_policy w; target = provider_target pol endpoint
           in close_request io (w'\<lparr>w_sent := w_sent w' @ [(target, data)]\<rparr>)
                (o_exchange io target (request_headers pol key) data)))"

section \<open>The tools\<close>

text \<open>\<open>search\<close>\<close>

definition search_args :: "pyv \<Rightarrow> (string \<times> int) res" where
  "search_args args =
     (case args of
        PDict d \<Rightarrow>
          if \<not> fst ` set d \<subseteq> {''query'', ''count''} then Inl (Refusal 400 ''invalid_tool_arguments'')
          else (case (dget_or d ''query'' (PStr []), dget_or d ''count'' (PInt 3)) of
             (PStr query, PInt count) \<Rightarrow>
               if \<not> (1 \<le> length (strip query) \<and> length (strip query) \<le> 512)
                  \<or> list_ex (\<lambda>c. (of_char c :: nat) < 32) query \<or> \<not> (1 \<le> count \<and> count \<le> 3)
               then Inl (Refusal 400 ''invalid_search_query_or_count'') else Inr (query, count)
           | _ \<Rightarrow> Inl (Refusal 400 ''invalid_search_query_or_count''))
      | _ \<Rightarrow> Inl (Refusal 400 ''invalid_tool_arguments''))"

definition search_data :: "policy \<Rightarrow> string \<Rightarrow> int \<Rightarrow> pyv" where
  "search_data pol query count =
     (if p_provider pol = ''exa''
      then PDict [(''query'', PStr (strip query)), (''numResults'', PInt count), (''type'', PStr ''auto''),
                  (''contents'', PDict [(''highlights'', PDict [(''maxCharacters'', PInt 1600)])])]
      else PDict [(''query'', PStr (strip query)), (''max_results'', PInt count),
                  (''search_depth'', PStr ''basic''), (''auto_parameters'', PBool False), (''include_answer'', PBool False),
                  (''include_raw_content'', PBool False), (''include_images'', PBool False), (''include_usage'', PBool True)])"

fun join_lines :: "string list \<Rightarrow> string" where
  "join_lines [] = []"
| "join_lines [s] = s"
| "join_lines (s # ss) = s @ [CHR 0x0A] @ join_lines ss"

definition row_content :: "policy \<Rightarrow> pydict \<Rightarrow> pyv" where
  "row_content pol row =
     (if p_provider pol = ''exa''
      then (case dget row ''highlights'' of
              PList hs \<Rightarrow> PStr (join_lines (concat (map (\<lambda>h. case h of PStr s \<Rightarrow> [s] | _ \<Rightarrow> []) hs)))
            | _ \<Rightarrow> PNone)
      else dget row ''content'')"

definition hit_of :: "addresses \<Rightarrow> policy \<Rightarrow> pyv \<Rightarrow> pyv list" where
  "hit_of ips pol row =
     (case row of
        PDict d \<Rightarrow>
          (case public_url ips (dget d ''url'') of
             Inl _ \<Rightarrow> []
           | Inr url \<Rightarrow>
               (case (row_content pol d, dget d ''title'') of
                  (PStr content, PStr title) \<Rightarrow>
                    [PDict [(''link'', PStr url), (''title'', PStr (take 240 title)), (''snippet'', PStr (take 1600 content))]]
                | _ \<Rightarrow> []))
      | _ \<Rightarrow> [])"

definition search :: "world \<Rightarrow> service \<Rightarrow> pyv \<Rightarrow> service \<times> pyv list res" where
  "search io w args =
     (case search_args args of Inl e \<Rightarrow> (w, Inl e) | Inr (query, count0) \<Rightarrow>
      let pol = w_policy w; count = min count0 (p_max_results pol) in
      case request io w ''/search'' (search_data pol query count) of
        (w', Inl e) \<Rightarrow> (w', Inl e)
      | (w', Inr result) \<Rightarrow>
          (case dget result ''results'' of
             PList rows \<Rightarrow> (w', Inr (concat (map (hit_of (o_addresses io) pol) (take (nat count) rows))))
           | _ \<Rightarrow> (w', Inl (Refusal 502 ''web_search_invalid_response''))))"

text \<open>\<open>extract\<close>\<close>

definition extract_data :: "policy \<Rightarrow> string list \<Rightarrow> string \<times> pyv \<times> string" where
  "extract_data pol urls =
     (if p_provider pol = ''exa''
      then (''/contents'', PDict [(''ids'', PList (map PStr urls)),
              (''text'', PDict [(''maxCharacters'', PInt (p_max_content pol))])], ''text'')
      else (''/extract'', PDict [(''urls'', PList (map PStr urls)), (''extract_depth'', PStr ''basic''),
              (''format'', PStr ''text''), (''include_images'', PBool False), (''include_usage'', PBool True)], ''raw_content''))"

definition page_of :: "policy \<Rightarrow> string list \<Rightarrow> string \<Rightarrow> pyv \<Rightarrow> pyv list" where
  "page_of pol urls field row =
     (case row of
        PDict d \<Rightarrow>
          (case (dget d ''url'', dget d field) of
             (PStr url, PStr content) \<Rightarrow>
               if url \<in> set urls \<and> strip content \<noteq> []
               then [PDict [(''page_content'', PStr (take (nat (p_max_content pol)) content)),
                       (''metadata'', PDict [(''source'', PStr url), (''content_trust'', PStr ''untrusted-source-text''),
                          (''truncated'', PBool (p_max_content pol < int (length content)))])]]
               else []
           | _ \<Rightarrow> [])
      | _ \<Rightarrow> [])"

definition extract_pages :: "world \<Rightarrow> service \<Rightarrow> pyv \<Rightarrow> service \<times> pyv list res" where
  "extract_pages io w arg =
     (case arg of
        PList given \<Rightarrow>
          if \<not> (1 \<le> length given \<and> length given \<le> 3) then (w, Inl (Refusal 400 ''one_to_three_public_urls_required''))
          else (case mapM_res (public_url (o_addresses io)) given of Inl e \<Rightarrow> (w, Inl e) | Inr checked \<Rightarrow>
          let urls = rev (remdups (rev checked)); (endpoint, data, field) = extract_data (w_policy w) urls in
          case request io w endpoint data of
            (w', Inl e) \<Rightarrow> (w', Inl e)
          | (w', Inr result) \<Rightarrow>
              (case dget result ''results'' of
                 PList rows \<Rightarrow>
                   let pages = concat (map (page_of (w_policy w) urls field) (take (length urls) rows)) in
                   if pages = [] then (w', Inl (Refusal 502 ''web_page_not_available'')) else (w', Inr pages)
               | _ \<Rightarrow> (w', Inl (Refusal 502 ''web_search_invalid_response''))))
      | _ \<Rightarrow> (w, Inl (Refusal 400 ''one_to_three_public_urls_required'')))"


section \<open>Lemmas: the ceiling\<close>

definition counter :: "pydict \<Rightarrow> string \<Rightarrow> int" where
  "counter usage p = (case map_of usage p of Some (PInt n) \<Rightarrow> n | _ \<Rightarrow> 0)"

definition table_ok :: "pydict \<Rightarrow> bool" where
  "table_ok usage = (\<forall>p v. map_of usage p = Some v \<longrightarrow> (\<exists>n. v = PInt n \<and> 0 \<le> n))"

lemma periods_distinct: "distinct (map fst (periods pol t))"
  by (simp add: periods_def month_period_def day_period_def minute_period_def)

lemma period_kinds:
  "month_period t \<noteq> day_period u" "month_period t \<noteq> minute_period u" "day_period t \<noteq> minute_period u"
  by (simp_all add: month_period_def day_period_def minute_period_def)

lemmas period_neq = period_kinds period_kinds [symmetric]

lemma check_period_Inr:
  "check_period usage pl = Inr () \<Longrightarrow> 0 < snd pl \<Longrightarrow> counter usage (fst pl) < snd pl"
  by (auto simp: check_period_def counter_def split: option.splits pyv.splits if_splits)

lemma check_period_ok:
  assumes "table_ok usage" "counter usage (fst pl) < snd pl"
  shows "check_period usage pl = Inr ()"
proof (cases "map_of usage (fst pl)")
  case (Some v)
  then obtain n where "v = PInt n" "0 \<le> n" using assms(1) by (auto simp: table_ok_def)
  then show ?thesis using Some assms(2) by (simp add: check_period_def counter_def)
qed (simp add: check_period_def)

lemma count_period_counter:
  "table_ok usage \<Longrightarrow> counter (count_period usage pl) q = counter usage q + (if q = fst pl then 1 else 0)"
  by (auto simp: counter_def count_period_def table_ok_def split: option.splits pyv.splits)

lemma count_period_ok: "table_ok usage \<Longrightarrow> table_ok (count_period usage pl)"
  by (fastforce simp: table_ok_def count_period_def split: option.splits pyv.splits)

lemma count_periods:
  "table_ok usage \<Longrightarrow> distinct (map fst pls) \<Longrightarrow>
    table_ok (foldl count_period usage pls) \<and>
    (\<forall>q. counter (foldl count_period usage pls) q = counter usage q + (if q \<in> fst ` set pls then 1 else 0))"
proof (induction pls arbitrary: usage)
  case (Cons pl pls)
  note ok = count_period_ok [OF Cons.prems(1), of pl]
  from Cons.IH [OF ok] Cons.prems count_period_counter [OF Cons.prems(1), of pl]
  show ?case by auto
qed simp

lemma reserve_table_Inr:
  assumes "reserve_table pol t usage = Inr usage'" "table_ok usage"
  shows "table_ok usage'"
    "counter usage' q = counter usage q + (if q \<in> fst ` set (periods pol t) then 1 else 0)"
    "pl \<in> set (periods pol t) \<Longrightarrow> 0 < snd pl \<Longrightarrow> counter usage (fst pl) < snd pl"
proof -
  obtain us where us: "mapM_res (check_period usage) (periods pol t) = Inr us"
    and u': "usage' = foldl count_period usage (periods pol t)"
    using assms(1) by (auto simp: reserve_table_def split: sum.splits)
  show "table_ok usage'" "counter usage' q = counter usage q + (if q \<in> fst ` set (periods pol t) then 1 else 0)"
    using count_periods [OF assms(2) periods_distinct [of pol t]] by (simp_all add: u')
  show "counter usage (fst pl) < snd pl" if pl: "pl \<in> set (periods pol t)" "0 < snd pl"
  proof -
    have "\<exists>u. check_period usage pl = Inr u"
      using mapM_res_list_all2 [OF us] pl(1) by (auto simp: list_all2_conv_all_nth in_set_conv_nth)
    then show ?thesis using check_period_Inr pl(2) by (metis old.unit.exhaust)
  qed
qed

lemma mapM_res_Inr_all: "(\<And>x. x \<in> set xs \<Longrightarrow> \<exists>y. f x = Inr y) \<Longrightarrow> \<exists>ys. mapM_res f xs = Inr ys"
  by (induction xs) (auto split: sum.splits, fastforce)

lemma reserve_table_total:
  assumes "table_ok usage" "\<And>pl. pl \<in> set (periods pol t) \<Longrightarrow> counter usage (fst pl) < snd pl"
  shows "\<exists>usage'. reserve_table pol t usage = Inr usage'"
proof -
  have "\<exists>us. mapM_res (check_period usage) (periods pol t) = Inr us"
    by (rule mapM_res_Inr_all) (use check_period_ok [OF assms(1)] assms(2) in blast)
  then show ?thesis by (auto simp: reserve_table_def)
qed

text \<open>Attempts one after the other, and the times of the granted ones.\<close>

fun attempts :: "policy \<Rightarrow> utc list \<Rightarrow> database \<Rightarrow> database \<times> utc list" where
  "attempts pol [] db = (db, [])"
| "attempts pol (t # ts) db =
     (case reserve pol t db of
        (db', Some _) \<Rightarrow> attempts pol ts db'
      | (db', None) \<Rightarrow> (let (db'', granted) = attempts pol ts db' in (db'', t # granted)))"

definition table_of :: "database \<Rightarrow> pydict" where
  "table_of db = (case db of Db_table usage \<Rightarrow> usage | _ \<Rightarrow> [])"

lemma reserve_granted:
  assumes "reserve pol t db = (db', None)"
  shows "reserve_table pol t (table_of db) = Inr (table_of db')"
  using assms by (auto simp: reserve_def table_of_def split: database.splits sum.splits)

lemma reserve_refused: "reserve pol t db = (db', Some e) \<Longrightarrow> db' = db"
  by (auto simp: reserve_def split: database.splits sum.splits)

definition uses :: "string \<Rightarrow> policy \<Rightarrow> utc list \<Rightarrow> int" where
  "uses q pol ts = int (length (filter (\<lambda>t. q \<in> fst ` set (periods pol t)) ts))"

lemma attempts_count:
  assumes "attempts pol ts db = (db', granted)" "table_ok (table_of db)"
  shows "table_ok (table_of db') \<and> (\<forall>q. counter (table_of db') q = counter (table_of db) q + uses q pol granted)"
  using assms
proof (induction ts arbitrary: db granted)
  case Nil
  then show ?case by (simp add: uses_def)
next
  case (Cons t ts)
  obtain db1 out where r: "reserve pol t db = (db1, out)" by fastforce
  show ?case
  proof (cases out)
    case (Some e)
    then have "db1 = db" using reserve_refused r by blast
    then show ?thesis using Cons r Some by simp
  next
    case None
    obtain granted' where g: "attempts pol ts db1 = (db', granted')" "granted = t # granted'"
      using Cons.prems(1) r None by (auto split: prod.splits)
    note R = reserve_table_Inr [OF reserve_granted [OF r [unfolded None]] Cons.prems(2)]
    show ?thesis using Cons.IH [OF g(1) R(1)] R(2) by (auto simp: g(2) uses_def)
  qed
qed

text \<open>The last granted attempt of a period found its counter below the limit.\<close>

lemma attempts_limit:
  assumes "attempts pol ts db = (db', granted)" "table_ok (table_of db)" "0 < limit"
    "\<And>t. q \<in> fst ` set (periods pol t) \<Longrightarrow> (q, limit) \<in> set (periods pol t)"
    "counter (table_of db) q \<le> limit"
  shows "counter (table_of db') q \<le> limit"
  using assms
proof (induction ts arbitrary: db granted)
  case Nil
  then show ?case by simp
next
  case (Cons t ts)
  obtain db1 out where r: "reserve pol t db = (db1, out)" by fastforce
  show ?case
  proof (cases out)
    case (Some e)
    then have "db1 = db" using reserve_refused r by blast
    then show ?thesis using Cons r Some by simp
  next
    case None
    obtain granted' where g: "attempts pol ts db1 = (db', granted')"
      using Cons.prems(1) r None by (auto split: prod.splits)
    note R = reserve_table_Inr [OF reserve_granted [OF r [unfolded None]] Cons.prems(2)]
    have "counter (table_of db1) q \<le> limit"
      using R(2) [of q] R(3) [of "(q, limit)"] Cons.prems(3-5) by (auto split: if_splits)
    then show ?thesis using Cons.IH [OF g R(1) Cons.prems(3,4)] by simp
  qed
qed


section \<open>Lemmas: the tools\<close>

lemma public_url_Inr: "public_url ips v = Inr s \<Longrightarrow> v = PStr s \<and> url_ok ips s \<and> 1 \<le> length s \<and> length s \<le> 2048"
  by (cases v) (auto simp: public_url_def split: if_splits)

definition hit_ok :: "addresses \<Rightarrow> pyv \<Rightarrow> bool" where
  "hit_ok ips h = (\<exists>link title snippet. h = PDict [(''link'', PStr link), (''title'', PStr title), (''snippet'', PStr snippet)]
     \<and> url_ok ips link \<and> length title \<le> 240 \<and> length snippet \<le> 1600)"

lemma hit_of_ok: "length (hit_of ips pol row) \<le> 1 \<and> (\<forall>h \<in> set (hit_of ips pol row). hit_ok ips h)"
  by (auto simp: hit_of_def hit_ok_def dest: public_url_Inr split: pyv.splits sum.splits)

lemma concat_short: "(\<And>x. x \<in> set xs \<Longrightarrow> length (f x) \<le> 1) \<Longrightarrow> length (concat (map f xs)) \<le> length xs"
  by (induction xs) (auto, fastforce)

lemma request_policy: "fst (request io w endpoint data) = w' \<Longrightarrow> w_policy w' = w_policy w \<and> w_active w' = w_active w"
  by (auto simp: request_def open_request_def close_request_def Let_def split: sum.splits prod.splits option.splits if_splits)

text \<open>One attempt sends at most this payload, and an attempt that gets an answer has sent it.\<close>

lemma request_sent:
  assumes "request io w endpoint data = (w', out)"
  shows "w_sent w' = w_sent w \<and> (\<exists>e. out = Inl e) \<or> w_sent w' = w_sent w @ [(provider_target (w_policy w) endpoint, data)]"
  using assms by (auto simp: request_def open_request_def close_request_def Let_def split: sum.splits prod.splits option.splits if_splits)

definition page_ok :: "policy \<Rightarrow> string list \<Rightarrow> pyv \<Rightarrow> bool" where
  "page_ok pol urls p = (\<exists>content source cut. p = PDict [(''page_content'', PStr content),
       (''metadata'', PDict [(''source'', PStr source), (''content_trust'', PStr ''untrusted-source-text''), (''truncated'', PBool cut)])]
     \<and> source \<in> set urls \<and> int (length content) \<le> p_max_content pol)"

lemma page_of_ok:
  assumes "0 \<le> p_max_content pol"
  shows "length (page_of pol urls field row) \<le> 1 \<and> (\<forall>p \<in> set (page_of pol urls field row). page_ok pol urls p)"
  using assms by (auto simp: page_of_def page_ok_def split: pyv.splits)

text \<open>The URL the code sees in a plain \<open>scheme://host/path\<close>.\<close>

definition name_char :: "char \<Rightarrow> bool" where
  "name_char c = (is_lower c \<or> is_digit c \<or> c = CHR ''.'' \<or> c = CHR ''-'')"

lemma name_char_other:
  assumes "name_char c"
  shows "c \<noteq> CHR '':''" "c \<noteq> CHR ''/''" "c \<noteq> CHR ''?''" "c \<noteq> CHR ''#''" "c \<noteq> CHR ''@''" "c \<noteq> CHR ''[''" "\<not> is_upper c"
  using assms by (auto simp: name_char_def is_lower_def is_digit_def is_upper_def Let_def)

lemma plain_url_host:
  assumes host: "list_all name_char host" and scheme: "scheme \<in> {''http'', ''https''}"
  shows "url_host (scheme @ ''://'' @ host @ ''/'' @ path) = rstrip_dots host"
proof -
  let ?rest = "''//'' @ host @ ''/'' @ path"
  have mem: "name_char c" if "c \<in> set host" for c using host that by (simp add: list_all_iff)
  have s: "split_scheme (scheme @ ''://'' @ host @ ''/'' @ path) = (scheme, ?rest)"
    using scheme by (auto simp: split_scheme_def partition_at_def lower_def lower_char_def is_upper_def is_lower_def
        scheme_char_def is_alnum_def)
  have "takeWhile (\<lambda>c. c \<notin> {CHR ''/'', CHR ''?'', CHR ''#''}) (host @ ''/'' @ path) = host"
    using name_char_other(2-4) [OF mem] by (subst takeWhile_append2) auto
  then have a: "authority ?rest = host" by (simp add: authority_def starts_with_def)
  have at: "takeWhile (\<lambda>c. c \<noteq> CHR ''@'') (rev host) = rev host"
    using name_char_other(5) [OF mem] by (simp add: takeWhile_eq_all_conv)
  have h: "host_info host = host" unfolding host_info_def at by simp
  have pieces: "takeWhile (\<lambda>c. c \<noteq> CHR ''['') host = host" "takeWhile (\<lambda>c. c \<noteq> CHR '':'') host = host"
    "dropWhile (\<lambda>c. c \<noteq> CHR ''['') host = []" "dropWhile (\<lambda>c. c \<noteq> CHR '':'') host = []"
    using name_char_other(1,6) [OF mem] by (simp_all add: takeWhile_eq_all_conv dropWhile_eq_Nil_conv)
  have "fst (host_port host) = host" unfolding host_port_def partition_at_def pieces by simp
  moreover have "lower host = host"
    unfolding lower_def by (rule map_idI) (use name_char_other(7) [OF mem] in \<open>simp add: lower_char_def\<close>)
  ultimately show ?thesis unfolding url_host_def s snd_conv a h by simp
qed

section \<open>Properties\<close>

text \<open>C3.  Whatever attempts are made, starting without a database, the durable counters never exceed the
  monthly, daily and per-minute limits, and each counter is exactly the number of granted
  attempts of its period: at most the limit of requests leave the workstation in any month, day
  or minute.\<close>

theorem request_ceiling_holds:
  assumes "attempts pol ts No_database = (db, granted)" "0 < p_monthly pol" "0 < p_daily pol" "0 < p_minute pol"
  shows "uses (month_period t) pol granted \<le> p_monthly pol \<and> uses (day_period t) pol granted \<le> p_daily pol
    \<and> uses (minute_period t) pol granted \<le> p_minute pol \<and> (\<forall>q. counter (table_of db) q = uses q pol granted)"
proof -
  have ok: "table_ok (table_of No_database)" "counter (table_of No_database) q = 0" for q
    by (simp_all add: table_of_def table_ok_def counter_def)
  note C = attempts_count [OF assms(1) ok(1), unfolded ok(2)]
  note L = attempts_limit [OF assms(1) ok(1), unfolded ok(2)]
  have "counter (table_of db) (month_period t) \<le> p_monthly pol"
    by (intro L) (use assms(2) in \<open>auto simp: periods_def period_neq\<close>)
  moreover have "counter (table_of db) (day_period t) \<le> p_daily pol"
    by (intro L) (use assms(3) in \<open>auto simp: periods_def period_neq\<close>)
  moreover have "counter (table_of db) (minute_period t) \<le> p_minute pol"
    by (intro L) (use assms(4) in \<open>auto simp: periods_def period_neq\<close>)
  ultimately show ?thesis using C by simp
qed

definition demo_policy :: policy where
  "demo_policy = \<lparr>p_provider = ''exa'', p_monthly = 5, p_daily = 2, p_minute = 1, p_max_results = 3, p_max_content = 8\<rparr>"

definition demo_time :: utc where
  "demo_time = \<lparr>t_year = 2026, t_month = 7, t_day = 4, t_hour = 9, t_minute = 30\<rparr>"

theorem request_ceiling_holds_witness:
  "uses (minute_period demo_time) demo_policy (snd (attempts demo_policy [demo_time, demo_time] No_database)) \<le> 1"
  using request_ceiling_holds [of demo_policy "[demo_time, demo_time]" "fst (attempts demo_policy [demo_time, demo_time] No_database)"
      "snd (attempts demo_policy [demo_time, demo_time] No_database)" demo_time]
  by (simp add: demo_policy_def)

text \<open>C12.  A reservation against a usable table succeeds exactly when all three counters are below their
  limits; then each of the three counters grows by one and no other; a refused one changes
  nothing.\<close>

theorem reserve_all_or_nothing:
  assumes "table_ok usage" "0 < p_monthly pol" "0 < p_daily pol" "0 < p_minute pol"
  shows "case reserve pol t (Db_table usage) of
      (db, None) \<Rightarrow> (\<forall>(q, limit) \<in> set (periods pol t). counter usage q < limit)
         \<and> (\<forall>q. counter (table_of db) q = counter usage q + (if q \<in> fst ` set (periods pol t) then 1 else 0))
    | (db, Some e) \<Rightarrow> db = Db_table usage \<and> (\<exists>(q, limit) \<in> set (periods pol t). limit \<le> counter usage q)"
proof (cases "reserve_table pol t usage")
  case (Inl e)
  then have "\<not> (\<forall>pl \<in> set (periods pol t). counter usage (fst pl) < snd pl)"
    using reserve_table_total [OF assms(1), of pol t] by auto
  then show ?thesis using Inl by (auto simp: reserve_def not_less case_prod_beta)
next
  case (Inr usage')
  note R = reserve_table_Inr [OF Inr assms(1)]
  have "0 < snd pl" if "pl \<in> set (periods pol t)" for pl using that assms by (auto simp: periods_def)
  then have "\<forall>pl \<in> set (periods pol t). counter usage (fst pl) < snd pl" using R(3) by blast
  then show ?thesis using R(2) Inr by (simp add: reserve_def table_of_def case_prod_beta)
qed

theorem reserve_all_or_nothing_witness:
  "counter (table_of (fst (reserve demo_policy demo_time (Db_table [])))) (month_period demo_time) = 1"
proof -
  have "reserve demo_policy demo_time (Db_table []) = (Db_table (foldl count_period [] (periods demo_policy demo_time)), None)"
    by (simp add: reserve_def reserve_table_def periods_def check_period_def)
  then show ?thesis using reserve_all_or_nothing [of "[]" demo_policy demo_time]
    by (simp add: table_ok_def demo_policy_def periods_def counter_def)
qed

text \<open>C20.  A search returns at most three hits and no more than asked for; every hit links a URL that
  passed the public URL check, with a title of at most 240 and a snippet of at most 1600
  characters; and it leaves the number of active requests as it found it.\<close>

theorem search_hits_bounded:
  assumes "search io w args = (w', Inr hits)"
  shows "\<exists>query count. search_args args = Inr (query, count) \<and> int (length hits) \<le> count \<and> count \<le> 3
    \<and> (\<forall>h \<in> set hits. hit_ok (o_addresses io) h) \<and> w_active w' = w_active w"
proof -
  obtain query count where a: "search_args args = Inr (query, count)"
    using assms by (auto simp: search_def split: sum.splits)
  have c: "1 \<le> count" "count \<le> 3"
    using a by (auto simp: search_args_def split: pyv.splits if_splits)
  let ?n = "min count (p_max_results (w_policy w))"
  obtain rows where h: "hits = concat (map (hit_of (o_addresses io) (w_policy w)) (take (nat ?n) rows))"
    and w': "fst (request io w ''/search'' (search_data (w_policy w) query ?n)) = w'"
    using assms a by (auto simp: search_def Let_def split: prod.splits sum.splits pyv.splits)
  have "length hits \<le> length (take (nat ?n) rows)" unfolding h by (rule concat_short) (use hit_of_ok in blast)
  moreover have "nat ?n \<le> nat count" by (rule nat_mono) simp
  ultimately have "length hits \<le> nat count" by simp
  then have "int (length hits) \<le> count" using c by simp
  moreover have "\<forall>h \<in> set hits. hit_ok (o_addresses io) h" using hit_of_ok by (auto simp: h)
  ultimately show ?thesis using a c request_policy [OF w'] by auto
qed

definition demo_world :: world where
  "demo_world = \<lparr>o_key_file = Inr (replicate 20 (CHR ''k'')), o_now = demo_time,
     o_exchange = (\<lambda>_ _ _. Response 200 [''x'']),
     o_loads = (\<lambda>_. Inr (PDict [(''results'', PList [PDict [(''url'', PStr ''https://a.org/p''), (''title'', PStr ''t''),
        (''highlights'', PList [PStr ''h'']), (''text'', PStr ''long page text'')]])])),
     o_addresses = \<lparr>ip_global = (\<lambda>_. None), bracket_ok = (\<lambda>_. True)\<rparr>\<rparr>"

definition demo_service :: service where
  "demo_service = \<lparr>w_policy = demo_policy, w_active = 0, w_database = No_database, w_sent = []\<rparr>"

lemma demo_url: "public_url (o_addresses demo_world) (PStr ''https://a.org/p'') = Inr ''https://a.org/p''"
proof -
  have "host_port ''a.org'' = (''a.org'', [])" by (simp add: host_port_def partition_at_def)
  moreover have "split_scheme ''https://a.org/p'' = (''https'', ''//a.org/p'')"
    by (simp add: split_scheme_def partition_at_def is_lower_def scheme_char_def is_alnum_def lower_def lower_char_def is_upper_def)
  moreover have "authority ''//a.org/p'' = ''a.org''" by (simp add: authority_def starts_with_def)
  moreover have "host_info ''a.org'' = ''a.org''" by (simp add: host_info_def)
  moreover have "rstrip_dots (lower ''a.org'') = ''a.org''"
    by (simp add: rstrip_dots_def lower_def lower_char_def is_upper_def)
  moreover have "public_host (o_addresses demo_world) ''a.org''"
    by (simp add: public_host_def demo_world_def dns_name_def is_lower_def is_digit_def PRIVATE_SUFFIXES_def ends_with_def
        starts_with_def digits_def Let_def)
  ultimately show ?thesis
    by (simp add: public_url_def url_ok_def url_host_def Let_def port_ok_def plain_text_def is_space_def)
qed

lemma demo_open: "open_request demo_world demo_service
   = (demo_service\<lparr>w_database := Db_table (foldl count_period [] (periods demo_policy demo_time)), w_active := 1\<rparr>,
      Inr (replicate 20 (CHR ''k'')))"
  by (simp add: open_request_def credential_def demo_world_def demo_service_def strip_def is_space_def plain_text_def
      reserve_def reserve_table_def periods_def check_period_def numeral_eq_Suc)

lemma demo_request: "snd (request demo_world demo_service endpoint data)
   = Inr [(''results'', PList [PDict [(''url'', PStr ''https://a.org/p''), (''title'', PStr ''t''),
        (''highlights'', PList [PStr ''h'']), (''text'', PStr ''long page text'')]])]"
  unfolding request_def demo_open by (simp add: close_request_def provider_answer_def MAX_RESPONSE_def demo_world_def Let_def)

theorem search_hits_bounded_witness:
  "\<exists>w' hits. search demo_world demo_service (PDict [(''query'', PStr ''q'')]) = (w', Inr hits) \<and> int (length hits) \<le> 3"
proof -
  have "\<exists>w' hits. search demo_world demo_service (PDict [(''query'', PStr ''q'')]) = (w', Inr hits)"
    using demo_request by (auto simp: search_def search_args_def dget_def dget_or_def strip_def is_space_def Let_def case_prod_beta
        split: prod.splits)
  then show ?thesis using search_hits_bounded by fastforce
qed


text \<open>The URLs that the payload of an extraction asks for.\<close>

definition asked_urls :: "pyv \<Rightarrow> pyv" where
  "asked_urls data = (case data of PDict d \<Rightarrow> if dhas d ''ids'' then dget d ''ids'' else dget d ''urls'' | _ \<Rightarrow> PNone)"

lemma extract_data_asks: "extract_data pol urls = (endpoint, data, field) \<Longrightarrow> asked_urls data = PList (map PStr urls)"
  by (auto simp: extract_data_def asked_urls_def dhas_def dget_def dget_or_def split: if_splits)

text \<open>The URLs of a list that passes the check.\<close>

lemma checked_urls:
  assumes "mapM_res (public_url ips) given = Inr checked"
  shows "given = map PStr checked \<and> list_all (url_ok ips) checked"
proof -
  have "list_all2 (\<lambda>v s. v = PStr s \<and> url_ok ips s) given checked"
    using mapM_res_list_all2 [OF assms] by (rule list_all2_mono) (use public_url_Inr in blast)
  then show ?thesis by (induction rule: list_all2_induct) simp_all
qed

text \<open>C21.  An extraction either fails without sending anything, or sends at most one request; then the argument was a list of one to three
  public URLs, and the payload of the request asks for exactly these, each once.  Whatever the provider answers, the result is an exception or at
  least one page; every page comes from a URL that was asked for, is marked as untrusted and is cut to the content limit.\<close>

theorem extract_pages_bounded:
  assumes "0 \<le> p_max_content (w_policy w)" and "extract_pages io w arg = (w', out)"
  shows "w_sent w' = w_sent w \<and> (\<exists>e. out = Inl e)
    \<or> (\<exists>given urls target data. arg = PList given \<and> 1 \<le> length given \<and> length given \<le> 3
         \<and> PStr ` set urls = set given \<and> distinct urls \<and> length urls \<le> 3 \<and> (\<forall>u \<in> set urls. url_ok (o_addresses io) u)
         \<and> w_sent w' = w_sent w @ [(target, data)] \<and> asked_urls data = PList (map PStr urls)
         \<and> (case out of Inl e \<Rightarrow> True
            | Inr pages \<Rightarrow> pages \<noteq> [] \<and> length pages \<le> length urls \<and> (\<forall>p \<in> set pages. page_ok (w_policy w) urls p)))"
proof (cases "\<exists>given checked. arg = PList given \<and> 1 \<le> length given \<and> length given \<le> 3
    \<and> mapM_res (public_url (o_addresses io)) given = Inr checked")
  case False
  then show ?thesis using assms(2) by (auto simp: extract_pages_def split: pyv.splits if_splits sum.splits)
next
  case True
  then obtain given checked where arg: "arg = PList given" and n: "1 \<le> length given" "length given \<le> 3"
    and c: "mapM_res (public_url (o_addresses io)) given = Inr checked" by blast
  let ?urls = "rev (remdups (rev checked))"
  note ck = checked_urls [OF c]
  have short: "length ?urls \<le> 3"
    using length_remdups_leq [of "rev checked"] mapM_res_length [OF c] n by simp
  obtain endpoint data field where e: "extract_data (w_policy w) ?urls = (endpoint, data, field)"
    by (metis prod_cases3)
  obtain w1 answer where r: "request io w endpoint data = (w1, answer)" by fastforce
  have same: "w' = w1" and out: "out = (case answer of Inl x \<Rightarrow> Inl x | Inr result \<Rightarrow>
      (case dget result ''results'' of
         PList rows \<Rightarrow>
           let pages = concat (map (page_of (w_policy w) ?urls field) (take (length ?urls) rows)) in
           if pages = [] then Inl (Refusal 502 ''web_page_not_available'') else Inr pages
       | _ \<Rightarrow> Inl (Refusal 502 ''web_search_invalid_response'')))"
    using assms(2) n by (auto simp: extract_pages_def arg c e r Let_def split: sum.splits pyv.splits if_splits)
  have pages: "pages \<noteq> [] \<and> length pages \<le> length ?urls \<and> (\<forall>p \<in> set pages. page_ok (w_policy w) ?urls p)" if got: "out = Inr pages" for pages
  proof -
    obtain rows where p: "pages = concat (map (page_of (w_policy w) ?urls field) (take (length ?urls) rows))" "pages \<noteq> []"
      using out got by (auto simp: Let_def split: sum.splits pyv.splits if_splits)
    have "length pages \<le> length (take (length ?urls) rows)"
      unfolding p(1) by (rule concat_short) (use page_of_ok [OF assms(1)] in blast)
    then show ?thesis using p page_of_ok [OF assms(1)] by auto
  qed
  from request_sent [OF r] show ?thesis
  proof
    assume "w_sent w1 = w_sent w \<and> (\<exists>x. answer = Inl x)"
    then show ?thesis using out same by auto
  next
    assume sent: "w_sent w1 = w_sent w @ [(provider_target (w_policy w) endpoint, data)]"
    have "case out of Inl x \<Rightarrow> True
      | Inr pages \<Rightarrow> pages \<noteq> [] \<and> length pages \<le> length ?urls \<and> (\<forall>p \<in> set pages. page_ok (w_policy w) ?urls p)"
      using pages by (cases out) simp_all
    moreover have "PStr ` set ?urls = set given" "\<forall>u \<in> set ?urls. url_ok (o_addresses io) u"
      using ck by (auto simp: list_all_iff)
    ultimately show ?thesis
      using arg n short sent same extract_data_asks [OF e]
      by (intro disjI2 exI [of _ given] exI [of _ ?urls] exI [of _ "provider_target (w_policy w) endpoint"] exI [of _ data]) simp
  qed
qed

theorem extract_pages_bounded_witness:
  "\<exists>w' pages. extract_pages demo_world demo_service (PList [PStr ''https://a.org/p'']) = (w', Inr pages)
     \<and> length pages \<le> 3 \<and> (\<exists>target data. w_sent w' = [(target, data)])"
proof -
  have e: "extract_pages demo_world demo_service (PList [PStr ''https://a.org/p''])
    = (fst (request demo_world demo_service ''/contents'' (PDict [(''ids'', PList [PStr ''https://a.org/p'']),
              (''text'', PDict [(''maxCharacters'', PInt 8)])])),
       Inr [PDict [(''page_content'', PStr ''long pag''), (''metadata'', PDict [(''source'', PStr ''https://a.org/p''),
         (''content_trust'', PStr ''untrusted-source-text''), (''truncated'', PBool True)])]])"
    using demo_request [of "''/contents''" "PDict [(''ids'', PList [PStr ''https://a.org/p'']), (''text'', PDict [(''maxCharacters'', PInt 8)])]"]
    by (simp add: extract_pages_def demo_url extract_data_def demo_service_def demo_policy_def Let_def case_prod_beta
        page_of_def dget_def dget_or_def strip_def is_space_def split: prod.splits)
  have c: "0 \<le> p_max_content (w_policy demo_service)" by (simp add: demo_service_def demo_policy_def)
  have start: "w_sent demo_service = []" by (simp add: demo_service_def)
  from extract_pages_bounded [OF c e] e show ?thesis unfolding start by fastforce
qed

text \<open>A web address whose host is a lower-case name ending in a private suffix, or an address that
  is not globally routable, is refused, whatever its path.\<close>

theorem private_hosts_refused:
  assumes "list_all name_char host" "scheme \<in> {''http'', ''https''}" "last host \<noteq> CHR ''.''"
    "list_ex (ends_with host) PRIVATE_SUFFIXES \<or> ip_global ips host = Some False"
  shows "public_url ips (PStr (scheme @ ''://'' @ host @ ''/'' @ path)) = Inl (Refusal 400 ''public_http_url_required'')"
proof -
  have "rstrip_dots host = host"
    using assms(3) by (cases host rule: rev_cases) (simp_all add: rstrip_dots_def)
  then have "url_host (scheme @ ''://'' @ host @ ''/'' @ path) = host"
    using plain_url_host [OF assms(1,2)] by simp
  moreover have "\<not> public_host ips host" using assms(4) by (auto simp: public_host_def)
  ultimately have "\<not> url_ok ips (scheme @ ''://'' @ host @ ''/'' @ path)" unfolding url_ok_def Let_def by metis
  then show ?thesis unfolding public_url_def by (simp only: pyv.case if_False simp_thms)
qed

theorem private_hosts_refused_witness:
  "public_url \<lparr>ip_global = (\<lambda>_. None), bracket_ok = (\<lambda>_. True)\<rparr> (PStr (''http'' @ ''://'' @ ''db.internal'' @ ''/'' @ ''x''))
     = Inl (Refusal 400 ''public_http_url_required'')"
  by (rule private_hosts_refused)
     (simp_all add: name_char_def is_lower_def is_digit_def PRIVATE_SUFFIXES_def ends_with_def)

end
