(* ===== verification/Py_Ops.thy ===== *)
theory Py_Ops
  imports Py_Float
begin

text \<open>
  Operations on dynamically typed values that several components use: sequencing of code that
  may raise, the guard \<open>require\<close> of \<open>lib/workstation/hyperloom_sglang.py\<close>,
  short-circuit conditions whose parts may raise, subscription and \<open>get\<close> on a value that
  need not be a dictionary, and the numeric tests the validators share.
\<close>

section \<open>Sequencing\<close>

definition bnd :: "'a res \<Rightarrow> ('a \<Rightarrow> 'b res) \<Rightarrow> 'b res" where
  "bnd m f = (case m of Inl e \<Rightarrow> Inl e | Inr x \<Rightarrow> f x)"

lemma bnd_simps [simp]: "bnd (Inr x) f = f x" "bnd (Inl e) f = Inl e"
  by (simp_all add: bnd_def)

lemma bnd_Inr_iff [simp]: "bnd m f = Inr y \<longleftrightarrow> (\<exists>x. m = Inr x \<and> f x = Inr y)"
  by (auto simp: bnd_def split: sum.splits)

lemma bnd_Inl_iff: "bnd m f = Inl e \<longleftrightarrow> m = Inl e \<or> (\<exists>x. m = Inr x \<and> f x = Inl e)"
  by (auto simp: bnd_def split: sum.splits)

lemma bnd_cong [fundef_cong]:
  "m = n \<Longrightarrow> (\<And>x. n = Inr x \<Longrightarrow> f x = g x) \<Longrightarrow> bnd m f = bnd n g"
  by (auto simp: bnd_def split: sum.splits)

definition require :: "bool \<Rightarrow> string \<Rightarrow> unit res" where
  "require condition msg = (if condition then Inr () else Inl (ValueError msg))"

lemma require_Inr [simp]: "require c msg = Inr u \<longleftrightarrow> c"
  by (simp add: require_def)

lemma require_Inl: "require c msg = Inl e \<longleftrightarrow> \<not> c \<and> e = ValueError msg"
  by (auto simp: require_def)

lemma require_True [simp]: "require True msg = Inr ()"
  by (simp add: require_def)

text \<open>A guard in front of the rest of a function body, for a condition that cannot raise and for
  one that can.\<close>

definition guard :: "bool \<Rightarrow> string \<Rightarrow> 'a res \<Rightarrow> 'a res" where
  "guard c msg rest = bnd (require c msg) (\<lambda>_. rest)"

lemma guard_simps [simp]: "guard True msg rest = rest" "guard False msg rest = Inl (ValueError msg)"
  by (simp_all add: guard_def require_def)

lemma guard_Inr_iff [simp]: "guard c msg rest = Inr y \<longleftrightarrow> c \<and> rest = Inr y"
  by (cases c) simp_all

lemma guard_Inl_iff: "guard c msg rest = Inl e \<longleftrightarrow> \<not> c \<and> e = ValueError msg \<or> c \<and> rest = Inl e"
  by (cases c) auto

lemma guard_cong [fundef_cong]: "c = d \<Longrightarrow> (d \<Longrightarrow> r = s) \<Longrightarrow> guard c msg r = guard d msg s"
  by (cases d) simp_all

definition guardM :: "bool res \<Rightarrow> string \<Rightarrow> 'a res \<Rightarrow> 'a res" where
  "guardM m msg rest = bnd m (\<lambda>c. guard c msg rest)"

lemma guardM_Inr_iff [simp]: "guardM m msg rest = Inr y \<longleftrightarrow> m = Inr True \<and> rest = Inr y"
  by (auto simp: guardM_def)

lemma guardM_simps [simp]:
  "guardM (Inr c) msg rest = guard c msg rest" "guardM (Inl e) msg rest = Inl e"
  by (simp_all add: guardM_def)

text \<open>\<open>a and b\<close>, \<open>all(...)\<close> and \<open>any(...)\<close>: evaluation stops at the first
  part that decides, or raises.\<close>

definition andM :: "bool res \<Rightarrow> bool res \<Rightarrow> bool res" where
  "andM a b = bnd a (\<lambda>x. if x then b else Inr False)"

lemma andM_simps [simp]: "andM (Inr True) b = b" "andM (Inr False) b = Inr False" "andM (Inl e) b = Inl e"
  by (simp_all add: andM_def)

lemma andM_True [simp]: "andM a b = Inr True \<longleftrightarrow> a = Inr True \<and> b = Inr True"
  by (auto simp: andM_def split: if_splits)

definition orM :: "bool res \<Rightarrow> bool res \<Rightarrow> bool res" where
  "orM a b = bnd a (\<lambda>x. if x then Inr True else b)"

lemma orM_simps [simp]: "orM (Inr True) b = Inr True" "orM (Inr False) b = b" "orM (Inl e) b = Inl e"
  by (simp_all add: orM_def)

lemma orM_False [simp]: "orM a b = Inr False \<longleftrightarrow> a = Inr False \<and> b = Inr False"
  by (auto simp: orM_def split: if_splits)

fun allM :: "('a \<Rightarrow> bool res) \<Rightarrow> 'a list \<Rightarrow> bool res" where
  "allM p [] = Inr True"
| "allM p (x # xs) = andM (p x) (allM p xs)"

lemma allM_True [simp]: "allM p xs = Inr True \<longleftrightarrow> (\<forall>x \<in> set xs. p x = Inr True)"
  by (induction xs) auto

fun anyM :: "('a \<Rightarrow> bool res) \<Rightarrow> 'a list \<Rightarrow> bool res" where
  "anyM p [] = Inr False"
| "anyM p (x # xs) = orM (p x) (anyM p xs)"

lemma anyM_False [simp]: "anyM p xs = Inr False \<longleftrightarrow> (\<forall>x \<in> set xs. p x = Inr False)"
  by (induction xs) auto

lemma anyM_TrueD: "anyM p xs = Inr True \<Longrightarrow> \<exists>x \<in> set xs. p x = Inr True"
  by (induction xs) (auto simp: orM_def split: if_splits)

lemma anyM_iff: "anyM p xs = Inr b \<Longrightarrow> b \<longleftrightarrow> (\<exists>x \<in> set xs. p x = Inr True)"
  by (cases b) (auto dest: anyM_TrueD)

definition notM :: "bool res \<Rightarrow> bool res" where
  "notM m = bnd m (\<lambda>b. Inr (\<not> b))"

lemma notM_iff [simp]: "notM m = Inr b \<longleftrightarrow> m = Inr (\<not> b)"
  by (auto simp: notM_def)

section \<open>Sequencing with a state\<close>

text \<open>Code that changes a state and may raise: what has been done stays done when it raises.\<close>

type_synonym ('w, 'a) st = "'w \<Rightarrow> 'w \<times> 'a res"

definition sbnd :: "('w, 'a) st \<Rightarrow> ('a \<Rightarrow> ('w, 'b) st) \<Rightarrow> ('w, 'b) st" where
  "sbnd m f w = (case m w of (w', r) \<Rightarrow> (case r of Inl e \<Rightarrow> (w', Inl e) | Inr x \<Rightarrow> f x w'))"

definition slift :: "'a res \<Rightarrow> ('w, 'a) st" where
  "slift r w = (w, r)"

definition supd :: "('w \<Rightarrow> 'w) \<Rightarrow> ('w, unit) st" where
  "supd f w = (f w, Inr ())"

definition sget :: "('w \<Rightarrow> 'a) \<Rightarrow> ('w, 'a) st" where
  "sget f w = (w, Inr (f w))"

definition sguard :: "bool \<Rightarrow> string \<Rightarrow> ('w, 'a) st \<Rightarrow> ('w, 'a) st" where
  "sguard c msg m w = (if c then m w else (w, Inl (ValueError msg)))"

lemma sbnd_Inr_iff [simp]:
  "sbnd m f w = (u, Inr y) \<longleftrightarrow> (\<exists>v x. m w = (v, Inr x) \<and> f x v = (u, Inr y))"
  by (auto simp: sbnd_def split: prod.splits sum.splits)

lemma sbnd_Inl_iff:
  "sbnd m f w = (u, Inl e) \<longleftrightarrow> m w = (u, Inl e) \<or> (\<exists>v x. m w = (v, Inr x) \<and> f x v = (u, Inl e))"
  by (auto simp: sbnd_def split: prod.splits sum.splits)

lemma sbnd_eval: "m w = (v, Inr x) \<Longrightarrow> sbnd m f w = f x v" "m w = (v, Inl e) \<Longrightarrow> sbnd m f w = (v, Inl e)"
  by (simp_all add: sbnd_def)

lemma sbnd_cong [fundef_cong]:
  "m w = n w \<Longrightarrow> (\<And>v x. n w = (v, Inr x) \<Longrightarrow> f x v = g x v) \<Longrightarrow> sbnd m f w = sbnd n g w"
  by (auto simp: sbnd_def split: prod.splits sum.splits)

lemma st_simps [simp]:
  "slift r w = (u, s) \<longleftrightarrow> u = w \<and> r = s" "supd h w = (u, t) \<longleftrightarrow> u = h w \<and> t = Inr ()"
  "sget k w = (u, q) \<longleftrightarrow> u = w \<and> q = Inr (k w)"
  "sguard c msg m w = (u, Inr y) \<longleftrightarrow> c \<and> m w = (u, Inr y)"
  by (auto simp: slift_def supd_def sget_def sguard_def)

lemma sguard_eval [simp]: "sguard True msg m = m" "sguard False msg m w = (w, Inl (ValueError msg))"
  by (auto simp: sguard_def)

lemma sguard_cong [fundef_cong]: "c = d \<Longrightarrow> (d \<Longrightarrow> m w = n w) \<Longrightarrow> sguard c msg m w = sguard d msg n w"
  by (simp add: sguard_def)

text \<open>What a state keeps: a relation between the state before and after, whatever the result.\<close>

definition keeps :: "('w \<Rightarrow> 'w \<Rightarrow> bool) \<Rightarrow> ('w, 'a) st \<Rightarrow> bool" where
  "keeps R m = (\<forall>w. R w (fst (m w)))"

lemma keeps_sbnd:
  assumes "transp R" "keeps R m" "\<And>x. keeps R (f x)"
  shows "keeps R (sbnd m f)"
  using assms by (auto simp: keeps_def sbnd_def transp_def split: prod.splits sum.splits) (metis fst_conv)+

lemma keeps_slift: "reflp R \<Longrightarrow> keeps R (slift r)"
  by (simp add: keeps_def slift_def reflp_def)

lemma keeps_sget: "reflp R \<Longrightarrow> keeps R (sget r)"
  by (simp add: keeps_def sget_def reflp_def)

lemma keeps_supd: "(\<And>w. R w (h w)) \<Longrightarrow> keeps R (supd h)"
  by (simp add: keeps_def supd_def)

lemma keeps_sguard: "reflp R \<Longrightarrow> keeps R m \<Longrightarrow> keeps R (sguard c msg m)"
  by (simp add: keeps_def sguard_def reflp_def)

text \<open>The same where what is written next depends on what has been read: the state after a body, by
  introduction rules.\<close>

lemma fst_slift [simp]: "fst (slift r w) = w"
  by (simp add: slift_def)

lemma fst_sguard: "(c \<Longrightarrow> P (fst (m w))) \<Longrightarrow> P w \<Longrightarrow> P (fst (sguard c msg m w))"
  by (simp add: sguard_def)

lemma fst_sbnd_slift: "P w \<Longrightarrow> (\<And>x. r = Inr x \<Longrightarrow> P (fst (f x w))) \<Longrightarrow> P (fst (sbnd (slift r) f w))"
  by (cases r) (simp_all add: sbnd_def slift_def)

lemma fst_sbnd_sget [simp]: "sbnd (sget g) f w = f (g w) w"
  by (simp add: sbnd_def sget_def)

lemma fst_sbnd_supd [simp]: "sbnd (supd g) f w = f () (g w)"
  by (simp add: sbnd_def supd_def)

lemmas fst_intros = fst_sguard fst_sbnd_slift

section \<open>Subscripts\<close>

text \<open>\<open>v[k]\<close>, \<open>v.get(k)\<close> and \<open>for x in v\<close> on any value.\<close>

definition py_item :: "pyv \<Rightarrow> string \<Rightarrow> pyv res" where
  "py_item v k = (case v of PDict d \<Rightarrow> item d k | _ \<Rightarrow> Inl TypeError)"

definition py_get :: "pyv \<Rightarrow> string \<Rightarrow> pyv res" where
  "py_get v k = (case v of PDict d \<Rightarrow> Inr (dget d k) | _ \<Rightarrow> Inl AttributeError)"

definition py_iter :: "pyv \<Rightarrow> pyv list res" where
  "py_iter v = (case v of PList vs \<Rightarrow> Inr vs | PStr s \<Rightarrow> Inr (map (\<lambda>c. PStr [c]) s)
     | PDict d \<Rightarrow> Inr (map (\<lambda>kv. PStr (fst kv)) d) | _ \<Rightarrow> Inl TypeError)"

lemma py_item_simps [simp]: "py_item (PDict d) k = item d k"
  by (simp add: py_item_def)

lemma py_item_Inr: "py_item v k = Inr x \<longleftrightarrow> (\<exists>d. v = PDict d \<and> map_of d k = Some x)"
  by (cases v) (auto simp: py_item_def)

lemma py_get_simps [simp]: "py_get (PDict d) k = Inr (dget d k)"
  by (simp add: py_get_def)

lemma py_get_Inr: "py_get v k = Inr x \<longleftrightarrow> (\<exists>d. v = PDict d \<and> x = dget d k)"
  by (cases v) (auto simp: py_get_def)

lemma py_iter_list [simp]: "py_iter (PList vs) = Inr vs"
  by (simp add: py_iter_def)

text \<open>\<open>set(d) == {...}\<close>\<close>

definition has_keys :: "pydict \<Rightarrow> string list \<Rightarrow> bool" where
  "has_keys d names = (keyset d = set names)"

lemma has_keys_item: "has_keys d names \<Longrightarrow> k \<in> set names \<Longrightarrow> \<exists>v. map_of d k = Some v"
  by (metis has_keys_def keyset_def list.set_map map_of_eq_None_iff not_None_eq)

text \<open>Reading a literal dictionary.\<close>

lemma dget_rec: "dget ((k, v) # d) k' = (if k = k' then v else dget d k')" "dget [] k' = PNone"
  by (simp_all add: dget_def dget_or_def)

lemma dget_append: "dget (d @ e) k = (if k \<in> fst ` set d then dget d k else dget e k)"
  by (induction d) (auto simp: dget_def dget_or_def)

section \<open>Shared tests\<close>

text \<open>\<open>[0-9a-f]{n}\<close> against a value, a positive \<open>int\<close>, and the selectors used after a
  type test.\<close>

definition hex_value :: "nat \<Rightarrow> pyv \<Rightarrow> bool" where
  "hex_value n v = (case v of PStr s \<Rightarrow> hex_string n s | _ \<Rightarrow> False)"

definition pos_int :: "pyv \<Rightarrow> bool" where
  "pos_int v = (case v of PInt i \<Rightarrow> 0 < i | _ \<Rightarrow> False)"

definition int_of :: "pyv \<Rightarrow> int" where
  "int_of v = (case v of PInt i \<Rightarrow> i | _ \<Rightarrow> 0)"

definition str_of :: "pyv \<Rightarrow> string" where
  "str_of v = (case v of PStr s \<Rightarrow> s | _ \<Rightarrow> [])"

definition list_of :: "pyv \<Rightarrow> pyv list" where
  "list_of v = (case v of PList vs \<Rightarrow> vs | _ \<Rightarrow> [])"

definition dict_of_v :: "pyv \<Rightarrow> pydict" where
  "dict_of_v v = (case v of PDict d \<Rightarrow> d | _ \<Rightarrow> [])"

lemma selector_simps [simp]:
  "int_of (PInt i) = i" "str_of (PStr s) = s" "list_of (PList vs) = vs" "dict_of_v (PDict d) = d"
  by (simp_all add: int_of_def str_of_def list_of_def dict_of_v_def)

lemma type_test_iff:
  "is_int v \<longleftrightarrow> (\<exists>i. v = PInt i)" "is_str v \<longleftrightarrow> (\<exists>s. v = PStr s)" "is_list v \<longleftrightarrow> (\<exists>vs. v = PList vs)"
  "is_dict v \<longleftrightarrow> (\<exists>d. v = PDict d)" "is_bool v \<longleftrightarrow> (\<exists>b. v = PBool b)"
  by (cases v; simp)+

text \<open>\<open>type(v) in (int, float)\<close>, \<open>math.isfinite(v)\<close> (an \<open>int\<close> beyond the floats
  raises), and \<open>positive\<close>.\<close>

definition is_number :: "pyv \<Rightarrow> bool" where
  "is_number v = (case v of PInt _ \<Rightarrow> True | PFloat _ \<Rightarrow> True | _ \<Rightarrow> False)"

definition py_isfinite :: "pyv \<Rightarrow> bool res" where
  "py_isfinite v = bnd (float_val v) (\<lambda>f. Inr (flt_finite f))"

definition positive :: "pyv \<Rightarrow> bool res" where
  "positive v = andM (Inr (is_number v)) (andM (py_isfinite v) (py_lt (PInt 0) v))"

lemma positive_PInt: "0 < i \<Longrightarrow> i \<le> 2 ^ 53 \<Longrightarrow> positive (PInt i) = Inr True"
  by (simp add: positive_def is_number_def py_isfinite_def flt_finite_def py_lt_def)

text \<open>\<open>a > b\<close> and \<open>a >= b\<close>; \<open>max\<close> and \<open>min\<close> keep the first of equal
  values.\<close>

abbreviation py_gt :: "pyv \<Rightarrow> pyv \<Rightarrow> bool res" where
  "py_gt v w \<equiv> py_lt w v"

abbreviation py_ge :: "pyv \<Rightarrow> pyv \<Rightarrow> bool res" where
  "py_ge v w \<equiv> py_le w v"

definition py_max2 :: "pyv \<Rightarrow> pyv \<Rightarrow> pyv res" where
  "py_max2 a b = bnd (py_lt a b) (\<lambda>c. Inr (if c then b else a))"

definition py_min2 :: "pyv \<Rightarrow> pyv \<Rightarrow> pyv res" where
  "py_min2 a b = bnd (py_lt b a) (\<lambda>c. Inr (if c then b else a))"

definition py_max :: "pyv list \<Rightarrow> pyv res" where
  "py_max vs = (case vs of [] \<Rightarrow> Inl (ValueError ''max() arg is an empty sequence'') | v # ws \<Rightarrow> foldM_res py_max2 v ws)"

definition py_min :: "pyv list \<Rightarrow> pyv res" where
  "py_min vs = (case vs of [] \<Rightarrow> Inl (ValueError ''min() arg is an empty sequence'') | v # ws \<Rightarrow> foldM_res py_min2 v ws)"

definition py_abs :: "pyv \<Rightarrow> pyv res" where
  "py_abs v = (case v of PFloat (Fin q) \<Rightarrow> Inr (PFloat (Fin \<bar>q\<bar>)) | PFloat (Inf _) \<Rightarrow> Inr (PFloat (Inf False))
     | PFloat NaN \<Rightarrow> Inr (PFloat NaN) | _ \<Rightarrow> (case int_val v of Some i \<Rightarrow> Inr (PInt \<bar>i\<bar>) | None \<Rightarrow> Inl TypeError))"

text \<open>The exact rational a finite number denotes, and \<open>statistics.mean\<close> and
  \<open>statistics.median\<close>: the mean is computed exactly and converted once; the median of an even
  number of values is the float quotient of the middle two.\<close>

definition exact :: "pyv \<Rightarrow> rat" where
  "exact v = (case num_of v of Some (Fin q) \<Rightarrow> q | _ \<Rightarrow> 0)"

definition stats_ok :: "pyv list \<Rightarrow> bool res" where
  "stats_ok vs = allM py_isfinite vs"

definition py_mean :: "pyv list \<Rightarrow> pyv res" where
  "py_mean vs =
     (if vs = [] then Inl (ValueError ''mean requires at least one data point'')
      else guardM (stats_ok vs) ''finite data'' (
        let q = sum_list (map exact vs) / of_nat (length vs) in
        if list_all is_int vs \<and> of_int \<lfloor>q\<rfloor> = q then Inr (PInt \<lfloor>q\<rfloor>)
        else (case to_float q of Fin r \<Rightarrow> Inr (PFloat (Fin r)) | _ \<Rightarrow> Inl OverflowError)))"

definition py_median :: "pyv list \<Rightarrow> pyv res" where
  "py_median vs =
     (if vs = [] then Inl (ValueError ''no median for empty data'')
      else guardM (stats_ok vs) ''finite data'' (
        let ws = sort_key exact vs; n = length vs in
        if odd n then Inr (ws ! (n div 2))
        else bnd (py_add (ws ! (n div 2 - 1)) (ws ! (n div 2))) (\<lambda>s.
             bnd (py_truediv s (PInt 2)) (\<lambda>f. Inr (PFloat f)))))"

end
