(* ===== verification/Job_Exchange.thy ===== *)
theory Job_Exchange
  imports Py_Ops "HOL-Library.List_Lexorder" "HOL-Library.Char_ord"
begin

text \<open>
  \<open>lib/workstation/hyperloom_exchange.py\<close>: the write-once job exchange between the
  optimizer and the owner controller.  A directory is the list of its members; a member is a
  regular file with its bytes or a link.  \<open>json.dumps\<close>, the strict JSON decoder, SHA-256, the
  random job id and the clocks are supplied by the environment; what \<open>canonical\<close> adds to
  \<open>json.dumps\<close>, the sorting of keys, is modelled.
\<close>

section \<open>Constants and helpers\<close>

definition MAX_JSON :: nat where "MAX_JSON = 2 * 2 ^ 20"
definition MAX_RESULT :: nat where "MAX_RESULT = 16 * 2 ^ 20"
definition MAX_SOURCE :: nat where "MAX_SOURCE = 4 * 2 ^ 20"
definition MAX_SOURCE_TOTAL :: int where "MAX_SOURCE_TOTAL = 32 * 2 ^ 20"

definition KINDS :: "string list" where
  "KINDS = [''serving'', ''profile'', ''component'']"

definition admission_seconds :: "string \<Rightarrow> int" where
  "admission_seconds kind = (if kind = ''component'' then 600 else 60)"

definition POST_RELEASE_SECONDS :: "(string \<times> int) list" where
  "POST_RELEASE_SECONDS = [(''serving'', 320 + 120), (''profile'', 320 + 120), (''component'', 120)]"

definition post_release :: "string \<Rightarrow> int" where
  "post_release kind = (case map_of POST_RELEASE_SECONDS kind of None \<Rightarrow> 0 | Some n \<Rightarrow> n)"

text \<open>\<open>[a-zA-Z0-9][a-zA-Z0-9_.-]{0,127}\<close>\<close>

definition simple_name :: "string \<Rightarrow> bool" where
  "simple_name s = (s \<noteq> [] \<and> length s \<le> 128 \<and> is_alnum (hd s)
     \<and> list_all (\<lambda>c. is_alnum c \<or> c \<in> {CHR ''_'', CHR ''.'', CHR ''-''}) (tl s))"

record codec =
  c_dumps :: "pyv \<Rightarrow> string res"
  c_decode :: "string \<Rightarrow> pyv res"
  c_digest :: "string \<Rightarrow> string"

fun sort_keys :: "pyv \<Rightarrow> pyv" where
  "sort_keys (PList vs) = PList (map sort_keys vs)"
| "sort_keys (PDict d) = PDict (sort_key fst (map (\<lambda>kv. (fst kv, sort_keys (snd kv))) d))"
| "sort_keys v = v"

definition canonical :: "codec \<Rightarrow> pyv \<Rightarrow> string res" where
  "canonical c value = (case c_dumps c (sort_keys value) of Inl e \<Rightarrow> Inl e | Inr s \<Rightarrow> Inr (s @ [CHR 0x0A]))"

definition digest_of :: "codec \<Rightarrow> pyv \<Rightarrow> string res" where
  "digest_of c value = (case canonical c value of Inl e \<Rightarrow> Inl e | Inr s \<Rightarrow> Inr (c_digest c s))"

section \<open>Members\<close>

datatype member = Regular string | Linked

type_synonym members = "(string \<times> member) list"

definition read_member :: "member option \<Rightarrow> nat \<Rightarrow> string res" where
  "read_member m cap =
     (case m of
        None \<Rightarrow> Inl (ValueError ''unreadable or linked exchange file'')
      | Some Linked \<Rightarrow> Inl (ValueError ''canonical exchange file required'')
      | Some (Regular raw) \<Rightarrow>
          if cap < length raw then Inl (ValueError ''bounded regular exchange file required'') else Inr raw)"

text \<open>\<open>_publish\<close>: the check and the link are one step; \<open>os.link\<close> refuses an existing name.\<close>

definition publish :: "members \<Rightarrow> string \<Rightarrow> string \<Rightarrow> members res" where
  "publish dir name raw =
     (if length raw \<le> MAX_RESULT \<and> map_of dir name = None then Inr (dset dir name (Regular raw))
      else Inl (ValueError ''fresh bounded exchange member required''))"

definition publish_value :: "codec \<Rightarrow> members \<Rightarrow> string \<Rightarrow> pyv \<Rightarrow> members res" where
  "publish_value c dir name value =
     (case canonical c value of Inl e \<Rightarrow> Inl e | Inr raw \<Rightarrow> publish dir name raw)"

section \<open>Requests\<close>

definition envelope_seconds :: "pyv \<Rightarrow> pyv \<Rightarrow> int res" where
  "envelope_seconds kind caller =
     (case str_in kind KINDS of Inl e \<Rightarrow> Inl e | Inr known \<Rightarrow>
      if \<not> (known \<and> pos_int caller \<and> int_of caller \<le> 7160)
      then Inl (ValueError ''finite recognized owner envelope required'')
      else Inr (admission_seconds (str_of kind) + int_of caller + post_release (str_of kind)))"

definition identity :: "pyv \<Rightarrow> string \<Rightarrow> unit res" where
  "identity value name = require (hex_value 64 value) (''invalid '' @ name)"

definition source_step :: "string list \<times> int \<Rightarrow> pyv \<Rightarrow> (string list \<times> int) res" where
  "source_step acc source =
     (case source of
        PDict d \<Rightarrow>
          let name = dget d ''name'' in
          if \<not> (is_str name \<and> simple_name (str_of name) \<and> str_of name \<notin> set (fst acc))
          then Inl (ValueError ''unique source basename required'')
          else (case identity (dget d ''sha256'') ''source digest'' of Inl e \<Rightarrow> Inl e | Inr _ \<Rightarrow>
          if \<not> (pos_int (dget d ''bytes'') \<and> int_of (dget d ''bytes'') \<le> int MAX_SOURCE)
          then Inl (ValueError ''source size'')
          else Inr (str_of name # fst acc, snd acc + int_of (dget d ''bytes'')))
      | _ \<Rightarrow> Inl (ValueError ''unique source basename required''))"

definition IDENTITIES :: "string list" where
  "IDENTITIES = [''campaign_sha256'', ''selection_sha256'', ''config_sha256'', ''source_set_sha256'']"

definition CLOCKS :: "string list" where
  "CLOCKS = [''created_unix_ms'', ''expires_unix_ms'', ''caller_seconds'']"

definition check_sources :: "codec \<Rightarrow> pydict \<Rightarrow> unit res" where
  "check_sources c d =
     (case dget d ''sources'' of
        PList rows \<Rightarrow>
          if \<not> (0 < length rows \<and> length rows \<le> 64) then Inl (ValueError ''bounded source set required'')
          else (case foldM_res source_step ([], 0) rows of Inl e \<Rightarrow> Inl e | Inr (names, whole) \<Rightarrow>
          if MAX_SOURCE_TOTAL < whole then Inl (ValueError ''source set identity/size'')
          else case digest_of c (PList rows) of Inl e \<Rightarrow> Inl e | Inr h \<Rightarrow>
          require (py_eq (PStr h) (dget d ''source_set_sha256'')) ''source set identity/size'')
      | _ \<Rightarrow> Inl (ValueError ''bounded source set required''))"

definition check_clock :: "pydict \<Rightarrow> string \<Rightarrow> unit res" where
  "check_clock d kind =
     (if \<not> list_all (\<lambda>name. pos_int (dget d name)) CLOCKS then Inl (ValueError ''finite job clock required'')
      else if dget d ''post_release_seconds'' \<noteq> PInt (post_release kind)
      then Inl (ValueError ''post-release grading reserve changed'')
      else let created = int_of (dget d ''created_unix_ms''); expires = int_of (dget d ''expires_unix_ms'') in
      if \<not> (int_of (dget d ''caller_seconds'') \<le> 7160 \<and> created < expires)
      then Inl (ValueError ''job exceeds caller envelope'')
      else case envelope_seconds (PStr kind) (dget d ''caller_seconds'') of Inl e \<Rightarrow> Inl e | Inr envelope \<Rightarrow>
      require (expires - created = envelope * 1000) ''job exceeds caller envelope'')"

definition check_request :: "codec \<Rightarrow> pyv \<Rightarrow> pydict res" where
  "check_request c value =
     (case value of
        PDict d \<Rightarrow>
          if dget d ''schema'' \<noteq> PInt 1 then Inl (ValueError ''job schema'')
          else (case str_in (dget d ''kind'') KINDS of Inl e \<Rightarrow> Inl e | Inr known \<Rightarrow>
          if \<not> (known \<and> hex_value 32 (dget d ''id'')) then Inl (ValueError ''job kind/identity'')
          else case mapM_res (\<lambda>name. identity (dget d name) name) IDENTITIES of Inl e \<Rightarrow> Inl e | Inr _ \<Rightarrow>
          case check_clock d (str_of (dget d ''kind'')) of Inl e \<Rightarrow> Inl e | Inr _ \<Rightarrow>
          case check_sources c d of Inl e \<Rightarrow> Inl e | Inr _ \<Rightarrow>
          if \<not> (dget d ''automatic_retry'' = PBool False \<and> dget d ''adoption_authorized'' = PBool False)
          then Inl (ValueError ''job cannot retry or adopt'')
          else Inr d)
      | _ \<Rightarrow> Inl (ValueError ''job schema''))"

section \<open>Submitting and inspecting a job\<close>

record job =
  j_members :: members
  j_sources :: members

type_synonym exchange = "(string \<times> job) list"

definition snapshot_step ::
  "codec \<Rightarrow> (string \<times> string) list \<times> pyv list \<Rightarrow> string \<times> member option \<Rightarrow> ((string \<times> string) list \<times> pyv list) res" where
  "snapshot_step c acc np =
     (if \<not> simple_name (fst np) then Inl (ValueError ''source must have a simple name'')
      else case read_member (snd np) MAX_SOURCE of Inl e \<Rightarrow> Inl e | Inr raw \<Rightarrow>
      if raw = [] then Inl (ValueError ''empty candidate source'')
      else Inr (fst acc @ [(fst np, raw)],
                snd acc @ [PDict [(''name'', PStr (fst np)), (''sha256'', PStr (c_digest c raw)), (''bytes'', PInt (int (length raw)))]]))"

definition request_value ::
  "string \<Rightarrow> string \<Rightarrow> pyv \<Rightarrow> pyv \<Rightarrow> string \<Rightarrow> string \<Rightarrow> int \<Rightarrow> int \<Rightarrow> int \<Rightarrow> pyv list \<Rightarrow> pydict" where
  "request_value job_id kind campaign selection config_sha set_sha created whole caller inventory =
     [(''schema'', PInt 1), (''id'', PStr job_id), (''kind'', PStr kind),
      (''campaign_sha256'', campaign), (''selection_sha256'', selection),
      (''config_sha256'', PStr config_sha), (''source_set_sha256'', PStr set_sha),
      (''created_unix_ms'', PInt created), (''expires_unix_ms'', PInt (created + whole * 1000)),
      (''caller_seconds'', PInt caller), (''post_release_seconds'', PInt (post_release kind)), (''sources'', PList inventory),
      (''automatic_retry'', PBool False), (''adoption_authorized'', PBool False)]"

record submission =
  s_campaign :: pyv
  s_selection :: pyv
  s_kind :: pyv
  s_config :: pyv
  s_sources :: "(string \<times> member option) list"
  s_caller :: pyv
  s_deadline :: pyv
  s_created :: int
  s_job_id :: string
  s_expected :: "pyv option"

text \<open>The part before the first directory is made: the request, the configuration text and the copied
  sources.\<close>

definition prepare :: "codec \<Rightarrow> submission \<Rightarrow> (pydict \<times> string \<times> (string \<times> string) list) res" where
  "prepare c s =
     (case identity (s_campaign s) ''campaign'' of Inl e \<Rightarrow> Inl e | Inr _ \<Rightarrow>
      case identity (s_selection s) ''selection'' of Inl e \<Rightarrow> Inl e | Inr _ \<Rightarrow>
      if \<not> (pos_int (s_caller s) \<and> int_of (s_caller s) \<le> 7160 \<and> is_int (s_deadline s))
      then Inl (ValueError ''finite campaign/job deadline required'')
      else case envelope_seconds (s_kind s) (s_caller s) of Inl e \<Rightarrow> Inl e | Inr whole \<Rightarrow>
      if int_of (s_deadline s) < s_created s + whole * 1000
      then Inl (ValueError ''full caller envelope does not fit campaign'')
      else if \<not> is_dict (s_config s) then Inl (ValueError ''job configuration must be an object'')
      else case canonical c (s_config s) of Inl e \<Rightarrow> Inl e | Inr config_raw \<Rightarrow>
      if \<not> (length config_raw \<le> MAX_JSON \<and> s_sources s \<noteq> [])
      then Inl (ValueError ''bounded configuration/sources required'')
      else case foldM_res (snapshot_step c) ([], []) (sort_key fst (s_sources s)) of Inl e \<Rightarrow> Inl e | Inr (source_raw, inventory) \<Rightarrow>
      case digest_of c (PList inventory) of Inl e \<Rightarrow> Inl e | Inr set_sha \<Rightarrow>
      if (case s_expected s of None \<Rightarrow> False | Some x \<Rightarrow> \<not> py_eq (PStr set_sha) x)
      then Inl (ValueError ''candidate changed while copying the screened source snapshot'')
      else case check_request c (PDict (request_value (s_job_id s) (str_of (s_kind s)) (s_campaign s) (s_selection s)
             (c_digest c config_raw) set_sha (s_created s) whole (int_of (s_caller s)) inventory)) of Inl e \<Rightarrow> Inl e | Inr request \<Rightarrow>
      Inr (request, config_raw, source_raw))"

definition publish_sources :: "members \<Rightarrow> (string \<times> string) list \<Rightarrow> members res" where
  "publish_sources dir source_raw = foldM_res (\<lambda>d nr. publish d (fst nr) (snd nr)) dir source_raw"

text \<open>\<open>submit\<close>; the exchange is returned also when it raises, because what has been published stays.\<close>

definition submit :: "codec \<Rightarrow> exchange \<Rightarrow> submission \<Rightarrow> exchange \<times> (string \<times> pydict) res" where
  "submit c x s =
     (case prepare c s of Inl e \<Rightarrow> (x, Inl e) | Inr (request, config_raw, source_raw) \<Rightarrow>
      let name = str_of (dget request ''id'') in
      if map_of x name \<noteq> None then (x, Inl FileExistsError)
      else let put = (\<lambda>members sources. dset x name \<lparr>j_members = members, j_sources = sources\<rparr>) in
      case publish [] ''CONFIG.json'' config_raw of Inl e \<Rightarrow> (put [] [], Inl e) | Inr members \<Rightarrow>
      case publish_sources [] source_raw of Inl e \<Rightarrow> (put members [], Inl e) | Inr sources \<Rightarrow>
      case publish_value c members ''REQUEST.json'' (PDict request) of Inl e \<Rightarrow> (put members sources, Inl e) | Inr members' \<Rightarrow>
      (put members' sources, Inr (name, request)))"

definition check_row :: "codec \<Rightarrow> members \<Rightarrow> pyv \<Rightarrow> unit res" where
  "check_row c sources row =
     (case row of
        PDict d \<Rightarrow>
          (case read_member (map_of sources (str_of (dget d ''name''))) MAX_SOURCE of Inl e \<Rightarrow> Inl e | Inr source \<Rightarrow>
           require (PInt (int (length source)) = dget d ''bytes'' \<and> PStr (c_digest c source) = dget d ''sha256'') ''job source changed'')
      | _ \<Rightarrow> Inl TypeError)"

definition row_name :: "pyv \<Rightarrow> string" where
  "row_name row = (case row of PDict d \<Rightarrow> str_of (dget d ''name'') | _ \<Rightarrow> [])"

definition inspect :: "codec \<Rightarrow> string \<Rightarrow> job \<Rightarrow> pyv \<Rightarrow> pyv \<Rightarrow> (pydict \<times> pydict) res" where
  "inspect c name j campaign selection =
     (case read_member (map_of (j_members j) ''REQUEST.json'') MAX_JSON of Inl e \<Rightarrow> Inl e | Inr raw \<Rightarrow>
      case c_decode c raw of Inl e \<Rightarrow> Inl e | Inr value \<Rightarrow>
      case check_request c value of Inl e \<Rightarrow> Inl e | Inr request \<Rightarrow>
      if \<not> (py_eq (PStr name) (dget request ''id'') \<and> py_eq (dget request ''campaign_sha256'') campaign
            \<and> py_eq (dget request ''selection_sha256'') selection)
      then Inl (ValueError ''wrong campaign, selection or job'')
      else case read_member (map_of (j_members j) ''CONFIG.json'') MAX_JSON of Inl e \<Rightarrow> Inl e | Inr config_raw \<Rightarrow>
      if PStr (c_digest c config_raw) \<noteq> dget request ''config_sha256'' then Inl (ValueError ''job config changed'')
      else case c_decode c config_raw of Inl e \<Rightarrow> Inl e | Inr config \<Rightarrow>
      (case (config, dget request ''sources'') of
         (PDict cfg, PList rows) \<Rightarrow>
           if keyset (j_sources j) \<noteq> row_name ` set rows then Inl (ValueError ''unexpected source member'')
           else (case mapM_res (check_row c (j_sources j)) rows of Inl e \<Rightarrow> Inl e | Inr _ \<Rightarrow> Inr (request, cfg))
       | _ \<Rightarrow> Inl (ValueError ''job config must be an object'')))"

section \<open>Claiming and answering a job\<close>

type_synonym replies = "(string \<times> members) list"

definition claim_value :: "codec \<Rightarrow> pydict \<Rightarrow> string \<Rightarrow> pyv \<Rightarrow> int \<Rightarrow> pydict" where
  "claim_value c request raw controller current =
     [(''schema'', PInt 1), (''id'', dget request ''id''), (''request_sha256'', PStr (c_digest c raw)),
      (''controller_sha256'', controller), (''claimed_unix_ms'', PInt current), (''gpu_admission'', PBool False)]"

text \<open>\<open>claim\<close>: \<open>separate\<close> says whether the two trees are disjoint, \<open>reread\<close> is the \<open>REQUEST.json\<close> that is there when
  it is read a second time for its digest, \<open>cancelled_later\<close> whether \<open>CANCELLED.json\<close> appeared by the second look.\<close>

definition claim ::
  "codec \<Rightarrow> string \<Rightarrow> job \<Rightarrow> replies \<Rightarrow> bool \<Rightarrow> pyv \<Rightarrow> pyv \<Rightarrow> pyv \<Rightarrow> int \<Rightarrow> member option \<Rightarrow> bool \<Rightarrow> replies \<times> (pydict \<times> pydict \<times> string) res" where
  "claim c name j rs separate campaign selection controller current reread cancelled_later =
     (if \<not> separate then (rs, Inl (ValueError ''separate request/reply trees required''))
      else case inspect c name j campaign selection of Inl e \<Rightarrow> (rs, Inl e) | Inr (request, config) \<Rightarrow>
      case identity controller ''controller digest'' of Inl e \<Rightarrow> (rs, Inl e) | Inr _ \<Rightarrow>
      if \<not> (int_of (dget request ''created_unix_ms'') \<le> current
            \<and> current + (int_of (dget request ''caller_seconds'') + int_of (dget request ''post_release_seconds'')) * 1000
                \<le> int_of (dget request ''expires_unix_ms'')
            \<and> map_of (j_members j) ''CANCELLED.json'' = None)
      then (rs, Inl (ValueError ''job expired, clock moved or cancelled''))
      else let reply = str_of (dget request ''id'') in
      if map_of rs reply \<noteq> None then (rs, Inl FileExistsError)
      else case read_member reread MAX_JSON of Inl e \<Rightarrow> (dset rs reply [], Inl e) | Inr raw \<Rightarrow>
      case publish_value c [] ''CLAIM.json'' (PDict (claim_value c request raw controller current)) of
        Inl e \<Rightarrow> (dset rs reply [], Inl e)
      | Inr members \<Rightarrow>
          if cancelled_later then (dset rs reply members, Inl (ValueError ''job cancelled while being claimed''))
          else (dset rs reply members, Inr (request, config, reply)))"

definition STATUSES :: "string list" where
  "STATUSES = [''SUCCEEDED'', ''FAILED'', ''UNSUPPORTED'', ''CANCELLED'']"

definition result_value ::
  "string \<Rightarrow> pydict \<Rightarrow> string \<Rightarrow> pyv \<Rightarrow> pyv \<Rightarrow> pyv \<Rightarrow> pyv \<Rightarrow> pydict" where
  "result_value status request request_sha controller seal release payload =
     [(''schema'', PInt 1), (''id'', dget request ''id''), (''status'', PStr status),
      (''request_sha256'', PStr request_sha), (''campaign_sha256'', dget request ''campaign_sha256''),
      (''config_sha256'', dget request ''config_sha256''), (''source_set_sha256'', dget request ''source_set_sha256''),
      (''controller_sha256'', controller),
      (''owner_seal_sha256'', seal), (''independent_release'', release),
      (''adoption_authorized'', PBool False), (''automatic_retry'', PBool False), (''payload'', payload)]"

definition publish_result ::
  "codec \<Rightarrow> string \<Rightarrow> members \<Rightarrow> pydict \<Rightarrow> pyv \<Rightarrow> pyv \<Rightarrow> pyv \<Rightarrow> pyv \<Rightarrow> (members \<times> pydict) res" where
  "publish_result c reply members request status payload seal release =
     (case str_in status STATUSES of Inl e \<Rightarrow> Inl e | Inr known \<Rightarrow>
      if \<not> (known \<and> is_dict payload) then Inl (ValueError ''job result status/payload'')
      else case item request ''id'' of Inl e \<Rightarrow> Inl e | Inr job_id \<Rightarrow>
      if \<not> (py_eq (PStr reply) job_id \<and> map_of members ''CLAIM.json'' \<noteq> None)
      then Inl (ValueError ''controller claim required'')
      else case read_member (map_of members ''CLAIM.json'') MAX_JSON of Inl e \<Rightarrow> Inl e | Inr raw \<Rightarrow>
      case c_decode c raw of Inl e \<Rightarrow> Inl e
      | Inr (PDict record) \<Rightarrow>
          (if \<not> py_eq (dget record ''id'') job_id then Inl (ValueError ''claim/request binding'')
           else case digest_of c (PDict request) of Inl e \<Rightarrow> Inl e | Inr request_sha \<Rightarrow>
           if \<not> py_eq (dget record ''request_sha256'') (PStr request_sha) then Inl (ValueError ''claim/request binding'')
           else case (if status = PStr ''SUCCEEDED''
                      then (case identity seal ''owner result seal'' of Inl e \<Rightarrow> Inl e | Inr _ \<Rightarrow>
                            require (release = PBool True) ''successful job requires independent release'')
                      else Inr ()) of Inl e \<Rightarrow> Inl e | Inr _ \<Rightarrow>
           case mapM_res (item request) [''campaign_sha256'', ''config_sha256'', ''source_set_sha256''] of Inl e \<Rightarrow> Inl e | Inr _ \<Rightarrow>
           case item record ''controller_sha256'' of Inl e \<Rightarrow> Inl e | Inr controller \<Rightarrow>
           let result = result_value (str_of status) request request_sha controller seal release payload in
           case publish_value c members ''RESULT.json'' (PDict result) of Inl e \<Rightarrow> Inl e | Inr members' \<Rightarrow>
           Inr (members', result))
      | Inr _ \<Rightarrow> Inl AttributeError)"

definition RESULT_KEYS :: "string list" where
  "RESULT_KEYS = [''id'', ''campaign_sha256'', ''config_sha256'', ''source_set_sha256'']"

text \<open>\<open>all(result.get(k) == request[k] for k in ...)\<close> stops at the first difference.\<close>

fun same_items :: "pydict \<Rightarrow> pydict \<Rightarrow> string list \<Rightarrow> bool res" where
  "same_items result request [] = Inr True"
| "same_items result request (k # ks) =
     (case item request k of Inl e \<Rightarrow> Inl e | Inr v \<Rightarrow>
      if py_eq (dget result k) v then same_items result request ks else Inr False)"

definition validate_result :: "codec \<Rightarrow> pyv \<Rightarrow> pydict \<Rightarrow> pyv \<Rightarrow> pydict res" where
  "validate_result c value request controller =
     (case value of
        PDict result \<Rightarrow>
          if dget result ''schema'' \<noteq> PInt 1 then Inl (ValueError ''job result schema'')
          else (case same_items result request RESULT_KEYS of Inl e \<Rightarrow> Inl e | Inr same \<Rightarrow>
          if \<not> same
          then Inl (ValueError ''result identity changed or belongs to another request'')
          else case digest_of c (PDict request) of Inl e \<Rightarrow> Inl e | Inr request_sha \<Rightarrow>
          if \<not> (py_eq (dget result ''request_sha256'') (PStr request_sha) \<and> py_eq (dget result ''controller_sha256'') controller)
          then Inl (ValueError ''result identity changed or belongs to another request'')
          else case str_in (dget result ''status'') STATUSES of Inl e \<Rightarrow> Inl e | Inr known \<Rightarrow>
          if \<not> (known \<and> dget result ''automatic_retry'' = PBool False \<and> dget result ''adoption_authorized'' = PBool False
                \<and> is_dict (dget result ''payload''))
          then Inl (ValueError ''job result contract'')
          else if dget result ''status'' = PStr ''SUCCEEDED''
          then (case identity (dget result ''owner_seal_sha256'') ''result seal'' of Inl e \<Rightarrow> Inl e | Inr _ \<Rightarrow>
                if dget result ''independent_release'' \<noteq> PBool True then Inl (ValueError ''result missing independent release'')
                else Inr result)
          else Inr result)
      | _ \<Rightarrow> Inl (ValueError ''job result schema''))"

definition read_result :: "codec \<Rightarrow> string \<Rightarrow> members \<Rightarrow> pydict \<Rightarrow> pyv \<Rightarrow> pydict res" where
  "read_result c reply members request controller =
     (case item request ''id'' of Inl e \<Rightarrow> Inl e | Inr job_id \<Rightarrow>
      if \<not> py_eq (PStr reply) job_id then Inl (ValueError ''wrong reply directory'')
      else case read_member (map_of members ''RESULT.json'') MAX_RESULT of Inl e \<Rightarrow> Inl e | Inr raw \<Rightarrow>
      case c_decode c raw of Inl e \<Rightarrow> Inl e | Inr value \<Rightarrow> validate_result c value request controller)"

section \<open>Waiting for a result\<close>

definition wait_end :: "pydict \<Rightarrow> flt \<Rightarrow> flt \<Rightarrow> flt res" where
  "wait_end request now monotonic =
     (case item request ''expires_unix_ms'' of Inl e \<Rightarrow> Inl e | Inr expires \<Rightarrow>
      case py_sub expires (PFloat (flt_mul now (Fin 1000))) of Inl e \<Rightarrow> Inl e | Inr left \<Rightarrow>
      case py_truediv left (PInt 1000) of Inl e \<Rightarrow> Inl e | Inr remaining \<Rightarrow>
      case item request ''kind'' of Inl e \<Rightarrow> Inl e | Inr kind \<Rightarrow>
      case item request ''caller_seconds'' of Inl e \<Rightarrow> Inl e | Inr caller \<Rightarrow>
      case envelope_seconds kind caller of Inl e \<Rightarrow> Inl e | Inr envelope \<Rightarrow>
      let bound = (if flt_lt (Fin 0) remaining then PFloat remaining else PInt 0) in
      case py_lt bound (PInt envelope) of Inl e \<Rightarrow> Inl e | Inr smaller \<Rightarrow>
      case float_val (if smaller then bound else PInt envelope) of Inl e \<Rightarrow> Inl e | Inr wait \<Rightarrow>
      Inr (flt_add monotonic wait))"

text \<open>\<open>_wait_state\<close>: what the checks of the two directories find, whether the trees are disjoint, and the two clocks.
  It runs before the \<open>try\<close>, so its failures leave no record.\<close>

record wait_start =
  ws_directories :: "unit res"
  ws_separate :: bool
  ws_now :: flt
  ws_monotonic :: flt

definition wait_state :: "pydict \<Rightarrow> wait_start \<Rightarrow> flt res" where
  "wait_state request w =
     (case ws_directories w of Inl e \<Rightarrow> Inl e | Inr _ \<Rightarrow>
      if \<not> ws_separate w then Inl (ValueError ''separate request/reply trees required'')
      else case item request ''id'' of Inl e \<Rightarrow> Inl e | Inr job_id \<Rightarrow>
      if \<not> is_str job_id then Inl TypeError else wait_end request (ws_now w) (ws_monotonic w))"

definition campaign_open :: "codec \<Rightarrow> member option \<Rightarrow> pyv \<Rightarrow> pyv \<Rightarrow> unit res" where
  "campaign_open c park campaign controller =
     (case park of
        None \<Rightarrow> Inr ()
      | Some m \<Rightarrow>
          (case read_member (Some m) MAX_JSON of Inl e \<Rightarrow> Inl e | Inr raw \<Rightarrow>
           case c_decode c raw of Inl e \<Rightarrow> Inl e
           | Inr (PDict value) \<Rightarrow>
               if py_eq (dget value ''schema'') (PInt 1) \<and> py_eq (dget value ''campaign_sha256'') campaign
                  \<and> py_eq (dget value ''controller_sha256'') controller \<and> dget value ''park_campaign'' = PBool True
                  \<and> dget value ''automatic_retry'' = PBool False \<and> dget value ''adoption_authorized'' = PBool False
                  \<and> is_str (dget value ''reason'')
               then Inl (RuntimeError (''owner campaign parked: '' @ str_of (dget value ''reason'')))
               else Inl (ValueError ''foreign or invalid campaign terminal record'')
           | Inr _ \<Rightarrow> Inl (ValueError ''foreign or invalid campaign terminal record'')))"

text \<open>One turn of the loop sees a time, the reply directory and the park record; the sleep after it may be
  interrupted by an exception.  \<open>None\<close>: still waiting when the observations end.\<close>

datatype poll = Poll flt members "member option" | Interrupted exn

fun wait_loop :: "codec \<Rightarrow> string \<Rightarrow> pydict \<Rightarrow> pyv \<Rightarrow> flt \<Rightarrow> poll list \<Rightarrow> pydict res option" where
  "wait_loop c reply request controller end_time [] = None"
| "wait_loop c reply request controller end_time (Interrupted e # ps) = Some (Inl e)"
| "wait_loop c reply request controller end_time (Poll now members park # ps) =
     (if \<not> flt_lt now end_time then Some (Inl TimeoutError)
      else if map_of members ''RESULT.json'' \<noteq> None then Some (read_result c reply members request controller)
      else (case (case item request ''campaign_sha256'' of Inl e \<Rightarrow> Inl e | Inr campaign \<Rightarrow> campaign_open c park campaign controller) of
              Inl e \<Rightarrow> Some (Inl e)
            | Inr _ \<Rightarrow> wait_loop c reply request controller end_time ps))"

fun exn_name :: "exn \<Rightarrow> string" where
  "exn_name (ValueError _) = ''ValueError''"
| "exn_name (KeyError _) = ''KeyError''"
| "exn_name (RuntimeError _) = ''RuntimeError''"
| "exn_name (Refusal _ _) = ''Refusal''"
| "exn_name JSONDecodeError = ''JSONDecodeError''"
| "exn_name UnicodeError = ''UnicodeDecodeError''"
| "exn_name IndexError = ''IndexError''"
| "exn_name TypeError = ''TypeError''"
| "exn_name AttributeError = ''AttributeError''"
| "exn_name OverflowError = ''OverflowError''"
| "exn_name ZeroDivisionError = ''ZeroDivisionError''"
| "exn_name OSError = ''OSError''"
| "exn_name FileNotFoundError = ''FileNotFoundError''"
| "exn_name FileExistsError = ''FileExistsError''"
| "exn_name TimeoutError = ''TimeoutError''"
| "exn_name RecursionError = ''RecursionError''"
| "exn_name CancelledError = ''CancelledError''"
| "exn_name HTTPError = ''HTTPError''"
| "exn_name SqliteError = ''OperationalError''"

definition cancel_value :: "pydict \<Rightarrow> string \<Rightarrow> exn \<Rightarrow> pydict" where
  "cancel_value request request_sha e =
     [(''id'', dget request ''id''), (''request_sha256'', PStr request_sha), (''reason'', PStr (exn_name e)),
      (''owner_release_claimed'', PBool False)]"

definition cancel_wait :: "codec \<Rightarrow> members \<Rightarrow> pydict \<Rightarrow> exn \<Rightarrow> members res" where
  "cancel_wait c members request e =
     (if map_of members ''CANCELLED.json'' \<noteq> None then Inr members
      else case item request ''id'' of Inl e \<Rightarrow> Inl e | Inr _ \<Rightarrow>
      case digest_of c (PDict request) of Inl e \<Rightarrow> Inl e | Inr request_sha \<Rightarrow>
      publish_value c members ''CANCELLED.json'' (PDict (cancel_value request request_sha e)))"

text \<open>\<open>wait_result\<close> and \<open>wait_result_async\<close>: they differ in how they sleep.  The members are those of the
  job directory.\<close>

definition wait_result ::
  "codec \<Rightarrow> string \<Rightarrow> members \<Rightarrow> pydict \<Rightarrow> pyv \<Rightarrow> wait_start \<Rightarrow> poll list \<Rightarrow> (members \<times> pydict res) option" where
  "wait_result c reply members request controller w ps =
     (case wait_state request w of Inl e \<Rightarrow> Some (members, Inl e) | Inr end_time \<Rightarrow>
      case wait_loop c reply request controller end_time ps of
        None \<Rightarrow> None
      | Some (Inr result) \<Rightarrow> Some (members, Inr result)
      | Some (Inl e) \<Rightarrow>
          (case cancel_wait c members request e of
             Inl e' \<Rightarrow> Some (members, Inl e')
           | Inr members' \<Rightarrow> Some (members', Inl e)))"


section \<open>Lemmas: canonical values\<close>

text \<open>What the exchange relies on of \<open>json\<close>: the decoder gives back what was dumped.\<close>

definition codec_ok :: "codec \<Rightarrow> bool" where
  "codec_ok c = (\<forall>v s. c_dumps c v = Inr s \<longrightarrow> c_decode c (s @ [CHR 0x0A]) = Inr v)"

lemma canonical_decode: "codec_ok c \<Longrightarrow> canonical c v = Inr raw \<Longrightarrow> c_decode c raw = Inr (sort_keys v)"
  by (auto simp: canonical_def codec_ok_def split: sum.splits)

lemma map_of_sort_key: "distinct (map fst l) \<Longrightarrow> map_of (sort_key fst l) = map_of l"
  by (rule map_of_inject_set [THEN iffD2]) (simp_all add: distinct_map)

definition sorted_dict :: "pydict \<Rightarrow> pydict" where
  "sorted_dict d = sort_key fst (map (\<lambda>kv. (fst kv, sort_keys (snd kv))) d)"

lemma sort_keys_dict: "sort_keys (PDict d) = PDict (sorted_dict d)"
  by (simp add: sorted_dict_def)

lemma map_of_map_values: "map_of (map (\<lambda>kv. (fst kv, f (snd kv))) d) k = map_option f (map_of d k)"
  by (induction d) auto

lemma dget_sorted: "distinct (map fst d) \<Longrightarrow> dget (sorted_dict d) k = sort_keys (dget d k)"
proof -
  assume "distinct (map fst d)"
  then have "distinct (map fst (map (\<lambda>kv. (fst kv, sort_keys (snd kv))) d))" by (simp add: o_def)
  from map_of_sort_key [OF this] have "map_of (sorted_dict d) k = map_option sort_keys (map_of d k)"
    unfolding sorted_dict_def by (simp add: map_of_map_values)
  then show ?thesis by (cases "map_of d k") (simp_all add: dget_def dget_or_def)
qed

lemma sort_keys_idem: "sort_keys (sort_keys v) = sort_keys v"
proof (induction v rule: sort_keys.induct)
  case (1 vs)
  then show ?case by simp
next
  case (2 d)
  let ?l = "map (\<lambda>kv. (fst kv, sort_keys (snd kv))) d"
  have "map (\<lambda>kv. (fst kv, sort_keys (snd kv))) (sort_key fst ?l) = sort_key fst ?l"
  proof (rule map_idI)
    fix kv assume "kv \<in> set (sort_key fst ?l)"
    then obtain x where x: "x \<in> set d" "kv = (fst x, sort_keys (snd x))" by auto
    then show "(fst kv, sort_keys (snd kv)) = kv" using 2 [OF x(1)] by simp
  qed
  then show ?case by (simp add: sort_key_id_if_sorted [OF sorted_sort_key])
qed simp_all

lemma canonical_idem: "canonical c (sort_keys v) = canonical c v"
  by (simp add: canonical_def sort_keys_idem)

lemma sort_keys_atoms [simp]:
  "(sort_keys v = PInt i) = (v = PInt i)" "(sort_keys v = PBool b) = (v = PBool b)" "(sort_keys v = PStr s) = (v = PStr s)"
  "pos_int (sort_keys v) = pos_int v" "int_of (sort_keys v) = int_of v" "str_of (sort_keys v) = str_of v"
  "is_str (sort_keys v) = is_str v" "is_dict (sort_keys v) = is_dict v" "hex_value n (sort_keys v) = hex_value n v"
  "identity (sort_keys v) name = identity v name"
  by (cases v; simp add: pos_int_def int_of_def str_of_def hex_value_def identity_def)+

lemma str_in_sort_keys [simp]: "str_in (sort_keys v) names = str_in v names"
  by (cases v) (simp_all add: str_in_def)

lemma py_eq_str [simp]: "py_eq v (PStr s) \<longleftrightarrow> v = PStr s"
  by (cases v) auto

section \<open>Lemmas: requests\<close>

lemma check_request_Inr:
  assumes "check_request c value = Inr d"
  shows "value = PDict d" "dget d ''schema'' = PInt 1" "\<exists>k \<in> set KINDS. dget d ''kind'' = PStr k"
    "hex_value 32 (dget d ''id'')" "name \<in> set IDENTITIES \<Longrightarrow> hex_value 64 (dget d name)"
    "check_clock d (str_of (dget d ''kind'')) = Inr ()" "check_sources c d = Inr ()"
    "dget d ''automatic_retry'' = PBool False" "dget d ''adoption_authorized'' = PBool False"
proof -
  obtain e where v: "value = PDict e" using assms by (cases "value") (simp_all add: check_request_def)
  have s: "dget e ''schema'' = PInt 1" using assms v by (auto simp: check_request_def split: if_splits)
  have k: "str_in (dget e ''kind'') KINDS = Inr True" "hex_value 32 (dget e ''id'')"
    using assms v s by (auto simp: check_request_def simp del: str_in_True split: if_splits sum.splits)
  obtain us where i: "mapM_res (\<lambda>name. identity (dget e name) name) IDENTITIES = Inr us"
    using assms v s k by (auto simp: check_request_def split: sum.splits)
  have cl: "check_clock e (str_of (dget e ''kind'')) = Inr ()" "check_sources c e = Inr ()"
    using assms v s k i by (auto simp: check_request_def split: sum.splits)
  have f: "dget e ''automatic_retry'' = PBool False" "dget e ''adoption_authorized'' = PBool False" "d = e"
    using assms v s k i cl by (auto simp: check_request_def split: if_splits)
  show "value = PDict d" "dget d ''schema'' = PInt 1" "hex_value 32 (dget d ''id'')"
    "check_clock d (str_of (dget d ''kind'')) = Inr ()" "check_sources c d = Inr ()"
    "dget d ''automatic_retry'' = PBool False" "dget d ''adoption_authorized'' = PBool False"
    using v s k(2) cl f by simp_all
  show "\<exists>k \<in> set KINDS. dget d ''kind'' = PStr k" using k(1) f(3) by simp
  show "hex_value 64 (dget d name)" if "name \<in> set IDENTITIES"
  proof -
    have "\<exists>u. identity (dget e name) name = Inr u"
      using mapM_res_list_all2 [OF i] that by (auto simp: list_all2_conv_all_nth in_set_conv_nth)
    then show ?thesis using f(3) by (auto simp: identity_def require_def split: if_splits)
  qed
qed

lemma hex_value_str: "hex_value n v \<Longrightarrow> \<exists>s. v = PStr s \<and> hex_string n s"
  by (cases v) (simp_all add: hex_value_def)

lemma check_clock_Inr:
  assumes "check_clock d kind = Inr ()" "kind \<in> set KINDS"
  shows "int_of (dget d ''expires_unix_ms'') = int_of (dget d ''created_unix_ms'')
      + (admission_seconds kind + int_of (dget d ''caller_seconds'') + post_release kind) * 1000"
    "dget d ''post_release_seconds'' = PInt (post_release kind)"
    "0 < int_of (dget d ''created_unix_ms'')" "0 < int_of (dget d ''caller_seconds'')" "int_of (dget d ''caller_seconds'') \<le> 7160"
proof -
  have a: "list_all (\<lambda>name. pos_int (dget d name)) CLOCKS" "dget d ''post_release_seconds'' = PInt (post_release kind)"
    "int_of (dget d ''caller_seconds'') \<le> 7160"
    using assms(1) by (auto simp: check_clock_def Let_def split: if_splits)
  then have p: "pos_int (dget d ''caller_seconds'')" "pos_int (dget d ''created_unix_ms'')" by (simp_all add: CLOCKS_def)
  have e: "envelope_seconds (PStr kind) (dget d ''caller_seconds'')
      = Inr (admission_seconds kind + int_of (dget d ''caller_seconds'') + post_release kind)"
    using assms(2) a(3) p(1) by (simp add: envelope_seconds_def str_in_def str_of_def)
  show "int_of (dget d ''expires_unix_ms'') = int_of (dget d ''created_unix_ms'')
      + (admission_seconds kind + int_of (dget d ''caller_seconds'') + post_release kind) * 1000"
    using assms(1) e a by (simp add: check_clock_def Let_def require_def split: if_splits)
  show "dget d ''post_release_seconds'' = PInt (post_release kind)" "int_of (dget d ''caller_seconds'') \<le> 7160"
    by (rule a)+
  show "0 < int_of (dget d ''created_unix_ms'')" "0 < int_of (dget d ''caller_seconds'')"
    using p by (auto simp: pos_int_def int_of_def split: pyv.splits)
qed

lemma publish_Inr:
  "publish dir name raw = Inr dir' \<Longrightarrow> map_of dir name = None \<and> dir' = dset dir name (Regular raw) \<and> length raw \<le> MAX_RESULT"
  by (auto simp: publish_def split: if_splits)

lemma publish_value_Inr:
  "publish_value c dir name v = Inr dir' \<Longrightarrow> \<exists>raw. canonical c v = Inr raw \<and> map_of dir name = None
     \<and> dir' = dset dir name (Regular raw) \<and> length raw \<le> MAX_RESULT"
  by (auto simp: publish_value_def dest: publish_Inr split: sum.splits)

lemma inspect_Inr:
  assumes "inspect c name j campaign selection = Inr (request, config)"
  shows "\<exists>raw. map_of (j_members j) ''REQUEST.json'' = Some (Regular raw) \<and> c_decode c raw = Inr (PDict request)"
    "check_request c (PDict request) = Inr request" "dget request ''id'' = PStr name"
proof -
  obtain raw val where r: "read_member (map_of (j_members j) ''REQUEST.json'') MAX_JSON = Inr raw" "c_decode c raw = Inr val"
    "check_request c val = Inr request"
    using assms by (fastforce simp: inspect_def split: sum.splits if_splits pyv.splits)
  have v: "val = PDict request" by (rule check_request_Inr(1) [OF r(3)])
  then show "check_request c (PDict request) = Inr request" using r(3) by simp
  show "\<exists>raw. map_of (j_members j) ''REQUEST.json'' = Some (Regular raw) \<and> c_decode c raw = Inr (PDict request)"
    using r v by (auto simp: read_member_def split: option.splits member.splits if_splits)
  have "py_eq (PStr name) (dget request ''id'')"
    using assms r by (auto simp: inspect_def split: if_splits)
  then show "dget request ''id'' = PStr name" by simp
qed


section \<open>Lemmas: a request survives its transmission\<close>

lemma source_step_sorted:
  "(\<And>d. row = PDict d \<Longrightarrow> distinct (map fst d)) \<Longrightarrow> source_step acc (sort_keys row) = source_step acc row"
  by (cases row) (simp_all add: source_step_def sort_keys_dict dget_sorted Let_def del: sort_keys.simps(2) cong: sum.case_cong if_cong)

definition rows_distinct :: "pydict \<Rightarrow> bool" where
  "rows_distinct d = (distinct (map fst d) \<and>
     (\<forall>rows. dget d ''sources'' = PList rows \<longrightarrow> (\<forall>row \<in> set rows. \<forall>e. row = PDict e \<longrightarrow> distinct (map fst e))))"

lemma foldM_res_map: "(\<And>s x. x \<in> set xs \<Longrightarrow> g s (h x) = g s x) \<Longrightarrow> foldM_res g s (map h xs) = foldM_res g s xs"
  by (induction xs arbitrary: s) (auto split: sum.splits)

lemma check_sources_sorted:
  assumes "rows_distinct d"
  shows "check_sources c (sorted_dict d) = check_sources c d"
proof -
  have d: "distinct (map fst d)" using assms by (simp add: rows_distinct_def)
  show ?thesis
  proof (cases "dget d ''sources''")
    case (PList rows)
    have f: "foldM_res source_step s (map sort_keys rows) = foldM_res source_step s rows" for s
      by (rule foldM_res_map, rule source_step_sorted) (use assms PList in \<open>auto simp: rows_distinct_def\<close>)
    have "canonical c (PList (map sort_keys rows)) = canonical c (PList rows)"
      using canonical_idem [of c "PList rows"] by simp
    then have g: "digest_of c (PList (map sort_keys rows)) = digest_of c (PList rows)" by (simp add: digest_of_def)
    have h: "require (py_eq (PStr h) (sort_keys v)) m = require (py_eq (PStr h) v) m" for h v m
      by (simp add: require_def)
    show ?thesis by (simp add: check_sources_def dget_sorted [OF d] PList f g h cong: sum.case_cong prod.case_cong if_cong)
  qed (simp_all add: check_sources_def dget_sorted [OF d] del: sort_keys.simps(2) add: sort_keys_dict)
qed

lemma check_request_sorted:
  assumes "check_request c (PDict d) = Inr d" "rows_distinct d"
  shows "check_request c (PDict (sorted_dict d)) = Inr (sorted_dict d)"
proof -
  have g: "dget (sorted_dict d) k = sort_keys (dget d k)" for k
    using assms(2) by (simp add: dget_sorted rows_distinct_def)
  have cl: "check_clock (sorted_dict d) k = check_clock d k" for k
  proof -
    have "envelope_seconds (PStr k) (sort_keys v) = envelope_seconds (PStr k) v" for v
      by (simp add: envelope_seconds_def cong: sum.case_cong if_cong)
    then show ?thesis by (simp add: check_clock_def g Let_def cong: sum.case_cong if_cong)
  qed
  show ?thesis using assms(1)
    by (simp add: check_request_def g cl check_sources_sorted [OF assms(2)] split: if_splits sum.splits)
qed

text \<open>The copied sources and the inventory of a submission.\<close>

definition inventory_row :: "codec \<Rightarrow> string \<times> string \<Rightarrow> pyv" where
  "inventory_row c nr = PDict [(''name'', PStr (fst nr)), (''sha256'', PStr (c_digest c (snd nr))), (''bytes'', PInt (int (length (snd nr))))]"

lemma snapshot_inv:
  assumes "foldM_res (snapshot_step c) (raws0, map (inventory_row c) raws0) nps = Inr (raws, inventory)"
    "list_all (\<lambda>nr. length (snd nr) \<le> MAX_SOURCE) raws0"
  shows "inventory = map (inventory_row c) raws \<and> map fst raws = map fst raws0 @ map fst nps
    \<and> list_all (\<lambda>nr. length (snd nr) \<le> MAX_SOURCE) raws"
  using assms
proof (induction nps arbitrary: raws0)
  case (Cons np nps)
  obtain raw where r: "read_member (snd np) MAX_SOURCE = Inr raw"
    and s: "snapshot_step c (raws0, map (inventory_row c) raws0) np
      = Inr (raws0 @ [(fst np, raw)], map (inventory_row c) (raws0 @ [(fst np, raw)]))"
    using Cons.prems(1) by (auto simp: snapshot_step_def inventory_row_def split: sum.splits if_splits)
  have len: "length raw \<le> MAX_SOURCE" using r by (auto simp: read_member_def split: option.splits member.splits if_splits)
  have "foldM_res (snapshot_step c) (raws0 @ [(fst np, raw)], map (inventory_row c) (raws0 @ [(fst np, raw)])) nps = Inr (raws, inventory)"
    using Cons.prems(1) s by simp
  from Cons.IH [OF this] show ?case using Cons.prems(2) len by simp
qed auto

lemma publish_sources_Inr:
  "publish_sources dir raws = Inr dir' \<Longrightarrow> distinct (map fst raws) \<Longrightarrow>
     (\<forall>n. map_of dir' n = (case map_of raws n of Some raw \<Rightarrow> Some (Regular raw) | None \<Rightarrow> map_of dir n))"
proof (induction raws arbitrary: dir)
  case (Cons nr raws)
  obtain d1 where d1: "publish dir (fst nr) (snd nr) = Inr d1" "publish_sources d1 raws = Inr dir'"
    using Cons.prems(1) by (auto simp: publish_sources_def split: sum.splits)
  have "fst nr \<notin> fst ` set raws" using Cons.prems(2) by simp
  then have "map_of raws (fst nr) = None" by (simp add: map_of_eq_None_iff)
  with Cons.IH [OF d1(2)] Cons.prems(2) publish_Inr [OF d1(1)] show ?case by (auto split: option.splits)
qed (simp add: publish_sources_def)

lemma keyset_map_of: "keyset d = {k. map_of d k \<noteq> None}"
  by (auto simp: keyset_def map_of_eq_None_iff)

lemma prepare_Inr:
  assumes "prepare c s = Inr (request, config_raw, raws)"
  shows "identity (s_campaign s) ''campaign'' = Inr ()" "identity (s_selection s) ''selection'' = Inr ()"
    "canonical c (s_config s) = Inr config_raw" "length config_raw \<le> MAX_JSON" "is_dict (s_config s)"
    "check_request c (PDict request) = Inr request"
    "\<exists>inventory set_sha kind whole caller. foldM_res (snapshot_step c) ([], []) (sort_key fst (s_sources s)) = Inr (raws, inventory) \<and>
       request = request_value (s_job_id s) kind (s_campaign s) (s_selection s) (c_digest c config_raw) set_sha (s_created s) whole caller inventory"
proof -
  obtain whole inventory set_sha where
    i: "identity (s_campaign s) ''campaign'' = Inr ()" "identity (s_selection s) ''selection'' = Inr ()"
    and cr: "canonical c (s_config s) = Inr config_raw" "length config_raw \<le> MAX_JSON" "is_dict (s_config s)"
    and f: "foldM_res (snapshot_step c) ([], []) (sort_key fst (s_sources s)) = Inr (raws, inventory)"
    and q: "check_request c (PDict (request_value (s_job_id s) (str_of (s_kind s)) (s_campaign s) (s_selection s)
             (c_digest c config_raw) set_sha (s_created s) whole (int_of (s_caller s)) inventory)) = Inr request"
    using assms unfolding prepare_def
    by (auto split: sum.splits if_splits)
  from check_request_Inr(1) [OF q] have
    e: "request = request_value (s_job_id s) (str_of (s_kind s)) (s_campaign s) (s_selection s)
             (c_digest c config_raw) set_sha (s_created s) whole (int_of (s_caller s)) inventory" by simp
  show "check_request c (PDict request) = Inr request" using q e by simp
  show "\<exists>inventory set_sha kind whole caller. foldM_res (snapshot_step c) ([], []) (sort_key fst (s_sources s)) = Inr (raws, inventory) \<and>
       request = request_value (s_job_id s) kind (s_campaign s) (s_selection s) (c_digest c config_raw) set_sha (s_created s) whole caller inventory"
    using f e by blast
  show "identity (s_campaign s) ''campaign'' = Inr ()" "identity (s_selection s) ''selection'' = Inr ()"
    "canonical c (s_config s) = Inr config_raw" "length config_raw \<le> MAX_JSON" "is_dict (s_config s)"
    using i cr by simp_all
qed


lemma submit_Inr:
  assumes "submit c x s = (x', Inr (name, request))"
  shows "\<exists>config_raw raws sources request_raw. prepare c s = Inr (request, config_raw, raws) \<and> name = s_job_id s
    \<and> map_of x name = None \<and> publish_sources [] raws = Inr sources \<and> canonical c (PDict request) = Inr request_raw
    \<and> x' = dset x name \<lparr>j_members = [(''CONFIG.json'', Regular config_raw), (''REQUEST.json'', Regular request_raw)], j_sources = sources\<rparr>"
proof -
  obtain request' config_raw raws where p: "prepare c s = Inr (request', config_raw, raws)"
    using assms by (auto simp: submit_def split: sum.splits)
  obtain rest where r: "request' = rest" "dget rest ''id'' = PStr (s_job_id s)"
    using prepare_Inr(7) [OF p] by (auto simp: request_value_def dget_def dget_or_def)
  have new: "map_of x (s_job_id s) = None"
    using assms p r by (auto simp: submit_def Let_def str_of_def split: if_splits)
  obtain members where m: "publish [] ''CONFIG.json'' config_raw = Inr members"
    using assms p r new by (auto simp: submit_def Let_def str_of_def split: sum.splits)
  obtain sources where ss: "publish_sources [] raws = Inr sources"
    using assms p r new m by (auto simp: submit_def Let_def str_of_def split: sum.splits)
  obtain members' where m': "publish_value c members ''REQUEST.json'' (PDict request') = Inr members'"
    using assms p r new m ss by (auto simp: submit_def Let_def str_of_def split: sum.splits)
  have out: "name = s_job_id s" "request = request'" "x' = dset x name \<lparr>j_members = members', j_sources = sources\<rparr>"
    using assms p r new m ss m' by (auto simp: submit_def Let_def str_of_def)
  obtain raw where "canonical c (PDict request') = Inr raw" "members' = dset members ''REQUEST.json'' (Regular raw)"
    using publish_value_Inr [OF m'] by blast
  then show ?thesis using p new ss out publish_Inr [OF m] by auto
qed

lemma request_rows_distinct: "rows_distinct (request_value i k ca se co st cr w cl (map (inventory_row c) raws))"
  by (auto simp: rows_distinct_def request_value_def dget_def dget_or_def inventory_row_def)

lemma inventory_checked:
  assumes "distinct (map fst raws)" "list_all (\<lambda>nr. length (snd nr) \<le> MAX_SOURCE) raws"
    "\<And>n. map_of sources n = map_option Regular (map_of raws n)"
  shows "\<exists>us. mapM_res (check_row c sources) (map sort_keys (map (inventory_row c) raws)) = Inr us"
    "keyset sources = row_name ` set (map sort_keys (map (inventory_row c) raws))"
proof -
  have row: "sort_keys (inventory_row c nr) = PDict (sorted_dict [(''name'', PStr (fst nr)), (''sha256'', PStr (c_digest c (snd nr))), (''bytes'', PInt (int (length (snd nr))))])" for nr
    by (simp only: inventory_row_def sort_keys_dict)
  have g: "dget (sorted_dict [(''name'', PStr n), (''sha256'', PStr h), (''bytes'', PInt l)]) ''name'' = PStr n"
    "dget (sorted_dict [(''name'', PStr n), (''sha256'', PStr h), (''bytes'', PInt l)]) ''sha256'' = PStr h"
    "dget (sorted_dict [(''name'', PStr n), (''sha256'', PStr h), (''bytes'', PInt l)]) ''bytes'' = PInt l" for n h l
    by (simp_all add: dget_sorted)
  have name: "row_name (sort_keys (inventory_row c nr)) = fst nr" for nr
    unfolding row by (simp add: row_name_def g str_of_def)
  have "check_row c sources (sort_keys (inventory_row c nr)) = Inr ()" if "nr \<in> set raws" for nr
  proof -
    have "map_of raws (fst nr) = Some (snd nr)" using that assms(1) by simp
    moreover have "length (snd nr) \<le> MAX_SOURCE" using that assms(2) by (simp add: list_all_iff)
    ultimately show ?thesis unfolding row
      by (simp add: check_row_def g str_of_def read_member_def assms(3) require_def)
  qed
  then show "\<exists>us. mapM_res (check_row c sources) (map sort_keys (map (inventory_row c) raws)) = Inr us"
    by (induction raws) (auto split: sum.splits)
  have "keyset sources = keyset raws" by (simp add: keyset_map_of assms(3))
  also have "\<dots> = row_name ` set (map sort_keys (map (inventory_row c) raws))"
    by (simp add: keyset_def name image_comp)
  finally show "keyset sources = row_name ` set (map sort_keys (map (inventory_row c) raws))" .
qed

lemma submit_inspect:
  assumes c: "codec_ok c" and s: "submit c x s = (x', Inr (name, request))" and d: "distinct (map fst (s_sources s))"
    and small: "\<And>raw. canonical c (PDict request) = Inr raw \<Longrightarrow> length raw \<le> MAX_JSON"
  shows "\<exists>j config. map_of x' name = Some j \<and> s_config s = PDict config \<and>
     inspect c name j (s_campaign s) (s_selection s) = Inr (sorted_dict request, sorted_dict config)"
proof -
  obtain config_raw raws sources raw where p: "prepare c s = Inr (request, config_raw, raws)" and n: "name = s_job_id s"
    and ps: "publish_sources [] raws = Inr sources" and raw: "canonical c (PDict request) = Inr raw"
    and x': "x' = dset x name \<lparr>j_members = [(''CONFIG.json'', Regular config_raw), (''REQUEST.json'', Regular raw)], j_sources = sources\<rparr>"
    using submit_Inr [OF s] by blast
  note P = prepare_Inr [OF p]
  obtain inventory set_sha kind whole caller where
    f: "foldM_res (snapshot_step c) ([], map (inventory_row c) []) (sort_key fst (s_sources s)) = Inr (raws, inventory)"
    and q: "request = request_value (s_job_id s) kind (s_campaign s) (s_selection s) (c_digest c config_raw) set_sha (s_created s) whole caller inventory"
    using P(7) by auto
  have inv: "inventory = map (inventory_row c) raws" "map fst raws = map fst (sort_key fst (s_sources s))"
    "list_all (\<lambda>nr. length (snd nr) \<le> MAX_SOURCE) raws"
    using snapshot_inv [OF f] by simp_all
  have dr: "distinct (map fst raws)" unfolding inv(2) using d by (simp add: distinct_map)
  have srcs: "map_of sources n = map_option Regular (map_of raws n)" for n
    using publish_sources_Inr [OF ps dr] by (simp split: option.splits)
  have rd: "rows_distinct request" unfolding q inv(1) by (rule request_rows_distinct)
  have g: "dget (sorted_dict request) k = sort_keys (dget request k)" for k
    using rd by (simp add: dget_sorted rows_distinct_def)
  have fields: "dget request ''id'' = PStr name" "dget request ''campaign_sha256'' = s_campaign s"
    "dget request ''selection_sha256'' = s_selection s" "dget request ''config_sha256'' = PStr (c_digest c config_raw)"
    "dget request ''sources'' = PList (map (inventory_row c) raws)"
    by (simp_all add: q inv(1) n request_value_def dget_def dget_or_def)
  have hex: "\<exists>h. s_campaign s = PStr h" "\<exists>h. s_selection s = PStr h"
    using P(1,2) by (auto simp: identity_def require_def dest: hex_value_str split: if_splits)
  obtain config where cfg: "s_config s = PDict config" using P(5) by (cases "s_config s") simp_all
  note dec = canonical_decode [OF c raw] canonical_decode [OF c P(3)]
  note ok = check_request_sorted [OF P(6) rd]
  obtain us where rows: "mapM_res (check_row c sources) (map sort_keys (map (inventory_row c) raws)) = Inr us"
    "keyset sources = row_name ` set (map sort_keys (map (inventory_row c) raws))"
    using inventory_checked [OF dr inv(3) srcs] by blast
  let ?j = "\<lparr>j_members = [(''CONFIG.json'', Regular config_raw), (''REQUEST.json'', Regular raw)], j_sources = sources\<rparr>"
  have "inspect c name ?j (s_campaign s) (s_selection s) = Inr (sorted_dict request, sorted_dict config)"
    using dec ok rows small [OF raw] P(4) hex
    by (auto simp: inspect_def read_member_def cfg sort_keys_dict g fields simp del: sort_keys.simps(2) map_map)
  moreover have "map_of x' name = Some ?j" by (simp add: x')
  ultimately show ?thesis using cfg by blast
qed

section \<open>Lemmas: claims and results\<close>

lemma claim_Inr:
  assumes "claim c name j rs separate campaign selection controller current reread later = (rs', Inr (request, config, reply))"
  shows "inspect c name j campaign selection = Inr (request, config)" "reply = name" "map_of rs name = None"
    "int_of (dget request ''created_unix_ms'') \<le> current"
    "current + (int_of (dget request ''caller_seconds'') + int_of (dget request ''post_release_seconds'')) * 1000
       \<le> int_of (dget request ''expires_unix_ms'')"
    "map_of (j_members j) ''CANCELLED.json'' = None"
    "\<exists>raw. rs' = dset rs name [(''CLAIM.json'', Regular raw)]"
proof -
  obtain request' config' where i: "inspect c name j campaign selection = Inr (request', config')"
    using assms by (auto simp: claim_def split: if_splits sum.splits)
  have id: "dget request' ''id'' = PStr name" by (rule inspect_Inr(3) [OF i])
  have eq: "request = request'" "config = config'"
    using assms i by (auto simp: claim_def Let_def split: if_splits sum.splits)
  then show "inspect c name j campaign selection = Inr (request, config)" using i by simp
  show "reply = name" "map_of rs name = None" "int_of (dget request ''created_unix_ms'') \<le> current"
    "current + (int_of (dget request ''caller_seconds'') + int_of (dget request ''post_release_seconds'')) * 1000
       \<le> int_of (dget request ''expires_unix_ms'')" "map_of (j_members j) ''CANCELLED.json'' = None"
    using assms i id eq by (auto simp: claim_def Let_def str_of_def split: if_splits sum.splits)
  show "\<exists>raw. rs' = dset rs name [(''CLAIM.json'', Regular raw)]"
    using assms i id by (auto simp: claim_def Let_def str_of_def dest!: publish_value_Inr split: if_splits sum.splits)
qed

lemma same_items_True: "same_items result request ks = Inr True \<longleftrightarrow>
    (\<forall>k \<in> set ks. map_of request k \<noteq> None \<and> py_eq (dget result k) (dget request k))"
  by (induction ks) (auto simp: item_def split: option.splits)

lemma validate_result_Inr:
  assumes "validate_result c v request controller = Inr result"
  shows "v = PDict result" "\<And>k. k \<in> set RESULT_KEYS \<Longrightarrow> py_eq (dget result k) (dget request k)"
    "\<exists>h. digest_of c (PDict request) = Inr h \<and> dget result ''request_sha256'' = PStr h"
    "py_eq (dget result ''controller_sha256'') controller"
    "dget result ''status'' = PStr ''SUCCEEDED'' \<Longrightarrow>
       hex_value 64 (dget result ''owner_seal_sha256'') \<and> dget result ''independent_release'' = PBool True"
    "dget result ''automatic_retry'' = PBool False" "dget result ''adoption_authorized'' = PBool False"
proof -
  obtain r where v: "v = PDict r" using assms by (cases v) (simp_all add: validate_result_def)
  have a: "dget r ''schema'' = PInt 1" "same_items r request RESULT_KEYS = Inr True"
    using assms v by (auto simp: validate_result_def split: if_splits sum.splits)
  obtain h where h: "digest_of c (PDict request) = Inr h" "dget r ''request_sha256'' = PStr h"
    "py_eq (dget r ''controller_sha256'') controller"
    using assms v a by (auto simp: validate_result_def split: if_splits sum.splits)
  have b: "str_in (dget r ''status'') STATUSES = Inr True" "dget r ''automatic_retry'' = PBool False"
    "dget r ''adoption_authorized'' = PBool False" "is_dict (dget r ''payload'')" "r = result"
    using assms v a h by (auto simp: validate_result_def simp del: str_in_True split: if_splits sum.splits)
  show "v = PDict result" "py_eq (dget result ''controller_sha256'') controller"
    "dget result ''automatic_retry'' = PBool False" "dget result ''adoption_authorized'' = PBool False"
    "\<exists>h. digest_of c (PDict request) = Inr h \<and> dget result ''request_sha256'' = PStr h"
    using v h b by simp_all
  show "py_eq (dget result k) (dget request k)" if "k \<in> set RESULT_KEYS" for k
    using a(2) that b(5) by (simp add: same_items_True)
  show "hex_value 64 (dget result ''owner_seal_sha256'') \<and> dget result ''independent_release'' = PBool True"
    if "dget result ''status'' = PStr ''SUCCEEDED''"
    using assms v a h b that
    by (auto simp: validate_result_def identity_def require_def str_in_def STATUSES_def split: if_splits sum.splits)
qed


lemma result_value_distinct: "distinct (map fst (result_value st request h k seal rel payload))"
  by (simp add: result_value_def)

text \<open>A published result is what its reader accepts.\<close>

lemma publish_result_read:
  assumes c: "codec_ok c" and p: "publish_result c reply members request status payload seal release = Inr (members', result)"
    and q: "check_request c (PDict request) = Inr request" and k: "dget result ''controller_sha256'' = PStr k"
  shows "read_result c reply members' request (PStr k) = Inr (sorted_dict result)"
proof -
  have keys: "hex_value 64 (dget request ''campaign_sha256'')" "hex_value 64 (dget request ''config_sha256'')"
    "hex_value 64 (dget request ''source_set_sha256'')" "hex_value 32 (dget request ''id'')"
    using check_request_Inr(5) [OF q] check_request_Inr(4) [OF q] by (simp_all add: IDENTITIES_def)
  obtain st job_id where st: "status = PStr st" "st \<in> set STATUSES" "is_dict payload" and
    id: "map_of request ''id'' = Some job_id" "py_eq (PStr reply) job_id"
    using p by (auto simp: publish_result_def item_def simp del: py_eq.simps split: if_splits sum.splits option.splits)
  obtain claim_raw crec where cl: "read_member (map_of members ''CLAIM.json'') MAX_JSON = Inr claim_raw"
    "c_decode c claim_raw = Inr (PDict crec)"
    using p st id by (auto simp: publish_result_def str_in_def item_def split: if_splits sum.splits pyv.splits)
  obtain h where h: "digest_of c (PDict request) = Inr h"
    using p st id cl by (auto simp: publish_result_def str_in_def item_def split: if_splits sum.splits)
  obtain us where us: "mapM_res (item request) [''campaign_sha256'', ''config_sha256'', ''source_set_sha256''] = Inr us"
    using p st id cl h unfolding publish_result_def by (auto simp: str_in_def item_def split: if_splits sum.splits)
  have seal: "st = ''SUCCEEDED'' \<longrightarrow> hex_value 64 seal \<and> release = PBool True"
    using p st id cl h unfolding publish_result_def
    by (auto simp: str_in_def item_def identity_def require_def split: if_splits sum.splits)
  obtain controller where res: "result = result_value st request h controller seal release payload"
    "publish_value c members ''RESULT.json'' (PDict result) = Inr members'"
    using p st id cl h us unfolding publish_result_def
    by (auto simp: str_in_def item_def str_of_def Let_def split: if_splits sum.splits option.splits)
  have ctrl: "controller = PStr k" using k by (simp add: res(1) result_value_def)
  obtain raw where raw: "canonical c (PDict result) = Inr raw" "members' = dset members ''RESULT.json'' (Regular raw)"
    "length raw \<le> MAX_RESULT"
    using publish_value_Inr [OF res(2)] by blast
  have g: "dget (sorted_dict result) key = sort_keys (dget result key)" for key
    unfolding res(1) by (rule dget_sorted [OF result_value_distinct])
  have f: "dget result ''schema'' = PInt 1" "dget result ''id'' = dget request ''id''" "dget result ''status'' = PStr st"
    "dget result ''request_sha256'' = PStr h" "dget result ''campaign_sha256'' = dget request ''campaign_sha256''"
    "dget result ''config_sha256'' = dget request ''config_sha256''"
    "dget result ''source_set_sha256'' = dget request ''source_set_sha256''" "dget result ''owner_seal_sha256'' = seal"
    "dget result ''independent_release'' = release" "dget result ''adoption_authorized'' = PBool False"
    "dget result ''automatic_retry'' = PBool False" "dget result ''payload'' = payload"
    by (simp_all add: res(1) result_value_def)
  obtain s1 s2 s3 s4 where strs: "dget request ''id'' = PStr s1" "dget request ''campaign_sha256'' = PStr s2"
    "dget request ''config_sha256'' = PStr s3" "dget request ''source_set_sha256'' = PStr s4"
    using keys by (meson hex_value_str)
  have us4: "\<forall>key \<in> set RESULT_KEYS. map_of request key \<noteq> None"
    using us id(1) by (auto simp: RESULT_KEYS_def item_def split: sum.splits option.splits)
  have "validate_result c (PDict (sorted_dict result)) request (PStr k) = Inr (sorted_dict result)"
  proof -
    have all: "same_items (sorted_dict result) request RESULT_KEYS = Inr True"
      using us4 unfolding same_items_True by (simp add: RESULT_KEYS_def g f strs)
    show ?thesis using h st(2,3) seal k all
      by (auto simp: validate_result_def g f str_in_def identity_def require_def)
  qed
  then show ?thesis using id canonical_decode [OF c raw(1)] raw(3)
    by (simp add: read_result_def item_def raw(2) read_member_def sort_keys_dict del: sort_keys.simps(2))
qed

text \<open>The record of a failed wait is what is there already, or names the request, its digest and the exception.\<close>

definition recorded :: "codec \<Rightarrow> pydict \<Rightarrow> exn \<Rightarrow> members \<Rightarrow> members \<Rightarrow> bool" where
  "recorded c request e members members' =
     (if map_of members ''CANCELLED.json'' \<noteq> None then members' = members
      else (\<exists>h raw. digest_of c (PDict request) = Inr h \<and> canonical c (PDict (cancel_value request h e)) = Inr raw
              \<and> members' = dset members ''CANCELLED.json'' (Regular raw)))"

text \<open>What the record needs: the request has an identity and can be dumped, and so can the record, within the cap.\<close>

definition recordable :: "codec \<Rightarrow> pydict \<Rightarrow> bool" where
  "recordable c request = (map_of request ''id'' \<noteq> None \<and> (\<exists>h. digest_of c (PDict request) = Inr h)
     \<and> (\<forall>h e. \<exists>raw. canonical c (PDict (cancel_value request h e)) = Inr raw \<and> length raw \<le> MAX_RESULT))"

lemma cancel_wait_recorded:
  assumes "recordable c request"
  obtains members' where "cancel_wait c members request e = Inr members'" and "recorded c request e members members'"
proof (cases "map_of members ''CANCELLED.json'' = None")
  case True
  obtain h i where h: "digest_of c (PDict request) = Inr h" "map_of request ''id'' = Some i"
    using assms by (auto simp: recordable_def)
  obtain raw where "canonical c (PDict (cancel_value request h e)) = Inr raw" "length raw \<le> MAX_RESULT"
    using assms by (auto simp: recordable_def)
  then show ?thesis
    by (intro that [of "dset members ''CANCELLED.json'' (Regular raw)"])
      (simp_all add: cancel_wait_def recorded_def item_def publish_value_def publish_def True h)
next
  case False
  then show ?thesis by (intro that [of members]) (simp_all add: cancel_wait_def recorded_def)
qed

lemma wait_loop_Inr:
  "wait_loop c reply request controller end_time ps = Some (Inr result) \<Longrightarrow>
     \<exists>now members park. Poll now members park \<in> set ps \<and> flt_lt now end_time \<and> read_result c reply members request controller = Inr result"
  by (induction c reply request controller end_time ps rule: wait_loop.induct)
     (auto split: if_splits sum.splits)


section \<open>A small exchange, for the witnesses\<close>

definition zeros :: "nat \<Rightarrow> string" where
  "zeros n = replicate n (CHR ''0'')"

lemma hex_zeros: "hex_string n (zeros n)"
  by (simp add: hex_string_def zeros_def list_all_iff is_hex_def)

definition demo_row :: pyv where
  "demo_row = PDict [(''name'', PStr ''k.py''), (''sha256'', PStr (zeros 64)), (''bytes'', PInt 1)]"

definition demo_request :: pydict where
  "demo_request = request_value (zeros 32) ''component'' (PStr (zeros 64)) (PStr (zeros 64)) (zeros 64) (zeros 64) 1 730 10 [demo_row]"

definition demo_result :: pydict where
  "demo_result = result_value ''SUCCEEDED'' demo_request (zeros 64) (PStr (zeros 64)) (PStr (zeros 64)) (PBool True) (PDict [])"

definition demo_claim :: pydict where
  "demo_claim = claim_value \<lparr>c_dumps = Inr \<circ> (\<lambda>_. []), c_decode = \<lambda>_. Inl JSONDecodeError, c_digest = (\<lambda>_. zeros 64)\<rparr>
     demo_request [] (PStr (zeros 64)) 5"

definition table_codec :: "pyv \<Rightarrow> pyv \<Rightarrow> pyv \<Rightarrow> pyv \<Rightarrow> codec" where
  "table_codec q r s k =
     \<lparr>c_dumps = (\<lambda>v. if v = PDict [] then Inr ''c'' else if v = q then Inr ''q'' else if v = r then Inr ''r''
                   else if v = s then Inr ''s'' else if v = k then Inr ''k'' else Inl (ValueError [])),
      c_decode = (\<lambda>t. case t of x # _ \<Rightarrow>
                     if x = CHR ''c'' then Inr (PDict []) else if x = CHR ''q'' then Inr q else if x = CHR ''r'' then Inr r
                     else if x = CHR ''s'' then Inr s else if x = CHR ''k'' then Inr k else Inl JSONDecodeError
                   | [] \<Rightarrow> Inl JSONDecodeError),
      c_digest = (\<lambda>_. zeros 64)\<rparr>"

lemma table_codec_ok: "codec_ok (table_codec q r s k)"
  unfolding codec_ok_def
proof (intro allI impI)
  fix v t
  assume "c_dumps (table_codec q r s k) v = Inr t"
  then consider "v = PDict []" "t = ''c''" | "v = q" "t = ''q''" | "v = r" "t = ''r''" | "v = s" "t = ''s''" | "v = k" "t = ''k''"
    unfolding table_codec_def codec.simps by (metis Inl_Inr_False Inr_inject)
  then show "c_decode (table_codec q r s k) (t @ [CHR 0x0A]) = Inr v"
    by cases (simp_all add: table_codec_def)
qed

definition demo_codec :: codec where
  "demo_codec = table_codec (sort_keys (PDict demo_request)) (sort_keys (PDict demo_result))
     (sort_keys (PList [demo_row])) (sort_keys (PDict demo_claim))"

lemma demo_codec_ok: "codec_ok demo_codec"
  unfolding demo_codec_def by (rule table_codec_ok)

lemma sort_keys_length: "sort_keys (PDict d) = PDict e \<Longrightarrow> length e = length d"
  by auto

lemma sort_keys_differ: "length d \<noteq> length e \<Longrightarrow> sort_keys (PDict d) \<noteq> sort_keys (PDict e)"
proof
  assume "length d \<noteq> length e" and "sort_keys (PDict d) = sort_keys (PDict e)"
  then have "sorted_dict d = sorted_dict e" by (simp add: sorted_dict_def)
  from arg_cong [OF this, of length] have "length d = length e" by (simp add: sorted_dict_def)
  with \<open>length d \<noteq> length e\<close> show False by simp
qed

lemma demo_lengths: "length demo_request = 14" "length demo_result = 13" "length demo_claim = 6"
  by (simp_all add: demo_request_def request_value_def demo_result_def result_value_def demo_claim_def claim_value_def)

lemma demo_values_differ:
  "sort_keys (PDict demo_request) \<noteq> PDict []" "sort_keys (PDict demo_result) \<noteq> PDict []" "sort_keys (PDict demo_claim) \<noteq> PDict []"
  "sort_keys (PDict demo_result) \<noteq> sort_keys (PDict demo_request)"
  "sort_keys (PDict demo_claim) \<noteq> sort_keys (PDict demo_request)" "sort_keys (PDict demo_claim) \<noteq> sort_keys (PDict demo_result)"
  "sort_keys (PList [demo_row]) \<noteq> PDict []" "sort_keys (PList [demo_row]) \<noteq> sort_keys (PDict demo_request)"
  "sort_keys (PList [demo_row]) \<noteq> sort_keys (PDict demo_result)" "sort_keys (PDict demo_claim) \<noteq> sort_keys (PList [demo_row])"
proof -
  show "sort_keys (PDict demo_request) \<noteq> PDict []" "sort_keys (PDict demo_result) \<noteq> PDict []" "sort_keys (PDict demo_claim) \<noteq> PDict []"
    using sort_keys_length [of demo_request "[]"] sort_keys_length [of demo_result "[]"] sort_keys_length [of demo_claim "[]"]
      demo_lengths by (metis list.size(3) zero_neq_numeral)+
  show "sort_keys (PDict demo_result) \<noteq> sort_keys (PDict demo_request)"
    "sort_keys (PDict demo_claim) \<noteq> sort_keys (PDict demo_request)" "sort_keys (PDict demo_claim) \<noteq> sort_keys (PDict demo_result)"
    by (rule sort_keys_differ, simp add: demo_lengths)+
qed simp_all

lemma demo_canonical:
  "canonical demo_codec (PDict []) = Inr [CHR ''c'', CHR 0x0A]"
  "canonical demo_codec (PDict demo_request) = Inr [CHR ''q'', CHR 0x0A]"
  "canonical demo_codec (PDict demo_result) = Inr [CHR ''r'', CHR 0x0A]"
  "canonical demo_codec (PList [demo_row]) = Inr [CHR ''s'', CHR 0x0A]"
  "canonical demo_codec (PDict demo_claim) = Inr [CHR ''k'', CHR 0x0A]"
proof -
  have "sort_keys (PDict []) = PDict []" by simp
  then show "canonical demo_codec (PDict []) = Inr [CHR ''c'', CHR 0x0A]"
    by (simp add: canonical_def demo_codec_def table_codec_def del: sort_keys.simps)
qed (simp_all add: canonical_def demo_codec_def table_codec_def demo_values_differ del: sort_keys.simps)

lemma demo_digest: "c_digest demo_codec s = zeros 64"
  by (simp add: demo_codec_def table_codec_def)

lemma demo_request_ok: "check_request demo_codec (PDict demo_request) = Inr demo_request"
proof -
  have f: "dget demo_request ''sources'' = PList [demo_row]" "dget demo_request ''source_set_sha256'' = PStr (zeros 64)"
    by (simp_all add: demo_request_def request_value_def)
  have "source_step ([], 0) demo_row = Inr ([''k.py''], 1)"
    by (simp add: demo_row_def is_alnum_def is_digit_def is_lower_def source_step_def
        identity_def hex_value_def hex_zeros simple_name_def pos_int_def int_of_def str_of_def require_def MAX_SOURCE_def)
  then have s: "check_sources demo_codec demo_request = Inr ()"
    by (simp add: check_sources_def f digest_of_def demo_canonical demo_digest require_def MAX_SOURCE_TOTAL_def)
  show ?thesis
    using s by (simp add: check_request_def demo_request_def request_value_def str_in_def KINDS_def hex_value_def hex_zeros
        IDENTITIES_def identity_def require_def check_clock_def CLOCKS_def pos_int_def int_of_def str_of_def
        envelope_seconds_def admission_seconds_def post_release_def POST_RELEASE_SECONDS_def)
qed

definition demo_submission :: submission where
  "demo_submission = \<lparr>s_campaign = PStr (zeros 64), s_selection = PStr (zeros 64), s_kind = PStr ''component'', s_config = PDict [],
     s_sources = [(''k.py'', Some (Regular ''x''))], s_caller = PInt 10, s_deadline = PInt 1000000, s_created = 1,
     s_job_id = zeros 32, s_expected = None\<rparr>"

lemma demo_prepare: "prepare demo_codec demo_submission = Inr (demo_request, [CHR ''c'', CHR 0x0A], [(''k.py'', ''x'')])"
proof -
  have snap: "snapshot_step demo_codec ([], []) (''k.py'', Some (Regular ''x'')) = Inr ([(''k.py'', ''x'')], [demo_row])"
    by (simp add: snapshot_step_def simple_name_def is_alnum_def is_digit_def is_lower_def read_member_def MAX_SOURCE_def demo_digest demo_row_def)
  have env: "envelope_seconds (PStr ''component'') (PInt 10) = Inr 730"
    by (simp add: envelope_seconds_def str_in_def KINDS_def pos_int_def int_of_def str_of_def admission_seconds_def
        post_release_def POST_RELEASE_SECONDS_def)
  have q: "request_value (zeros 32) ''component'' (PStr (zeros 64)) (PStr (zeros 64)) (zeros 64) (zeros 64) 1 730 10 [demo_row] = demo_request"
    by (simp add: demo_request_def)
  show ?thesis
    by (simp add: prepare_def demo_submission_def identity_def require_def hex_value_def hex_zeros pos_int_def int_of_def env
        demo_canonical MAX_JSON_def snap digest_of_def demo_digest str_of_def q demo_request_ok)
qed

section \<open>Properties\<close>

text \<open>C5.  A submitted job is authenticated by the other side: with a JSON codec that decodes what it
  dumps, the job directory made by \<open>submit\<close> passes \<open>inspect\<close> for the same campaign and
  selection, and gives back the request and the configuration (with sorted keys).\<close>

theorem submitted_job_inspects:
  assumes "codec_ok c" "submit c x s = (x', Inr (name, request))" "distinct (map fst (s_sources s))"
    and "case canonical c (PDict request) of Inl _ \<Rightarrow> True | Inr raw \<Rightarrow> length raw \<le> MAX_JSON"
  shows "\<exists>j config. map_of x' name = Some j \<and> s_config s = PDict config \<and>
     inspect c name j (s_campaign s) (s_selection s) = Inr (sorted_dict request, sorted_dict config)"
  by (rule submit_inspect [OF assms(1-3)]) (use assms(4) in simp)

lemma demo_submit: "\<exists>x' name. submit demo_codec [] demo_submission = (x', Inr (name, demo_request))"
  by (simp add: submit_def demo_prepare publish_def publish_sources_def publish_value_def demo_canonical MAX_RESULT_def Let_def)

theorem submitted_job_inspects_witness:
  "\<exists>x' name j. submit demo_codec [] demo_submission = (x', Inr (name, demo_request)) \<and> map_of x' name = Some j
    \<and> inspect demo_codec name j (PStr (zeros 64)) (PStr (zeros 64)) = Inr (sorted_dict demo_request, [])"
proof -
  obtain x' name where s: "submit demo_codec [] demo_submission = (x', Inr (name, demo_request))" using demo_submit by blast
  have "\<exists>j config. map_of x' name = Some j \<and> s_config demo_submission = PDict config \<and>
     inspect demo_codec name j (s_campaign demo_submission) (s_selection demo_submission) = Inr (sorted_dict demo_request, sorted_dict config)"
    by (rule submitted_job_inspects [OF demo_codec_ok s]) (simp_all add: demo_submission_def demo_canonical MAX_JSON_def)
  then show ?thesis using s by (simp add: demo_submission_def sorted_dict_def)
qed

text \<open>C9.  What \<open>publish_result\<close> publishes for a checked request, \<open>read_result\<close> accepts for that
  request and the controller that claimed it.\<close>

theorem published_result_reads_back:
  assumes "codec_ok c" "publish_result c reply members request status payload seal release = Inr (members', result)"
    and "check_request c (PDict request) = Inr request" "dget result ''controller_sha256'' = PStr k"
  shows "read_result c reply members' request (PStr k) = Inr (sorted_dict result)"
  using assms by (rule publish_result_read)

lemma demo_publish: "publish_result demo_codec (zeros 32) [(''CLAIM.json'', Regular [CHR ''k'', CHR 0x0A])] demo_request
    (PStr ''SUCCEEDED'') (PDict []) (PStr (zeros 64)) (PBool True)
  = Inr ([(''CLAIM.json'', Regular [CHR ''k'', CHR 0x0A]), (''RESULT.json'', Regular [CHR ''r'', CHR 0x0A])], demo_result)"
proof -
  have dec: "c_decode demo_codec [CHR ''k'', CHR 0x0A] = Inr (PDict (sorted_dict demo_claim))"
    by (simp add: demo_codec_def table_codec_def sort_keys_dict del: sort_keys.simps)
  have g: "dget (sorted_dict demo_claim) key = sort_keys (dget demo_claim key)" for key
    by (rule dget_sorted) (simp add: demo_claim_def claim_value_def)
  have cl: "dget demo_claim ''id'' = PStr (zeros 32)" "dget demo_claim ''request_sha256'' = PStr (zeros 64)"
    "dget demo_claim ''controller_sha256'' = PStr (zeros 64)"
    by (simp_all add: demo_claim_def claim_value_def demo_request_def request_value_def)
  have "map_of (sorted_dict demo_claim) ''controller_sha256'' \<noteq> None"
  proof
    assume "map_of (sorted_dict demo_claim) ''controller_sha256'' = None"
    then have "dget (sorted_dict demo_claim) ''controller_sha256'' = PNone" by (simp add: dget_def dget_or_def)
    then show False by (simp add: g cl)
  qed
  then have ctrl: "map_of (sorted_dict demo_claim) ''controller_sha256'' = Some (PStr (zeros 64))"
    using g [of "''controller_sha256''"] cl(3) by (auto simp: dget_def dget_or_def split: option.splits)
  have q: "map_of demo_request ''id'' = Some (PStr (zeros 32))" "map_of demo_request ''campaign_sha256'' = Some (PStr (zeros 64))"
    "map_of demo_request ''config_sha256'' = Some (PStr (zeros 64))" "map_of demo_request ''source_set_sha256'' = Some (PStr (zeros 64))"
    by (simp_all add: demo_request_def request_value_def)
  have r: "result_value ''SUCCEEDED'' demo_request (zeros 64) (PStr (zeros 64)) (PStr (zeros 64)) (PBool True) (PDict []) = demo_result"
    by (simp add: demo_result_def)
  show ?thesis
    by (simp add: publish_result_def str_in_def STATUSES_def item_def q read_member_def MAX_JSON_def dec g cl digest_of_def demo_canonical
        demo_digest identity_def require_def hex_value_def hex_zeros ctrl str_of_def r publish_value_def publish_def MAX_RESULT_def Let_def)
qed

theorem published_result_reads_back_witness:
  "read_result demo_codec (zeros 32) [(''CLAIM.json'', Regular [CHR ''k'', CHR 0x0A]), (''RESULT.json'', Regular [CHR ''r'', CHR 0x0A])]
     demo_request (PStr (zeros 64)) = Inr (sorted_dict demo_result)"
  by (rule published_result_reads_back [OF demo_codec_ok demo_publish demo_request_ok]) (simp add: demo_result_def result_value_def)


text \<open>C8.  A job is claimed at most once and only inside its admission window: a successful claim of a
  checked request happens between its creation and the admission seconds of its kind after it,
  was not preceded by a claim of the same name or a cancellation, and after it no claim of that
  name into the same replies succeeds.\<close>

theorem claim_once_in_admission_window:
  assumes "claim c name j rs separate campaign selection controller current reread later = (rs', Inr (request, config, reply))"
  shows "int_of (dget request ''created_unix_ms'') \<le> current
    \<and> current \<le> int_of (dget request ''created_unix_ms'') + admission_seconds (str_of (dget request ''kind'')) * 1000
    \<and> map_of rs name = None \<and> map_of (j_members j) ''CANCELLED.json'' = None
    \<and> \<not> (\<exists>rs'' r. claim c name j2 rs' sep2 campaign2 selection2 controller2 current2 reread2 later2 = (rs'', Inr r))"
proof -
  note C = claim_Inr [OF assms]
  have q: "check_request c (PDict request) = Inr request" by (rule inspect_Inr(2) [OF C(1)])
  obtain k where k: "k \<in> set KINDS" "dget request ''kind'' = PStr k" using check_request_Inr(3) [OF q] by blast
  have cl: "check_clock request k = Inr ()" using check_request_Inr(6) [OF q] k(2) by (simp add: str_of_def)
  note T = check_clock_Inr [OF cl k(1)]
  have "current \<le> int_of (dget request ''created_unix_ms'') + admission_seconds k * 1000"
    using C(5) T(1) T(2) by (simp add: int_of_def algebra_simps)
  moreover have "\<not> (\<exists>rs'' r. claim c name j2 rs' sep2 campaign2 selection2 controller2 current2 reread2 later2 = (rs'', Inr r))"
  proof
    assume "\<exists>rs'' r. claim c name j2 rs' sep2 campaign2 selection2 controller2 current2 reread2 later2 = (rs'', Inr r)"
    then obtain rs'' r1 r2 r3 where "claim c name j2 rs' sep2 campaign2 selection2 controller2 current2 reread2 later2 = (rs'', Inr (r1, r2, r3))"
      by (metis prod_cases3)
    from claim_Inr(3) [OF this] C(7) show False by auto
  qed
  ultimately show ?thesis using C(3,4,6) k(2) by (simp add: str_of_def)
qed

definition demo_job :: job where
  "demo_job = \<lparr>j_members = [(''CONFIG.json'', Regular [CHR ''c'', CHR 0x0A]), (''REQUEST.json'', Regular [CHR ''q'', CHR 0x0A])],
     j_sources = [(''k.py'', Regular ''x'')]\<rparr>"

lemma demo_inspect: "inspect demo_codec (zeros 32) demo_job (PStr (zeros 64)) (PStr (zeros 64)) = Inr (sorted_dict demo_request, [])"
proof -
  obtain x' name where s: "submit demo_codec [] demo_submission = (x', Inr (name, demo_request))" using demo_submit by blast
  have i: "s_job_id demo_submission = zeros 32" by (simp add: demo_submission_def)
  from submit_Inr [OF s] have x: "x' = [(zeros 32, demo_job)]" "name = zeros 32"
    by (auto simp: demo_prepare demo_canonical i demo_job_def publish_sources_def publish_def MAX_RESULT_def)
  have "\<exists>j config. map_of x' name = Some j \<and> s_config demo_submission = PDict config \<and>
     inspect demo_codec name j (s_campaign demo_submission) (s_selection demo_submission) = Inr (sorted_dict demo_request, sorted_dict config)"
    by (rule submit_inspect [OF demo_codec_ok s]) (simp_all add: demo_submission_def demo_canonical MAX_JSON_def)
  then show ?thesis by (simp add: x demo_submission_def sorted_dict_def)
qed

lemma demo_claim_runs: "\<exists>rs' r. claim demo_codec (zeros 32) demo_job [] True (PStr (zeros 64)) (PStr (zeros 64)) (PStr (zeros 64)) 5 (Some (Regular [CHR ''q'', CHR 0x0A])) False = (rs', Inr r)"
proof -
  let ?r = "sorted_dict demo_request"
  have "rows_distinct demo_request" unfolding demo_request_def using request_rows_distinct [of _ _ _ _ _ _ _ _ _ demo_codec "[(''k.py'', ''x'')]"]
    by (simp add: inventory_row_def demo_digest demo_row_def)
  then have g: "dget ?r key = sort_keys (dget demo_request key)" for key by (simp add: dget_sorted rows_distinct_def)
  have f: "dget demo_request ''id'' = PStr (zeros 32)" "dget demo_request ''created_unix_ms'' = PInt 1"
    "dget demo_request ''caller_seconds'' = PInt 10" "dget demo_request ''post_release_seconds'' = PInt 120"
    "dget demo_request ''expires_unix_ms'' = PInt 730001"
    by (simp_all add: demo_request_def request_value_def post_release_def POST_RELEASE_SECONDS_def)
  have cv: "claim_value demo_codec ?r [CHR ''q'', CHR 0x0A] (PStr (zeros 64)) 5 = demo_claim"
    by (simp add: claim_value_def demo_claim_def g f demo_digest)
  show ?thesis
    by (simp add: claim_def demo_inspect identity_def require_def hex_value_def hex_zeros g f int_of_def str_of_def
        demo_job_def read_member_def MAX_JSON_def cv publish_value_def demo_canonical publish_def MAX_RESULT_def Let_def)
       (simp add: demo_inspect [unfolded demo_job_def] identity_def require_def hex_value_def hex_zeros g f int_of_def str_of_def
        read_member_def MAX_JSON_def cv publish_value_def demo_canonical publish_def MAX_RESULT_def Let_def)
qed

theorem claim_once_in_admission_window_witness:
  "\<exists>rs'. \<not> (\<exists>rs'' r. claim demo_codec (zeros 32) demo_job rs' True (PStr (zeros 64)) (PStr (zeros 64)) (PStr (zeros 64)) 6 None False = (rs'', Inr r))"
proof -
  obtain rs' r1 r2 r3 where "claim demo_codec (zeros 32) demo_job [] True (PStr (zeros 64)) (PStr (zeros 64)) (PStr (zeros 64)) 5 (Some (Regular [CHR ''q'', CHR 0x0A])) False = (rs', Inr (r1, r2, r3))"
    using demo_claim_runs by (metis prod_cases3)
  from claim_once_in_admission_window [OF this] show ?thesis by blast
qed

text \<open>C18.  A result that is accepted belongs to this request and controller: its identities, the digest of
  the whole request and the controller agree, it neither retries nor adopts, and a success carries
  an owner seal and an independent release.\<close>

theorem accepted_result_is_bound:
  assumes "read_result c reply members request controller = Inr result"
  shows "(\<forall>k \<in> set RESULT_KEYS. py_eq (dget result k) (dget request k))
    \<and> (\<exists>h. digest_of c (PDict request) = Inr h \<and> dget result ''request_sha256'' = PStr h)
    \<and> py_eq (dget result ''controller_sha256'') controller
    \<and> dget result ''automatic_retry'' = PBool False \<and> dget result ''adoption_authorized'' = PBool False
    \<and> (dget result ''status'' = PStr ''SUCCEEDED'' \<longrightarrow>
        hex_value 64 (dget result ''owner_seal_sha256'') \<and> dget result ''independent_release'' = PBool True)"
proof -
  obtain v where "validate_result c v request controller = Inr result"
    using assms by (auto simp: read_result_def split: sum.splits if_splits)
  from validate_result_Inr [OF this] show ?thesis by blast
qed

theorem accepted_result_is_bound_witness: "hex_value 64 (dget (sorted_dict demo_result) ''owner_seal_sha256'')"
proof -
  have d: "distinct (map fst demo_result)" by (simp add: demo_result_def result_value_def)
  have "dget (sorted_dict demo_result) ''status'' = PStr ''SUCCEEDED''"
    by (simp add: dget_sorted [OF d]) (simp add: demo_result_def result_value_def)
  then show ?thesis
    using accepted_result_is_bound [OF publish_result_read [OF demo_codec_ok demo_publish demo_request_ok, of "zeros 64"]]
    by (simp add: demo_result_def result_value_def)
qed


text \<open>A wait that starts after the request has expired: its end is its beginning.\<close>

definition quiet_codec :: codec where
  "quiet_codec = \<lparr>c_dumps = (\<lambda>_. Inr []), c_decode = (\<lambda>_. Inr PNone), c_digest = (\<lambda>_. zeros 64)\<rparr>"

definition late_start :: wait_start where
  "late_start = \<lparr>ws_directories = Inr (), ws_separate = True, ws_now = Fin 1000, ws_monotonic = Fin 5\<rparr>"

lemma late_state: "wait_state demo_request late_start = Inr (Fin 5)"
proof -
  have big: "(2::rat) ^ 20 \<le> 2 ^ 1023" by (rule power_increasing) simp_all
  have neg: "rnd (- 269999 / 1000) \<le> 0"
    using binary64.fl_nonneg [of "269999 / 1000"] rnd_neg [of "269999 / 1000"] by simp
  have "to_float (- 269999 / 1000) = Fin (rnd (- 269999 / 1000))"
    using big by (intro to_float_small) simp
  moreover have "to_float (- 269999) = Fin (- 269999)" using to_float_exact [of "- 269999" "- 269999"] by simp
  moreover have "to_float 1000000 = Fin 1000000" using to_float_exact [of 1000000 1000000] by simp
  moreover have "to_float 5 = Fin 5" using to_float_exact [of 5 5] by simp
  moreover have "envelope_seconds (PStr ''component'') (PInt 10) = Inr 730"
    by (simp add: envelope_seconds_def str_in_def KINDS_def pos_int_def int_of_def str_of_def admission_seconds_def
        post_release_def POST_RELEASE_SECONDS_def)
  ultimately show ?thesis
    using neg
    by (simp add: wait_state_def wait_end_def late_start_def demo_request_def request_value_def item_def Let_def
        py_sub_def py_arith_def py_truediv_def py_lt_def flt_sub_Fin)
qed

lemma quiet_recordable: "recordable quiet_codec demo_request"
proof -
  have "canonical quiet_codec v = Inr [CHR 0x0A]" for v
    by (simp add: canonical_def quiet_codec_def)
  moreover have "map_of demo_request ''id'' = Some (PStr (zeros 32))"
    by (simp add: demo_request_def request_value_def)
  ultimately show ?thesis
    by (simp add: recordable_def digest_of_def MAX_RESULT_def)
qed


end
