(* ===== verification/Latency.thy ===== *)
theory Latency
  imports Py_Ops "HOL-Library.List_Lexorder" "HOL-Library.Char_ord"
begin

text \<open>
  \<open>lib/workstation/hyperloom_latency.py\<close>: the balanced one/two-request latency comparison.
  A measurement record is a JSON value; \<open>series\<close> checks it and reads off one row per case.
  \<open>axis\<close> compares two lists of times, \<open>compare\<close> scores a candidate against a baseline and
  \<open>paired_comparison\<close> vetoes regressions against the job's own control and drift between the
  controls.  The three functions of the C library the score uses (\<open>exp\<close>, \<open>log\<close>,
  \<open>sqrt\<close>) are supplied by the environment.
\<close>

section \<open>Policy\<close>

definition FIXED_IDENTITIES :: "string list" where
  "FIXED_IDENTITIES = [''selection_sha256'', ''runtime_sha256'', ''workload_sha256'']"

definition POLICY_KEYS :: "string list" where
  "POLICY_KEYS = [''minimum_samples'', ''noise_floor_pct'', ''maximum_spread_pct'', ''minimum_gain_pct'',
     ''maximum_output_token_delta_pct'']"

definition percentage_ok :: "pyv \<Rightarrow> bool res" where
  "percentage_ok v = andM (Inr (is_number v)) (andM (py_isfinite v)
     (andM (py_le (PInt 0) v) (py_le v (PInt 10))))"

definition check_policy :: "pyv \<Rightarrow> pydict res" where
  "check_policy policy =
     (case policy of
        PDict p \<Rightarrow>
          guard (has_keys p POLICY_KEYS) ''complete explicit latency policy required'' (
          guard (is_int (dget p ''minimum_samples'') \<and> 3 \<le> int_of (dget p ''minimum_samples'')
                 \<and> int_of (dget p ''minimum_samples'') \<le> 32)
            ''latency policy needs at least three independent samples'' (
          bnd (mapM_res (\<lambda>name. guardM (percentage_ok (dget p name)) (''invalid latency policy: '' @ name) (Inr ()))
                 [''noise_floor_pct'', ''maximum_spread_pct'', ''minimum_gain_pct'', ''maximum_output_token_delta_pct''])
            (\<lambda>_.
          guardM (andM (py_lt (PInt 0) (dget p ''maximum_spread_pct''))
                   (andM (py_gt (dget p ''minimum_gain_pct'') (PInt 0))
                     (py_le (dget p ''noise_floor_pct'') (dget p ''maximum_spread_pct''))))
            ''invalid noise/gain bounds'' (Inr p))))
      | _ \<Rightarrow> Inl (ValueError ''complete explicit latency policy required''))"

section \<open>One measurement record\<close>

record case_row =
  r_concurrency :: nat
  r_contract :: pyv
  r_e2e :: "pyv list"
  r_walls :: "pyv list"
  r_prompts :: "int list"
  r_completions :: "int list list"

text \<open>The lists a case's samples append to, and the sample identities used so far in the record.\<close>

record series_acc =
  a_values :: "pyv list"
  a_walls :: "pyv list"
  a_completions :: "int list list"
  a_prompts :: "int list option"
  a_ids :: "string list"

definition COUNT_FIELDS :: "string list" where
  "COUNT_FIELDS = [''prompt_tokens'', ''completion_tokens'', ''reasoning_tokens'', ''final_tokens'']"

definition counts_of :: "pydict \<Rightarrow> string \<Rightarrow> int list" where
  "counts_of sample field = map int_of (list_of (dget sample field))"

definition counts_ok :: "nat \<Rightarrow> pyv \<Rightarrow> bool" where
  "counts_ok concurrency v = (case v of
     PList vs \<Rightarrow> length vs = concurrency \<and> list_all (\<lambda>n. is_int n \<and> 0 \<le> int_of n \<and> int_of n \<le> 2 ^ 20) vs
   | _ \<Rightarrow> False)"

definition sample_id_ok :: "string \<Rightarrow> string \<Rightarrow> string list \<Rightarrow> pydict \<Rightarrow> bool" where
  "sample_id_ok nonce arm ids sample =
     (case (dget sample ''id'', dget sample ''group_id'') of
        (PStr sid, PStr g) \<Rightarrow> 0 < length sid \<and> length sid \<le> 128 \<and> 0 < length g \<and> length g \<le> 80
          \<and> sid = nonce @ '':'' @ arm @ '':'' @ g \<and> sid \<notin> set ids
      | _ \<Rightarrow> False)"

text \<open>\<open>1e-3\<close> milliseconds of tolerance.\<close>

definition times_ok :: "nat \<Rightarrow> pyv \<Rightarrow> pyv \<Rightarrow> bool res" where
  "times_ok concurrency tv wall =
     (case tv of
        PList ts \<Rightarrow> andM (Inr (length ts = concurrency)) (andM (allM positive ts) (andM (positive wall)
          (allM (\<lambda>v. bnd (py_add wall (PFloat (to_float (1 / 1000)))) (py_le v)) ts)))
      | _ \<Rightarrow> Inr False)"

definition segments_ok :: "pydict \<Rightarrow> bool" where
  "segments_ok sample =
     (list_all (\<lambda>n. 0 < n) (counts_of sample ''prompt_tokens'' @ counts_of sample ''completion_tokens''
        @ counts_of sample ''final_tokens'')
      \<and> list_all (\<lambda>(r, f, n). r + f \<le> n)
          (zip (counts_of sample ''reasoning_tokens'') (zip (counts_of sample ''final_tokens'') (counts_of sample ''completion_tokens''))))"

definition responses_ok :: "nat \<Rightarrow> pydict \<Rightarrow> bool" where
  "responses_ok concurrency sample =
     ((case dget sample ''response_sha256'' of
         PList vs \<Rightarrow> length vs = concurrency \<and> list_all (hex_value 64) vs | _ \<Rightarrow> False)
      \<and> dget sample ''task_quality_passed'' = PBool True)"

definition sample_step :: "string \<Rightarrow> string \<Rightarrow> nat \<Rightarrow> series_acc \<Rightarrow> pyv \<Rightarrow> series_acc res" where
  "sample_step nonce arm concurrency acc v =
     (case v of
        PDict sample \<Rightarrow>
          guard (sample_id_ok nonce arm (a_ids acc) sample) ''latency sample reused or namespace changed'' (
          let tv = dget sample ''request_e2e_ms''; wall = dget sample ''group_wall_ms'' in
          guardM (times_ok concurrency tv wall) ''invalid request/group latency'' (
          guard (dget sample ''warmup'' = PBool False \<and> dget sample ''completed'' = PInt (int concurrency))
            ''warmup or incomplete group cannot be scored'' (
          bnd (mapM_res (\<lambda>field. require (counts_ok concurrency (dget sample field))
                 (''complete native token counts required: '' @ field)) COUNT_FIELDS) (\<lambda>_.
          guard (segments_ok sample) ''invalid native output segment counts'' (
          guard (responses_ok concurrency sample) ''sample quality/response binding required'' (
          let prompts = (case a_prompts acc of None \<Rightarrow> counts_of sample ''prompt_tokens'' | Some p \<Rightarrow> p) in
          guard (prompts = counts_of sample ''prompt_tokens'') ''case prompt token counts changed'' (
          bnd (py_mean (list_of tv)) (\<lambda>mean.
          Inr \<lparr>a_values = a_values acc @ [mean], a_walls = a_walls acc @ [wall],
               a_completions = map2 (\<lambda>counts n. counts @ [n]) (a_completions acc) (counts_of sample ''completion_tokens''),
               a_prompts = Some prompts, a_ids = a_ids acc @ [str_of (dget sample ''id'')]\<rparr>))))))))
      | _ \<Rightarrow> Inl (ValueError ''latency sample must be an object''))"

definition case_step ::
  "string \<Rightarrow> string \<Rightarrow> pydict \<Rightarrow> (string \<times> case_row) list \<times> string list \<Rightarrow> pyv \<Rightarrow> ((string \<times> case_row) list \<times> string list) res" where
  "case_step nonce arm policy acc v =
     (case v of
        PDict c \<Rightarrow>
          let name = dget c ''id''; concurrency = dget c ''concurrency'' in
          guard (is_str name \<and> 0 < length (str_of name) \<and> length (str_of name) \<le> 128
                 \<and> map_of (fst acc) (str_of name) = None) ''unique latency case ID required'' (
          guard (concurrency = PInt 1 \<or> concurrency = PInt 2) ''only C1/C2 are scored'' (
          guard (hex_value 64 (dget c ''request_contract_sha256'')) ''case request contract required'' (
          let k = nat (int_of concurrency) in
          guardM (case dget c ''samples'' of
                    PList ss \<Rightarrow> andM (bnd (item policy ''minimum_samples'') (\<lambda>m. py_le m (PInt (int (length ss)))))
                                  (Inr (length ss \<le> 32))
                  | _ \<Rightarrow> Inr False) ''insufficient or excessive independent latency samples'' (
          bnd (foldM_res (sample_step nonce arm k)
                 \<lparr>a_values = [], a_walls = [], a_completions = replicate k [], a_prompts = None, a_ids = snd acc\<rparr>
                 (list_of (dget c ''samples''))) (\<lambda>s.
          Inr (dset (fst acc) (str_of name)
                 \<lparr>r_concurrency = k, r_contract = dget c ''request_contract_sha256'',
                  r_e2e = a_values s, r_walls = a_walls s,
                  r_prompts = (case a_prompts s of None \<Rightarrow> [] | Some p \<Rightarrow> p), r_completions = a_completions s\<rparr>,
               a_ids s))))))
      | _ \<Rightarrow> Inl (ValueError ''latency case must be an object''))"

definition IDENTITY_FIELDS :: "string list" where
  "IDENTITY_FIELDS = FIXED_IDENTITIES @ [''candidate_sha256'', ''owner_seal_sha256'', ''quality_sha256'']"

definition series :: "pyv \<Rightarrow> pydict \<Rightarrow> ((string \<times> case_row) list \<times> string list) res" where
  "series v policy =
     (case v of
        PDict r \<Rightarrow>
          guard (dget r ''schema'' = PInt 1) ''latency measurement schema'' (
          guard (dget r ''kind'' = PStr ''serving'' \<and> dget r ''profiled'' = PBool False
                 \<and> dget r ''complete'' = PBool True \<and> dget r ''quality_passed'' = PBool True
                 \<and> dget r ''independent_release'' = PBool True)
            ''complete unprofiled serving, quality and release evidence required'' (
          bnd (mapM_res (\<lambda>name. require (hex_value 64 (dget r name)) (''latency evidence identity: '' @ name)) IDENTITY_FIELDS) (\<lambda>_.
          guard (hex_value 16 (dget r ''observation_id'')
                 \<and> (dget r ''arm'' = PStr ''control'' \<or> dget r ''arm'' = PStr ''mtp''))
            ''owner observation namespace required'' (
          guard (case dget r ''cases'' of PList cs \<Rightarrow> 2 \<le> length cs \<and> length cs \<le> 64 | _ \<Rightarrow> False)
            ''bounded C1/C2 cases required'' (
          bnd (foldM_res (case_step (str_of (dget r ''observation_id'')) (str_of (dget r ''arm'')) policy) ([], [])
                 (list_of (dget r ''cases''))) (\<lambda>(result, ids).
          guard (r_concurrency ` snd ` set result = {1, 2}) ''both C1 and C2 required'' (Inr (result, ids))))))))
      | _ \<Rightarrow> Inl (ValueError ''latency measurement schema''))"

section \<open>Comparing\<close>

record axis =
  x_baseline :: pyv
  x_candidate :: pyv
  x_baseline_range :: pyv
  x_candidate_range :: pyv
  x_band :: pyv
  x_stable :: bool
  x_regression :: bool
  x_resolved :: bool
  x_ratio :: flt

definition spread :: "pyv list \<Rightarrow> pyv res" where
  "spread vs = bnd (py_max vs) (\<lambda>a. bnd (py_min vs) (\<lambda>b. py_sub a b))"

definition flt_max2 :: "flt \<Rightarrow> flt \<Rightarrow> flt" where
  "flt_max2 a b = (if flt_lt a b then b else a)"

definition axis_of :: "pyv list \<Rightarrow> pyv list \<Rightarrow> pydict \<Rightarrow> axis res" where
  "axis_of base cand policy =
     bnd (py_median base) (\<lambda>old. bnd (py_median cand) (\<lambda>new.
     bnd (spread base) (\<lambda>spread_before. bnd (spread cand) (\<lambda>spread_after.
     bnd (py_truediv spread_before old) (\<lambda>qb. bnd (py_truediv spread_after new) (\<lambda>qa.
     bnd (item policy ''maximum_spread_pct'') (\<lambda>maximum.
     bnd (py_le (PFloat (flt_mul (flt_max2 qb qa) (Fin 100))) maximum) (\<lambda>stable.
     bnd (item policy ''noise_floor_pct'') (\<lambda>noise.
     bnd (py_mul old noise) (\<lambda>n. bnd (py_truediv n (PInt 100)) (\<lambda>n.
     bnd (py_max [PFloat n, spread_before, spread_after]) (\<lambda>band.
     bnd (py_sub new old) (\<lambda>worse. bnd (py_gt worse band) (\<lambda>regression.
     bnd (py_sub old new) (\<lambda>better. bnd (py_gt better band) (\<lambda>resolved.
     bnd (py_truediv old new) (\<lambda>ratio.
     Inr \<lparr>x_baseline = old, x_candidate = new, x_baseline_range = spread_before, x_candidate_range = spread_after,
          x_band = band, x_stable = stable, x_regression = regression, x_resolved = resolved, x_ratio = ratio\<rparr>)))))))))))))))))"

record compared =
  k_concurrency :: nat
  k_e2e :: axis
  k_wall :: axis
  k_deltas :: "flt list"

definition axes :: "compared \<Rightarrow> (string \<times> axis) list" where
  "axes k = [(''e2e_ms'', k_e2e k), (''group_wall_ms'', k_wall k)]"

record comparison =
  c_score :: flt
  c_gain :: flt
  c_cases :: "(string \<times> compared) list"
  c_verdict :: string
  c_reasons :: "string list"

record libm =
  m_log :: "flt \<Rightarrow> flt res"
  m_exp :: "flt \<Rightarrow> flt res"
  m_sqrt :: "flt \<Rightarrow> flt res"

text \<open>\<open>100 * abs(median(a) - median(b)) / median(a)\<close> for the completion counts of one
  request position.\<close>

definition output_delta :: "int list \<Rightarrow> int list \<Rightarrow> flt res" where
  "output_delta a b =
     bnd (py_median (map PInt a)) (\<lambda>ma. bnd (py_median (map PInt b)) (\<lambda>mb.
     bnd (py_sub ma mb) (\<lambda>d. bnd (py_abs d) (\<lambda>d. bnd (py_mul (PInt 100) d) (\<lambda>n. py_truediv n ma)))))"

definition axis_reasons :: "string \<Rightarrow> string \<times> axis \<Rightarrow> string list" where
  "axis_reasons name ax =
     (if \<not> x_stable (snd ax) then [name @ '':'' @ fst ax @ '':noisy'']
      else if x_regression (snd ax) then [name @ '':'' @ fst ax @ '':regression'']
      else [])"

definition compare_case ::
  "pydict \<Rightarrow> (string \<times> case_row) list \<Rightarrow> string \<times> case_row \<Rightarrow> ((string \<times> compared) \<times> string list) res" where
  "compare_case policy cand nold =
     (let name = fst nold; old = snd nold in
      case map_of cand name of None \<Rightarrow> Inl (KeyError name) | Some new \<Rightarrow>
      guard (r_concurrency old = r_concurrency new \<and> py_eq (r_contract old) (r_contract new))
        ''case concurrency or request contract changed'' (
      guard (length (r_e2e old) = length (r_e2e new)) ''matched sample counts required'' (
      guard (r_prompts old = r_prompts new) ''matched prompt token counts required'' (
      bnd (axis_of (r_e2e old) (r_e2e new) policy) (\<lambda>e2e.
      bnd (axis_of (r_walls old) (r_walls new) policy) (\<lambda>wall.
      bnd (mapM_res (\<lambda>(a, b). output_delta a b) (zip (r_completions old) (r_completions new))) (\<lambda>deltas.
      bnd (item policy ''maximum_output_token_delta_pct'') (\<lambda>maximum.
      bnd (anyM (\<lambda>delta. py_gt (PFloat delta) maximum) deltas) (\<lambda>unequal.
      let k = \<lparr>k_concurrency = r_concurrency old, k_e2e = e2e, k_wall = wall, k_deltas = deltas\<rparr> in
      Inr ((name, k),
           (if unequal then [name @ '':unequal_generated_work''] else [])
             @ concat (map (axis_reasons name) (axes k))))))))))))"

text \<open>\<open>math.exp(statistics.mean(math.log(v) for v in values))\<close> over the cases of one
  concurrency.\<close>

definition geometric_mean :: "libm \<Rightarrow> flt list \<Rightarrow> flt res" where
  "geometric_mean m vs =
     bnd (mapM_res (m_log m) vs) (\<lambda>ls. bnd (py_mean (map PFloat ls)) (\<lambda>l. bnd (float_val l) (m_exp m)))"

definition ratios :: "(string \<times> compared) list \<Rightarrow> nat \<Rightarrow> flt list" where
  "ratios cases c = map (\<lambda>nk. x_ratio (k_e2e (snd nk))) (filter (\<lambda>nk. k_concurrency (snd nk) = c) cases)"

definition vetoed :: "string \<Rightarrow> bool" where
  "vetoed reason = (ends_with reason '':noisy'' \<or> ends_with reason '':unequal_generated_work'')"

definition verdict_of :: "string list \<Rightarrow> string" where
  "verdict_of reasons = (if list_ex vetoed reasons then ''INCONCLUSIVE'' else if reasons \<noteq> [] then ''REVERT'' else ''KEEP'')"

text \<open>The score over the compared cases; each row carries the reasons found in its case.\<close>

definition score_rows :: "libm \<Rightarrow> pydict \<Rightarrow> ((string \<times> compared) \<times> string list) list \<Rightarrow> comparison res" where
  "score_rows m p rows =
     (let cases = map fst rows in
      bnd (geometric_mean m (ratios cases 1)) (\<lambda>c1. bnd (geometric_mean m (ratios cases 2)) (\<lambda>c2.
      bnd (m_sqrt m (flt_mul c1 c2)) (\<lambda>score.
      let gain = flt_mul (flt_sub score (Fin 1)) (Fin 100);
          resolved = list_ex (\<lambda>nk. x_resolved (k_e2e (snd nk))) cases in
      bnd (item p ''minimum_gain_pct'') (\<lambda>minimum. bnd (py_lt (PFloat gain) minimum) (\<lambda>below.
      let reasons = concat (map snd rows) @ (if below \<or> \<not> resolved then [''balanced_gain_not_resolved''] else []) in
      Inr \<lparr>c_score = score, c_gain = gain, c_cases = cases, c_verdict = verdict_of reasons, c_reasons = reasons\<rparr>))))))"

definition compare :: "libm \<Rightarrow> pyv \<Rightarrow> pyv \<Rightarrow> pyv \<Rightarrow> comparison res" where
  "compare m baseline candidate policy =
     bnd (check_policy policy) (\<lambda>p.
     bnd (series baseline p) (\<lambda>base. bnd (series candidate p) (\<lambda>cand.
     guard (set (snd base) \<inter> set (snd cand) = {}) ''baseline/candidate reuse the same observations'' (
     guard (list_all (\<lambda>k. py_eq (dget (dict_of_v baseline) k) (dget (dict_of_v candidate) k)) FIXED_IDENTITIES)
       ''selected stack or workload changed'' (
     guard (keyset (fst base) = keyset (fst cand)) ''matched latency case coverage required'' (
     bnd (mapM_res (compare_case p (fst cand)) (fst base)) (score_rows m p)))))))"

definition same_owner :: "pyv \<Rightarrow> pyv \<Rightarrow> bool" where
  "same_owner measurement control =
     (case (measurement, control) of
        (PDict a, PDict b) \<Rightarrow> dget a ''arm'' = PStr ''mtp'' \<and> dget b ''arm'' = PStr ''control''
          \<and> list_all (\<lambda>k. py_eq (dget a k) (dget b k))
              (FIXED_IDENTITIES @ [''observation_id'', ''owner_seal_sha256'', ''quality_sha256''])
      | _ \<Rightarrow> False)"

text \<open>Environment drift: an axis of the two controls is noisy or its medians differ by more than the
  band.\<close>

definition drifted :: "axis \<Rightarrow> bool res" where
  "drifted row = orM (Inr (\<not> x_stable row))
     (bnd (py_sub (x_candidate row) (x_baseline row)) (\<lambda>d. bnd (py_abs d) (\<lambda>d. py_gt d (x_band row))))"

definition drift_reasons :: "comparison \<Rightarrow> string list res" where
  "drift_reasons environment =
     bnd (mapM_res (\<lambda>nk. mapM_res (\<lambda>ax. bnd (drifted (snd ax)) (\<lambda>b. Inr
            (if b then [fst nk @ '':'' @ fst ax @ '':environment_drift''] else []))) (axes (snd nk))) (c_cases environment))
       (\<lambda>rss. Inr (concat (concat rss)
          @ filter (\<lambda>r. ends_with r '':unequal_generated_work'') (c_reasons environment)))"

record paired =
  p_result :: comparison
  p_paired :: comparison
  p_environment :: comparison

definition paired_comparison :: "libm \<Rightarrow> pyv \<Rightarrow> pyv \<Rightarrow> pyv \<Rightarrow> pyv \<Rightarrow> pyv \<Rightarrow> paired res" where
  "paired_comparison m reference candidate reference_control candidate_control policy =
     guard (same_owner reference reference_control \<and> same_owner candidate candidate_control)
       ''same-owner paired selected control required'' (
     guard (py_eq (dget (dict_of_v reference_control) ''candidate_sha256'') (dget (dict_of_v candidate_control) ''candidate_sha256''))
       ''selected control source changed'' (
     bnd (compare m reference_control reference policy) (\<lambda>_.
     bnd (compare m candidate_control candidate policy) (\<lambda>paired.
     bnd (compare m reference_control candidate_control policy) (\<lambda>environment.
     bnd (compare m reference candidate policy) (\<lambda>result.
     bnd (drift_reasons environment) (\<lambda>environment_reasons.
     let paired_reasons = filter (\<lambda>r. r \<noteq> ''balanced_gain_not_resolved'') (c_reasons paired);
         final = (if environment_reasons \<noteq> []
                  then result\<lparr>c_verdict := ''INCONCLUSIVE'', c_reasons := environment_reasons\<rparr>
                  else if paired_reasons \<noteq> []
                  then result\<lparr>c_reasons := sort (remdups (c_reasons result @ map (\<lambda>r. ''paired:'' @ r) paired_reasons)),
                              c_verdict := (if c_verdict paired = ''INCONCLUSIVE'' then ''INCONCLUSIVE'' else ''REVERT'')\<rparr>
                  else result) in
     Inr \<lparr>p_result = final, p_paired = paired, p_environment = environment\<rparr>)))))))"

section \<open>Reasons and verdicts\<close>

text \<open>What the reasons of a case say about it, independent of their spelling.\<close>

definition noisy :: "compared \<Rightarrow> bool" where
  "noisy k = list_ex (\<lambda>ax. \<not> x_stable (snd ax)) (axes k)"

definition regressed :: "compared \<Rightarrow> bool" where
  "regressed k = list_ex (\<lambda>ax. x_stable (snd ax) \<and> x_regression (snd ax)) (axes k)"

definition unequal_work :: "pydict \<Rightarrow> compared \<Rightarrow> bool" where
  "unequal_work p k =
     list_ex (\<lambda>delta. py_gt (PFloat delta) (dget p ''maximum_output_token_delta_pct'') = Inr True) (k_deltas k)"

definition gain_resolved :: "pydict \<Rightarrow> comparison \<Rightarrow> bool" where
  "gain_resolved p r =
     (list_ex (\<lambda>nk. x_resolved (k_e2e (snd nk))) (c_cases r)
      \<and> py_lt (PFloat (c_gain r)) (dget p ''minimum_gain_pct'') = Inr False)"

lemma axes_ex [simp]: "list_ex P (axes k) \<longleftrightarrow> P (''e2e_ms'', k_e2e k) \<or> P (''group_wall_ms'', k_wall k)"
  by (simp add: axes_def)

lemma vetoed_regression [simp]: "\<not> vetoed (x @ '':regression'')"
  using ends_with_last [of "x @ '':regression''" "'':unequal_generated_work''"]
  by (auto simp: vetoed_def ends_with_append ends_with_def)

lemma vetoed_noisy [simp]: "vetoed (x @ '':noisy'')"
  by (simp add: vetoed_def ends_with_append ends_with_def)

lemma vetoed_unequal [simp]: "vetoed (x @ '':unequal_generated_work'')"
  by (simp add: vetoed_def ends_with_append ends_with_def)

lemma vetoed_gain [simp]: "\<not> vetoed ''balanced_gain_not_resolved''"
  by (simp add: vetoed_def ends_with_def)

lemma axis_reasons_veto:
  "list_ex vetoed (axis_reasons name ax) \<longleftrightarrow> \<not> x_stable (snd ax)"
  "axis_reasons name ax = [] \<longleftrightarrow> x_stable (snd ax) \<and> \<not> x_regression (snd ax)"
  using vetoed_noisy [of "name @ '':'' @ fst ax"] vetoed_regression [of "name @ '':'' @ fst ax"]
  by (auto simp: axis_reasons_def)

lemma compare_case_reasons:
  assumes "compare_case p cand nold = Inr ((n, k), rs)"
  shows "n = fst nold" "list_ex vetoed rs \<longleftrightarrow> noisy k \<or> unequal_work p k"
    "rs = [] \<longleftrightarrow> \<not> noisy k \<and> \<not> unequal_work p k \<and> \<not> regressed k"
proof -
  from assms obtain maximum unequal where m: "map_of p ''maximum_output_token_delta_pct'' = Some maximum"
    and u: "anyM (\<lambda>delta. py_gt (PFloat delta) maximum) (k_deltas k) = Inr unequal"
    and n: "n = fst nold"
    and rs: "rs = (if unequal then [n @ '':unequal_generated_work''] else []) @ concat (map (axis_reasons n) (axes k))"
    by (auto simp: compare_case_def Let_def split: option.splits)
  have un: "unequal \<longleftrightarrow> unequal_work p k"
    using anyM_iff [OF u] m by (simp add: unequal_work_def list_ex_iff)
  show "n = fst nold" by (rule n)
  show "list_ex vetoed rs \<longleftrightarrow> noisy k \<or> unequal_work p k"
    by (auto simp: rs un noisy_def axes_def axis_reasons_veto)
  show "rs = [] \<longleftrightarrow> \<not> noisy k \<and> \<not> unequal_work p k \<and> \<not> regressed k"
    by (auto simp: rs un noisy_def regressed_def axes_def axis_reasons_veto)
qed

lemma compare_rows_all:
  "mapM_res (compare_case p cand) base = Inr rows \<Longrightarrow>
    map fst (map fst rows) = map fst base
    \<and> (list_ex vetoed (concat (map snd rows)) \<longleftrightarrow> (\<exists>nk \<in> set (map fst rows). noisy (snd nk) \<or> unequal_work p (snd nk)))
    \<and> (concat (map snd rows) = [] \<longleftrightarrow>
       (\<forall>nk \<in> set (map fst rows). \<not> noisy (snd nk) \<and> \<not> unequal_work p (snd nk) \<and> \<not> regressed (snd nk)))"
proof (induction base arbitrary: rows)
  case (Cons b bs)
  then obtain n k rs qs where c: "compare_case p cand b = Inr ((n, k), rs)"
    and qs: "mapM_res (compare_case p cand) bs = Inr qs" and rows: "rows = ((n, k), rs) # qs"
    by (auto split: sum.splits)
  from Cons.IH [OF qs] compare_case_reasons [OF c] show ?case by (simp add: rows)
qed simp

lemmas compare_rows = compare_rows_all [THEN conjunct1] compare_rows_all [THEN conjunct2, THEN conjunct1]
  compare_rows_all [THEN conjunct2, THEN conjunct2]

text \<open>What a comparison that returns has established.\<close>

lemma score_rows_Inr:
  assumes "score_rows m p rows = Inr r"
  shows "c_cases r = map fst rows" "c_verdict r = verdict_of (c_reasons r)"
    "c_reasons r = concat (map snd rows) @ (if gain_resolved p r then [] else [''balanced_gain_not_resolved''])"
  using assms by (auto simp: score_rows_def Let_def gain_resolved_def)

lemma compare_Inr:
  assumes "compare m baseline candidate policy = Inr r"
  obtains p base cand rows where "check_policy policy = Inr p" "series baseline p = Inr base"
    "series candidate p = Inr cand" "set (snd base) \<inter> set (snd cand) = {}"
    "list_all (\<lambda>k. py_eq (dget (dict_of_v baseline) k) (dget (dict_of_v candidate) k)) FIXED_IDENTITIES"
    "keyset (fst base) = keyset (fst cand)" "mapM_res (compare_case p (fst cand)) (fst base) = Inr rows"
    "score_rows m p rows = Inr r"
  using assms by (auto simp: compare_def)

lemma check_policy_dict: "check_policy policy = Inr p \<Longrightarrow> policy = PDict p"
  by (auto simp: check_policy_def split: pyv.splits)

text \<open>A reason found in a case is never the reason about the balanced gain, and unequal work leaves its own
  reason.\<close>

lemma compare_case_suffix:
  assumes "compare_case p cand nold = Inr ((n, k), rs)"
  shows "''balanced_gain_not_resolved'' \<notin> set rs"
    "unequal_work p k \<Longrightarrow> \<exists>r \<in> set rs. ends_with r '':unequal_generated_work''"
proof -
  from assms obtain maximum unequal where m: "map_of p ''maximum_output_token_delta_pct'' = Some maximum"
    and u: "anyM (\<lambda>delta. py_gt (PFloat delta) maximum) (k_deltas k) = Inr unequal"
    and rs: "rs = (if unequal then [fst nold @ '':unequal_generated_work''] else []) @ concat (map (axis_reasons (fst nold)) (axes k))"
    by (auto simp: compare_case_def Let_def split: option.splits)
  have "last r \<in> {CHR ''y'', CHR ''n'', CHR ''k''}" if "r \<in> set rs" for r
    using that unfolding rs by (auto simp: axes_def axis_reasons_def split: if_splits)
  then show "''balanced_gain_not_resolved'' \<notin> set rs" by force
  show "\<exists>r \<in> set rs. ends_with r '':unequal_generated_work''" if "unequal_work p k"
    using anyM_iff [OF u] m that by (auto simp: unequal_work_def list_ex_iff rs ends_with_append ends_with_def)
qed

lemma compare_rows_suffix:
  "mapM_res (compare_case p cand) base = Inr rows \<Longrightarrow>
    ''balanced_gain_not_resolved'' \<notin> set (concat (map snd rows))
    \<and> (\<forall>nk \<in> set (map fst rows). unequal_work p (snd nk) \<longrightarrow>
         (\<exists>r \<in> set (concat (map snd rows)). ends_with r '':unequal_generated_work''))"
proof (induction base arbitrary: rows)
  case (Cons b bs)
  then obtain n k rs qs where c: "compare_case p cand b = Inr ((n, k), rs)"
    and qs: "mapM_res (compare_case p cand) bs = Inr qs" and rows: "rows = ((n, k), rs) # qs"
    by (auto split: sum.splits)
  from Cons.IH [OF qs] compare_case_suffix [OF c] show ?case by (auto simp: rows)
qed simp

lemma compare_reasons:
  assumes "compare m baseline candidate policy = Inr r"
  shows "filter (\<lambda>x. x \<noteq> ''balanced_gain_not_resolved'') (c_reasons r) = [] \<Longrightarrow> nk \<in> set (c_cases r) \<Longrightarrow>
      \<not> noisy (snd nk) \<and> \<not> regressed (snd nk) \<and> \<not> unequal_work (dict_of_v policy) (snd nk)"
    and "filter (\<lambda>x. ends_with x '':unequal_generated_work'') (c_reasons r) = [] \<Longrightarrow> nk \<in> set (c_cases r) \<Longrightarrow>
      \<not> unequal_work (dict_of_v policy) (snd nk)"
proof -
  obtain p base cand rows where c: "check_policy policy = Inr p"
    and "series baseline p = Inr base" "series candidate p = Inr cand"
    and rows: "mapM_res (compare_case p (fst cand)) (fst base) = Inr rows" and r: "score_rows m p rows = Inr r"
    by (rule compare_Inr [OF assms]) blast
  have p: "dict_of_v policy = p" using check_policy_dict [OF c] by simp
  note facts = score_rows_Inr [OF r] compare_rows [OF rows] compare_rows_suffix [OF rows]
  show "\<not> noisy (snd nk) \<and> \<not> regressed (snd nk) \<and> \<not> unequal_work (dict_of_v policy) (snd nk)"
    if f: "filter (\<lambda>x. x \<noteq> ''balanced_gain_not_resolved'') (c_reasons r) = []" and nk: "nk \<in> set (c_cases r)"
  proof -
    have "\<forall>x \<in> set (concat (map snd rows)). x = ''balanced_gain_not_resolved''"
      using f unfolding facts(3) by (auto simp: filter_empty_conv)
    then have "concat (map snd rows) = []" using facts(7) by (metis last_in_set)
    then show ?thesis using nk unfolding facts(6) facts(1) p by blast
  qed
  show "\<not> unequal_work (dict_of_v policy) (snd nk)"
    if f: "filter (\<lambda>x. ends_with x '':unequal_generated_work'') (c_reasons r) = []" and nk: "nk \<in> set (c_cases r)"
  proof
    assume "unequal_work (dict_of_v policy) (snd nk)"
    then obtain x where "x \<in> set (concat (map snd rows))" "ends_with x '':unequal_generated_work''"
      using facts(7) nk unfolding p facts(1) by blast
    then show False using f unfolding facts(3) by (auto simp: filter_empty_conv)
  qed
qed

lemma mapM_res_in: "mapM_res f xs = Inr ys \<Longrightarrow> x \<in> set xs \<Longrightarrow> \<exists>y \<in> set ys. f x = Inr y"
  by (induction xs arbitrary: ys) (auto split: sum.splits)

lemma drift_reasons_Nil:
  assumes "drift_reasons env = Inr []" "nk \<in> set (c_cases env)" "ax \<in> set (axes (snd nk))"
  shows "drifted (snd ax) = Inr False"
proof -
  from assms(1) obtain rss where rss: "mapM_res (\<lambda>nk. mapM_res (\<lambda>ax. bnd (drifted (snd ax)) (\<lambda>b. Inr
            (if b then [fst nk @ '':'' @ fst ax @ '':environment_drift''] else []))) (axes (snd nk))) (c_cases env) = Inr rss"
    and e: "concat (concat rss) = []"
    unfolding drift_reasons_def bnd_Inr_iff by (elim exE conjE) simp
  obtain rs where rs: "rs \<in> set rss" "mapM_res (\<lambda>ax. bnd (drifted (snd ax)) (\<lambda>b. Inr
            (if b then [fst nk @ '':'' @ fst ax @ '':environment_drift''] else []))) (axes (snd nk)) = Inr rs"
    using mapM_res_in [OF rss assms(2)] by auto
  obtain y where y: "y \<in> set rs" "bnd (drifted (snd ax)) (\<lambda>b. Inr
            (if b then [fst nk @ '':'' @ fst ax @ '':environment_drift''] else [])) = Inr y"
    using mapM_res_in [OF rs(2) assms(3)] by auto
  have "y = []" using e rs(1) y(1) by auto
  with y(2) show ?thesis by (auto split: if_splits)
qed

section \<open>Properties\<close>

text \<open>C24: the verdict of a comparison is decided by the measured facts of its cases and not by the
  spelling of case names: it is inconclusive exactly when some axis is noisy or some case generated
  unequal work, it is a keep exactly when no case is noisy, unequal or regressed and the balanced gain is
  resolved, and otherwise it is a revert.  The two records share no sample, belong to one stack, and every
  case of the baseline is compared.\<close>

theorem verdict_decides:
  assumes "compare m baseline candidate policy = Inr r"
  shows "(c_verdict r = ''INCONCLUSIVE'' \<longleftrightarrow>
      (\<exists>nk \<in> set (c_cases r). noisy (snd nk) \<or> unequal_work (dict_of_v policy) (snd nk)))
    \<and> (c_verdict r = ''KEEP'' \<longleftrightarrow> gain_resolved (dict_of_v policy) r
      \<and> (\<forall>nk \<in> set (c_cases r). \<not> noisy (snd nk) \<and> \<not> regressed (snd nk) \<and> \<not> unequal_work (dict_of_v policy) (snd nk)))
    \<and> c_verdict r \<in> {''INCONCLUSIVE'', ''KEEP'', ''REVERT''}
    \<and> (\<exists>base cand. series baseline (dict_of_v policy) = Inr base \<and> series candidate (dict_of_v policy) = Inr cand
         \<and> set (snd base) \<inter> set (snd cand) = {} \<and> map fst (c_cases r) = map fst (fst base)
         \<and> keyset (fst base) = keyset (fst cand))"
proof -
  obtain p base cand rows where c: "check_policy policy = Inr p" "series baseline p = Inr base"
    "series candidate p = Inr cand" "set (snd base) \<inter> set (snd cand) = {}"
    "keyset (fst base) = keyset (fst cand)"
    and rows: "mapM_res (compare_case p (fst cand)) (fst base) = Inr rows" and r: "score_rows m p rows = Inr r"
    by (rule compare_Inr [OF assms])
  have p: "dict_of_v policy = p" using check_policy_dict [OF c(1)] by simp
  note facts = score_rows_Inr [OF r] compare_rows [OF rows]
  have "list_ex vetoed (c_reasons r) \<longleftrightarrow> (\<exists>nk \<in> set (c_cases r). noisy (snd nk) \<or> unequal_work p (snd nk))"
    by (simp add: facts)
  moreover have "c_reasons r = [] \<longleftrightarrow> gain_resolved p r \<and> concat (map snd rows) = []"
    unfolding facts(3) by simp
  then have "c_reasons r = [] \<longleftrightarrow> gain_resolved p r
      \<and> (\<forall>nk \<in> set (c_cases r). \<not> noisy (snd nk) \<and> \<not> regressed (snd nk) \<and> \<not> unequal_work p (snd nk))"
    unfolding facts(6) facts(1) by blast
  ultimately show ?thesis using c facts(1,2,4) unfolding p by (auto simp: verdict_of_def)
qed

text \<open>C25: a candidate is kept by the paired comparison only if it is kept against the reference, its own
  control shows no noisy, unequal or regressed case, and the two controls show neither noise, nor unequal
  work, nor a median that moved by more than the noise band.\<close>

theorem paired_keep_needs_clean_controls:
  assumes "paired_comparison m reference candidate reference_control candidate_control policy = Inr q"
    and "c_verdict (p_result q) = ''KEEP''"
  shows "compare m reference candidate policy = Inr (p_result q)
    \<and> compare m candidate_control candidate policy = Inr (p_paired q)
    \<and> compare m reference_control candidate_control policy = Inr (p_environment q)
    \<and> (\<forall>nk \<in> set (c_cases (p_paired q)).
         \<not> noisy (snd nk) \<and> \<not> regressed (snd nk) \<and> \<not> unequal_work (dict_of_v policy) (snd nk))
    \<and> (\<forall>nk \<in> set (c_cases (p_environment q)). \<not> unequal_work (dict_of_v policy) (snd nk)
         \<and> (\<forall>ax \<in> set (axes (snd nk)). x_stable (snd ax) \<and> drifted (snd ax) = Inr False))"
proof -
  from assms(1) obtain pa env r rs where pa: "compare m candidate_control candidate policy = Inr pa"
    and env: "compare m reference_control candidate_control policy = Inr env"
    and r: "compare m reference candidate policy = Inr r" and rs: "drift_reasons env = Inr rs"
    and q: "q = \<lparr>p_result = (let paired_reasons = filter (\<lambda>r. r \<noteq> ''balanced_gain_not_resolved'') (c_reasons pa) in
         (if rs \<noteq> [] then r\<lparr>c_verdict := ''INCONCLUSIVE'', c_reasons := rs\<rparr>
          else if paired_reasons \<noteq> []
          then r\<lparr>c_reasons := sort (remdups (c_reasons r @ map (\<lambda>r. ''paired:'' @ r) paired_reasons)),
                 c_verdict := (if c_verdict pa = ''INCONCLUSIVE'' then ''INCONCLUSIVE'' else ''REVERT'')\<rparr>
          else r)), p_paired = pa, p_environment = env\<rparr>"
    unfolding paired_comparison_def bnd_Inr_iff guard_Inr_iff Let_def by (elim exE conjE) simp
  have keep: "rs = []" "filter (\<lambda>r. r \<noteq> ''balanced_gain_not_resolved'') (c_reasons pa) = []"
    using assms(2) unfolding q by (auto simp: Let_def split: if_splits)
  then have res: "p_result q = r" by (simp add: q)
  have drift: "drifted (snd ax) = Inr False" if "nk \<in> set (c_cases env)" "ax \<in> set (axes (snd nk))" for nk ax
    using drift_reasons_Nil [of env] rs keep(1) that by simp
  have stable: "x_stable (snd ax)" if "nk \<in> set (c_cases env)" "ax \<in> set (axes (snd nk))" for nk ax
    using drift [OF that] by (simp add: drifted_def)
  have "filter (\<lambda>x. ends_with x '':unequal_generated_work'') (c_reasons env) = []"
    using rs keep(1) by (auto simp: drift_reasons_def)
  then show ?thesis
    using r res pa env compare_reasons(1) [OF pa keep(2)] compare_reasons(2) [OF env] drift stable by (simp add: q)
qed

subsection \<open>Concrete records\<close>

text \<open>One nonce and arm, a one-request and a two-request case, three samples each, every request of which
  took \<open>ms\<close> milliseconds.\<close>

definition demo_sha :: string where
  "demo_sha = replicate 64 (CHR ''a'')"

definition demo_sample_id :: "string \<Rightarrow> string \<Rightarrow> string \<Rightarrow> string" where
  "demo_sample_id nonce arm g = nonce @ '':'' @ arm @ '':'' @ g"

definition demo_sample :: "string \<Rightarrow> string \<Rightarrow> nat \<Rightarrow> int \<Rightarrow> string \<Rightarrow> pyv" where
  "demo_sample nonce arm k ms g =
     PDict [(''id'', PStr (demo_sample_id nonce arm g)), (''group_id'', PStr g),
       (''request_e2e_ms'', PList (replicate k (PInt ms))), (''group_wall_ms'', PInt ms),
       (''warmup'', PBool False), (''completed'', PInt (int k)),
       (''prompt_tokens'', PList (replicate k (PInt 8))), (''completion_tokens'', PList (replicate k (PInt 4))),
       (''reasoning_tokens'', PList (replicate k (PInt 1))), (''final_tokens'', PList (replicate k (PInt 3))),
       (''response_sha256'', PList (replicate k (PStr demo_sha))), (''task_quality_passed'', PBool True)]"

definition demo_case :: "string \<Rightarrow> string \<Rightarrow> string \<Rightarrow> nat \<Rightarrow> int \<Rightarrow> pyv" where
  "demo_case nonce arm name k ms =
     PDict [(''id'', PStr name), (''concurrency'', PInt (int k)), (''request_contract_sha256'', PStr demo_sha),
       (''samples'', PList (map (demo_sample nonce arm k ms) [name @ ''0'', name @ ''1'', name @ ''2'']))]"

definition demo_record :: "string \<Rightarrow> string \<Rightarrow> int \<Rightarrow> pyv" where
  "demo_record nonce arm ms =
     PDict [(''schema'', PInt 1), (''kind'', PStr ''serving''), (''profiled'', PBool False), (''complete'', PBool True),
       (''quality_passed'', PBool True), (''independent_release'', PBool True), (''observation_id'', PStr nonce), (''arm'', PStr arm),
       (''cases'', PList [demo_case nonce arm ''a'' 1 ms, demo_case nonce arm ''b'' 2 ms]),
       (''selection_sha256'', PStr demo_sha), (''runtime_sha256'', PStr demo_sha), (''workload_sha256'', PStr demo_sha),
       (''candidate_sha256'', PStr demo_sha), (''owner_seal_sha256'', PStr demo_sha), (''quality_sha256'', PStr demo_sha)]"

definition demo_policy :: pydict where
  "demo_policy = [(''minimum_samples'', PInt 3), (''noise_floor_pct'', PInt 1), (''maximum_spread_pct'', PInt 2),
     (''minimum_gain_pct'', PInt 1), (''maximum_output_token_delta_pct'', PInt 0)]"

text \<open>A stand-in for the C library in which the three functions return their argument.\<close>

definition demo_libm :: libm where
  "demo_libm = \<lparr>m_log = Inr, m_exp = Inr, m_sqrt = Inr\<rparr>"

lemma demo_sha [simp]: "hex_value 64 (PStr demo_sha)"
  by code_simp

lemma demo_policy_ok: "check_policy (PDict demo_policy) = Inr demo_policy"
  by (simp add: check_policy_def demo_policy_def has_keys_def keyset_def POLICY_KEYS_def dget_rec percentage_ok_def
      is_number_def py_isfinite_def flt_finite_def py_le_def py_lt_def insert_commute)

lemma milli: "to_float (1 / 1000) = Fin (1152921504606847 / 1152921504606846976)"
  by code_simp

lemma slack_le:
  assumes "0 \<le> e" "e \<le> 1" "0 < w" "w \<le> 2 ^ 52" "0 \<le> t" "t \<le> w"
  shows "bnd (py_add (PInt w) (PFloat (Fin e))) (py_le (PInt t)) = Inr True"
proof -
  have "rnd (of_int t) = of_int t" using assms(4,5,6) by (intro rnd_of_int) simp
  moreover have "rnd (of_int t) \<le> rnd (of_int w + e)"
    using assms(1,6) of_int_le_iff [of t w, where 'a = rat] by (intro rnd_mono) linarith
  moreover have "\<bar>of_int w + e\<bar> \<le> 2 ^ 1023"
  proof -
    have "(of_int w :: rat) \<le> of_int (2 ^ 52)" "(0::rat) < of_int w" using assms(3,4) by (simp_all only: of_int_le_iff of_int_0_less_iff)
    then have "\<bar>of_int w + e\<bar> \<le> 2 ^ 53" using assms(1,2) by simp
    also have "(2::rat) ^ 53 \<le> 2 ^ 1023" by (rule power_increasing) simp_all
    finally show ?thesis .
  qed
  then have "to_float (of_int w + e) = Fin (rnd (of_int w + e))" by (rule to_float_small)
  ultimately have "flt_le (Fin (of_int t)) (to_float (of_int w + e))" by simp
  then show ?thesis using assms(3,4) by (simp add: py_add_def py_arith_def py_le_def)
qed

lemma times_ok_same:
  assumes "0 < ms" "ms \<le> 2 ^ 52"
  shows "times_ok k (PList (replicate k (PInt ms))) (PInt ms) = Inr True"
  using assms slack_le [of "1152921504606847 / 1152921504606846976" ms ms] by (simp add: times_ok_def positive_PInt milli)

lemma demo_sample_step:
  assumes "length g = 2" "length nonce = 16" "length arm < 8" "demo_sample_id nonce arm g \<notin> set (a_ids acc)"
    and "0 < ms" "ms \<le> 2 ^ 52" "k = 1 \<or> k = 2" "a_prompts acc = None \<or> a_prompts acc = Some (replicate k 8)"
  shows "sample_step nonce arm k acc (demo_sample nonce arm k ms g) =
    Inr \<lparr>a_values = a_values acc @ [PInt ms], a_walls = a_walls acc @ [PInt ms],
         a_completions = map2 (\<lambda>c n. c @ [n]) (a_completions acc) (replicate k 4),
         a_prompts = Some (replicate k 8), a_ids = a_ids acc @ [demo_sample_id nonce arm g]\<rparr>"
  using assms
  by (auto simp: demo_sample_def demo_sample_id_def sample_step_def sample_id_ok_def dget_rec Let_def times_ok_same
      COUNT_FIELDS_def counts_ok_def counts_of_def segments_ok_def responses_ok_def py_mean_def stats_ok_def
      py_isfinite_def flt_finite_def exact_def numeral_2_eq_2)

definition demo_rows :: "int \<Rightarrow> (string \<times> case_row) list" where
  "demo_rows ms = map (\<lambda>(name, k). (name,
     \<lparr>r_concurrency = k, r_contract = PStr demo_sha, r_e2e = replicate 3 (PInt ms), r_walls = replicate 3 (PInt ms),
      r_prompts = replicate k 8, r_completions = replicate k [4, 4, 4]\<rparr>)) [(''a'', 1), (''b'', 2)]"

definition demo_ids :: "string \<Rightarrow> string \<Rightarrow> string list" where
  "demo_ids nonce arm = map (demo_sample_id nonce arm) [''a0'', ''a1'', ''a2'', ''b0'', ''b1'', ''b2'']"

lemma demo_series:
  assumes "hex_value 16 (PStr nonce)" "arm \<in> {''control'', ''mtp''}" "0 < ms" "ms \<le> 2 ^ 52"
  shows "series (demo_record nonce arm ms) demo_policy = Inr (demo_rows ms, demo_ids nonce arm)"
proof -
  have l: "length nonce = 16" "length arm < 8" using assms(1,2) by (auto simp: hex_value_def hex_string_def)
  note step = demo_sample_step [OF _ l _ assms(3,4)]
  have a: "case_step nonce arm demo_policy ([], []) (demo_case nonce arm ''a'' 1 ms)
      = Inr (take 1 (demo_rows ms), take 3 (demo_ids nonce arm))"
    by (simp add: case_step_def demo_case_def dget_rec Let_def demo_policy_def item_def py_le_def step demo_sample_id_def
        demo_rows_def demo_ids_def numeral_3_eq_3)
  have b: "case_step nonce arm demo_policy (take 1 (demo_rows ms), take 3 (demo_ids nonce arm)) (demo_case nonce arm ''b'' 2 ms)
      = Inr (demo_rows ms, demo_ids nonce arm)"
    by (simp add: case_step_def demo_case_def dget_rec Let_def demo_policy_def item_def py_le_def step demo_sample_id_def
        demo_rows_def demo_ids_def numeral_3_eq_3 numeral_2_eq_2)
  have "r_concurrency ` snd ` set (demo_rows ms) = {1, 2}" by (simp add: demo_rows_def)
  then show ?thesis using assms(1,2) a b
    by (auto simp: series_def demo_record_def dget_rec IDENTITY_FIELDS_def FIXED_IDENTITIES_def)
qed

text \<open>Comparing two such records: \<open>c\<close> is how many times faster the candidate is.\<close>

definition demo_axis :: "int \<Rightarrow> int \<Rightarrow> rat \<Rightarrow> axis" where
  "demo_axis a b c = \<lparr>x_baseline = PInt a, x_candidate = PInt b, x_baseline_range = PInt 0, x_candidate_range = PInt 0,
     x_band = PFloat (Fin (of_int a / 100)), x_stable = True, x_regression = False, x_resolved = (1 < c), x_ratio = Fin c\<rparr>"

definition demo_pair :: "int \<Rightarrow> int \<Rightarrow> rat \<Rightarrow> bool" where
  "demo_pair a b c = ((a, b, c) \<in> {(200, 100, 2), (200, 200, 1), (200, 50, 4), (100, 50, 2)})"

lemma demo_axis_of:
  assumes "demo_pair a b c"
  shows "axis_of (replicate 3 (PInt a)) (replicate 3 (PInt b)) demo_policy = Inr (demo_axis a b c)"
  using assms
  by (auto simp: demo_pair_def axis_of_def demo_axis_def py_median_def stats_ok_def py_isfinite_def flt_finite_def numeral_3_eq_3
      spread_def py_max_def py_min_def py_max2_def py_min2_def py_lt_def py_le_def py_sub_def py_mul_def py_arith_def
      py_truediv_def int_truediv_def exact_def demo_policy_def item_def flt_max2_def simp del: bnd_Inr_iff)

definition demo_compared :: "nat \<Rightarrow> int \<Rightarrow> int \<Rightarrow> rat \<Rightarrow> compared" where
  "demo_compared k a b c = \<lparr>k_concurrency = k, k_e2e = demo_axis a b c, k_wall = demo_axis a b c, k_deltas = replicate k (Fin 0)\<rparr>"

definition demo_comparison :: "int \<Rightarrow> int \<Rightarrow> rat \<Rightarrow> comparison" where
  "demo_comparison a b c =
     \<lparr>c_score = Fin (c * c), c_gain = Fin ((c * c - 1) * 100),
      c_cases = [(''a'', demo_compared 1 a b c), (''b'', demo_compared 2 a b c)],
      c_verdict = (if 1 < c then ''KEEP'' else ''REVERT''),
      c_reasons = (if 1 < c then [] else [''balanced_gain_not_resolved''])\<rparr>"

lemma demo_delta: "output_delta [4, 4, 4] [4, 4, 4] = Inr (Fin 0)"
  by (simp add: output_delta_def py_median_def stats_ok_def py_isfinite_def flt_finite_def py_sub_def py_arith_def py_abs_def
      py_mul_def py_truediv_def int_truediv_def exact_def)

lemma demo_compare_rows:
  assumes "demo_pair a b c"
  shows "mapM_res (compare_case demo_policy (demo_rows b)) (demo_rows a)
    = Inr [((''a'', demo_compared 1 a b c), []), ((''b'', demo_compared 2 a b c), [])]"
proof -
  have m: "item demo_policy ''maximum_output_token_delta_pct'' = Inr (PInt 0)" by (simp add: demo_policy_def)
  have "axis_reasons n (s, demo_axis a b c) = []" for n s by (simp add: axis_reasons_def demo_axis_def)
  then show ?thesis
    by (simp add: demo_rows_def compare_case_def Let_def demo_axis_of [OF assms] demo_delta m py_lt_def demo_compared_def axes_def
        numeral_2_eq_2)
qed

lemma demo_score:
  assumes "demo_pair a b c"
  shows "score_rows demo_libm demo_policy [((''a'', demo_compared 1 a b c), []), ((''b'', demo_compared 2 a b c), [])]
    = Inr (demo_comparison a b c)"
  using assms
  by (auto simp: demo_pair_def score_rows_def Let_def ratios_def demo_compared_def demo_axis_def geometric_mean_def demo_libm_def
      py_mean_def stats_ok_def py_isfinite_def flt_finite_def exact_def demo_policy_def item_def py_lt_def flt_sub_Fin
      demo_comparison_def verdict_of_def simp del: bnd_Inr_iff)

lemma demo_compare:
  assumes "demo_pair a b c" "hex_value 16 (PStr n)" "hex_value 16 (PStr n')" "x \<in> {''control'', ''mtp''}" "y \<in> {''control'', ''mtp''}"
    and "set (demo_ids n x) \<inter> set (demo_ids n' y) = {}"
  shows "compare demo_libm (demo_record n x a) (demo_record n' y b) (PDict demo_policy) = Inr (demo_comparison a b c)"
proof -
  have ab: "0 < a" "a \<le> 2 ^ 52" "0 < b" "b \<le> 2 ^ 52" using assms(1) by (auto simp: demo_pair_def)
  have k: "keyset (demo_rows a) = keyset (demo_rows b)" by (simp add: demo_rows_def keyset_def)
  have fixed: "list_all (\<lambda>k. py_eq (dget (dict_of_v (demo_record n x a)) k) (dget (dict_of_v (demo_record n' y b)) k)) FIXED_IDENTITIES"
    by (simp add: demo_record_def dget_rec FIXED_IDENTITIES_def)
  show ?thesis
    using assms(6) k fixed by (simp add: compare_def demo_policy_ok demo_series [OF assms(2,4) ab(1,2)] demo_series [OF assms(3,5) ab(3,4)]
        demo_compare_rows [OF assms(1)] demo_score [OF assms(1)] del: bnd_Inr_iff One_nat_def)
qed

definition nonce1 :: string where "nonce1 = ''0123456789abcdef''"
definition nonce2 :: string where "nonce2 = ''fedcba9876543210''"

lemma nonces [simp]: "hex_value 16 (PStr nonce1)" "hex_value 16 (PStr nonce2)"
  by code_simp+

lemma demo_ids_disjoint [simp]:
  "set (demo_ids nonce1 x) \<inter> set (demo_ids nonce2 y) = {}"
  "set (demo_ids n ''control'') \<inter> set (demo_ids n ''mtp'') = {}"
  by (auto simp: demo_ids_def demo_sample_id_def nonce1_def nonce2_def)

theorem verdict_decides_witness:
  "c_verdict (demo_comparison 100 50 2) = ''KEEP'' \<and> gain_resolved demo_policy (demo_comparison 100 50 2)"
proof -
  have c: "compare demo_libm (demo_record nonce1 ''mtp'' 100) (demo_record nonce2 ''mtp'' 50) (PDict demo_policy)
      = Inr (demo_comparison 100 50 2)"
    by (rule demo_compare) (simp_all add: demo_pair_def)
  have k: "c_verdict (demo_comparison 100 50 2) = ''KEEP''" by (simp add: demo_comparison_def)
  then show ?thesis using verdict_decides [OF c] by simp
qed

theorem paired_keep_needs_clean_controls_witness:
  "\<exists>q. paired_comparison demo_libm (demo_record nonce1 ''mtp'' 100) (demo_record nonce2 ''mtp'' 50)
        (demo_record nonce1 ''control'' 200) (demo_record nonce2 ''control'' 200) (PDict demo_policy) = Inr q
     \<and> c_verdict (p_result q) = ''KEEP''
     \<and> (\<forall>nk \<in> set (c_cases (p_paired q)). \<not> noisy (snd nk))"
proof -
  note cmp = demo_compare [of 200 100 2 nonce1 nonce1 "''control''" "''mtp''"]
    demo_compare [of 200 50 4 nonce2 nonce2 "''control''" "''mtp''"]
    demo_compare [of 200 200 1 nonce1 nonce2 "''control''" "''control''"]
    demo_compare [of 100 50 2 nonce1 nonce2 "''mtp''" "''mtp''"]
  have drift: "drift_reasons (demo_comparison 200 200 1) = Inr []"
    by (simp add: drift_reasons_def demo_comparison_def demo_compared_def axes_def drifted_def demo_axis_def py_sub_def py_arith_def
        py_abs_def py_lt_def ends_with_def del: bnd_Inr_iff)
  have own: "same_owner (demo_record n ''mtp'' x) (demo_record n ''control'' y)" for n x y
    by (simp add: same_owner_def demo_record_def dget_rec FIXED_IDENTITIES_def)
  have src: "dget (dict_of_v (demo_record n x a)) ''candidate_sha256'' = PStr demo_sha" for n x a
    by (simp add: demo_record_def dget_rec)
  have reasons: "c_reasons (demo_comparison 200 50 4) = []" by (simp add: demo_comparison_def)
  let ?q = "\<lparr>p_result = demo_comparison 100 50 2, p_paired = demo_comparison 200 50 4, p_environment = demo_comparison 200 200 1\<rparr>"
  have q: "paired_comparison demo_libm (demo_record nonce1 ''mtp'' 100) (demo_record nonce2 ''mtp'' 50)
        (demo_record nonce1 ''control'' 200) (demo_record nonce2 ''control'' 200) (PDict demo_policy) = Inr ?q"
    using cmp by (simp add: paired_comparison_def demo_pair_def drift own src reasons del: bnd_Inr_iff)
  have k: "c_verdict (p_result ?q) = ''KEEP''" by (simp add: demo_comparison_def)
  from paired_keep_needs_clean_controls [OF q k] have "\<forall>nk \<in> set (c_cases (p_paired ?q)). \<not> noisy (snd nk)" by blast
  with q k show ?thesis by (intro exI [of _ ?q] conjI)
qed

end
