(* ===== verification/Memory_Plan.thy ===== *)
theory Memory_Plan
  imports Py_Ops
begin

text \<open>
  \<open>lib/workstation/serving_memory.py\<close>: which smaller memory limit the measured serving pod could be
  given. Samples of the pod's cgroup are parsed from the kernel's text files and checked window by
  window; the plan takes the largest accepted envelope, adds headroom and refuses anything that is no
  reduction or does not fit the host. Reading the evidence files and comparing the launch
  descriptions of the observations are not modelled.
\<close>

section \<open>Text of the kernel\<close>

text \<open>\<open>s.split()\<close> and \<open>s.splitlines()\<close>; the flag says that the character before was a carriage
  return, which takes a following line feed with it.\<close>

fun words_from :: "string \<Rightarrow> string \<Rightarrow> string list" where
  "words_from w [] = (if w = [] then [] else [w])"
| "words_from w (c # s) =
     (if is_space c then (if w = [] then words_from [] s else w # words_from [] s) else words_from (w @ [c]) s)"

definition line_break :: "char \<Rightarrow> bool" where
  "line_break c = (let n = of_char c :: nat in 10 \<le> n \<and> n \<le> 13 \<or> 28 \<le> n \<and> n \<le> 30 \<or> n = 133)"

fun lines_from :: "bool \<Rightarrow> string \<Rightarrow> string \<Rightarrow> string list" where
  "lines_from after_cr w [] = (if w = [] then [] else [w])"
| "lines_from after_cr w (c # s) =
     (if after_cr \<and> c = CHR 0x0A then lines_from False w s
      else if line_break c then w # lines_from (c = CHR 0x0D) [] s
      else lines_from False (w @ [c]) s)"

abbreviation py_words :: "string \<Rightarrow> string list" where
  "py_words \<equiv> words_from []"

abbreviation py_lines :: "string \<Rightarrow> string list" where
  "py_lines \<equiv> lines_from False []"

text \<open>\<open>integer\<close>: digits only; \<open>int\<close> itself refuses more than 4300 of them.\<close>

definition integer :: "pyv \<Rightarrow> int res" where
  "integer v =
     (case v of
        PInt i \<Rightarrow> if 0 \<le> i then Inr i else Inl (ValueError ''missing or invalid nonnegative memory counter'')
      | PStr s \<Rightarrow> if digits s \<and> int (length s) \<le> 4300 then Inr (int_of_digits s)
                  else Inl (ValueError ''missing or invalid nonnegative memory counter'')
      | _ \<Rightarrow> Inl (ValueError ''missing or invalid nonnegative memory counter''))"

type_synonym counts = "(string \<times> int) list"

definition count_of :: "counts \<Rightarrow> string \<Rightarrow> int res" where
  "count_of d k = (case map_of d k of None \<Rightarrow> Inl (KeyError k) | Some n \<Rightarrow> Inr n)"

definition counter_line :: "counts \<Rightarrow> string \<Rightarrow> counts res" where
  "counter_line acc line =
     (case py_words line of
        [key, raw] \<Rightarrow> guard (map_of acc key = None) ''duplicate memory counter'' (
          bnd (integer (PStr raw)) (\<lambda>n. Inr (dset acc key n)))
      | _ \<Rightarrow> Inl (ValueError ''values to unpack''))"

definition counters :: "pyv \<Rightarrow> counts res" where
  "counters text =
     (case text of
        PStr s \<Rightarrow> guard (strip s \<noteq> []) ''missing memory counters'' (foldM_res counter_line [] (py_lines s))
      | _ \<Rightarrow> Inl (ValueError ''missing memory counters''))"

definition psi_field :: "string \<Rightarrow> (string \<times> string) res" where
  "psi_field field =
     (case split_on (CHR ''='') field of [k, v] \<Rightarrow> Inr (k, v) | _ \<Rightarrow> Inl (ValueError ''dictionary update sequence element''))"

definition psi_line :: "counts \<Rightarrow> string \<Rightarrow> counts res" where
  "psi_line acc line =
     (case py_words line of
        [] \<Rightarrow> Inl (ValueError ''not enough values to unpack'')
      | name # rest \<Rightarrow> guard (map_of acc name = None) ''duplicate PSI scope'' (
          bnd (mapM_res psi_field rest) (\<lambda>kvs.
          bnd (case map_of (dict_of kvs) ''total'' of None \<Rightarrow> Inl (KeyError ''total'') | Some raw \<Rightarrow> integer (PStr raw)) (\<lambda>n.
          Inr (dset acc name n)))))"

definition pressure :: "pyv \<Rightarrow> counts res" where
  "pressure text =
     (case text of
        PStr s \<Rightarrow> bnd (foldM_res psi_line [] (py_lines s)) (\<lambda>acc.
          guard (keyset acc = {''some'', ''full''}) ''incomplete memory PSI'' (Inr acc))
      | _ \<Rightarrow> Inl (ValueError ''memory PSI unavailable''))"

section \<open>One window of samples\<close>

definition MIB :: int where
  "MIB = 1024 ^ 2"

record memory_row =
  m_id :: string
  m_path :: pyv
  m_ns :: int
  m_unix :: int
  m_current :: int
  m_peak :: int
  m_stat :: counts
  m_psi :: counts
  m_available :: int

text \<open>\<open>[0-9]+:[0-9]+\<close>\<close>

definition cgroup_id :: "string \<Rightarrow> bool" where
  "cgroup_id s = (case split_on (CHR '':'') s of [a, b] \<Rightarrow> digits a \<and> digits b | _ \<Rightarrow> False)"

definition cgroup_named :: "pyv \<Rightarrow> bool res" where
  "cgroup_named scope =
     (case scope of
        PDict d \<Rightarrow> (case dget_or d ''id'' (PStr []) of PStr s \<Rightarrow> Inr (cgroup_id s \<and> truthy (dget d ''path'')) | _ \<Rightarrow> Inl TypeError)
      | _ \<Rightarrow> Inl AttributeError)"

definition integer_item :: "pyv \<Rightarrow> string \<Rightarrow> int res" where
  "integer_item v k = bnd (py_item v k) integer"

definition host_line :: "counts \<Rightarrow> string \<Rightarrow> counts res" where
  "host_line acc line =
     (case py_words line of
        [] \<Rightarrow> Inl IndexError
      | name # rest \<Rightarrow>
          if name \<in> {''MemTotal:'', ''MemAvailable:'', ''SwapTotal:''}
          then guard (last (name # rest) = ''kB'') ''unexpected host memory units'' (
               bnd (integer (PStr (hd rest))) (\<lambda>n. Inr (dset acc (butlast name) n)))
          else Inr acc)"

definition host_memory :: "pyv \<Rightarrow> counts res" where
  "host_memory v = (case v of PStr s \<Rightarrow> foldM_res host_line [] (py_lines s) | _ \<Rightarrow> Inl AttributeError)"

definition PRESSURE_EVENTS :: "string list" where
  "PRESSURE_EVENTS = [''high'', ''max'', ''oom'', ''oom_kill'']"

definition host_fits :: "pyv \<Rightarrow> pyv \<Rightarrow> counts res" where
  "host_fits text whole =
     bnd (host_memory text) (\<lambda>info.
     guardM (bnd (count_of info ''MemTotal'') (\<lambda>n. Inr (py_eq (PInt (n div 1024)) whole)))
       ''host memory inventory changed; regenerate the resource plan'' (
     guardM (bnd (count_of info ''SwapTotal'') (\<lambda>n. Inr (n = 0))) ''host swap is enabled; require the no-swap baseline'' (Inr info)))"

definition row_of :: "pydict \<Rightarrow> string \<Rightarrow> pyv \<Rightarrow> int \<Rightarrow> int \<Rightarrow> counts \<Rightarrow> counts \<Rightarrow> counts \<Rightarrow> memory_row res" where
  "row_of sample cid path current peak stat psi info =
     bnd (bnd (item sample ''monotonic_ns'') integer) (\<lambda>ns. bnd (bnd (item sample ''unix_ns'') integer) (\<lambda>unix.
     bnd (count_of info ''MemAvailable'') (\<lambda>available.
     Inr \<lparr>m_id = cid, m_path = path, m_ns = ns, m_unix = unix, m_current = current, m_peak = peak, m_stat = stat, m_psi = psi,
          m_available = available * 1024\<rparr>)))"

definition parse_sample :: "int \<Rightarrow> pyv \<Rightarrow> pyv \<Rightarrow> memory_row res" where
  "parse_sample limit_mib whole sample =
     bnd (py_item sample ''pod_cgroup'') (\<lambda>scope.
     guardM (cgroup_named scope) ''stable pod cgroup identity unavailable'' (
     bnd (py_item scope ''values'') (\<lambda>vals.
     bnd (integer_item vals ''memory.current'') (\<lambda>current. bnd (integer_item vals ''memory.peak'') (\<lambda>peak.
     bnd (integer_item vals ''memory.max'') (\<lambda>maximum.
     guard (maximum = limit_mib * MIB \<and> 0 < current \<and> current \<le> peak \<and> peak \<le> maximum)
       ''observed pod memory limit/current/peak does not match the baseline'' (
     bnd (bnd (py_item vals ''memory.stat'') counters) (\<lambda>stat. bnd (bnd (py_item vals ''memory.events'') counters) (\<lambda>events.
     bnd (mapM_res (count_of stat) [''anon'', ''file'', ''shmem'']) (\<lambda>_.
     guardM (bnd (count_of stat ''shmem'') (\<lambda>shmem. bnd (count_of stat ''file'') (\<lambda>file. Inr (shmem \<le> file \<and> shmem \<le> current))))
       ''inconsistent shared-memory accounting'' (
     guardM (allM (\<lambda>k. bnd (count_of events k) (\<lambda>n. Inr (n = 0))) PRESSURE_EVENTS)
       ''memory pressure/limit/OOM event; reduction is not justified'' (
     guardM (bnd (integer_item vals ''memory.swap.current'') (\<lambda>n. Inr (n = 0))) ''require the no-swap pod baseline'' (
     bnd (bnd (py_item vals ''memory.pressure'') pressure) (\<lambda>psi.
     bnd (bnd (py_item sample ''host_memory'') (\<lambda>text. host_fits text whole)) (\<lambda>info.
     row_of (dict_of_v sample) (str_of (dget (dict_of_v scope) ''id'')) (dget (dict_of_v scope) ''path'') current peak stat psi info)))))))))))))))"

text \<open>\<open>d / 1e9\<close> for a difference of two clock readings.\<close>

definition seconds_of :: "int \<Rightarrow> flt res" where
  "seconds_of d = py_truediv (PInt d) (PFloat (Fin 1000000000))"

definition follows :: "memory_row \<Rightarrow> memory_row \<times> memory_row \<Rightarrow> unit res" where
  "follows first pr =
     (let previous = fst pr; row = snd pr in
      guard (m_id row = m_id first \<and> py_eq (m_path row) (m_path first)) ''pod cgroup changed within a memory window'' (
      bnd (seconds_of (m_ns row - m_ns previous)) (\<lambda>gap.
      guard (flt_lt (Fin 0) gap \<and> flt_le gap (Fin 30) \<and> m_unix previous < m_unix row \<and> m_peak previous \<le> m_peak row)
        ''memory samples have a gap, clock reversal or reset peak'' (
      guard (list_all (\<lambda>k. map_of (m_psi row) k = map_of (m_psi previous) k) [''some'', ''full''])
        ''memory PSI increased or reset; investigate pressure before reducing'' (Inr ())))))"

record memory_window =
  w_samples :: nat
  w_seconds :: flt
  w_id :: string
  w_path :: pyv
  w_first_ns :: int
  w_last_ns :: int
  w_first_unix :: int
  w_last_unix :: int
  w_current_max :: int
  w_peak :: int
  w_stat_max :: counts
  w_available_min :: int
  w_envelope :: int

definition maximum_of :: "('a \<Rightarrow> int) \<Rightarrow> 'a list \<Rightarrow> int" where
  "maximum_of f rows = foldr (\<lambda>r m. max (f r) m) (tl rows) (f (hd rows))"

definition minimum_of :: "('a \<Rightarrow> int) \<Rightarrow> 'a list \<Rightarrow> int" where
  "minimum_of f rows = foldr (\<lambda>r m. min (f r) m) (tl rows) (f (hd rows))"

definition stat_of :: "string \<Rightarrow> memory_row \<Rightarrow> int" where
  "stat_of k row = (case map_of (m_stat row) k of None \<Rightarrow> 0 | Some n \<Rightarrow> n)"

definition window :: "pyv list \<Rightarrow> int \<Rightarrow> int \<Rightarrow> pyv \<Rightarrow> int \<Rightarrow> memory_window res" where
  "window samples limit_mib shm_mib whole minimum_seconds =
     guard (2 \<le> length samples) ''at least two pod memory samples are required'' (
     bnd (mapM_res (parse_sample limit_mib whole) samples) (\<lambda>parsed.
     let first = hd parsed; final = last parsed in
     bnd (mapM_res (follows first) (zip parsed (tl parsed))) (\<lambda>_.
     bnd (seconds_of (m_ns final - m_ns first)) (\<lambda>seconds.
     guard (\<not> flt_lt seconds (Fin (of_int minimum_seconds))) ''memory observation is too short'' (
     Inr \<lparr>w_samples = length parsed, w_seconds = seconds, w_id = m_id first, w_path = m_path first,
          w_first_ns = m_ns first, w_last_ns = m_ns final, w_first_unix = m_unix first, w_last_unix = m_unix final,
          w_current_max = maximum_of m_current parsed, w_peak = maximum_of m_peak parsed,
          w_stat_max = map (\<lambda>k. (k, maximum_of (stat_of k) parsed)) [''anon'', ''file'', ''shmem''],
          w_available_min = minimum_of m_available parsed,
          w_envelope = maximum_of m_peak parsed + shm_mib * MIB\<rparr>)))))"

section \<open>The serving runs of an observation\<close>

text \<open>A run is identified by its context, concurrency and repetition, three values of the JSON that have to
  be hashable.\<close>

type_synonym run_key = "pyv list"

definition same_key :: "run_key \<Rightarrow> run_key \<Rightarrow> bool" where
  "same_key a b = list_all2 py_eq a b"

definition hashed :: "run_key \<Rightarrow> run_key res" where
  "hashed k = (if list_all (\<lambda>v. \<not> is_list v \<and> \<not> is_dict v) k then Inr k else Inl TypeError)"

fun key_set :: "(run_key \<times> pyv) list \<Rightarrow> run_key \<Rightarrow> pyv \<Rightarrow> (run_key \<times> pyv) list" where
  "key_set [] k v = [(k, v)]"
| "key_set ((k', v') # d) k v = (if same_key k' k then (k', v) # d else (k', v') # key_set d k v)"

definition key_find :: "(run_key \<times> pyv) list \<Rightarrow> run_key \<Rightarrow> pyv option" where
  "key_find d k = map_option snd (find (\<lambda>kv. same_key (fst kv) k) d)"

definition py_range :: "pyv \<Rightarrow> pyv list res" where
  "py_range v = (case int_val v of None \<Rightarrow> Inl TypeError | Some n \<Rightarrow> Inr (map (\<lambda>i. PInt (int i)) [0..<nat n]))"

definition expected_case :: "pyv \<Rightarrow> (run_key \<times> pyv) list \<Rightarrow> pyv \<Rightarrow> (run_key \<times> pyv) list res" where
  "expected_case workload acc c =
     bnd (bnd (py_item workload ''concurrency'') py_iter) (\<lambda>concurrency.
     foldM_res (\<lambda>acc count. bnd (bnd (py_item workload ''repetitions'') py_range) (\<lambda>repeats.
       foldM_res (\<lambda>acc repeat. bnd (py_item c ''context_tokens'') (\<lambda>context. bnd (py_item c ''output_tokens'') (\<lambda>output.
         bnd (hashed [context, count, repeat]) (\<lambda>k. Inr (key_set acc k output))))) acc repeats)) acc concurrency)"

definition expected_runs :: "pyv \<Rightarrow> (run_key \<times> pyv) list res" where
  "expected_runs workload = bnd (bnd (py_item workload ''cases'') py_iter) (foldM_res (expected_case workload) [])"

definition finite_positive :: "pyv \<Rightarrow> bool res" where
  "finite_positive v = andM (andM (Inr (is_number v)) (py_isfinite v)) (py_lt (PInt 0) v)"

definition check_timed_request :: "pyv \<Rightarrow> pyv \<Rightarrow> unit res" where
  "check_timed_request output request =
     guardM (bnd (py_item request ''ok'') (\<lambda>ok. andM (Inr (ok = PBool True)) (bnd (py_item request ''output_tokens'') (\<lambda>n. Inr (py_eq n output)))))
       ''failed or incomplete serving request'' (
     bnd (mapM_res (\<lambda>metric. bnd (py_item request metric) (\<lambda>v. guardM (finite_positive v) ''invalid serving timing'' (Inr ())))
       [''ttft_seconds'', ''latency_seconds'']) (\<lambda>_. Inr ()))"

definition check_requests :: "pyv \<Rightarrow> pyv \<Rightarrow> pyv \<Rightarrow> unit res" where
  "check_requests workload run output =
     guardM (bnd (py_item run ''wall_seconds'') finite_positive) ''invalid serving workload duration'' (
     bnd (py_item run ''requests'') (\<lambda>requests.
     guardM (bnd (py_len requests) (\<lambda>n. bnd (py_item run ''concurrency'') (\<lambda>c. bnd (py_item workload ''requests_per_worker'') (\<lambda>w.
              bnd (py_mul c w) (\<lambda>m. Inr (py_eq (PInt (int n)) m)))))) ''missing serving requests'' (
     bnd (bnd (py_iter requests) (mapM_res (check_timed_request output))) (\<lambda>_. Inr ()))))"

definition check_serving_run :: "pyv \<Rightarrow> (run_key \<times> pyv) list \<Rightarrow> run_key list \<Rightarrow> pyv \<Rightarrow> run_key list res" where
  "check_serving_run workload expected seen run =
     bnd (mapM_res (py_item run) [''context_tokens'', ''concurrency'', ''repetition'']) (\<lambda>key. bnd (hashed key) (\<lambda>key.
     guardM (andM (Inr (key_find expected key \<noteq> None \<and> \<not> list_ex (same_key key) seen))
              (andM (bnd (py_item run ''failures'') (\<lambda>f. Inr (py_eq f (PInt 0))))
                (bnd (py_item run ''cache_state_verified'') (\<lambda>v. Inr (v = PBool True)))))
       ''failed, missing or duplicate serving workload cases'' (
     bnd (check_requests workload run (case key_find expected key of None \<Rightarrow> PNone | Some v \<Rightarrow> v)) (\<lambda>_. Inr (seen @ [key])))))"

definition check_runs :: "pyv \<Rightarrow> pyv \<Rightarrow> unit res" where
  "check_runs result workload =
     bnd (expected_runs workload) (\<lambda>expected.
     bnd (bnd (py_item result ''runs'') py_iter) (\<lambda>runs.
     bnd (foldM_res (check_serving_run workload expected) [] runs) (\<lambda>seen.
     guard (list_all (\<lambda>kv. list_ex (same_key (fst kv)) seen) expected) ''missing required serving workload case'' (Inr ()))))"

text \<open>Accepted runs are as many as the keys they leave, no two of them alike, and every case of the workload
  is among them.\<close>

fun all_distinct :: "run_key list \<Rightarrow> bool" where
  "all_distinct [] = True"
| "all_distinct (k # ks) = (\<not> list_ex (\<lambda>l. same_key l k) ks \<and> all_distinct ks)"

lemma all_distinct_snoc: "all_distinct (ks @ [k]) \<longleftrightarrow> all_distinct ks \<and> \<not> list_ex (same_key k) ks"
  by (induction ks) auto

lemma check_serving_run_Inr:
  assumes "check_serving_run workload expected seen run = Inr seen'"
  obtains key where "seen' = seen @ [key]" "\<not> list_ex (same_key key) seen"
  using assms by (auto simp: check_serving_run_def)

lemma serving_runs_distinct:
  "foldM_res (check_serving_run workload expected) seen runs = Inr keys \<Longrightarrow> all_distinct seen
   \<Longrightarrow> all_distinct keys \<and> length keys = length seen + length runs"
proof (induction runs arbitrary: seen)
  case (Cons run runs)
  then obtain mid where mid: "check_serving_run workload expected seen run = Inr mid" "foldM_res (check_serving_run workload expected) mid runs = Inr keys"
    by (auto split: sum.splits)
  from check_serving_run_Inr [OF mid(1)] Cons.prems(2) obtain key where "mid = seen @ [key]" "all_distinct mid"
    by (metis all_distinct_snoc)
  with Cons.IH [OF mid(2)] show ?case by simp
qed simp

lemma check_runs_complete:
  assumes "check_runs result workload = Inr ()"
  shows "\<exists>runs expected keys. bnd (py_item result ''runs'') py_iter = Inr runs \<and> expected_runs workload = Inr expected
     \<and> all_distinct keys \<and> length keys = length runs \<and> (\<forall>kv \<in> set expected. \<exists>k \<in> set keys. same_key (fst kv) k)"
proof -
  from assms obtain runs expected keys where r: "bnd (py_item result ''runs'') py_iter = Inr runs" "expected_runs workload = Inr expected"
    "foldM_res (check_serving_run workload expected) [] runs = Inr keys" "list_all (\<lambda>kv. list_ex (same_key (fst kv)) keys) expected"
    unfolding check_runs_def by auto
  with serving_runs_distinct [OF r(3)] show ?thesis by (auto simp: list_all_iff list_ex_iff)
qed

section \<open>The plan\<close>

definition resource_memory :: "pyv \<Rightarrow> pyv res" where
  "resource_memory resource =
     bnd (py_item resource ''memory'') (\<lambda>memory.
     bnd (mapM_res (integer_item memory) [''host_reserve_mib'', ''kube_reserve_mib'', ''eviction_mib'']) (\<lambda>rs.
     let d = dict_of_v resource; reserves = sum_list rs in
     guardM (andM (Inr (py_eq (dget d ''schema_version'') (PInt 1) \<and> dget d ''status'' = PStr ''offline-plan-not-applied''
                        \<and> py_eq (dget d ''gpu_count'') (PInt 2)))
              (bnd (integer_item memory ''allocatable_mib'') (\<lambda>a.
               andM (Inr (0 < a)) (bnd (integer_item memory ''total_mib'') (\<lambda>t. Inr (a = t - reserves \<and> 0 < reserves))))))
       ''require the existing discovered two-GPU resource plan with host headroom'' (Inr memory)))"

definition POD_KEYS :: "string list" where
  "POD_KEYS = [''uid'', ''node'', ''image'', ''image_id'', ''started_at'', ''container_id'', ''restart_count'']"

definition pod_identity :: "pyv \<Rightarrow> pydict res" where
  "pod_identity pod =
     (case pod of
        PDict d \<Rightarrow>
          guardM (andM (Inr (list_all (\<lambda>k. dget d k \<noteq> PNone \<and> dget d k \<noteq> PStr []) POD_KEYS))
                   (bnd (bnd (item d ''restart_count'') integer) (\<lambda>n. Inr (n = 0))))
            ''require a fresh, identifiable pod without container restarts'' (
          guardM (case dget d ''uid'' of PStr s \<Rightarrow> Inr (uuid_string s) | _ \<Rightarrow> Inl TypeError) ''require the actual pod UUID''
            (Inr (map (\<lambda>k. (k, dget d k)) POD_KEYS)))
      | _ \<Rightarrow> Inl AttributeError)"

record margins =
  g_other :: int
  g_margin :: int
  g_percent :: int
  g_seconds :: int

definition check_margins :: "margins \<Rightarrow> unit res" where
  "check_margins g =
     bnd (mapM_res integer [PInt (g_other g), PInt (g_margin g), PInt (g_percent g), PInt (g_seconds g)]) (\<lambda>_.
     guard (512 \<le> g_margin g \<and> 10 \<le> g_percent g \<and> g_percent g \<le> 100 \<and> 30 \<le> g_seconds g \<and> g_seconds g \<le> 21600)
       ''require >=512 MiB and 10..100 percent headroom, 30..21600 seconds steady observation'' (Inr ()))"

text \<open>One observation: the state of the caches at its start, the samples of the startup and those of the
  serving window.\<close>

type_synonym observation = "string \<times> pyv list \<times> pyv list"

definition observed_windows :: "int \<Rightarrow> int \<Rightarrow> pyv \<Rightarrow> int \<Rightarrow> observation \<Rightarrow> (string \<times> memory_window \<times> memory_window) res" where
  "observed_windows old shm whole minimum_seconds ob =
     (case ob of (phase, startup_samples, steady_samples) \<Rightarrow>
       bnd (window startup_samples old shm whole 0) (\<lambda>startup.
       bnd (window steady_samples old shm whole minimum_seconds) (\<lambda>steady.
       guard (w_id startup = w_id steady \<and> py_eq (w_path startup) (w_path steady) \<and> w_last_unix startup \<le> w_first_unix steady)
         ''startup and serving windows overlap or describe different cgroups'' (Inr (phase, startup, steady)))))"

definition py_ceil :: "flt \<Rightarrow> int res" where
  "py_ceil f = (case f of Fin q \<Rightarrow> Inr \<lceil>q\<rceil> | Inf _ \<Rightarrow> Inl OverflowError | NaN \<Rightarrow> Inl (ValueError ''cannot convert float NaN to integer''))"

record memory_budget =
  b_envelope :: int
  b_safety :: int
  b_proposed :: int
  b_selected :: int

definition windows_of :: "(string \<times> memory_window \<times> memory_window) list \<Rightarrow> memory_window list" where
  "windows_of records = concat (map (\<lambda>(phase, startup, steady). [startup, steady]) records)"

definition phase_count :: "string \<Rightarrow> (string \<times> memory_window \<times> memory_window) list \<Rightarrow> nat" where
  "phase_count phase records = length (filter (\<lambda>r. fst r = phase) records)"

definition plan_budget ::
  "int \<Rightarrow> pyv \<Rightarrow> margins \<Rightarrow> pyv option \<Rightarrow> (string \<times> memory_window \<times> memory_window) list \<Rightarrow> memory_budget res" where
  "plan_budget old memory g memory_mib records =
     guard (2 \<le> phase_count ''cold'' records \<and> 2 \<le> phase_count ''warm'' records \<and> length records \<le> 20)
       ''require at least two cold and two warm fresh-pod observations, maximum twenty total'' (
     let envelope = maximum_of w_envelope (windows_of records) in
     bnd (bnd (int_truediv (envelope * g_percent g) 100) py_ceil) (\<lambda>part.
     let safety = max (g_margin g * MIB) part in
     bnd (bnd (int_truediv (envelope + safety) (256 * MIB)) py_ceil) (\<lambda>blocks.
     let proposed = blocks * 256 in
     bnd (case memory_mib of None \<Rightarrow> Inr proposed | Some v \<Rightarrow> integer v) (\<lambda>selected.
     guard (proposed \<le> selected \<and> selected < old)
       ''no justified reduction fits; selected memory must cover evidence plus headroom and be below baseline'' (
     guardM (bnd (py_item memory ''allocatable_mib'') (\<lambda>a. notM (py_gt (PInt (selected + g_other g)) a)))
       ''candidate plus other workloads exceeds the discovered resource plan''
       (Inr \<lparr>b_envelope = envelope, b_safety = safety, b_proposed = proposed, b_selected = selected\<rparr>))))))"

text \<open>The numeric course of \<open>plan\<close>: the limits \<open>old\<close> and \<open>shm\<close> of the deployment are given in MiB.\<close>

definition memory_plan :: "int \<Rightarrow> int \<Rightarrow> pyv \<Rightarrow> margins \<Rightarrow> pyv option \<Rightarrow> observation list \<Rightarrow> memory_budget res" where
  "memory_plan old shm resource g memory_mib observations =
     bnd (check_margins g) (\<lambda>_.
     guard (0 < shm \<and> shm < old) ''shared memory must fit inside the pod budget'' (
     bnd (resource_memory resource) (\<lambda>memory. bnd (py_item memory ''total_mib'') (\<lambda>whole.
     guard (list_all (\<lambda>ob. fst ob \<in> {''cold'', ''warm''}) observations)
       ''require successful memory-enabled cold/warm startup and serving records'' (
     bnd (mapM_res (observed_windows old shm whole (g_seconds g)) observations) (plan_budget old memory g memory_mib))))))"

section \<open>What an accepted plan covers\<close>

lemma maximum_of_ge: "r \<in> set rows \<Longrightarrow> f r \<le> maximum_of f rows"
proof (cases rows)
  case (Cons a rs)
  have "f a \<le> foldr (\<lambda>r m. max (f r) m) rs (f a)" "\<And>x. x \<in> set rs \<Longrightarrow> f x \<le> foldr (\<lambda>r m. max (f r) m) rs (f a)"
    by (induction rs) (auto simp: le_max_iff_disj)
  then show "r \<in> set rows \<Longrightarrow> ?thesis" using Cons by (auto simp: maximum_of_def)
qed simp

lemma maximum_of_le: "rows \<noteq> [] \<Longrightarrow> (\<And>r. r \<in> set rows \<Longrightarrow> f r \<le> b) \<Longrightarrow> maximum_of f rows \<le> b"
proof -
  have "foldr (\<lambda>r m. max (f r) m) rs x \<le> b" if "x \<le> b" "\<And>r. r \<in> set rs \<Longrightarrow> f r \<le> b" for rs x
    using that by (induction rs) auto
  then show "rows \<noteq> [] \<Longrightarrow> (\<And>r. r \<in> set rows \<Longrightarrow> f r \<le> b) \<Longrightarrow> maximum_of f rows \<le> b"
    by (cases rows) (auto simp: maximum_of_def)
qed

lemma parse_sample_Inr:
  assumes "parse_sample limit whole sample = Inr row"
  shows "0 < m_current row" "m_current row \<le> m_peak row" "m_peak row \<le> limit * MIB"
  using assms unfolding parse_sample_def row_of_def by auto

lemma window_Inr:
  assumes "window samples limit shm whole seconds = Inr w"
  shows "\<forall>s \<in> set samples. \<exists>row. parse_sample limit whole s = Inr row \<and> m_peak row \<le> w_peak w"
    "w_peak w \<le> limit * MIB" "0 < w_peak w" "w_envelope w = w_peak w + shm * MIB"
proof -
  from assms obtain rows where rows: "mapM_res (parse_sample limit whole) samples = Inr rows" "2 \<le> length samples"
    and w: "w_peak w = maximum_of m_peak rows" "w_envelope w = maximum_of m_peak rows + shm * MIB"
    by (auto simp: window_def Let_def)
  have ne: "rows \<noteq> []" using rows mapM_res_length by fastforce
  have bound: "0 < m_peak r \<and> m_peak r \<le> limit * MIB" if "r \<in> set rows" for r
    using mapM_res_set [OF rows(1) that] parse_sample_Inr by fastforce
  show "\<forall>s \<in> set samples. \<exists>row. parse_sample limit whole s = Inr row \<and> m_peak row \<le> w_peak w"
    using mapM_res_image [OF rows(1)] maximum_of_ge w(1) by fastforce
  show "w_peak w \<le> limit * MIB" using ne bound w by (auto intro: maximum_of_le)
  show "0 < w_peak w" using ne bound w maximum_of_ge [of "hd rows" rows m_peak] by (fastforce simp: neq_Nil_conv)
  show "w_envelope w = w_peak w + shm * MIB" using w by simp
qed

lemma py_ceil_Inr: "py_ceil f = Inr n \<longleftrightarrow> (\<exists>q. f = Fin q \<and> n = \<lceil>q\<rceil>)"
  by (auto simp: py_ceil_def split: flt.splits)

lemma int_truediv_Inr:
  assumes "int_truediv i j = Inr f" shows "to_float (of_int i / of_int j) = f"
  using assms by (auto simp: int_truediv_def split: if_splits flt.splits)

lemma ceil_quotient_Inr:
  assumes "bnd (int_truediv i j) py_ceil = Inr n"
  obtains q where "to_float (of_int i / of_int j) = Fin q" "n = \<lceil>q\<rceil>"
proof -
  from assms obtain f where f: "int_truediv i j = Inr f" "py_ceil f = Inr n" by auto
  from f(2) obtain q where "f = Fin q" "n = \<lceil>q\<rceil>" using py_ceil_Inr by blast
  with int_truediv_Inr [OF f(1)] show thesis using that by blast
qed

text \<open>\<open>math.ceil(i / j)\<close> in floats never falls below the whole quotient, and not above a bound that is an
  integer; for a power of two it is exact.\<close>

lemma small_quotient: "0 \<le> i \<Longrightarrow> i \<le> 2 ^ 60 \<Longrightarrow> 0 < j \<Longrightarrow> \<bar>of_int i / of_int j :: rat\<bar> \<le> 2 ^ 1023"
proof -
  assume i: "0 \<le> i" "i \<le> 2 ^ 60" and j: "0 < j"
  have "(of_int i / of_int j :: rat) \<le> of_int i" using i j by (simp add: divide_le_eq mult_le_cancel_left1)
  also have "(of_int i :: rat) \<le> of_int (2 ^ 60)" using i by (simp only: of_int_le_iff)
  also have "\<dots> \<le> 2 ^ 1023" by simp
  finally show ?thesis using i j by simp
qed

lemma ceil_quotient:
  assumes "bnd (int_truediv i j) py_ceil = Inr n" "0 \<le> i" "i \<le> 2 ^ 60" "0 < j" "i div j \<le> 2 ^ 53"
  shows "i div j \<le> n" "i \<le> b * j \<Longrightarrow> \<bar>b\<bar> \<le> 2 ^ 53 \<Longrightarrow> n \<le> b"
proof -
  obtain q where q: "to_float (of_int i / of_int j) = Fin q" "n = \<lceil>q\<rceil>" by (rule ceil_quotient_Inr [OF assms(1)])
  then have r: "q = rnd (of_int i / of_int j)" using to_float_small [OF small_quotient [OF assms(2-4)]] by simp
  have "i div j * j \<le> i" using assms(4) minus_mod_eq_div_mult [of i j] pos_mod_sign [of j i] by linarith
  then have "(of_int (i div j * j) :: rat) \<le> of_int i" by (simp only: of_int_le_iff)
  then have floor: "(of_int (i div j) :: rat) \<le> of_int i / of_int j" using assms(4) by (simp add: pos_le_divide_eq)
  have "0 \<le> i div j" using assms(2,4) by (simp add: pos_imp_zdiv_nonneg_iff)
  then have "rnd (of_int (i div j)) = of_int (i div j)" using assms(5) by (intro rnd_of_int) simp
  with rnd_mono [OF floor] r have "of_int (i div j) \<le> q" by simp
  then show "i div j \<le> n" using q(2) by linarith
  assume b: "i \<le> b * j" "\<bar>b\<bar> \<le> 2 ^ 53"
  have "(of_int i :: rat) \<le> of_int (b * j)" using b(1) by (simp only: of_int_le_iff)
  then have "(of_int i / of_int j :: rat) \<le> of_int b" using assms(4) by (simp add: divide_le_eq)
  from rnd_mono [OF this] rnd_of_int [OF b(2)] r show "n \<le> b" using q(2) by (simp add: ceiling_le_iff)
qed

lemma ceil_blocks:
  assumes "bnd (int_truediv i (256 * MIB)) py_ceil = Inr n" "0 \<le> i" "i \<le> 2 ^ 53"
  shows "i \<le> n * (256 * MIB)"
proof -
  obtain q where q: "to_float (of_int i / of_int (256 * MIB)) = Fin q" "n = \<lceil>q\<rceil>" by (rule ceil_quotient_Inr [OF assms(1)])
  have j: "0 < 256 * MIB" by (simp add: MIB_def)
  have le60: "i \<le> 2 ^ 60" using assms(3) by simp
  have m: "of_int (256 * MIB) = (268435456 :: rat)" by (simp add: MIB_def)
  have p: "(2 :: rat) powi (- 28) = 1 / 268435456" by (simp add: power_int_def power_one_over)
  have "rnd (of_int i * 2 powi (- 28)) = of_int i * 2 powi (- 28)"
    by (rule rnd_dyadic) (use assms(2,3) in simp_all)
  then have e: "rnd (of_int i / of_int (256 * MIB)) = of_int i / of_int (256 * MIB)" unfolding m p by (simp only: times_divide_eq_right mult_1_right)
  have "Fin q = Fin (rnd (of_int i / of_int (256 * MIB)))"
    using q(1) to_float_small [OF small_quotient [OF assms(2) le60 j]] by (rule trans [OF sym])
  then have "q = of_int i / of_int (256 * MIB)" unfolding e by (rule flt.inject(1) [THEN iffD1])
  then have "of_int i / of_int (256 * MIB) \<le> (of_int n :: rat)" using q(2) by (simp only: le_of_int_ceiling)
  then have "(of_int i :: rat) \<le> of_int n * of_int (256 * MIB)" unfolding m by (simp add: divide_le_eq)
  then have "(of_int i :: rat) \<le> of_int (n * (256 * MIB))" by (simp only: of_int_mult)
  then show ?thesis by (simp only: of_int_le_iff)
qed

lemma plan_budget_Inr:
  assumes "plan_budget old memory g memory_mib records = Inr b"
  obtains part blocks where "bnd (int_truediv (b_envelope b * g_percent g) 100) py_ceil = Inr part"
    "b_safety b = max (g_margin g * MIB) part" "bnd (int_truediv (b_envelope b + b_safety b) (256 * MIB)) py_ceil = Inr blocks"
    "b_envelope b = maximum_of w_envelope (windows_of records)" "windows_of records \<noteq> []" "b_proposed b = blocks * 256"
    "b_proposed b \<le> b_selected b" "b_selected b < old"
    "\<exists>a. py_item memory ''allocatable_mib'' = Inr a \<and> py_lt a (PInt (b_selected b + g_other g)) = Inr False"
proof -
  have "records \<noteq> []" using assms by (auto simp: plan_budget_def phase_count_def)
  then have "windows_of records \<noteq> []" by (cases records) (auto simp: windows_of_def)
  with assms show thesis using that unfolding plan_budget_def Let_def by auto
qed

lemma resource_memory_Inr:
  assumes "resource_memory resource = Inr memory"
  shows "py_item resource ''memory'' = Inr memory" "\<exists>n. integer_item memory ''allocatable_mib'' = Inr n"
  using assms by (auto simp: resource_memory_def Let_def)

lemma observed_windows_Inr:
  assumes "observed_windows old shm whole seconds ob = Inr r"
  shows "\<exists>startup steady. r = (fst ob, startup, steady) \<and> window (fst (snd ob)) old shm whole 0 = Inr startup
     \<and> window (snd (snd ob)) old shm whole seconds = Inr steady"
  using assms by (cases ob) (auto simp: observed_windows_def)

text \<open>The headroom is what the owner asked for, and the plan is large enough for it: the sizes are below
  the precision of a float.\<close>

lemma budget_covers:
  assumes budget: "plan_budget old memory g memory_mib records = Inr b" and g: "check_margins g = Inr ()"
    and small: "g_margin g \<le> 2 ^ 30" "0 \<le> b_envelope b" "b_envelope b \<le> 2 ^ 51"
  shows "b_envelope b + max (g_margin g * MIB) (b_envelope b * g_percent g div 100) \<le> b_selected b * MIB"
proof (rule plan_budget_Inr [OF budget])
  fix part blocks
  assume part: "bnd (int_truediv (b_envelope b * g_percent g) 100) py_ceil = Inr part"
    and safety: "b_safety b = max (g_margin g * MIB) part"
    and blocks: "bnd (int_truediv (b_envelope b + b_safety b) (256 * MIB)) py_ceil = Inr blocks"
    and chosen: "b_proposed b = blocks * 256" "b_proposed b \<le> b_selected b"
  have percent: "512 \<le> g_margin g" "10 \<le> g_percent g" "g_percent g \<le> 100" using g by (auto simp: check_margins_def)
  have top: "b_envelope b * g_percent g \<le> b_envelope b * 100" using small(2) percent by (intro mult_left_mono) simp_all
  have range: "0 \<le> b_envelope b * g_percent g" "b_envelope b * g_percent g \<le> 2 ^ 60"
    using small(2,3) percent top by simp_all
  have "b_envelope b * g_percent g div 100 \<le> 2 ^ 53" using top small(3) by simp
  note bounds = ceil_quotient [OF part range _ this]
  have fits: "b_envelope b * g_percent g div 100 \<le> part" "part \<le> b_envelope b"
    using bounds(1) bounds(2) [of "b_envelope b"] top small(2,3) by simp_all
  have "g_margin g * MIB \<le> 2 ^ 30 * MIB" using small(1) by (simp add: MIB_def)
  then have "0 \<le> b_envelope b + b_safety b" "b_envelope b + b_safety b \<le> 2 ^ 53"
    using small(2,3) fits(2) percent(1) by (simp_all add: safety MIB_def)
  from ceil_blocks [OF blocks this] have "b_envelope b + b_safety b \<le> b_proposed b * MIB" using chosen(1) by (simp add: mult.assoc)
  also have "\<dots> \<le> b_selected b * MIB" using chosen(2) by (simp add: MIB_def)
  finally show ?thesis using safety fits(1) by linarith
qed

definition covered :: "int \<Rightarrow> int \<Rightarrow> pyv \<Rightarrow> int \<Rightarrow> int \<Rightarrow> pyv \<Rightarrow> bool" where
  "covered old shm whole headroom selected sample =
     (case parse_sample old whole sample of
        Inl _ \<Rightarrow> False
      | Inr row \<Rightarrow> 0 < m_current row \<and> m_current row \<le> m_peak row \<and> m_peak row + shm * MIB + headroom \<le> selected * MIB)"

lemma window_covered:
  assumes "window samples old shm whole seconds = Inr w" "w_envelope w + headroom \<le> selected * MIB"
  shows "list_all (covered old shm whole headroom selected) samples"
proof (unfold list_all_iff, intro ballI)
  fix s assume "s \<in> set samples"
  with window_Inr(1) [OF assms(1)] obtain row where row: "parse_sample old whole s = Inr row" "m_peak row \<le> w_peak w" by blast
  with parse_sample_Inr [OF row(1)] window_Inr(4) [OF assms(1)] assms(2) show "covered old shm whole headroom selected s"
    by (simp add: covered_def)
qed

lemma windows_of_mem: "(phase, startup, steady) \<in> set records \<Longrightarrow> {startup, steady} \<subseteq> set (windows_of records)"
  by (force simp: windows_of_def)

lemma observation_covered:
  assumes records: "mapM_res (observed_windows old shm whole seconds) observations = Inr records"
    and ob: "(phase, startup, steady) \<in> set observations"
    and fit: "\<And>w. w \<in> set (windows_of records) \<Longrightarrow> w_envelope w + headroom \<le> selected * MIB"
  shows "list_all (covered old shm whole headroom selected) (startup @ steady)"
proof -
  from mapM_res_image [OF records ob] obtain r where r: "r \<in> set records" "observed_windows old shm whole seconds (phase, startup, steady) = Inr r" by blast
  from observed_windows_Inr [OF r(2)] obtain v w where v: "r = (phase, v, w)"
    "window startup old shm whole 0 = Inr v" "window steady old shm whole seconds = Inr w" by auto
  with r(1) have "v \<in> set (windows_of records)" "w \<in> set (windows_of records)" using windows_of_mem [of phase v w records] by auto
  with fit window_covered [OF v(2)] window_covered [OF v(3)] show ?thesis by simp
qed

text \<open>C26: a plan only ever reduces the limit, fits the host with the other workloads, and covers all the
  evidence: in every sample of every window, of the startup and of the serving, the peak together with
  all of the shared memory and the headroom (the owner's margin of at least 512 MiB or their share of the
  largest envelope) is within the selected limit. The divisions are floats, so the limit and the margin
  are taken to be below a pebibyte.\<close>

theorem memory_plan_covers_evidence:
  assumes plan: "memory_plan old shm resource g memory_mib observations = Inr b"
    and small: "old \<le> 2 ^ 30" "g_margin g \<le> 2 ^ 30"
  shows "b_selected b < old \<and> 512 \<le> g_margin g
     \<and> (\<exists>memory n whole. py_item resource ''memory'' = Inr memory \<and> py_item memory ''allocatable_mib'' = Inr (PInt n)
          \<and> b_selected b + g_other g \<le> n \<and> py_item memory ''total_mib'' = Inr whole
          \<and> list_all (\<lambda>(phase, startup, steady). list_all (covered old shm whole
                (max (g_margin g * MIB) (b_envelope b * g_percent g div 100)) (b_selected b)) (startup @ steady)) observations)"
proof -
  from plan obtain memory whole records where g: "check_margins g = Inr ()" and shm: "0 < shm" "shm < old"
    and memory: "resource_memory resource = Inr memory" and whole: "py_item memory ''total_mib'' = Inr whole"
    and records: "mapM_res (observed_windows old shm whole (g_seconds g)) observations = Inr records"
    and budget: "plan_budget old memory g memory_mib records = Inr b"
    unfolding memory_plan_def by auto
  have win: "\<exists>samples seconds. window samples old shm whole seconds = Inr w" if w: "w \<in> set (windows_of records)" for w
  proof -
    from w obtain phase startup steady where r: "(phase, startup, steady) \<in> set records" "w = startup \<or> w = steady"
      by (auto simp: windows_of_def)
    from mapM_res_set [OF records r(1)] obtain ob where "observed_windows old shm whole (g_seconds g) ob = Inr (phase, startup, steady)" by blast
    with observed_windows_Inr r(2) show ?thesis by blast
  qed
  have range: "0 \<le> w_envelope w" "w_envelope w \<le> 2 ^ 51" if "w \<in> set (windows_of records)" for w
    using win [OF that] window_Inr(2-4) shm small(1) by (fastforce simp: MIB_def)+
  show ?thesis
  proof (rule plan_budget_Inr [OF budget])
    fix part blocks
    assume envelope: "b_envelope b = maximum_of w_envelope (windows_of records)" and ne: "windows_of records \<noteq> []"
      and less: "b_selected b < old" and fit: "\<exists>a. py_item memory ''allocatable_mib'' = Inr a \<and> py_lt a (PInt (b_selected b + g_other g)) = Inr False"
    have "0 \<le> b_envelope b" "b_envelope b \<le> 2 ^ 51"
      using range ne maximum_of_ge [of "hd (windows_of records)" "windows_of records" w_envelope] maximum_of_le [of "windows_of records" w_envelope "2 ^ 51"] envelope
      by (force simp: neq_Nil_conv)+
    note covers = budget_covers [OF budget g small(2) this]
    have ob: "list_all (covered old shm whole (max (g_margin g * MIB) (b_envelope b * g_percent g div 100)) (b_selected b)) (startup @ steady)"
      if "(phase, startup, steady) \<in> set observations" for phase startup steady
    proof (rule observation_covered [OF records that])
      fix w assume "w \<in> set (windows_of records)"
      then have "w_envelope w \<le> b_envelope b" unfolding envelope by (rule maximum_of_ge)
      with covers show "w_envelope w + max (g_margin g * MIB) (b_envelope b * g_percent g div 100) \<le> b_selected b * MIB" by linarith
    qed
    from fit obtain a where a: "py_item memory ''allocatable_mib'' = Inr a" "py_lt a (PInt (b_selected b + g_other g)) = Inr False" by blast
    from resource_memory_Inr [OF memory] a(1) obtain n where "py_item resource ''memory'' = Inr memory" "integer a = Inr n"
      by (auto simp: integer_item_def)
    moreover from this a(2) obtain m where "a = PInt m" "b_selected b + g_other g \<le> m"
      by (cases a) (auto simp: integer_def py_lt_def not_less simp flip: of_int_add)
    moreover have "512 \<le> g_margin g" using g by (auto simp: check_margins_def)
    ultimately show ?thesis using less a(1) whole ob by (fastforce simp: list_all_iff)
  qed
qed

text \<open>A pod with 8 GiB that never used more than one, seen cold and warm twice.\<close>

definition mp_text :: "string list \<Rightarrow> pyv" where
  "mp_text ls = PStr (concat (map (\<lambda>l. l @ [CHR 0x0A]) ls))"

definition mp_sample :: "int \<Rightarrow> pyv" where
  "mp_sample ns = PDict [(''pod_cgroup'', PDict [(''id'', PStr ''1:2''), (''path'', PStr ''/pod''),
     (''values'', PDict [(''memory.current'', PStr ''1000000000''), (''memory.peak'', PStr ''1073741824''), (''memory.max'', PStr ''8589934592''),
        (''memory.stat'', mp_text [''anon 5'', ''file 4'', ''shmem 2'']), (''memory.events'', mp_text [''high 0'', ''max 0'', ''oom 0'', ''oom_kill 0'']),
        (''memory.swap.current'', PInt 0), (''memory.pressure'', mp_text [''some total=1'', ''full total=0''])])]),
     (''host_memory'', mp_text [''MemTotal: 67108864 kB'', ''MemAvailable: 9 kB'', ''SwapTotal: 0 kB'']),
     (''monotonic_ns'', PInt ns), (''unix_ns'', PInt (7 + ns))]"

definition mp_observation :: "string \<Rightarrow> observation" where
  "mp_observation phase = (phase, [mp_sample 0, mp_sample 1000000000], [mp_sample 2000000000, mp_sample 32000000000])"

definition mp_resource :: pyv where
  "mp_resource = PDict [(''schema_version'', PInt 1), (''status'', PStr ''offline-plan-not-applied''), (''gpu_count'', PInt 2),
     (''memory'', PDict [(''host_reserve_mib'', PInt 4000), (''kube_reserve_mib'', PInt 1000), (''eviction_mib'', PInt 536),
        (''allocatable_mib'', PInt 60000), (''total_mib'', PInt 65536)])]"

definition mp_margins :: margins where
  "mp_margins = \<lparr>g_other = 1000, g_margin = 2048, g_percent = 25, g_seconds = 30\<rparr>"

definition mp_row :: "int \<Rightarrow> memory_row" where
  "mp_row ns = \<lparr>m_id = ''1:2'', m_path = PStr ''/pod'', m_ns = ns, m_unix = 7 + ns, m_current = 1000000000, m_peak = 1073741824,
     m_stat = [(''anon'', 5), (''file'', 4), (''shmem'', 2)], m_psi = [(''some'', 1), (''full'', 0)], m_available = 9216\<rparr>"

definition mp_window :: "int \<Rightarrow> int \<Rightarrow> memory_window" where
  "mp_window a b = \<lparr>w_samples = 2, w_seconds = Fin (of_int (b - a) / 1000000000), w_id = ''1:2'', w_path = PStr ''/pod'',
     w_first_ns = a, w_last_ns = b, w_first_unix = 7 + a, w_last_unix = 7 + b, w_current_max = 1000000000, w_peak = 1073741824,
     w_stat_max = [(''anon'', 5), (''file'', 4), (''shmem'', 2)], w_available_min = 9216, w_envelope = 2147483648\<rparr>"

lemma mp_parsed:
  "parse_sample 8192 (PInt 65536) (mp_sample 0) = Inr (mp_row 0)" "parse_sample 8192 (PInt 65536) (mp_sample 1000000000) = Inr (mp_row 1000000000)"
  "parse_sample 8192 (PInt 65536) (mp_sample 2000000000) = Inr (mp_row 2000000000)"
  "parse_sample 8192 (PInt 65536) (mp_sample 32000000000) = Inr (mp_row 32000000000)"
  by code_simp+

lemma mp_followed:
  "follows (mp_row 0) (mp_row 0, mp_row 1000000000) = Inr ()"
  "follows (mp_row 2000000000) (mp_row 2000000000, mp_row 32000000000) = Inr ()"
  by code_simp+

lemma mp_seconds: "seconds_of 1000000000 = Inr (Fin 1)" "seconds_of 30000000000 = Inr (Fin 30)"
  by code_simp+

lemma mp_windows:
  "window [mp_sample 0, mp_sample 1000000000] 8192 1024 (PInt 65536) 0 = Inr (mp_window 0 1000000000)"
  "window [mp_sample 2000000000, mp_sample 32000000000] 8192 1024 (PInt 65536) 30 = Inr (mp_window 2000000000 32000000000)"
proof -
  have m: "maximum_of f [a, b] = max (f b) (f a)" "minimum_of f [a, b] = min (f b) (f a)" for f :: "memory_row \<Rightarrow> int" and a b
    by (simp_all add: maximum_of_def minimum_of_def)
  have s: "stat_of k (mp_row a) = stat_of k (mp_row b)" "stat_of ''anon'' (mp_row a) = 5" "stat_of ''file'' (mp_row a) = 4" "stat_of ''shmem'' (mp_row a) = 2" for k a b
    by (simp_all add: stat_of_def mp_row_def)
  have r: "m_id (mp_row n) = ''1:2''" "m_path (mp_row n) = PStr ''/pod''" "m_ns (mp_row n) = n" "m_unix (mp_row n) = 7 + n"
    "m_current (mp_row n) = 1000000000" "m_peak (mp_row n) = 1073741824" "m_available (mp_row n) = 9216" for n
    by (simp_all add: mp_row_def)
  show "window [mp_sample 0, mp_sample 1000000000] 8192 1024 (PInt 65536) 0 = Inr (mp_window 0 1000000000)"
    "window [mp_sample 2000000000, mp_sample 32000000000] 8192 1024 (PInt 65536) 30 = Inr (mp_window 2000000000 32000000000)"
    by (simp_all add: window_def mp_parsed mp_followed r mp_seconds mp_window_def m s(2-4) MIB_def)
qed

lemma mp_observed: "observed_windows 8192 1024 (PInt 65536) 30 (mp_observation phase)
   = Inr (phase, mp_window 0 1000000000, mp_window 2000000000 32000000000)"
  by (simp add: observed_windows_def mp_observation_def mp_windows) (simp add: mp_window_def)

lemma mp_planned: "memory_plan 8192 1024 mp_resource mp_margins None (map mp_observation [''cold'', ''cold'', ''warm'', ''warm''])
   = Inr \<lparr>b_envelope = 2147483648, b_safety = 2147483648, b_proposed = 4096, b_selected = 4096\<rparr>"
proof -
  let ?memory = "PDict [(''host_reserve_mib'', PInt 4000), (''kube_reserve_mib'', PInt 1000), (''eviction_mib'', PInt 536),
     (''allocatable_mib'', PInt 60000), (''total_mib'', PInt 65536)]"
  let ?r = "\<lambda>phase. (phase, mp_window 0 1000000000, mp_window 2000000000 32000000000)"
  have checks: "check_margins mp_margins = Inr ()" "resource_memory mp_resource = Inr ?memory" by code_simp+
  have total: "py_item ?memory ''total_mib'' = Inr (PInt 65536)" "g_seconds mp_margins = 30" by code_simp+
  have windows: "mapM_res (observed_windows 8192 1024 (PInt 65536) 30) (map mp_observation [''cold'', ''cold'', ''warm'', ''warm''])
     = Inr (map ?r [''cold'', ''cold'', ''warm'', ''warm''])" by (simp add: mp_observed)
  have budget: "plan_budget 8192 ?memory mp_margins None (map ?r [''cold'', ''cold'', ''warm'', ''warm''])
     = Inr \<lparr>b_envelope = 2147483648, b_safety = 2147483648, b_proposed = 4096, b_selected = 4096\<rparr>" by code_simp
  have obs: "list_all (\<lambda>ob. fst ob \<in> {''cold'', ''warm''}) (map mp_observation [''cold'', ''cold'', ''warm'', ''warm''])"
    by (simp add: mp_observation_def)
  show ?thesis using obs by (simp only: memory_plan_def checks total windows budget bnd_simps guard_simps) simp
qed

theorem memory_plan_covers_evidence_witness:
  "\<exists>b. memory_plan 8192 1024 mp_resource mp_margins None (map mp_observation [''cold'', ''cold'', ''warm'', ''warm'']) = Inr b
     \<and> b_selected b < 8192"
  using memory_plan_covers_evidence [OF mp_planned] mp_planned by (simp add: mp_margins_def)

end
