(* ===== verification/Owner_Backend.thy ===== *)
theory Owner_Backend
  imports Job_Exchange Latency
begin

text \<open>
  \<open>lib/workstation/hyperloom_owner_backend.py\<close>: the optimizer's side of the owner exchange.
  It reads a pinned binding, checks a benchmark configuration against it, screens a changed
  candidate with a component job before a serving or profile job, and accepts a report only with
  the owner's provenance.  The candidate's files belong to the optimizer and may change at any time:
  the environment gives their contents at every observation.  The controller's answer to a job
  (\<open>exchange.wait_result\<close>) is supplied by the environment.
\<close>

section \<open>The pinned binding\<close>

definition NAME :: string where "NAME = ''workstation_owner''"

definition checked_bytes :: "codec \<Rightarrow> member option \<Rightarrow> pyv \<Rightarrow> nat \<Rightarrow> string res" where
  "checked_bytes c m expected maximum =
     guard (hex_value 64 expected) ''explicit SHA256 required'' (
     case m of
       Some (Regular raw) \<Rightarrow>
         guard (length raw \<le> maximum) ''evidence must be a bounded regular file'' (
         guard (PStr (c_digest c raw) = expected) ''evidence identity changed'' (Inr raw))
     | _ \<Rightarrow> Inl (ValueError ''evidence must be a bounded regular file''))"

definition checked_json :: "codec \<Rightarrow> member option \<Rightarrow> pyv \<Rightarrow> nat \<Rightarrow> pyv res" where
  "checked_json c m expected maximum = bnd (checked_bytes c m expected maximum) (c_decode c)"

text \<open>\<open>exchange._directory\<close> and \<open>Path.is_relative_to\<close> are questions to the file system; an answer
  is the canonical path.\<close>

record paths =
  p_directory :: "pyv \<Rightarrow> string res"
  p_within :: "string \<Rightarrow> string \<Rightarrow> bool"
  p_absolute :: "string \<Rightarrow> bool"
  p_canonical :: "string \<Rightarrow> bool"
  p_file :: "string \<Rightarrow> member option"

definition CALLERS :: "string list" where
  "CALLERS = [''serving'', ''profile'', ''component'']"

definition check_sources_map :: "paths \<Rightarrow> pyv \<Rightarrow> unit res" where
  "check_sources_map fs v =
     guard (case v of PDict d \<Rightarrow> 0 < length d \<and> length d \<le> 64 | _ \<Rightarrow> False) ''declared candidate source closure required'' (
     require (list_all (\<lambda>(name, source). simple_name name \<and> is_str source \<and> p_absolute fs (str_of source)) (dict_of_v v))
       ''candidate source mapping'')"

definition check_benchmark :: "pyv \<Rightarrow> unit res" where
  "check_benchmark fixed =
     guard (case fixed of PDict d \<Rightarrow> dget d ''framework'' = PStr ''sglang'' \<and> dget d ''runner_type'' = PStr ''gfx12''
              \<and> is_str (dget d ''model'') \<and> str_of (dget d ''model'') \<noteq> [] \<and> is_dict (dget d ''envs'')
            | _ \<Rightarrow> False) ''selected SGLang/gfx12 workload required'' (
     require (dget (dict_of_v fixed) ''workstation_workload'' = PStr ''balanced_c1_c2'') ''explicit mixed-concurrency workload required'')"

definition check_callers :: "pyv \<Rightarrow> unit res" where
  "check_callers caps =
     require (case caps of PDict d \<Rightarrow> has_keys d CALLERS
        \<and> list_all (\<lambda>kv. pos_int (snd kv) \<and> int_of (snd kv) \<le> 7160) d | _ \<Rightarrow> False) ''finite caller limits required''"

definition read_binding :: "codec \<Rightarrow> paths \<Rightarrow> bool \<Rightarrow> member option \<Rightarrow> pyv \<Rightarrow> pydict res" where
  "read_binding c fs canonical_path m sha =
     guard canonical_path ''canonical runner binding required'' (
     bnd (checked_json c m sha MAX_JSON) (\<lambda>v.
     bnd (py_get v ''schema'') (\<lambda>schema.
     let b = dict_of_v v in
     guard (schema = PInt 1 \<and> dget b ''backend'' = PStr NAME) ''owner backend binding schema'' (
     bnd (mapM_res (\<lambda>name. identity (dget b name) name)
            [''campaign_sha256'', ''selection_sha256'', ''controller_sha256'', ''runtime_sha256'', ''workload_sha256'']) (\<lambda>_.
     guard (pos_int (dget b ''campaign_deadline_unix_ms'')) ''campaign deadline required'' (
     bnd (bnd (item b ''requests_root'') (p_directory fs)) (\<lambda>requests.
     bnd (bnd (item b ''replies_root'') (p_directory fs)) (\<lambda>replies.
     guard (requests \<noteq> replies \<and> \<not> p_within fs requests replies \<and> \<not> p_within fs replies requests)
       ''separate request/reply roots required'' (
     bnd (check_sources_map fs (dget b ''sources'')) (\<lambda>_.
     bnd (check_benchmark (dget b ''benchmark'')) (\<lambda>_.
     bnd (check_callers (dget b ''caller_seconds'')) (\<lambda>_.
     bnd (check_policy (dget b ''latency_policy'')) (\<lambda>_.
     bnd (identity (dget b ''selected_source_set_sha256'') ''selected source set'') (\<lambda>_.
     bnd (str_in (dget b ''profile_primary_window'') [''decode-0'', ''prefill-1'', ''prefill-2'']) (\<lambda>known.
     guard known ''explicit informative primary trace window required'' (
     guard (dget b ''automatic_retry'' = PBool False \<and> dget b ''adoption_authorized'' = PBool False)
       ''runner cannot retry or adopt'' (Inr b)))))))))))))))))"

section \<open>Benchmark configurations\<close>

definition COMPONENT_CONTRACT :: pyv where
  "COMPONENT_CONTRACT = PDict [(''contract'', PStr ''c4-fixed-geometry-v1'')]"

definition caller_of :: "pydict \<Rightarrow> string \<Rightarrow> pyv res" where
  "caller_of binding kind = bnd (item binding ''caller_seconds'') (\<lambda>caps. py_item caps kind)"

definition profile_kind :: "pyv \<Rightarrow> string res" where
  "profile_kind profiler =
     guard (case profiler of PDict d \<Rightarrow> keyset d \<subseteq> {''torch_profiler''} | _ \<Rightarrow> False)
       ''only the bound Kineto profiling route is supported'' (
     let torch = dget_or (dict_of_v profiler) ''torch_profiler'' (PDict []) in
     guard (case torch of PDict d \<Rightarrow> keyset d \<subseteq> {''enabled''} \<and> is_bool (dget_or d ''enabled'' (PBool False)) | _ \<Rightarrow> False)
       ''profiler policy is owner-bound'' (
     Inr (if dget_or (dict_of_v torch) ''enabled'' (PBool False) = PBool True then ''profile'' else ''serving'')))"

definition component_kind :: "pydict \<Rightarrow> pyv \<Rightarrow> string \<Rightarrow> string res" where
  "component_kind binding component kind =
     (if component = PNone then Inr kind
      else guard (py_eq component COMPONENT_CONTRACT \<and> kind = ''serving'')
             ''one fixed component contract without serving profiling required'' (
           bnd (caller_of binding ''component'') (\<lambda>caller.
           guard (py_eq caller (PInt 2190)) ''component caller is fixed at 2,190 seconds'' (Inr ''component''))))"

definition EXTRAS :: "string list" where
  "EXTRAS = [''profiler'', ''workstation_component'', ''timeout_seconds'', ''result_dir'']"

definition validate_config :: "pydict \<Rightarrow> pydict \<Rightarrow> string res" where
  "validate_config config binding =
     guard (has_keys config [''benchmark''] \<and> is_dict (dget config ''benchmark''))
       ''one explicit benchmark configuration required'' (
     let whole = dict_of_v (dget config ''benchmark'');
         benchmark = foldl dpop whole EXTRAS; timeout = dget whole ''timeout_seconds'' in
     guard (dget whole ''result_dir'' = PNone \<or> is_str (dget whole ''result_dir'')) ''benchmark result directory'' (
     bnd (profile_kind (dget_or whole ''profiler'' (PDict []))) (\<lambda>kind.
     bnd (component_kind binding (dget whole ''workstation_component'') kind) (\<lambda>kind.
     bnd (item binding ''benchmark'') (\<lambda>selected.
     guard (py_eq (PDict benchmark) selected) ''benchmark changed fixed selected workload; owner refused'' (
     guardM (andM (Inr (is_number timeout)) (andM (positive timeout)
              (bnd (caller_of binding kind) (\<lambda>caller. bnd (envelope_seconds (PStr kind) caller) (\<lambda>envelope.
               py_ge timeout (PInt envelope))))))
       ''upstream timeout cannot truncate the caller/closeout envelope'' (Inr kind)))))))"

section \<open>Reports\<close>

definition py_dict :: "pyv \<Rightarrow> pydict res" where
  "py_dict v = (case v of PDict d \<Rightarrow> Inr d | _ \<Rightarrow> Inl TypeError)"

text \<open>\<open>a[k] == b[k]\<close> for every name: a missing name raises.\<close>

definition same_items :: "pydict \<Rightarrow> pydict \<Rightarrow> string list \<Rightarrow> bool res" where
  "same_items a b names = allM (\<lambda>k. bnd (item a k) (\<lambda>x. bnd (item b k) (\<lambda>y. Inr (py_eq x y)))) names"

definition succeeded :: "pydict \<Rightarrow> bool res" where
  "succeeded result = bnd (item result ''status'') (\<lambda>s.
     andM (Inr (s = PStr ''SUCCEEDED'')) (bnd (item result ''independent_release'') (\<lambda>r. Inr (r = PBool True))))"

definition serving_series_ok :: "pydict \<Rightarrow> pydict \<Rightarrow> pydict \<Rightarrow> pydict \<Rightarrow> unit res" where
  "serving_series_ok report result request binding =
     guard (dget report ''diagnostic_only'' = PBool False) ''diagnostic evidence cannot become serving timing'' (
     let observed = dget report ''workstation_latency''; control = dget report ''workstation_latency_control'';
         od = dict_of_v observed; kd = dict_of_v control in
     bnd (bnd (item binding ''latency_policy'') py_dict) (\<lambda>policy.
     bnd (series observed policy) (\<lambda>_.
     guardM (andM (same_items od binding FIXED_IDENTITIES)
              (bnd (item request ''source_set_sha256'') (\<lambda>s. bnd (item result ''owner_seal_sha256'') (\<lambda>seal.
               Inr (py_eq (dget od ''candidate_sha256'') s \<and> py_eq (dget od ''owner_seal_sha256'') seal)))))
       ''latency series provenance mismatch'' (
     bnd (series control policy) (\<lambda>_.
     guardM (andM (Inr (dget kd ''arm'' = PStr ''control'' \<and> dget od ''arm'' = PStr ''mtp''))
              (andM (bnd (item binding ''selected_source_set_sha256'') (\<lambda>s. Inr (py_eq (dget kd ''candidate_sha256'') s)))
                (same_items kd od (FIXED_IDENTITIES @ [''observation_id'', ''owner_seal_sha256'', ''quality_sha256'']))))
       ''same-job selected-C4 control provenance mismatch'' (Inr ()))))))"

definition profile_ok :: "pydict \<Rightarrow> pydict \<Rightarrow> pydict \<Rightarrow> unit res" where
  "profile_ok report result request =
     guard (dget request ''kind'' = PStr ''profile'' \<and> dget report ''diagnostic_only'' = PBool True
            \<and> dget report ''workstation_latency'' = PNone \<and> dget report ''workstation_latency_control'' = PNone)
       ''profiled durations cannot be a selectable latency series'' (
     guardM (case dget report ''profile_coverage'' of
               PDict d \<Rightarrow> andM (Inr (dget d ''complete'' = PBool True))
                 (bnd (item result ''owner_seal_sha256'') (\<lambda>seal. Inr (py_eq (dget d ''owner_seal_sha256'') seal)))
             | _ \<Rightarrow> Inr False) ''incomplete owner profile'' (Inr ()))"

definition owner_bound :: "pyv \<Rightarrow> pydict \<Rightarrow> pydict \<Rightarrow> bool res" where
  "owner_bound owner result request =
     (case owner of
        PDict od \<Rightarrow> andM (bnd (item result ''owner_seal_sha256'') (\<lambda>x. Inr (py_eq (dget od ''owner_seal_sha256'') x)))
          (andM (bnd (item result ''request_sha256'') (\<lambda>x. Inr (py_eq (dget od ''request_sha256'') x)))
            (bnd (item request ''source_set_sha256'') (\<lambda>x. Inr (py_eq (dget od ''source_set_sha256'') x))))
      | _ \<Rightarrow> Inr False)"

definition validate_report :: "pydict \<Rightarrow> pydict \<Rightarrow> pydict \<Rightarrow> pydict res" where
  "validate_report result request binding =
     guardM (succeeded result) ''owner job did not complete and release'' (
     bnd (bnd (item result ''payload'') (\<lambda>p. py_get p ''benchmark_report'')) (\<lambda>v.
     guardM (case v of
               PDict r \<Rightarrow> andM (Inr (dget r ''success'' = PBool True \<and> dget r ''framework'' = PStr ''sglang''))
                 (bnd (item binding ''benchmark'') (\<lambda>b. bnd (py_item b ''model'') (\<lambda>m. Inr (py_eq (dget r ''model'') m))))
             | _ \<Rightarrow> Inr False) ''owner report subject/status mismatch'' (
     let report = dict_of_v v in
     guard (dget report ''benchmark_backend'' = PStr NAME \<and> dget report ''benchmark_valid'' = PBool True)
       ''owner report backend/validity mismatch'' (
     guardM (owner_bound (dget_or report ''owner_binding'' (PDict [])) result request) ''report belongs to another owner job'' (
     bnd (py_get (dget_or report ''quality_gate'' (PDict [])) ''passed'') (\<lambda>passed.
     guard (passed = PBool True) ''owner task quality gate failed'' (
     guard (dget report ''adoption_authorized'' = PBool False) ''report cannot authorize adoption'' (
     bnd (item request ''kind'') (\<lambda>kind.
     bnd (if kind = PStr ''serving'' then serving_series_ok report result request binding else profile_ok report result request) (\<lambda>_.
     Inr report))))))))))"

definition disposition_ok :: "pydict \<Rightarrow> bool" where
  "disposition_ok report =
     (is_bool (dget report ''correct_both_cards'') \<and> is_bool (dget report ''useful_both_cards'')
      \<and> is_bool (dget report ''zero_prefix_no_regression'')
      \<and> dget report ''eligible_for_serving'' = PBool (dget report ''correct_both_cards'' = PBool True
            \<and> dget report ''useful_both_cards'' = PBool True \<and> dget report ''zero_prefix_no_regression'' = PBool True))"

definition validate_component :: "codec \<Rightarrow> pydict \<Rightarrow> pydict \<Rightarrow> pydict \<Rightarrow> pydict res" where
  "validate_component c result request binding =
     guardM (succeeded result) ''component owner did not complete and release'' (
     bnd (bnd (item result ''payload'') (\<lambda>p. py_get p ''component_report'')) (\<lambda>v.
     guard (case v of PDict r \<Rightarrow> py_eq (dget r ''schema'') (PInt 1) \<and> dget r ''diagnostic_only'' = PBool True
              \<and> dget r ''serving_tested'' = PBool False \<and> dget r ''adoption_authorized'' = PBool False | _ \<Rightarrow> False)
       ''component timing is diagnostic, not a serving result'' (
     let report = dict_of_v v in
     bnd (py_get (dget_or report ''owner_binding'' (PDict [])) ''owner_seal_sha256'') (\<lambda>seal.
     let owner = dict_of_v (dget_or report ''owner_binding'' (PDict [])) in
     guardM (andM (bnd (item result ''owner_seal_sha256'') (\<lambda>x. Inr (py_eq seal x)))
              (andM (bnd (digest_of c (PDict request)) (\<lambda>h. Inr (py_eq (dget owner ''request_sha256'') (PStr h))))
                (andM (bnd (item request ''source_set_sha256'') (\<lambda>x. Inr (py_eq (dget owner ''source_set_sha256'') x)))
                  (bnd (item binding ''controller_sha256'') (\<lambda>x. Inr (py_eq (dget owner ''controller_sha256'') x))))))
       ''foreign component result'' (
     guard (disposition_ok report) ''component screening disposition mismatch'' (Inr report))))))"

section \<open>Running a job\<close>

text \<open>What the backend changes: its output directories and the request exchange.  \<open>w_tick\<close> counts
  the observations of the candidate's files, which may differ from one to the next.\<close>

record world =
  w_dirs :: "(string \<times> members) list"
  w_exchange :: exchange
  w_tick :: nat

record backend_env =
  e_codec :: codec
  e_source :: "nat \<Rightarrow> string \<Rightarrow> member option"
  e_created :: "nat \<Rightarrow> int"
  e_job_id :: "nat \<Rightarrow> string"
  e_park :: "nat \<Rightarrow> member option"
  e_wait :: "pydict \<Rightarrow> pydict res"

definition publish_out :: "backend_env \<Rightarrow> string \<Rightarrow> string \<Rightarrow> pyv \<Rightarrow> (world, unit) st" where
  "publish_out env out name value w =
     (case map_of (w_dirs w) out of
        None \<Rightarrow> (w, Inl FileNotFoundError)
      | Some members \<Rightarrow>
          (case publish_value (e_codec env) members name value of
             Inl e \<Rightarrow> (w, Inl e)
           | Inr members' \<Rightarrow> (w\<lparr>w_dirs := dset (w_dirs w) out members'\<rparr>, Inr ())))"

definition mkdir_out :: "string \<Rightarrow> (world, unit) st" where
  "mkdir_out out w = (if map_of (w_dirs w) out = None then (w\<lparr>w_dirs := dset (w_dirs w) out []\<rparr>, Inr ()) else (w, Inl FileExistsError))"

definition INVOCATION :: "string list" where
  "INVOCATION = [''benchmark_report.json'', ''OWNER-STARTED.json'', ''OWNER-JOB.json'', ''OWNER-RESULT.json'']"

definition fresh_output :: "members option \<Rightarrow> unit res" where
  "fresh_output m =
     (case m of None \<Rightarrow> Inl (ValueError ''existing canonical upstream output directory required'')
      | Some members \<Rightarrow> require (list_all (\<lambda>name. map_of members name = None) INVOCATION)
                          ''upstream output already contains an invocation'')"

definition started_value :: "pyv \<Rightarrow> string \<Rightarrow> string \<Rightarrow> pyv" where
  "started_value campaign config_sha kind =
     PDict [(''campaign_sha256'', campaign), (''config_sha256'', PStr config_sha), (''kind'', PStr kind),
            (''automatic_retry'', PBool False), (''adoption_authorized'', PBool False)]"

definition begin_job :: "backend_env \<Rightarrow> pydict \<Rightarrow> string \<Rightarrow> pydict \<Rightarrow> (world, unit) st" where
  "begin_job env config out binding =
     sbnd (slift (item binding ''campaign_sha256'')) (\<lambda>campaign.
     sbnd (slift (item binding ''controller_sha256'')) (\<lambda>controller.
     sbnd (sget w_tick) (\<lambda>tick.
     sbnd (slift (campaign_open (e_codec env) (e_park env tick) campaign controller)) (\<lambda>_.
     sbnd (slift (validate_config config binding)) (\<lambda>kind.
     sbnd (sget (\<lambda>w. map_of (w_dirs w) out)) (\<lambda>members.
     sbnd (slift (fresh_output members)) (\<lambda>_.
     sbnd (slift (digest_of (e_codec env) (PDict config))) (\<lambda>config_sha.
     publish_out env out ''OWNER-STARTED.json'' (started_value campaign config_sha kind)))))))))"

text \<open>The declared sources as they are at the next observation.\<close>

definition observe_sources :: "backend_env \<Rightarrow> pydict \<Rightarrow> (world, (string \<times> member option) list) st" where
  "observe_sources env binding =
     sbnd (slift (bnd (item binding ''sources'') py_dict)) (\<lambda>sources.
     sbnd (sget w_tick) (\<lambda>tick.
     sbnd (supd (\<lambda>w. w\<lparr>w_tick := Suc tick\<rparr>)) (\<lambda>_.
     slift (Inr (map (\<lambda>(name, path). (name, e_source env tick (str_of path))) sources)))))"

definition source_row :: "codec \<Rightarrow> string \<times> member option \<Rightarrow> pyv res" where
  "source_row c np = bnd (read_member (snd np) MAX_SOURCE) (\<lambda>raw.
     Inr (PDict [(''name'', PStr (fst np)), (''bytes'', PInt (int (length raw))), (''sha256'', PStr (c_digest c raw))]))"

definition set_digest :: "codec \<Rightarrow> (string \<times> member option) list \<Rightarrow> string res" where
  "set_digest c sources = bnd (mapM_res (source_row c) (sort_key fst sources)) (\<lambda>rows. digest_of c (PList rows))"

definition source_set :: "backend_env \<Rightarrow> pydict \<Rightarrow> (world, string) st" where
  "source_set env binding = sbnd (observe_sources env binding) (\<lambda>sources. slift (set_digest (e_codec env) sources))"

definition submission_of :: "backend_env \<Rightarrow> pydict \<Rightarrow> pydict \<Rightarrow> string \<Rightarrow> pyv \<Rightarrow> nat \<Rightarrow> (string \<times> member option) list \<Rightarrow> string option \<Rightarrow> submission" where
  "submission_of env config binding kind caller tick sources expected =
     \<lparr>s_campaign = dget binding ''campaign_sha256'', s_selection = dget binding ''selection_sha256'', s_kind = PStr kind,
      s_config = PDict config, s_sources = sources, s_caller = caller,
      s_deadline = dget binding ''campaign_deadline_unix_ms'', s_created = e_created env tick, s_job_id = e_job_id env tick,
      s_expected = map_option PStr expected\<rparr>"

definition submit_in :: "backend_env \<Rightarrow> submission \<Rightarrow> (world, pydict) st" where
  "submit_in env s w =
     (case submit (e_codec env) (w_exchange w) s of (x, r) \<Rightarrow> (w\<lparr>w_exchange := x\<rparr>, bnd r (\<lambda>nr. Inr (snd nr))))"

definition submit_job :: "backend_env \<Rightarrow> pydict \<Rightarrow> string \<Rightarrow> pydict \<Rightarrow> string option \<Rightarrow> (world, pydict) st" where
  "submit_job env config out binding expected =
     sbnd (slift (validate_config config binding)) (\<lambda>kind.
     sbnd (case expected of None \<Rightarrow> slift (Inr ())
           | Some wanted \<Rightarrow> sbnd (source_set env binding) (\<lambda>current.
               slift (require (current = wanted) ''candidate changed after its component screen''))) (\<lambda>_.
     sbnd (slift (mapM_res (item binding) [''campaign_sha256'', ''selection_sha256'', ''campaign_deadline_unix_ms''])) (\<lambda>_.
     sbnd (slift (caller_of binding kind)) (\<lambda>caller.
     sbnd (observe_sources env binding) (\<lambda>sources.
     sbnd (sget w_tick) (\<lambda>tick.
     sbnd (submit_in env (submission_of env config binding kind caller tick sources expected)) (\<lambda>request.
     sbnd (publish_out env out ''OWNER-JOB.json'' (PDict request)) (\<lambda>_.
     slift (Inr request)))))))))"

definition start :: "backend_env \<Rightarrow> pydict \<Rightarrow> string \<Rightarrow> pydict \<Rightarrow> string option \<Rightarrow> (world, pydict) st" where
  "start env config out binding expected =
     sbnd (begin_job env config out binding) (\<lambda>_. submit_job env config out binding expected)"

definition finish :: "backend_env \<Rightarrow> pydict \<Rightarrow> pydict \<Rightarrow> string \<Rightarrow> pydict \<Rightarrow> (world, pydict) st" where
  "finish env result request out binding =
     sbnd (publish_out env out ''OWNER-RESULT.json'' (PDict result)) (\<lambda>_.
     sbnd (slift (item request ''kind'')) (\<lambda>kind.
     if kind = PStr ''component''
     then sbnd (slift (validate_component (e_codec env) result request binding)) (\<lambda>report.
          sbnd (publish_out env out ''component_report.json'' (PDict report)) (\<lambda>_. slift (Inr report)))
     else sbnd (slift (validate_report result request binding)) (\<lambda>report.
          sbnd (publish_out env out ''benchmark_report.json'' (PDict report)) (\<lambda>_. slift (Inr report)))))"

text \<open>The configuration of the component screen: the same benchmark without a profiler.\<close>

definition screened_config :: "pydict \<Rightarrow> int \<Rightarrow> pydict" where
  "screened_config config seconds =
     [(''benchmark'', PDict (dset (dset (dpop (dict_of_v (dget config ''benchmark'')) ''profiler'')
        ''workstation_component'' COMPONENT_CONTRACT) ''timeout_seconds'' (PInt seconds)))]"

definition envelope_of :: "pydict \<Rightarrow> string \<Rightarrow> int res" where
  "envelope_of binding kind = bnd (caller_of binding kind) (envelope_seconds (PStr kind))"

definition screen_config :: "backend_env \<Rightarrow> pydict \<Rightarrow> pydict \<Rightarrow> (world, pydict option \<times> string) st" where
  "screen_config env config binding =
     sbnd (slift (validate_config config binding)) (\<lambda>kind.
     sbnd (source_set env binding) (\<lambda>current.
     sbnd (slift (if kind = ''component'' then Inr True
                  else bnd (item binding ''selected_source_set_sha256'') (\<lambda>s. Inr (py_eq (PStr current) s)))) (\<lambda>unscreened.
     if unscreened then slift (Inr (None, current))
     else sbnd (slift (envelope_of binding kind)) (\<lambda>own.
          sbnd (slift (envelope_of binding ''component'')) (\<lambda>component.
          sbnd (slift (bnd (py_item (dget config ''benchmark'') ''timeout_seconds'') (\<lambda>t. py_ge t (PInt (own + component))))) (\<lambda>enough.
          sguard enough ''changed-source benchmark must include the component screen and serving/profile envelopes'' (
          slift (Inr (Some (screened_config config component), current)))))))))"

definition screen_gate :: "pydict \<Rightarrow> unit res" where
  "screen_gate report =
     bnd (item report ''eligible_for_serving'') (\<lambda>eligible.
     require (eligible = PBool True) ''Component screen refused serving'')"

definition screen_dir :: "string \<Rightarrow> string" where
  "screen_dir out = out @ ''/component-screen''"

text \<open>\<open>run\<close> calls itself for the component screen; the first argument bounds the depth of that
  recursion (it is never more than two, see below).\<close>

fun run :: "nat \<Rightarrow> backend_env \<Rightarrow> pydict \<Rightarrow> string \<Rightarrow> pydict \<Rightarrow> (world, pydict) st" where
  "run 0 env config out binding = slift (Inl RecursionError)"
| "run (Suc n) env config out binding =
     sbnd (begin_job env config out binding) (\<lambda>_.
     sbnd (screen_config env config binding) (\<lambda>(screened, expected).
     sbnd (case screened of None \<Rightarrow> slift (Inr ())
           | Some screen \<Rightarrow> sbnd (mkdir_out (screen_dir out)) (\<lambda>_.
               sbnd (run n env screen (screen_dir out) binding) (\<lambda>report. slift (screen_gate report)))) (\<lambda>_.
     sbnd (submit_job env config out binding (Some expected)) (\<lambda>request.
     sbnd (slift (e_wait env request)) (\<lambda>result.
     finish env result request out binding)))))"

definition benchmark :: "backend_env \<Rightarrow> pydict \<Rightarrow> string \<Rightarrow> pydict \<Rightarrow> (world, pydict) st" where
  "benchmark env config output_dir binding =
     sbnd (mkdir_out (output_dir @ ''/benchmark_owner'')) (\<lambda>_.
     run 2 env config (output_dir @ ''/benchmark_owner'') binding)"

section \<open>Reusing a qualification\<close>

definition lower_char :: "char \<Rightarrow> char" where
  "lower_char ch = (if is_upper ch then char_of (of_char ch + 32 :: nat) else ch)"

definition base_name :: "string \<Rightarrow> string" where
  "base_name p = last (split_on (CHR ''/'') p)"

definition parent_name :: "string \<Rightarrow> string" where
  "parent_name p = rev (drop 1 (dropWhile (\<lambda>ch. ch \<noteq> CHR ''/'') (rev p)))"

definition QUALIFIED_KEYS :: "string list" where
  "QUALIFIED_KEYS = [''campaign_sha256'', ''campaign_deadline_unix_ms'', ''selection_sha256'', ''runtime_sha256'',
     ''workload_sha256'', ''controller_sha256'']"

definition CHECKS :: "string list" where
  "CHECKS = [''serving_aa'', ''c1_c2_profile'', ''component_oracle'', ''owner_release'', ''failure_retention'',
     ''response_mount_read_only'', ''agents_have_no_gpu_devices'', ''upstream_balanced_keep_paths'', ''campaign_deadline'']"

definition seal_step :: "codec \<Rightarrow> paths \<Rightarrow> string list \<Rightarrow> pyv \<Rightarrow> string list res" where
  "seal_step c fs seen row =
     (case row of
        PDict d \<Rightarrow>
          guard (has_keys d [''path'', ''sha256'']) ''qualification seal reference'' (
          case dget d ''path'' of
            PStr p \<Rightarrow>
              guard (p_absolute fs p \<and> p_canonical fs p \<and> base_name p = ''FINAL-ARTIFACTS.sha256'' \<and> p \<notin> set seen)
                ''distinct canonical qualification seals required'' (
              bnd (checked_bytes c (p_file fs p) (dget d ''sha256'') (2 * 2 ^ 20)) (\<lambda>_. Inr (p # seen)))
          | _ \<Rightarrow> Inl TypeError)
      | _ \<Rightarrow> Inl (ValueError ''qualification seal reference''))"

definition require_qualified :: "codec \<Rightarrow> paths \<Rightarrow> string \<Rightarrow> string \<Rightarrow> pydict \<Rightarrow> pydict res" where
  "require_qualified c fs gpu_type framework bound =
     guard (map lower_char gpu_type \<in> {''r9700'', ''gfx12''} \<and> map lower_char framework = ''sglang'')
       ''owner adapter is scoped to SGLang/R9700'' (
     let reference = dget bound ''qualification''; ref = dict_of_v reference in
     guard (is_dict reference \<and> has_keys ref [''path'', ''sha256'']) ''native owner-adapter qualification is still required'' (
     case dget ref ''path'' of
       PStr p \<Rightarrow>
         guard (p_absolute fs p \<and> p_canonical fs p) ''canonical qualification proof required'' (
         bnd (checked_json c (p_file fs p) (dget ref ''sha256'') MAX_RESULT) (\<lambda>v.
         bnd (py_get v ''schema'') (\<lambda>schema.
         let proof = dict_of_v v in
         guard (schema = PInt 1 \<and> dget proof ''kind'' = PStr ''workstation-owner-native-qualification'' \<and> dget proof ''status'' = PStr ''PASS'')
           ''native qualification did not pass'' (
         guardM (allM (\<lambda>k. bnd (item bound k) (\<lambda>x. Inr (py_eq (dget proof k) x))) QUALIFIED_KEYS)
           ''native qualification belongs to another stack or controller'' (
         guard (case dget proof ''checks'' of PDict d \<Rightarrow> has_keys d CHECKS \<and> list_all (\<lambda>kv. snd kv = PBool True) d | _ \<Rightarrow> False)
           ''native qualification coverage is incomplete'' (
         guard (is_list (dget proof ''owner_seals'') \<and> 2 \<le> length (list_of (dget proof ''owner_seals'')))
           ''qualification owner evidence missing'' (
         bnd (foldM_res (seal_step c fs) [] (list_of (dget proof ''owner_seals''))) (\<lambda>_. Inr proof))))))))
     | _ \<Rightarrow> Inl TypeError))"

definition REUSED_FILES :: "(string \<times> string) list" where
  "REUSED_FILES = [(''OWNER-JOB.json'', ''request_sha256''), (''OWNER-RESULT.json'', ''result_sha256''),
     (''benchmark_report.json'', ''report_sha256'')]"

definition reused_raw :: "codec \<Rightarrow> paths \<Rightarrow> string \<Rightarrow> pydict \<Rightarrow> (string \<times> string) list res" where
  "reused_raw c fs workspace reference =
     mapM_res (\<lambda>(filename, key).
       bnd (read_member (p_file fs (workspace @ ''/'' @ filename)) MAX_RESULT) (\<lambda>raw.
       guard (py_eq (PStr (c_digest c raw)) (dget reference key)) ''qualification measurement bytes changed'' (Inr (filename, raw)))) REUSED_FILES"

definition reused_member :: "(string \<times> string) list \<Rightarrow> string \<Rightarrow> string" where
  "reused_member raw name = (case map_of raw name of None \<Rightarrow> [] | Some x \<Rightarrow> x)"

definition publish_raw :: "string \<Rightarrow> string \<times> string \<Rightarrow> (world, unit) st" where
  "publish_raw out nr w =
     (case map_of (w_dirs w) out of
        None \<Rightarrow> (w, Inl FileNotFoundError)
      | Some members \<Rightarrow> (case publish members (fst nr) (snd nr) of
          Inl e \<Rightarrow> (w, Inl e) | Inr members' \<Rightarrow> (w\<lparr>w_dirs := dset (w_dirs w) out members'\<rparr>, Inr ())))"

fun publish_all :: "string \<Rightarrow> (string \<times> string) list \<Rightarrow> (world, unit) st" where
  "publish_all out [] = slift (Inr ())"
| "publish_all out (nr # nrs) = sbnd (publish_raw out nr) (\<lambda>_. publish_all out nrs)"

definition reused_value :: "pydict \<Rightarrow> pyv \<Rightarrow> pydict \<Rightarrow> pyv" where
  "reused_value binding reference result =
     PDict [(''schema'', PInt 1), (''qualification'', dget binding ''qualification''), (''measurement'', reference),
       (''request_sha256'', dget result ''request_sha256''), (''new_measurement'', PBool False),
       (''automatic_retry'', PBool False), (''adoption_authorized'', PBool False)]"

definition reuse_qualification :: "backend_env \<Rightarrow> paths \<Rightarrow> string \<Rightarrow> string \<Rightarrow> pydict \<Rightarrow> (world, pydict option) st" where
  "reuse_qualification env fs kind out binding =
     (let c = e_codec env in
      sguard (kind = ''serving'' \<or> kind = ''profile'') ''only baseline and initial profile can reuse qualification'' (
      sbnd (slift (require_qualified c fs ''r9700'' ''sglang'' binding)) (\<lambda>proof.
      sbnd (slift (py_get (dget_or proof ''measurements'' (PDict [])) (if kind = ''serving'' then ''serving_aa'' else ''c1_c2_profile''))) (\<lambda>reference.
      if reference = PNone then slift (Inr None)
      else let ref = dict_of_v reference in
      sguard (is_dict reference \<and> has_keys ref [''workspace'', ''request_sha256'', ''result_sha256'', ''report_sha256''])
        ''qualification measurement reference'' (
      case (dget binding ''requests_root'', dget ref ''workspace'') of
        (PStr requests, PStr workspace) \<Rightarrow>
          sguard (p_absolute fs workspace \<and> p_canonical fs workspace \<and> parent_name workspace = parent_name requests @ ''/inputs/qualification''
                  \<and> base_name workspace = kind) ''qualification measurement must be a read-only input'' (
          sbnd (slift (reused_raw c fs workspace ref)) (\<lambda>raw.
          sbnd (slift (bnd (c_decode c (reused_member raw ''OWNER-JOB.json'')) (\<lambda>v. bnd (py_get v ''kind'') (\<lambda>_. Inr (dict_of_v v))))) (\<lambda>request.
          sbnd (slift (andM (bnd (item binding ''campaign_sha256'') (\<lambda>x. Inr (dget request ''kind'' = PStr kind \<and> py_eq (dget request ''campaign_sha256'') x)))
             (andM (bnd (item binding ''selection_sha256'') (\<lambda>x. Inr (py_eq (dget request ''selection_sha256'') x)))
               (bnd (item binding ''selected_source_set_sha256'') (\<lambda>x. Inr (py_eq (dget request ''source_set_sha256'') x)))))) (\<lambda>declared.
          sbnd (if declared then sbnd (source_set env binding) (\<lambda>current. slift (Inr (py_eq (PStr current) (dget binding ''selected_source_set_sha256''))))
                else slift (Inr False)) (\<lambda>same.
          sguard same ''qualification measurement is not this campaign's selected source'' (
          sbnd (slift (bnd (c_decode c (reused_member raw ''OWNER-RESULT.json'')) (\<lambda>v.
             bnd (item binding ''controller_sha256'') (\<lambda>x. Job_Exchange.validate_result c v request x)))) (\<lambda>result.
          sbnd (slift (validate_report result request binding)) (\<lambda>report.
          sbnd (slift (canonical c (PDict report))) (\<lambda>text.
          sguard (text = reused_member raw ''benchmark_report.json'') ''qualification report differs from owner result'' (
          sbnd (sget (\<lambda>w. map_of (w_dirs w) out)) (\<lambda>members.
          sguard (members \<noteq> None) ''canonical exchange directory required'' (
          sguard (list_all (\<lambda>name. map_of (the members) name = None) (map fst REUSED_FILES @ [''REUSED-FROM.json'']))
            ''qualification output was already used'' (
          sbnd (publish_all out raw) (\<lambda>_.
          sbnd (publish_out env out ''REUSED-FROM.json'' (reused_value binding reference result)) (\<lambda>_.
          slift (Inr (Some report)))))))))))))))))
      | _ \<Rightarrow> slift (Inl TypeError))))))"

section \<open>Lemmas\<close>

lemma prepare_expected:
  assumes "prepare c s = Inr (request, config_raw, raws)"
  shows "dget request ''kind'' = PStr (str_of (s_kind s))"
    "s_expected s = Some (PStr h) \<Longrightarrow> dget request ''source_set_sha256'' = PStr h"
proof -
  obtain whole inventory set_sha where
    q: "check_request c (PDict (request_value (s_job_id s) (str_of (s_kind s)) (s_campaign s) (s_selection s)
             (c_digest c config_raw) set_sha (s_created s) whole (int_of (s_caller s)) inventory)) = Inr request"
    and x: "\<not> (case s_expected s of None \<Rightarrow> False | Some x \<Rightarrow> \<not> py_eq (PStr set_sha) x)"
    using assms unfolding prepare_def by (auto split: sum.splits if_splits)
  from check_request_Inr(1) [OF q] have
    e: "request = request_value (s_job_id s) (str_of (s_kind s)) (s_campaign s) (s_selection s)
             (c_digest c config_raw) set_sha (s_created s) whole (int_of (s_caller s)) inventory" by simp
  show "dget request ''kind'' = PStr (str_of (s_kind s))" by (simp add: e request_value_def dget_rec)
  show "dget request ''source_set_sha256'' = PStr h" if "s_expected s = Some (PStr h)"
    using x that by (simp add: e request_value_def dget_rec)
qed

lemma submit_prepare: "submit c x s = (x', Inr (name, request)) \<Longrightarrow> \<exists>cr raws. prepare c s = Inr (request, cr, raws)"
  by (auto simp: submit_def Let_def split: sum.splits if_splits prod.splits)

lemma submit_in_Inr: "submit_in env s w = (u, Inr request) \<Longrightarrow> \<exists>cr raws. prepare (e_codec env) s = Inr (request, cr, raws)"
  by (auto simp: submit_in_def split: prod.splits dest!: submit_prepare)

lemma submit_job_Inr:
  assumes "submit_job env config out binding (Some current) w = (w', Inr request)"
  shows "\<exists>kind. validate_config config binding = Inr kind \<and> dget request ''kind'' = PStr kind
    \<and> dget request ''source_set_sha256'' = PStr current"
proof -
  from assms obtain kind caller tick sources v u where k: "validate_config config binding = Inr kind"
    and s: "submit_in env (submission_of env config binding kind caller tick sources (Some current)) v = (u, Inr request)"
    unfolding submit_job_def by auto
  from submit_in_Inr [OF s] obtain cr raws where
    "prepare (e_codec env) (submission_of env config binding kind caller tick sources (Some current)) = Inr (request, cr, raws)"
    by blast
  from prepare_expected [OF this] k show ?thesis by (simp add: submission_of_def)
qed

lemma finish_Inr:
  assumes "finish env result request out binding w = (w', Inr report)"
  shows "if dget request ''kind'' = PStr ''component'' then validate_component (e_codec env) result request binding = Inr report
    else validate_report result request binding = Inr report"
  using assms by (auto simp: finish_def split: if_splits)

lemma component_kind_Inr: "component_kind binding component kind = Inr k \<Longrightarrow> component \<noteq> PNone \<Longrightarrow> k = ''component''"
  by (auto simp: component_kind_def split: if_splits)

lemma component_config:
  assumes "validate_config config binding = Inr kind"
    and "dget (dict_of_v (dget config ''benchmark'')) ''workstation_component'' \<noteq> PNone"
  shows "kind = ''component''"
  using assms component_kind_Inr by (auto simp: validate_config_def Let_def)

lemma screened_config_component: "dget (dict_of_v (dget (screened_config config n) ''benchmark'')) ''workstation_component'' \<noteq> PNone"
  by (simp add: screened_config_def dget_rec COMPONENT_CONTRACT_def)

text \<open>The tick is moved by observations only.\<close>

lemma publish_out_tick: "publish_out env out name value w = (v, r) \<Longrightarrow> w_tick v = w_tick w"
  by (auto simp: publish_out_def split: option.splits sum.splits)

lemma begin_job_Inr:
  assumes "begin_job env config out binding w = (v, Inr u)"
  shows "w_tick v = w_tick w" "\<exists>kind. validate_config config binding = Inr kind"
  using assms publish_out_tick unfolding begin_job_def by auto

lemma source_set_tick:
  "w_tick v = w_tick w \<Longrightarrow> snd (source_set env binding v) = snd (source_set env binding w)
    \<and> w_tick (fst (source_set env binding v)) = w_tick (fst (source_set env binding w))"
  by (cases "bnd (item binding ''sources'') py_dict")
    (simp_all add: source_set_def observe_sources_def sbnd_def slift_def supd_def sget_def del: bnd_Inr_iff)

lemma source_set_Inr: "source_set env binding w = (v, Inr current) \<Longrightarrow> w_tick v = Suc (w_tick w)"
  by (auto simp: source_set_def observe_sources_def)

lemma screen_config_Inr:
  assumes "screen_config env config binding w = (v, Inr (screened, current))"
  shows "w_tick v = Suc (w_tick w)" "snd (source_set env binding w) = Inr current"
    "screened = None \<Longrightarrow> \<exists>kind. validate_config config binding = Inr kind
       \<and> (kind = ''component'' \<or> dget binding ''selected_source_set_sha256'' = PStr current)"
    "screened = Some screen \<Longrightarrow> \<exists>n. screen = screened_config config n"
    "validate_config config binding = Inr ''component'' \<Longrightarrow> screened = None"
proof -
  from assms obtain kind v' where k: "validate_config config binding = Inr kind"
    and ss: "source_set env binding w = (v', Inr current)" and v: "v = v'"
    and alt: "screened = None \<and> (kind = ''component'' \<or> dget binding ''selected_source_set_sha256'' = PStr current)
      \<or> kind \<noteq> ''component'' \<and> (\<exists>n. screened = Some (screened_config config n))"
    unfolding screen_config_def by (auto split: if_splits)
  show "w_tick v = Suc (w_tick w)" using source_set_Inr [OF ss] v by simp
  show "snd (source_set env binding w) = Inr current" by (simp add: ss)
  show "screened = None \<Longrightarrow> \<exists>kind. validate_config config binding = Inr kind
       \<and> (kind = ''component'' \<or> dget binding ''selected_source_set_sha256'' = PStr current)"
    using k alt by auto
  show "screened = Some screen \<Longrightarrow> \<exists>n. screen = screened_config config n" using alt by auto
  show "validate_config config binding = Inr ''component'' \<Longrightarrow> screened = None" using k alt by auto
qed

text \<open>A component configuration does not recurse, so one level more or less makes no difference.\<close>

lemma run_component:
  assumes "dget (dict_of_v (dget config ''benchmark'')) ''workstation_component'' \<noteq> PNone"
  shows "run (Suc n) env config out binding = run (Suc m) env config out binding"
proof
  fix w
  show "run (Suc n) env config out binding w = run (Suc m) env config out binding w"
  proof (cases "begin_job env config out binding w")
    case (Pair v r)
    show ?thesis
    proof (cases r)
      case (Inr u)
      then obtain kind where k: "validate_config config binding = Inr kind" using begin_job_Inr(2) Pair by blast
      have comp: "validate_config config binding = Inr ''component''" using component_config [OF k assms] k by simp
      show ?thesis
      proof (cases "screen_config env config binding v")
        case (Pair v' r')
        show ?thesis
        proof (cases r')
          case (Inr se)
          then obtain se1 current where "r' = Inr (se1, current)" by (cases se) simp
          moreover from this Pair have "se1 = None" using screen_config_Inr(5) [OF _ comp] by simp
          ultimately show ?thesis using \<open>begin_job env config out binding w = (v, r)\<close> \<open>r = Inr u\<close> Pair
            by (simp add: sbnd_def slift_def)
        qed (use \<open>begin_job env config out binding w = (v, r)\<close> \<open>r = Inr u\<close> Pair in \<open>simp add: sbnd_def\<close>)
      qed
    qed (use Pair in \<open>simp add: sbnd_def\<close>)
  qed
qed

lemma run_depth: "run (Suc (Suc n)) env config out binding w = run 2 env config out binding w"
proof -
  have two: "(2::nat) = Suc (Suc 0)" by simp
  show ?thesis
  proof (cases "begin_job env config out binding w")
    case (Pair v r)
    note b = Pair
    show ?thesis
    proof (cases r)
      case (Inr u)
      show ?thesis
      proof (cases "screen_config env config binding v")
        case (Pair v' r')
        note sc = Pair
        show ?thesis
        proof (cases r')
          case r': (Inr se)
          obtain se1 current where se: "se = (se1, current)" by (cases se)
          show ?thesis
          proof (cases se1)
            case None
            then show ?thesis using b Inr sc r' se by (simp add: two sbnd_def slift_def)
          next
            case (Some screen)
            then obtain k where "screen = screened_config config k" using screen_config_Inr(4) sc r' se by blast
            then have "run (Suc n) env screen (screen_dir out) binding = run (Suc 0) env screen (screen_dir out) binding"
              using run_component screened_config_component by blast
            then show ?thesis using b Inr sc r' se Some by (simp add: two sbnd_def del: run.simps(2) cong: if_cong)
              (simp add: sbnd_def)
          qed
        qed (use b Inr sc in \<open>simp add: two sbnd_def\<close>)
      qed
    qed (use Pair in \<open>simp add: two sbnd_def\<close>)
  qed
qed

lemma run_Inr:
  assumes "run (Suc n) env config out binding w = (w', Inr report)"
  obtains v1 v2 v3 v4 screened current request result where
    "begin_job env config out binding w = (v1, Inr ())"
    "screen_config env config binding v1 = (v2, Inr (screened, current))"
    "\<forall>screen. screened = Some screen \<longrightarrow> (\<exists>u1 u2 srep. mkdir_out (screen_dir out) v2 = (u1, Inr ())
       \<and> run n env screen (screen_dir out) binding u1 = (u2, Inr srep) \<and> screen_gate srep = Inr ())"
    "submit_job env config out binding (Some current) v3 = (v4, Inr request)"
    "e_wait env request = Inr result" "finish env result request out binding v4 = (w', Inr report)"
proof -
  from assms obtain v1 v2 v3 v4 screened current request result u where
    b: "begin_job env config out binding w = (v1, Inr ())"
    and sc: "screen_config env config binding v1 = (v2, Inr (screened, current))"
    and g: "(case screened of None \<Rightarrow> slift (Inr ())
           | Some screen \<Rightarrow> sbnd (mkdir_out (screen_dir out)) (\<lambda>_.
               sbnd (run n env screen (screen_dir out) binding) (\<lambda>report. slift (screen_gate report)))) v2 = (v3, Inr u)"
    and r: "submit_job env config out binding (Some current) v3 = (v4, Inr request)"
    "e_wait env request = Inr result" "finish env result request out binding v4 = (w', Inr report)"
    by (auto split: prod.splits)
  have "\<exists>u1 u2 srep. mkdir_out (screen_dir out) v2 = (u1, Inr ())
       \<and> run n env screen (screen_dir out) binding u1 = (u2, Inr srep) \<and> screen_gate srep = Inr ()"
    if "screened = Some screen" for screen using g that by auto
  then have "\<forall>screen. screened = Some screen \<longrightarrow> (\<exists>u1 u2 srep. mkdir_out (screen_dir out) v2 = (u1, Inr ())
       \<and> run n env screen (screen_dir out) binding u1 = (u2, Inr srep) \<and> screen_gate srep = Inr ())" by blast
  then show thesis by (rule that [OF b sc _ r])
qed

lemma screen_gate_Inr: "screen_gate report = Inr u \<Longrightarrow> dget report ''eligible_for_serving'' = PBool True"
  by (auto simp: screen_gate_def)

lemma mkdir_out_Inr: "mkdir_out out w = (v, Inr u) \<Longrightarrow> w_tick v = w_tick w"
  by (auto simp: mkdir_out_def split: if_splits)

text \<open>What the source set is at the observation after \<open>k\<close> others from now.\<close>

definition later :: "world \<Rightarrow> nat \<Rightarrow> world" where
  "later w k = w\<lparr>w_tick := w_tick w + k\<rparr>"

text \<open>The job of a run: the owner answered a request of this kind and of these sources, and the report is
  the accepted answer.\<close>

definition answered :: "backend_env \<Rightarrow> pydict \<Rightarrow> string \<Rightarrow> string \<Rightarrow> pydict \<Rightarrow> bool" where
  "answered env binding kind sources report \<longleftrightarrow>
     (\<exists>request result. e_wait env request = Inr result \<and> dget request ''kind'' = PStr kind
        \<and> dget request ''source_set_sha256'' = PStr sources
        \<and> (if kind = ''component'' then validate_component (e_codec env) result request binding = Inr report
           else validate_report result request binding = Inr report))"

lemma run_answered:
  assumes "submit_job env config out binding (Some current) v3 = (v4, Inr request)"
    and "e_wait env request = Inr result" "finish env result request out binding v4 = (w', Inr report)"
    and "validate_config config binding = Inr kind"
  shows "answered env binding kind current report"
proof -
  from submit_job_Inr [OF assms(1)] assms(4) have r: "dget request ''kind'' = PStr kind"
    "dget request ''source_set_sha256'' = PStr current" by auto
  show ?thesis unfolding answered_def
    by (intro exI [of _ request] exI [of _ result]) (use finish_Inr [OF assms(3)] assms(2) r in auto)
qed

section \<open>Properties\<close>

text \<open>C30: the recursion of \<open>run\<close> for the component screen is at most one deep: a larger bound on
  its depth changes nothing, on any input and in any state.\<close>

theorem run_screens_at_most_once: "run (Suc (Suc n)) env config out binding = run 2 env config out binding"
  using run_depth by blast

text \<open>C27: a run that returns a report submitted a job for the source set it saw first, and the report
  is the accepted answer of the owner to that job.  Unless the job is a component job or the sources are the
  selected ones, an eligible component report was accepted before it; that report is about the source set of
  the next observation of the candidate's files, not of the first one.\<close>

theorem changed_candidate_needs_eligible_screen:
  assumes "run (Suc n) env config out binding w = (w', Inr report)"
  shows "\<exists>kind current. validate_config config binding = Inr kind \<and> snd (source_set env binding w) = Inr current
    \<and> answered env binding kind current report
    \<and> (kind = ''component'' \<or> dget binding ''selected_source_set_sha256'' = PStr current
       \<or> (\<exists>screen_set screen_report. snd (source_set env binding (later w 1)) = Inr screen_set
            \<and> answered env binding ''component'' screen_set screen_report
            \<and> dget screen_report ''eligible_for_serving'' = PBool True))"
proof -
  obtain v1 v2 v3 v4 screened current request result where
    b: "begin_job env config out binding w = (v1, Inr ())"
    and sc: "screen_config env config binding v1 = (v2, Inr (screened, current))"
    and g: "\<forall>screen. screened = Some screen \<longrightarrow> (\<exists>u1 u2 srep. mkdir_out (screen_dir out) v2 = (u1, Inr ())
       \<and> run n env screen (screen_dir out) binding u1 = (u2, Inr srep) \<and> screen_gate srep = Inr ())"
    and r: "submit_job env config out binding (Some current) v3 = (v4, Inr request)"
    "e_wait env request = Inr result" "finish env result request out binding v4 = (w', Inr report)"
    by (rule run_Inr [OF assms]) blast
  obtain kind where k: "validate_config config binding = Inr kind" using begin_job_Inr(2) [OF b] by blast
  have tick: "w_tick v1 = w_tick w" using begin_job_Inr(1) [OF b] .
  have cur: "snd (source_set env binding w) = Inr current"
    using screen_config_Inr(2) [OF sc] source_set_tick [OF tick, of env binding] by simp
  have ans: "answered env binding kind current report" using run_answered [OF r k] .
  show ?thesis
  proof (cases screened)
    case None
    then show ?thesis using screen_config_Inr(3) [OF sc] k cur ans by auto
  next
    case (Some screen)
    from g Some obtain u1 u2 srep where mk: "mkdir_out (screen_dir out) v2 = (u1, Inr ())"
      and inner: "run n env screen (screen_dir out) binding u1 = (u2, Inr srep)" and gate: "screen_gate srep = Inr ()" by blast
    from inner obtain m where n: "n = Suc m" by (cases n) auto
    obtain x1 x2 x3 x4 sscreened scurrent srequest sresult where
      sb: "begin_job env screen (screen_dir out) binding u1 = (x1, Inr ())"
      and ssc: "screen_config env screen binding x1 = (x2, Inr (sscreened, scurrent))"
      and sr: "submit_job env screen (screen_dir out) binding (Some scurrent) x3 = (x4, Inr srequest)"
      "e_wait env srequest = Inr sresult" "finish env sresult srequest (screen_dir out) binding x4 = (u2, Inr srep)"
      by (rule run_Inr [OF inner [unfolded n]]) blast
    obtain skind where sk: "validate_config screen binding = Inr skind" using begin_job_Inr(2) [OF sb] by blast
    obtain secs where "screen = screened_config config secs" using screen_config_Inr(4) [OF sc Some] by blast
    then have comp: "skind = ''component''" using component_config [OF sk] screened_config_component by simp
    have "w_tick x1 = w_tick (later w 1)"
      using begin_job_Inr(1) [OF sb] mkdir_out_Inr [OF mk] screen_config_Inr(1) [OF sc] tick by (simp add: later_def)
    then have "snd (source_set env binding (later w 1)) = Inr scurrent"
      using screen_config_Inr(2) [OF ssc] source_set_tick [of x1 "later w 1" env binding] by simp
    moreover have "answered env binding ''component'' scurrent srep" using run_answered [OF sr sk] comp by simp
    ultimately show ?thesis using k cur ans screen_gate_Inr [OF gate] by blast
  qed
qed

subsection \<open>A run with a changed candidate\<close>

text \<open>A profile job whose sources are not the selected ones: the screen is answered with an eligible
  component report, then the job itself with a profile report.  Texts and digests are constants.\<close>

definition flat_codec :: codec where
  "flat_codec = \<lparr>c_dumps = (\<lambda>_. Inr []), c_decode = (\<lambda>_. Inr PNone), c_digest = (\<lambda>_. zeros 64)\<rparr>"

definition bk_binding :: pydict where
  "bk_binding = [(''campaign_sha256'', PStr (zeros 64)), (''selection_sha256'', PStr (zeros 64)), (''controller_sha256'', PStr (zeros 64)),
     (''campaign_deadline_unix_ms'', PInt 9000000), (''sources'', PDict [(''k'', PStr ''/k'')]),
     (''benchmark'', PDict [(''model'', PStr ''m'')]),
     (''caller_seconds'', PDict [(''profile'', PInt 100), (''component'', PInt 2190)]),
     (''selected_source_set_sha256'', PStr ''selected'')]"

definition bk_config :: pydict where
  "bk_config = [(''benchmark'', PDict [(''model'', PStr ''m''),
     (''profiler'', PDict [(''torch_profiler'', PDict [(''enabled'', PBool True)])]), (''timeout_seconds'', PInt 9000)])]"

definition bk_owner :: pyv where
  "bk_owner = PDict [(''owner_seal_sha256'', PStr (zeros 64)), (''request_sha256'', PStr (zeros 64)), (''source_set_sha256'', PStr (zeros 64)),
     (''controller_sha256'', PStr (zeros 64))]"

definition bk_component :: pydict where
  "bk_component = [(''schema'', PInt 1), (''diagnostic_only'', PBool True), (''serving_tested'', PBool False),
     (''adoption_authorized'', PBool False), (''owner_binding'', bk_owner), (''correct_both_cards'', PBool True),
     (''useful_both_cards'', PBool True), (''zero_prefix_no_regression'', PBool True), (''eligible_for_serving'', PBool True)]"

definition bk_profile :: pydict where
  "bk_profile = [(''success'', PBool True), (''framework'', PStr ''sglang''), (''model'', PStr ''m''), (''benchmark_backend'', PStr NAME),
     (''benchmark_valid'', PBool True), (''owner_binding'', bk_owner), (''quality_gate'', PDict [(''passed'', PBool True)]),
     (''adoption_authorized'', PBool False), (''diagnostic_only'', PBool True),
     (''profile_coverage'', PDict [(''complete'', PBool True), (''owner_seal_sha256'', PStr (zeros 64))])]"

definition bk_result :: "string \<Rightarrow> pydict \<Rightarrow> pydict" where
  "bk_result key report = [(''status'', PStr ''SUCCEEDED''), (''independent_release'', PBool True), (''owner_seal_sha256'', PStr (zeros 64)),
     (''request_sha256'', PStr (zeros 64)), (''payload'', PDict [(key, PDict report)])]"

definition bk_env :: backend_env where
  "bk_env = \<lparr>e_codec = flat_codec, e_source = (\<lambda>_ _. Some (Regular ''x'')), e_created = (\<lambda>_. 1),
     e_job_id = (\<lambda>n. replicate 32 (if n = 4 then CHR ''a'' else CHR ''b'')), e_park = (\<lambda>_. None),
     e_wait = (\<lambda>request. Inr (if dget request ''kind'' = PStr ''component'' then bk_result ''component_report'' bk_component
                              else bk_result ''benchmark_report'' bk_profile))\<rparr>"

definition bk_world :: world where
  "bk_world = \<lparr>w_dirs = [(''o'', [])], w_exchange = [], w_tick = 0\<rparr>"

lemma flat_codec_simps [simp]: "digest_of flat_codec v = Inr (zeros 64)" "canonical flat_codec v = Inr [CHR 0x0A]"
  by (simp_all add: digest_of_def canonical_def flat_codec_def)

lemma bk_validate: "validate_config bk_config bk_binding = Inr ''profile''"
  by (simp add: validate_config_def bk_config_def bk_binding_def dget_rec has_keys_def keyset_def EXTRAS_def dpop_def dget_or_def profile_kind_def component_kind_def item_def
    is_number_def positive_PInt caller_of_def envelope_seconds_def str_in_def KINDS_def pos_int_def admission_seconds_def post_release_def POST_RELEASE_SECONDS_def py_le_def del: bnd_Inr_iff)

lemma bk_validate_screen: "validate_config (screened_config bk_config 2910) bk_binding = Inr ''component''"
  by (simp add: validate_config_def screened_config_def bk_config_def bk_binding_def dget_rec has_keys_def keyset_def EXTRAS_def dpop_def dget_or_def profile_kind_def component_kind_def item_def COMPONENT_CONTRACT_def
    is_number_def positive_PInt caller_of_def envelope_seconds_def str_in_def KINDS_def pos_int_def admission_seconds_def post_release_def POST_RELEASE_SECONDS_def py_le_def del: bnd_Inr_iff)

lemma bk_source_set: "source_set bk_env bk_binding w = (w\<lparr>w_tick := Suc (w_tick w)\<rparr>, Inr (zeros 64))"
  by (simp add: source_set_def observe_sources_def sbnd_def slift_def sget_def supd_def bk_binding_def item_def py_dict_def set_digest_def source_row_def bk_env_def read_member_def MAX_SOURCE_def)

lemma bk_observe: "observe_sources bk_env bk_binding w = (w\<lparr>w_tick := Suc (w_tick w)\<rparr>, Inr [(''k'', Some (Regular ''x''))])"
  by (simp add: observe_sources_def sbnd_def slift_def sget_def supd_def bk_binding_def item_def py_dict_def  bk_env_def)

lemma bk_items [simp]: "item bk_binding ''campaign_sha256'' = Inr (PStr (zeros 64))" "item bk_binding ''selection_sha256'' = Inr (PStr (zeros 64))"
  "item bk_binding ''controller_sha256'' = Inr (PStr (zeros 64))" "item bk_binding ''campaign_deadline_unix_ms'' = Inr (PInt 9000000)"
  "item bk_binding ''selected_source_set_sha256'' = Inr (PStr ''selected'')" "item bk_binding ''benchmark'' = Inr (PDict [(''model'', PStr ''m'')])"
  "caller_of bk_binding ''profile'' = Inr (PInt 100)" "caller_of bk_binding ''component'' = Inr (PInt 2190)"
  "dget bk_binding ''campaign_sha256'' = PStr (zeros 64)" "dget bk_binding ''selection_sha256'' = PStr (zeros 64)" "dget bk_binding ''campaign_deadline_unix_ms'' = PInt 9000000"
  by (simp_all add: bk_binding_def item_def caller_of_def dget_rec del: bnd_Inr_iff)

lemma bk_envelope: "envelope_of bk_binding ''profile'' = Inr 600"  "envelope_of bk_binding ''component'' = Inr 2910"
  by (simp_all add: envelope_of_def envelope_seconds_def str_in_def KINDS_def pos_int_def admission_seconds_def post_release_def POST_RELEASE_SECONDS_def del: bnd_Inr_iff)

lemma bk_selected: "zeros 64 \<noteq> ''selected''" by code_simp

lemma bk_timeout: "py_item (dget bk_config ''benchmark'') ''timeout_seconds'' = Inr (PInt 9000)"
  by (simp add: bk_config_def dget_rec item_def del: item_Inr_iff)

lemma bk_screen: "screen_config bk_env bk_config bk_binding w = (w\<lparr>w_tick := Suc (w_tick w)\<rparr>, Inr (Some (screened_config bk_config 2910), zeros 64))"
  by (simp add: screen_config_def bk_validate bk_source_set sbnd_def slift_def bk_envelope bk_timeout bk_selected bk_selected [symmetric] py_le_def)

lemma bk_screen_inner: "screen_config bk_env (screened_config bk_config 2910) bk_binding w = (w\<lparr>w_tick := Suc (w_tick w)\<rparr>, Inr (None, zeros 64))"
  by (simp add: screen_config_def bk_validate_screen bk_source_set sbnd_def slift_def )

lemma bk_env_simps [simp]: "e_codec bk_env = flat_codec" "e_park bk_env n = None" "e_created bk_env n = 1" by (simp_all add: bk_env_def)

lemma bk_begin: "validate_config config bk_binding = Inr kind \<Longrightarrow> map_of (w_dirs w) out = Some [] \<Longrightarrow>
   begin_job bk_env config out bk_binding w = (w\<lparr>w_dirs := dset (w_dirs w) out [(''OWNER-STARTED.json'', Regular [CHR 0x0A])]\<rparr>, Inr ())"
  by (simp add: begin_job_def sbnd_def slift_def sget_def campaign_open_def fresh_output_def list_all_iff publish_out_def publish_value_def publish_def MAX_RESULT_def del: map_of_eq_Some_iff)

definition bk_request :: "string \<Rightarrow> string \<Rightarrow> int \<Rightarrow> int \<Rightarrow> pydict" where
  "bk_request job_id kind whole caller = request_value job_id kind (PStr (zeros 64)) (PStr (zeros 64)) (zeros 64) (zeros 64) 1 whole caller
     [PDict [(''name'', PStr ''k''), (''sha256'', PStr (zeros 64)), (''bytes'', PInt 1)]]"

lemma bk_check: 
 assumes "(kind, whole, caller) \<in> {(''profile'', 600, 100), (''component'', 2910, 2190)}" "hex_string 32 job_id"
 shows "check_request flat_codec (PDict (bk_request job_id kind whole caller)) = Inr (bk_request job_id kind whole caller)"
  using assms by (auto simp: bk_request_def request_value_def check_request_def dget_rec str_in_def KINDS_def hex_value_def IDENTITIES_def identity_def hex_zeros check_clock_def CLOCKS_def pos_int_def post_release_def POST_RELEASE_SECONDS_def admission_seconds_def
    envelope_seconds_def check_sources_def source_step_def simple_name_def MAX_SOURCE_def MAX_SOURCE_TOTAL_def is_alnum_def is_lower_def simp del: bnd_Inr_iff)

lemma flat_digest [simp]: "c_digest flat_codec x = zeros 64" by (simp add: flat_codec_def)

lemma bk_prepare:
 assumes "(kind, whole, caller) \<in> {(''profile'', 600, 100), (''component'', 2910, 2190)}" "hex_string 32 (e_job_id bk_env n)"
 shows "prepare flat_codec (submission_of bk_env config bk_binding kind (PInt caller) n [(''k'', Some (Regular ''x''))] (Some (zeros 64)))
   = Inr (bk_request (e_job_id bk_env n) kind whole caller, [CHR 0x0A], [(''k'', ''x'')])"
  using assms(1) bk_check [OF assms, unfolded bk_request_def] unfolding bk_request_def
  by (auto simp: submission_of_def prepare_def identity_def hex_value_def hex_zeros pos_int_def envelope_seconds_def str_in_def KINDS_def  admission_seconds_def post_release_def POST_RELEASE_SECONDS_def
     MAX_JSON_def snapshot_step_def simple_name_def is_alnum_def is_lower_def read_member_def MAX_SOURCE_def simp del: bnd_Inr_iff map_of_eq_Some_iff)

lemma bk_submit: 
 assumes "validate_config config bk_binding = Inr kind" "(kind, whole, caller) \<in> {(''profile'', 600, 100), (''component'', 2910, 2190)}" 
   "hex_string 32 (e_job_id bk_env (Suc (Suc (w_tick w))))" "map_of (w_exchange w) (e_job_id bk_env (Suc (Suc (w_tick w)))) = None"
   "map_of (w_dirs w) out = Some [(''OWNER-STARTED.json'', Regular [CHR 0x0A])]"
 shows "\<exists>j. submit_job bk_env config out bk_binding (Some (zeros 64)) w = (w\<lparr>w_tick := Suc (Suc (w_tick w)), w_exchange := dset (w_exchange w) (e_job_id bk_env (Suc (Suc (w_tick w)))) j,
     w_dirs := dset (w_dirs w) out [(''OWNER-STARTED.json'', Regular [CHR 0x0A]), (''OWNER-JOB.json'', Regular [CHR 0x0A])]\<rparr>, Inr (bk_request (e_job_id bk_env (Suc (Suc (w_tick w)))) kind whole caller))"
proof -
  have c: "caller_of bk_binding kind = Inr (PInt caller)" using assms(2) by auto
  have id: "dget (bk_request i k h l) ''id'' = PStr i" for i k h l by (simp add: bk_request_def request_value_def dget_rec)
  show ?thesis
  using assms(4,5)
  by (intro exI [of _ "\<lparr>j_members = [(''CONFIG.json'', Regular [CHR 0x0A]), (''REQUEST.json'', Regular [CHR 0x0A])],
      j_sources = [(''k'', Regular ''x'')]\<rparr>"]) (simp add: submit_job_def sbnd_def slift_def sget_def bk_source_set bk_observe c assms(1) submit_in_def submit_def Let_def bk_prepare [OF assms(2,3)] id
    publish_sources_def publish_def MAX_RESULT_def publish_value_def publish_out_def del: bnd_Inr_iff map_of_eq_Some_iff)
qed

lemma bk_validate_component: "validate_component flat_codec (bk_result ''component_report'' bk_component) (bk_request i k h l) bk_binding = Inr bk_component"
  by (simp add: validate_component_def succeeded_def bk_result_def bk_component_def bk_owner_def item_def dget_rec bk_request_def request_value_def disposition_ok_def dget_or_def bk_binding_def del: bnd_Inr_iff item_Inr_iff)

lemma bk_validate_report: "validate_report (bk_result ''benchmark_report'' bk_profile) (bk_request i ''profile'' h l) bk_binding = Inr bk_profile"
  by (simp add: validate_report_def succeeded_def bk_result_def bk_profile_def bk_owner_def item_def dget_rec bk_request_def request_value_def  dget_or_def
    NAME_def owner_bound_def profile_ok_def bk_binding_def del: bnd_Inr_iff item_Inr_iff)

lemma bk_finish: 
  assumes "map_of (w_dirs w) out = Some [(''OWNER-STARTED.json'', Regular [CHR 0x0A]), (''OWNER-JOB.json'', Regular [CHR 0x0A])]"
  shows "finish bk_env (bk_result ''component_report'' bk_component) (bk_request i ''component'' h l) out bk_binding w =
    (w\<lparr>w_dirs := dset (w_dirs w) out [(''OWNER-STARTED.json'', Regular [CHR 0x0A]), (''OWNER-JOB.json'', Regular [CHR 0x0A]), (''OWNER-RESULT.json'', Regular [CHR 0x0A]), (''component_report.json'', Regular [CHR 0x0A])]\<rparr>, Inr bk_component)"
   "\<exists>w'. finish bk_env (bk_result ''benchmark_report'' bk_profile) (bk_request i ''profile'' h l) out bk_binding w = (w', Inr bk_profile)"
proof -
  have k: "item (bk_request i k h l) ''kind'' = Inr (PStr k)" for k by (simp add: bk_request_def request_value_def item_def del: item_Inr_iff)
  have dd: "dset (dset d k v) k v' = dset d k v'" for d :: "(string \<times> members) list" and k v v' by (induction d) auto
  show "finish bk_env (bk_result ''component_report'' bk_component) (bk_request i ''component'' h l) out bk_binding w =
    (w\<lparr>w_dirs := dset (w_dirs w) out [(''OWNER-STARTED.json'', Regular [CHR 0x0A]), (''OWNER-JOB.json'', Regular [CHR 0x0A]), (''OWNER-RESULT.json'', Regular [CHR 0x0A]), (''component_report.json'', Regular [CHR 0x0A])]\<rparr>, Inr bk_component)"
   "\<exists>w'. finish bk_env (bk_result ''benchmark_report'' bk_profile) (bk_request i ''profile'' h l) out bk_binding w = (w', Inr bk_profile)"
   using assms by (simp_all add: finish_def sbnd_def slift_def k bk_validate_component bk_validate_report publish_out_def publish_value_def publish_def MAX_RESULT_def dd del: bnd_Inr_iff map_of_eq_Some_iff)
qed

lemma bk_ids: "hex_string 32 (e_job_id bk_env n)" "e_job_id bk_env 4 \<noteq> e_job_id bk_env 6"
  by (auto simp: bk_env_def hex_string_def list_all_iff is_hex_def)

lemma bk_run: "\<exists>w'. run (Suc (Suc 0)) bk_env bk_config ''o'' bk_binding bk_world = (w', Inr bk_profile)"
proof -
  have wt: "e_wait bk_env (bk_request i k h l) = Inr (if k = ''component'' then bk_result ''component_report'' bk_component else bk_result ''benchmark_report'' bk_profile)" for i k h l
     by (simp add: bk_env_def bk_request_def request_value_def dget_rec)
  have gate: "screen_gate bk_component = Inr ()" by (simp add: screen_gate_def bk_component_def item_def del: bnd_Inr_iff item_Inr_iff)
  let ?scr = "screened_config bk_config 2910"
  let ?S = "[(''OWNER-STARTED.json'', Regular [CHR 0x0A])]"
  let ?J = "[(''OWNER-STARTED.json'', Regular [CHR 0x0A]), (''OWNER-JOB.json'', Regular [CHR 0x0A])]"
  let ?D = "?J @ [(''OWNER-RESULT.json'', Regular [CHR 0x0A]), (''component_report.json'', Regular [CHR 0x0A])]"
  let ?w = "\<lambda>t x d. \<lparr>w_dirs = d, w_exchange = x, w_tick = t\<rparr>"
  have b1: "begin_job bk_env bk_config ''o'' bk_binding bk_world = (?w 0 [] [(''o'', ?S)], Inr ())"
    using bk_begin [OF bk_validate, of bk_world "''o''"] by (simp add: bk_world_def)
  have m1: "mkdir_out (screen_dir ''o'') (?w 1 [] [(''o'', ?S)]) = (?w 1 [] [(''o'', ?S), (screen_dir ''o'', [])], Inr ())"
    by (simp add: mkdir_out_def screen_dir_def)
  have b2: "begin_job bk_env ?scr (screen_dir ''o'') bk_binding (?w 1 [] [(''o'', ?S), (screen_dir ''o'', [])])
    = (?w 1 [] [(''o'', ?S), (screen_dir ''o'', ?S)], Inr ())"
    using bk_begin [OF bk_validate_screen, of "?w 1 [] [(''o'', ?S), (screen_dir ''o'', [])]" "screen_dir ''o''"] by (simp add: screen_dir_def)
  obtain j where j: "submit_job bk_env ?scr (screen_dir ''o'') bk_binding (Some (zeros 64)) (?w 2 [] [(''o'', ?S), (screen_dir ''o'', ?S)])
    = (?w 4 [(e_job_id bk_env 4, j)] [(''o'', ?S), (screen_dir ''o'', ?J)], Inr (bk_request (e_job_id bk_env 4) ''component'' 2910 2190))"
    using bk_submit [OF bk_validate_screen, of 2910 2190 "?w 2 [] [(''o'', ?S), (screen_dir ''o'', ?S)]" "screen_dir ''o''"] bk_ids by (auto simp: screen_dir_def)
  have f: "finish bk_env (bk_result ''component_report'' bk_component) (bk_request (e_job_id bk_env 4) ''component'' 2910 2190) (screen_dir ''o'') bk_binding
     (?w 4 [(e_job_id bk_env 4, j)] [(''o'', ?S), (screen_dir ''o'', ?J)]) = (?w 4 [(e_job_id bk_env 4, j)] [(''o'', ?S), (screen_dir ''o'', ?D)], Inr bk_component)"
    by (subst bk_finish(1)) (simp_all add: screen_dir_def)
  have inner: "run (Suc 0) bk_env ?scr (screen_dir ''o'') bk_binding (?w 1 [] [(''o'', ?S), (screen_dir ''o'', [])])
    = (?w 4 [(e_job_id bk_env 4, j)] [(''o'', ?S), (screen_dir ''o'', ?D)], Inr bk_component)"
    by (simp add: sbnd_def b2 bk_screen_inner slift_def j wt f del: One_nat_def)
  obtain k where k: "submit_job bk_env bk_config ''o'' bk_binding (Some (zeros 64)) (?w 4 [(e_job_id bk_env 4, j)] [(''o'', ?S), (screen_dir ''o'', ?D)])
    = (?w 6 [(e_job_id bk_env 4, j), (e_job_id bk_env 6, k)] [(''o'', ?J), (screen_dir ''o'', ?D)], Inr (bk_request (e_job_id bk_env 6) ''profile'' 600 100))"
    using bk_submit [OF bk_validate, of 600 100 "?w 4 [(e_job_id bk_env 4, j)] [(''o'', ?S), (screen_dir ''o'', ?D)]" "''o''"] bk_ids by auto
  obtain w' where "finish bk_env (bk_result ''benchmark_report'' bk_profile) (bk_request (e_job_id bk_env 6) ''profile'' 600 100) ''o'' bk_binding
     (?w 6 [(e_job_id bk_env 4, j), (e_job_id bk_env 6, k)] [(''o'', ?J), (screen_dir ''o'', ?D)]) = (w', Inr bk_profile)"
    using bk_finish(2) [of "?w 6 [(e_job_id bk_env 4, j), (e_job_id bk_env 6, k)] [(''o'', ?J), (screen_dir ''o'', ?D)]" "''o''" "e_job_id bk_env 6" 600 100] by auto
  then have "run (Suc (Suc 0)) bk_env bk_config ''o'' bk_binding bk_world = (w', Inr bk_profile)"
    using inner m1 k unfolding run.simps(2) [of "Suc 0"] by (simp add: sbnd_def b1 bk_screen slift_def gate wt One_nat_def [symmetric] del: run.simps One_nat_def)
  then show ?thesis by blast
qed

theorem changed_candidate_needs_eligible_screen_witness:
  "\<exists>screen_set screen_report. snd (source_set bk_env bk_binding (later bk_world 1)) = Inr screen_set
     \<and> answered bk_env bk_binding ''component'' screen_set screen_report
     \<and> dget screen_report ''eligible_for_serving'' = PBool True"
proof -
  obtain w' where r: "run (Suc (Suc 0)) bk_env bk_config ''o'' bk_binding bk_world = (w', Inr bk_profile)"
    using bk_run by blast
  have "dget bk_binding ''selected_source_set_sha256'' = PStr ''selected''" by (simp add: bk_binding_def dget_rec)
  then show ?thesis
    using changed_candidate_needs_eligible_screen [OF r] bk_source_set [of bk_world] bk_selected bk_validate by auto
qed

end
