(* ===== verification/Owner_Result.thy ===== *)
theory Owner_Result
  imports Owner_Backend
begin

text \<open>
  \<open>lib/workstation/hyperloom_owner_result.py\<close>: the owner's retained HTTP run and its native quality
  evidence, joined into the report that goes back to the optimizer. The evidence is JSON from files, so
  every subscript may raise. The report of a serving job carries both latency series and their
  comparison, the report of a profile job carries no latency at all. At the end is the step of
  \<open>owner_operation.py\<close> that makes the report and has the backend's own validator accept it.
\<close>

section \<open>Access\<close>

text \<open>\<open>v == d[k]\<close>; a conjunction of parts that may raise; \<open>xs[i]\<close> with Python's negative
  indices; \<open>v[a:b]\<close>; a dictionary whose keys are arbitrary values.\<close>

definition same_as :: "pyv \<Rightarrow> pydict \<Rightarrow> string \<Rightarrow> bool res" where
  "same_as v d k = bnd (item d k) (\<lambda>w. Inr (py_eq v w))"

definition allof :: "bool res list \<Rightarrow> bool res" where
  "allof ms = allM (\<lambda>m. m) ms"

definition list_at :: "'a list \<Rightarrow> pyv \<Rightarrow> 'a res" where
  "list_at xs v = (case int_val v of None \<Rightarrow> Inl TypeError | Some i \<Rightarrow>
     let j = (if i < 0 then i + int (length xs) else i) in
     if 0 \<le> j \<and> j < int (length xs) then Inr (xs ! nat j) else Inl IndexError)"

definition py_slice :: "pyv \<Rightarrow> nat \<Rightarrow> nat \<Rightarrow> pyv res" where
  "py_slice v a b = (case v of PList vs \<Rightarrow> Inr (PList (take (b - a) (drop a vs)))
     | PStr s \<Rightarrow> Inr (PStr (take (b - a) (drop a s))) | _ \<Rightarrow> Inl TypeError)"

definition hashable :: "pyv \<Rightarrow> bool" where
  "hashable v = (\<not> is_list v \<and> \<not> is_dict v)"

definition key_lookup :: "(pyv \<times> 'a) list \<Rightarrow> pyv \<Rightarrow> 'a option res" where
  "key_lookup t k = (if hashable k then Inr (map_option snd (find (\<lambda>kv. py_eq (fst kv) k) t)) else Inl TypeError)"

section \<open>Native answers and grades\<close>

definition ARMS :: "(string \<times> string) list" where
  "ARMS = [(''bf16'', ''control''), (''kv4'', ''mtp'')]"

definition ordered :: "pyv \<Rightarrow> nat \<Rightarrow> string \<Rightarrow> pydict list res" where
  "ordered v count label =
     guard (case v of
              PList rows \<Rightarrow> length rows = count
                \<and> list_all (\<lambda>(row, i). is_dict row \<and> dget (dict_of_v row) ''ordinal'' = PInt (int i)) (zip rows [0..<count])
            | _ \<Rightarrow> False)
       (''complete ordered '' @ label @ '' required'') (Inr (map dict_of_v (list_of v)))"

definition quality_complete :: "pyv \<Rightarrow> nat \<Rightarrow> bool" where
  "quality_complete quality count =
     (case quality of
        PDict q \<Rightarrow> dget q ''status'' = PStr ''NATIVE_CPU_FINAL_QUALITY_AND_RELEASE_VALIDATED''
          \<and> dget q ''independent_release_verified'' = PBool True
          \<and> dget q ''quality_pass'' = PBool True \<and> dget q ''long_answer_coverage_pass'' = PBool True
          \<and> py_eq (dget q ''decoded_rows'') (dget q ''natural_rows'') \<and> py_eq (dget q ''natural_rows'') (PInt (2 * int count))
          \<and> py_eq (dget q ''ungraded_cap_work_rows'') (dget q ''state_only_cancellations'')
          \<and> py_eq (dget q ''state_only_cancellations'') (PInt 0)
          \<and> dget q ''qualification'' = PBool False \<and> dget q ''selected'' = PBool False
      | _ \<Rightarrow> False)"

definition rows_complete :: "pyv \<Rightarrow> pydict \<Rightarrow> nat \<Rightarrow> bool res" where
  "rows_complete decoded q count =
     (case decoded of
        PDict d \<Rightarrow> (case dget d ''answers'' of
            PList answers \<Rightarrow> andM (Inr (length answers = 2 * count))
              (bnd (py_len (dget_or q ''grades'' (PList []))) (\<lambda>n. Inr (n = 2 * count)))
          | _ \<Rightarrow> Inr False)
      | _ \<Rightarrow> Inr False)"

definition answer_graded :: "string \<Rightarrow> pydict \<Rightarrow> pydict \<Rightarrow> bool" where
  "answer_graded physical answer grade =
     (py_eq (dget answer ''arm'') (dget grade ''arm'') \<and> dget grade ''arm'' = PStr physical
      \<and> py_eq (dget answer ''case'') (dget grade ''case'')
      \<and> dget answer ''final_status'' = PStr ''FINAL_SEGMENT_DECODED''
      \<and> dget answer ''finish_reason'' = PStr ''stop'' \<and> dget answer ''wire_decode_matches'' = PBool True
      \<and> dget answer ''error'' = PNone \<and> dget grade ''status'' = PStr ''QUALITY_PASS''
      \<and> dget grade ''quality_passed'' = PBool True \<and> dget grade ''long_answer_coverage_passed'' = PBool True
      \<and> py_eq (dget answer ''final_answer_token_count'') (dget grade ''final_answer_token_count''))"

definition arm_answers :: "pyv \<Rightarrow> pydict \<Rightarrow> nat \<Rightarrow> nat \<times> string \<times> string \<Rightarrow> (string \<times> pydict list) res" where
  "arm_answers decoded q count arm =
     (case arm of (offset, physical, logical) \<Rightarrow>
       bnd (bnd (py_slice (dget (dict_of_v decoded) ''answers'') (offset * count) ((offset + 1) * count)) (\<lambda>v. ordered v count ''decodes'')) (\<lambda>answers.
       bnd (bnd (py_slice (dget q ''grades'') (offset * count) ((offset + 1) * count)) (\<lambda>v. ordered v count ''grades'')) (\<lambda>grades.
       guard (list_all2 (answer_graded physical) answers grades) ''native answer/grade identity or quality mismatch''
         (Inr (physical, answers)))))"

text \<open>\<open>requests\<close> is the number the caller passes, as the value it is: a float counts but cannot
  slice.\<close>

definition quality_answers :: "pyv \<Rightarrow> pyv \<Rightarrow> pyv \<Rightarrow> nat \<Rightarrow> (string \<times> pydict list) list res" where
  "quality_answers quality decoded requests count =
     guard (quality_complete quality count) ''all natural answers and native CPU release must pass'' (
     guardM (rows_complete decoded (dict_of_v quality) count) ''complete native decode and grade rows required'' (
     if is_int requests then mapM_res (arm_answers decoded (dict_of_v quality) count) (zip [0..<length ARMS] ARMS)
     else Inl TypeError))"

section \<open>The retained HTTP run\<close>

definition row_bound :: "pydict \<Rightarrow> pydict \<Rightarrow> bool res" where
  "row_bound row answer =
     (case dget_or row ''contract'' (PDict []) of
        PDict contract \<Rightarrow> allof
          [Inr (py_eq (dget row ''case'') (dget contract ''case'')), same_as (dget contract ''case'') answer ''case'',
           Inr (py_eq (dget row ''body_sha256'') (dget contract ''request_sha256'')),
           same_as (dget contract ''request_sha256'') answer ''request_body_sha256'',
           same_as (dget contract ''raw_http_response_sha256'') answer ''response_raw_sha256'',
           same_as (dget contract ''raw_response_sha256'') answer ''response_canonical_sha256'',
           same_as (dget contract ''response_token_ids_sha256'') answer ''output_ids_sha256'',
           Inr (dget contract ''status'' = PStr ''NORMAL_STOP_COMPLETE''), Inr (dget contract ''finish_reason'' = PStr ''stop''),
           Inr (dget contract ''metric_eligible'' = PBool True),
           Inr (py_eq (dget contract ''response_id_count'') (dget contract ''reported_completion_tokens'')),
           same_as (dget contract ''reported_completion_tokens'') answer ''output_tokens'',
           positive (dget contract ''client_elapsed_seconds'')]
      | _ \<Rightarrow> Inl AttributeError)"

definition SEGMENTS :: "string list" where
  "SEGMENTS = [''reasoning_token_count'', ''final_answer_token_count'', ''closing_marker_index'']"

definition row_segmented :: "pydict \<Rightarrow> pydict \<Rightarrow> bool res" where
  "row_segmented row answer =
     (let segments = dget_or (dict_of_v (dget row ''contract'')) ''thinking_segments'' (PDict []) in
      allM (\<lambda>k. bnd (py_get segments k) (\<lambda>v. same_as v answer k)) SEGMENTS)"

definition check_row :: "pydict \<times> pydict \<Rightarrow> unit res" where
  "check_row ra =
     guardM (row_bound (fst ra) (snd ra)) ''HTTP/native answer binding or completion mismatch'' (
     guardM (row_segmented (fst ra) (snd ra)) ''wire/native output segmentation mismatch'' (Inr ()))"

type_synonym group_table = "(pyv \<times> pydict) list"

definition group_fits :: "group_table \<Rightarrow> pyv \<Rightarrow> pyv \<Rightarrow> bool res" where
  "group_fits groups grp plan =
     (case grp of
        PDict g \<Rightarrow> allof
          [bnd (py_item plan ''id'') (\<lambda>v. Inr (py_eq (dget g ''group_id'') v)),
           bnd (item g ''group_id'') (\<lambda>v. bnd (key_lookup groups v) (\<lambda>known. Inr (known = None))),
           bnd (py_item plan ''kind'') (\<lambda>v. Inr (py_eq (dget g ''kind'') v)),
           bnd (py_item plan ''ordinals'') (\<lambda>v. Inr (py_eq (dget g ''ordinals'') v)),
           (if is_int (dget g ''concurrency'') then bnd (py_item plan ''concurrency'') (\<lambda>v. Inr (py_eq (dget g ''concurrency'') v))
            else Inr False),
           bnd (bnd (py_item plan ''ordinals'') py_len) (\<lambda>n. bnd (py_item plan ''concurrency'') (\<lambda>v. Inr (py_eq (PInt (int n)) v))),
           bnd (py_item plan ''kind'') (\<lambda>v. Inr (dget g ''excluded_warmup'' = PBool (v = PStr ''warmup''))),
           bnd (py_item plan ''kind'') (\<lambda>v. Inr (dget g ''measured'' = PBool (v = PStr ''timing'')))]
      | _ \<Rightarrow> Inr False)"

definition contract_item :: "pydict list \<Rightarrow> string \<Rightarrow> pyv \<Rightarrow> pyv res" where
  "contract_item rows k i = bnd (list_at rows i) (\<lambda>row. bnd (item row ''contract'') (\<lambda>contract. py_item contract k))"

definition answer_item :: "pydict list \<Rightarrow> string \<Rightarrow> pyv \<Rightarrow> pyv res" where
  "answer_item answers k i = bnd (list_at answers i) (\<lambda>answer. item answer k)"

definition group_accounts :: "pydict \<Rightarrow> pyv list \<Rightarrow> pyv \<Rightarrow> bool res" where
  "group_accounts g times_taken tokens =
     allof [Inr (py_eq (dget g ''per_request_latency_seconds'') (PList times_taken)),
       Inr (py_eq (dget g ''completion_tokens'') tokens), positive (dget g ''makespan_seconds''),
       allM (\<lambda>t. bnd (py_add (dget g ''makespan_seconds'') (PFloat (to_float (1 / 1000000)))) (py_le t)) times_taken]"

definition group_step ::
  "pydict list \<Rightarrow> pydict list \<Rightarrow> group_table \<times> pyv list \<Rightarrow> pyv \<times> pyv \<Rightarrow> (group_table \<times> pyv list) res" where
  "group_step rows answers acc gp =
     guardM (group_fits (fst acc) (fst gp) (snd gp)) ''HTTP group differs from frozen simultaneous schedule'' (
     let g = dict_of_v (fst gp) in
     bnd (bnd (py_item (snd gp) ''ordinals'') py_iter) (\<lambda>ordinals.
     bnd (mapM_res (contract_item rows ''client_elapsed_seconds'') ordinals) (\<lambda>times_taken.
     bnd (foldM_res (\<lambda>n i. bnd (answer_item answers ''output_tokens'' i) (py_add n)) (PInt 0) ordinals) (\<lambda>tokens.
     guardM (group_accounts g times_taken tokens) ''HTTP group accounting mismatch'' (
     bnd (py_item (snd gp) ''id'') (\<lambda>key. Inr (fst acc @ [(key, g)], snd acc @ ordinals)))))))"

definition run_complete :: "pyv \<Rightarrow> nat \<Rightarrow> bool" where
  "run_complete summary count =
     (case summary of
        PDict s \<Rightarrow> dget s ''stopped_early'' = PBool False \<and> dget s ''paired_error'' = PNone
          \<and> py_eq (dget s ''executed_case_count'') (dget s ''frozen_case_count'')
          \<and> py_eq (dget s ''frozen_case_count'') (PInt (int count))
      | _ \<Rightarrow> False)"

definition arm_rows :: "pyv \<Rightarrow> pydict list \<Rightarrow> pyv \<Rightarrow> nat \<Rightarrow> (pydict list \<times> group_table) res" where
  "arm_rows summary answers frozen count =
     guard (run_complete summary count) ''complete retained HTTP run required'' (
     bnd (ordered (dget (dict_of_v summary) ''rows'') count ''HTTP rows'') (\<lambda>rows.
     bnd (mapM_res check_row (zip rows answers)) (\<lambda>_.
     guardM (case dget (dict_of_v summary) ''groups'' of
               PList groups \<Rightarrow> bnd (py_len frozen) (\<lambda>n. Inr (length groups = n)) | _ \<Rightarrow> Inr False)
       ''complete HTTP group schedule required'' (
     bnd (py_iter frozen) (\<lambda>plans.
     bnd (foldM_res (group_step rows answers) ([], []) (zip (list_of (dget (dict_of_v summary) ''groups'')) plans)) (\<lambda>(groups, ordinals).
     guard (py_eq (PList ordinals) (PList (map (\<lambda>i. PInt (int i)) [0..<count])))
       ''HTTP requests omitted or reused by schedule'' (Inr (rows, groups))))))))"

section \<open>The latency series of one arm\<close>

record projection =
  v_summaries :: pydict
  v_decoded :: pyv
  v_quality :: pyv
  v_quality_sha :: pyv
  v_workload :: pyv
  v_request :: pydict
  v_binding :: pydict
  v_seal :: pyv
  v_nonce :: string

text \<open>What the loop over the frozen samples adds up besides the samples.\<close>

record tally =
  t_ordinals :: "pyv list"
  t_seconds :: pyv
  t_tokens :: pyv

definition group_matches :: "pydict \<Rightarrow> pyv \<Rightarrow> pyv \<Rightarrow> bool res" where
  "group_matches grp frozen plan =
     allof [bnd (item grp ''kind'') (\<lambda>k. Inr (k = PStr ''timing'')),
       bnd (item grp ''ordinals'') (\<lambda>a. bnd (py_item frozen ''ordinals'') (\<lambda>b. Inr (py_eq a b))),
       bnd (item grp ''concurrency'') (\<lambda>a. bnd (py_item plan ''concurrency'') (\<lambda>b. Inr (py_eq a b)))]"

definition timing_group :: "group_table \<Rightarrow> pyv \<Rightarrow> pyv \<Rightarrow> pydict res" where
  "timing_group groups plan frozen =
     bnd (py_item frozen ''group'') (\<lambda>name. bnd (key_lookup groups name) (\<lambda>found.
     case found of None \<Rightarrow> Inl (KeyError (str_of name)) | Some grp \<Rightarrow>
     guardM (group_matches grp frozen plan) ''case/group identity mismatch'' (Inr grp)))"

definition sample_id :: "projection \<Rightarrow> string \<Rightarrow> pyv \<Rightarrow> string res" where
  "sample_id p logical name =
     (case name of PStr g \<Rightarrow> Inr (v_nonce p @ '':'' @ logical @ '':'' @ g) | _ \<Rightarrow> Inl TypeError)"

definition sample_value ::
  "projection \<Rightarrow> string \<Rightarrow> pydict list \<Rightarrow> pydict list \<Rightarrow> pydict \<Rightarrow> pyv \<Rightarrow> pyv \<Rightarrow> pyv list \<Rightarrow> pydict res" where
  "sample_value p logical rows answers grp plan frozen ordinals =
     bnd (mapM_res (\<lambda>i. bnd (list_at rows i) (\<lambda>row. item row ''contract'')) ordinals) (\<lambda>contracts.
     bnd (mapM_res (list_at answers) ordinals) (\<lambda>native.
     bnd (py_item frozen ''group'') (\<lambda>name. bnd (sample_id p logical name) (\<lambda>sid.
     bnd (py_item plan ''concurrency'') (\<lambda>concurrency.
     bnd (mapM_res (\<lambda>c. bnd (py_item c ''client_elapsed_seconds'') (py_mul (PInt 1000))) contracts) (\<lambda>e2e.
     bnd (bnd (item grp ''makespan_seconds'') (py_mul (PInt 1000))) (\<lambda>wall.
     bnd (mapM_res (\<lambda>c. py_item c ''prompt_token_count'') contracts) (\<lambda>prompts.
     bnd (mapM_res (\<lambda>a. item a ''output_tokens'') native) (\<lambda>completions.
     bnd (mapM_res (\<lambda>a. item a ''reasoning_token_count'') native) (\<lambda>reasoning.
     bnd (mapM_res (\<lambda>a. item a ''final_answer_token_count'') native) (\<lambda>finals.
     bnd (mapM_res (\<lambda>a. item a ''response_raw_sha256'') native) (\<lambda>responses.
     Inr [(''id'', PStr sid), (''group_id'', name), (''warmup'', PBool False), (''completed'', concurrency),
       (''request_e2e_ms'', PList e2e), (''group_wall_ms'', wall), (''prompt_tokens'', PList prompts),
       (''completion_tokens'', PList completions), (''reasoning_tokens'', PList reasoning), (''final_tokens'', PList finals),
       (''response_sha256'', PList responses), (''task_quality_passed'', PBool True)]))))))))))))"

definition score_sample ::
  "projection \<Rightarrow> string \<Rightarrow> pydict list \<Rightarrow> pydict list \<Rightarrow> group_table \<Rightarrow> pyv \<Rightarrow> tally \<times> pyv list \<Rightarrow> pyv \<Rightarrow> (tally \<times> pyv list) res" where
  "score_sample p logical rows answers groups plan acc frozen =
     bnd (timing_group groups plan frozen) (\<lambda>grp.
     bnd (bnd (py_item frozen ''ordinals'') py_iter) (\<lambda>ordinals.
     bnd (sample_value p logical rows answers grp plan frozen ordinals) (\<lambda>sample.
     bnd (bnd (item grp ''makespan_seconds'') (py_add (t_seconds (fst acc)))) (\<lambda>seconds.
     bnd (bnd (item grp ''completion_tokens'') (py_add (t_tokens (fst acc)))) (\<lambda>tokens.
     Inr (\<lparr>t_ordinals = t_ordinals (fst acc) @ ordinals, t_seconds = seconds, t_tokens = tokens\<rparr>, snd acc @ [PDict sample]))))))"

definition score_case ::
  "projection \<Rightarrow> string \<Rightarrow> pydict list \<Rightarrow> pydict list \<Rightarrow> group_table \<Rightarrow> tally \<times> pyv list \<Rightarrow> string \<times> pyv \<Rightarrow> (tally \<times> pyv list) res" where
  "score_case p logical rows answers groups acc np =
     bnd (bnd (py_item (snd np) ''samples'') py_iter) (\<lambda>frozen.
     bnd (foldM_res (score_sample p logical rows answers groups (snd np)) (fst acc, []) frozen) (\<lambda>(tally, samples).
     bnd (py_item (snd np) ''concurrency'') (\<lambda>concurrency. bnd (py_item (snd np) ''contract_sha256'') (\<lambda>contract.
     Inr (tally, snd acc @ [PDict [(''id'', PStr (fst np)), (''concurrency'', concurrency),
            (''request_contract_sha256'', contract), (''samples'', PList samples)]])))))"

definition series_value :: "projection \<Rightarrow> string \<Rightarrow> pyv list \<Rightarrow> pydict res" where
  "series_value p logical cases =
     bnd (mapM_res (item (v_binding p)) FIXED_IDENTITIES) (\<lambda>identities.
     bnd (if logical = ''control'' then item (v_binding p) ''selected_source_set_sha256'' else item (v_request p) ''source_set_sha256'') (\<lambda>candidate.
     Inr ([(''schema'', PInt 1), (''kind'', PStr ''serving''), (''profiled'', PBool False), (''complete'', PBool True),
        (''quality_passed'', PBool True), (''independent_release'', PBool True), (''observation_id'', PStr (v_nonce p)),
        (''arm'', PStr logical)] @ zip FIXED_IDENTITIES identities
        @ [(''candidate_sha256'', candidate), (''owner_seal_sha256'', v_seal p), (''quality_sha256'', v_quality_sha p),
           (''cases'', PList cases)])))"

definition throughput_value :: "tally \<Rightarrow> pydict res" where
  "throughput_value t =
     bnd (py_truediv (t_tokens t) (t_seconds t)) (\<lambda>rate.
     Inr [(''output_throughput'', PFloat rate), (''completed_requests'', PInt 27), (''num_prompts'', PInt 27),
       (''output_tokens'', t_tokens t), (''measured_group_seconds'', t_seconds t),
       (''scope'', PStr ''combined TP2 completed tokens per measured group wall second'')])"

text \<open>\<open>sorted(measured_ordinals) == list(range(3, 30))\<close>: they have been used as indices, so they are
  integers or booleans.\<close>

definition scored_once :: "pyv list \<Rightarrow> bool" where
  "scored_once ordinals = (sort (map (\<lambda>v. case int_val v of Some i \<Rightarrow> i | None \<Rightarrow> 0) ordinals) = map int [3..<30])"

definition dict_items :: "pyv \<Rightarrow> pydict res" where
  "dict_items v = (case v of PDict d \<Rightarrow> Inr d | _ \<Rightarrow> Inl AttributeError)"

record served =
  s_value :: pydict
  s_cases :: "(string \<times> case_row) list"
  s_throughput :: pydict

definition native_of :: "(string \<times> pydict list) list \<Rightarrow> string \<Rightarrow> pydict list" where
  "native_of answers physical = (case map_of answers physical of None \<Rightarrow> [] | Some a \<Rightarrow> a)"

definition serve_arm :: "projection \<Rightarrow> (string \<times> pydict list) list \<Rightarrow> string \<times> string \<Rightarrow> served res" where
  "serve_arm p answers arm =
     (let native = native_of answers (fst arm) in
      bnd (item (v_summaries p) (fst arm)) (\<lambda>summary.
      bnd (py_item (v_workload p) ''groups'') (\<lambda>frozen.
      bnd (arm_rows summary native frozen 30) (\<lambda>(rows, groups).
      bnd (bnd (py_item (v_workload p) ''cases'') dict_items) (\<lambda>plans.
      bnd (foldM_res (score_case p (snd arm) rows native groups)
             (\<lparr>t_ordinals = [], t_seconds = PFloat (Fin 0), t_tokens = PInt 0\<rparr>, []) (sort_key fst plans)) (\<lambda>(tally, cases).
      guard (scored_once (t_ordinals tally)) ''every non-warmup request must be scored once'' (
      bnd (series_value p (snd arm) cases) (\<lambda>v.
      bnd (bnd (item (v_binding p) ''latency_policy'') py_dict) (\<lambda>policy.
      bnd (series (PDict v) policy) (\<lambda>(rows_of, ids).
      bnd (throughput_value tally) (\<lambda>throughput.
      Inr \<lparr>s_value = v, s_cases = rows_of, s_throughput = throughput\<rparr>)))))))))))"

section \<open>The comparison as the report shows it\<close>

definition axis_value :: "axis \<Rightarrow> pyv" where
  "axis_value x =
     PDict [(''baseline_median_ms'', x_baseline x), (''candidate_median_ms'', x_candidate x), (''baseline_range_ms'', x_baseline_range x),
       (''candidate_range_ms'', x_candidate_range x), (''noise_band_ms'', x_band x), (''stable'', PBool (x_stable x)),
       (''regression'', PBool (x_regression x)), (''resolved_improvement'', PBool (x_resolved x)), (''speedup_ratio'', PFloat (x_ratio x))]"

definition samples_in :: "(string \<times> case_row) list \<Rightarrow> string \<Rightarrow> pyv" where
  "samples_in cases name = PInt (case map_of cases name of None \<Rightarrow> 0 | Some row \<Rightarrow> int (length (r_e2e row)))"

definition compared_value :: "served \<Rightarrow> served \<Rightarrow> string \<times> compared \<Rightarrow> string \<times> pyv" where
  "compared_value base cand nk =
     (fst nk, PDict [(''concurrency'', PInt (int (k_concurrency (snd nk)))),
        (''axes'', PDict (map (\<lambda>ax. (fst ax, axis_value (snd ax))) (axes (snd nk)))),
        (''baseline_samples'', samples_in (s_cases base) (fst nk)), (''candidate_samples'', samples_in (s_cases cand) (fst nk)),
        (''output_token_delta_pct'', PList (map PFloat (k_deltas (snd nk))))])"

definition comparison_value :: "libm \<Rightarrow> pydict \<Rightarrow> served \<Rightarrow> served \<Rightarrow> comparison \<Rightarrow> pydict res" where
  "comparison_value m policy base cand cmp =
     bnd (geometric_mean m (ratios (c_cases cmp) 1)) (\<lambda>c1. bnd (geometric_mean m (ratios (c_cases cmp) 2)) (\<lambda>c2.
     Inr [(''schema'', PInt 1), (''objective'', PStr ''balanced_c1_c2_e2e_latency''), (''score_unit'', PStr ''dimensionless_latency_ratio''),
       (''baseline_score'', PFloat (Fin 1)), (''candidate_score'', PFloat (c_score cmp)), (''gain_pct'', PFloat (c_gain cmp)),
       (''per_concurrency_ratio'', PDict [(''1'', PFloat c1), (''2'', PFloat c2)]),
       (''cases'', PDict (map (compared_value base cand) (c_cases cmp))), (''policy'', PDict policy),
       (''verdict'', PStr (c_verdict cmp)), (''reasons'', PList (map PStr (c_reasons cmp))), (''adoption_authorized'', PBool False),
       (''baseline_owner_seal_sha256'', dget (s_value base) ''owner_seal_sha256''),
       (''candidate_owner_seal_sha256'', dget (s_value cand) ''owner_seal_sha256'')]))"

section \<open>The reports\<close>

definition request_fits :: "projection \<Rightarrow> string \<Rightarrow> bool res" where
  "request_fits p kind =
     allof [bnd (item (v_request p) ''kind'') (\<lambda>k. Inr (k = PStr kind)),
       bnd (item (v_request p) ''campaign_sha256'') (\<lambda>a. same_as a (v_binding p) ''campaign_sha256''),
       bnd (item (v_request p) ''selection_sha256'') (\<lambda>a. same_as a (v_binding p) ''selection_sha256'')]"

definition workload_fits :: "codec \<Rightarrow> projection \<Rightarrow> bool res" where
  "workload_fits c p =
     (case v_workload p of
        PDict w \<Rightarrow> allof [Inr (dget w ''diagnostic_only'' = PBool False), Inr (py_eq (dget w ''requests'') (PInt 30)),
          Inr (py_eq (dget w ''samples_per_case'') (PInt 3)),
          bnd (digest_of c (PDict w)) (\<lambda>h. same_as (PStr h) (v_binding p) ''workload_sha256'')]
      | _ \<Rightarrow> Inr False)"

definition two_arms :: "projection \<Rightarrow> bool" where
  "two_arms p = (has_keys (v_summaries p) (map fst ARMS) \<and> hex_string 16 (v_nonce p))"

definition check_pins :: "projection \<Rightarrow> unit res" where
  "check_pins p = bnd (identity (v_quality_sha p) ''quality'') (\<lambda>_. identity (v_seal p) ''owner'')"

definition owner_value :: "codec \<Rightarrow> projection \<Rightarrow> pydict res" where
  "owner_value c p =
     bnd (digest_of c (PDict (v_request p))) (\<lambda>h. bnd (item (v_request p) ''source_set_sha256'') (\<lambda>sources.
     Inr [(''owner_seal_sha256'', v_seal p), (''request_sha256'', PStr h), (''source_set_sha256'', sources)]))"

definition model_of :: "projection \<Rightarrow> pyv res" where
  "model_of p = bnd (item (v_binding p) ''benchmark'') (\<lambda>b. py_item b ''model'')"

definition serving_report :: "codec \<Rightarrow> libm \<Rightarrow> projection \<Rightarrow> pydict res" where
  "serving_report c m p =
     guardM (request_fits p ''serving'') ''wrong serving campaign'' (
     guardM (workload_fits c p) ''exact balanced serving workload required'' (
     guard (two_arms p) ''two physical arms and registered owner nonce required'' (
     bnd (check_pins p) (\<lambda>_.
     bnd (quality_answers (v_quality p) (v_decoded p) (dget (dict_of_v (v_workload p)) ''requests'') 30) (\<lambda>answers.
     bnd (serve_arm p answers (''bf16'', ''control'')) (\<lambda>control.
     bnd (serve_arm p answers (''kv4'', ''mtp'')) (\<lambda>mtp.
     bnd (model_of p) (\<lambda>model. bnd (item (v_binding p) ''workload_sha256'') (\<lambda>workload.
     bnd (owner_value c p) (\<lambda>owner.
     bnd (item (v_binding p) ''latency_policy'') (\<lambda>policy.
     bnd (compare m (PDict (s_value control)) (PDict (s_value mtp)) policy) (\<lambda>cmp.
     bnd (bnd (py_dict policy) (\<lambda>pol. comparison_value m pol control mtp cmp)) (\<lambda>paired.
     Inr [(''success'', PBool True), (''framework'', PStr ''sglang''), (''model'', model),
       (''benchmark_backend'', PStr ''workstation_owner''), (''benchmark_valid'', PBool True), (''diagnostic_only'', PBool False),
       (''workload_identity'', workload), (''workstation_latency'', PDict (s_value mtp)),
       (''workstation_latency_control'', PDict (s_value control)), (''throughput'', PDict (s_throughput mtp)),
       (''control_throughput'', PDict (s_throughput control)), (''latency'', PDict []),
       (''quality_gate'', PDict [(''passed'', PBool True), (''native_quality_sha256'', v_quality_sha p), (''decoded_rows'', PInt 60)]),
       (''owner_binding'', PDict owner), (''paired_comparison'', PDict paired), (''adoption_authorized'', PBool False)])))))))))))))"

definition PROFILE_SCHEDULE :: pyv where
  "PROFILE_SCHEDULE = PList (map PList
     [[PStr ''warmup'', PList [PInt 0], PInt 1], [PStr ''warmup'', PList [PInt 1, PInt 2], PInt 2],
      [PStr ''timing'', PList [PInt 3, PInt 4], PInt 2]])"

definition diagnostic_fits :: "projection \<Rightarrow> bool" where
  "diagnostic_fits p =
     (case v_workload p of
        PDict w \<Rightarrow> dget w ''diagnostic_only'' = PBool True \<and> py_eq (dget w ''requests'') (PInt 5)
          \<and> py_eq (dget w ''samples_per_case'') (PInt 1) \<and> dget w ''cases'' = PDict []
      | _ \<Rightarrow> False)"

text \<open>The three fields of every group, as a list instead of a tuple.\<close>

definition schedule_of :: "pyv \<Rightarrow> pyv res" where
  "schedule_of groups = bnd (py_iter groups) (\<lambda>gs.
     bnd (mapM_res (\<lambda>g. mapM_res (py_item g) [''kind'', ''ordinals'', ''concurrency'']) gs) (\<lambda>rows. Inr (PList (map PList rows))))"

definition capture_fits :: "pyv \<Rightarrow> bool res" where
  "capture_fits capture =
     (case capture of
        PDict d \<Rightarrow> andM (bnd (py_len (dget_or d ''profiles'' (PList []))) (\<lambda>n. Inr (n = 7)))
          (bnd (py_iter (dget_or d ''ranks'' (PList []))) (\<lambda>rs. bnd (mapM_res (\<lambda>r. py_item r ''rank'') rs) (\<lambda>ranks.
             Inr (py_eq (PList ranks) (PList [PInt 0, PInt 1])))))
      | _ \<Rightarrow> Inr False)"

definition pair_fits :: "pyv \<Rightarrow> pydict list \<Rightarrow> bool res" where
  "pair_fits frozen answers =
     andM (bnd (py_len frozen) (\<lambda>n. Inr (n = 2)))
       (bnd (bnd (py_iter frozen) (mapM_res (\<lambda>r. py_item r ''body_sha256''))) (\<lambda>bodies.
        bnd (mapM_res (\<lambda>a. item a ''request_body_sha256'') (drop 3 answers)) (\<lambda>native.
        Inr (py_eq (PList bodies) (PList native)))))"

definition profile_rows :: "projection \<Rightarrow> (string \<times> pydict list) list \<Rightarrow> string \<times> string \<Rightarrow> (pydict list \<times> group_table) res" where
  "profile_rows p answers arm =
     bnd (item (v_summaries p) (fst arm)) (\<lambda>summary. bnd (py_item (v_workload p) ''groups'') (\<lambda>frozen.
     arm_rows summary (native_of answers (fst arm)) frozen 5))"

definition profile_value :: "codec \<Rightarrow> projection \<Rightarrow> pydict \<Rightarrow> pydict res" where
  "profile_value c p capture =
     bnd (owner_value c p) (\<lambda>owner. bnd (model_of p) (\<lambda>model. bnd (digest_of c (v_workload p)) (\<lambda>workload.
     bnd (item capture ''ranks'') (\<lambda>ranks. bnd (item capture ''request'') (\<lambda>request. bnd (item capture ''profiles'') (\<lambda>profiles.
     Inr [(''success'', PBool True), (''framework'', PStr ''sglang''), (''model'', model),
       (''benchmark_backend'', PStr ''workstation_owner''), (''benchmark_valid'', PBool True), (''diagnostic_only'', PBool True),
       (''workload_identity'', PStr workload), (''observation_id'', PStr (v_nonce p)), (''workstation_latency'', PNone),
       (''workstation_latency_control'', PNone), (''throughput'', PDict []), (''latency'', PDict []),
       (''quality_gate'', PDict [(''passed'', PBool True), (''native_quality_sha256'', v_quality_sha p), (''decoded_rows'', PInt 10)]),
       (''owner_binding'', PDict owner),
       (''profile_coverage'', PDict [(''complete'', PBool True), (''owner_seal_sha256'', v_seal p), (''concurrency'', PInt 2),
          (''windows'', PInt 7), (''ranks'', ranks), (''request'', request)]),
       (''profile_capture'', PDict ([(''schema'', PInt 1), (''status'', PStr ''complete''), (''arm'', PStr ''mtp'')] @ owner
          @ [(''profiles'', profiles)])), (''adoption_authorized'', PBool False)]))))))"

definition profile_report :: "codec \<Rightarrow> projection \<Rightarrow> pyv \<Rightarrow> pydict res" where
  "profile_report c p capture =
     guardM (request_fits p ''profile'') ''wrong profile campaign'' (
     guard (diagnostic_fits p) ''exact C2 diagnostic workload required'' (
     guard (two_arms p) ''two physical profile arms and owner nonce required'' (
     bnd (check_pins p) (\<lambda>_.
     bnd (quality_answers (v_quality p) (v_decoded p) (PInt 5) 5) (\<lambda>answers.
     guardM (bnd (bnd (py_item (v_workload p) ''groups'') schedule_of) (\<lambda>s. Inr (py_eq s PROFILE_SCHEDULE)))
       ''profile warmups and simultaneous request pair required'' (
     bnd (mapM_res (profile_rows p answers) ARMS) (\<lambda>_.
     guardM (capture_fits capture) ''complete two-rank C2 capture required'' (
     bnd (bnd (item (dict_of_v capture) ''request'') (\<lambda>r. py_item r ''requests'')) (\<lambda>frozen.
     guardM (pair_fits frozen (native_of answers ''kv4'')) ''profile and graded HTTP pair differ''
       (profile_value c p (dict_of_v capture)))))))))))"

section \<open>The owner's own validation\<close>

text \<open>\<open>owner_operation.execute\<close>: the report is made for the kind of the job and then has to pass the
  validator of the optimizer's backend.\<close>

definition projected_report :: "codec \<Rightarrow> libm \<Rightarrow> projection \<Rightarrow> pyv \<Rightarrow> pydict res" where
  "projected_report c m p capture =
     (if dget (v_request p) ''kind'' = PStr ''profile'' then profile_report c p capture else serving_report c m p)"

definition report_envelope :: "projection \<Rightarrow> string \<Rightarrow> pydict \<Rightarrow> pydict" where
  "report_envelope p request_sha report =
     [(''status'', PStr ''SUCCEEDED''), (''independent_release'', PBool True),
      (''payload'', PDict [(''benchmark_report'', PDict report)]), (''owner_seal_sha256'', v_seal p),
      (''request_sha256'', PStr request_sha)]"

definition publishable_report :: "codec \<Rightarrow> libm \<Rightarrow> projection \<Rightarrow> string \<Rightarrow> pyv \<Rightarrow> pydict res" where
  "publishable_report c m p request_sha capture =
     bnd (projected_report c m p capture) (\<lambda>report.
     bnd (validate_report (report_envelope p request_sha report) (v_request p) (v_binding p)) (\<lambda>validated.
     guard (validated = report) ''projected report failed the backend validator'' (Inr report)))"

section \<open>What a projected report is made of\<close>

lemma hex_value_refl: "hex_value n v \<Longrightarrow> py_eq v v"
  by (cases v) (simp_all add: hex_value_def)

lemma series_hex:
  assumes "series (PDict r) policy = Inr x" "k \<in> set IDENTITY_FIELDS"
  shows "hex_value 64 (dget r k)"
proof -
  from assms(1) have "\<exists>us. mapM_res (\<lambda>name. require (hex_value 64 (dget r name)) (''latency evidence identity: '' @ name)) IDENTITY_FIELDS = Inr us"
    by (auto simp: series_def)
  with assms(2) show ?thesis by (auto simp: list_all2_conv_all_nth in_set_conv_nth dest!: mapM_res_list_all2)
qed

lemma py_dict_Inr: "py_dict v = Inr d \<longleftrightarrow> v = PDict d"
  by (cases v) (auto simp: py_dict_def)

lemma serve_arm_Inr:
  assumes "serve_arm p answers arm = Inr s"
  obtains cases policy ids where "series_value p (snd arm) cases = Inr (s_value s)"
    "map_of (v_binding p) ''latency_policy'' = Some (PDict policy)" "series (PDict (s_value s)) policy = Inr (s_cases s, ids)"
  using assms unfolding serve_arm_def Let_def
  by (auto simp: py_dict_Inr split: prod.splits)

lemma series_value_Inr:
  assumes "series_value p logical cases = Inr v"
  shows "map_of v ''arm'' = Some (PStr logical)" "map_of v ''owner_seal_sha256'' = Some (v_seal p)"
    "map_of v ''quality_sha256'' = Some (v_quality_sha p)" "map_of v ''observation_id'' = Some (PStr (v_nonce p))"
    "\<And>k. k \<in> set FIXED_IDENTITIES \<Longrightarrow> \<exists>x. map_of (v_binding p) k = Some x \<and> map_of v k = Some x"
    "\<exists>x. map_of (if logical = ''control'' then v_binding p else v_request p)
       (if logical = ''control'' then ''selected_source_set_sha256'' else ''source_set_sha256'') = Some x \<and> map_of v ''candidate_sha256'' = Some x"
  using assms unfolding series_value_def FIXED_IDENTITIES_def
  by (auto split: sum.splits if_splits)

lemma served_series:
  assumes "serve_arm p answers (physical, logical) = Inr s"
  obtains policy ids candidate where "map_of (v_binding p) ''latency_policy'' = Some (PDict policy)"
    "series (PDict (s_value s)) policy = Inr (s_cases s, ids)"
    "map_of (s_value s) ''arm'' = Some (PStr logical)" "map_of (s_value s) ''observation_id'' = Some (PStr (v_nonce p))"
    "map_of (s_value s) ''owner_seal_sha256'' = Some (v_seal p)" "map_of (s_value s) ''quality_sha256'' = Some (v_quality_sha p)"
    "map_of (s_value s) ''candidate_sha256'' = Some candidate" "hex_value 64 candidate"
    "map_of (if logical = ''control'' then v_binding p else v_request p)
       (if logical = ''control'' then ''selected_source_set_sha256'' else ''source_set_sha256'') = Some candidate"
    "\<And>k. k \<in> set FIXED_IDENTITIES \<Longrightarrow> \<exists>x. map_of (v_binding p) k = Some x \<and> map_of (s_value s) k = Some x \<and> hex_value 64 x"
proof (rule serve_arm_Inr [OF assms])
  fix cases policy ids
  assume v: "series_value p (snd (physical, logical)) cases = Inr (s_value s)"
    and policy: "map_of (v_binding p) ''latency_policy'' = Some (PDict policy)"
    and ok: "series (PDict (s_value s)) policy = Inr (s_cases s, ids)"
  note parts = series_value_Inr [OF v, unfolded snd_conv]
  have hex: "hex_value 64 x" if "k \<in> set IDENTITY_FIELDS" "map_of (s_value s) k = Some x" for k x
    using series_hex [OF ok that(1)] that(2) by simp
  have same: "\<exists>x. map_of (v_binding p) k = Some x \<and> map_of (s_value s) k = Some x \<and> hex_value 64 x" if "k \<in> set FIXED_IDENTITIES" for k
    using parts(5) [OF that] hex [of k] that by (auto simp: IDENTITY_FIELDS_def)
  obtain candidate where c: "map_of (s_value s) ''candidate_sha256'' = Some candidate"
    "map_of (if logical = ''control'' then v_binding p else v_request p)
       (if logical = ''control'' then ''selected_source_set_sha256'' else ''source_set_sha256'') = Some candidate"
    using parts(6) by blast
  have "hex_value 64 candidate" by (rule hex [OF _ c(1)]) (simp add: IDENTITY_FIELDS_def)
  then show thesis by (rule that [OF policy ok parts(1,4,2,3) c(1) _ c(2) same])
qed

lemma same_items_eq:
  assumes "\<And>k. k \<in> set names \<Longrightarrow> \<exists>x. map_of a k = Some x \<and> map_of b k = Some x \<and> py_eq x x"
  shows "same_items a b names = Inr True"
proof -
  have "bnd (item a k) (\<lambda>x. bnd (item b k) (\<lambda>y. Inr (py_eq x y))) = Inr True" if "k \<in> set names" for k
    using assms [OF that] by (auto simp: item_def simp del: item_Inr_iff)
  then show ?thesis by (simp only: same_items_def allM_True) blast
qed

lemma check_pins_Inr: "check_pins p = Inr u \<Longrightarrow> hex_value 64 (v_quality_sha p) \<and> hex_value 64 (v_seal p)"
  by (auto simp: check_pins_def identity_def)

lemma allof_True [simp]: "allof ms = Inr True \<longleftrightarrow> (\<forall>m \<in> set ms. m = Inr True)"
  by (simp add: allof_def)

text \<open>What both reports have in common passes the backend's common checks.\<close>

definition common_report :: "projection \<Rightarrow> string \<Rightarrow> pydict \<Rightarrow> bool" where
  "common_report p request_sha r =
     (dget r ''success'' = PBool True \<and> dget r ''framework'' = PStr ''sglang'' \<and> model_of p = Inr (dget r ''model'')
      \<and> dget r ''benchmark_backend'' = PStr NAME \<and> dget r ''benchmark_valid'' = PBool True
      \<and> map_of r ''owner_binding'' = Some (PDict [(''owner_seal_sha256'', v_seal p), (''request_sha256'', PStr request_sha),
           (''source_set_sha256'', dget (v_request p) ''source_set_sha256'')])
      \<and> (\<exists>g. map_of r ''quality_gate'' = Some (PDict g) \<and> dget g ''passed'' = PBool True)
      \<and> dget r ''adoption_authorized'' = PBool False)"

lemma common_report_validates:
  assumes "common_report p h r" "model_of p = Inr (PStr model)" "hex_value 64 (v_seal p)"
    "map_of (v_request p) ''source_set_sha256'' = Some sources" "hex_value 64 sources"
    "map_of (v_request p) ''kind'' = Some kind"
    "(if kind = PStr ''serving'' then serving_series_ok r (report_envelope p h r) (v_request p) (v_binding p)
      else profile_ok r (report_envelope p h r) (v_request p)) = Inr ()"
  shows "validate_report (report_envelope p h r) (v_request p) (v_binding p) = Inr r"
proof -
  obtain b where b: "item (v_binding p) ''benchmark'' = Inr b" "py_item b ''model'' = Inr (PStr model)"
    using assms(2) by (auto simp: model_of_def item_def)
  obtain g where g: "dget_or r ''quality_gate'' (PDict []) = PDict g" "dget g ''passed'' = PBool True"
    using assms(1) by (auto simp: common_report_def dget_or_def)
  have owner: "dget_or r ''owner_binding'' (PDict []) = PDict [(''owner_seal_sha256'', v_seal p), (''request_sha256'', PStr h), (''source_set_sha256'', sources)]"
    using assms(1,4) by (simp add: common_report_def dget_or_def)
  have r: "dget r ''success'' = PBool True" "dget r ''framework'' = PStr ''sglang''" "dget r ''model'' = PStr model"
    "dget r ''benchmark_backend'' = PStr NAME" "dget r ''benchmark_valid'' = PBool True" "dget r ''adoption_authorized'' = PBool False"
    using assms(1,2) by (simp_all add: common_report_def)
  have s: "item (v_request p) ''source_set_sha256'' = Inr sources" "item (v_request p) ''kind'' = Inr kind"
    using assms(4,6) by (simp_all add: item_def)
  have seal: "py_eq (v_seal p) (v_seal p)" "py_eq sources sources" by (rule hex_value_refl [OF assms(3)], rule hex_value_refl [OF assms(5)])
  have e: "item (report_envelope p h r) ''status'' = Inr (PStr ''SUCCEEDED'')" "item (report_envelope p h r) ''independent_release'' = Inr (PBool True)"
    "item (report_envelope p h r) ''payload'' = Inr (PDict [(''benchmark_report'', PDict r)])"
    "item (report_envelope p h r) ''owner_seal_sha256'' = Inr (v_seal p)" "item (report_envelope p h r) ''request_sha256'' = Inr (PStr h)"
    by (simp_all add: report_envelope_def item_def)
  have o: "owner_bound (PDict [(''owner_seal_sha256'', v_seal p), (''request_sha256'', PStr h), (''source_set_sha256'', sources)])
     (report_envelope p h r) (v_request p) = Inr True"
    by (simp add: owner_bound_def e s seal dget_rec)
  have "validate_report (report_envelope p h r) (v_request p) (v_binding p)
     = bnd (if kind = PStr ''serving'' then serving_series_ok r (report_envelope p h r) (v_request p) (v_binding p)
            else profile_ok r (report_envelope p h r) (v_request p)) (\<lambda>_. Inr r)"
    unfolding validate_report_def Let_def by (simp add: succeeded_def e b g owner o r s dget_rec)
  with assms(7) show ?thesis by simp
qed

lemma serving_series_accepted:
  assumes "serve_arm p answers (''bf16'', ''control'') = Inr control" "serve_arm p answers (''kv4'', ''mtp'') = Inr mtp"
    "check_pins p = Inr ()" "dget r ''diagnostic_only'' = PBool False"
    "dget r ''workstation_latency'' = PDict (s_value mtp)" "dget r ''workstation_latency_control'' = PDict (s_value control)"
  shows "serving_series_ok r (report_envelope p h r) (v_request p) (v_binding p) = Inr ()"
proof (rule served_series [OF assms(1)], rule served_series [OF assms(2)])
  fix policy ids candidate policy' ids' candidate'
  assume k: "map_of (v_binding p) ''latency_policy'' = Some (PDict policy)" "series (PDict (s_value control)) policy = Inr (s_cases control, ids)"
      "map_of (s_value control) ''arm'' = Some (PStr ''control'')" "map_of (s_value control) ''observation_id'' = Some (PStr (v_nonce p))"
      "map_of (s_value control) ''owner_seal_sha256'' = Some (v_seal p)" "map_of (s_value control) ''quality_sha256'' = Some (v_quality_sha p)"
      "map_of (s_value control) ''candidate_sha256'' = Some candidate" "hex_value 64 candidate"
      "map_of (if ''control'' = ''control'' then v_binding p else v_request p)
         (if ''control'' = ''control'' then ''selected_source_set_sha256'' else ''source_set_sha256'') = Some candidate"
    and kf: "\<And>k. k \<in> set FIXED_IDENTITIES \<Longrightarrow> \<exists>x. map_of (v_binding p) k = Some x \<and> map_of (s_value control) k = Some x \<and> hex_value 64 x"
    and o: "map_of (v_binding p) ''latency_policy'' = Some (PDict policy')" "series (PDict (s_value mtp)) policy' = Inr (s_cases mtp, ids')"
      "map_of (s_value mtp) ''arm'' = Some (PStr ''mtp'')" "map_of (s_value mtp) ''observation_id'' = Some (PStr (v_nonce p))"
      "map_of (s_value mtp) ''owner_seal_sha256'' = Some (v_seal p)" "map_of (s_value mtp) ''quality_sha256'' = Some (v_quality_sha p)"
      "map_of (s_value mtp) ''candidate_sha256'' = Some candidate'" "hex_value 64 candidate'"
      "map_of (if ''mtp'' = ''control'' then v_binding p else v_request p)
         (if ''mtp'' = ''control'' then ''selected_source_set_sha256'' else ''source_set_sha256'') = Some candidate'"
    and f: "\<And>k. k \<in> set FIXED_IDENTITIES \<Longrightarrow> \<exists>x. map_of (v_binding p) k = Some x \<and> map_of (s_value mtp) k = Some x \<and> hex_value 64 x"
  have pins: "py_eq (v_seal p) (v_seal p)" "py_eq (v_quality_sha p) (v_quality_sha p)"
    using check_pins_Inr [OF assms(3)] by (blast intro: hex_value_refl)+
  have own: "same_items (s_value mtp) (v_binding p) FIXED_IDENTITIES = Inr True"
    by (rule same_items_eq) (use f hex_value_refl in blast)
  have both: "same_items (s_value control) (s_value mtp) (FIXED_IDENTITIES @ [''observation_id'', ''owner_seal_sha256'', ''quality_sha256'']) = Inr True"
  proof (rule same_items_eq)
    fix k assume "k \<in> set (FIXED_IDENTITIES @ [''observation_id'', ''owner_seal_sha256'', ''quality_sha256''])"
    then consider "k \<in> set FIXED_IDENTITIES" | "k = ''observation_id''" | "k = ''owner_seal_sha256''" | "k = ''quality_sha256''" by auto
    then show "\<exists>x. map_of (s_value control) k = Some x \<and> map_of (s_value mtp) k = Some x \<and> py_eq x x"
    proof cases
      case 1
      with kf [OF 1] f [OF 1] hex_value_refl show ?thesis by fastforce
    qed (use k(4,5,6) o(4,5,6) pins in simp_all)
  qed
  have policy: "item (v_binding p) ''latency_policy'' = Inr (PDict policy)" "policy' = policy" using k(1) o(1) by (simp_all add: item_def)
  have c: "item (v_binding p) ''selected_source_set_sha256'' = Inr candidate" "item (v_request p) ''source_set_sha256'' = Inr candidate'"
    "py_eq candidate candidate" "py_eq candidate' candidate'"
    using k(9) o(9) hex_value_refl [OF k(8)] hex_value_refl [OF o(8)] by (simp_all add: item_def)
  have seal: "item (report_envelope p h r) ''owner_seal_sha256'' = Inr (v_seal p)" by (simp add: report_envelope_def item_def)
  show ?thesis
    using k(2,3,5,7) o(2,3,5,7)
    by (simp add: serving_series_ok_def Let_def assms(4,5,6) policy own both c seal pins py_dict_def)
qed

lemma owner_value_Inr:
  assumes "owner_value c p = Inr v"
  obtains h sources where "digest_of c (PDict (v_request p)) = Inr h" "map_of (v_request p) ''source_set_sha256'' = Some sources"
    "v = [(''owner_seal_sha256'', v_seal p), (''request_sha256'', PStr h), (''source_set_sha256'', sources)]"
  using assms by (auto simp: owner_value_def)

lemma request_fits_kind: "request_fits p kind = Inr True \<Longrightarrow> map_of (v_request p) ''kind'' = Some (PStr kind)"
  by (auto simp: request_fits_def)

lemma serving_report_validates:
  assumes report: "serving_report c m p = Inr r" and h: "digest_of c (PDict (v_request p)) = Inr h"
    and model: "model_of p = Inr (PStr model)" and sources: "hex_value 64 (dget (v_request p) ''source_set_sha256'')"
  shows "validate_report (report_envelope p h r) (v_request p) (v_binding p) = Inr r"
proof -
  from report obtain answers control mtp workload owner paired where
    fits: "request_fits p ''serving'' = Inr True" and pins: "check_pins p = Inr ()"
    and control: "serve_arm p answers (''bf16'', ''control'') = Inr control" and mtp: "serve_arm p answers (''kv4'', ''mtp'') = Inr mtp"
    and owner: "owner_value c p = Inr owner"
    and r: "r = [(''success'', PBool True), (''framework'', PStr ''sglang''), (''model'', PStr model),
       (''benchmark_backend'', PStr ''workstation_owner''), (''benchmark_valid'', PBool True), (''diagnostic_only'', PBool False),
       (''workload_identity'', workload), (''workstation_latency'', PDict (s_value mtp)),
       (''workstation_latency_control'', PDict (s_value control)), (''throughput'', PDict (s_throughput mtp)),
       (''control_throughput'', PDict (s_throughput control)), (''latency'', PDict []),
       (''quality_gate'', PDict [(''passed'', PBool True), (''native_quality_sha256'', v_quality_sha p), (''decoded_rows'', PInt 60)]),
       (''owner_binding'', PDict owner), (''paired_comparison'', PDict paired), (''adoption_authorized'', PBool False)]"
    unfolding serving_report_def by (auto simp: model)
  from owner obtain s where owner: "owner = [(''owner_seal_sha256'', v_seal p), (''request_sha256'', PStr h), (''source_set_sha256'', s)]"
    and s: "map_of (v_request p) ''source_set_sha256'' = Some s" by (rule owner_value_Inr) (use h in auto)
  have common: "common_report p h r" using s by (simp add: common_report_def r owner model dget_rec NAME_def)
  have ok: "serving_series_ok r (report_envelope p h r) (v_request p) (v_binding p) = Inr ()"
    by (rule serving_series_accepted [OF control mtp pins]) (simp_all add: r dget_rec)
  show ?thesis
    by (rule common_report_validates [OF common model _ s _ request_fits_kind [OF fits]])
      (use check_pins_Inr [OF pins] sources s ok in simp_all)
qed

lemma profile_report_validates:
  assumes report: "profile_report c p capture = Inr r" and h: "digest_of c (PDict (v_request p)) = Inr h"
    and model: "model_of p = Inr (PStr model)" and sources: "hex_value 64 (dget (v_request p) ''source_set_sha256'')"
  shows "validate_report (report_envelope p h r) (v_request p) (v_binding p) = Inr r"
proof -
  from report have fits: "request_fits p ''profile'' = Inr True" and pins: "check_pins p = Inr ()"
    and made: "profile_value c p (dict_of_v capture) = Inr r"
    unfolding profile_report_def by auto
  from made obtain owner workload ranks request profiles where owner: "owner_value c p = Inr owner"
    and r: "r = [(''success'', PBool True), (''framework'', PStr ''sglang''), (''model'', PStr model),
       (''benchmark_backend'', PStr ''workstation_owner''), (''benchmark_valid'', PBool True), (''diagnostic_only'', PBool True),
       (''workload_identity'', PStr workload), (''observation_id'', PStr (v_nonce p)), (''workstation_latency'', PNone),
       (''workstation_latency_control'', PNone), (''throughput'', PDict []), (''latency'', PDict []),
       (''quality_gate'', PDict [(''passed'', PBool True), (''native_quality_sha256'', v_quality_sha p), (''decoded_rows'', PInt 10)]),
       (''owner_binding'', PDict owner),
       (''profile_coverage'', PDict [(''complete'', PBool True), (''owner_seal_sha256'', v_seal p), (''concurrency'', PInt 2),
          (''windows'', PInt 7), (''ranks'', ranks), (''request'', request)]),
       (''profile_capture'', PDict ([(''schema'', PInt 1), (''status'', PStr ''complete''), (''arm'', PStr ''mtp'')] @ owner
          @ [(''profiles'', profiles)])), (''adoption_authorized'', PBool False)]"
    unfolding profile_value_def by (auto simp: model)
  from owner obtain s where owner: "owner = [(''owner_seal_sha256'', v_seal p), (''request_sha256'', PStr h), (''source_set_sha256'', s)]"
    and s: "map_of (v_request p) ''source_set_sha256'' = Some s" by (rule owner_value_Inr) (use h in auto)
  have common: "common_report p h r" using s by (simp add: common_report_def r owner model dget_rec NAME_def)
  have seal: "\<And>x. item (report_envelope p h x) ''owner_seal_sha256'' = Inr (v_seal p)" "py_eq (v_seal p) (v_seal p)"
    using check_pins_Inr [OF pins] by (auto simp: report_envelope_def item_def intro: hex_value_refl simp del: item_Inr_iff)
  have kind: "dget (v_request p) ''kind'' = PStr ''profile''" using request_fits_kind [OF fits] by simp
  have ok: "profile_ok r (report_envelope p h r) (v_request p) = Inr ()"
    by (simp add: profile_ok_def kind r dget_rec seal)
  show ?thesis
    by (rule common_report_validates [OF common model _ s _ request_fits_kind [OF fits]])
      (use check_pins_Inr [OF pins] sources s ok in simp_all)
qed

text \<open>C29: the report the owner projects always passes the validator of the optimizer's backend: the
  last check of the owner operation never refuses a report, of either kind, and what is published is the
  projected report itself. It rests on the request's source set being a digest and the bound model being
  a name, which the exchange and the binding check.\<close>

theorem projected_reports_pass_the_backend:
  assumes "projected_report c m p capture = Inr r" "digest_of c (PDict (v_request p)) = Inr h"
    "model_of p = Inr (PStr model)" "hex_value 64 (dget (v_request p) ''source_set_sha256'')"
  shows "publishable_report c m p h capture = Inr r"
proof -
  have "validate_report (report_envelope p h r) (v_request p) (v_binding p) = Inr r"
    using assms serving_report_validates profile_report_validates unfolding projected_report_def by (auto split: if_splits)
  with assms(1) show ?thesis by (simp add: publishable_report_def)
qed

text \<open>A profile job of five requests, answered and graded in both arms.\<close>

definition or_answer :: "string \<Rightarrow> nat \<Rightarrow> pyv" where
  "or_answer arm i = PDict [(''arm'', PStr arm), (''ordinal'', PInt (int i)), (''case'', PStr ''c''), (''request_body_sha256'', PStr ''b''),
     (''response_raw_sha256'', PStr ''r''), (''response_canonical_sha256'', PStr ''k''), (''output_ids_sha256'', PStr ''o''),
     (''output_tokens'', PInt 9), (''final_status'', PStr ''FINAL_SEGMENT_DECODED''), (''finish_reason'', PStr ''stop''),
     (''wire_decode_matches'', PBool True), (''error'', PNone), (''reasoning_token_count'', PInt 2),
     (''final_answer_token_count'', PInt 7), (''closing_marker_index'', PInt 2)]"

definition or_grade :: "string \<Rightarrow> nat \<Rightarrow> pyv" where
  "or_grade arm i = PDict [(''arm'', PStr arm), (''ordinal'', PInt (int i)), (''case'', PStr ''c''), (''status'', PStr ''QUALITY_PASS''),
     (''quality_passed'', PBool True), (''long_answer_coverage_passed'', PBool True), (''final_answer_token_count'', PInt 7)]"

definition or_row :: "nat \<Rightarrow> pyv" where
  "or_row i = PDict [(''ordinal'', PInt (int i)), (''case'', PStr ''c''), (''body_sha256'', PStr ''b''),
     (''contract'', PDict [(''case'', PStr ''c''), (''request_sha256'', PStr ''b''), (''raw_http_response_sha256'', PStr ''r''),
        (''raw_response_sha256'', PStr ''k''), (''response_token_ids_sha256'', PStr ''o''), (''status'', PStr ''NORMAL_STOP_COMPLETE''),
        (''finish_reason'', PStr ''stop''), (''metric_eligible'', PBool True), (''response_id_count'', PInt 9),
        (''reported_completion_tokens'', PInt 9), (''client_elapsed_seconds'', PInt 3), (''prompt_token_count'', PInt 4),
        (''thinking_segments'', PDict [(''reasoning_token_count'', PInt 2), (''final_answer_token_count'', PInt 7), (''closing_marker_index'', PInt 2)])])]"

definition or_plan :: "string \<Rightarrow> string \<Rightarrow> nat list \<Rightarrow> pyv" where
  "or_plan key kind is = PDict [(''id'', PStr key), (''kind'', PStr kind), (''ordinals'', PList (map (\<lambda>i. PInt (int i)) is)),
     (''concurrency'', PInt (int (length is)))]"

definition or_group :: "string \<Rightarrow> string \<Rightarrow> nat list \<Rightarrow> pyv" where
  "or_group key kind is = PDict [(''group_id'', PStr key), (''kind'', PStr kind), (''ordinals'', PList (map (\<lambda>i. PInt (int i)) is)),
     (''concurrency'', PInt (int (length is))), (''excluded_warmup'', PBool (kind = ''warmup'')), (''measured'', PBool (kind = ''timing'')),
     (''per_request_latency_seconds'', PList (map (\<lambda>i. PInt 3) is)), (''completion_tokens'', PInt (9 * int (length is))),
     (''makespan_seconds'', PInt 4)]"

definition or_schedule :: "(string \<times> string \<times> nat list) list" where
  "or_schedule = [(''a'', ''warmup'', [0]), (''b'', ''warmup'', [1, 2]), (''c'', ''timing'', [3, 4])]"

definition or_summary :: pyv where
  "or_summary = PDict [(''stopped_early'', PBool False), (''paired_error'', PNone), (''executed_case_count'', PInt 5),
     (''frozen_case_count'', PInt 5), (''rows'', PList (map or_row [0..<5])),
     (''groups'', PList (map (\<lambda>(key, kind, is). or_group key kind is) or_schedule))]"

definition or_quality :: pyv where
  "or_quality = PDict [(''status'', PStr ''NATIVE_CPU_FINAL_QUALITY_AND_RELEASE_VALIDATED''), (''independent_release_verified'', PBool True),
     (''quality_pass'', PBool True), (''long_answer_coverage_pass'', PBool True), (''decoded_rows'', PInt 10), (''natural_rows'', PInt 10),
     (''ungraded_cap_work_rows'', PInt 0), (''state_only_cancellations'', PInt 0), (''qualification'', PBool False), (''selected'', PBool False),
     (''grades'', PList (map (or_grade ''bf16'') [0..<5] @ map (or_grade ''kv4'') [0..<5]))]"

definition or_capture :: pyv where
  "or_capture = PDict [(''profiles'', PList (replicate 7 PNone)),
     (''ranks'', PList [PDict [(''rank'', PInt 0)], PDict [(''rank'', PInt 1)]]),
     (''request'', PDict [(''requests'', PList (replicate 2 (PDict [(''body_sha256'', PStr ''b'')])))])]"

definition or_demo :: projection where
  "or_demo = \<lparr>v_summaries = [(''bf16'', or_summary), (''kv4'', or_summary)],
     v_decoded = PDict [(''answers'', PList (map (or_answer ''bf16'') [0..<5] @ map (or_answer ''kv4'') [0..<5]))],
     v_quality = or_quality, v_quality_sha = PStr (zeros 64),
     v_workload = PDict [(''diagnostic_only'', PBool True), (''requests'', PInt 5), (''samples_per_case'', PInt 1), (''cases'', PDict []),
        (''groups'', PList (map (\<lambda>(key, kind, is). or_plan key kind is) or_schedule))],
     v_request = [(''kind'', PStr ''profile''), (''campaign_sha256'', PStr ''c''), (''selection_sha256'', PStr ''s''),
        (''source_set_sha256'', PStr (zeros 64))],
     v_binding = [(''campaign_sha256'', PStr ''c''), (''selection_sha256'', PStr ''s''), (''benchmark'', PDict [(''model'', PStr ''m'')])],
     v_seal = PStr (zeros 64), v_nonce = zeros 16\<rparr>"

definition or_native :: "string \<Rightarrow> pydict list" where "or_native arm = map (\<lambda>i. dict_of_v (or_answer arm i)) [0..<5]"
definition or_rows :: "pydict list" where "or_rows = map (\<lambda>i. dict_of_v (or_row i)) [0..<5]"

lemma or_micro: "\<exists>e. to_float (1 / 1000000) = Fin e \<and> 0 \<le> e \<and> e \<le> 1"
proof -
  have "rnd (of_int 0) \<le> rnd (1 / 1000000)" "rnd (1 / 1000000) \<le> rnd (of_int 1)" by (rule rnd_mono, simp)+
  moreover have "rnd (of_int 0) = of_int 0" "rnd (of_int 1) = of_int 1" by (rule rnd_of_int, simp)+
  moreover have "\<bar>1 / 1000000 :: rat\<bar> \<le> 2 ^ 1023"
  proof -
    have "\<bar>1 / 1000000 :: rat\<bar> \<le> 1" by simp
    also have "(1::rat) \<le> 2 ^ 1023" by (rule one_le_power) simp
    finally show ?thesis .
  qed
  ultimately show ?thesis by (simp add: to_float_small)
qed

lemma or_accounts: "group_accounts (dict_of_v (or_group key kind is)) (replicate (length is) (PInt 3)) (PInt (9 * int (length is))) = Inr True"
proof -
  obtain e where e: "to_float (1 / 1000000) = Fin e" "0 \<le> e" "e \<le> 1" using or_micro by auto
  show ?thesis
  using slack_le [OF e(2,3), of 4 3] by (simp add: group_accounts_def or_group_def dget_rec e(1) positive_PInt map_replicate_const list_all2_conv_all_nth)
qed

lemma or_fits: "group_fits [] (or_group ''a'' ''warmup'' [0]) (or_plan ''a'' ''warmup'' [0]) = Inr True" 
  "group_fits [(PStr ''a'', x)] (or_group ''b'' ''warmup'' [1,2]) (or_plan ''b'' ''warmup'' [1,2]) = Inr True" 
  "group_fits [(PStr ''a'', x),(PStr ''b'', y)] (or_group ''c'' ''timing'' [3,4]) (or_plan ''c'' ''timing'' [3,4]) = Inr True" 
  by code_simp+

lemma or_items:
  "replicate 2 (PInt 3) = [PInt 3, PInt 3]"
  "mapM_res (contract_item or_rows ''client_elapsed_seconds'') [PInt 0] = Inr [PInt 3]"
  "mapM_res (contract_item or_rows ''client_elapsed_seconds'') [PInt 1, PInt 2] = Inr [PInt 3, PInt 3]"
  "mapM_res (contract_item or_rows ''client_elapsed_seconds'') [PInt 3, PInt 4] = Inr [PInt 3, PInt 3]"
  "foldM_res (\<lambda>n i. bnd (answer_item (or_native arm) ''output_tokens'' i) (py_add n)) (PInt 0) [PInt 0] = Inr (PInt 9)"
  "foldM_res (\<lambda>n i. bnd (answer_item (or_native arm) ''output_tokens'' i) (py_add n)) (PInt 0) [PInt 1, PInt 2] = Inr (PInt 18)"
  "foldM_res (\<lambda>n i. bnd (answer_item (or_native arm) ''output_tokens'' i) (py_add n)) (PInt 0) [PInt 3, PInt 4] = Inr (PInt 18)"
  by code_simp+

lemma or_checked: "mapM_res check_row (zip or_rows (or_native arm)) = Inr [(), (), (), (), ()]" by code_simp

lemma or_ordered: "ordered (dget (dict_of_v or_summary) ''rows'') 5 ''HTTP rows'' = Inr or_rows" by code_simp

lemma or_step:
  assumes "group_fits gs (or_group key kind is) (or_plan key kind is) = Inr True"
    "mapM_res (contract_item or_rows ''client_elapsed_seconds'') (map (\<lambda>i. PInt (int i)) is) = Inr (replicate (length is) (PInt 3))"
    "foldM_res (\<lambda>n i. bnd (answer_item native ''output_tokens'' i) (py_add n)) (PInt 0) (map (\<lambda>i. PInt (int i)) is) = Inr (PInt (9 * int (length is)))"
  shows "group_step or_rows native (gs, os) (or_group key kind is, or_plan key kind is)
    = Inr (gs @ [(PStr key, dict_of_v (or_group key kind is))], os @ map (\<lambda>i. PInt (int i)) is)"
proof -
  have "py_item (or_plan key kind is) ''ordinals'' = Inr (PList (map (\<lambda>i. PInt (int i)) is))" "py_item (or_plan key kind is) ''id'' = Inr (PStr key)"
    by (simp_all add: or_plan_def item_def)
  then show ?thesis by (simp add: group_step_def assms or_accounts del: bnd_Inr_iff)
qed

lemma or_steps:
  "group_step or_rows (or_native arm) ([], []) (or_group ''a'' ''warmup'' [0], or_plan ''a'' ''warmup'' [0])
   = Inr ([(PStr ''a'', dict_of_v (or_group ''a'' ''warmup'' [0]))], [PInt 0])"
  "group_step or_rows (or_native arm) ([(PStr ''a'', x)], [PInt 0]) (or_group ''b'' ''warmup'' [1, 2], or_plan ''b'' ''warmup'' [1, 2])
   = Inr ([(PStr ''a'', x), (PStr ''b'', dict_of_v (or_group ''b'' ''warmup'' [1, 2]))], [PInt 0, PInt 1, PInt 2])"
  "group_step or_rows (or_native arm) ([(PStr ''a'', x), (PStr ''b'', y)], [PInt 0, PInt 1, PInt 2]) (or_group ''c'' ''timing'' [3, 4], or_plan ''c'' ''timing'' [3, 4])
   = Inr ([(PStr ''a'', x), (PStr ''b'', y), (PStr ''c'', dict_of_v (or_group ''c'' ''timing'' [3, 4]))], map PInt [0, 1, 2, 3, 4])"
  using or_step [OF or_fits(1), where native = "or_native arm" and os = "[]"] or_step [OF or_fits(2) [where x = x], where native = "or_native arm" and os = "[PInt 0]"]
    or_step [OF or_fits(3) [where x = x and y = y], where native = "or_native arm" and os = "[PInt 0, PInt 1, PInt 2]"]
  by (simp_all add: or_items del: mapM_res.simps foldM_res.simps)

lemma or_run: "arm_rows or_summary (or_native arm) (PList (map (\<lambda>(key, kind, is). or_plan key kind is) or_schedule)) 5
   = Inr (or_rows, map (\<lambda>(key, kind, is). (PStr key, dict_of_v (or_group key kind is))) or_schedule)"
proof -
  have d: "run_complete or_summary 5" "list_all2 py_eq (map PInt [0, 1, 2, 3, 4]) (map (\<lambda>i. PInt (int i)) [0..<5])" by code_simp+
  have g: "dget (dict_of_v or_summary) ''groups'' = PList (map (\<lambda>(key, kind, is). or_group key kind is) or_schedule)"
    by (simp add: or_summary_def dget_rec)
  have z: "zip (map (\<lambda>(key, kind, is). or_group key kind is) or_schedule) (map (\<lambda>(key, kind, is). or_plan key kind is) or_schedule)
     = [(or_group ''a'' ''warmup'' [0], or_plan ''a'' ''warmup'' [0]), (or_group ''b'' ''warmup'' [1, 2], or_plan ''b'' ''warmup'' [1, 2]),
        (or_group ''c'' ''timing'' [3, 4], or_plan ''c'' ''timing'' [3, 4])]" by (simp add: or_schedule_def)
  have f: "foldM_res (group_step or_rows (or_native arm)) ([], []) (zip (map (\<lambda>(key, kind, is). or_group key kind is) or_schedule)
      (map (\<lambda>(key, kind, is). or_plan key kind is) or_schedule))
    = Inr (map (\<lambda>(key, kind, is). (PStr key, dict_of_v (or_group key kind is))) or_schedule, map PInt [0, 1, 2, 3, 4])"
    by (simp only: z foldM_res.simps or_steps sum.case) (simp add: or_schedule_def)
  show ?thesis by (simp add: arm_rows_def d(1) or_ordered or_checked g f py_len_def d(2) del: bnd_Inr_iff list.map)
qed

lemma or_answers: "quality_answers or_quality (v_decoded or_demo) (PInt 5) 5 = Inr [(''bf16'', or_native ''bf16''), (''kv4'', or_native ''kv4'')]"
proof -
  have q: "quality_complete or_quality 5" "rows_complete (v_decoded or_demo) (dict_of_v or_quality) 5 = Inr True" by code_simp+
  have a: "arm_answers (v_decoded or_demo) (dict_of_v or_quality) 5 (0, ''bf16'', ''control'') = Inr (''bf16'', or_native ''bf16'')"
    "arm_answers (v_decoded or_demo) (dict_of_v or_quality) 5 (1, ''kv4'', ''mtp'') = Inr (''kv4'', or_native ''kv4'')" by code_simp+
  have z: "zip [0..<length ARMS] ARMS = [(0, ''bf16'', ''control''), (1, ''kv4'', ''mtp'')]" by code_simp
  show ?thesis by (simp only: quality_answers_def q guard_simps guardM_simps is_int.simps if_True z mapM_res.simps a sum.case)
qed

lemma or_profile_rows: "native_of answers (fst arm) = or_native n \<Longrightarrow> fst arm \<in> {''bf16'', ''kv4''} \<Longrightarrow> \<exists>x. profile_rows or_demo answers arm = Inr x"
  using or_run [of n] by (auto simp: profile_rows_def or_demo_def item_def simp del: item_Inr_iff)

lemma or_projected: "\<exists>r. profile_report flat_codec or_demo or_capture = Inr r"
proof -
  let ?a = "[(''bf16'', or_native ''bf16''), (''kv4'', or_native ''kv4'')]"
  have checks: "request_fits or_demo ''profile'' = Inr True" "diagnostic_fits or_demo" "two_arms or_demo" "check_pins or_demo = Inr ()"
    "capture_fits or_capture = Inr True" "v_quality or_demo = or_quality" by code_simp+
  have schedule: "bnd (bnd (py_item (v_workload or_demo) ''groups'') schedule_of) (\<lambda>s. Inr (py_eq s PROFILE_SCHEDULE)) = Inr True" by code_simp
  obtain x where x: "profile_rows or_demo ?a (''bf16'', ''control'') = Inr x"
    using or_profile_rows [of ?a "(''bf16'', ''control'')" "''bf16''"] by (auto simp: native_of_def)
  obtain y where y: "profile_rows or_demo ?a (''kv4'', ''mtp'') = Inr y"
    using or_profile_rows [of ?a "(''kv4'', ''mtp'')" "''kv4''"] by (auto simp: native_of_def)
  have rows: "mapM_res (profile_rows or_demo ?a) ARMS = Inr [x, y]" by (simp add: ARMS_def x y)
  have frozen: "bnd (item (dict_of_v or_capture) ''request'') (\<lambda>r. py_item r ''requests'') = Inr (PList (replicate 2 (PDict [(''body_sha256'', PStr ''b'')])))"
    by code_simp
  have pair: "pair_fits (PList (replicate 2 (PDict [(''body_sha256'', PStr ''b'')]))) (native_of ?a ''kv4'') = Inr True" by code_simp
  have "case profile_value flat_codec or_demo (dict_of_v or_capture) of Inr r \<Rightarrow> True | Inl _ \<Rightarrow> False" by code_simp
  then obtain r where r: "profile_value flat_codec or_demo (dict_of_v or_capture) = Inr r" by (auto split: sum.splits)
  have "profile_report flat_codec or_demo or_capture = Inr r"
    by (simp only: profile_report_def checks or_answers schedule rows frozen pair r guard_simps guardM_simps bnd_simps)
  then show ?thesis ..
qed

theorem projected_reports_pass_the_backend_witness:
  "\<exists>r. projected_report flat_codec demo_libm or_demo or_capture = Inr r \<and> publishable_report flat_codec demo_libm or_demo (zeros 64) or_capture = Inr r"
proof -
  obtain r where r: "profile_report flat_codec or_demo or_capture = Inr r" using or_projected ..
  then have projected: "projected_report flat_codec demo_libm or_demo or_capture = Inr r" by (simp add: projected_report_def or_demo_def dget_rec)
  have "publishable_report flat_codec demo_libm or_demo (zeros 64) or_capture = Inr r"
  proof (rule projected_reports_pass_the_backend [OF projected])
    show "digest_of flat_codec (PDict (v_request or_demo)) = Inr (zeros 64)" by (simp add: digest_of_def canonical_def flat_codec_def)
    show "model_of or_demo = Inr (PStr ''m'')" by code_simp
    show "hex_value 64 (dget (v_request or_demo) ''source_set_sha256'')" by code_simp
  qed
  with projected show ?thesis by blast
qed

end
