(* ===== verification/Workload_Menu.thy ===== *)
theory Workload_Menu
  imports Owner_Result
begin

text \<open>
  \<open>lib/workstation/hyperloom_workload.py\<close>: the repeated menu of one and two simultaneous requests that
  is derived from the sixteen authenticated requests of the donor. Messages and answers are reused, only
  identities, cache intents and the schedule change. Base64, zlib and the JSON reader are the functions
  of the \<open>packer\<close>; JSON writer and digest are its codec. The schedule does not depend on the donor, and
  it is the one the owner's report demands.
\<close>

section \<open>The corpus\<close>

record inflated =
  i_data :: string
  i_eof :: bool
  i_unused :: string
  i_tail :: string

record packer =
  z_codec :: codec
  z_json :: "string \<Rightarrow> pyv res"
  z_inflate :: "string \<Rightarrow> int \<Rightarrow> inflated res"
  z_deflate :: "string \<Rightarrow> string"
  z_decode64 :: "pyv \<Rightarrow> string res"
  z_encode64 :: "string \<Rightarrow> string"

type_synonym blobs = "(string \<times> string) list"

definition CONTEXT :: int where "CONTEXT = 131040"
definition TOKEN_POOL :: int where "TOKEN_POOL = 262144"
definition OUTPUT_CAP :: int where "OUTPUT_CAP = 4096"
definition WARM_PERCENT :: int where "WARM_PERCENT = 95"

definition MENU_CASES :: "(string \<times> nat list \<times> string) list" where
  "MENU_CASES = [(''long-c1-cold'', [3], ''cold''), (''long-c1-warm'', [3], ''warm''), (''long-c2-cold'', [8, 9], ''cold''),
     (''long-c2-warm'', [8, 9], ''warm''), (''short-c1-cold'', [12], ''cold''), (''short-c2-cold'', [12, 13], ''cold'')]"

definition fits_in :: "string \<Rightarrow> int \<Rightarrow> bool" where
  "fits_in raw cap = (int (length raw) \<le> cap)"

definition unpack :: "packer \<Rightarrow> string \<Rightarrow> string res" where
  "unpack z raw =
     bnd (z_inflate z raw (16 * 2 ^ 20 + 1)) (\<lambda>i.
     guard (fits_in (i_data i) (16 * 2 ^ 20) \<and> i_eof i \<and> i_unused i = [] \<and> i_tail i = [])
       ''bounded complete request compression required'' (Inr (i_data i)))"

definition blob :: "blobs \<Rightarrow> string \<Rightarrow> string res" where
  "blob d k = (case map_of d k of None \<Rightarrow> Inl (KeyError k) | Some b \<Rightarrow> Inr b)"

definition blob_at :: "blobs \<Rightarrow> pyv \<Rightarrow> string res" where
  "blob_at d v = (case v of PStr k \<Rightarrow> blob d k | _ \<Rightarrow> if hashable v then Inl (KeyError []) else Inl TypeError)"

definition unpack_blobs :: "packer \<Rightarrow> string \<Rightarrow> blobs res" where
  "unpack_blobs z raw =
     bnd (unpack z raw) (\<lambda>data. bnd (bnd (z_json z data) dict_items) (\<lambda>d.
     mapM_res (\<lambda>kv. bnd (z_decode64 z (snd kv)) (\<lambda>b. Inr (fst kv, b))) d))"

definition donor_row :: "codec \<Rightarrow> blobs \<Rightarrow> nat \<times> pyv \<times> pyv \<Rightarrow> unit res" where
  "donor_row c assets ipr =
     (case ipr of (i, plan, row) \<Rightarrow>
       guardM (allof
         [bnd (py_item plan ''ordinal'') (\<lambda>a. bnd (py_item row ''ordinal'') (\<lambda>b. Inr (py_eq a b \<and> py_eq b (PInt (int i))))),
          bnd (bnd (py_item row ''body'') (canonical c)) (\<lambda>raw. bnd (bnd (py_item plan ''path'') (blob_at assets)) (\<lambda>b. Inr (raw = b))),
          bnd (bnd (py_item row ''expected'') (canonical c)) (\<lambda>raw. bnd (bnd (py_item plan ''expected'') (blob_at assets)) (\<lambda>b. Inr (raw = b))),
          bnd (bnd (py_item plan ''path'') (blob_at assets)) (\<lambda>b. bnd (py_item plan ''sha256'') (\<lambda>s.
            andM (Inr (py_eq (PStr (c_digest c b)) s)) (bnd (py_item row ''body_sha256'') (\<lambda>t. Inr (py_eq s t))))),
          bnd (bnd (py_item plan ''expected'') (blob_at assets)) (\<lambda>b. bnd (py_item plan ''expected_sha256'') (\<lambda>s.
            Inr (py_eq (PStr (c_digest c b)) s)))])
         ''donor request/body/oracle identity mismatch'' (Inr ()))"

section \<open>One slot of the menu\<close>

text \<open>The arguments of the inner function \<open>group\<close>, and what it appends to.\<close>

record slot =
  y_case :: string
  y_indices :: "nat list"
  y_intent :: string
  y_repetition :: nat
  y_warmup :: bool

record menu =
  n_rows :: "pydict list"
  n_bound :: "pydict list"
  n_groups :: "pydict list"
  n_assets :: blobs
  n_cache :: "(nat \<times> pydict) list"
  n_cases :: "(string \<times> pydict) list"
  n_seeds :: "((string \<times> nat \<times> nat) \<times> nat \<times> pyv) list"

record corpus =
  o_plans :: "pyv list"
  o_rows :: "pyv list"

definition slot_id :: "slot \<Rightarrow> string" where
  "slot_id y = (if y_warmup y then y_case y else y_case y @ ''-r'' @ show_nat (y_repetition y))"

definition slot_kind :: "slot \<Rightarrow> string" where
  "slot_kind y = (if y_warmup y then ''warmup'' else ''timing'')"

text \<open>\<open>case.replace("-warm", "-cold")\<close>; \<open>f"{n:02d}"\<close>.\<close>

fun cold_family :: "string \<Rightarrow> string" where
  "cold_family [] = []"
| "cold_family (c # s) =
     (if starts_with (c # s) ''-warm'' then ''-cold'' @ cold_family (drop 4 s) else c # cold_family s)"

definition show_02d :: "nat \<Rightarrow> string" where
  "show_02d n = (if n < 10 then CHR ''0'' # show_nat n else show_nat n)"

definition request_name :: "slot \<Rightarrow> nat \<Rightarrow> string" where
  "request_name y position = slot_id y @ (if length (y_indices y) = 2 then [CHR ''-'', char_of (97 + position)] else [])"

definition seed_key :: "slot \<Rightarrow> nat \<Rightarrow> string \<times> nat \<times> nat" where
  "seed_key y position = (cold_family (y_case y), y_repetition y, position)"

definition salt_of :: "slot \<Rightarrow> nat \<Rightarrow> string" where
  "salt_of y position =
     ''hyperloom-'' @ cold_family (y_case y) @ ''-r'' @ show_nat (y_repetition y) @ ''-'' @ show_nat position"

definition selected_task :: "pyv \<Rightarrow> pyv \<Rightarrow> bool res" where
  "selected_task body expected =
     allof [bnd (py_item body ''max_completion_tokens'') (\<lambda>v. Inr (py_eq v (PInt OUTPUT_CAP))),
       bnd (py_item body ''reasoning_effort'') (\<lambda>v. Inr (v = PStr ''low'')),
       bnd (py_item body ''chat_template_kwargs'') (\<lambda>v. Inr (py_eq v (PDict [(''enable_thinking'', PBool True)]))),
       bnd (py_item body ''ignore_eos'') (\<lambda>v. Inr (v = PBool False)), bnd (py_item body ''stream'') (\<lambda>v. Inr (v = PBool False)),
       bnd (bnd (py_item expected ''task_grade'') (\<lambda>g. py_item g ''kind'')) (\<lambda>v. Inr (v = PStr ''exact_json''))]"

definition prompt_bound :: "codec \<Rightarrow> pyv \<Rightarrow> pyv \<Rightarrow> pyv \<Rightarrow> bool res" where
  "prompt_bound c source body expected =
     allof [bnd (bnd (py_item expected ''input_ids'') (digest_of c)) (\<lambda>h. bnd (py_item expected ''input_ids_sha256'') (\<lambda>v. Inr (v = PStr h))),
       bnd (bnd (py_item body ''messages'') (digest_of c)) (\<lambda>h. bnd (py_item expected ''messages_sha256'') (\<lambda>v. Inr (v = PStr h))),
       bnd (bnd (py_item expected ''input_ids'') py_len) (\<lambda>n. bnd (py_item source ''input_tokens'') (\<lambda>v. Inr (py_eq (PInt (int n)) v)))]"

text \<open>\<open>v // 100\<close>\<close>

definition hundredth :: "pyv \<Rightarrow> pyv res" where
  "hundredth v = (case v of PFloat (Fin q) \<Rightarrow> Inr (PFloat (to_float (of_int \<lfloor>q / 100\<rfloor>))) | PFloat f \<Rightarrow> Inr (PFloat NaN)
     | _ \<Rightarrow> (case int_val v of Some i \<Rightarrow> Inr (PInt (i div 100)) | None \<Rightarrow> Inl TypeError))"

definition warm_minimum :: "pyv \<Rightarrow> pyv res" where
  "warm_minimum maximum = bnd (py_mul (PInt WARM_PERCENT) maximum) (\<lambda>p. bnd (py_add p (PInt 99)) hundredth)"

definition policy_value :: "string \<Rightarrow> pyv \<Rightarrow> pyv \<Rightarrow> pyv" where
  "policy_value intent minimum maximum =
     PDict [(''intent'', PStr intent), (''minimum_cached_tokens'', minimum), (''maximum_cached_tokens'', maximum)]"

definition cache_plan :: "slot \<Rightarrow> menu \<Rightarrow> nat \<Rightarrow> pyv \<Rightarrow> pyv \<Rightarrow> (pyv \<times> nat option \<times> menu) res" where
  "cache_plan y m position source expected =
     bnd (py_item expected ''input_ids'') (\<lambda>ids.
     let known = map_of (n_seeds m) (seed_key y position); ordinal = length (n_rows m) in
     if y_intent y = ''warm'' then
       (case known of
          None \<Rightarrow> Inl (ValueError ''warm request has no cold seed'')
        | Some (seed, seed_ids) \<Rightarrow>
            guard (py_eq seed_ids ids) ''warm prompt differs from its seed'' (
            bnd (bnd (py_item source ''input_tokens'') (\<lambda>n. py_sub n (PInt 1))) (\<lambda>maximum. bnd (warm_minimum maximum) (\<lambda>minimum.
            Inr (policy_value ''warm'' minimum maximum, Some seed, m)))))
     else guard (known = None) ''cold request namespace reused''
       (Inr (policy_value ''cold'' (PInt 0) (PInt 0), None, m\<lparr>n_seeds := ((seed_key y position), ordinal, ids) # n_seeds m\<rparr>)))"

definition with_items :: "pydict \<Rightarrow> pydict \<Rightarrow> pydict" where
  "with_items d kvs = foldl (\<lambda>acc kv. dset acc (fst kv) (snd kv)) d kvs"

definition plan_value :: "codec \<Rightarrow> slot \<Rightarrow> nat \<Rightarrow> string \<Rightarrow> pydict \<Rightarrow> string \<Rightarrow> string \<Rightarrow> pydict" where
  "plan_value c y ordinal name plan raw exp_raw =
     (let path = ''FINAL-REQUEST-'' @ show_02d ordinal @ ''-'' @ name in
      with_items plan [(''ordinal'', PInt (int ordinal)), (''case'', PStr name), (''group'', PStr (slot_id y)), (''category'', PStr (slot_kind y)),
        (''context_envelope_tokens'', PInt CONTEXT), (''path'', PStr (path @ ''.json'')), (''expected'', PStr (path @ ''.expected.json'')),
        (''sha256'', PStr (c_digest c raw)), (''bytes'', PInt (int (length raw))), (''expected_sha256'', PStr (c_digest c exp_raw))])"

text \<open>\<open>dict(source, **plan, body=..., ...)\<close> refuses a plan that has one of the later names.\<close>

definition joined_value :: "codec \<Rightarrow> pydict \<Rightarrow> pydict \<Rightarrow> pydict \<Rightarrow> string \<Rightarrow> pydict \<Rightarrow> pydict res" where
  "joined_value c source plan body raw expected =
     (if dhas plan ''body'' \<or> dhas plan ''body_sha256'' then Inl TypeError
      else (let joined = with_items source (dpop plan ''expected''
                  @ [(''body'', PDict body), (''body_sha256'', PStr (c_digest c raw)), (''expected'', PDict expected)]) in
            guard (keyset joined = keyset source) ''owner row schema changed'' (Inr joined)))"

definition contract_value :: "pydict \<Rightarrow> pyv \<Rightarrow> pyv \<Rightarrow> pyv res" where
  "contract_value expected tokens policy =
     bnd (item expected ''messages_sha256'') (\<lambda>messages. bnd (item expected ''input_ids_sha256'') (\<lambda>ids. bnd (item expected ''task_grade'') (\<lambda>grade.
     Inr (PDict [(''messages_sha256'', messages), (''input_ids_sha256'', ids), (''input_tokens'', tokens),
       (''maximum_output_tokens'', PInt OUTPUT_CAP), (''task_grade'', grade), (''cache_policy'', policy), (''thinking'', PBool True),
       (''reasoning_effort'', PStr ''low'')]))))"

definition cache_value :: "codec \<Rightarrow> slot \<Rightarrow> nat \<Rightarrow> string \<Rightarrow> string \<Rightarrow> nat option \<Rightarrow> pydict" where
  "cache_value c y position rid raw seed =
     [(''body_sha256'', PStr (c_digest c raw)), (''cache_salt'', PStr (salt_of y position)), (''rid'', PStr rid), (''intent'', PStr (y_intent y)),
      (''seed'', case seed of None \<Rightarrow> PNone | Some n \<Rightarrow> PInt (int n))]"

text \<open>One request of a slot: the menu, the ordinals and the contract of the slot so far.\<close>

type_synonym slot_state = "menu \<times> nat list \<times> pyv list"

definition add_row :: "packer \<Rightarrow> corpus \<Rightarrow> slot \<Rightarrow> slot_state \<Rightarrow> nat \<times> nat \<Rightarrow> slot_state res" where
  "add_row z o0 y acc po =
     (case (acc, po) of ((m, ordinals, contract), (position, old)) \<Rightarrow>
      let c = z_codec z; ordinal = length (n_rows m); name = request_name y position;
          rid = ''hyperloom-'' @ show_02d ordinal @ ''-'' @ name in
      bnd (list_at (o_rows o0) (PInt (int old))) (\<lambda>source.
      bnd (py_item source ''body'') (\<lambda>body. bnd (py_item source ''expected'') (\<lambda>expected.
      guardM (selected_task body expected) ''selected thinking-enabled natural-stop task required'' (
      guardM (prompt_bound c source body expected) ''native prompt token/message binding changed'' (
      bnd (cache_plan y m position source expected) (\<lambda>(policy, seed, m1).
      let body' = with_items (dict_of_v body) [(''rid'', PStr rid), (''cache_salt'', PStr (salt_of y position))];
          expected' = with_items (dict_of_v expected) [(''case'', PStr name), (''context_length'', PInt CONTEXT),
            (''completion_policy'', PStr ''natural-stop''), (''cache_policy'', policy)] in
      bnd (canonical c (PDict body')) (\<lambda>raw. bnd (canonical c (PDict expected')) (\<lambda>exp_raw.
      guard (fits_in raw (2 ^ 20) \<and> fits_in exp_raw (2 ^ 20)) ''request member exceeds owner cap'' (
      bnd (bnd (list_at (o_plans o0) (PInt (int old))) py_dict) (\<lambda>donor.
      let plan = plan_value c y ordinal name donor raw exp_raw in
      bnd (joined_value c (dict_of_v source) plan body' raw expected') (\<lambda>joined.
      bnd (py_item source ''input_tokens'') (\<lambda>tokens. bnd (contract_value expected' tokens policy) (\<lambda>row_contract.
      Inr (m1\<lparr>n_rows := n_rows m1 @ [plan], n_bound := n_bound m1 @ [joined],
              n_assets := dset (dset (n_assets m1) (str_of (dget plan ''path'')) raw) (str_of (dget plan ''expected'')) exp_raw,
              n_cache := n_cache m1 @ [(ordinal, cache_value c y position rid raw seed)]\<rparr>,
           ordinals @ [ordinal], contract @ [row_contract])))))))))))))))"

definition task_at :: "corpus \<Rightarrow> nat \<Rightarrow> pyv res" where
  "task_at o0 i = bnd (list_at (o_rows o0) (PInt (int i))) (\<lambda>row. py_item row ''task'')"

definition same_tasks :: "corpus \<Rightarrow> nat list \<Rightarrow> pyv res" where
  "same_tasks o0 indices =
     bnd (task_at o0 (hd indices)) (\<lambda>task_name.
     guardM (allof (map (\<lambda>i. bnd (task_at o0 i) (\<lambda>v. Inr (py_eq v task_name))) indices)) ''mixed task in concurrent group''
       (Inr task_name))"

definition group_value :: "slot \<Rightarrow> nat list \<Rightarrow> pyv \<Rightarrow> pydict" where
  "group_value y ordinals task_name =
     [(''id'', PStr (slot_id y)), (''kind'', PStr (slot_kind y)), (''concurrency'', PInt (int (length (y_indices y)))),
      (''ordinals'', PList (map (\<lambda>i. PInt (int i)) ordinals)), (''task'', task_name)]"

definition capacity_fits :: "pydict list \<Rightarrow> nat list \<Rightarrow> bool res" where
  "capacity_fits rows ordinals =
     bnd (mapM_res (\<lambda>i. bnd (item (rows ! i) ''input_tokens'') (\<lambda>n. bnd (py_add n (PInt OUTPUT_CAP)) (\<lambda>n. py_add n (PInt 16)))) ordinals) (\<lambda>capacities.
     andM (bnd (py_max capacities) (\<lambda>n. py_le n (PInt CONTEXT)))
       (bnd (foldM_res py_add (PInt 0) capacities) (\<lambda>n. py_le n (PInt TOKEN_POOL))))"

definition timed_sample :: "slot \<Rightarrow> nat list \<Rightarrow> pyv" where
  "timed_sample y ordinals =
     PDict [(''group'', PStr (slot_id y)), (''ordinals'', PList (map (\<lambda>i. PInt (int i)) ordinals)), (''repetition'', PInt (int (y_repetition y)))]"

text \<open>\<open>cases.setdefault(...)\<close> and the sample appended to the entry.\<close>

definition add_sample :: "slot \<Rightarrow> nat list \<Rightarrow> string \<Rightarrow> (string \<times> pydict) list \<Rightarrow> (string \<times> pydict) list res" where
  "add_sample y ordinals case_hash cases =
     (let entry = (case map_of cases (y_case y) of
            Some e \<Rightarrow> e
          | None \<Rightarrow> [(''concurrency'', PInt (int (length (y_indices y)))), (''contract_sha256'', PStr case_hash), (''samples'', PList [])]) in
      guard (dget entry ''contract_sha256'' = PStr case_hash) ''case changed between repetitions''
        (Inr (dset cases (y_case y) (dset entry ''samples'' (PList (list_of (dget entry ''samples'') @ [timed_sample y ordinals]))))))"

definition add_slot :: "packer \<Rightarrow> corpus \<Rightarrow> menu \<Rightarrow> slot \<Rightarrow> menu res" where
  "add_slot z o0 m y =
     bnd (foldM_res (add_row z o0 y) (m, [], []) (zip [0..<length (y_indices y)] (y_indices y))) (\<lambda>(m1, ordinals, contract).
     bnd (same_tasks o0 (y_indices y)) (\<lambda>task_name.
     let m2 = m1\<lparr>n_groups := n_groups m1 @ [group_value y ordinals task_name]\<rparr> in
     guardM (capacity_fits (n_rows m2) ordinals) ''selected context/pool capacity exceeded'' (
     if y_warmup y then Inr m2
     else bnd (digest_of (z_codec z) (PList contract)) (\<lambda>case_hash.
          bnd (add_sample y ordinals case_hash (n_cases m2)) (\<lambda>cases. Inr (m2\<lparr>n_cases := cases\<rparr>))))))"

definition MENU :: "slot list" where
  "MENU =
     [\<lparr>y_case = ''warmup-c1'', y_indices = [0], y_intent = ''cold'', y_repetition = 0, y_warmup = True\<rparr>,
      \<lparr>y_case = ''warmup-c2'', y_indices = [1, 2], y_intent = ''cold'', y_repetition = 0, y_warmup = True\<rparr>]
     @ concat (map (\<lambda>r. map (\<lambda>(name, indices, intent).
         \<lparr>y_case = name, y_indices = indices, y_intent = intent, y_repetition = r, y_warmup = False\<rparr>) MENU_CASES) [0..<3])"

definition empty_menu :: menu where
  "empty_menu = \<lparr>n_rows = [], n_bound = [], n_groups = [], n_assets = [], n_cache = [], n_cases = [], n_seeds = []\<rparr>"

section \<open>The packed menu\<close>

record derived =
  d_settings_raw :: string
  d_packed :: string
  d_pins :: pydict
  d_client_z :: string
  d_client_raw :: string
  d_protocol :: pydict
  d_menu :: menu

definition pin_of :: "codec \<Rightarrow> string \<Rightarrow> pyv" where
  "pin_of c raw = PDict [(''sha256'', PStr (c_digest c raw)), (''bytes'', PInt (int (length raw)))]"

definition encoded :: "packer \<Rightarrow> blobs \<Rightarrow> string res" where
  "encoded z d = canonical (z_codec z) (PDict (map (\<lambda>kb. (fst kb, PStr (z_encode64 z (snd kb)))) d))"

definition protocol_value :: "pydict \<Rightarrow> menu \<Rightarrow> pydict" where
  "protocol_value paired m =
     (let ids = PList (map (\<lambda>g. dget g ''id'') (n_groups m)) in
      with_items paired [(''groups'', PList (map PDict (n_groups m))), (''order'', PDict [(''control'', ids), (''mtp'', ids)]),
        (''requests_per_start'', PInt (int (length (n_rows m)))), (''measured_natural_requests_per_start'', PInt 27),
        (''natural_quality_requests_per_start'', PInt 0), (''warmup_requests_per_start'', PInt 3)])"

definition menu_complete :: "menu \<Rightarrow> bool" where
  "menu_complete m = (length (n_rows m) = 30 \<and> length (n_groups m) = 20 \<and> length (n_cases m) = 6)"

definition pins_value :: "codec \<Rightarrow> blobs \<Rightarrow> string \<Rightarrow> string \<Rightarrow> string \<Rightarrow> pydict" where
  "pins_value c logical packed outer inner =
     [(''REQUEST_LOGICAL'', PDict (map (\<lambda>kb. (fst kb, pin_of c (snd kb))) logical)), (''REQUEST_STORED'', pin_of c packed),
      (''REQUEST_EXPANDED'', pin_of c outer), (''REQUEST_INHERITED'', pin_of c inner)]"

definition pack_menu :: "packer \<Rightarrow> pydict \<Rightarrow> pydict \<Rightarrow> blobs \<Rightarrow> menu \<Rightarrow> derived res" where
  "pack_menu z settings client logical m =
     (let c = z_codec z in
      guard (menu_complete m) ''complete repeated menu required'' (
      bnd (bnd (item settings ''paired_serving'') py_dict) (\<lambda>paired.
      let protocol = protocol_value paired m in
      bnd (canonical c (PDict (with_items settings [(''requests'', PList (map PDict (n_rows m))), (''paired_serving'', PDict protocol),
             (''instrumentation'', PStr ''production'')]))) (\<lambda>settings_raw.
      bnd (canonical c (PDict (with_items client [(''rows'', PList (map PDict (n_bound m)))]))) (\<lambda>client_raw.
      bnd (encoded z (n_assets m)) (\<lambda>inner_raw.
      guard (fits_in settings_raw (2 ^ 18 - 1) \<and> fits_in client_raw (16 * 2 ^ 20) \<and> fits_in inner_raw (16 * 2 ^ 20))
        ''expanded menu exceeds existing owner caps'' (
      let inner = z_deflate z inner_raw; client_z = z_deflate z client_raw;
          logical' = dset (dset logical ''FINAL-REQUESTS.zlib'' inner) ''CLIENT-BINDING.zlib'' client_z in
      bnd (encoded z logical') (\<lambda>outer. let packed = z_deflate z outer in
      guard (fits_in inner (2 * 2 ^ 20) \<and> fits_in client_z (2 * 2 ^ 20) \<and> fits_in outer (16 * 2 ^ 20))
        ''packed menu exceeds existing owner caps'' (
      Inr \<lparr>d_settings_raw = settings_raw, d_packed = packed, d_pins = pins_value c logical' packed outer inner, d_client_z = client_z,
           d_client_raw = client_raw, d_protocol = protocol, d_menu = m\<rparr>)))))))))"

definition derive :: "packer \<Rightarrow> blobs \<Rightarrow> derived res" where
  "derive z files =
     bnd (bnd (blob files ''FINAL-SETTINGS.json'') (z_json z)) (\<lambda>settings.
     bnd (bnd (blob files ''FINAL-REQUESTS.zlib'') (unpack_blobs z)) (\<lambda>logical.
     bnd (bnd (blob logical ''FINAL-REQUESTS.zlib'') (unpack_blobs z)) (\<lambda>original_assets.
     bnd (bnd (bnd (blob logical ''CLIENT-BINDING.zlib'') (unpack z)) (z_json z)) (\<lambda>client.
     bnd (py_item client ''rows'') (\<lambda>originals. bnd (py_item settings ''requests'') (\<lambda>requests.
     guardM (bnd (py_len requests) (\<lambda>n. bnd (py_len originals) (\<lambda>k. Inr (n = k \<and> k = 16)))) ''selected sixteen-request C4 donor required'' (
     bnd (py_iter requests) (\<lambda>plans. bnd (py_iter originals) (\<lambda>rows.
     bnd (mapM_res (donor_row (z_codec z) original_assets) (zip [0..<16] (zip plans rows))) (\<lambda>_.
     bnd (foldM_res (add_slot z \<lparr>o_plans = plans, o_rows = rows\<rparr>) empty_menu MENU) (\<lambda>m.
     pack_menu z (dict_of_v settings) (dict_of_v client) logical m)))))))))))"


section \<open>The diagnostic menu\<close>

text \<open>\<open>derive_profile\<close>: three warmups and one cold pair of the menu, numbered anew. Its assets stay encoded.\<close>

definition PROFILE_ROWS :: "nat list" where "PROFILE_ROWS = [0, 1, 2, 5, 6]"

definition renumbered :: "nat \<Rightarrow> nat" where
  "renumbered old = length (takeWhile (\<lambda>i. i \<noteq> old) PROFILE_ROWS)"

definition cache_entry :: "menu \<Rightarrow> nat \<Rightarrow> pydict" where
  "cache_entry m i = (case map_of (n_cache m) i of Some e \<Rightarrow> e | None \<Rightarrow> [])"

definition is_cold :: "pydict \<Rightarrow> bool" where
  "is_cold e = (dget e ''intent'' = PStr ''cold'' \<and> dget e ''seed'' = PNone)"

type_synonym profile_state = "pydict list \<times> pydict list \<times> (nat \<times> pydict) list \<times> pydict"

definition profile_row :: "menu \<Rightarrow> pyv \<Rightarrow> profile_state \<Rightarrow> nat \<Rightarrow> profile_state res" where
  "profile_row m assets acc old =
     (case acc of (rows, bound, cache, kept) \<Rightarrow>
      let new = renumbered old; plan = n_rows m ! old; row = n_bound m ! old;
          path = ''FINAL-REQUEST-'' @ show_02d new @ ''-'' @ str_of (dget plan ''case'');
          request_path = path @ ''.json''; expected_path = path @ ''.expected.json'' in
      guard (is_cold (cache_entry m old)) ''profile pair must be cold'' (
      bnd (py_item assets (str_of (dget plan ''path''))) (\<lambda>a. bnd (py_item assets (str_of (dget plan ''expected''))) (\<lambda>b.
      Inr (rows @ [with_items plan [(''ordinal'', PInt (int new)), (''path'', PStr request_path), (''expected'', PStr expected_path)]],
           bound @ [with_items row [(''ordinal'', PInt (int new)), (''path'', PStr request_path)]],
           cache @ [(new, cache_entry m old)], dset (dset kept request_path a) expected_path b)))))"

definition ordinals_in :: "pydict \<Rightarrow> nat list" where
  "ordinals_in g = map (\<lambda>v. nat (int_of v)) (list_of (dget g ''ordinals''))"

definition profile_groups :: "pydict list \<Rightarrow> pydict list" where
  "profile_groups groups =
     map (\<lambda>g. dset g ''ordinals'' (PList (map (\<lambda>i. PInt (int (renumbered i))) (ordinals_in g))))
       (filter (\<lambda>g. list_all (\<lambda>i. i \<in> set PROFILE_ROWS) (ordinals_in g)) groups)"

definition profile_protocol :: "pydict \<Rightarrow> pydict list \<Rightarrow> pydict" where
  "profile_protocol paired groups =
     (let ids = PList (map (\<lambda>g. dget g ''id'') groups) in
      with_items paired [(''groups'', PList (map PDict groups)), (''order'', PDict [(''control'', ids), (''mtp'', ids)]),
        (''requests_per_start'', PInt 5), (''measured_natural_requests_per_start'', PInt 2)])"

definition derive_profile :: "packer \<Rightarrow> blobs \<Rightarrow> derived res" where
  "derive_profile z files =
     (let c = z_codec z in
      bnd (derive z files) (\<lambda>d. let m = d_menu d in
      bnd (z_json z (d_settings_raw d)) (\<lambda>settings. bnd (unpack_blobs z (d_packed d)) (\<lambda>logical.
      bnd (bnd (bnd (blob logical ''FINAL-REQUESTS.zlib'') (unpack z)) (z_json z)) (\<lambda>assets.
      bnd (foldM_res (profile_row m assets) ([], [], [], []) PROFILE_ROWS) (\<lambda>(rows, bound, cache, kept).
      let groups = profile_groups (n_groups m) in
      guard (length groups = 3 \<and> length rows = 5) ''five-request C2 diagnostic menu'' (
      let protocol = profile_protocol (d_protocol d) groups in
      bnd (case settings of PDict s \<Rightarrow> Inr (with_items s [(''requests'', PList (map PDict rows)), (''paired_serving'', PDict protocol)])
             | _ \<Rightarrow> Inl AttributeError) (\<lambda>settings'.
      bnd (bnd (z_json z (d_client_raw d)) (\<lambda>client. case client of PDict b \<Rightarrow> Inr (dset b ''rows'' (PList (map PDict bound))) | _ \<Rightarrow> Inl TypeError)) (\<lambda>client.
      bnd (canonical c (PDict client)) (\<lambda>client_raw. bnd (canonical c (PDict kept)) (\<lambda>kept_raw.
      let client_z = z_deflate z client_raw; inner = z_deflate z kept_raw;
          logical' = dset (dset logical ''CLIENT-BINDING.zlib'' client_z) ''FINAL-REQUESTS.zlib'' inner in
      bnd (encoded z logical') (\<lambda>outer. let packed = z_deflate z outer in
      bnd (canonical c (PDict settings')) (\<lambda>settings_raw.
      Inr \<lparr>d_settings_raw = settings_raw, d_packed = packed, d_pins = pins_value c logical' packed outer inner, d_client_z = client_z,
           d_client_raw = client_raw, d_protocol = protocol,
           d_menu = m\<lparr>n_rows := rows, n_bound := bound, n_groups := groups, n_assets := [], n_cache := cache, n_cases := []\<rparr>\<rparr>)))))))))))))"

section \<open>The schedule on its own\<close>

text \<open>
  What the derivation decides without looking at the donor: the cache intents without the hash of the
  body, the groups without their task, the cases without the hash of their contract.
\<close>

record schedule =
  k_count :: nat
  k_cache :: "(nat \<times> pydict) list"
  k_seeds :: "((string \<times> nat \<times> nat) \<times> nat) list"
  k_groups :: "pydict list"
  k_cases :: "(string \<times> pydict) list"

definition without :: "string \<Rightarrow> ('k \<times> pydict) list \<Rightarrow> ('k \<times> pydict) list" where
  "without h xs = map (\<lambda>ne. (fst ne, dpop (snd ne) h)) xs"

definition fixed_part :: "menu \<Rightarrow> schedule" where
  "fixed_part m =
     \<lparr>k_count = length (n_rows m), k_cache = without ''body_sha256'' (n_cache m),
      k_seeds = map (\<lambda>s. (fst s, fst (snd s))) (n_seeds m), k_groups = map (\<lambda>g. dpop g ''task'') (n_groups m),
      k_cases = without ''contract_sha256'' (n_cases m)\<rparr>"

definition seed_of :: "slot \<Rightarrow> schedule \<Rightarrow> nat \<Rightarrow> nat option" where
  "seed_of y s position = (if y_intent y = ''warm'' then map_of (k_seeds s) (seed_key y position) else None)"

definition seeds_after :: "slot \<Rightarrow> schedule \<Rightarrow> nat \<Rightarrow> ((string \<times> nat \<times> nat) \<times> nat) list" where
  "seeds_after y s position =
     (if y_intent y = ''warm'' then k_seeds s else (seed_key y position, k_count s) # k_seeds s)"

definition rid_of :: "slot \<Rightarrow> nat \<Rightarrow> nat \<Rightarrow> string" where
  "rid_of y position ordinal = ''hyperloom-'' @ show_02d ordinal @ ''-'' @ request_name y position"

definition schedule_row :: "slot \<Rightarrow> schedule \<Rightarrow> nat \<Rightarrow> schedule" where
  "schedule_row y s position =
     s\<lparr>k_count := k_count s + 1,
       k_cache := k_cache s @ [(k_count s, [(''cache_salt'', PStr (salt_of y position)), (''rid'', PStr (rid_of y position (k_count s))),
         (''intent'', PStr (y_intent y)), (''seed'', case seed_of y s position of None \<Rightarrow> PNone | Some n \<Rightarrow> PInt (int n))])],
       k_seeds := seeds_after y s position\<rparr>"

definition schedule_sample :: "slot \<Rightarrow> nat list \<Rightarrow> (string \<times> pydict) list \<Rightarrow> (string \<times> pydict) list" where
  "schedule_sample y ordinals cases =
     (let entry = (case map_of cases (y_case y) of Some e \<Rightarrow> e
            | None \<Rightarrow> [(''concurrency'', PInt (int (length (y_indices y)))), (''samples'', PList [])]) in
      dset cases (y_case y) (dset entry ''samples'' (PList (list_of (dget entry ''samples'') @ [timed_sample y ordinals]))))"

definition schedule_slot :: "schedule \<Rightarrow> slot \<Rightarrow> schedule" where
  "schedule_slot s y =
     (let ordinals = [k_count s..<k_count s + length (y_indices y)];
          s1 = foldl (schedule_row y) s [0..<length (y_indices y)] in
      s1\<lparr>k_groups := k_groups s1 @ [dpop (group_value y ordinals PNone) ''task''],
         k_cases := if y_warmup y then k_cases s1 else schedule_sample y ordinals (k_cases s1)\<rparr>)"

section \<open>The derivation follows the schedule\<close>

lemma seeds_lookup: "map_of (map (\<lambda>s. (fst s, fst (snd s))) xs) k = map_option fst (map_of xs k)"
  by (induction xs) auto

lemma cache_plan_seed:
  assumes "cache_plan y m position source expected = Inr (policy, seed, m1)"
  shows "seed = seed_of y (fixed_part m) position"
    and "fixed_part m1 = (fixed_part m)\<lparr>k_seeds := seeds_after y (fixed_part m) position\<rparr>"
    and "n_rows m1 = n_rows m \<and> n_groups m1 = n_groups m \<and> n_cases m1 = n_cases m"
  using assms
  by (auto simp: cache_plan_def Let_def fixed_part_def seed_of_def seeds_after_def seeds_lookup
      split: if_splits option.splits)

lemma add_row_schedule:
  assumes "add_row z o0 y (m, os, ct) (position, old) = Inr (m', os', ct')"
  shows "fixed_part m' = schedule_row y (fixed_part m) position \<and> os' = os @ [length (n_rows m)]"
proof -
  obtain policy seed m1 source expected plan joined assets rid raw where
      c: "cache_plan y m position source expected = Inr (policy, seed, m1)"
    and m': "m' = m1\<lparr>n_rows := n_rows m1 @ [plan], n_bound := n_bound m1 @ [joined], n_assets := assets,
              n_cache := n_cache m1 @ [(length (n_rows m), cache_value (z_codec z) y position (rid_of y position (length (n_rows m))) raw seed)]\<rparr>"
    and os: "os' = os @ [length (n_rows m)]"
    using assms by (auto simp: add_row_def Let_def rid_of_def)
  from cache_plan_seed [OF c] show ?thesis
    by (auto simp: m' os fixed_part_def schedule_row_def cache_value_def dpop_def without_def)
qed

lemma add_rows_schedule:
  assumes "foldM_res (add_row z o0 y) (m, os, ct) pos = Inr (m', os', ct')"
  shows "fixed_part m' = foldl (schedule_row y) (fixed_part m) (map fst pos)
    \<and> os' = os @ [length (n_rows m)..<length (n_rows m) + length pos]"
  using assms
proof (induction pos arbitrary: m os ct)
  case (Cons po pos)
  obtain m1 os1 ct1 where step: "add_row z o0 y (m, os, ct) (fst po, snd po) = Inr (m1, os1, ct1)"
    and rest: "foldM_res (add_row z o0 y) (m1, os1, ct1) pos = Inr (m', os', ct')"
    using Cons.prems by (auto split: sum.splits)
  note one = add_row_schedule [OF step]
  from one have "k_count (fixed_part m1) = Suc (k_count (fixed_part m))"
    by (simp add: schedule_row_def)
  then have "length (n_rows m1) = Suc (length (n_rows m))"
    by (simp add: fixed_part_def)
  with one Cons.IH [OF rest] show ?case
    by (simp add: upt_conv_Cons [of "length (n_rows m)" "Suc (length (n_rows m) + length pos)"] del: upt_Suc)
qed simp

lemma dpop_dset: "dpop (dset d k v) h = (if k = h then dpop d h else dset (dpop d h) k v)"
  by (induction d k v rule: dset.induct) (auto simp: dpop_def)

lemma without_dset: "without h (dset d k v) = dset (without h d) k (dpop v h)"
  by (induction d k v rule: dset.induct) (auto simp: without_def)

lemma map_of_without: "map_of (without h d) k = map_option (\<lambda>e. dpop e h) (map_of d k)"
  by (induction d) (auto simp: without_def)

lemma dget_dpop: "k \<noteq> h \<Longrightarrow> dget (dpop d h) k = dget d k"
  by (induction d) (auto simp: dpop_def dget_rec)

lemma add_sample_schedule:
  assumes "add_sample y os h cases = Inr cases'"
  shows "without ''contract_sha256'' cases' = schedule_sample y os (without ''contract_sha256'' cases)"
  using assms
  by (cases "map_of cases (y_case y)")
    (auto simp: add_sample_def schedule_sample_def Let_def without_dset map_of_without dpop_dset dget_dpop dget_rec dpop_def [of "_ # _"])

lemma add_slot_schedule:
  assumes "add_slot z o0 m y = Inr m'"
  shows "fixed_part m' = schedule_slot (fixed_part m) y"
proof -
  obtain m1 os ct task_name where
      rows: "foldM_res (add_row z o0 y) (m, [], []) (zip [0..<length (y_indices y)] (y_indices y)) = Inr (m1, os, ct)"
    and rest: "(if y_warmup y then Inr (m1\<lparr>n_groups := n_groups m1 @ [group_value y os task_name]\<rparr>)
         else bnd (digest_of (z_codec z) (PList ct)) (\<lambda>h. bnd (add_sample y os h (n_cases m1)) (\<lambda>cs.
           Inr (m1\<lparr>n_groups := n_groups m1 @ [group_value y os task_name], n_cases := cs\<rparr>)))) = Inr m'"
    using assms by (auto simp: add_slot_def Let_def simp del: if_split cong: if_cong)
  note rs = add_rows_schedule [OF rows]
  have os: "os = [k_count (fixed_part m)..<k_count (fixed_part m) + length (y_indices y)]"
    using rs by (simp add: fixed_part_def)
  have g: "dpop (group_value y os task_name) ''task'' = dpop (group_value y os PNone) ''task''"
    by (simp add: group_value_def dpop_def)
  have s1: "fixed_part m1 = foldl (schedule_row y) (fixed_part m) [0..<length (y_indices y)]"
    using rs by simp
  have slot: "schedule_slot (fixed_part m) y = (fixed_part m1)\<lparr>
      k_groups := k_groups (fixed_part m1) @ [dpop (group_value y os PNone) ''task''],
      k_cases := if y_warmup y then k_cases (fixed_part m1) else schedule_sample y os (k_cases (fixed_part m1))\<rparr>"
    by (simp only: schedule_slot_def Let_def s1 os)
  show ?thesis
    unfolding slot using rest by (auto simp: fixed_part_def g dest!: add_sample_schedule split: if_splits)
qed

lemma add_slots_schedule:
  "foldM_res (add_slot z o0) m ys = Inr m' \<Longrightarrow> fixed_part m' = foldl schedule_slot (fixed_part m) ys"
  by (induction ys arbitrary: m) (auto dest: add_slot_schedule split: sum.splits)


section \<open>What the schedule promises\<close>

text \<open>A warm request reads the namespace of one earlier cold request; a cold one has a namespace of its own.\<close>

definition seeds_read :: "(nat \<times> pydict) list \<Rightarrow> bool" where
  "seeds_read cache =
     list_all (\<lambda>ne. if dget (snd ne) ''intent'' = PStr ''warm''
       then list_ex (\<lambda>ks. PInt (int (fst ks)) = dget (snd ne) ''seed'' \<and> fst ks < fst ne \<and> dget (snd ks) ''intent'' = PStr ''cold''
              \<and> dget (snd ks) ''cache_salt'' = dget (snd ne) ''cache_salt'') cache
       else dget (snd ne) ''seed'' = PNone) cache"

definition namespaces_fresh :: "(nat \<times> pydict) list \<Rightarrow> bool" where
  "namespaces_fresh cache =
     distinct (map (\<lambda>ne. str_of (dget (snd ne) ''cache_salt'')) (filter (\<lambda>ne. dget (snd ne) ''intent'' = PStr ''cold'') cache))"

text \<open>The ordinals that the owner's report collects over the sorted cases.\<close>

definition workload_ordinals :: "(string \<times> pydict) list \<Rightarrow> pyv list" where
  "workload_ordinals cases =
     concat (map (\<lambda>ne. concat (map (\<lambda>s. list_of (dget (dict_of_v s) ''ordinals'')) (list_of (dget (snd ne) ''samples''))))
       (sort_key fst cases))"

lemma insort_without: "insort_key fst (fst x, dpop (snd x) h) (without h xs) = without h (insort_key fst x xs)"
  by (induction xs) (auto simp: without_def)

lemma sort_without: "sort_key fst (without h xs) = without h (sort_key fst xs)"
  by (induction xs) (simp_all add: insort_without [symmetric], simp_all add: without_def)

lemma schedule_reads:
  "map fst (k_cache (fixed_part m)) = map fst (n_cache m)"
  "seeds_read (k_cache (fixed_part m)) = seeds_read (n_cache m)"
  "namespaces_fresh (k_cache (fixed_part m)) = namespaces_fresh (n_cache m)"
  "workload_ordinals (k_cases (fixed_part m)) = workload_ordinals (n_cases m)"
proof -
  show "map fst (k_cache (fixed_part m)) = map fst (n_cache m)"
    by (simp add: fixed_part_def without_def)
  show "seeds_read (k_cache (fixed_part m)) = seeds_read (n_cache m)"
    by (simp add: fixed_part_def seeds_read_def without_def list_ex_iff list_all_iff dget_dpop)
  show "namespaces_fresh (k_cache (fixed_part m)) = namespaces_fresh (n_cache m)"
    by (simp add: fixed_part_def namespaces_fresh_def without_def filter_map comp_def dget_dpop)
  show "workload_ordinals (k_cases (fixed_part m)) = workload_ordinals (n_cases m)"
    by (simp add: fixed_part_def workload_ordinals_def sort_without, simp add: without_def dget_dpop comp_def)
qed

definition menu_schedule :: schedule where
  "menu_schedule = foldl schedule_slot (fixed_part empty_menu) MENU"

text \<open>Evaluated once.\<close>

definition schedule_good :: "schedule \<Rightarrow> bool" where
  "schedule_good s =
     (k_count s = 30 \<and> length (k_groups s) = 20 \<and> length (k_cases s) = 6 \<and> map fst (k_cache s) = [0..<30]
      \<and> seeds_read (k_cache s) \<and> namespaces_fresh (k_cache s) \<and> scored_once (workload_ordinals (k_cases s))
      \<and> list_all (\<lambda>i. case map_of (k_cache s) i of Some e \<Rightarrow> is_cold e | None \<Rightarrow> False) PROFILE_ROWS
      \<and> map ordinals_in (profile_groups (k_groups s)) = [[0], [1, 2], [3, 4]])"

lemma menu_schedule_good: "schedule_good menu_schedule"
  by code_simp

lemma derive_schedule: "derive z files = Inr d \<Longrightarrow> fixed_part (d_menu d) = menu_schedule"
  by (auto simp: derive_def pack_menu_def Let_def menu_schedule_def dest!: add_slots_schedule)

text \<open>The two refusals of the diagnostic menu that depend on the schedule are never reached.\<close>

lemma profile_pair_is_cold:
  assumes "derive z files = Inr d"
  shows "list_all (\<lambda>i. is_cold (cache_entry (d_menu d) i)) PROFILE_ROWS"
proof -
  have "is_cold (cache_entry (d_menu d) i)" if "i \<in> set PROFILE_ROWS" for i
  proof -
    have "case map_of (k_cache (fixed_part (d_menu d))) i of Some e \<Rightarrow> is_cold e | None \<Rightarrow> False"
      using menu_schedule_good that by (simp add: derive_schedule [OF assms] schedule_good_def list_all_iff)
    then show ?thesis
      by (auto simp: fixed_part_def map_of_without is_cold_def cache_entry_def dget_dpop split: option.splits)
  qed
  then show ?thesis
    by (simp add: list_all_iff)
qed

lemma profile_groups_of_menu:
  assumes "derive z files = Inr d"
  shows "map ordinals_in (profile_groups (n_groups (d_menu d))) = [[0], [1, 2], [3, 4]]"
proof -
  have "ordinals_in (dpop g ''task'') = ordinals_in g" for g
    by (simp add: ordinals_in_def dget_dpop)
  then have "map ordinals_in (profile_groups (map (\<lambda>g. dpop g ''task'') gs)) = map ordinals_in (profile_groups gs)" for gs
    by (simp add: profile_groups_def filter_map comp_def) (simp add: ordinals_in_def dget_def dget_or_def)
  moreover have "k_groups (fixed_part (d_menu d)) = map (\<lambda>g. dpop g ''task'') (n_groups (d_menu d))"
    by (simp add: fixed_part_def)
  ultimately show ?thesis
    using menu_schedule_good derive_schedule [OF assms] by (simp add: schedule_good_def)
qed

text \<open>C28: Whatever the donor, a derived menu follows one schedule: thirty requests are numbered in order, every
  warm request reads the namespace of one earlier cold request (same salt, recorded as its seed), no two cold
  requests share a namespace, and the ordinals of the timed samples over all cases are exactly those that
  the owner's report must score once.\<close>

theorem derived_menu_is_scored:
  assumes "derive z files = Inr d"
  shows "fixed_part (d_menu d) = menu_schedule \<and> map fst (n_cache (d_menu d)) = [0..<30]
    \<and> seeds_read (n_cache (d_menu d)) \<and> namespaces_fresh (n_cache (d_menu d))
    \<and> scored_once (workload_ordinals (n_cases (d_menu d)))"
  using menu_schedule_good derive_schedule [OF assms] schedule_reads [of "d_menu d"]
  by (simp add: schedule_good_def)

section \<open>A donor\<close>

definition wm_plan :: "nat \<Rightarrow> pydict" where
  "wm_plan i = [(''ordinal'', PInt (int i)), (''case'', PStr ''c''), (''group'', PStr ''g''), (''category'', PStr ''timing''),
     (''context_envelope_tokens'', PInt 4096), (''path'', PStr ''p''), (''expected'', PStr ''e''), (''sha256'', PStr (zeros 64)),
     (''bytes'', PInt 1), (''expected_sha256'', PStr (zeros 64)), (''input_tokens'', PInt 2)]"

definition wm_body :: pydict where
  "wm_body = [(''max_completion_tokens'', PInt 4096), (''reasoning_effort'', PStr ''low''),
     (''chat_template_kwargs'', PDict [(''enable_thinking'', PBool True)]), (''ignore_eos'', PBool False), (''stream'', PBool False),
     (''messages'', PList [])]"

definition wm_expected :: pydict where
  "wm_expected = [(''task_grade'', PDict [(''kind'', PStr ''exact_json'')]), (''input_ids'', PList [PInt 1, PInt 2]),
     (''input_ids_sha256'', PStr (zeros 64)), (''messages_sha256'', PStr (zeros 64))]"

definition wm_row :: "nat \<Rightarrow> pydict" where
  "wm_row i = dset (dset (wm_plan i) ''expected'' (PDict wm_expected)) ''task'' (PStr ''t'')
     @ [(''body'', PDict wm_body), (''body_sha256'', PStr (zeros 64))]"

text \<open>The JSON texts are named by one letter: settings, outer dictionary, assets and client binding.\<close>

definition wm_plans :: "pyv list" where "wm_plans = map (\<lambda>i. PDict (wm_plan i)) [0..<16]"
definition wm_rows :: "pyv list" where "wm_rows = map (\<lambda>i. PDict (wm_row i)) [0..<16]"

definition wm_json :: "string \<Rightarrow> pyv res" where
  "wm_json s =
     (if s = ''S'' then Inr (PDict [(''requests'', PList wm_plans), (''paired_serving'', PDict [])])
      else if s = ''L'' then Inr (PDict [(''FINAL-REQUESTS.zlib'', PStr ''A''), (''CLIENT-BINDING.zlib'', PStr ''C'')])
      else if s = ''A'' then Inr (PDict [(''p'', PStr [CHR 0x0A]), (''e'', PStr [CHR 0x0A])])
      else if s = ''C'' then Inr (PDict [(''rows'', PList wm_rows)])
      else Inl (ValueError s))"

definition wm_packer :: packer where
  "wm_packer = \<lparr>z_codec = flat_codec, z_json = wm_json,
     z_inflate = (\<lambda>raw _. Inr \<lparr>i_data = raw, i_eof = True, i_unused = [], i_tail = []\<rparr>), z_deflate = id,
     z_decode64 = (\<lambda>v. Inr (str_of v)), z_encode64 = id\<rparr>"

definition wm_files :: blobs where
  "wm_files = [(''FINAL-SETTINGS.json'', ''S''), (''FINAL-REQUESTS.zlib'', ''L'')]"


definition row_ready :: "slot \<Rightarrow> schedule \<Rightarrow> nat \<Rightarrow> bool" where
  "row_ready y s position = ((y_intent y = ''warm'') = (map_of (k_seeds s) (seed_key y position) \<noteq> None))"

definition wm_corpus :: corpus where
  "wm_corpus = \<lparr>o_plans = wm_plans, o_rows = wm_rows\<rparr>"

lemma flat_canonical [simp]: "canonical flat_codec v = Inr [CHR 0x0A]" "digest_of flat_codec v = Inr (zeros 64)"
  by (simp_all add: canonical_def digest_of_def flat_codec_def)

lemma wm_selected: "selected_task (PDict wm_body) (PDict wm_expected) = Inr True"
  by code_simp

lemma wm_row_items:
  "map_of (wm_row i) ''body'' = Some (PDict wm_body)" "map_of (wm_row i) ''expected'' = Some (PDict wm_expected)"
  "map_of (wm_row i) ''input_tokens'' = Some (PInt 2)" "map_of (wm_row i) ''task'' = Some (PStr ''t'')"
  by (simp_all add: wm_row_def wm_plan_def)

lemma wm_prompt: "prompt_bound flat_codec (PDict (wm_row i)) (PDict wm_body) (PDict wm_expected) = Inr True"
  by (simp add: prompt_bound_def wm_row_items wm_body_def wm_expected_def py_item_def item_def py_len_def
      del: bnd_Inr_iff item_Inr_iff)

lemma wm_at:
  "i < 16 \<Longrightarrow> list_at (o_rows wm_corpus) (PInt (int i)) = Inr (PDict (wm_row i))"
  "i < 16 \<Longrightarrow> list_at (o_plans wm_corpus) (PInt (int i)) = Inr (PDict (wm_plan i))"
  by (simp_all add: wm_corpus_def wm_plans_def wm_rows_def list_at_def)


lemma wm_cache_plan:
  assumes "\<forall>s \<in> set (n_seeds m). snd (snd s) = PList [PInt 1, PInt 2]" and "row_ready y (fixed_part m) p"
  obtains policy seed m1 where "cache_plan y m p (PDict (wm_row i)) (PDict wm_expected) = Inr (policy, seed, m1)"
    and "\<forall>s \<in> set (n_seeds m1). snd (snd s) = PList [PInt 1, PInt 2]" and "n_rows m1 = n_rows m \<and> n_cases m1 = n_cases m"
proof -
  have ids: "map_of wm_expected ''input_ids'' = Some (PList [PInt 1, PInt 2])"
    by (simp add: wm_expected_def)
  have warm: "warm_minimum (PInt 1) = Inr (PInt 1)"
    by code_simp
  have less: "py_sub (PInt 2) (PInt 1) = Inr (PInt 1)"
    by code_simp
  have same: "py_eq (PList [PInt 1, PInt 2]) (PList [PInt 1, PInt 2])"
    by code_simp
  show ?thesis
  proof (cases "y_intent y = ''warm''")
    case True
    obtain seed where k: "map_of (n_seeds m) (seed_key y p) = Some (seed, PList [PInt 1, PInt 2])"
      using assms True map_of_SomeD [of "n_seeds m" "seed_key y p"]
      by (fastforce simp: row_ready_def fixed_part_def seeds_lookup)
    show ?thesis
      by (rule that [of "policy_value ''warm'' (PInt 1) (PInt 1)" "Some seed" m])
        (use True k ids warm less same assms in \<open>simp_all add: cache_plan_def Let_def wm_row_items item_def
          del: bnd_Inr_iff item_Inr_iff\<close>)
  next
    case False
    have n: "map_of (n_seeds m) (seed_key y p) = None"
      using assms(2) False by (cases "map_of (n_seeds m) (seed_key y p)") (simp_all add: row_ready_def fixed_part_def seeds_lookup)
    show ?thesis
      by (rule that [of "policy_value ''cold'' (PInt 0) (PInt 0)" None
            "m\<lparr>n_seeds := (seed_key y p, length (n_rows m), PList [PInt 1, PInt 2]) # n_seeds m\<rparr>"])
        (use False assms n in \<open>simp_all add: cache_plan_def Let_def ids item_def del: bnd_Inr_iff item_Inr_iff\<close>)
  qed
qed

lemma wm_joined:
  "joined_value flat_codec (wm_row i) (plan_value flat_codec y n name (wm_plan i) raw exp_raw) body raw' expected
     = Inr (with_items (wm_row i) (dpop (plan_value flat_codec y n name (wm_plan i) raw exp_raw) ''expected''
         @ [(''body'', PDict body), (''body_sha256'', PStr (zeros 64)), (''expected'', PDict expected)]))"
  by (simp add: joined_value_def plan_value_def wm_plan_def wm_row_def with_items_def Let_def dhas_def dpop_def keyset_def insert_commute)


definition wm_ready :: "menu \<Rightarrow> bool" where
  "wm_ready m = ((\<forall>s \<in> set (n_seeds m). snd (snd s) = PList [PInt 1, PInt 2])
     \<and> (\<forall>r \<in> set (n_rows m). map_of r ''input_tokens'' = Some (PInt 2))
     \<and> (\<forall>c \<in> set (n_cases m). dget (snd c) ''contract_sha256'' = PStr (zeros 64)))"

lemma wm_add_row:
  assumes "wm_ready m" and "row_ready y (fixed_part m) p" and "i < 16"
  obtains m' os' ct' where "add_row wm_packer wm_corpus y (m, os, ct) (p, i) = Inr (m', os', ct')" and "wm_ready m'"
proof -
  obtain policy seed m1 where c: "cache_plan y m p (PDict (wm_row i)) (PDict wm_expected) = Inr (policy, seed, m1)"
    and s: "\<forall>s \<in> set (n_seeds m1). snd (snd s) = PList [PInt 1, PInt 2]" and r: "n_rows m1 = n_rows m \<and> n_cases m1 = n_cases m"
    using wm_cache_plan assms(1,2) unfolding wm_ready_def by blast
  have tokens: "map_of (plan_value flat_codec y n name (wm_plan i) raw exp_raw) ''input_tokens'' = Some (PInt 2)" for n name raw exp_raw
    by (simp add: plan_value_def Let_def with_items_def wm_plan_def)
  have contract: "\<exists>v. contract_value (with_items wm_expected [(''case'', a), (''context_length'', b), (''completion_policy'', d),
      (''cache_policy'', e)]) n policy = Inr v" for a b d e n
    by (simp add: contract_value_def with_items_def wm_expected_def item_def del: bnd_Inr_iff item_Inr_iff)
  have fits: "fits_in [CHR 0x0A] (2 ^ 20)"
    by (simp add: fits_in_def)
  have "\<exists>m' os' ct'. add_row wm_packer wm_corpus y (m, os, ct) (p, i) = Inr (m', os', ct') \<and> wm_ready m'"
    using contract assms(1) s r
    by (simp add: add_row_def wm_packer_def wm_at [OF assms(3)] wm_row_items item_def wm_selected wm_prompt c fits [simplified] wm_joined
        py_dict_def Let_def del: bnd_Inr_iff item_Inr_iff)
      (auto simp: wm_ready_def tokens)
  with that show ?thesis
    by blast
qed


fun rows_ready :: "slot \<Rightarrow> schedule \<Rightarrow> nat list \<Rightarrow> bool" where
  "rows_ready y s [] = True"
| "rows_ready y s (p # ps) = (row_ready y s p \<and> rows_ready y (schedule_row y s p) ps)"

fun slots_ready :: "schedule \<Rightarrow> slot list \<Rightarrow> bool" where
  "slots_ready s [] = True"
| "slots_ready s (y # ys) =
     (rows_ready y s [0..<length (y_indices y)] \<and> length (y_indices y) \<in> {1, 2} \<and> list_all (\<lambda>i. i < 16) (y_indices y)
      \<and> slots_ready (schedule_slot s y) ys)"

lemma wm_add_rows:
  assumes "wm_ready m" and "rows_ready y (fixed_part m) (map fst pos)" and "\<forall>po \<in> set pos. snd po < 16"
  shows "\<exists>m' os' ct'. foldM_res (add_row wm_packer wm_corpus y) (m, os, ct) pos = Inr (m', os', ct') \<and> wm_ready m'"
  using assms
proof (induction pos arbitrary: m os ct)
  case (Cons po pos)
  obtain p i where po: "po = (p, i)"
    by (cases po)
  obtain m1 os1 ct1 where step: "add_row wm_packer wm_corpus y (m, os, ct) (p, i) = Inr (m1, os1, ct1)" and r: "wm_ready m1"
    using wm_add_row [of m y p i os ct] Cons.prems by (auto simp: po)
  have "fixed_part m1 = schedule_row y (fixed_part m) p"
    using add_row_schedule [OF step] by simp
  with Cons.IH [OF r, of os1 ct1] Cons.prems show ?case
    by (simp add: po step)
qed simp

lemma mapM_res_const: "(\<And>i. i \<in> set js \<Longrightarrow> f i = Inr v) \<Longrightarrow> mapM_res f js = Inr (replicate (length js) v)"
  by (induction js) simp_all

lemma wm_tasks:
  assumes "list_all (\<lambda>i. i < 16) js" and "js \<noteq> []"
  shows "same_tasks wm_corpus js = Inr (PStr ''t'')"
proof -
  have t: "task_at wm_corpus i = Inr (PStr ''t'')" if "i < 16" for i
    using that by (simp add: task_at_def wm_at wm_row_items item_def del: bnd_Inr_iff item_Inr_iff)
  have "allof (map (\<lambda>i. bnd (task_at wm_corpus i) (\<lambda>v. Inr (py_eq v (PStr ''t'')))) js) = Inr True"
    using assms(1) by (induction js) (simp_all add: t del: bnd_Inr_iff)
  with assms show ?thesis
    by (cases js) (simp_all add: same_tasks_def t del: bnd_Inr_iff)
qed

lemma wm_capacity:
  assumes "wm_ready m" and "\<forall>i \<in> set os. i < length (n_rows m)" and "length os \<in> {1, 2}"
  shows "capacity_fits (n_rows m) os = Inr True"
proof -
  have sum: "bnd (py_add (PInt 2) (PInt OUTPUT_CAP)) (\<lambda>n. py_add n (PInt 16)) = Inr (PInt 4114)"
    by code_simp
  have all: "mapM_res (\<lambda>i. bnd (item (n_rows m ! i) ''input_tokens'') (\<lambda>n. bnd (py_add n (PInt OUTPUT_CAP)) (\<lambda>n. py_add n (PInt 16)))) os
      = Inr (replicate (length os) (PInt 4114))"
  proof (rule mapM_res_const)
    fix i assume "i \<in> set os"
    with assms(1,2) have "item (n_rows m ! i) ''input_tokens'' = Inr (PInt 2)"
      by (simp add: wm_ready_def)
    then show "bnd (item (n_rows m ! i) ''input_tokens'') (\<lambda>n. bnd (py_add n (PInt OUTPUT_CAP)) (\<lambda>n. py_add n (PInt 16))) = Inr (PInt 4114)"
      by (simp only: bnd_simps sum)
  qed
  have fold: "andM (bnd (py_max xs) (\<lambda>n. py_le n (PInt CONTEXT))) (bnd (foldM_res py_add (PInt 0) xs) (\<lambda>n. py_le n (PInt TOKEN_POOL))) = Inr True"
    if "xs = [PInt 4114] \<or> xs = [PInt 4114, PInt 4114]" for xs
    using that by (elim disjE) (simp_all only:, code_simp+)
  have "replicate (length os) (PInt 4114) = [PInt 4114] \<or> replicate (length os) (PInt 4114) = [PInt 4114, PInt 4114]"
    using assms(3) by (auto simp: numeral_2_eq_2)
  then show ?thesis
    unfolding capacity_fits_def all by (simp only: bnd_simps fold)
qed

lemma wm_add_sample:
  assumes "\<forall>c \<in> set cases. dget (snd c) ''contract_sha256'' = PStr (zeros 64)"
  obtains cases' where "add_sample y os (zeros 64) cases = Inr cases'"
    and "\<forall>c \<in> set cases'. dget (snd c) ''contract_sha256'' = PStr (zeros 64)"
proof -
  have in_dset: "c \<in> set (dset d k v) \<Longrightarrow> c \<in> set d \<or> snd c = v" for c :: "string \<times> pydict" and d k v
    by (induction d k v rule: dset.induct) (auto split: if_splits)
  have dget_set: "dget (dset d k v) k' = (if k' = k then v else dget d k')" for d k v k'
    by (simp add: dget_def dget_or_def)
  show ?thesis
  proof (cases "map_of cases (y_case y)")
    case None
    then show ?thesis
      by (intro that) (auto simp: add_sample_def Let_def dget_rec dest!: in_dset bspec [OF assms])
  next
    case (Some e)
    then have "dget e ''contract_sha256'' = PStr (zeros 64)"
      using assms map_of_SomeD by fastforce
    with Some show ?thesis
      by (intro that) (auto simp: add_sample_def Let_def dget_set dest!: in_dset bspec [OF assms])
  qed
qed

lemma wm_add_slot:
  assumes "wm_ready m" and "rows_ready y (fixed_part m) [0..<length (y_indices y)]"
    and "length (y_indices y) \<in> {1, 2}" and "list_all (\<lambda>i. i < 16) (y_indices y)"
  obtains m' where "add_slot wm_packer wm_corpus m y = Inr m'" and "wm_ready m'"
proof -
  let ?is = "y_indices y"
  have codec: "z_codec wm_packer = flat_codec"
    by (simp add: wm_packer_def)
  have small: "\<forall>po \<in> set (zip [0..<length ?is] ?is). snd po < 16"
    using assms(4) set_zip_rightD by (fastforce simp: list_all_iff)
  obtain m1 os ct where rows: "foldM_res (add_row wm_packer wm_corpus y) (m, [], []) (zip [0..<length ?is] ?is) = Inr (m1, os, ct)"
    and r: "wm_ready m1"
    using wm_add_rows [OF assms(1) _ small, of y "[]" "[]"] assms(2) by (simp only: map_fst_zip length_upt diff_zero) blast
  have os: "os = [length (n_rows m)..<length (n_rows m) + length ?is]"
    using add_rows_schedule [OF rows] by simp
  have count: "k_count (foldl (schedule_row y) s ps) = k_count s + length ps" for s ps
    by (induction ps arbitrary: s) (simp_all add: schedule_row_def)
  have "k_count (fixed_part m1) = k_count (fixed_part m) + length ?is"
    using add_rows_schedule [OF rows] by (simp add: count)
  then have "length (n_rows m1) = length (n_rows m) + length ?is"
    by (simp add: fixed_part_def)
  then have cap: "capacity_fits (n_rows m1) os = Inr True"
    by (intro wm_capacity [OF r]) (use os assms(3) in simp_all)
  have tasks: "same_tasks wm_corpus ?is = Inr (PStr ''t'')"
    by (rule wm_tasks [OF assms(4)]) (use assms(3) in auto)
  obtain cases' where c: "add_sample y os (zeros 64) (n_cases m1) = Inr cases'"
    and ok: "\<forall>c \<in> set cases'. dget (snd c) ''contract_sha256'' = PStr (zeros 64)"
    using wm_add_sample [of "n_cases m1" y os] r by (auto simp: wm_ready_def)
  show ?thesis
    by (rule that [of "if y_warmup y then m1\<lparr>n_groups := n_groups m1 @ [group_value y os (PStr ''t'')]\<rparr>
         else m1\<lparr>n_groups := n_groups m1 @ [group_value y os (PStr ''t'')], n_cases := cases'\<rparr>"])
      (use rows tasks cap c r ok in \<open>simp_all add: add_slot_def Let_def codec wm_ready_def del: bnd_Inr_iff\<close>)
qed

lemma wm_add_slots:
  "wm_ready m \<Longrightarrow> slots_ready (fixed_part m) ys \<Longrightarrow> \<exists>m'. foldM_res (add_slot wm_packer wm_corpus) m ys = Inr m'"
proof (induction ys arbitrary: m)
  case (Cons y ys)
  obtain m' where step: "add_slot wm_packer wm_corpus m y = Inr m'" and r: "wm_ready m'"
    using wm_add_slot [of m y] Cons.prems by auto
  with Cons.IH [OF r] Cons.prems show ?case
    by (simp add: add_slot_schedule [OF step])
qed simp

lemma menu_ready: "slots_ready (fixed_part empty_menu) MENU"
  by code_simp

lemma wm_menu: obtains m where "foldM_res (add_slot wm_packer wm_corpus) empty_menu MENU = Inr m" and "menu_complete m"
proof -
  have "wm_ready empty_menu"
    by (simp add: wm_ready_def empty_menu_def)
  with menu_ready obtain m where m: "foldM_res (add_slot wm_packer wm_corpus) empty_menu MENU = Inr m"
    using wm_add_slots by blast
  then have "fixed_part m = menu_schedule"
    using add_slots_schedule by (simp add: menu_schedule_def)
  then have "k_count (fixed_part m) = 30" "length (k_groups (fixed_part m)) = 20" "length (k_cases (fixed_part m)) = 6"
    using menu_schedule_good by (simp_all add: schedule_good_def)
  then have "menu_complete m"
    by (simp add: menu_complete_def fixed_part_def without_def)
  with m that show ?thesis
    by blast
qed


lemma wm_donors: "mapM_res (donor_row flat_codec [(''p'', [CHR 0x0A]), (''e'', [CHR 0x0A])])
    (zip [0..<16] (zip (o_plans wm_corpus) (o_rows wm_corpus))) = Inr (replicate 16 ())"
proof -
  have "donor_row flat_codec [(''p'', [CHR 0x0A]), (''e'', [CHR 0x0A])] (i, PDict (wm_plan i), PDict (wm_row i)) = Inr ()" for i
    by (simp add: donor_row_def wm_plan_def wm_row_def item_def blob_at_def blob_def del: bnd_Inr_iff item_Inr_iff)
  then have "mapM_res (donor_row flat_codec [(''p'', [CHR 0x0A]), (''e'', [CHR 0x0A])]) rs = Inr (replicate (length rs) ())"
    if "\<And>r. r \<in> set rs \<Longrightarrow> \<exists>i. r = (i, PDict (wm_plan i), PDict (wm_row i))" for rs
    using that by (intro mapM_res_const) fastforce
  moreover have "\<exists>i. r = (i, PDict (wm_plan i), PDict (wm_row i))"
    if "r \<in> set (zip [0..<16] (zip (o_plans wm_corpus) (o_rows wm_corpus)))" for r
    using that by (intro exI [of _ "fst r"]) (auto simp: wm_corpus_def wm_plans_def wm_rows_def in_set_zip prod_eq_iff)
  ultimately show ?thesis
    by (simp add: wm_corpus_def wm_plans_def wm_rows_def del: upt_rec_numeral)
qed

lemma wm_pack: "menu_complete m \<Longrightarrow> \<exists>d. pack_menu wm_packer [(''requests'', PList wm_plans), (''paired_serving'', PDict [])] client logical m = Inr d"
  by (simp add: pack_menu_def wm_packer_def item_def py_dict_def fits_in_def encoded_def Let_def del: bnd_Inr_iff item_Inr_iff)


lemma wm_parts:
  "z_codec wm_packer = flat_codec" "z_json wm_packer = wm_json"
  "z_inflate wm_packer raw cap = Inr \<lparr>i_data = raw, i_eof = True, i_unused = [], i_tail = []\<rparr>"
  "z_decode64 wm_packer (PStr s) = Inr s"
  by (simp_all add: wm_packer_def)

lemma wm_derives: "\<exists>d. derive wm_packer wm_files = Inr d"
proof -
  obtain m where m: "foldM_res (add_slot wm_packer wm_corpus) empty_menu MENU = Inr m" and "menu_complete m"
    by (rule wm_menu)
  have corpus: "\<lparr>o_plans = wm_plans, o_rows = wm_rows\<rparr> = wm_corpus"
    by (simp add: wm_corpus_def)
  have sixteen: "length wm_plans = 16" "length wm_rows = 16"
    by (simp_all add: wm_plans_def wm_rows_def)
  note donors = wm_donors [unfolded wm_corpus_def, simplified corpus.simps]
  have "derive wm_packer wm_files = pack_menu wm_packer [(''requests'', PList wm_plans), (''paired_serving'', PDict [])]
      [(''rows'', PList wm_rows)] [(''FINAL-REQUESTS.zlib'', ''A''), (''CLIENT-BINDING.zlib'', ''C'')] m"
    by (simp add: derive_def wm_files_def blob_def wm_parts wm_json_def unpack_blobs_def unpack_def fits_in_def item_def
        py_len_def py_iter_def dict_items_def donors corpus sixteen m del: bnd_Inr_iff item_Inr_iff upt_rec_numeral)
  then show ?thesis
    using wm_pack \<open>menu_complete m\<close> by metis
qed

lemma derived_menu_is_scored_witness:
  "\<exists>d. derive wm_packer wm_files = Inr d \<and> scored_once (workload_ordinals (n_cases (d_menu d)))"
proof -
  obtain d where "derive wm_packer wm_files = Inr d"
    using wm_derives by blast
  with derived_menu_is_scored [OF this] show ?thesis
    by blast
qed

end
