(* ===== verification/Exchange_Host.thy ===== *)
theory Exchange_Host
  imports Owner_Backend
begin

text \<open>
  \<open>lib/workstation/hyperloom_exchange_host.py\<close>: the controller's end of the exchange.  One
  bounded action at a time (\<open>park\<close>, \<open>list\<close>, \<open>take\<close>, \<open>cancelled\<close>,
  \<open>publish\<close>) on the two trees, and the private copy of a taken job.  The request tree belongs to
  the optimizer, so every reading \<open>take\<close> makes of a job is a value of its own: the inspection, the sources
  it copies, the claim and the request read for the claim's digest.  \<open>base64\<close> is the pair of functions \<open>n_encode\<close>, \<open>n_decode\<close> of the
  environment.
\<close>

section \<open>The host's trees\<close>

text \<open>An entry of the request tree is an ordinary directory (a job) or something else.\<close>

record host =
  h_entries :: "(string \<times> job option) list"
  h_replies :: replies
  h_root :: members

record host_env =
  n_codec :: codec
  n_now :: flt
  n_encode :: "string \<Rightarrow> string"
  n_decode :: "string \<Rightarrow> string res"
  n_separate :: bool
  n_copied :: "string \<Rightarrow> members"
  n_later :: "string \<Rightarrow> job option"
  n_reread :: "string \<Rightarrow> member option"
  n_cancelled_later :: bool

definition MAX_QUEUED :: nat where "MAX_QUEUED = 256"

definition trunc_flt :: "flt \<Rightarrow> int res" where
  "trunc_flt f = (case f of Fin q \<Rightarrow> Inr (if 0 \<le> q then \<lfloor>q\<rfloor> else \<lceil>q\<rceil>) | Inf _ \<Rightarrow> Inl OverflowError
     | NaN \<Rightarrow> Inl (ValueError ''cannot convert float NaN to integer''))"

definition unix_ms :: "host_env \<Rightarrow> int res" where
  "unix_ms n = trunc_flt (flt_mul (n_now n) (Fin 1000))"

definition job_name :: "pyv \<Rightarrow> string res" where
  "job_name job_id = (if hex_value 32 job_id then Inr (str_of job_id) else Inl (ValueError ''invalid exchange job ID''))"

definition empty_job :: job where
  "empty_job = \<lparr>j_members = [], j_sources = []\<rparr>"

definition job_at :: "host \<Rightarrow> string \<Rightarrow> job" where
  "job_at h name = (case map_of (h_entries h) name of Some (Some j) \<Rightarrow> j | _ \<Rightarrow> empty_job)"

definition published_value :: "codec \<Rightarrow> string \<Rightarrow> pydict" where
  "published_value c raw = [(''schema'', PInt 1), (''published_sha256'', PStr (c_digest c raw)), (''bytes'', PInt (int (length raw)))]"

definition publish_root :: "string \<Rightarrow> string \<Rightarrow> (host, unit) st" where
  "publish_root key raw h =
     (case publish (h_root h) key raw of Inl e \<Rightarrow> (h, Inl e) | Inr members \<Rightarrow> (h\<lparr>h_root := members\<rparr>, Inr ()))"

definition publish_reply :: "string \<Rightarrow> string \<Rightarrow> string \<Rightarrow> (host, unit) st" where
  "publish_reply name key raw h =
     (case map_of (h_replies h) name of None \<Rightarrow> (h, Inl OSError) | Some reply \<Rightarrow>
      (case publish reply key raw of Inl e \<Rightarrow> (h, Inl e)
       | Inr members \<Rightarrow> (h\<lparr>h_replies := dset (h_replies h) name members\<rparr>, Inr ())))"

section \<open>Actions\<close>

definition reason_ok :: "pyv \<Rightarrow> bool" where
  "reason_ok result = (case result of
     PDict d \<Rightarrow> has_keys d [''reason''] \<and> is_str (dget d ''reason'') \<and> 0 < length (str_of (dget d ''reason''))
       \<and> length (str_of (dget d ''reason'')) \<le> 2048
   | _ \<Rightarrow> False)"

definition terminal_value :: "pyv \<Rightarrow> pyv \<Rightarrow> pyv \<Rightarrow> int \<Rightarrow> pydict" where
  "terminal_value campaign controller reason ms =
     [(''schema'', PInt 1), (''campaign_sha256'', campaign), (''controller_sha256'', controller), (''reason'', reason),
      (''park_campaign'', PBool True), (''automatic_retry'', PBool False), (''adoption_authorized'', PBool False),
      (''independent_release_claimed'', PBool False), (''unix_ms'', PInt ms)]"

definition park :: "host_env \<Rightarrow> pydict \<Rightarrow> pyv \<Rightarrow> pyv \<Rightarrow> (host, pydict) st" where
  "park n bound job_id result =
     sguard (job_id = PNone \<and> reason_ok result) ''bounded terminal campaign reason required'' (
     sbnd (slift (item bound ''campaign_sha256'')) (\<lambda>campaign.
     sbnd (slift (item bound ''controller_sha256'')) (\<lambda>controller.
     sbnd (slift (unix_ms n)) (\<lambda>ms.
     sbnd (slift (canonical (n_codec n) (PDict (terminal_value campaign controller (dget (dict_of_v result) ''reason'') ms)))) (\<lambda>raw.
     sbnd (publish_root ''CAMPAIGN-PARKED.json'' raw) (\<lambda>_.
     slift (Inr (published_value (n_codec n) raw))))))))"

text \<open>Waiting jobs: complete requests without a reply directory, in the order of their names.\<close>

definition waiting :: "host \<Rightarrow> string \<times> job option \<Rightarrow> bool" where
  "waiting h e = ((case snd e of Some j \<Rightarrow> (\<exists>raw. map_of (j_members j) ''REQUEST.json'' = Some (Regular raw)) | None \<Rightarrow> False)
     \<and> map_of (h_replies h) (fst e) = None)"

definition listing :: "host_env \<Rightarrow> pyv \<Rightarrow> pyv \<Rightarrow> (host, pydict) st" where
  "listing n job_id result =
     sguard (job_id = PNone \<and> result = PNone) ''list takes no job payload'' (
     sbnd (sget id) (\<lambda>h.
     sguard (length (h_entries h) \<le> MAX_QUEUED \<and> list_all (\<lambda>(name, j). hex_string 32 name \<and> j \<noteq> None) (h_entries h))
       ''bounded ordinary request directories required'' (
     sbnd (slift (unix_ms n)) (\<lambda>ms.
     slift (Inr [(''schema'', PInt 1), (''unix_ms'', PInt ms),
       (''jobs'', PList (map PStr (sort (map fst (filter (waiting h) (h_entries h))))))])))))"

definition copy_source :: "host_env \<Rightarrow> members \<Rightarrow> pyv \<Rightarrow> (string \<times> pyv) res" where
  "copy_source n sources row =
     bnd (py_item row ''name'') (\<lambda>name.
     bnd (read_member (map_of sources (str_of name)) MAX_SOURCE) (\<lambda>raw.
     bnd (py_item row ''bytes'') (\<lambda>size. bnd (py_item row ''sha256'') (\<lambda>sha.
     guard (py_eq (PInt (int (length raw))) size \<and> py_eq (PStr (c_digest (n_codec n) raw)) sha) ''source changed during snapshot'' (
     Inr (str_of name, PStr (n_encode n raw)))))))"

text \<open>The part of \<open>take\<close> before the claim; \<open>n_copied\<close> are the sources that are there when they are read a second time
  to be copied, after the job was inspected.\<close>

definition inspected :: "host_env \<Rightarrow> pydict \<Rightarrow> string \<Rightarrow> job \<Rightarrow> (pydict \<times> pydict \<times> (string \<times> pyv) list) res" where
  "inspected n bound name j =
     bnd (item bound ''campaign_sha256'') (\<lambda>campaign. bnd (item bound ''selection_sha256'') (\<lambda>selection.
     bnd (inspect (n_codec n) name j campaign selection) (\<lambda>(request, config).
     bnd (bnd (caller_of bound (str_of (dget request ''kind''))) (\<lambda>caller.
          andM (Inr (py_eq (dget request ''caller_seconds'') caller))
            (bnd (item bound ''campaign_deadline_unix_ms'') (\<lambda>deadline. py_le (dget request ''expires_unix_ms'') deadline)))) (\<lambda>fits.
     guard fits ''request exceeds bound campaign or owner ceiling'' (
     bnd (validate_config config bound) (\<lambda>kind.
     guard (PStr kind = dget request ''kind'') ''request/config kind mismatch'' (
     bnd (mapM_res (copy_source n (n_copied n name)) (list_of (dget request ''sources''))) (\<lambda>copies.
     Inr (request, config, dict_of copies)))))))))"

definition snapshot_value :: "pydict \<Rightarrow> pydict \<Rightarrow> (string \<times> pyv) list \<Rightarrow> pyv \<Rightarrow> pydict" where
  "snapshot_value request config sources claim_record =
     [(''schema'', PInt 1), (''request'', PDict request), (''config'', PDict config), (''sources'', PDict sources), (''claim'', claim_record)]"

text \<open>The claim reads the job again: \<open>n_later\<close> is what it finds then, and \<open>n_reread\<close> the request it reads once more.\<close>

definition claim_at :: "host_env \<Rightarrow> pydict \<Rightarrow> string \<Rightarrow> pyv \<Rightarrow> int \<Rightarrow> (host, pydict \<times> pydict \<times> string) st" where
  "claim_at n bound name controller ms h =
     (case claim (n_codec n) name (case n_later n name of Some j \<Rightarrow> j | None \<Rightarrow> empty_job) (h_replies h) (n_separate n)
             (dget bound ''campaign_sha256'') (dget bound ''selection_sha256'') controller ms (n_reread n name) (n_cancelled_later n) of
        (rs, r) \<Rightarrow> (h\<lparr>h_replies := rs\<rparr>, r))"

definition take_job :: "host_env \<Rightarrow> pydict \<Rightarrow> string \<Rightarrow> pyv \<Rightarrow> (host, pydict) st" where
  "take_job n bound name result =
     sguard (result = PNone) ''take accepts no result'' (
     sbnd (sget id) (\<lambda>h.
     sbnd (slift (inspected n bound name (job_at h name))) (\<lambda>(request, config, sources).
     sbnd (slift (item bound ''controller_sha256'')) (\<lambda>controller.
     sbnd (slift (unix_ms n)) (\<lambda>ms.
     sbnd (claim_at n bound name controller ms) (\<lambda>(claimed, config2, reply).
     sguard (py_eq (PDict claimed) (PDict request) \<and> py_eq (PDict config2) (PDict config)) ''request changed during claim'' (
     sbnd (sget h_replies) (\<lambda>rs.
     sbnd (slift (bnd (read_member (map_of (case map_of rs reply of Some m \<Rightarrow> m | None \<Rightarrow> []) ''CLAIM.json'') MAX_JSON)
                   (c_decode (n_codec n)))) (\<lambda>claim_record.
     slift (Inr (snapshot_value request config sources claim_record)))))))))))"

text \<open>A job that no longer inspects counts as cancelled.\<close>

definition cancelled :: "host_env \<Rightarrow> pydict \<Rightarrow> string \<Rightarrow> pyv \<Rightarrow> (host, pydict) st" where
  "cancelled n bound name result =
     sguard (result = PNone) ''cancellation read accepts no result'' (
     sbnd (slift (item bound ''campaign_sha256'')) (\<lambda>campaign.
     sbnd (slift (item bound ''selection_sha256'')) (\<lambda>selection.
     sbnd (sget (\<lambda>h. job_at h name)) (\<lambda>j.
     let answer = (case bnd (inspect (n_codec n) name j campaign selection) (\<lambda>(request, _).
            bnd (orM (Inr (map_of (j_members j) ''CANCELLED.json'' \<noteq> None))
                   (py_ge (PFloat (flt_mul (n_now n) (Fin 1000))) (dget request ''expires_unix_ms''))) (\<lambda>over.
            bnd (digest_of (n_codec n) (PDict request)) (\<lambda>sha. Inr (over, PStr sha)))) of
          Inr a \<Rightarrow> Inr a | Inl e \<Rightarrow> if os_or_value e then Inr (True, PNone) else Inl e) in
     sbnd (slift answer) (\<lambda>(over, sha).
     slift (Inr [(''schema'', PInt 1), (''cancelled'', PBool over), (''request_sha256'', sha)]))))))"

definition result_bound :: "pydict \<Rightarrow> pydict \<Rightarrow> pyv \<Rightarrow> pyv \<Rightarrow> bool res" where
  "result_bound bound result job_id claim_record =
     bnd (item bound ''controller_sha256'') (\<lambda>controller. bnd (item bound ''campaign_sha256'') (\<lambda>campaign.
     andM (Inr (py_eq (dget result ''id'') job_id \<and> py_eq (dget result ''controller_sha256'') controller
                \<and> py_eq (dget result ''campaign_sha256'') campaign))
       (bnd (py_item claim_record ''request_sha256'') (\<lambda>sha. Inr (py_eq (dget result ''request_sha256'') sha)))))"

definition disposition :: "pydict \<Rightarrow> unit res" where
  "disposition result =
     bnd (str_in (dget result ''status'') STATUSES) (\<lambda>known.
     guard (known \<and> dget result ''adoption_authorized'' = PBool False \<and> dget result ''automatic_retry'' = PBool False)
       ''invalid controller disposition'' (
     if dget result ''status'' = PStr ''SUCCEEDED''
     then bnd (identity (dget result ''owner_seal_sha256'') ''completed owner seal'') (\<lambda>_.
          require (dget result ''independent_release'' = PBool True) ''unreleased owner cannot publish success'')
     else Inr ()))"

definition publish_job :: "host_env \<Rightarrow> pydict \<Rightarrow> string \<Rightarrow> pyv \<Rightarrow> (host, pydict) st" where
  "publish_job n bound name result =
     sguard (is_dict result) ''controller result required'' (
     sbnd (sget (\<lambda>h. map_of (h_replies h) name)) (\<lambda>reply.
     sguard (reply \<noteq> None) ''canonical exchange directory required'' (
     sbnd (slift (bnd (read_member (map_of (the reply) ''CLAIM.json'') MAX_JSON) (c_decode (n_codec n)))) (\<lambda>claim_record.
     sbnd (slift (result_bound bound (dict_of_v result) (PStr name) claim_record)) (\<lambda>own.
     sguard own ''foreign result publication'' (
     sbnd (slift (disposition (dict_of_v result))) (\<lambda>_.
     sbnd (slift (canonical (n_codec n) result)) (\<lambda>raw.
     sbnd (publish_reply name ''RESULT.json'' raw) (\<lambda>_.
     slift (Inr (published_value (n_codec n) raw)))))))))))"

definition dispatch :: "host_env \<Rightarrow> pydict \<Rightarrow> string \<Rightarrow> pyv \<Rightarrow> pyv \<Rightarrow> (host, pydict) st" where
  "dispatch n bound action job_id result =
     (if action = ''park'' then park n bound job_id result
      else if action = ''list'' then listing n job_id result
      else sbnd (slift (job_name job_id)) (\<lambda>name.
           if action = ''take'' then take_job n bound name result
           else if action = ''cancelled'' then cancelled n bound name result
           else if action = ''publish'' then publish_job n bound name result
           else slift (Inl (ValueError ''unsupported exchange action''))))"

section \<open>The private snapshot\<close>

record snapshot =
  t_members :: members
  t_sources :: members

definition snapshot_fits :: "pydict \<Rightarrow> pydict \<Rightarrow> bool res" where
  "snapshot_fits request bound =
     bnd (item bound ''campaign_sha256'') (\<lambda>campaign. bnd (item bound ''selection_sha256'') (\<lambda>selection.
     andM (Inr (py_eq (dget request ''campaign_sha256'') campaign \<and> py_eq (dget request ''selection_sha256'') selection))
       (bnd (caller_of bound (str_of (dget request ''kind''))) (\<lambda>caller.
        andM (Inr (py_eq (dget request ''caller_seconds'') caller))
          (bnd (item bound ''campaign_deadline_unix_ms'') (\<lambda>deadline. py_le (dget request ''expires_unix_ms'') deadline))))))"

definition claim_fits :: "codec \<Rightarrow> pyv \<Rightarrow> pydict \<Rightarrow> pydict \<Rightarrow> bool res" where
  "claim_fits c claim_record request bound =
     bnd (py_get claim_record ''id'') (\<lambda>i. let k = dict_of_v claim_record in
     bnd (digest_of c (PDict request)) (\<lambda>sha. bnd (item bound ''controller_sha256'') (\<lambda>controller.
     Inr (py_eq i (dget request ''id'') \<and> py_eq (dget k ''request_sha256'') (PStr sha)
          \<and> py_eq (dget k ''controller_sha256'') controller \<and> dget k ''gpu_admission'' = PBool False))))"

definition decode_source :: "host_env \<Rightarrow> pydict \<Rightarrow> pyv \<Rightarrow> (string \<times> string) res" where
  "decode_source n encoded row =
     bnd (py_item row ''name'') (\<lambda>name. bnd (item encoded (str_of name)) (\<lambda>value_of.
     guard (is_str value_of \<and> length (str_of value_of) \<le> 4 * ((MAX_SOURCE + 2) div 3)) ''snapshot source size'' (
     bnd (n_decode n (str_of value_of)) (\<lambda>raw.
     bnd (py_item row ''bytes'') (\<lambda>size. bnd (py_item row ''sha256'') (\<lambda>sha.
     guard (py_eq (PInt (int (length raw))) size \<and> py_eq (PStr (c_digest (n_codec n) raw)) sha) ''snapshot source digest mismatch'' (
     Inr (str_of name, raw))))))))"

definition SNAPSHOT_KEYS :: "string list" where
  "SNAPSHOT_KEYS = [''schema'', ''request'', ''config'', ''sources'', ''claim'']"

definition retain_snapshot :: "host_env \<Rightarrow> pyv \<Rightarrow> bool \<Rightarrow> pydict \<Rightarrow> snapshot res" where
  "retain_snapshot n snap fresh bound =
     (let s = dict_of_v snap; c = n_codec n in
      guard (is_dict snap \<and> has_keys s SNAPSHOT_KEYS \<and> py_eq (dget s ''schema'') (PInt 1)) ''snapshot schema'' (
      bnd (check_request c (dget s ''request'')) (\<lambda>request.
      guardM (snapshot_fits request bound) ''snapshot campaign/ceiling mismatch'' (
      bnd (digest_of c (dget s ''config'')) (\<lambda>config_sha.
      guardM (andM (Inr (py_eq (PStr config_sha) (dget request ''config_sha256'')))
               (bnd (py_dict (dget s ''config'')) (\<lambda>config. bnd (validate_config config bound) (\<lambda>kind. Inr (PStr kind = dget request ''kind'')))))
        ''snapshot config mismatch'' (
      guardM (claim_fits c (dget s ''claim'') request bound) ''snapshot claim mismatch'' (
      let encoded = dict_of_v (dget s ''sources''); rows = list_of (dget request ''sources'') in
      guard (is_dict (dget s ''sources'') \<and> keyset encoded = row_name ` set rows) ''closed snapshot source set required'' (
      bnd (mapM_res (decode_source n encoded) rows) (\<lambda>sources.
      guard fresh ''fresh private snapshot destination required'' (
      bnd (publish_sources [] (dict_of sources)) (\<lambda>copies.
      bnd (foldM_res (\<lambda>m (name, v). publish_value c m name v) []
             [(''REQUEST.json'', PDict request), (''CONFIG.json'', dget s ''config''), (''CLAIM.json'', dget s ''claim'')]) (\<lambda>members.
      Inr \<lparr>t_members = members, t_sources = copies\<rparr>))))))))))))"


section \<open>Lemmas: the trees only grow\<close>

text \<open>What an action may do to the trees: the requests are never written, and a published member
  is never changed or removed.\<close>

definition members_kept :: "members \<Rightarrow> members \<Rightarrow> bool" where
  "members_kept ms ms' = (\<forall>k m. map_of ms k = Some m \<longrightarrow> map_of ms' k = Some m)"

definition extends :: "host \<Rightarrow> host \<Rightarrow> bool" where
  "extends h h' = (h_entries h' = h_entries h \<and> members_kept (h_root h) (h_root h')
     \<and> (\<forall>name ms. map_of (h_replies h) name = Some ms \<longrightarrow> (\<exists>ms'. map_of (h_replies h') name = Some ms' \<and> members_kept ms ms')))"

lemma members_kept_refl [simp]: "members_kept ms ms"
  by (simp add: members_kept_def)

lemma members_kept_trans: "members_kept a b \<Longrightarrow> members_kept b c \<Longrightarrow> members_kept a c"
  by (simp add: members_kept_def)

lemma members_kept_publish: "publish ms name raw = Inr ms' \<Longrightarrow> members_kept ms ms'"
  by (drule publish_Inr) (auto simp: members_kept_def)

lemma host_extends_refl [simp]: "extends h h"
  unfolding extends_def by (blast intro: members_kept_refl)

lemma host_extends_trans: "extends a b \<Longrightarrow> extends b c \<Longrightarrow> extends a c"
  unfolding extends_def by (metis members_kept_trans)

lemma extends_transp: "transp extends"
  by (rule transpI) (rule host_extends_trans)

lemma extends_reflp: "reflp extends"
  by (rule reflpI) simp

lemma extends_root: "publish (h_root h) name raw = Inr root' \<Longrightarrow> extends h (h\<lparr>h_root := root'\<rparr>)"
  by (auto simp: extends_def dest: members_kept_publish)

lemma extends_new_reply: "map_of (h_replies h) name = None \<Longrightarrow> extends h (h\<lparr>h_replies := dset (h_replies h) name ms\<rparr>)"
  by (auto simp: extends_def)

lemma extends_reply:
  "map_of (h_replies h) name = Some ms \<Longrightarrow> publish ms k raw = Inr ms' \<Longrightarrow> extends h (h\<lparr>h_replies := dset (h_replies h) name ms'\<rparr>)"
  by (auto simp: extends_def dest: members_kept_publish)

lemma claim_replies:
  "fst (claim c name j rs separate campaign selection controller current reread gone) = rs
   \<or> (\<exists>reply ms. map_of rs reply = None \<and> fst (claim c name j rs separate campaign selection controller current reread gone) = dset rs reply ms)"
  unfolding claim_def Let_def
  by (intro conjI impI allI | simp split: sum.split | blast)+

lemma claim_at_state:
  "\<exists>rs. fst (claim_at n bound name controller ms h) = h\<lparr>h_replies := rs\<rparr>
     \<and> (rs = h_replies h \<or> (\<exists>reply new. map_of (h_replies h) reply = None \<and> rs = dset (h_replies h) reply new))"
proof -
  let ?c = "claim (n_codec n) name (case n_later n name of Some j \<Rightarrow> j | None \<Rightarrow> empty_job) (h_replies h) (n_separate n)
                (dget bound ''campaign_sha256'') (dget bound ''selection_sha256'') controller ms (n_reread n name) (n_cancelled_later n)"
  have "fst (claim_at n bound name controller ms h) = h\<lparr>h_replies := fst ?c\<rparr>"
    by (simp add: claim_at_def split: prod.split)
  moreover have "fst ?c = h_replies h \<or> (\<exists>reply new. map_of (h_replies h) reply = None \<and> fst ?c = dset (h_replies h) reply new)"
    by (rule claim_replies)
  ultimately show ?thesis by blast
qed

lemma claim_at_extends: "keeps extends (claim_at n bound name controller ms)"
  unfolding keeps_def
proof
  fix h
  from claim_at_state [of n bound name controller ms h] obtain rs where
    s: "fst (claim_at n bound name controller ms h) = h\<lparr>h_replies := rs\<rparr>" and
    rs: "rs = h_replies h \<or> (\<exists>reply new. map_of (h_replies h) reply = None \<and> rs = dset (h_replies h) reply new)" by blast
  from rs show "extends h (fst (claim_at n bound name controller ms h))"
  proof
    assume "rs = h_replies h"
    then show ?thesis using s by simp
  next
    assume "\<exists>reply new. map_of (h_replies h) reply = None \<and> rs = dset (h_replies h) reply new"
    then show ?thesis using s by (auto intro: extends_new_reply)
  qed
qed

lemma keeps_case_prod: "(\<And>a b. keeps R (f a b)) \<Longrightarrow> keeps R (case x of (a, b) \<Rightarrow> f a b)"
  by (cases x) simp

lemma keeps_if: "keeps R f \<Longrightarrow> keeps R g \<Longrightarrow> keeps R (if c then f else g)"
  by simp

lemmas extends_intros = keeps_sguard [OF extends_reflp] keeps_sbnd [OF extends_transp]
  keeps_sget [OF extends_reflp] keeps_slift [OF extends_reflp] keeps_case_prod keeps_if

lemma take_extends: "keeps extends (take_job n bound name result)"
  unfolding take_job_def by (intro extends_intros claim_at_extends)

lemma listing_extends: "keeps extends (listing n job_id result)"
  unfolding listing_def by (intro extends_intros)

lemma cancelled_extends: "keeps extends (cancelled n bound name result)"
  unfolding cancelled_def Let_def by (intro extends_intros)

lemma publish_root_extends: "keeps extends (publish_root key raw)"
  by (auto simp: keeps_def publish_root_def intro: extends_root split: sum.split)

lemma publish_reply_extends: "keeps extends (publish_reply name key raw)"
  by (auto simp: keeps_def publish_reply_def intro: extends_reply split: sum.split option.split)

lemma park_extends: "keeps extends (park n bound job_id result)"
  unfolding park_def by (intro extends_intros publish_root_extends)

lemma publish_extends: "keeps extends (publish_job n bound name result)"
  unfolding publish_job_def by (intro extends_intros publish_reply_extends)

lemma dispatch_extends: "keeps extends (dispatch n bound action job_id result)"
  unfolding dispatch_def
  by (intro park_extends listing_extends take_extends cancelled_extends publish_extends extends_intros)

text \<open>One call of the controller, with the environment it happens in.\<close>

definition rpc_call :: "pydict \<Rightarrow> host \<Rightarrow> host_env \<times> string \<times> pyv \<times> pyv \<Rightarrow> host" where
  "rpc_call bound h call = (case call of (n, action, job_id, result) \<Rightarrow> fst (dispatch n bound action job_id result h))"

interpretation host_run: run_invariant "rpc_call bound" "extends h" for bound h
proof
  fix s e
  assume s: "extends h s"
  have "extends s (rpc_call bound s e)"
    using dispatch_extends by (auto simp: rpc_call_def keeps_def split: prod.split)
  with s show "extends h (rpc_call bound s e)" by (rule host_extends_trans)
qed

section \<open>Lemmas: the private snapshot\<close>

lemma map_of_dict_of: "map_of (dict_of kvs) = map_of (rev kvs)"
proof -
  have "map_of (foldl (\<lambda>d kv. dset d (fst kv) (snd kv)) d0 kvs) = map_of d0 ++ map_of (rev kvs)" for d0
    by (induction kvs arbitrary: d0) auto
  from this [of "[]"] show ?thesis by (simp add: dict_of_def)
qed

lemma distinct_dict_of: "distinct (map fst (dict_of kvs))"
proof -
  have "distinct (map fst d0) \<Longrightarrow> distinct (map fst (foldl (\<lambda>d kv. dset d (fst kv) (snd kv)) d0 kvs))" for d0
    by (induction kvs arbitrary: d0) auto
  from this [of "[]"] show ?thesis by (simp add: dict_of_def)
qed

text \<open>When the values are a function of the keys, the last entry of a key is any of them.\<close>

lemma dict_of_functional:
  assumes "(k, v) \<in> set kvs" "\<And>v'. (k, v') \<in> set kvs \<Longrightarrow> v' = v"
  shows "map_of (dict_of kvs) k = Some v"
proof -
  have "\<exists>v'. map_of (rev kvs) k = Some v'"
    using assms(1) by (metis set_rev weak_map_of_SomeI)
  then obtain v' where v': "map_of (rev kvs) k = Some v'" ..
  then have "(k, v') \<in> set kvs" by (metis map_of_SomeD set_rev)
  then show ?thesis using assms(2) v' by (simp add: map_of_dict_of)
qed

lemma decode_source_Inr:
  assumes "decode_source n encoded row = Inr (k, raw)"
  shows "k = row_name row" "\<exists>text. map_of encoded k = Some (PStr text) \<and> n_decode n text = Inr raw"
    "py_item row ''sha256'' = Inr (PStr (c_digest (n_codec n) raw))"
    "\<exists>size. py_item row ''bytes'' = Inr size \<and> py_eq (PInt (int (length raw))) size"
proof -
  from assms obtain name v size sha where
    r: "py_item row ''name'' = Inr name" "map_of encoded (str_of name) = Some v" "is_str v" "n_decode n (str_of v) = Inr raw"
    "py_item row ''bytes'' = Inr size" "py_item row ''sha256'' = Inr sha" "py_eq (PInt (int (length raw))) size"
    "py_eq (PStr (c_digest (n_codec n) raw)) sha" "k = str_of name"
    unfolding decode_source_def by auto
  show "k = row_name row" using r(1,9) by (auto simp: py_item_Inr row_name_def)
  show "\<exists>text. map_of encoded k = Some (PStr text) \<and> n_decode n text = Inr raw" using r by (auto simp: type_test_iff)
  show "py_item row ''sha256'' = Inr (PStr (c_digest (n_codec n) raw))" using r(6,8) by simp
  show "\<exists>size. py_item row ''bytes'' = Inr size \<and> py_eq (PInt (int (length raw))) size" using r(5,7) by blast
qed

text \<open>What one row of the request says of the copies.\<close>

definition source_bound :: "codec \<Rightarrow> members \<Rightarrow> pyv \<Rightarrow> bool" where
  "source_bound c copies row =
     (case map_of copies (row_name row) of
        Some (Regular raw) \<Rightarrow> py_item row ''sha256'' = Inr (PStr (c_digest c raw))
          \<and> (case py_item row ''bytes'' of Inr count \<Rightarrow> py_eq (PInt (int (length raw))) count | Inl _ \<Rightarrow> False)
      | _ \<Rightarrow> False)"

lemma decoded_sources_bound:
  assumes m: "mapM_res (decode_source n encoded) rows = Inr sources" and p: "publish_sources [] (dict_of sources) = Inr copies"
  shows "\<forall>row \<in> set rows. source_bound (n_codec n) copies row"
proof
  fix row
  assume "row \<in> set rows"
  with mapM_res_image [OF m] obtain kr where "kr \<in> set sources" "decode_source n encoded row = Inr kr" by blast
  then obtain k raw where kr: "(k, raw) \<in> set sources" "decode_source n encoded row = Inr (k, raw)" by (metis surj_pair)
  have "raw' = raw" if in': "(k, raw') \<in> set sources" for raw'
  proof -
    obtain row' where "decode_source n encoded row' = Inr (k, raw')" using mapM_res_set [OF m in'] by blast
    then show ?thesis using decode_source_Inr(2) [of n encoded row' k raw'] decode_source_Inr(2) [OF kr(2)] by auto
  qed
  with kr(1) have "map_of (dict_of sources) k = Some raw" by (rule dict_of_functional)
  then have "map_of copies k = Some (Regular raw)"
    using publish_sources_Inr [OF p distinct_dict_of] by simp
  then show "source_bound (n_codec n) copies row"
    using decode_source_Inr [OF kr(2)] by (auto simp: source_bound_def)
qed

lemma retain_Inr:
  assumes "retain_snapshot n snap fresh bound = Inr s"
  shows "\<exists>request config_sha sources. check_request (n_codec n) (dget (dict_of_v snap) ''request'') = Inr request
     \<and> snapshot_fits request bound = Inr True
     \<and> claim_fits (n_codec n) (dget (dict_of_v snap) ''claim'') request bound = Inr True
     \<and> digest_of (n_codec n) (dget (dict_of_v snap) ''config'') = Inr config_sha \<and> dget request ''config_sha256'' = PStr config_sha
     \<and> keyset (dict_of_v (dget (dict_of_v snap) ''sources'')) = row_name ` set (list_of (dget request ''sources''))
     \<and> mapM_res (decode_source n (dict_of_v (dget (dict_of_v snap) ''sources''))) (list_of (dget request ''sources'')) = Inr sources
     \<and> fresh \<and> publish_sources [] (dict_of sources) = Inr (t_sources s)"
  using assms unfolding retain_snapshot_def Let_def
  by auto

lemma snapshot_fits_Inr:
  "snapshot_fits request bound = Inr True \<Longrightarrow>
     (\<exists>campaign deadline. item bound ''campaign_sha256'' = Inr campaign \<and> py_eq (dget request ''campaign_sha256'') campaign
        \<and> item bound ''campaign_deadline_unix_ms'' = Inr deadline \<and> py_le (dget request ''expires_unix_ms'') deadline = Inr True)"
  by (auto simp: snapshot_fits_def)

lemma claim_fits_Inr:
  "claim_fits c k request bound = Inr True \<Longrightarrow>
     (\<exists>d sha controller. k = PDict d \<and> digest_of c (PDict request) = Inr sha \<and> dget d ''request_sha256'' = PStr sha
        \<and> item bound ''controller_sha256'' = Inr controller \<and> py_eq (dget d ''controller_sha256'') controller
        \<and> dget d ''gpu_admission'' = PBool False)"
  by (auto simp: claim_fits_def py_get_Inr Let_def)

section \<open>Properties\<close>

text \<open>C31: whatever calls the controller makes, in whatever order and with whatever arguments, and
  whether they succeed or raise, the endpoint never writes the optimizer's requests, and every claim,
  result and campaign notice once published stays exactly as it was published.\<close>

theorem endpoint_writes_once: "extends h (foldl (rpc_call bound) h calls)"
  by (rule host_run.run_inv) simp

text \<open>C32: a take response is retained only when it is bound as a whole: the request is a valid one of
  this campaign that expires within it, the configuration has the digest the request names, the claim
  is this controller's claim of this very request, and every source row has a private copy with
  exactly the length and digest the row states.\<close>

theorem retained_snapshot_is_bound:
  assumes "retain_snapshot n snap fresh bound = Inr s"
  shows "\<exists>request config_sha request_sha. check_request (n_codec n) (dget (dict_of_v snap) ''request'') = Inr request
     \<and> py_eq (dget request ''campaign_sha256'') (dget bound ''campaign_sha256'')
     \<and> py_le (dget request ''expires_unix_ms'') (dget bound ''campaign_deadline_unix_ms'') = Inr True
     \<and> digest_of (n_codec n) (dget (dict_of_v snap) ''config'') = Inr config_sha \<and> dget request ''config_sha256'' = PStr config_sha
     \<and> digest_of (n_codec n) (PDict request) = Inr request_sha
     \<and> dget (dict_of_v (dget (dict_of_v snap) ''claim'')) ''request_sha256'' = PStr request_sha
     \<and> py_eq (dget (dict_of_v (dget (dict_of_v snap) ''claim'')) ''controller_sha256'') (dget bound ''controller_sha256'')
     \<and> list_all (source_bound (n_codec n) (t_sources s)) (list_of (dget request ''sources''))"
proof -
  obtain request config_sha sources where r: "check_request (n_codec n) (dget (dict_of_v snap) ''request'') = Inr request"
    "snapshot_fits request bound = Inr True" "claim_fits (n_codec n) (dget (dict_of_v snap) ''claim'') request bound = Inr True"
    "digest_of (n_codec n) (dget (dict_of_v snap) ''config'') = Inr config_sha" "dget request ''config_sha256'' = PStr config_sha"
    and m: "mapM_res (decode_source n (dict_of_v (dget (dict_of_v snap) ''sources''))) (list_of (dget request ''sources'')) = Inr sources"
    and p: "publish_sources [] (dict_of sources) = Inr (t_sources s)"
    using retain_Inr [OF assms] by blast
  show ?thesis
    using r snapshot_fits_Inr [OF r(2)] claim_fits_Inr [OF r(3)] decoded_sources_bound [OF m p]
    by (auto simp: list_all_iff)
qed

text \<open>A profile request with one source.\<close>

definition host_demo :: host_env where
  "host_demo = \<lparr>n_codec = flat_codec, n_now = Fin 1, n_encode = id, n_decode = Inr, n_separate = True,
     n_copied = (\<lambda>_. []), n_later = (\<lambda>_. None), n_reread = (\<lambda>_. None), n_cancelled_later = False\<rparr>"

definition snap_request :: pydict where
  "snap_request = bk_request (zeros 32) ''profile'' 600 100"

definition snap_claim :: pydict where
  "snap_claim = [(''id'', PStr (zeros 32)), (''request_sha256'', PStr (zeros 64)), (''controller_sha256'', PStr (zeros 64)), (''gpu_admission'', PBool False)]"

definition snap_demo :: pyv where
  "snap_demo = PDict (snapshot_value snap_request bk_config [(''k'', PStr ''x'')] (PDict snap_claim))"

lemma snap_keys: "dget (dict_of_v snap_demo) ''request'' = PDict snap_request" "dget (dict_of_v snap_demo) ''config'' = PDict bk_config"
  "dget (dict_of_v snap_demo) ''sources'' = PDict [(''k'', PStr ''x'')]" "dget (dict_of_v snap_demo) ''claim'' = PDict snap_claim"
  "dget (dict_of_v snap_demo) ''schema'' = PInt 1" "is_dict snap_demo" "has_keys (dict_of_v snap_demo) SNAPSHOT_KEYS"
  by (auto simp: snap_demo_def snapshot_value_def dget_rec has_keys_def keyset_def SNAPSHOT_KEYS_def)

lemma snap_request_keys: "dget snap_request ''campaign_sha256'' = PStr (zeros 64)" "dget snap_request ''selection_sha256'' = PStr (zeros 64)"
  "dget snap_request ''kind'' = PStr ''profile''" "dget snap_request ''caller_seconds'' = PInt 100" "dget snap_request ''expires_unix_ms'' = PInt 600001"
  "dget snap_request ''config_sha256'' = PStr (zeros 64)" "dget snap_request ''id'' = PStr (zeros 32)"
  "dget snap_request ''sources'' = PList [PDict [(''name'', PStr ''k''), (''sha256'', PStr (zeros 64)), (''bytes'', PInt 1)]]"
  by (simp_all add: snap_request_def bk_request_def request_value_def dget_rec)

lemma snap_request_ok: "check_request flat_codec (PDict snap_request) = Inr snap_request"
  unfolding snap_request_def by (rule bk_check) (auto simp: hex_zeros)

lemma snap_fits: "snapshot_fits snap_request bk_binding = Inr True"
  by (simp add: snapshot_fits_def snap_request_keys py_le_def del: bnd_Inr_iff)

lemma snap_claim_fits: "claim_fits flat_codec (PDict snap_claim) snap_request bk_binding = Inr True"
  by (simp add: claim_fits_def snap_request_keys snap_claim_def dget_rec Let_def del: bnd_Inr_iff)

lemma snap_decode: "decode_source host_demo [(''k'', PStr ''x'')] (PDict [(''name'', PStr ''k''), (''sha256'', PStr (zeros 64)), (''bytes'', PInt 1)]) = Inr (''k'', ''x'')"
  by (simp add: decode_source_def host_demo_def item_def MAX_SOURCE_def del: bnd_Inr_iff item_Inr_iff)

lemma snap_retained: "\<exists>s. retain_snapshot host_demo snap_demo True bk_binding = Inr s"
proof -
  have c: "n_codec host_demo = flat_codec" by (simp add: host_demo_def)
  have k: "keyset [(''k'', PStr ''x'')] = row_name ` set (list_of (dget snap_request ''sources''))"
    by (simp add: snap_request_keys row_name_def keyset_def dget_rec)
  show ?thesis
    using k by (simp add: retain_snapshot_def c Let_def snap_keys snap_request_ok snap_fits snap_claim_fits bk_validate snap_request_keys py_dict_def
        snap_decode dict_of_def publish_sources_def publish_def publish_value_def MAX_RESULT_def del: bnd_Inr_iff)
qed

theorem retained_snapshot_is_bound_witness:
  "\<exists>request. check_request flat_codec (dget (dict_of_v snap_demo) ''request'') = Inr request
     \<and> py_le (dget request ''expires_unix_ms'') (dget bk_binding ''campaign_deadline_unix_ms'') = Inr True"
proof -
  obtain s where s: "retain_snapshot host_demo snap_demo True bk_binding = Inr s" using snap_retained ..
  have c: "n_codec host_demo = flat_codec" by (simp add: host_demo_def)
  show ?thesis using retained_snapshot_is_bound [OF s] unfolding c by blast
qed

end
