(* ===== verification/Profile_Metrics.thy ===== *)
theory Profile_Metrics
  imports Job_Exchange
begin

text \<open>
  \<open>lib/workstation/performance_profiles.py\<close>, the summaries of evidence: what is kept of a serving
  result, of the startup observations, of a memory plan and of the quality results, with missing
  values kept as unknown or incomplete.  \<open>coding_eval.generation_settings\<close> is here too.
\<close>

section \<open>Values\<close>

definition canonical_digest :: "codec \<Rightarrow> pyv \<Rightarrow> string res" where
  "canonical_digest c v = bnd (c_dumps c (sort_keys v)) (\<lambda>s. Inr (c_digest c s))"

definition finite_value :: "pyv \<Rightarrow> bool res" where
  "finite_value v = andM (Inr (is_number v)) (py_isfinite v)"

definition nonempty_str :: "pyv \<Rightarrow> bool" where
  "nonempty_str v = (case v of PStr s \<Rightarrow> s \<noteq> [] | _ \<Rightarrow> False)"

definition int_from :: "int \<Rightarrow> pyv \<Rightarrow> bool" where
  "int_from low v = (case v of PInt i \<Rightarrow> low \<le> i | _ \<Rightarrow> False)"

text \<open>\<open>[p][q]{0,n-1}\<close> against the whole string.\<close>

definition token :: "(char \<Rightarrow> bool) \<Rightarrow> (char \<Rightarrow> bool) \<Rightarrow> nat \<Rightarrow> string \<Rightarrow> bool" where
  "token p q n s = (s \<noteq> [] \<and> length s \<le> n \<and> p (hd s) \<and> list_all q (tl s))"

definition id_token :: "string \<Rightarrow> bool" where
  "id_token = token is_alnum (\<lambda>c. is_alnum c \<or> c \<in> {CHR ''.'', CHR ''_'', CHR ''-''}) 96"

definition slug :: "pyv \<Rightarrow> bool" where
  "slug v = (case v of PStr s \<Rightarrow> token is_lower (\<lambda>c. is_lower c \<or> is_digit c \<or> c = CHR ''-'') 64 s | _ \<Rightarrow> False)"

definition safe_id :: "pyv \<Rightarrow> string \<Rightarrow> string res" where
  "safe_id v name = (case v of PStr s \<Rightarrow> guard (id_token s) (''invalid '' @ name) (Inr s) | _ \<Rightarrow> Inl (ValueError (''invalid '' @ name)))"

text \<open>\<open>try: ... except ValueError\<close>, where the handler needs only to know.\<close>

definition catch_value :: "'a res \<Rightarrow> 'a option res" where
  "catch_value m = (case m of Inl e \<Rightarrow> if is_ValueError e then Inr None else Inl e | Inr x \<Rightarrow> Inr (Some x))"

section \<open>Serving\<close>

definition measured :: "pydict \<Rightarrow> string \<Rightarrow> string \<Rightarrow> pyv res" where
  "measured d key msg =
     guardM (andM (finite_value (dget d key)) (notM (py_lt (dget d key) (PInt 0)))) msg (Inr (dget d key))"

definition median_summary :: "pyv \<Rightarrow> pydict res" where
  "median_summary v =
     (if v = PNone then Inr [(''status'', PStr ''unknown'')]
      else guard (is_dict v \<and> int_from 1 (dget (dict_of_v v) ''n'')) ''invalid measurement summary'' (
        let d = dict_of_v v; n = int_of (dget d ''n'') in
        bnd (mapM_res (\<lambda>key. bnd (measured d key ''invalid measurement value'') (\<lambda>x. Inr (key, x)))
               [''min'', ''median'', ''max'', ''stdev'']) (\<lambda>values.
        let result = [(''status'', PStr ''observed''), (''samples'', PInt n)] @ values in
        if 20 \<le> n
        then bnd (measured d ''p95'' ''invalid tail measurement'') (\<lambda>x. Inr (result @ [(''p95'', x)]))
        else Inr (result @ [(''p95'', PNone), (''tail_status'', PStr ''unknown-insufficient-samples'')]))))"

definition row_ok :: "pyv \<Rightarrow> bool" where
  "row_ok row = (case row of
     PDict d \<Rightarrow> int_from 0 (dget d ''failures'') \<and> int_from 1 (dget d ''context_tokens'') \<and> int_from 1 (dget d ''concurrency'')
   | _ \<Rightarrow> False)"

definition case_key :: "pydict \<Rightarrow> int \<times> int" where
  "case_key d = (int_of (dget d ''context_tokens''), int_of (dget d ''concurrency''))"

definition SUMMARIES :: "(string \<times> string) list" where
  "SUMMARIES = [(''throughput_across_repetitions'', ''throughput''), (''request_latency_seconds'', ''latency''), (''ttft_seconds'', ''ttft'')]"

definition serving_case :: "pydict \<Rightarrow> pydict res" where
  "serving_case d =
     bnd (mapM_res (\<lambda>(source, target). bnd (median_summary (dget d source)) (\<lambda>s. Inr (target, PDict s))) SUMMARIES) (\<lambda>summaries.
     Inr ([(''context_tokens'', dget d ''context_tokens''), (''concurrency'', dget d ''concurrency''), (''failures'', dget d ''failures'')]
          @ summaries))"

text \<open>The loop over the rows: the cases, or the reason for which the result is incomplete.\<close>

fun serving_cases :: "(int \<times> int) list \<Rightarrow> pyv list \<Rightarrow> (string + pydict list) res" where
  "serving_cases seen [] = Inr (Inr [])"
| "serving_cases seen (row # rows) =
     (if \<not> row_ok row then Inr (Inl ''serving repeat summary is malformed'')
      else let d = dict_of_v row in
      if case_key d \<in> set seen then Inr (Inl ''serving repeat summary has duplicate workload cases'')
      else bnd (catch_value (serving_case d)) (\<lambda>r. case r of
             None \<Rightarrow> Inr (Inl ''serving repeat summary has invalid measurements'')
           | Some c \<Rightarrow> bnd (serving_cases (case_key d # seen) rows) (\<lambda>rest. Inr (case rest of Inl reason \<Rightarrow> Inl reason | Inr cs \<Rightarrow> Inr (c # cs)))))"

definition incomplete_serving :: "pyv \<Rightarrow> string \<Rightarrow> pydict" where
  "incomplete_serving source_status reason = [(''status'', PStr ''incomplete''), (''source_status'', source_status), (''reason'', PStr reason)]"

definition serving_metrics :: "pyv \<Rightarrow> pydict res" where
  "serving_metrics result =
     (if \<not> (is_dict result \<and> py_eq (dget (dict_of_v result) ''schema'') (PInt 1))
      then Inr [(''status'', PStr ''incomplete''), (''reason'', PStr ''serving result is malformed'')]
      else let d = dict_of_v result; source = dget d ''status'' in
      guard (source \<noteq> PStr ''measured-awaiting-provenance'') ''serving result has not completed provenance verification'' (
      if source \<noteq> PStr ''measured-not-qualified'' then Inr (incomplete_serving source ''serving result is not a completed measurement'')
      else if \<not> (is_list (dget d ''repeat_summary'') \<and> list_of (dget d ''repeat_summary'') \<noteq> [])
      then Inr (incomplete_serving source ''repeat summary unavailable'')
      else bnd (serving_cases [] (list_of (dget d ''repeat_summary''))) (\<lambda>r. Inr (case r of
             Inl reason \<Rightarrow> incomplete_serving source reason
           | Inr cs \<Rightarrow> [(''status'', PStr ''observed''), (''source_status'', source), (''cases'', PList (map PDict cs))]))))"

section \<open>Startup\<close>

record phase =
  f_values :: "pyv list"
  f_attempts :: nat
  f_failed :: nat
  f_unknown :: nat

definition no_phase :: phase where
  "no_phase = \<lparr>f_values = [], f_attempts = 0, f_failed = 0, f_unknown = 0\<rparr>"

definition FAILED_STATES :: "string list" where
  "FAILED_STATES = [''cancelled'', ''timeout'', ''timed-out'', ''recovery-required'']"

definition failed_status :: "pyv \<Rightarrow> bool" where
  "failed_status v = (case v of PStr s \<Rightarrow> s = ''failed'' \<or> starts_with s ''failed-'' \<or> s \<in> set FAILED_STATES | _ \<Rightarrow> False)"

text \<open>One attempt more: a sample, a failure or unknown.\<close>

definition counted :: "pydict \<Rightarrow> bool \<Rightarrow> phase \<Rightarrow> phase" where
  "counted d good old =
     (let p = old\<lparr>f_attempts := Suc (f_attempts old)\<rparr> in
      if good then p\<lparr>f_values := f_values p @ [dget d ''elapsed_seconds'']\<rparr>
      else if failed_status (dget d ''status'') then p\<lparr>f_failed := Suc (f_failed p)\<rparr>
      else p\<lparr>f_unknown := Suc (f_unknown p)\<rparr>)"

definition startup_row :: "(string \<times> phase) list \<Rightarrow> pyv \<Rightarrow> (string \<times> phase) list res" where
  "startup_row phases row =
     guardM (andM (Inr (is_dict row \<and> py_eq (dget (dict_of_v row) ''schema'') (PInt 1)))
               (str_in (dget (dict_of_v row) ''cache_state'') (map fst phases)))
       ''unsupported startup record'' (
     let d = dict_of_v row; name = str_of (dget d ''cache_state''); elapsed = dget d ''elapsed_seconds'' in
     bnd (andM (Inr (dget d ''status'' = PStr ''observed-not-qualified'')) (andM (finite_value elapsed) (py_le (PInt 0) elapsed))) (\<lambda>good.
     Inr (dset phases name (counted d good (case map_of phases name of Some p \<Rightarrow> p | None \<Rightarrow> no_phase)))))"

definition phase_metrics :: "phase \<Rightarrow> pydict res" where
  "phase_metrics p =
     bnd (if f_values p = [] then Inr PNone else py_median (f_values p)) (\<lambda>median.
     Inr [(''status'', PStr (if f_values p \<noteq> [] \<and> f_failed p = 0 \<and> f_unknown p = 0 then ''observed'' else ''incomplete'')),
       (''attempts'', PInt (int (f_attempts p))), (''samples'', PInt (int (length (f_values p)))), (''failed'', PInt (int (f_failed p))),
       (''unknown'', PInt (int (f_unknown p))), (''median_seconds'', median)])"

definition startup_metrics :: "pyv list \<Rightarrow> pydict res" where
  "startup_metrics rows =
     bnd (foldM_res startup_row [(''cold'', no_phase), (''warm'', no_phase)] rows) (\<lambda>phases.
     mapM_res (\<lambda>(name, p). bnd (phase_metrics p) (\<lambda>m. Inr (name, PDict m))) phases)"

section \<open>Memory and quality\<close>

definition BUDGET :: "string list" where
  "BUDGET = [''observed_envelope_bytes'', ''headroom_bytes'', ''shm_limit_mib'']"

definition natural :: "pyv \<Rightarrow> bool" where
  "natural v = (case int_val v of Some i \<Rightarrow> 0 \<le> i | None \<Rightarrow> False)"

definition optional_status :: "pydict \<Rightarrow> pydict \<Rightarrow> string \<Rightarrow> pydict res" where
  "optional_status plan result key =
     (case map_of plan key of None \<Rightarrow> Inr result
      | Some v \<Rightarrow> guard (slug v) (''invalid memory '' @ key) (Inr (result @ [(key, v)])))"

definition memory_metrics :: "pyv \<Rightarrow> pydict res" where
  "memory_metrics plan =
     (if plan = PNone then Inr [(''status'', PStr ''unknown'')]
      else let d = dict_of_v plan; budget = dget d ''budget''; source = dget_or d ''status'' (PStr ''unknown'') in
      guard (is_dict plan \<and> py_eq (dget d ''schema'') (PInt 1) \<and> dget d ''kind'' = PStr ''sglang-host-memory-plan'')
        ''unsupported memory plan'' (
      guard (is_dict budget) ''memory budget unavailable'' (
      guard (list_all (\<lambda>key. natural (dget (dict_of_v budget) key)) BUDGET) ''invalid memory budget'' (
      guard (slug source) ''invalid memory plan status'' (
      foldM_res (optional_status d)
        ([(''status'', PStr (if source = PStr ''plan-only-unqualified'' then ''observed'' else ''failed-or-unknown'')), (''source_status'', source)]
         @ map (\<lambda>key. (key, dget (dict_of_v budget) key)) BUDGET
         @ [(''candidate_mib'', dget d ''candidate_mib''), (''baseline_mib'', dget d ''baseline_mib''),
            (''scope'', PStr ''candidate envelope and reserve; not an average RSS measurement'')])
        [''failure_status'', ''pressure_status''])))))"

definition quality_metrics :: "pyv \<Rightarrow> pydict res" where
  "quality_metrics v =
     (if v = PNone then Inr [(''status'', PStr ''unknown'')]
      else bnd (py_get v ''schema'') (\<lambda>schema.
        guard (py_eq schema (PInt 1)) ''unsupported numerical quality result'' (
        let source = dget (dict_of_v v) ''status'' in
        Inr [(''status'', PStr (if source = PStr ''sampled-quality-passed-not-qualified'' then ''passed'' else ''failed-or-unknown'')),
             (''source_status'', source)])))"

definition int_between :: "int \<Rightarrow> int \<Rightarrow> pyv \<Rightarrow> bool" where
  "int_between low high v = (case v of PInt i \<Rightarrow> low \<le> i \<and> i \<le> high | _ \<Rightarrow> False)"

definition generation_settings :: "pyv \<Rightarrow> pyv res" where
  "generation_settings v =
     (let d = dict_of_v v in
      guard (is_dict v \<and> has_keys d [''model'', ''temperature'', ''max_output_tokens'', ''seed'']) ''generation settings must be complete'' (
      guard (nonempty_str (dget d ''model'') \<and> length (str_of (dget d ''model'')) \<le> 256) ''invalid generation model'' (
      guardM (andM (Inr (is_number (dget d ''temperature''))) (andM (py_isfinite (dget d ''temperature''))
                (andM (py_le (PInt 0) (dget d ''temperature'')) (py_le (dget d ''temperature'') (PInt 2)))))
        ''invalid generation temperature'' (
      guard (int_between 1 131072 (dget d ''max_output_tokens'')) ''invalid generation output token bound'' (
      guard (int_between 0 (2 ^ 63 - 1) (dget d ''seed'')) ''invalid generation seed'' (Inr v))))))"

definition templates_ok :: "pyv \<Rightarrow> bool" where
  "templates_ok v = (case v of
     PDict t \<Rightarrow> 8 \<le> length t \<and> length t \<le> 12 \<and> list_all (\<lambda>(name, sha). id_token name \<and> hex_value 64 sha) t
   | _ \<Rightarrow> False)"

definition coding_metrics :: "pyv \<Rightarrow> pydict res" where
  "coding_metrics v =
     (if v = PNone then Inr [(''status'', PStr ''unknown'')]
      else bnd (py_get v ''schema'') (\<lambda>schema. let d = dict_of_v v in
        guard (py_eq schema (PInt 1) \<and> dget d ''kind'' = PStr ''workstation-coding-evaluation'') ''unsupported coding evaluation'' (
        guard (hex_value 64 (dget d ''corpus_sha256'') \<and> templates_ok (dget d ''template_sha256''))
          ''coding evaluation provenance is incomplete'' (
        bnd (generation_settings (dget d ''generation'')) (\<lambda>_.
        Inr [(''status'', dget_or d ''status'' (PStr ''unknown'')), (''successes'', dget d ''successes''), (''failures'', dget d ''failures''),
             (''unavailable'', dget d ''unavailable''), (''corpus_sha256'', dget d ''corpus_sha256''),
             (''template_sha256'', dget d ''template_sha256''), (''generation'', dget d ''generation'')])))))"

section \<open>Lemmas\<close>

definition rows_of :: "string \<Rightarrow> pyv list \<Rightarrow> pyv list" where
  "rows_of name rows = filter (\<lambda>row. dget (dict_of_v row) ''cache_state'' = PStr name) rows"

definition phase_counts :: "pyv list \<Rightarrow> (string \<times> phase) list \<Rightarrow> bool" where
  "phase_counts rows phases =
     (map fst phases = [''cold'', ''warm'']
      \<and> list_all (\<lambda>(name, p). f_attempts p = length (rows_of name rows)
          \<and> f_attempts p = length (f_values p) + f_failed p + f_unknown p) phases)"

lemma startup_row_Inr:
  assumes "startup_row phases row = Inr phases'"
  shows "\<exists>name p p'. name \<in> fst ` set phases \<and> dget (dict_of_v row) ''cache_state'' = PStr name
     \<and> p = (case map_of phases name of Some p \<Rightarrow> p | None \<Rightarrow> no_phase) \<and> phases' = dset phases name p'
     \<and> f_attempts p' = Suc (f_attempts p)
     \<and> length (f_values p') + f_failed p' + f_unknown p' = Suc (length (f_values p) + f_failed p + f_unknown p)"
proof -
  obtain name good where n: "name \<in> fst ` set phases" "dget (dict_of_v row) ''cache_state'' = PStr name"
    and ph: "phases' = dset phases name (counted (dict_of_v row) good (case map_of phases name of Some p \<Rightarrow> p | None \<Rightarrow> no_phase))"
    using assms unfolding startup_row_def Let_def by (fastforce simp: image_iff)
  have "f_attempts (counted d good p) = Suc (f_attempts p)" for d p by (simp add: counted_def Let_def)
  moreover have "length (f_values (counted d good p)) + f_failed (counted d good p) + f_unknown (counted d good p)
      = Suc (length (f_values p) + f_failed p + f_unknown p)" for d p by (simp add: counted_def Let_def)
  ultimately show ?thesis using n ph by blast
qed

lemma startup_row_counts:
  assumes "phase_counts rows phases" "startup_row phases row = Inr phases'"
  shows "phase_counts (rows @ [row]) phases'"
proof -
  obtain p q where ph: "phases = [(''cold'', p), (''warm'', q)]"
    using assms(1) by (auto simp: phase_counts_def map_eq_Cons_conv)
  obtain name r r' where n: "name \<in> fst ` set phases" "dget (dict_of_v row) ''cache_state'' = PStr name"
    "r = (case map_of phases name of Some p \<Rightarrow> p | None \<Rightarrow> no_phase)" "phases' = dset phases name r'" "f_attempts r' = Suc (f_attempts r)"
    "length (f_values r') + f_failed r' + f_unknown r' = Suc (length (f_values r) + f_failed r + f_unknown r)"
    using startup_row_Inr [OF assms(2)] by blast
  from n(1) consider "name = ''cold''" | "name = ''warm''" by (auto simp: ph)
  then show ?thesis
    using assms(1) n by cases (simp_all add: ph phase_counts_def rows_of_def)
qed

lemma startup_fold_counts:
  "foldM_res startup_row [(''cold'', no_phase), (''warm'', no_phase)] rows = Inr phases \<Longrightarrow> phase_counts rows phases"
proof (induction rows arbitrary: phases rule: rev_induct)
  case Nil
  then show ?case by (auto simp: phase_counts_def no_phase_def rows_of_def)
next
  case (snoc row rows)
  then obtain mid where "foldM_res startup_row [(''cold'', no_phase), (''warm'', no_phase)] rows = Inr mid" "startup_row mid row = Inr phases"
    by (auto simp: foldM_res_append split: sum.splits)
  then show ?case using snoc.IH startup_row_counts by blast
qed

section \<open>Properties\<close>

text \<open>The numbers of one phase as the summary reports them.\<close>

definition phase_accounts :: "pyv list \<Rightarrow> string \<times> pyv \<Rightarrow> bool" where
  "phase_accounts rows np =
     (let d = dict_of_v (snd np); count = (\<lambda>k. int_of (dget d k)) in
      count ''attempts'' = int (length (rows_of (fst np) rows))
      \<and> count ''attempts'' = count ''samples'' + count ''failed'' + count ''unknown''
      \<and> (dget d ''status'' = PStr ''observed'') = (0 < count ''samples'' \<and> count ''samples'' = count ''attempts''))"

lemma phase_metrics_accounts:
  assumes "phase_metrics p = Inr m" "f_attempts p = length (rows_of name rows)" "f_attempts p = length (f_values p) + f_failed p + f_unknown p"
  shows "phase_accounts rows (name, PDict m)"
  using assms by (auto simp: phase_metrics_def phase_accounts_def Let_def dget_rec split: if_splits)

text \<open>The startup summary accounts for every observation: for the cold and for the warm phase the
  attempts are the records of that phase, each is a sample, a failure or unknown, and the phase
  counts as observed exactly when there are samples and nothing else.\<close>

theorem startup_accounts_for_every_row:
  assumes "startup_metrics rows = Inr m"
  shows "map fst m = [''cold'', ''warm''] \<and> list_all (phase_accounts rows) m"
proof -
  obtain phases where p: "foldM_res startup_row [(''cold'', no_phase), (''warm'', no_phase)] rows = Inr phases"
    and m: "mapM_res (\<lambda>(name, p). bnd (phase_metrics p) (\<lambda>m. Inr (name, PDict m))) phases = Inr m"
    using assms by (auto simp: startup_metrics_def)
  have c: "phase_counts rows phases" by (rule startup_fold_counts [OF p])
  then obtain p1 p2 where ph: "phases = [(''cold'', p1), (''warm'', p2)]" by (auto simp: phase_counts_def map_eq_Cons_conv)
  with m obtain m1 m2 where mm: "m = [(''cold'', PDict m1), (''warm'', PDict m2)]" "phase_metrics p1 = Inr m1" "phase_metrics p2 = Inr m2"
    by (auto split: sum.splits)
  show ?thesis
    using c phase_metrics_accounts [OF mm(2), of "''cold''" rows] phase_metrics_accounts [OF mm(3), of "''warm''" rows]
    by (simp add: mm(1) ph phase_counts_def)
qed

definition startup_demo :: "pyv list" where
  "startup_demo =
     [PDict [(''schema'', PInt 1), (''cache_state'', PStr ''cold''), (''status'', PStr ''observed-not-qualified''), (''elapsed_seconds'', PInt 5)],
      PDict [(''schema'', PInt 1), (''cache_state'', PStr ''warm''), (''status'', PStr ''failed-oom'')]]"

lemma startup_demo_runs: "\<exists>m. startup_metrics startup_demo = Inr m"
proof -
  have "(case startup_metrics startup_demo of Inr _ \<Rightarrow> True | Inl _ \<Rightarrow> False)" by code_simp
  then show ?thesis by (auto split: sum.splits)
qed

theorem startup_accounts_for_every_row_witness:
  "\<exists>m. startup_metrics startup_demo = Inr m \<and> list_all (phase_accounts startup_demo) m"
  using startup_demo_runs startup_accounts_for_every_row by blast

end
