(* ===== verification/Profile_Identity.thy ===== *)
theory Profile_Identity
  imports Profile_Metrics
begin

text \<open>
  \<open>lib/workstation/performance_profiles.py\<close>, the identities: what a retained serving result, its
  runtime and a checked kernel run say of model, tokenizer, launch, resources and of the experimental
  KV cache.  Digests are taken of canonical JSON; the JSON writer and SHA-256 are the codec.
\<close>

section \<open>Paths and lists of names\<close>

text \<open>The parts of a pure path (without the root), its final name, and whether it is absolute.\<close>

definition path_parts :: "string \<Rightarrow> string list" where
  "path_parts p = filter (\<lambda>w. w \<noteq> [] \<and> w \<noteq> ''.'') (split_on (CHR ''/'') p)"

definition path_name :: "string \<Rightarrow> string" where
  "path_name p = (if path_parts p = [] then [] else last (path_parts p))"

definition absolute :: "string \<Rightarrow> bool" where
  "absolute p = starts_with p ''/''"

definition IDENTITY :: "string list" where
  "IDENTITY = [''model_revision'', ''tokenizer_sha256'', ''workload_sha256'', ''hardware_sha256'', ''software_sha256'',
     ''launch_sha256'', ''quantization'']"

definition PRODUCER_CONDITION_KEYS :: "string list" where
  "PRODUCER_CONDITION_KEYS = [''schema'', ''runtime_sha256'', ''model_files_sha256'', ''model_settings_sha256'',
     ''observed_launch_sha256'', ''launch_settings_sha256'', ''resources_sha256'']"

definition OBSERVED_LAUNCH_LIST_OPTIONS :: "string list" where
  "OBSERVED_LAUNCH_LIST_OPTIONS = [''--cuda-graph-bs-decode'', ''--cuda-graph-bs-prefill'']"

definition OBSERVED_LAUNCH_BOOL_OPTIONS :: "string list" where
  "OBSERVED_LAUNCH_BOOL_OPTIONS = [''--enable-torch-compile'', ''--disable-overlap-schedule'', ''--speculative-adaptive'', ''--disable-radix-cache'']"

definition OBSERVED_LAUNCH_OPTIONS :: "string list" where
  "OBSERVED_LAUNCH_OPTIONS =
     [''--model-path'', ''--revision'', ''--served-model-name'', ''--dtype'', ''--tp'', ''--tp-size'', ''--context-length'',
      ''--mem-fraction-static'', ''--max-running-requests'', ''--max-queued-requests'', ''--model-loader-extra-config'',
      ''--schedule-policy'', ''--chunked-prefill-size'', ''--attention-backend'', ''--stream-interval'', ''--torch-compile-max-bs'',
      ''--cuda-graph-backend-decode'', ''--cuda-graph-backend-prefill'', ''--cuda-graph-tc-compiler'', ''--enable-torch-compile'',
      ''--cuda-graph-bs-decode'', ''--cuda-graph-bs-prefill'', ''--kv-cache-dtype'', ''--page-size'', ''--max-total-tokens'',
      ''--disable-overlap-schedule'', ''--quantization'', ''--speculative-algorithm'', ''--speculative-num-steps'',
      ''--speculative-eagle-topk'', ''--speculative-num-draft-tokens'', ''--speculative-draft-model-path'',
      ''--speculative-draft-model-revision'', ''--speculative-draft-model-quantization'', ''--speculative-adaptive'',
      ''--speculative-adaptive-config'', ''--mamba-ssm-dtype'', ''--mamba-full-memory-ratio'', ''--max-mamba-cache-size'',
      ''--mamba-radix-cache-strategy'', ''--disable-radix-cache'', ''--linear-attn-decode-backend'', ''--linear-attn-prefill-backend'']"

section \<open>Model files\<close>

definition file_record_ok :: "pyv \<Rightarrow> bool" where
  "file_record_ok r = (case r of PDict d \<Rightarrow> int_from 0 (dget d ''bytes'') \<and> hex_value 64 (dget d ''sha256'') | _ \<Rightarrow> False)"

definition TOKENIZER_FILES :: "string list" where
  "TOKENIZER_FILES = [''tokenizer.json'', ''tokenizer_config.json'', ''special_tokens_map.json'', ''added_tokens.json'', ''vocab.json'', ''merges.txt'']"

definition tokenizer_digest :: "codec \<Rightarrow> pyv \<Rightarrow> string res" where
  "tokenizer_digest c runtime =
     (let files = dget (dict_of_v runtime) ''model_files'' in
      guard (is_dict files) ''runtime model files are unavailable'' (
      let selected = filter (\<lambda>kv. path_name (fst kv) \<in> set TOKENIZER_FILES) (sort_key fst (dict_of_v files)) in
      guard (selected \<noteq> []) ''runtime tokenizer files are unavailable'' (
      bnd (mapM_res (\<lambda>kv. require (file_record_ok (snd kv)) (''invalid tokenizer file identity: '' @ fst kv)) selected) (\<lambda>_.
      canonical_digest c (PDict selected)))))"

definition model_files_digest :: "codec \<Rightarrow> pyv \<Rightarrow> string res" where
  "model_files_digest c runtime =
     (let files = dget (dict_of_v runtime) ''model_files'' in
      guard (is_dict files \<and> dict_of_v files \<noteq> []) ''runtime model files are unavailable'' (
      guard (list_all (\<lambda>kv. \<not> absolute (fst kv) \<and> ''..'' \<notin> set (path_parts (fst kv)) \<and> file_record_ok (snd kv)) (dict_of_v files))
        ''invalid model file identity'' (
      canonical_digest c files)))"

section \<open>Observed launch\<close>

definition launch_option :: "string \<times> pyv \<Rightarrow> unit res" where
  "launch_option ov =
     guard (fst ov \<in> set OBSERVED_LAUNCH_OPTIONS) ''observed runtime launch contains an unsupported option'' (
     if fst ov \<in> set OBSERVED_LAUNCH_BOOL_OPTIONS
     then require (is_bool (snd ov)) ''observed runtime launch compiler flag is malformed''
     else if fst ov \<in> set OBSERVED_LAUNCH_LIST_OPTIONS
     then require (is_list (snd ov) \<and> list_of (snd ov) \<noteq> [] \<and> list_all nonempty_str (list_of (snd ov)))
            ''observed runtime launch batch option is malformed''
     else require (nonempty_str (snd ov)) ''observed runtime launch option is malformed'')"

definition normalized_observed_launch :: "pyv \<Rightarrow> pydict res" where
  "normalized_observed_launch runtime =
     (let launch = dget (dict_of_v runtime) ''launch'' in
      guard (length (list_of launch) = 1 \<and> is_dict (hd (list_of launch))) ''observed runtime launch is unavailable'' (
      let options = dict_of_v (hd (list_of launch)) in
      bnd (mapM_res launch_option options) (\<lambda>_.
      guard (dhas options ''--enable-torch-compile'') ''observed runtime launch compiler state is unavailable'' (Inr options))))"

definition observed_launch_digest :: "codec \<Rightarrow> pyv \<Rightarrow> string res" where
  "observed_launch_digest c runtime = bnd (normalized_observed_launch runtime) (\<lambda>launch. canonical_digest c (PDict launch))"

section \<open>Experimental KV cache\<close>

definition KV_KEYS :: "string list" where
  "KV_KEYS = [''schema'', ''runtime'', ''source_repository'', ''source_revision'', ''source_tree_sha256'', ''patch_sha256'',
     ''binary_sha256'', ''compiler_revision'', ''dependencies_sha256'', ''codec'', ''configuration_sha256'', ''configuration'',
     ''requested_mode'', ''observed_mode'', ''qualification'', ''restart_required'']"

definition KV_CONFIG_KEYS :: "string list" where
  "KV_CONFIG_KEYS = [''gpu_arch'', ''tensor_parallel'', ''compute_dtype'', ''attention'', ''head_dimension'', ''kv_heads'',
     ''query_heads'', ''page_size'', ''rotation'']"

definition compiler_token :: "pyv \<Rightarrow> bool" where
  "compiler_token v = (case v of
     PStr s \<Rightarrow> token is_alnum (\<lambda>ch. is_alnum ch \<or> ch \<in> set '' ._+:/-'') 240 s
   | _ \<Rightarrow> False)"

definition kv_values_ok :: "pydict \<Rightarrow> bool" where
  "kv_values_ok d =
     (dget d ''schema'' = PInt 1 \<and> dget d ''runtime'' = PStr ''sglang'' \<and> dget d ''source_repository'' = PStr ''sgl-project/sglang''
      \<and> hex_value 40 (dget d ''source_revision'')
      \<and> list_all (\<lambda>key. hex_value 64 (dget d key)) [''source_tree_sha256'', ''patch_sha256'', ''dependencies_sha256'', ''configuration_sha256'']
      \<and> compiler_token (dget d ''compiler_revision'')
      \<and> dget d ''codec'' = PStr ''ultraquant-rdna4-v1'' \<and> dget d ''requested_mode'' = PStr ''ultraquant-rdna4-v1''
      \<and> dget d ''qualification'' = PStr ''unqualified'' \<and> dget d ''restart_required'' = PBool True
      \<and> dget d ''observed_mode'' \<in> {PStr ''not-run'', PStr ''compressed-gpu''}
      \<and> is_dict (dget d ''configuration'') \<and> has_keys (dict_of_v (dget d ''configuration'')) KV_CONFIG_KEYS)"

definition kv_config_ok :: "pydict \<Rightarrow> bool" where
  "kv_config_ok g =
     (dget g ''gpu_arch'' = PStr ''gfx1201'' \<and> dget g ''tensor_parallel'' = PInt 1
      \<and> dget g ''compute_dtype'' = PStr ''float16'' \<and> dget g ''attention'' = PStr ''causal-full''
      \<and> dget g ''head_dimension'' \<in> set (map PInt [32, 64, 128, 256])
      \<and> int_between 1 64 (dget g ''kv_heads'') \<and> int_between (int_of (dget g ''kv_heads'')) 128 (dget g ''query_heads'')
      \<and> int_of (dget g ''query_heads'') mod int_of (dget g ''kv_heads'') = 0
      \<and> dget g ''page_size'' = PInt 1 \<and> dget g ''rotation'' = PStr ''post-rope-qk'')"

text \<open>\<open>devices[0].get('gfx', '').split(':', 1)[0]\<close> and \<open>str(v) == '1'\<close>.\<close>

definition gfx_name :: "pyv \<Rightarrow> string res" where
  "gfx_name device = (case device of
     PDict d \<Rightarrow> (case dget_or d ''gfx'' (PStr []) of PStr s \<Rightarrow> Inr (hd (split_on (CHR '':'') s)) | _ \<Rightarrow> Inl AttributeError)
   | _ \<Rightarrow> Inl AttributeError)"

definition str_is_one :: "pyv \<Rightarrow> bool" where
  "str_is_one v = (v = PStr ''1'' \<or> v = PInt 1)"

definition kv_launch_ok :: "pydict \<Rightarrow> pyv \<Rightarrow> bool \<Rightarrow> bool res" where
  "kv_launch_ok launch runtime requested =
     (let r = dict_of_v runtime; settings = dget r ''settings''; devices = dget r ''devices'';
          tp_options = filter (dhas launch) [''--tp'', ''--tp-size''] in
      andM (Inr (requested \<and> dget launch ''--dtype'' = PStr ''float16'' \<and> length tp_options = 1
                 \<and> dget launch (hd tp_options) = PStr ''1'' \<and> is_dict settings
                 \<and> dget (dict_of_v settings) ''MODEL_DTYPE'' = PStr ''float16''
                 \<and> str_is_one (dget (dict_of_v settings) ''TENSOR_PARALLEL'') \<and> length (list_of devices) = 1))
        (bnd (gfx_name (hd (list_of devices))) (\<lambda>g. Inr (g = ''gfx1201''))))"

definition kv_described :: "codec \<Rightarrow> pyv \<Rightarrow> bool \<Rightarrow> pydict \<Rightarrow> bool \<Rightarrow> pydict \<Rightarrow> pyv res" where
  "kv_described c runtime measured_run launch requested d =
     guard (has_keys d KV_KEYS) ''experimental KV descriptor keys are unsupported'' (
     guard (kv_values_ok d) ''experimental KV descriptor values are unsupported'' (
     guard (dget d ''binary_sha256'' = PNone \<or> hex_value 64 (dget d ''binary_sha256'')) ''experimental KV binary digest is malformed'' (
     guardM (andM (Inr (kv_config_ok (dict_of_v (dget d ''configuration''))))
               (bnd (canonical_digest c (dget d ''configuration'')) (\<lambda>sha. Inr (PStr sha = dget d ''configuration_sha256''))))
       ''experimental KV configuration is unsupported'' (
     guardM (kv_launch_ok launch runtime requested) ''experimental KV descriptor does not match observed launch/runtime'' (
     bnd (py_get (dget_or (dict_of_v runtime) ''model_contract'' (PDict [])) ''architectures'') (\<lambda>architectures.
     guard (architectures = PList [PStr ''LlamaForCausalLM'']) ''experimental KV model architecture is unsupported'' (
     guard (\<not> (dget d ''observed_mode'' = PStr ''compressed-gpu'' \<and> dget d ''binary_sha256'' = PNone))
       ''compressed experimental KV observation lacks mapped binary digest'' (
     guard (measured_run \<longrightarrow> dget d ''observed_mode'' = PStr ''compressed-gpu'' \<and> dget d ''binary_sha256'' \<noteq> PNone)
       ''experimental KV profile needs observed compressed GPU execution'' (
     Inr (PDict d))))))))))"

definition experimental_kv_descriptor :: "codec \<Rightarrow> pyv \<Rightarrow> bool \<Rightarrow> pyv res" where
  "experimental_kv_descriptor c runtime measured_run =
     guard (is_dict runtime) ''runtime evidence is unavailable'' (
     bnd (normalized_observed_launch runtime) (\<lambda>launch.
     let requested = (dget launch ''--attention-backend'' = PStr ''ultraquant-rdna4-v1'') in
     (case map_of (dict_of_v runtime) ''experimental_kv'' of
        None \<Rightarrow> guard (\<not> requested) ''requested experimental KV backend lacks an execution descriptor'' (Inr PNone)
      | Some PNone \<Rightarrow> Inl (ValueError ''experimental KV descriptor cannot be null'')
      | Some (PDict d) \<Rightarrow> kv_described c runtime measured_run launch requested d
      | Some _ \<Rightarrow> Inl (ValueError ''experimental KV descriptor is malformed''))))"

text \<open>\<open>except (KeyError, TypeError, ValueError)\<close>\<close>

definition malformed :: "exn \<Rightarrow> bool" where
  "malformed e = (is_KeyError e \<or> e = TypeError \<or> is_ValueError e)"

definition stable_runtime :: "pyv \<Rightarrow> pyv" where
  "stable_runtime v = PDict
     [(''settings'', PDict [(''MODEL_DTYPE'', PStr ''float16''), (''TENSOR_PARALLEL'', PStr ''1'')]),
      (''devices'', PList [PDict [(''gfx'', PStr ''gfx1201'')]]),
      (''launch'', PList [PDict [(''--attention-backend'', PStr ''ultraquant-rdna4-v1''), (''--dtype'', PStr ''float16''),
         (''--tp'', PStr ''1''), (''--enable-torch-compile'', PBool False)]]),
      (''model_contract'', PDict [(''architectures'', PList [PStr ''LlamaForCausalLM'']), (''quant_method'', PStr ''unquantized'')]),
      (''experimental_kv'', v)]"

definition valid_stable_experimental_kv_descriptor :: "codec \<Rightarrow> pyv \<Rightarrow> bool res" where
  "valid_stable_experimental_kv_descriptor c v =
     (if \<not> (is_dict v \<and> is_dict (dget (dict_of_v v) ''configuration'')) then Inr False
      else (case experimental_kv_descriptor c (stable_runtime v) False of
              Inr w \<Rightarrow> Inr (py_eq w v)
            | Inl e \<Rightarrow> if malformed e then Inr False else Inl e))"

section \<open>Producer identity and conditions\<close>

text \<open>\<open>re.search(prefix + '[a-f0-9]{64}$', s)\<close>: the end is the end of the text or the position before
  a final newline.\<close>

definition sha_suffix :: "string \<Rightarrow> pyv \<Rightarrow> bool" where
  "sha_suffix pre v = (case v of
     PStr s \<Rightarrow> (let t = (if s \<noteq> [] \<and> last s = CHR 0x0A then butlast s else s); k = length t - 64 in
       64 \<le> length t \<and> hex_string 64 (drop k t) \<and> ends_with (take k t) pre)
   | _ \<Rightarrow> False)"

definition lower_ascii :: "string \<Rightarrow> string" where
  "lower_ascii s = map (\<lambda>c. if is_upper c then char_of (of_char c + 32 :: nat) else c) s"

definition device_ok :: "pyv \<Rightarrow> bool" where
  "device_ok v = (case v of
     PDict d \<Rightarrow> nonempty_str (dget d ''uuid'') \<and> lower_ascii (str_of (dget d ''uuid'')) \<notin> {''unknown'', ''none''}
       \<and> is_str (dget d ''gfx'') \<and> hd (split_on (CHR '':'') (str_of (dget d ''gfx''))) = ''gfx1201''
   | _ \<Rightarrow> False)"

definition PACKAGES :: "string list" where
  "PACKAGES = [''sglang'', ''torch'', ''triton'', ''pytorch-triton-rocm'', ''aiter'', ''transformers'']"

definition resources_ok :: "pyv \<Rightarrow> bool" where
  "resources_ok v = (case v of
     PDict d \<Rightarrow> is_dict (dget d ''requests'') \<and> is_dict (dget d ''limits'') \<and> truthy (dget d ''requests'')
       \<and> py_eq (dget d ''requests'') (dget d ''limits'')
   | _ \<Rightarrow> False)"

definition quant_method :: "pydict \<Rightarrow> pyv" where
  "quant_method runtime = dget (dict_of_v (dget runtime ''model_contract'')) ''quant_method''"

definition producer_complete :: "pydict \<Rightarrow> pydict \<Rightarrow> pydict \<Rightarrow> bool" where
  "producer_complete serving runtime pod =
     (nonempty_str (dget (dict_of_v (dget runtime ''settings'')) ''MODEL_REVISION'') \<and> nonempty_str (quant_method runtime)
      \<and> hex_value 64 (dget serving ''workload_sha256'') \<and> hex_value 64 (dget serving ''runtime_sha256'')
      \<and> hex_value 64 (dget pod ''launch_spec_sha256'') \<and> nonempty_str (dget pod ''node'')
      \<and> sha_suffix ''@sha256:'' (dget pod ''image'') \<and> sha_suffix ''sha256:'' (dget pod ''image_id'')
      \<and> resources_ok (dget pod ''resources'')
      \<and> is_dict (dget runtime ''packages'') \<and> set PACKAGES \<subseteq> keyset (dict_of_v (dget runtime ''packages''))
      \<and> nonempty_str (dget (dict_of_v (dget runtime ''packages'')) ''torch'') \<and> nonempty_str (dget runtime ''hip'')
      \<and> is_list (dget runtime ''devices'') \<and> list_of (dget runtime ''devices'') \<noteq> [])"

definition hardware_value :: "pyv \<Rightarrow> pyv \<Rightarrow> pyv" where
  "hardware_value node devices = PDict [(''node'', node), (''devices'', devices)]"

definition software_value :: "pyv \<Rightarrow> pyv \<Rightarrow> pydict \<Rightarrow> pyv" where
  "software_value img image_id runtime = PDict [(''image'', img), (''image_id'', image_id),
     (''packages'', dget runtime ''packages''), (''hip'', dget runtime ''hip'')]"

definition identity_value :: "pyv \<Rightarrow> string \<Rightarrow> pyv \<Rightarrow> string \<Rightarrow> string \<Rightarrow> pyv \<Rightarrow> pyv \<Rightarrow> pydict" where
  "identity_value revision tokenizer workload hardware software launch quantization =
     [(''model_revision'', revision), (''tokenizer_sha256'', PStr tokenizer), (''workload_sha256'', workload),
      (''hardware_sha256'', PStr hardware), (''software_sha256'', PStr software), (''launch_sha256'', launch),
      (''quantization'', quantization)]"

definition producer_identity :: "codec \<Rightarrow> pyv \<Rightarrow> pyv \<Rightarrow> string \<Rightarrow> pydict res" where
  "producer_identity c serving retained_runtime runtime_digest =
     guard (is_dict serving) ''serving producer is malformed'' (
     let s = dict_of_v serving; runtime = dict_of_v (dget s ''runtime''); pod = dict_of_v (dget s ''pod'') in
     guard (is_dict (dget s ''runtime'') \<and> is_dict (dget s ''pod'') \<and> is_dict (dget runtime ''settings''))
       ''serving runtime or Pod identity is unavailable'' (
     guard (producer_complete s runtime pod) ''serving producer identity is incomplete'' (
     let devices = list_of (dget runtime ''devices'') in
     guard (list_all device_ok devices) ''serving producer GPU identity is incomplete'' (
     guard (distinct (map (\<lambda>v. str_of (dget (dict_of_v v) ''uuid'')) devices)) ''serving producer GPU identities are not distinct'' (
     guard (py_eq (dget s ''runtime'') retained_runtime \<and> dget s ''runtime_sha256'' = PStr runtime_digest)
       ''serving runtime hash does not match retained runtime evidence'' (
     bnd (tokenizer_digest c (PDict runtime)) (\<lambda>tokenizer.
     bnd (canonical_digest c (hardware_value (dget pod ''node'') (dget runtime ''devices''))) (\<lambda>hardware.
     bnd (canonical_digest c (software_value (dget pod ''image'') (dget pod ''image_id'') runtime)) (\<lambda>software.
     Inr (identity_value (dget (dict_of_v (dget runtime ''settings'')) ''MODEL_REVISION'') tokenizer (dget s ''workload_sha256'')
            hardware software (dget pod ''launch_spec_sha256'') (quant_method runtime)))))))))))"

definition MODEL_SETTINGS :: "string list" where
  "MODEL_SETTINGS = [''MODEL_PATH'', ''MODEL_REVISION'', ''MODEL_REPOSITORY'', ''SERVED_MODEL_NAME'', ''MODEL_DTYPE'']"

definition artifact_ok :: "codec \<Rightarrow> pydict \<Rightarrow> string \<times> pyv \<Rightarrow> unit res" where
  "artifact_ok c launch oa =
     (let d = dict_of_v (snd oa) in
      guard (is_dict (snd oa) \<and> has_keys d [''path'', ''files''] \<and> py_eq (dget d ''path'') (dget launch (fst oa)))
        ''speculative artifact does not match observed launch'' (
      bnd (model_files_digest c (PDict [(''model_files'', dget d ''files'')])) (\<lambda>_. Inr ())))"

definition ARTIFACT_OPTIONS :: "string list" where
  "ARTIFACT_OPTIONS = [''--speculative-draft-model-path'', ''--speculative-adaptive-config'']"

definition conditions_value :: "string \<Rightarrow> string \<Rightarrow> string \<Rightarrow> string \<Rightarrow> string \<Rightarrow> string \<Rightarrow> pydict" where
  "conditions_value runtime files model observed launch resources =
     [(''schema'', PInt 2), (''runtime_sha256'', PStr runtime), (''model_files_sha256'', PStr files), (''model_settings_sha256'', PStr model),
      (''observed_launch_sha256'', PStr observed), (''launch_settings_sha256'', PStr launch), (''resources_sha256'', PStr resources)]"

definition producer_conditions :: "codec \<Rightarrow> pyv \<Rightarrow> string \<Rightarrow> pydict res" where
  "producer_conditions c serving runtime_digest =
     bnd (py_item serving ''runtime'') (\<lambda>runtime. bnd (py_item serving ''pod'') (\<lambda>pod.
     bnd (py_get runtime ''settings'') (\<lambda>settings.
     guard (is_dict settings \<and> dict_of_v settings \<noteq> []) ''runtime settings are unavailable'' (
     guard (dhas (dict_of_v settings) ''MODEL_DTYPE'') ''runtime model dtype is unavailable'' (
     bnd (normalized_observed_launch runtime) (\<lambda>launch.
     let artifacts = dget_or (dict_of_v runtime) ''experiment_artifacts'' (PDict []);
         plain = filter (\<lambda>kv. fst kv \<notin> set MODEL_SETTINGS) (dict_of_v settings) in
     guard (is_dict artifacts \<and> keyset (dict_of_v artifacts) = set (filter (dhas launch) ARTIFACT_OPTIONS))
       ''speculative experiment lacks matching staged artifact identities'' (
     bnd (mapM_res (artifact_ok c launch) (dict_of_v artifacts)) (\<lambda>_.
     bnd (model_files_digest c runtime) (\<lambda>files.
     bnd (canonical_digest c (PDict (filter (\<lambda>kv. fst kv \<in> set MODEL_SETTINGS) (dict_of_v settings)))) (\<lambda>model.
     bnd (observed_launch_digest c runtime) (\<lambda>observed.
     bnd (canonical_digest c (PDict (if dict_of_v artifacts = [] then plain else dset plain ''experiment_artifacts'' artifacts))) (\<lambda>launch_sha.
     bnd (py_item pod ''resources'') (\<lambda>resources.
     bnd (canonical_digest c resources) (\<lambda>resources_sha.
     Inr (conditions_value runtime_digest files model observed launch_sha resources_sha)))))))))))))))"

definition producer_condition_details :: "codec \<Rightarrow> pyv \<Rightarrow> pydict res" where
  "producer_condition_details c serving =
     bnd (py_item serving ''runtime'') (\<lambda>runtime.
     bnd (normalized_observed_launch runtime) (\<lambda>launch.
     bnd (experimental_kv_descriptor c runtime False) (\<lambda>descriptor.
     Inr ([(''observed_launch'', PDict launch)] @ (if descriptor = PNone then [] else [(''experimental_kv'', descriptor)])))))"

definition valid_producer_conditions :: "pyv \<Rightarrow> bool" where
  "valid_producer_conditions v = (case v of
     PDict d \<Rightarrow> has_keys d PRODUCER_CONDITION_KEYS \<and> py_eq (dget d ''schema'') (PInt 2)
       \<and> list_all (\<lambda>key. hex_value 64 (dget d key)) (tl PRODUCER_CONDITION_KEYS)
   | _ \<Rightarrow> False)"

definition kernel_run_identity :: "codec \<Rightarrow> pyv \<Rightarrow> pydict res" where
  "kernel_run_identity c run =
     (let r = dict_of_v run; ident = dict_of_v (dget r ''identity''); pod = dict_of_v (dget r ''pod''); runtime = dict_of_v (dget ident ''runtime'') in
      guard (is_dict run \<and> is_dict (dget r ''identity'') \<and> is_dict (dget r ''pod'')) ''checked kernel run identity is unavailable'' (
      guard (is_dict (dget ident ''runtime'')) ''checked kernel run runtime is unavailable'' (
      bnd (py_get (dget_or runtime ''settings'' (PDict [])) ''MODEL_REVISION'') (\<lambda>revision.
      bnd (tokenizer_digest c (PDict runtime)) (\<lambda>tokenizer.
      bnd (canonical_digest c (hardware_value (dget pod ''node'') (dget runtime ''devices''))) (\<lambda>hardware.
      bnd (canonical_digest c (software_value (dget ident ''image'') (dget ident ''image_id'') runtime)) (\<lambda>software.
      bnd (py_get (dget_or runtime ''model_contract'' (PDict [])) ''quant_method'') (\<lambda>quantization.
      Inr (identity_value revision tokenizer (dget r ''workload_sha256'') hardware software (dget pod ''launch_spec_sha256'') quantization)))))))))"

text \<open>The part inside \<open>try\<close>, then the comparison.\<close>

definition derived_run :: "codec \<Rightarrow> pyv \<Rightarrow> pydict \<Rightarrow> (pyv \<times> pydict \<times> pydict) res" where
  "derived_run c run conditions =
     bnd (py_item run ''identity'') (\<lambda>ident. bnd (py_item ident ''runtime'') (\<lambda>runtime. bnd (py_item run ''pod'') (\<lambda>pod.
     bnd (kernel_run_identity c run) (\<lambda>derived.
     bnd (producer_conditions c (PDict [(''runtime'', runtime), (''pod'', pod)]) (str_of (dget conditions ''runtime_sha256''))) (\<lambda>found.
     Inr (runtime, derived, found))))))"

definition checked_run_matches_profile :: "codec \<Rightarrow> pyv \<Rightarrow> pyv \<Rightarrow> pyv \<Rightarrow> pyv \<Rightarrow> bool res" where
  "checked_run_matches_profile c run profile conditions descriptor =
     (if \<not> (is_dict run \<and> valid_producer_conditions conditions) then Inr False
      else (case derived_run c run (dict_of_v conditions) of
              Inl e \<Rightarrow> if malformed e then Inr False else Inl e
            | Inr (runtime, derived, found) \<Rightarrow>
                let r = dict_of_v run; ident = dict_of_v (dget r ''identity''); pod = dict_of_v (dget r ''pod'') in
                andM (Inr (py_eq (PDict derived) profile \<and> py_eq (dget ident ''resources'') (dget pod ''resources'')
                   \<and> list_all (\<lambda>key. py_eq (dget found key) (dget (dict_of_v conditions) key))
                        (filter (\<lambda>key. key \<noteq> ''runtime_sha256'') PRODUCER_CONDITION_KEYS)))
                  (bnd (experimental_kv_descriptor c runtime False) (\<lambda>d. Inr (py_eq d descriptor)))))"

definition startup_matches_serving :: "pyv list \<Rightarrow> pyv \<Rightarrow> unit res" where
  "startup_matches_serving rows serving =
     (let pod = dget (dict_of_v serving) ''pod'' in
      guard (is_dict pod) ''serving Pod identity is unavailable'' (
      require (list_all (\<lambda>row. \<not> is_dict row \<or> dget (dict_of_v row) ''status'' \<noteq> PStr ''observed-not-qualified''
          \<or> (is_dict (dget (dict_of_v row) ''pod'')
             \<and> list_all (\<lambda>key. py_eq (dget (dict_of_v (dget (dict_of_v row) ''pod'')) key) (dget (dict_of_v pod) key))
                  [''node'', ''image'', ''image_id'', ''launch_spec_sha256'', ''resources''])) rows)
        ''startup observation does not match retained serving runtime identity''))"

section \<open>Properties\<close>

text \<open>What an accepted descriptor of the experimental KV cache is bound to.\<close>

definition kv_bound :: "codec \<Rightarrow> pyv \<Rightarrow> bool \<Rightarrow> pyv \<Rightarrow> bool" where
  "kv_bound c runtime measured_run v =
     (let r = dict_of_v runtime; backend = dget (dict_of_v (hd (list_of (dget r ''launch'')))) ''--attention-backend'' in
      case v of
        PDict d \<Rightarrow> map_of r ''experimental_kv'' = Some v \<and> backend = PStr ''ultraquant-rdna4-v1'' \<and> has_keys d KV_KEYS
          \<and> kv_config_ok (dict_of_v (dget d ''configuration''))
          \<and> canonical_digest c (dget d ''configuration'') = Inr (str_of (dget d ''configuration_sha256''))
          \<and> (dget d ''observed_mode'' \<noteq> PStr ''compressed-gpu'' \<or> hex_value 64 (dget d ''binary_sha256''))
          \<and> (\<not> measured_run \<or> dget d ''observed_mode'' = PStr ''compressed-gpu'')
      | _ \<Rightarrow> v = PNone \<and> map_of r ''experimental_kv'' = None \<and> backend \<noteq> PStr ''ultraquant-rdna4-v1'')"

lemma normalized_observed_launch_Inr:
  "normalized_observed_launch runtime = Inr launch \<Longrightarrow> launch = dict_of_v (hd (list_of (dget (dict_of_v runtime) ''launch'')))"
  by (auto simp: normalized_observed_launch_def Let_def)

lemma kv_described_Inr:
  assumes "kv_described c runtime measured_run launch requested d = Inr v"
  shows "v = PDict d \<and> requested \<and> has_keys d KV_KEYS \<and> kv_config_ok (dict_of_v (dget d ''configuration''))
     \<and> canonical_digest c (dget d ''configuration'') = Inr (str_of (dget d ''configuration_sha256''))
     \<and> (dget d ''observed_mode'' \<noteq> PStr ''compressed-gpu'' \<or> hex_value 64 (dget d ''binary_sha256''))
     \<and> (\<not> measured_run \<or> dget d ''observed_mode'' = PStr ''compressed-gpu'')"
proof -
  obtain sha where "v = PDict d" "has_keys d KV_KEYS" "kv_config_ok (dict_of_v (dget d ''configuration''))"
    "canonical_digest c (dget d ''configuration'') = Inr sha" "PStr sha = dget d ''configuration_sha256''"
    "kv_launch_ok launch runtime requested = Inr True"
    "dget d ''binary_sha256'' = PNone \<or> hex_value 64 (dget d ''binary_sha256'')"
    "\<not> (dget d ''observed_mode'' = PStr ''compressed-gpu'' \<and> dget d ''binary_sha256'' = PNone)"
    "measured_run \<longrightarrow> dget d ''observed_mode'' = PStr ''compressed-gpu''"
    using assms unfolding kv_described_def by auto
  moreover from this(6) have requested by (auto simp: kv_launch_ok_def Let_def)
  ultimately show ?thesis by (metis selector_simps(2))
qed

text \<open>A descriptor of the experimental KV cache is accepted only as the one the runtime carries,
  when the launch asked for that backend; its configuration is a supported one and has the digest
  the descriptor states, compressed execution comes with the digest of the binary, and a measured
  profile needs compressed execution.  Without a descriptor the backend was not asked for.\<close>

theorem kv_descriptor_is_bound:
  assumes "experimental_kv_descriptor c runtime measured_run = Inr v"
  shows "kv_bound c runtime measured_run v"
proof -
  obtain launch where l: "normalized_observed_launch runtime = Inr launch"
    using assms by (auto simp: experimental_kv_descriptor_def)
  note launch = normalized_observed_launch_Inr [OF l]
  show ?thesis
  proof (cases "map_of (dict_of_v runtime) ''experimental_kv''")
    case None
    with assms l launch show ?thesis by (auto simp: experimental_kv_descriptor_def kv_bound_def Let_def)
  next
    case (Some w)
    with assms l obtain d where d: "w = PDict d"
      "kv_described c runtime measured_run launch (dget launch ''--attention-backend'' = PStr ''ultraquant-rdna4-v1'') d = Inr v"
      by (cases w) (auto simp: experimental_kv_descriptor_def Let_def)
    from kv_described_Inr [OF d(2)] show ?thesis
      using Some d(1) launch by (simp add: kv_bound_def Let_def)
  qed
qed

definition kv_demo_config :: pyv where
  "kv_demo_config = PDict [(''gpu_arch'', PStr ''gfx1201''), (''tensor_parallel'', PInt 1), (''compute_dtype'', PStr ''float16''),
     (''attention'', PStr ''causal-full''), (''head_dimension'', PInt 128), (''kv_heads'', PInt 8), (''query_heads'', PInt 32),
     (''page_size'', PInt 1), (''rotation'', PStr ''post-rope-qk'')]"

definition kv_demo :: pyv where
  "kv_demo = PDict [(''schema'', PInt 1), (''runtime'', PStr ''sglang''), (''source_repository'', PStr ''sgl-project/sglang''),
     (''source_revision'', PStr (zeros 40)), (''source_tree_sha256'', PStr (zeros 64)), (''patch_sha256'', PStr (zeros 64)),
     (''binary_sha256'', PStr (zeros 64)), (''compiler_revision'', PStr ''clang''), (''dependencies_sha256'', PStr (zeros 64)),
     (''codec'', PStr ''ultraquant-rdna4-v1''), (''configuration_sha256'', PStr (zeros 64)), (''configuration'', kv_demo_config),
     (''requested_mode'', PStr ''ultraquant-rdna4-v1''), (''observed_mode'', PStr ''compressed-gpu''), (''qualification'', PStr ''unqualified''),
     (''restart_required'', PBool True)]"

text \<open>A codec whose texts are empty and whose digests are constant.\<close>

definition plain_codec :: codec where
  "plain_codec = \<lparr>c_dumps = (\<lambda>_. Inr []), c_decode = (\<lambda>_. Inr PNone), c_digest = (\<lambda>_. zeros 64)\<rparr>"

lemma kv_demo_accepted: "experimental_kv_descriptor plain_codec (stable_runtime kv_demo) True = Inr kv_demo"
  by code_simp

theorem kv_descriptor_is_bound_witness: "kv_bound plain_codec (stable_runtime kv_demo) True kv_demo"
  using kv_descriptor_is_bound kv_demo_accepted by blast

end
