(* ===== verification/Quality_Compare.thy ===== *)
theory Quality_Compare
  imports Profile_Identity
begin

text \<open>
  The numerical comparison of two checked kernel runs, \<open>compare_quality\<close> of
  \<open>lib/workstation/model_kernels.py\<close> with the functions it calls, and \<open>summary\<close> of
  \<open>lib/workstation/serving.py\<close>.  The runs are arbitrary JSON: every subscript may raise.
  \<open>statistics.stdev\<close> rounds the square root of an exact fraction; that one rounding is the
  function \<open>p_sqrt\<close> of the environment.
\<close>

record penv =
  p_codec :: codec
  p_sqrt :: "rat \<Rightarrow> flt"
  p_float :: "string \<Rightarrow> flt option"
  p_lenient :: "pyv \<Rightarrow> string"

section \<open>Summaries\<close>

text \<open>\<open>values[math.ceil(q * len(values)) - 1]\<close> for the float nearest to \<open>q\<close>.\<close>

definition quantile_index :: "rat \<Rightarrow> nat \<Rightarrow> nat" where
  "quantile_index q n = (case flt_mul (to_float q) (Fin (of_nat n)) of Fin x \<Rightarrow> nat (\<lceil>x\<rceil> - 1) | _ \<Rightarrow> 0)"

definition py_stdev :: "penv \<Rightarrow> pyv list \<Rightarrow> pyv" where
  "py_stdev e vs =
     (let xs = map exact vs; n = of_nat (length xs); mean = sum_list xs / n in
      PFloat (p_sqrt e (sum_list (map (\<lambda>x. (x - mean) * (x - mean)) xs) / (n - 1))))"

definition summary :: "penv \<Rightarrow> pyv list \<Rightarrow> pyv res" where
  "summary e vs =
     (if vs = [] then Inr PNone
      else guardM (allM (\<lambda>v. andM (finite_value v) (py_le (PInt 0) v)) vs) ''invalid measurement'' (
        let ws = sort_key exact vs; n = length ws in
        bnd (py_median ws) (\<lambda>median.
        Inr (PDict [(''n'', PInt (int n)), (''min'', hd ws), (''median'', median), (''p95'', ws ! quantile_index (95 / 100) n),
          (''p99'', ws ! quantile_index (99 / 100) n), (''max'', last ws), (''stdev'', if 1 < n then py_stdev e ws else PInt 0)]))))"

text \<open>An order statistic of a summary is always one of its values.\<close>

lemma quantile_index_less:
  assumes "0 < q" "q \<le> 1" "0 < n" "n \<le> 2 ^ 53"
  shows "quantile_index q n < n"
proof -
  have big: "(1::rat) \<le> 2 ^ 1023" by (rule one_le_power) simp
  have "\<bar>q\<bar> \<le> 1" using assms(1,2) by simp
  then have "\<bar>q\<bar> \<le> 2 ^ 1023" using big by (rule order_trans)
  then have q: "to_float q = Fin (rnd q)" by (rule to_float_small)
  have "rnd (of_int 1) = (of_int 1 :: rat)" by (rule rnd_of_int) simp
  then have one: "rnd 1 = 1" by simp
  have r: "0 \<le> rnd q" using assms(1) by (intro binary64.fl_nonneg) simp
  have r1: "rnd q \<le> 1" by (rule binary64.fl_le [OF assms(2) one])
  have "int n \<le> 2 ^ 53" using assms(4) by (metis of_nat_le_iff of_nat_numeral of_nat_power)
  then have "rnd (of_int (int n)) = of_int (int n)" by (intro rnd_of_int) simp
  then have nn: "rnd (of_nat n) = of_nat n" by simp
  have le: "rnd q * of_nat n \<le> of_nat n" using mult_right_mono [OF r1, of "of_nat n"] by simp
  have "(of_nat n :: rat) \<le> of_nat (2 ^ 53)" using assms(4) by (rule of_nat_mono)
  also have "\<dots> = 2 ^ 53" by (simp only: of_nat_power of_nat_numeral)
  also have "\<dots> \<le> 2 ^ 1023" by (rule power_increasing) simp_all
  finally have "rnd q * of_nat n \<le> 2 ^ 1023" by (rule order_trans [OF le])
  moreover have "0 \<le> rnd q * of_nat n" using r by (rule mult_nonneg_nonneg) simp
  ultimately have small: "\<bar>rnd q * of_nat n\<bar> \<le> 2 ^ 1023" by (simp only: abs_of_nonneg)
  have "rnd (rnd q * of_nat n) \<le> of_nat n" by (rule binary64.fl_le [OF le nn])
  then have "\<lceil>rnd (rnd q * of_nat n)\<rceil> \<le> int n" by (simp only: ceiling_le_iff of_int_of_nat_eq)
  moreover have "quantile_index q n = nat (\<lceil>rnd (rnd q * of_nat n)\<rceil> - 1)"
    by (simp only: quantile_index_def q flt_mul.simps to_float_small [OF small] flt.case)
  ultimately show ?thesis using assms(3) by linarith
qed

section \<open>Experimental KV runs\<close>

definition kv_runtime_matches :: "pydict \<Rightarrow> bool res" where
  "kv_runtime_matches r =
     (let settings = dget r ''settings''; devices = dget r ''devices''; launch = list_of (dget r ''launch'') in
      andM (Inr (is_dict settings \<and> dget (dict_of_v settings) ''MODEL_DTYPE'' = PStr ''float16''
                 \<and> str_is_one (dget (dict_of_v settings) ''TENSOR_PARALLEL'') \<and> length (list_of devices) = 1))
      (andM (bnd (gfx_name (hd (list_of devices))) (\<lambda>g. Inr (g = ''gfx1201'' \<and> length launch = 1)))
      (bnd (py_get (hd launch) ''--attention-backend'') (\<lambda>backend.
       let options = dict_of_v (hd launch); tp_options = filter (dhas options) [''--tp'', ''--tp-size''] in
       andM (Inr (backend = PStr ''ultraquant-rdna4-v1'' \<and> dget options ''--dtype'' = PStr ''float16''
                  \<and> length tp_options = 1 \<and> dget options (hd tp_options) = PStr ''1''))
         (bnd (py_get (dget_or r ''model_contract'' (PDict [])) ''architectures'') (\<lambda>architectures.
          Inr (architectures = PList [PStr ''LlamaForCausalLM'']
               \<and> dget (dict_of_v (dget r ''model_contract'')) ''quant_method'' = PStr ''unquantized'')))))))"

definition experimental_kv_runtime :: "codec \<Rightarrow> pyv \<Rightarrow> pydict res" where
  "experimental_kv_runtime c runtime =
     (let r = dict_of_v runtime; d = dict_of_v (dget r ''experimental_kv'') in
      guard (is_dict (dget r ''experimental_kv'') \<and> has_keys d KV_KEYS \<and> kv_values_ok d
             \<and> hex_value 64 (dget d ''binary_sha256'') \<and> dget d ''observed_mode'' = PStr ''compressed-gpu'')
        ''experimental-KV quality lacks a complete candidate descriptor'' (
      guardM (andM (Inr (kv_config_ok (dict_of_v (dget d ''configuration''))))
               (bnd (canonical_digest c (dget d ''configuration'')) (\<lambda>sha. Inr (PStr sha = dget d ''configuration_sha256''))))
        ''experimental-KV quality has an unsupported configuration'' (
      guardM (kv_runtime_matches r) ''experimental-KV descriptor does not match runtime observation'' (Inr d))))"

definition COMPILER_KEYS :: "string list" where
  "COMPILER_KEYS = [''python'', ''host_kernel'', ''amdgpu_srcversion'', ''hip'', ''compiler'', ''settings'']"

text \<open>The names under which two dictionaries differ, a missing entry being \<open>None\<close>.\<close>

definition changed_keys :: "pydict \<Rightarrow> pydict \<Rightarrow> string list" where
  "changed_keys d e = filter (\<lambda>k. \<not> py_eq (dget d k) (dget e k)) (remdups (map fst d @ map fst e))"

definition dashed :: "string \<Rightarrow> string" where
  "dashed s = map (\<lambda>c. if c = CHR ''_'' then CHR ''-'' else c) (lower_ascii s)"

definition SGLANG_PACKAGES :: "string list" where
  "SGLANG_PACKAGES = [''sglang'', ''sglang-kernel'', ''sgl-kernel'']"

definition experimental_kv_compiler_identity :: "pyv \<Rightarrow> pyv \<Rightarrow> pydict \<Rightarrow> unit res" where
  "experimental_kv_compiler_identity baseline candidate descriptor =
     (let b = dict_of_v baseline; d = dict_of_v candidate in
      guard (is_dict baseline \<and> is_dict candidate) ''experimental-KV quality lacks compiler identity'' (
      guard (list_all (\<lambda>key. py_eq (dget b key) (dget d key)) COMPILER_KEYS)
        ''experimental-KV quality changed compiler/driver/settings identity'' (
      guard (is_dict (dget b ''packages'') \<and> is_dict (dget d ''packages''))
        ''experimental-KV quality lacks compiler package identity'' (
      guard (list_all (\<lambda>key. dashed key \<in> set SGLANG_PACKAGES)
              (changed_keys (dict_of_v (dget b ''packages'')) (dict_of_v (dget d ''packages''))))
        ''experimental-KV quality changed an unrelated compiler package'' (
      let libraries = dict_of_v (dget b ''loaded_libraries''); found = dict_of_v (dget d ''loaded_libraries'');
          changed = changed_keys libraries found in
      guard (is_dict (dget b ''loaded_libraries'') \<and> is_dict (dget d ''loaded_libraries''))
        ''experimental-KV quality lacks mapped GPU-library identity'' (
      guard (list_all (\<lambda>key. path_name key = ''libuq_hip.so'') changed) ''experimental-KV quality changed an unrelated mapped GPU library'' (
      guard (length changed = 1) ''experimental-KV quality requires one mapped candidate library'' (
      bnd (item found (hd changed)) (\<lambda>library.
      guard (is_dict library \<and> py_eq (dget (dict_of_v library) ''sha256'') (dget descriptor ''binary_sha256''))
        ''experimental-KV quality candidate library does not match descriptor'' (
      guard (is_dict (dget b ''sources'') \<and> is_dict (dget d ''sources'')
             \<and> keyset (dict_of_v (dget b ''sources'')) = keyset (dict_of_v (dget d ''sources'')))
        ''experimental-KV quality changed the observed SGLang source inventory'' (
      let compiler_sha = dget (dict_of_v (dget d ''compiler'')) ''sha256'' in
      require (hex_value 64 compiler_sha \<and> contains (str_of (dget descriptor ''compiler_revision'')) (''sha256:'' @ str_of compiler_sha))
        ''experimental-KV descriptor does not bind the observed compiler'')))))))))))"

section \<open>Numerical outputs\<close>

definition TOLERANCE :: pyv where
  "TOLERANCE = PFloat (to_float (1 / 10))"

definition tolerance_ok :: "pyv \<Rightarrow> bool res" where
  "tolerance_ok v = andM (py_le (PInt 0) v) (py_le v TOLERANCE)"

definition logprob_difference :: "pyv \<Rightarrow> pyv \<Rightarrow> pyv \<times> pyv \<Rightarrow> pyv res" where
  "logprob_difference atol rtol xy =
     guardM (andM (finite_value (fst xy)) (finite_value (snd xy))) ''nonfinite or changed numerical output'' (
     bnd (bnd (py_sub (fst xy) (snd xy)) py_abs) (\<lambda>difference.
     bnd (bnd (py_abs (fst xy)) (\<lambda>a. bnd (py_mul rtol a) (py_add atol))) (\<lambda>limit.
     guardM (notM (py_lt limit difference)) ''nonfinite or changed numerical output'' (Inr difference))))"

definition case_differences :: "pyv \<Rightarrow> pyv \<Rightarrow> pyv \<times> pyv \<Rightarrow> pyv list res" where
  "case_differences atol rtol ab =
     bnd (py_item (fst ab) ''case'') (\<lambda>case_a. bnd (py_item (snd ab) ''case'') (\<lambda>case_b.
     guard (py_eq case_a case_b) ''deterministic output tokens or workload shapes differ'' (
     bnd (py_item (fst ab) ''tokens'') (\<lambda>tokens_a. bnd (py_item (snd ab) ''tokens'') (\<lambda>tokens_b.
     guard (py_eq tokens_a tokens_b \<and> truthy tokens_a) ''deterministic output tokens or workload shapes differ'' (
     bnd (py_item (fst ab) ''logprobs'') (\<lambda>logprobs_a. bnd (py_len logprobs_a) (\<lambda>m. bnd (py_len tokens_a) (\<lambda>k.
     guard (m = k) ''missing output logprobs'' (
     bnd (py_item (snd ab) ''logprobs'') (\<lambda>logprobs_b. bnd (py_len logprobs_b) (\<lambda>m'. bnd (py_len tokens_b) (\<lambda>k'.
     guard (m' = k') ''missing output logprobs'' (
     bnd (py_iter logprobs_a) (\<lambda>xs. bnd (py_iter logprobs_b) (\<lambda>ys.
     mapM_res (logprob_difference atol rtol) (zip xs ys)))))))))))))))))"

definition quality_compare :: "penv \<Rightarrow> pyv \<Rightarrow> pyv \<Rightarrow> pyv \<Rightarrow> pyv \<Rightarrow> pydict res" where
  "quality_compare e first second atol rtol =
     guardM (andM (finite_value atol) (andM (finite_value rtol) (andM (tolerance_ok atol) (tolerance_ok rtol))))
       ''explicit numerical tolerances must be finite within 0..0.1'' (
     guardM (andM (Inr (truthy first)) (bnd (py_len first) (\<lambda>m. bnd (py_len second) (\<lambda>n. Inr (m = n)))))
       ''missing numerical workload cases'' (
     bnd (py_iter first) (\<lambda>as. bnd (py_iter second) (\<lambda>bs.
     bnd (mapM_res (case_differences atol rtol) (zip as bs)) (\<lambda>differences.
     bnd (summary e (concat differences)) (\<lambda>s.
     Inr [(''status'', PStr ''sampled-output-check-passed''), (''atol'', atol), (''rtol'', rtol),
       (''absolute_logprob_difference'', s), (''scope'', PStr ''not full model or coding-task qualification'')]))))))"

section \<open>Runs\<close>

text \<open>\<open>range(v)\<close>\<close>

definition py_range :: "pyv \<Rightarrow> int list res" where
  "py_range v = (case int_val v of Some n \<Rightarrow> Inr [0..n - 1] | None \<Rightarrow> Inl TypeError)"

definition expected_rows :: "int \<Rightarrow> pyv \<Rightarrow> pyv \<Rightarrow> pyv list list res" where
  "expected_rows repeat case_of batch =
     bnd (py_range batch) (\<lambda>indices.
     mapM_res (\<lambda>index. bnd (py_item case_of ''context_tokens'') (\<lambda>context_tokens. bnd (py_item case_of ''output_tokens'') (\<lambda>output.
       Inr [PInt repeat, context_tokens, batch, PInt index, output]))) indices)"

definition expected_cases :: "pyv \<Rightarrow> pyv \<Rightarrow> pyv list list res" where
  "expected_cases cases concurrency =
     bnd (py_iter cases) (\<lambda>cs.
     bnd (mapM_res (\<lambda>repeat. bnd (mapM_res (\<lambda>case_of. bnd (py_iter concurrency) (\<lambda>batches.
            bnd (mapM_res (expected_rows repeat case_of) batches) (\<lambda>r. Inr (concat r)))) cs) (\<lambda>r. Inr (concat r))) [0, 1, 2]) (\<lambda>r.
     Inr (concat r)))"

definition actual_row :: "pyv \<Rightarrow> pyv list res" where
  "actual_row row =
     bnd (py_item row ''case'') (\<lambda>v. bnd (py_iter v) (\<lambda>vs. bnd (py_item row ''tokens'') (\<lambda>tokens. bnd (py_len tokens) (\<lambda>n.
     Inr (vs @ [PInt (int n)])))))"

definition check_run :: "pyv \<Rightarrow> unit res" where
  "check_run result =
     bnd (py_item result ''status'') (\<lambda>status. let d = dict_of_v result in
     guardM (andM (Inr (status = PStr ''measured-not-qualified'' \<and> dget d ''kind'' = PStr ''kernel-warmup''))
               (bnd (py_get (dget_or d ''memory'' (PDict [])) ''status'') (\<lambda>s. Inr (s = PStr ''checked''))))
       ''require successful unprofiled, memory-checked runs'' (
     bnd (item d ''warmup_contract'') (\<lambda>contract.
     bnd (py_item contract ''repetitions'') (\<lambda>repetitions.
     guard (py_eq repetitions (PInt 3)) ''missing complete warmup contract'' (
     bnd (py_item contract ''cases'') (\<lambda>cases.
     guard (truthy cases) ''missing complete warmup contract'' (
     bnd (py_item contract ''concurrency'') (\<lambda>concurrency.
     guard (truthy concurrency) ''missing complete warmup contract'' (
     bnd (expected_cases cases concurrency) (\<lambda>expected.
     bnd (item d ''quality'') (\<lambda>quality. bnd (py_iter quality) (\<lambda>rows.
     bnd (mapM_res actual_row rows) (\<lambda>actual.
     require (list_all2 (list_all2 py_eq) expected actual) ''missing, repeated or incompatible numerical workload cases'')))))))))))))"

definition mib :: "pyv \<Rightarrow> int res" where
  "mib v =
     (let s = str_of v; n = take (length s - 2) s; unit_of = drop (length s - 2) s in
      guard (is_str v \<and> 3 \<le> length s \<and> unit_of \<in> {''Mi'', ''Gi''} \<and> digits n \<and> hd n \<noteq> CHR ''0'')
        ''use explicit integer Mi/Gi memory limits'' (
      Inr (int_of_digits n * (if unit_of = ''Gi'' then 1024 else 1))))"

text \<open>\<open>v.pop(k)\<close> of a dictionary; other values have no such method or refuse the argument.\<close>

definition py_pop :: "pyv \<Rightarrow> string \<Rightarrow> pyv res" where
  "py_pop v k = (case v of PDict d \<Rightarrow> bnd (item d k) (\<lambda>_. Inr (PDict (dpop d k))) | PList _ \<Rightarrow> Inl TypeError | _ \<Rightarrow> Inl AttributeError)"

definition without_memory :: "pyv \<Rightarrow> pyv res" where
  "without_memory ident =
     bnd (py_item ident ''resources'') (\<lambda>resources.
     bnd (py_item resources ''requests'') (\<lambda>requests. bnd (py_item resources ''limits'') (\<lambda>limits.
     guard (py_eq requests limits) ''memory-only quality requires equal requests/limits'' (
     bnd (py_pop requests ''memory'') (\<lambda>requests'. bnd (py_pop limits ''memory'') (\<lambda>limits'.
     Inr (PDict (dset (dict_of_v ident) ''resources''
       (PDict (dset (dset (dict_of_v resources) ''requests'' requests') ''limits'' limits'))))))))))"

definition memory_limit :: "pyv \<Rightarrow> int res" where
  "memory_limit ident =
     bnd (py_item ident ''resources'') (\<lambda>resources. bnd (py_item resources ''limits'') (\<lambda>limits.
     bnd (py_item limits ''memory'') mib))"

definition memory_only_ok :: "pyv \<Rightarrow> pyv \<Rightarrow> unit res" where
  "memory_only_ok a b =
     bnd (without_memory a) (\<lambda>a'. bnd (without_memory b) (\<lambda>b'.
     guard (py_eq a' b') ''memory-only comparison permits only a smaller host-memory request/limit'' (
     bnd (memory_limit b) (\<lambda>y. bnd (memory_limit a) (\<lambda>x.
     require (y < x) ''memory-only comparison permits only a smaller host-memory request/limit'')))))"

definition same_item :: "pyv \<Rightarrow> pyv \<Rightarrow> string \<Rightarrow> string \<Rightarrow> unit res" where
  "same_item a b msg key = bnd (py_item a key) (\<lambda>x. bnd (py_item b key) (\<lambda>y. require (py_eq x y) msg))"

text \<open>\<open>set(v)\<close> followed by \<open>v.get(k)\<close>.\<close>

definition py_mapping :: "pyv \<Rightarrow> pydict res" where
  "py_mapping v = (case v of PDict d \<Rightarrow> Inr d | PStr _ \<Rightarrow> Inl AttributeError | PList _ \<Rightarrow> Inl AttributeError | _ \<Rightarrow> Inl TypeError)"

definition kv_packages_ok :: "penv \<Rightarrow> pyv \<Rightarrow> pyv \<Rightarrow> pyv \<Rightarrow> pyv \<Rightarrow> unit res" where
  "kv_packages_ok e a b runtime_a runtime_b =
     bnd (py_get runtime_a ''experimental_kv'') (\<lambda>base.
     guard (base = PNone) ''experimental-KV quality needs unchanged baseline and identified candidate descriptor'' (
     bnd (experimental_kv_runtime (p_codec e) runtime_b) (\<lambda>descriptor.
     bnd (bnd (py_item runtime_a ''packages'') py_mapping) (\<lambda>packages_a. bnd (bnd (py_item runtime_b ''packages'') py_mapping) (\<lambda>packages_b.
     guard (set (changed_keys packages_a packages_b) \<subseteq> {''sglang''}) ''experimental-KV quality changed an unrelated package'' (
     bnd (py_get a ''compiler'') (\<lambda>compiler_a. bnd (py_get b ''compiler'') (\<lambda>compiler_b.
     experimental_kv_compiler_identity compiler_a compiler_b descriptor))))))))"

definition same_runtime_item :: "pyv \<Rightarrow> pyv \<Rightarrow> string \<Rightarrow> unit res" where
  "same_runtime_item a b key =
     bnd (bnd (py_item a ''runtime'') (\<lambda>r. py_item r key)) (\<lambda>x. bnd (bnd (py_item b ''runtime'') (\<lambda>r. py_item r key)) (\<lambda>y.
     require (py_eq x y) ''quality comparison changed model/software/GPU identity''))"

definition compared_keys :: "bool \<Rightarrow> bool \<Rightarrow> string list" where
  "compared_keys memory_only experimental_kv =
     (if experimental_kv then [] else [''image'', ''image_id'']) @ (if memory_only then [] else [''resources''])"

definition identities_ok :: "penv \<Rightarrow> pyv \<Rightarrow> pyv \<Rightarrow> bool \<Rightarrow> bool \<Rightarrow> unit res" where
  "identities_ok e a b memory_only experimental_kv =
     guard (\<not> (memory_only \<and> experimental_kv)) ''quality comparison cannot combine host-memory and experimental-KV modes'' (
     bnd (if memory_only then memory_only_ok a b else Inr ()) (\<lambda>_.
     bnd (mapM_res (same_item a b ''quality comparison changed image/resources'') (compared_keys memory_only experimental_kv)) (\<lambda>_.
     bnd (mapM_res (same_runtime_item a b) [''model_files'', ''devices'', ''hip'']) (\<lambda>_.
     if experimental_kv
     then bnd (py_item a ''runtime'') (\<lambda>runtime_a. bnd (py_item b ''runtime'') (\<lambda>runtime_b. kv_packages_ok e a b runtime_a runtime_b))
     else same_runtime_item a b ''packages''))))"

definition comparison_name :: "bool \<Rightarrow> bool \<Rightarrow> string" where
  "comparison_name memory_only experimental_kv =
     (if experimental_kv then ''experimental-kv'' else if memory_only then ''host-memory-only'' else ''kernel'')"

definition compare_quality :: "penv \<Rightarrow> pyv \<Rightarrow> pyv \<Rightarrow> pyv \<Rightarrow> pyv \<Rightarrow> bool \<Rightarrow> bool \<Rightarrow> pydict res" where
  "compare_quality e baseline candidate atol rtol memory_only experimental_kv =
     bnd (check_run baseline) (\<lambda>_. bnd (check_run candidate) (\<lambda>_.
     bnd (same_item baseline candidate ''quality workload differs'' ''workload_sha256'') (\<lambda>_.
     bnd (same_item baseline candidate ''warmup shapes differ'' ''warmup_contract'') (\<lambda>_.
     bnd (py_item baseline ''identity'') (\<lambda>a. bnd (py_item candidate ''identity'') (\<lambda>b.
     bnd (identities_ok e a b memory_only experimental_kv) (\<lambda>_.
     bnd (canonical_digest (p_codec e) baseline) (\<lambda>baseline_sha. bnd (canonical_digest (p_codec e) candidate) (\<lambda>candidate_sha.
     bnd (py_item baseline ''quality'') (\<lambda>first. bnd (py_item candidate ''quality'') (\<lambda>second.
     bnd (quality_compare e first second atol rtol) (\<lambda>quality.
     Inr [(''schema'', PInt 1), (''status'', PStr ''sampled-quality-passed-not-qualified''),
       (''comparison'', PStr (comparison_name memory_only experimental_kv)),
       (''baseline_sha256'', PStr baseline_sha), (''candidate_sha256'', PStr candidate_sha), (''quality'', PDict quality)]))))))))))))"

section \<open>Properties\<close>

definition close_to :: "pyv \<Rightarrow> pyv \<Rightarrow> pyv \<Rightarrow> pyv \<Rightarrow> bool" where
  "close_to atol rtol x y =
     (finite_value x = Inr True \<and> finite_value y = Inr True
      \<and> bnd (bnd (py_sub x y) py_abs) (\<lambda>difference. bnd (bnd (py_abs x) (\<lambda>a. bnd (py_mul rtol a) (py_add atol))) (\<lambda>limit.
          py_lt limit difference)) = Inr False)"

definition same_output :: "pyv \<Rightarrow> pyv \<Rightarrow> pyv \<Rightarrow> pyv \<Rightarrow> bool" where
  "same_output atol rtol a b =
     (case (py_item a ''tokens'', py_item b ''tokens'', bnd (py_item a ''logprobs'') py_iter, bnd (py_item b ''logprobs'') py_iter) of
        (Inr t, Inr u, Inr xs, Inr ys) \<Rightarrow> py_eq t u \<and> truthy t \<and> list_all2 (close_to atol rtol) xs ys
      | _ \<Rightarrow> False)"

lemma logprob_difference_within: "logprob_difference atol rtol (x, y) = Inr d \<Longrightarrow> close_to atol rtol x y"
  by (auto simp: logprob_difference_def close_to_def)

lemma py_len_iter: "py_len v = Inr n \<Longrightarrow> py_iter v = Inr xs \<Longrightarrow> length xs = n"
  by (cases v) (auto simp: py_len_def py_iter_def)

lemma py_eq_len: "py_eq v w \<Longrightarrow> py_len v = Inr m \<Longrightarrow> py_len w = Inr m"
  by (cases v) (auto simp: py_len_def dest: list_all2_lengthD split: pyv.splits)

lemma mapM_res_zip:
  "mapM_res f (zip xs ys) = Inr zs \<Longrightarrow> length xs = length ys \<Longrightarrow> list_all2 (\<lambda>x y. \<exists>z. f (x, y) = Inr z) xs ys"
  by (induction xs ys arbitrary: zs rule: list_induct2') (auto split: sum.splits)

lemma case_differences_same:
  assumes "case_differences atol rtol (a, b) = Inr ds"
  shows "same_output atol rtol a b"
proof -
  obtain ta tb la lb m n xs ys where t: "py_item a ''tokens'' = Inr ta" "py_item b ''tokens'' = Inr tb" "py_eq ta tb" "truthy ta"
    "py_item a ''logprobs'' = Inr la" "py_len la = Inr m" "py_len ta = Inr m" "py_item b ''logprobs'' = Inr lb" "py_len lb = Inr n" "py_len tb = Inr n"
    "py_iter la = Inr xs" "py_iter lb = Inr ys" "mapM_res (logprob_difference atol rtol) (zip xs ys) = Inr ds"
    using assms unfolding case_differences_def fst_conv snd_conv by (auto simp del: mapM_res.simps)
  have "m = n" using py_eq_len [OF t(3,7)] t(10) by simp
  then have "length xs = length ys" using py_len_iter t(6,9,11,12) by metis
  from mapM_res_zip [OF t(13) this] have "list_all2 (close_to atol rtol) xs ys"
    by (rule list_all2_mono) (auto dest: logprob_difference_within)
  then show ?thesis using t by (simp add: same_output_def)
qed

lemma quality_compare_same:
  assumes "quality_compare e first second atol rtol = Inr q"
  shows "\<exists>as bs. py_iter first = Inr as \<and> py_iter second = Inr bs \<and> as \<noteq> [] \<and> list_all2 (same_output atol rtol) as bs"
proof -
  obtain m as bs ds where q: "truthy first" "py_len first = Inr m" "py_len second = Inr m" "py_iter first = Inr as" "py_iter second = Inr bs"
    "mapM_res (case_differences atol rtol) (zip as bs) = Inr ds"
    using assms unfolding quality_compare_def by (auto simp del: mapM_res.simps)
  have len: "length as = length bs" using py_len_iter q(2-5) by metis
  have "as \<noteq> []" using q(1,4) by (cases first) (auto simp: py_iter_def)
  moreover have "list_all2 (same_output atol rtol) as bs"
    using mapM_res_zip [OF q(6) len] by (rule list_all2_mono) (auto dest: case_differences_same)
  ultimately show ?thesis using q by blast
qed

text \<open>C37: two runs pass the numerical comparison only if both are complete checked runs of the same
  workload and their outputs agree row by row: the same tokens, and for every token both log
  probabilities finite and apart by no more than the tolerances allow.\<close>

theorem accepted_quality_within_tolerance:
  assumes "compare_quality e baseline candidate atol rtol memory_only experimental_kv = Inr q"
  shows "\<exists>as bs. check_run baseline = Inr () \<and> check_run candidate = Inr ()
     \<and> py_eq (dget (dict_of_v baseline) ''workload_sha256'') (dget (dict_of_v candidate) ''workload_sha256'')
     \<and> bnd (py_item baseline ''quality'') py_iter = Inr as \<and> bnd (py_item candidate ''quality'') py_iter = Inr bs
     \<and> as \<noteq> [] \<and> list_all2 (same_output atol rtol) as bs"
proof -
  obtain first second qq where q: "check_run baseline = Inr ()" "check_run candidate = Inr ()"
    "same_item baseline candidate ''quality workload differs'' ''workload_sha256'' = Inr ()"
    "py_item baseline ''quality'' = Inr first" "py_item candidate ''quality'' = Inr second" "quality_compare e first second atol rtol = Inr qq"
    using assms unfolding compare_quality_def by auto
  have "py_eq (dget (dict_of_v baseline) ''workload_sha256'') (dget (dict_of_v candidate) ''workload_sha256'')"
    using q(3) by (auto simp: same_item_def py_item_Inr)
  then show ?thesis using q quality_compare_same [OF q(6)] by auto
qed

text \<open>A run with one token per case, compared with itself.\<close>

definition plain_env :: penv where
  "plain_env = \<lparr>p_codec = plain_codec, p_sqrt = (\<lambda>_. Fin 0), p_float = (\<lambda>_. None), p_lenient = (\<lambda>_. [])\<rparr>"

definition pd_launch :: pydict where
  "pd_launch = [(''--enable-torch-compile'', PBool False)]"

definition pd_runtime :: pyv where
  "pd_runtime = PDict [(''settings'', PDict [(''MODEL_REVISION'', PStr ''r''), (''MODEL_DTYPE'', PStr ''b'')]),
     (''model_files'', PDict [(''vocab.json'', PDict [(''bytes'', PInt 1), (''sha256'', PStr (zeros 64))])]),
     (''launch'', PList [PDict pd_launch]), (''devices'', PNone), (''packages'', PNone), (''hip'', PNone),
     (''model_contract'', PDict [(''quant_method'', PStr ''q'')])]"

definition pd_run :: pyv where
  "pd_run = PDict [(''status'', PStr ''measured-not-qualified''), (''kind'', PStr ''kernel-warmup''), (''memory'', PDict [(''status'', PStr ''checked'')]),
     (''identity'', PDict [(''runtime'', pd_runtime), (''image'', PStr ''i''), (''image_id'', PStr ''i''), (''resources'', PNone)]),
     (''pod'', PDict [(''resources'', PNone), (''node'', PStr ''n''), (''launch_spec_sha256'', PStr ''l'')]), (''workload_sha256'', PStr ''w''),
     (''warmup_contract'', PDict [(''repetitions'', PInt 3), (''cases'', PList [PDict [(''context_tokens'', PInt 1), (''output_tokens'', PInt 1)]]),
        (''concurrency'', PList [PInt 1])]),
     (''quality'', PList (map (\<lambda>i. PDict [(''case'', PList [PInt i, PInt 1, PInt 1, PInt 0]), (''tokens'', PList [PInt 7]),
        (''logprobs'', PList [PInt 0])]) [0, 1, 2]))]"

definition pd_identity :: pydict where
  "pd_identity = identity_value (PStr ''r'') (zeros 64) (PStr ''w'') (zeros 64) (zeros 64) (PStr ''l'') (PStr ''q'')"

definition pd_conditions :: pydict where
  "pd_conditions = conditions_value (zeros 64) (zeros 64) (zeros 64) (zeros 64) (zeros 64) (zeros 64)"

definition pd_quality :: pydict where
  "pd_quality = [(''schema'', PInt 1), (''status'', PStr ''sampled-quality-passed-not-qualified''), (''comparison'', PStr ''kernel''),
     (''baseline_sha256'', PStr (zeros 64)), (''candidate_sha256'', PStr (zeros 64)),
     (''quality'', PDict [(''status'', PStr ''sampled-output-check-passed''), (''atol'', PInt 0), (''rtol'', PInt 0),
        (''absolute_logprob_difference'', PDict [(''n'', PInt 3), (''min'', PInt 0), (''median'', PInt 0), (''p95'', PInt 0), (''p99'', PInt 0),
           (''max'', PInt 0), (''stdev'', PFloat (Fin 0))]),
        (''scope'', PStr ''not full model or coding-task qualification'')])]"

lemma tolerance_zero: "tolerance_ok (PInt 0) = Inr True"
proof -
  have "to_float (1 / 10) = Fin (rnd (1 / 10))" by (rule to_float_small) simp
  then show ?thesis
    using binary64.fl_nonneg [of "1 / 10"] by (simp add: tolerance_ok_def TOLERANCE_def py_le_def)
qed

lemma pd_cases: "mapM_res (case_differences (PInt 0) (PInt 0)) (zip (list_of (dget (dict_of_v pd_run) ''quality'')) (list_of (dget (dict_of_v pd_run) ''quality'')))
    = Inr [[PInt 0], [PInt 0], [PInt 0]]"
  by code_simp

lemma pd_median: "py_median [PInt 0, PInt 0, PInt 0] = Inr (PInt 0)" "sort_key exact [PInt 0, PInt 0, PInt 0] = [PInt 0, PInt 0, PInt 0]"
  by code_simp+

lemma pd_summary: "summary plain_env [PInt 0, PInt 0, PInt 0] = Inr (PDict [(''n'', PInt 3), (''min'', PInt 0), (''median'', PInt 0), (''p95'', PInt 0), (''p99'', PInt 0),
           (''max'', PInt 0), (''stdev'', PFloat (Fin 0))])"
proof -
  have "i < 3 \<Longrightarrow> [PInt 0, PInt 0, PInt 0] ! i = PInt 0" for i :: nat
    by (simp add: numeral_3_eq_3 less_Suc_eq) auto
  then have i: "[PInt 0, PInt 0, PInt 0] ! quantile_index (95 / 100) 3 = PInt 0" "[PInt 0, PInt 0, PInt 0] ! quantile_index (99 / 100) 3 = PInt 0"
    using quantile_index_less [of "95 / 100" 3] quantile_index_less [of "99 / 100" 3] by simp_all
  have f: "allM (\<lambda>v. andM (finite_value v) (py_le (PInt 0) v)) [PInt 0, PInt 0, PInt 0] = Inr True" by code_simp
  show ?thesis
    unfolding summary_def Let_def pd_median f guardM_simps guard_simps
    using i by (simp add: pd_median py_stdev_def plain_env_def numeral_3_eq_3)
qed

lemma pd_parts: "check_run pd_run = Inr ()" "same_item pd_run pd_run m ''workload_sha256'' = Inr ()" "same_item pd_run pd_run m ''warmup_contract'' = Inr ()"
  "py_item pd_run ''identity'' = Inr (dget (dict_of_v pd_run) ''identity'')" "canonical_digest plain_codec v = Inr (zeros 64)"
  "identities_ok plain_env (dget (dict_of_v pd_run) ''identity'') (dget (dict_of_v pd_run) ''identity'') False False = Inr ()"
  "py_item pd_run ''quality'' = Inr (dget (dict_of_v pd_run) ''quality'')"
  "py_iter (dget (dict_of_v pd_run) ''quality'') = Inr (list_of (dget (dict_of_v pd_run) ''quality''))"
  "py_len (dget (dict_of_v pd_run) ''quality'') = Inr 3" "truthy (dget (dict_of_v pd_run) ''quality'')"
  by code_simp+

lemma pd_quality_compare:
  "quality_compare plain_env (dget (dict_of_v pd_run) ''quality'') (dget (dict_of_v pd_run) ''quality'') (PInt 0) (PInt 0)
    = Inr (dict_of_v (dget pd_quality ''quality''))"
  by (simp add: quality_compare_def finite_value_def is_number_def py_isfinite_def flt_finite_def tolerance_zero pd_parts pd_cases pd_summary
      pd_quality_def dget_rec del: bnd_Inr_iff)

lemma pd_compare: "compare_quality plain_env pd_run pd_run (PInt 0) (PInt 0) False False = Inr pd_quality"
  using pd_quality_compare
  by (simp add: compare_quality_def pd_parts comparison_name_def pd_quality_def dget_rec plain_env_def [THEN arg_cong [of _ _ p_codec]] del: bnd_Inr_iff)

theorem accepted_quality_within_tolerance_witness:
  "\<exists>as bs. bnd (py_item pd_run ''quality'') py_iter = Inr as \<and> as \<noteq> [] \<and> list_all2 (same_output (PInt 0) (PInt 0)) as bs"
  using accepted_quality_within_tolerance [OF pd_compare] by blast

end
