(* ===== verification/Profile_Gates.thy ===== *)
theory Profile_Gates
  imports Quality_Compare
begin

text \<open>
  \<open>lib/workstation/performance_profiles.py\<close>, the gates of a comparison: the policy, the pairing of
  workload cases, and the startup, latency, memory and throughput gates.  The two records are JSON
  values, because a comparison that is checked again arrives as a file; every subscript may raise.
  Workload cases are keyed by their two integers; other keys raise \<open>TypeError\<close> in the model.
\<close>

section \<open>Access\<close>

text \<open>\<open>v[k][l]\<close> and \<open>v.get(k, {})\<close>.\<close>

definition py_path :: "pyv \<Rightarrow> string list \<Rightarrow> pyv res" where
  "py_path v ks = foldM_res py_item v ks"

definition py_get_or :: "pyv \<Rightarrow> string \<Rightarrow> pyv \<Rightarrow> pyv res" where
  "py_get_or v k x = (case v of PDict d \<Rightarrow> Inr (dget_or d k x) | _ \<Rightarrow> Inl AttributeError)"

definition status_of :: "pyv \<Rightarrow> string \<Rightarrow> bool res" where
  "status_of v name = bnd (py_item v ''status'') (\<lambda>s. Inr (s = PStr name))"

lemma py_path_simps [simp]: "py_path v [] = Inr v" "py_path v (k # ks) = bnd (py_item v k) (\<lambda>w. py_path w ks)"
  by (simp_all add: py_path_def bnd_def)

section \<open>Policy\<close>

definition POLICY_KEYS :: "string list" where
  "POLICY_KEYS = [''schema'', ''minimum_practical_gain_percent'', ''maximum_regression_percent'', ''noise_percent'']"

definition percentage :: "pyv \<Rightarrow> bool res" where
  "percentage v = andM (finite_value v) (andM (py_le (PInt 0) v) (py_le v (PInt 100)))"

definition policy :: "pyv \<Rightarrow> pydict res" where
  "policy v =
     (let d = dict_of_v v; limits = filter (\<lambda>kv. fst kv \<noteq> ''schema'') d in
      guard (is_dict v \<and> py_eq (dget d ''schema'') (PInt 1) \<and> has_keys d POLICY_KEYS) ''unsupported comparison policy'' (
      guardM (allM (\<lambda>kv. percentage (snd kv)) limits) ''comparison thresholds must be finite percentages in 0..100'' (Inr limits)))"

section \<open>Workload cases\<close>

type_synonym pairing = "((int \<times> int) \<times> pyv \<times> pyv) list"

definition case_int :: "pyv \<Rightarrow> string \<Rightarrow> int res" where
  "case_int row name = bnd (py_item row name) (\<lambda>v. case v of PInt i \<Rightarrow> Inr i | _ \<Rightarrow> Inl TypeError)"

definition row_key :: "pyv \<Rightarrow> (int \<times> int) res" where
  "row_key row = bnd (case_int row ''context_tokens'') (\<lambda>c. bnd (case_int row ''concurrency'') (\<lambda>n. Inr (c, n)))"

definition indexed :: "pyv list \<Rightarrow> ((int \<times> int) \<times> pyv) list res" where
  "indexed rows = mapM_res (\<lambda>row. bnd (row_key row) (\<lambda>k. Inr (k, row))) rows"

definition key_value :: "(int \<times> int) \<times> pyv \<Rightarrow> pyv" where
  "key_value kr = PDict [(''context_tokens'', PInt (fst (fst kr))), (''concurrency'', PInt (snd (fst kr)))]"

text \<open>The pairs in the order of the sorted keys.\<close>

definition key_le :: "int \<times> int \<Rightarrow> int \<times> int \<Rightarrow> bool" where
  "key_le a b = (fst a < fst b \<or> fst a = fst b \<and> snd a \<le> snd b)"

fun insert_key :: "int \<times> int \<Rightarrow> (int \<times> int) list \<Rightarrow> (int \<times> int) list" where
  "insert_key k [] = [k]"
| "insert_key k (l # ls) = (if k = l then l # ls else if key_le k l then k # l # ls else l # insert_key k ls)"

definition sorted_keys :: "(int \<times> int) list \<Rightarrow> (int \<times> int) list" where
  "sorted_keys ks = foldr insert_key ks []"

definition paired :: "((int \<times> int) \<times> pyv) list \<Rightarrow> ((int \<times> int) \<times> pyv) list \<Rightarrow> pairing" where
  "paired left right =
     map (\<lambda>k. (k, the (map_of (rev left) k), the (map_of (rev right) k))) (sorted_keys (map fst left @ map fst right))"

definition align_cases :: "pyv \<Rightarrow> pyv \<Rightarrow> (pydict \<times> pairing) res" where
  "align_cases first second =
     bnd (py_path first [''metrics'', ''serving'']) (\<lambda>l. bnd (py_path second [''metrics'', ''serving'']) (\<lambda>r.
     bnd (py_item l ''status'') (\<lambda>left_status. bnd (if left_status = PStr ''observed'' then status_of r ''observed'' else Inr False) (\<lambda>both.
     if \<not> both
     then bnd (py_item r ''status'') (\<lambda>right_status.
          Inr ([(''status'', PStr ''incomplete''), (''reason'', PStr ''serving evidence is incomplete or malformed''),
            (''baseline_status'', left_status), (''candidate_status'', right_status), (''baseline_cases'', PList []), (''candidate_cases'', PList [])], []))
     else bnd (bnd (py_item l ''cases'') py_iter) (\<lambda>left_rows. bnd (bnd (py_item r ''cases'') py_iter) (\<lambda>right_rows.
          bnd (indexed left_rows) (\<lambda>left. bnd (indexed right_rows) (\<lambda>right.
          let report = [(''baseline_cases'', PList (map key_value left)), (''candidate_cases'', PList (map key_value right))] in
          if keyset left \<noteq> keyset right
          then Inr (report @ [(''status'', PStr ''incompatible''), (''reason'', PStr ''serving context/concurrency cases differ'')], [])
          else Inr (report @ [(''status'', PStr ''matching'')], paired left right))))))))) "

section \<open>Regressions\<close>

definition percent_regression :: "pyv \<Rightarrow> pyv \<Rightarrow> pyv res" where
  "percent_regression baseline candidate =
     bnd (andM (finite_value baseline) (andM (finite_value candidate) (notM (py_le baseline (PInt 0))))) (\<lambda>known.
     if \<not> known then Inr PNone
     else bnd (py_sub candidate baseline) (\<lambda>change. bnd (py_mul change (PInt 100)) (\<lambda>scaled.
          bnd (py_truediv scaled baseline) (\<lambda>percent. Inr (PFloat percent)))))"

text \<open>One observation of a gate: a row of \<open>incomplete\<close> or a row of \<open>comparisons\<close>.\<close>

type_synonym finding = "pydict + pydict"

definition lefts :: "('a + 'b) list \<Rightarrow> 'a list" where
  "lefts xs = concat (map (case_sum (\<lambda>x. [x]) (\<lambda>_. [])) xs)"

definition rights :: "('a + 'b) list \<Rightarrow> 'b list" where
  "rights xs = concat (map (case_sum (\<lambda>_. []) (\<lambda>y. [y])) xs)"

definition regression_gate :: "finding list \<Rightarrow> pyv \<Rightarrow> pydict res" where
  "regression_gate findings maximum =
     bnd (if lefts findings \<noteq> [] then Inr ''incomplete''
          else bnd (anyM (\<lambda>row. py_lt maximum (dget row ''regression_percent'')) (rights findings)) (\<lambda>worse.
               Inr (if worse then ''regressed'' else ''passed''))) (\<lambda>status.
     Inr [(''status'', PStr status), (''comparisons'', PList (map PDict (rights findings))), (''incomplete'', PList (map PDict (lefts findings)))])"

definition phase_items :: "pyv \<Rightarrow> pyv \<Rightarrow> string \<Rightarrow> (pyv \<times> pyv) res" where
  "phase_items b d name = bnd (py_item b name) (\<lambda>x. bnd (py_item d name) (\<lambda>y. Inr (x, y)))"

definition truthy_item :: "pyv \<Rightarrow> string \<Rightarrow> bool res" where
  "truthy_item v name = bnd (py_item v name) (\<lambda>x. Inr (truthy x))"

definition startup_finding :: "pyv \<Rightarrow> pyv \<Rightarrow> string \<Rightarrow> finding res" where
  "startup_finding first second phase =
     bnd (py_path first [''metrics'', ''startup'', phase]) (\<lambda>b. bnd (py_path second [''metrics'', ''startup'', phase]) (\<lambda>d.
     bnd (orM (notM (status_of b ''observed'')) (orM (notM (status_of d ''observed'')) (orM (truthy_item b ''failed'')
          (orM (truthy_item d ''failed'') (orM (truthy_item b ''unknown'') (truthy_item d ''unknown'')))))) (\<lambda>missing.
     if missing
     then bnd (phase_items b d ''status'') (\<lambda>(bs, ds). bnd (phase_items b d ''failed'') (\<lambda>(bf, df). bnd (phase_items b d ''unknown'') (\<lambda>(bu, du).
          Inr (Inl [(''phase'', PStr phase), (''baseline_status'', bs), (''candidate_status'', ds), (''baseline_failed'', bf),
            (''candidate_failed'', df), (''baseline_unknown'', bu), (''candidate_unknown'', du)]))))
     else bnd (phase_items b d ''median_seconds'') (\<lambda>(bm, dm). bnd (percent_regression bm dm) (\<lambda>regression.
          Inr (if regression = PNone then Inl [(''phase'', PStr phase), (''reason'', PStr ''zero-or-unknown-baseline-median'')]
               else Inr [(''phase'', PStr phase), (''baseline_median_seconds'', bm), (''candidate_median_seconds'', dm),
                 (''regression_percent'', regression)]))))))"

definition startup_gate :: "pyv \<Rightarrow> pyv \<Rightarrow> pyv \<Rightarrow> pydict res" where
  "startup_gate first second maximum =
     bnd (mapM_res (startup_finding first second) [''cold'', ''warm'']) (\<lambda>findings. regression_gate findings maximum)"

section \<open>Latency\<close>

definition case_label :: "int \<times> int \<Rightarrow> pydict" where
  "case_label k = [(''context_tokens'', PInt (fst k)), (''concurrency'', PInt (snd k))]"

definition compared :: "pydict \<Rightarrow> string \<Rightarrow> pyv \<Rightarrow> pyv \<Rightarrow> pydict \<Rightarrow> finding res" where
  "compared label statistic left right otherwise =
     bnd (percent_regression left right) (\<lambda>regression.
     Inr (if regression = PNone then Inl (label @ otherwise)
          else Inr (label @ [(''statistic'', PStr statistic), (''baseline'', left), (''candidate'', right), (''regression_percent'', regression)])))"

definition tail_finding :: "pydict \<Rightarrow> pyv \<Rightarrow> pyv \<Rightarrow> finding list res" where
  "tail_finding label left right =
     bnd (py_get left ''p95'') (\<lambda>lt. if lt = PNone then Inr [] else
     bnd (py_get right ''p95'') (\<lambda>rt. if rt = PNone then Inr [] else
     bnd (py_item left ''p95'') (\<lambda>l. bnd (py_item right ''p95'') (\<lambda>r.
     bnd (compared label ''p95'' l r [(''statistic'', PStr ''p95''), (''reason'', PStr ''zero-baseline-p95'')]) (\<lambda>f. Inr [f])))))"

definition latency_findings :: "(int \<times> int) \<times> pyv \<times> pyv \<Rightarrow> string \<Rightarrow> finding list res" where
  "latency_findings kbc metric =
     (case kbc of (key, baseline, candidate) \<Rightarrow>
      let label = case_label key @ [(''metric'', PStr metric)] in
      bnd (py_item baseline metric) (\<lambda>left. bnd (py_item candidate metric) (\<lambda>right.
      bnd (andM (status_of left ''observed'') (status_of right ''observed'')) (\<lambda>observed.
      if \<not> observed
      then bnd (phase_items left right ''status'') (\<lambda>(bs, ds). Inr [Inl (label @ [(''baseline_status'', bs), (''candidate_status'', ds)])])
      else bnd (phase_items left right ''median'') (\<lambda>(l, r).
           bnd (compared label ''median'' l r [(''reason'', PStr ''zero-or-unknown-baseline-median'')]) (\<lambda>f.
           case f of Inl _ \<Rightarrow> Inr [f] | Inr _ \<Rightarrow> bnd (tail_finding label left right) (\<lambda>fs. Inr (f # fs))))))))"

definition serving_latency_gate :: "pairing \<Rightarrow> pyv \<Rightarrow> pydict res" where
  "serving_latency_gate pairs maximum =
     bnd (mapM_res (\<lambda>p. bnd (mapM_res (latency_findings p) [''latency'', ''ttft'']) (\<lambda>fs. Inr (concat fs))) pairs) (\<lambda>fss.
     regression_gate (concat fss) maximum)"

section \<open>Memory and throughput\<close>

definition known_adverse_memory_status :: "pyv \<Rightarrow> bool" where
  "known_adverse_memory_status v = (v \<notin> {PNone, PStr ''unknown'', PStr ''none'', PStr ''not-observed''})"

definition memory_adverse :: "string \<Rightarrow> pydict \<Rightarrow> string \<Rightarrow> pyv list" where
  "memory_adverse side m key =
     (let v = dget m key in
      if (if key = ''source_status'' then v \<notin> {PStr ''plan-only-unqualified'', PStr ''unknown''} else known_adverse_memory_status v)
      then [PDict [(''side'', PStr side), (''field'', PStr key), (''status'', v)]] else [])"

definition memory_side :: "string \<times> pyv \<Rightarrow> pyv list res" where
  "memory_side sr =
     bnd (py_path (snd sr) [''metrics'', ''memory'']) (\<lambda>m. bnd (py_item m ''status'') (\<lambda>status.
     Inr (if status = PStr ''unknown'' then []
          else concat (map (memory_adverse (fst sr) (dict_of_v m)) [''source_status'', ''failure_status'', ''pressure_status'']))))"

definition memory_gate :: "pyv \<Rightarrow> pyv \<Rightarrow> pydict res" where
  "memory_gate first second =
     bnd (mapM_res memory_side [(''baseline'', first), (''candidate'', second)]) (\<lambda>sides. let adverse = concat sides in
     Inr [(''status'', PStr (if adverse \<noteq> [] then ''failed-or-pressure-observed'' else ''passed'')), (''adverse'', PList adverse)])"

definition variation_of :: "pyv \<Rightarrow> pyv \<Rightarrow> pyv res" where
  "variation_of left right =
     bnd (bnd (py_item left ''stdev'') (\<lambda>s. bnd (py_item left ''median'') (py_truediv s))) (\<lambda>a.
     bnd (bnd (py_item right ''stdev'') (\<lambda>s. bnd (py_item right ''median'') (py_truediv s))) (\<lambda>b.
     bnd (py_add (PFloat a) (PFloat b)) (py_mul (PInt 100))))"

definition few_samples :: "pyv \<Rightarrow> bool res" where
  "few_samples v = bnd (py_item v ''samples'') (\<lambda>n. py_lt n (PInt 3))"

definition median_nonpositive :: "pyv \<Rightarrow> bool res" where
  "median_nonpositive v = bnd (py_item v ''median'') (\<lambda>m. py_le m (PInt 0))"

definition throughput_finding :: "pyv \<Rightarrow> (int \<times> int) \<times> pyv \<times> pyv \<Rightarrow> finding res" where
  "throughput_finding noise kbc =
     (case kbc of (key, baseline, candidate) \<Rightarrow>
      bnd (py_item baseline ''throughput'') (\<lambda>left. bnd (py_item candidate ''throughput'') (\<lambda>right.
      bnd (orM (notM (status_of left ''observed'')) (orM (notM (status_of right ''observed'')) (orM (few_samples left) (few_samples right)))) (\<lambda>missing.
      if missing
      then bnd (phase_items left right ''status'') (\<lambda>(bs, ds).
           Inr (Inl (case_label key @ [(''baseline_status'', bs), (''candidate_status'', ds),
             (''baseline_samples'', dget (dict_of_v left) ''samples''), (''candidate_samples'', dget (dict_of_v right) ''samples'')])))
      else bnd (orM (median_nonpositive left) (median_nonpositive right)) (\<lambda>nonpositive.
      if nonpositive then Inr (Inl (case_label key @ [(''reason'', PStr ''nonpositive-throughput-median'')]))
      else bnd (phase_items left right ''median'') (\<lambda>(l, r). bnd (percent_regression l r) (\<lambda>gain.
      if gain = PNone then Inr (Inl (case_label key @ [(''reason'', PStr ''zero-or-unknown-baseline-median'')]))
      else bnd (variation_of left right) (\<lambda>variation. bnd (py_max2 noise variation) (\<lambda>required.
      Inr (Inr (case_label key @ [(''gain_percent'', gain), (''observed_variation_percent'', variation),
        (''required_gain_over_noise_percent'', required)]))))))))))) "

definition throughput_gate :: "pairing \<Rightarrow> pyv \<Rightarrow> (pydict list \<times> pydict) res" where
  "throughput_gate pairs noise =
     bnd (mapM_res (throughput_finding noise) pairs) (\<lambda>findings.
     Inr (rights findings, [(''status'', PStr (if lefts findings \<noteq> [] then ''incomplete'' else ''passed'')),
       (''cases'', PList (map PDict (rights findings))), (''incomplete'', PList (map PDict (lefts findings)))]))"

section \<open>What a passed gate says\<close>

text \<open>A change that is known and not above the maximum.\<close>

definition no_worse :: "pyv \<Rightarrow> pyv \<Rightarrow> pyv \<Rightarrow> bool" where
  "no_worse maximum a b = (case percent_regression a b of Inr r \<Rightarrow> r \<noteq> PNone \<and> py_lt maximum r = Inr False | Inl _ \<Rightarrow> False)"

definition clean_phase :: "pyv \<Rightarrow> bool" where
  "clean_phase p = (status_of p ''observed'' = Inr True \<and> truthy_item p ''failed'' = Inr False \<and> truthy_item p ''unknown'' = Inr False)"

definition startup_no_worse :: "pyv \<Rightarrow> pyv \<Rightarrow> pyv \<Rightarrow> string \<Rightarrow> bool" where
  "startup_no_worse first second maximum phase =
     (case (py_path first [''metrics'', ''startup'', phase], py_path second [''metrics'', ''startup'', phase]) of
        (Inr b, Inr d) \<Rightarrow> clean_phase b \<and> clean_phase d
          \<and> no_worse maximum (dget (dict_of_v b) ''median_seconds'') (dget (dict_of_v d) ''median_seconds'')
      | _ \<Rightarrow> False)"

definition latency_no_worse :: "pyv \<Rightarrow> (int \<times> int) \<times> pyv \<times> pyv \<Rightarrow> string \<Rightarrow> bool" where
  "latency_no_worse maximum kbc metric =
     (case kbc of (key, b, d) \<Rightarrow>
      let l = dict_of_v (dget (dict_of_v b) metric); r = dict_of_v (dget (dict_of_v d) metric) in
      dget l ''status'' = PStr ''observed'' \<and> dget r ''status'' = PStr ''observed'' \<and> no_worse maximum (dget l ''median'') (dget r ''median'')
      \<and> (dget l ''p95'' = PNone \<or> dget r ''p95'' = PNone \<or> no_worse maximum (dget l ''p95'') (dget r ''p95'')))"

lemma lefts_simps [simp]: "lefts [] = []" "lefts (Inl x # xs) = x # lefts xs" "lefts (Inr y # xs) = lefts xs" "lefts (xs @ ys) = lefts xs @ lefts ys"
  by (simp_all add: lefts_def)

lemma rights_simps [simp]: "rights [] = []" "rights (Inl x # xs) = rights xs" "rights (Inr y # xs) = y # rights xs" "rights (xs @ ys) = rights xs @ rights ys"
  by (simp_all add: rights_def)

lemma lefts_Nil: "lefts xs = [] \<longleftrightarrow> (\<forall>x \<in> set xs. \<exists>y. x = Inr y)"
  by (induction xs) (auto simp: lefts_def split: sum.splits)

lemma rights_set: "y \<in> set (rights xs) \<longleftrightarrow> Inr y \<in> set xs"
  by (auto simp: rights_def split: sum.splits)

lemma regression_gate_passed:
  "regression_gate fs maximum = Inr g \<Longrightarrow> dget g ''status'' = PStr ''passed'' \<Longrightarrow>
     \<forall>f \<in> set fs. \<exists>row. f = Inr row \<and> py_lt maximum (dget row ''regression_percent'') = Inr False"
  by (auto simp: regression_gate_def dget_rec lefts_Nil rights_set split: if_splits)

lemma py_item_dget: "py_item v k = Inr x \<Longrightarrow> dget (dict_of_v v) k = x"
  by (auto simp: py_item_Inr)

lemma status_of_True: "status_of v name = Inr True \<longleftrightarrow> py_item v ''status'' = Inr (PStr name)"
  by (auto simp: status_of_def)

lemma startup_finding_row:
  assumes "startup_finding first second phase = Inr (Inr row)" "py_lt maximum (dget row ''regression_percent'') = Inr False"
  shows "startup_no_worse first second maximum phase"
proof -
  from assms(1) obtain b d bm dm r where p: "py_path first [''metrics'', ''startup'', phase] = Inr b" "py_path second [''metrics'', ''startup'', phase] = Inr d"
    "clean_phase b" "clean_phase d" "py_item b ''median_seconds'' = Inr bm" "py_item d ''median_seconds'' = Inr dm"
    "percent_regression bm dm = Inr r" "r \<noteq> PNone" "dget row ''regression_percent'' = r"
    unfolding startup_finding_def phase_items_def clean_phase_def
    by (auto simp: dget_rec simp del: py_path_simps split: if_splits)
  then show ?thesis
    using assms(2) by (simp add: startup_no_worse_def no_worse_def py_item_dget del: py_path_simps)
qed

lemma startup_gate_passed:
  assumes "startup_gate first second maximum = Inr g" "dget g ''status'' = PStr ''passed''"
  shows "startup_no_worse first second maximum ''cold'' \<and> startup_no_worse first second maximum ''warm''"
proof -
  obtain f1 f2 where f: "startup_finding first second ''cold'' = Inr f1" "startup_finding first second ''warm'' = Inr f2"
    "regression_gate [f1, f2] maximum = Inr g"
    using assms(1) unfolding startup_gate_def by (auto split: sum.splits)
  from regression_gate_passed [OF f(3) assms(2)] show ?thesis
    using f(1,2) by (auto intro: startup_finding_row)
qed

lemma compared_Inr:
  "compared label statistic l r other = Inr f \<Longrightarrow> f = Inr row \<Longrightarrow> py_lt maximum (dget row ''regression_percent'') = Inr False \<Longrightarrow>
     \<forall>kv \<in> set label. fst kv \<noteq> ''regression_percent'' \<Longrightarrow> no_worse maximum l r"
  by (fastforce simp: compared_def no_worse_def dget_append dget_rec split: if_splits)

lemma label_keys: "\<forall>kv \<in> set (case_label key @ [(''metric'', PStr metric)]). fst kv \<noteq> ''regression_percent''"
  by (auto simp: case_label_def)

lemma tail_finding_no_worse:
  assumes "tail_finding label left right = Inr fs" "\<forall>kv \<in> set label. fst kv \<noteq> ''regression_percent''"
    "\<forall>f \<in> set fs. \<exists>row. f = Inr row \<and> py_lt maximum (dget row ''regression_percent'') = Inr False"
  shows "dget (dict_of_v left) ''p95'' = PNone \<or> dget (dict_of_v right) ''p95'' = PNone
    \<or> no_worse maximum (dget (dict_of_v left) ''p95'') (dget (dict_of_v right) ''p95'')"
proof (cases "dget (dict_of_v left) ''p95'' = PNone \<or> dget (dict_of_v right) ''p95'' = PNone")
  case False
  then obtain f where f: "compared label ''p95'' (dget (dict_of_v left) ''p95'') (dget (dict_of_v right) ''p95'') [(''statistic'', PStr ''p95''), (''reason'', PStr ''zero-baseline-p95'')] = Inr f" "fs = [f]"
    using assms(1) by (auto simp: tail_finding_def py_get_Inr split: if_splits)
  with assms(3) obtain row where "f = Inr row" "py_lt maximum (dget row ''regression_percent'') = Inr False" by auto
  then show ?thesis using compared_Inr [OF f(1)] assms(2) by blast
qed blast

lemma latency_findings_no_worse:
  assumes "latency_findings (key, b, d) metric = Inr fs"
    "\<forall>f \<in> set fs. \<exists>row. f = Inr row \<and> py_lt maximum (dget row ''regression_percent'') = Inr False"
  shows "latency_no_worse maximum (key, b, d) metric"
proof -
  let ?label = "case_label key @ [(''metric'', PStr metric)]"
  from assms(1) obtain l r observed where lr: "py_item b metric = Inr l" "py_item d metric = Inr r"
    "andM (status_of l ''observed'') (status_of r ''observed'') = Inr observed" 
    unfolding latency_findings_def Let_def by auto
  have obs: observed
  proof (rule ccontr)
    assume "\<not> observed"
    then have "\<exists>x. Inl x \<in> set fs" using assms(1) lr by (auto simp: latency_findings_def Let_def)
    then show False using assms(2) by blast
  qed
  with lr have st: "py_item l ''status'' = Inr (PStr ''observed'')" "py_item r ''status'' = Inr (PStr ''observed'')"
    by (simp_all add: status_of_True)
  from assms(1) lr obs obtain lm rm f where m: "py_item l ''median'' = Inr lm" "py_item r ''median'' = Inr rm"
    "compared ?label ''median'' lm rm [(''reason'', PStr ''zero-or-unknown-baseline-median'')] = Inr f"
    "(case f of Inl _ \<Rightarrow> Inr [f] | Inr _ \<Rightarrow> bnd (tail_finding ?label l r) (\<lambda>fs. Inr (f # fs))) = Inr fs"
    by (auto simp: latency_findings_def phase_items_def Let_def)
  from m(4) assms(2) obtain row where f: "f = Inr row" by (auto split: sum.splits)
  with m(4) obtain fs' where t: "tail_finding ?label l r = Inr fs'" "fs = f # fs'" by auto
  have "no_worse maximum lm rm" using compared_Inr [OF m(3) f] label_keys assms(2) f t(2) by auto
  moreover have "dget (dict_of_v l) ''p95'' = PNone \<or> dget (dict_of_v r) ''p95'' = PNone
    \<or> no_worse maximum (dget (dict_of_v l) ''p95'') (dget (dict_of_v r) ''p95'')"
    using tail_finding_no_worse [OF t(1) label_keys] assms(2) t(2) by simp
  ultimately show ?thesis
    using lr(1,2) st m(1,2) by (simp add: latency_no_worse_def py_item_dget)
qed

lemma latency_gate_passed:
  assumes "serving_latency_gate pairs maximum = Inr g" "dget g ''status'' = PStr ''passed''" "p \<in> set pairs" "metric \<in> {''latency'', ''ttft''}"
  shows "latency_no_worse maximum p metric"
proof -
  obtain fss where fss: "mapM_res (\<lambda>p. bnd (mapM_res (latency_findings p) [''latency'', ''ttft'']) (\<lambda>fs. Inr (concat fs))) pairs = Inr fss"
    "regression_gate (concat fss) maximum = Inr g"
    using assms(1) by (auto simp: serving_latency_gate_def simp del: mapM_res.simps)
  have im: "mapM_res h xs = Inr ys \<Longrightarrow> x \<in> set xs \<Longrightarrow> \<exists>y \<in> set ys. h x = Inr y" for h :: "'a \<Rightarrow> 'b res" and xs ys x
    by (induction xs arbitrary: ys) (auto split: sum.splits)
  from im [OF fss(1) assms(3)] obtain fs where fs: "fs \<in> set fss"
    "bnd (mapM_res (latency_findings p) [''latency'', ''ttft'']) (\<lambda>fs. Inr (concat fs)) = Inr fs" by blast
  then obtain gs where gs: "mapM_res (latency_findings p) [''latency'', ''ttft''] = Inr gs" "fs = concat gs" by (auto simp del: mapM_res.simps)
  from im [OF gs(1)] assms(4) obtain hs where hs: "hs \<in> set gs" "latency_findings p metric = Inr hs" by auto
  obtain key b d where p: "p = (key, b, d)" by (cases p)
  have "\<forall>f \<in> set hs. \<exists>row. f = Inr row \<and> py_lt maximum (dget row ''regression_percent'') = Inr False"
    using regression_gate_passed [OF fss(2) assms(2)] hs(1) gs(2) fs(1) by auto
  then show ?thesis using latency_findings_no_worse hs(2) unfolding p by blast
qed

section \<open>Pairing\<close>

lemma key_le_total: "\<not> key_le a b \<Longrightarrow> a \<noteq> b \<Longrightarrow> key_le b a"
  by (cases a; cases b) (auto simp: key_le_def)

lemma key_le_trans: "key_le a b \<Longrightarrow> key_le b c \<Longrightarrow> key_le a c"
  by (cases a; cases b; cases c) (auto simp: key_le_def)

lemma key_le_antisym: "key_le a b \<Longrightarrow> key_le b a \<Longrightarrow> a = b"
  by (cases a; cases b) (auto simp: key_le_def)

lemma set_insert_key [simp]: "set (insert_key k ls) = insert k (set ls)"
  by (induction ls) auto

lemma insert_key_sorted: "sorted_wrt key_le ls \<Longrightarrow> distinct ls \<Longrightarrow> sorted_wrt key_le (insert_key k ls) \<and> distinct (insert_key k ls)"
  by (induction ls) (auto dest: key_le_total key_le_antisym intro: key_le_trans)

lemma set_sorted_keys [simp]: "set (sorted_keys ks) = set ks"
  by (induction ks) (auto simp: sorted_keys_def)

lemma sorted_keys_sorted: "sorted_wrt key_le (sorted_keys ks) \<and> distinct (sorted_keys ks)"
  unfolding sorted_keys_def by (induction ks) (auto dest: insert_key_sorted)

lemma indexed_keys:
  assumes "indexed rows = Inr kvs" "(k, row) \<in> set kvs"
  shows "row \<in> set rows \<and> row_key row = Inr k"
  using mapM_res_set [OF assms(1) [unfolded indexed_def] assms(2)] by auto

lemma indexed_covers:
  "indexed rows = Inr kvs \<Longrightarrow> row \<in> set rows \<Longrightarrow> row_key row = Inr k \<Longrightarrow> k \<in> keyset kvs"
  unfolding indexed_def keyset_def by (induction rows arbitrary: kvs) (auto split: sum.splits simp: image_iff)

text \<open>The pairing the gates work on, given by what it contains.\<close>

definition well_paired :: "pyv list \<Rightarrow> pyv list \<Rightarrow> pairing \<Rightarrow> bool" where
  "well_paired left_rows right_rows pairs =
     (sorted_wrt key_le (map fst pairs) \<and> distinct (map fst pairs)
      \<and> list_all (\<lambda>(k, l, r). l \<in> set left_rows \<and> row_key l = Inr k \<and> r \<in> set right_rows \<and> row_key r = Inr k) pairs
      \<and> list_all (\<lambda>row. \<exists>p \<in> set pairs. row_key row = Inr (fst p)) (left_rows @ right_rows))"

lemma map_of_rev_row: "k \<in> keyset kvs \<Longrightarrow> (k, the (map_of (rev kvs) k)) \<in> set kvs"
  unfolding keyset_def
  by (metis list.set_map map_of_SomeD map_of_eq_None_iff option.collapse rev_map set_rev)

lemma paired_well:
  assumes i: "indexed left_rows = Inr left" "indexed right_rows = Inr right" and k: "keyset left = keyset right"
  shows "well_paired left_rows right_rows (paired left right)"
proof -
  have fsts: "map fst (paired left right) = sorted_keys (map fst left @ map fst right)"
    by (simp add: paired_def comp_def)
  have keys: "set (sorted_keys (map fst left @ map fst right)) = keyset left"
    using k by (simp add: keyset_def)
  have "\<exists>p \<in> set (paired left right). row_key row = Inr (fst p)" if row: "row \<in> set (left_rows @ right_rows)" for row
  proof -
    have "\<exists>k'. row_key row = Inr k'"
    proof -
      have "mapM_res f xs = Inr ys \<Longrightarrow> x \<in> set xs \<Longrightarrow> \<exists>y. f x = Inr y" for f :: "pyv \<Rightarrow> ((int \<times> int) \<times> pyv) res" and xs ys x
        by (induction xs arbitrary: ys) (auto split: sum.splits)
      then have "\<exists>y. bnd (row_key row) (\<lambda>k. Inr (k, row)) = Inr y" using row i by (auto simp: indexed_def simp del: bnd_Inr_iff)
      then show ?thesis by auto
    qed
    then obtain k' where k': "row_key row = Inr k'" ..
    then have "k' \<in> keyset left" using row k indexed_covers [OF i(1) _ k'] indexed_covers [OF i(2) _ k'] by auto
    then have "k' \<in> fst ` set (paired left right)" using keys fsts by (metis list.set_map)
    then show ?thesis using k' by auto
  qed
  moreover have "l \<in> set left_rows \<and> row_key l = Inr k' \<and> r \<in> set right_rows \<and> row_key r = Inr k'"
    if "(k', l, r) \<in> set (paired left right)" for k' l r
  proof -
    from that have k': "k' \<in> keyset left" "l = the (map_of (rev left) k')" "r = the (map_of (rev right) k')"
      using keys by (auto simp: paired_def)
    then have "(k', l) \<in> set left" "(k', r) \<in> set right"
      using map_of_rev_row [of k' left] map_of_rev_row [of k' right] k by auto
    then show ?thesis using indexed_keys i by blast
  qed
  ultimately show ?thesis
    using sorted_keys_sorted fsts by (auto simp: well_paired_def list_all_iff)
qed

lemma align_matching:
  assumes "align_cases first second = Inr (alignment, pairs)" "dget alignment ''status'' = PStr ''matching''"
  shows "\<exists>left_rows right_rows. bnd (py_path first [''metrics'', ''serving'', ''cases'']) py_iter = Inr left_rows
     \<and> bnd (py_path second [''metrics'', ''serving'', ''cases'']) py_iter = Inr right_rows \<and> well_paired left_rows right_rows pairs"
proof -
  obtain l r left_rows right_rows left right where
    "py_path first [''metrics'', ''serving''] = Inr l" "py_path second [''metrics'', ''serving''] = Inr r"
    "bnd (py_item l ''cases'') py_iter = Inr left_rows" "bnd (py_item r ''cases'') py_iter = Inr right_rows"
    "indexed left_rows = Inr left" "indexed right_rows = Inr right" "keyset left = keyset right" "pairs = paired left right"
    using assms unfolding align_cases_def by (auto simp: dget_rec Let_def split: if_splits)
  then show ?thesis using paired_well by fastforce
qed

section \<open>Properties\<close>

text \<open>C35: when the cases of two records match, the pairs the gates work on are exactly the pairing by
  workload label: every row of either record appears under its own label, each pair holds one row of
  each record with that label, and the labels are distinct and in order, whatever the order of the
  rows in the files.\<close>

theorem aligned_cases_are_paired:
  assumes "align_cases first second = Inr (alignment, pairs)" "dget alignment ''status'' = PStr ''matching''"
  shows "\<exists>left_rows right_rows. bnd (py_path first [''metrics'', ''serving'', ''cases'']) py_iter = Inr left_rows
     \<and> bnd (py_path second [''metrics'', ''serving'', ''cases'']) py_iter = Inr right_rows \<and> well_paired left_rows right_rows pairs"
  by (rule align_matching [OF assms])

definition align_row :: "int \<Rightarrow> pyv" where
  "align_row context_tokens = PDict [(''context_tokens'', PInt context_tokens), (''concurrency'', PInt 1)]"

definition align_demo :: "int list \<Rightarrow> pyv" where
  "align_demo contexts = PDict [(''metrics'', PDict [(''serving'', PDict [(''status'', PStr ''observed''), (''cases'', PList (map align_row contexts))])])]"

lemma align_demo_matches:
  "\<exists>alignment pairs. align_cases (align_demo [2, 1]) (align_demo [1, 2]) = Inr (alignment, pairs) \<and> dget alignment ''status'' = PStr ''matching''"
proof -
  have "(case align_cases (align_demo [2, 1]) (align_demo [1, 2]) of Inr (alignment, _) \<Rightarrow> dget alignment ''status'' = PStr ''matching'' | Inl _ \<Rightarrow> False)"
    by code_simp
  then show ?thesis by (auto split: sum.splits prod.splits)
qed

theorem aligned_cases_are_paired_witness:
  "\<exists>left_rows right_rows pairs. bnd (py_path (align_demo [2, 1]) [''metrics'', ''serving'', ''cases'']) py_iter = Inr left_rows
     \<and> well_paired left_rows right_rows pairs"
  using align_demo_matches aligned_cases_are_paired by blast

text \<open>The rows a serving summary keeps carry integer labels.\<close>

lemma serving_case_key:
  assumes "row_ok (PDict d)" "serving_case d = Inr c"
  shows "row_key (PDict c) = Inr (case_key d)"
proof -
  obtain i j where ij: "dget d ''context_tokens'' = PInt i" "dget d ''concurrency'' = PInt j"
    using assms(1) by (auto simp: row_ok_def int_from_def split: pyv.splits)
  obtain ss where "c = [(''context_tokens'', PInt i), (''concurrency'', PInt j), (''failures'', dget d ''failures'')] @ ss"
    using assms(2) ij by (auto simp: serving_case_def simp del: mapM_res.simps)
  then show ?thesis by (simp add: row_key_def case_int_def item_def case_key_def ij del: item_Inr_iff bnd_Inr_iff)
qed

lemma serving_cases_keys:
  "serving_cases seen rows = Inr (Inr cs) \<Longrightarrow> \<forall>c \<in> set cs. \<exists>k. row_key (PDict c) = Inr k"
proof (induction seen rows arbitrary: cs rule: serving_cases.induct)
  case (2 seen row rows)
  have ok: "row_ok row" using "2.prems" by (auto split: if_splits)
  then obtain d where d: "row = PDict d" by (cases row) (auto simp: row_ok_def)
  have new: "case_key d \<notin> set seen" using "2.prems" ok d by (auto split: if_splits)
  from "2.prems" ok d new obtain c z where z: "catch_value (serving_case d) = Inr (Some c)"
    "serving_cases (case_key d # seen) rows = Inr z" "Inr cs = (case z of Inl reason \<Rightarrow> Inl reason | Inr r \<Rightarrow> Inr (c # r))"
    by (auto split: option.splits)
  obtain rest where c: "catch_value (serving_case d) = Inr (Some c)"
    "serving_cases (case_key d # seen) rows = Inr (Inr rest)" "cs = c # rest"
    using z by (cases z) auto
  have "serving_case d = Inr c" using c(1) by (auto simp: catch_value_def split: sum.splits if_splits)
  then have "\<exists>k. row_key (PDict c) = Inr k" using serving_case_key ok d by blast
  moreover have "\<forall>c \<in> set rest. \<exists>k. row_key (PDict c) = Inr k"
    using "2.IH" ok d new c by simp
  ultimately show ?case using c(3) by simp
qed simp

lemma serving_metrics_shape:
  assumes "serving_metrics result = Inr m"
  shows "(\<exists>s. item m ''status'' = Inr (PStr s) \<and> s \<noteq> ''observed'')
     \<or> (\<exists>cs. item m ''status'' = Inr (PStr ''observed'') \<and> item m ''cases'' = Inr (PList (map PDict cs)) \<and> (\<forall>c \<in> set cs. \<exists>k. row_key (PDict c) = Inr k))"
proof -
  have inc: "item (incomplete_serving s r) ''status'' = Inr (PStr ''incomplete'')" for s r
    by (simp add: incomplete_serving_def item_def del: item_Inr_iff)
  have keys: "\<exists>k. row_key (PDict c) = Inr k" if "serving_cases [] rows = Inr (Inr cs)" "c \<in> set cs" for rows cs c
    using that serving_cases_keys by blast
  consider "m = [(''status'', PStr ''incomplete''), (''reason'', PStr ''serving result is malformed'')]"
    | s r where "m = incomplete_serving s r"
    | s rows z where "serving_cases [] rows = Inr z" "m = (case z of Inl reason \<Rightarrow> incomplete_serving s reason
          | Inr cs \<Rightarrow> [(''status'', PStr ''observed''), (''source_status'', s), (''cases'', PList (map PDict cs))])"
    using assms by (auto simp: serving_metrics_def Let_def simp del: serving_cases.simps split: if_splits)
  then show ?thesis
  proof cases
    case 1
    then show ?thesis by (simp add: item_def del: item_Inr_iff)
  next
    case 2
    then show ?thesis using inc by blast
  next
    case 3
    then show ?thesis using inc keys by (cases z) (auto simp: item_def simp del: item_Inr_iff)
  qed
qed

lemma indexed_total: "\<forall>row \<in> set rows. \<exists>k. row_key row = Inr k \<Longrightarrow> \<exists>kvs. indexed rows = Inr kvs"
  by (induction rows) (auto simp: indexed_def split: sum.splits)

lemma observed_cases_align:
  assumes "py_path first [''metrics'', ''serving''] = Inr (PDict ma)" "py_path second [''metrics'', ''serving''] = Inr (PDict mb)"
    "item ma ''status'' = Inr (PStr ''observed'')" "item mb ''status'' = Inr (PStr ''observed'')"
    "item ma ''cases'' = Inr (PList as)" "item mb ''cases'' = Inr (PList bs)" "indexed as = Inr ias" "indexed bs = Inr ibs"
  shows "\<exists>r. align_cases first second = Inr r"
  using assms by (simp add: align_cases_def status_of_def Let_def del: bnd_Inr_iff item_Inr_iff py_path_simps)

text \<open>C36: two serving summaries, however malformed the results they were made from, can always be
  aligned: no summary the module itself makes leads to a missing key or a type error there.\<close>

theorem serving_summaries_align:
  assumes "serving_metrics a = Inr ma" "serving_metrics b = Inr mb"
    "py_path first [''metrics'', ''serving''] = Inr (PDict ma)" "py_path second [''metrics'', ''serving''] = Inr (PDict mb)"
  shows "\<exists>r. align_cases first second = Inr r"
proof -
  obtain sa where sa: "item ma ''status'' = Inr (PStr sa)" using serving_metrics_shape [OF assms(1)] by blast
  obtain sb where sb: "item mb ''status'' = Inr (PStr sb)" using serving_metrics_shape [OF assms(2)] by blast
  show ?thesis
  proof (cases "sa = ''observed'' \<and> sb = ''observed''")
    case True
    obtain as where as: "item ma ''cases'' = Inr (PList (map PDict as))" "\<forall>c \<in> set as. \<exists>k. row_key (PDict c) = Inr k"
      using serving_metrics_shape [OF assms(1)] sa True by auto
    obtain bs where bs: "item mb ''cases'' = Inr (PList (map PDict bs))" "\<forall>c \<in> set bs. \<exists>k. row_key (PDict c) = Inr k"
      using serving_metrics_shape [OF assms(2)] sb True by auto
    obtain ias where ias: "indexed (map PDict as) = Inr ias" using indexed_total [of "map PDict as"] as(2) by auto
    obtain ibs where ibs: "indexed (map PDict bs) = Inr ibs" using indexed_total [of "map PDict bs"] bs(2) by auto
    show ?thesis using observed_cases_align [OF assms(3,4) _ _ as(1) bs(1) ias ibs] sa sb True by simp
  next
    case False
    then show ?thesis
      using assms(3,4) sa sb
      by (cases "sa = ''observed''") (simp_all add: align_cases_def status_of_def del: bnd_Inr_iff item_Inr_iff py_path_simps)
  qed
qed

theorem serving_summaries_align_witness:
  "\<exists>m r. serving_metrics PNone = Inr m \<and> align_cases (PDict [(''metrics'', PDict [(''serving'', PDict m)])]) (PDict [(''metrics'', PDict [(''serving'', PDict m)])]) = Inr r"
proof -
  obtain m where m: "serving_metrics PNone = Inr m" by (simp add: serving_metrics_def)
  have p: "py_path (PDict [(''metrics'', PDict [(''serving'', PDict m)])]) [''metrics'', ''serving''] = Inr (PDict m)"
    by (simp add: item_def del: item_Inr_iff bnd_Inr_iff)
  show ?thesis using serving_summaries_align [OF m m p p] m by blast
qed

end
