(* ===== verification/Profile_Selection.thy ===== *)
theory Profile_Selection
  imports Profile_Gates
begin

text \<open>
  \<open>lib/workstation/performance_profiles.py\<close>, the comparison of two profiles, the check of a stored
  comparison, the owner's selection and its later status.
\<close>

section \<open>Declared differences\<close>

definition VARIABLES :: "string list" where
  "VARIABLES = [''compiler_backend'', ''image'', ''concurrency'', ''loading_strategy'', ''loading_threads'', ''engine_queue'',
     ''interactive_priority'', ''model'', ''tokenizer'', ''workload'', ''hardware'', ''software'', ''launch'', ''resources'',
     ''quantization'', ''coding_corpus'', ''generation'', ''profile'', ''prefix_state'', ''kv_cache'']"

definition NON_EQUIVALENT_VARIABLES :: "string list" where
  "NON_EQUIVALENT_VARIABLES = [''model'', ''tokenizer'', ''workload'', ''hardware'', ''quantization'', ''resources'', ''concurrency'',
     ''coding_corpus'', ''generation'', ''profile'', ''prefix_state'']"

definition IDENTITY_DECLARATIONS :: "(string \<times> string) list" where
  "IDENTITY_DECLARATIONS = [(''model_revision'', ''model''), (''tokenizer_sha256'', ''tokenizer''), (''workload_sha256'', ''workload''),
     (''hardware_sha256'', ''hardware''), (''software_sha256'', ''software''), (''launch_sha256'', ''launch''), (''quantization'', ''quantization'')]"

definition PRODUCER_DECLARATIONS :: "(string \<times> string) list" where
  "PRODUCER_DECLARATIONS = [(''model_files_sha256'', ''model''), (''model_settings_sha256'', ''model''),
     (''observed_launch_sha256'', ''launch''), (''launch_settings_sha256'', ''launch''), (''resources_sha256'', ''resources'')]"

definition hashable :: "pyv \<Rightarrow> bool" where
  "hashable v = (\<not> is_list v \<and> \<not> is_dict v)"

definition declared_in :: "pyv \<Rightarrow> string \<Rightarrow> bool" where
  "declared_in declared name = (PStr name \<in> set (list_of declared))"

definition check_declared :: "pyv \<Rightarrow> unit res" where
  "check_declared declared =
     guard (is_list declared) ''declared variables are unsupported or duplicated'' (
     if \<not> list_all hashable (list_of declared) then Inl TypeError
     else require (distinct (list_of declared) \<and> set (list_of declared) \<subseteq> PStr ` set VARIABLES)
            ''declared variables are unsupported or duplicated'')"

definition difference_row :: "pyv \<Rightarrow> string \<Rightarrow> pyv \<Rightarrow> pyv \<Rightarrow> string \<Rightarrow> pydict list" where
  "difference_row declared field left right declaration =
     (if py_eq left right then []
      else [[(''field'', PStr field), (''baseline'', left), (''candidate'', right), (''declared_as'', PStr declaration),
             (''declared'', PBool (declared_in declared declaration))]])"

definition identity_difference :: "pyv \<Rightarrow> pyv \<Rightarrow> pyv \<Rightarrow> string \<times> string \<Rightarrow> pydict list res" where
  "identity_difference first second declared kd =
     bnd (py_path first [''identity'', fst kd]) (\<lambda>l. bnd (py_path second [''identity'', fst kd]) (\<lambda>r.
     Inr (difference_row declared (fst kd) l r (snd kd))))"

definition detail :: "pyv \<Rightarrow> string \<Rightarrow> pyv res" where
  "detail v name = bnd (py_get_or v ''producer_condition_details'' (PDict [])) (\<lambda>d. py_get d name)"

definition producer_difference :: "pyv \<Rightarrow> pyv \<Rightarrow> pyv \<Rightarrow> string \<times> string \<Rightarrow> pydict list res" where
  "producer_difference first second declared kd =
     bnd (py_path first [''producer_conditions'', fst kd]) (\<lambda>l. bnd (py_path second [''producer_conditions'', fst kd]) (\<lambda>r.
     if py_eq l r then Inr []
     else bnd (if fst kd = ''observed_launch_sha256''
               then bnd (detail first ''observed_launch'') (\<lambda>l'. bnd (detail second ''observed_launch'') (\<lambda>r'. Inr (l', r')))
               else Inr (l, r)) (\<lambda>(l', r').
          Inr [[(''field'', PStr (''producer.'' @ fst kd)), (''baseline'', l'), (''candidate'', r'), (''declared_as'', PStr (snd kd)),
                (''declared'', PBool (declared_in declared (snd kd)))]])))"

definition variables_of :: "pyv \<Rightarrow> pydict res" where
  "variables_of v = bnd (py_path v [''experiment'', ''variables'']) py_mapping"

definition experiment_difference :: "pyv \<Rightarrow> pyv \<Rightarrow> pyv \<Rightarrow> string \<Rightarrow> pydict list res" where
  "experiment_difference first second declared key =
     bnd (py_path first [''experiment'', key]) (\<lambda>l. bnd (py_path second [''experiment'', key]) (\<lambda>r.
     Inr (difference_row declared key l r key)))"

definition undeclared :: "pydict \<Rightarrow> bool" where
  "undeclared row = (dget row ''declared'' \<noteq> PBool True)"

definition all_differences :: "pyv \<Rightarrow> pyv \<Rightarrow> pyv \<Rightarrow> pydict list res" where
  "all_differences first second declared =
     bnd (mapM_res (identity_difference first second declared) IDENTITY_DECLARATIONS) (\<lambda>a.
     bnd (mapM_res (producer_difference first second declared) PRODUCER_DECLARATIONS) (\<lambda>b.
     bnd (detail first ''experimental_kv'') (\<lambda>l. bnd (detail second ''experimental_kv'') (\<lambda>r.
     bnd (variables_of first) (\<lambda>x. bnd (variables_of second) (\<lambda>y.
     bnd (mapM_res (experiment_difference first second declared) [''profile'', ''prefix_state'']) (\<lambda>d.
     Inr (concat a @ concat b @ difference_row declared ''producer.experimental_kv'' l r ''kv_cache''
          @ concat (map (\<lambda>key. difference_row declared key (dget x key) (dget y key) key) (sort (remdups (map fst x @ map fst y))))
          @ concat d))))))))"

definition differences :: "pyv \<Rightarrow> pyv \<Rightarrow> pyv \<Rightarrow> pydict list res" where
  "differences first second declared =
     bnd (check_declared declared) (\<lambda>_.
     bnd (all_differences first second declared) (\<lambda>rows.
     guard (\<not> list_ex undeclared rows) ''comparison has undeclared or incompatible differences'' (
     guard (\<not> (declared_in declared ''model'' \<and> declared_in declared ''hardware''))
       ''different-model evidence cannot be called GPU scaling'' (Inr rows))))"

definition CODING_FIELDS :: "(string \<times> string) list" where
  "CODING_FIELDS = [(''corpus_sha256'', ''coding_corpus''), (''template_sha256'', ''coding_corpus''), (''generation'', ''generation'')]"

definition coding_difference :: "pyv \<Rightarrow> pyv \<Rightarrow> pyv \<Rightarrow> string \<times> string \<Rightarrow> pydict list res" where
  "coding_difference left right declared fd =
     bnd (py_get left (fst fd)) (\<lambda>l. bnd (py_get right (fst fd)) (\<lambda>r.
     if py_eq l r then Inr []
     else guard (declared_in declared (snd fd)) ''coding evaluation provenance differs without a declared experiment variable'' (
          Inr [[(''field'', PStr (''coding.'' @ fst fd)), (''baseline'', l), (''candidate'', r), (''declared_as'', PStr (snd fd)), (''declared'', PBool True)]])))"

definition coding_differences :: "pyv \<Rightarrow> pyv \<Rightarrow> pyv \<Rightarrow> pydict list res" where
  "coding_differences first second declared =
     bnd (py_path first [''metrics'', ''coding'']) (\<lambda>left. bnd (py_path second [''metrics'', ''coding'']) (\<lambda>right.
     bnd (mapM_res (coding_difference left right declared) CODING_FIELDS) (\<lambda>rows. Inr (concat rows))))"

definition non_equivalent :: "pydict list \<Rightarrow> bool" where
  "non_equivalent rows = list_ex (\<lambda>row. dget row ''declared_as'' \<in> PStr ` set NON_EQUIVALENT_VARIABLES) rows"

section \<open>Checked runs\<close>

definition digest_is :: "penv \<Rightarrow> pyv \<Rightarrow> pyv \<Rightarrow> bool res" where
  "digest_is e sha v = bnd (canonical_digest (p_codec e) v) (\<lambda>s. Inr (sha = PStr s))"

definition artifact_named :: "pydict \<Rightarrow> pyv \<Rightarrow> pyv \<Rightarrow> bool" where
  "artifact_named artifacts artifact source =
     (is_str artifact \<and> is_str source \<and> artifact = dget artifacts (''kernel_runs:'' @ str_of source))"

definition run_bound :: "penv \<Rightarrow> pydict \<Rightarrow> pyv \<Rightarrow> pyv \<Rightarrow> pydict \<Rightarrow> bool res" where
  "run_bound e r run baseline quality =
     (let artifacts = dget r ''artifact_sha256''; details = dict_of_v (dget r ''producer_condition_details'');
          conditions = dget r ''producer_conditions'' in
      andM (digest_is e (dget r ''quality_run_sha256'') run)
      (andM (digest_is e (dget r ''quality_baseline_run_sha256'') baseline)
      (andM (digest_is e (dget quality ''candidate_sha256'') run)
      (andM (digest_is e (dget quality ''baseline_sha256'') baseline)
      (andM (Inr (is_dict artifacts
               \<and> artifact_named (dict_of_v artifacts) (dget r ''quality_run_artifact_sha256'') (dget r ''quality_run_source'')
               \<and> artifact_named (dict_of_v artifacts) (dget r ''quality_baseline_run_artifact_sha256'') (dget r ''quality_baseline_run_source'')
               \<and> is_dict (dget r ''producer_condition_details'') \<and> is_dict conditions))
      (andM (bnd (py_path run [''identity'', ''runtime'']) (\<lambda>runtime. bnd (normalized_observed_launch runtime) (\<lambda>launch.
               Inr (py_eq (dget details ''observed_launch'') (PDict launch)))))
      (andM (digest_is e (dget (dict_of_v conditions) ''observed_launch_sha256'') (dget details ''observed_launch''))
            (checked_run_matches_profile (p_codec e) run (dget r ''identity'') conditions (dget details ''experimental_kv'')))))))))"

text \<open>\<open>compare_quality\<close> with the tolerances of a retained result, inside \<open>try\<close>: \<open>None\<close>
  stands for an exception the handler takes.\<close>

definition attempt :: "'a res \<Rightarrow> 'a option res" where
  "attempt m = (case m of Inr x \<Rightarrow> Inr (Some x) | Inl e \<Rightarrow> if malformed e then Inr None else Inl e)"

definition requality :: "penv \<Rightarrow> pyv \<Rightarrow> pyv \<Rightarrow> pydict \<Rightarrow> pydict res" where
  "requality e baseline run quality =
     bnd (item quality ''quality'') (\<lambda>tolerances. bnd (py_item tolerances ''atol'') (\<lambda>atol. bnd (py_item tolerances ''rtol'') (\<lambda>rtol.
     compare_quality e baseline run atol rtol (dget quality ''comparison'' = PStr ''host-memory-only'')
       (dget quality ''comparison'' = PStr ''experimental-kv''))))"

definition retained_quality_run :: "penv \<Rightarrow> pyv \<Rightarrow> pyv res" where
  "retained_quality_run e rec =
     bnd (py_get rec ''quality_run'') (\<lambda>run. let r = dict_of_v rec; baseline = dget r ''quality_baseline_run''; quality = dget r ''quality_result'' in
     if \<not> (is_dict run \<and> is_dict baseline \<and> is_dict quality) then Inr PNone
     else bnd (run_bound e r run baseline (dict_of_v quality)) (\<lambda>own.
          if \<not> own then Inr PNone
          else bnd (attempt (requality e baseline run (dict_of_v quality))) (\<lambda>again.
               Inr (case again of Some q \<Rightarrow> if py_eq (PDict q) quality then run else PNone | None \<Rightarrow> PNone))))"

definition cross_result :: "penv \<Rightarrow> pyv \<Rightarrow> pyv \<Rightarrow> pydict \<Rightarrow> pydict \<Rightarrow> pydict res" where
  "cross_result e baseline candidate q1 q2 =
     bnd (item q1 ''quality'') (\<lambda>left. bnd (item q2 ''quality'') (\<lambda>right.
     bnd (py_get left ''atol'') (\<lambda>a1. bnd (py_get right ''atol'') (\<lambda>a2.
     guardM (andM (Inr (py_eq a1 a2)) (bnd (py_get left ''rtol'') (\<lambda>r1. bnd (py_get right ''rtol'') (\<lambda>r2. Inr (py_eq r1 r2)))))
       ''quality tolerances differ'' (
     bnd (py_item left ''atol'') (\<lambda>atol. bnd (py_item left ''rtol'') (\<lambda>rtol.
     compare_quality e baseline candidate atol rtol False
       (dget q1 ''comparison'' = PStr ''experimental-kv'' \<or> dget q2 ''comparison'' = PStr ''experimental-kv''))))))))"

definition incomplete_quality :: "string \<Rightarrow> string \<Rightarrow> pydict" where
  "incomplete_quality status reason = [(''status'', PStr status), (''reason'', PStr reason)]"

definition cross_profile_quality :: "penv \<Rightarrow> pyv \<Rightarrow> pyv \<Rightarrow> pydict list \<Rightarrow> pydict res" where
  "cross_profile_quality e first second declared_differences =
     bnd (retained_quality_run e first) (\<lambda>baseline. bnd (retained_quality_run e second) (\<lambda>candidate.
     let q1 = dget (dict_of_v first) ''quality_result''; q2 = dget (dict_of_v second) ''quality_result'' in
     if \<not> (is_dict baseline \<and> is_dict candidate \<and> is_dict q1 \<and> is_dict q2)
     then Inr (incomplete_quality ''incomplete'' ''matched cross-profile kernel runs are unavailable'')
     else if non_equivalent declared_differences
     then Inr (incomplete_quality ''declared-variant'' ''declared non-equivalent conditions require separate quality review'')
     else bnd (attempt (cross_result e baseline candidate (dict_of_v q1) (dict_of_v q2))) (\<lambda>result. case result of
            None \<Rightarrow> Inr (incomplete_quality ''incomplete'' ''matched cross-profile kernel runs or tolerances differ'')
          | Some q \<Rightarrow> bnd (canonical_digest (p_codec e) baseline) (\<lambda>b. bnd (canonical_digest (p_codec e) candidate) (\<lambda>d.
              Inr [(''status'', PStr ''passed''), (''baseline_sha256'', PStr b), (''candidate_sha256'', PStr d), (''result'', PDict q)])))))"

section \<open>The comparison\<close>

definition side_gates :: "pyv \<Rightarrow> pydict res" where
  "side_gates v =
     bnd (py_path v [''metrics'', ''numerical_quality'', ''status'']) (\<lambda>numerical. bnd (py_path v [''metrics'', ''coding'', ''status'']) (\<lambda>coding.
     Inr [(''numerical'', numerical), (''coding'', coding)]))"

definition all_passed :: "pydict \<Rightarrow> bool" where
  "all_passed side = list_all (\<lambda>kv. snd kv = PStr ''passed'') side"

definition zero_failures :: "pyv \<Rightarrow> bool res" where
  "zero_failures row = bnd (py_item row ''failures'') (\<lambda>n. Inr (py_eq n (PInt 0)))"

definition throughput_observed :: "pyv \<Rightarrow> bool res" where
  "throughput_observed row = bnd (py_item row ''throughput'') (\<lambda>t. status_of t ''observed'')"

definition both_measured :: "pyv \<Rightarrow> pyv \<Rightarrow> bool" where
  "both_measured a b = (py_eq a b \<and> b = PStr ''measured-not-qualified'')"

definition measurements_ready :: "pyv \<Rightarrow> pyv \<Rightarrow> pairing \<Rightarrow> bool res" where
  "measurements_ready first second pairs =
     andM (bnd (py_item first ''status'') (\<lambda>a. bnd (py_item second ''status'') (\<lambda>b. Inr (both_measured a b))))
     (andM (bnd (py_path first [''metrics'', ''serving'']) (\<lambda>base. bnd (py_path second [''metrics'', ''serving'']) (\<lambda>other.
              bnd (py_get base ''source_status'') (\<lambda>a. bnd (py_get other ''source_status'') (\<lambda>b. Inr (both_measured a b))))))
     (andM (allM (\<lambda>(_, l, _). zero_failures l) pairs)
     (andM (allM (\<lambda>(_, _, r). zero_failures r) pairs)
           (allM (\<lambda>(_, l, r). andM (throughput_observed l) (throughput_observed r)) pairs))))"

definition noisy_gain :: "pydict \<Rightarrow> bool res" where
  "noisy_gain row = bnd (py_abs (dget row ''gain_percent'')) (\<lambda>a. py_le a (dget row ''required_gain_over_noise_percent''))"

definition py_neg :: "pyv \<Rightarrow> pyv res" where
  "py_neg v = py_sub (PInt 0) v"

record judged =
  u_matching :: bool
  u_equivalent :: bool
  u_quality :: bool
  u_startup :: pyv
  u_latency :: pyv
  u_memory :: pyv
  u_throughput :: pyv
  u_gains :: "pydict list"

definition smallest_gain :: "pydict list \<Rightarrow> pyv res" where
  "smallest_gain gains = (if gains = [] then Inr PNone else py_min (map (\<lambda>row. dget row ''gain_percent'') gains))"

text \<open>The chain of tests over a measured pair: the outcome and whether the candidate is recommended.\<close>

definition gain_outcome :: "pydict \<Rightarrow> pydict list \<Rightarrow> pyv \<Rightarrow> (string \<times> bool) res" where
  "gain_outcome limits gains gain =
     bnd (anyM noisy_gain gains) (\<lambda>noisy.
     if noisy then Inr (''inconclusive-noisy'', False)
     else bnd (py_le (dget limits ''minimum_practical_gain_percent'') gain) (\<lambda>enough.
     if enough then Inr (''candidate-improves-throughput'', True)
     else bnd (bnd (py_neg (dget limits ''maximum_regression_percent'')) (py_le gain)) (\<lambda>worse.
     Inr (if worse then ''candidate-regresses-throughput'' else ''inconclusive'', False))))"

definition measured_outcome :: "pydict \<Rightarrow> judged \<Rightarrow> pyv \<Rightarrow> (string \<times> bool) res" where
  "measured_outcome limits u gain =
     (if \<not> (u_matching u \<and> u_equivalent u) then Inr (''inconclusive-incomparable-conditions'', False)
      else if \<not> u_quality u then Inr (''inconclusive-quality-evidence'', False)
      else if u_startup u = PStr ''regressed'' then Inr (''candidate-regresses-startup'', False)
      else if u_startup u \<noteq> PStr ''passed'' then Inr (''inconclusive-incomplete-startup-evidence'', False)
      else if u_latency u = PStr ''regressed'' then Inr (''candidate-regresses-serving-latency-or-ttft'', False)
      else if u_latency u \<noteq> PStr ''passed'' then Inr (''inconclusive-incomplete-serving-latency-evidence'', False)
      else if u_memory u \<noteq> PStr ''passed'' then Inr (''inconclusive-adverse-memory-evidence'', False)
      else if u_throughput u \<noteq> PStr ''passed'' \<or> gain = PNone then Inr (''inconclusive-incomplete-serving-throughput-evidence'', False)
      else gain_outcome limits (u_gains u) gain)"

definition decide :: "pydict \<Rightarrow> judged \<Rightarrow> bool \<Rightarrow> pyv \<Rightarrow> (string \<times> bool \<times> pyv) res" where
  "decide limits u ready alignment =
     (if ready then bnd (smallest_gain (u_gains u)) (\<lambda>gain. bnd (measured_outcome limits u gain) (\<lambda>(outcome, adopt). Inr (outcome, adopt, gain)))
      else Inr (if alignment = PStr ''incompatible'' then ''inconclusive-incompatible-cases''
                else if alignment = PStr ''incomplete'' then ''inconclusive-incomplete-serving-evidence'' else ''inconclusive'', False, PNone))"

record gate_results =
  g_startup :: pydict
  g_latency :: pydict
  g_memory :: pydict
  g_throughput :: pydict
  g_gains :: "pydict list"

definition performance_gates :: "pyv \<Rightarrow> pyv \<Rightarrow> pairing \<Rightarrow> pydict \<Rightarrow> gate_results res" where
  "performance_gates first second pairs limits =
     bnd (startup_gate first second (dget limits ''maximum_regression_percent'')) (\<lambda>startup.
     bnd (serving_latency_gate pairs (dget limits ''maximum_regression_percent'')) (\<lambda>latency.
     bnd (memory_gate first second) (\<lambda>memory.
     bnd (throughput_gate pairs (dget limits ''noise_percent'')) (\<lambda>(gains, throughput).
     Inr \<lparr>g_startup = startup, g_latency = latency, g_memory = memory, g_throughput = throughput, g_gains = gains\<rparr>))))"

definition gates_value :: "gate_results \<Rightarrow> pyv" where
  "gates_value g = PDict [(''startup'', PDict (g_startup g)), (''serving_latency'', PDict (g_latency g)),
     (''memory'', PDict (g_memory g)), (''throughput'', PDict (g_throughput g))]"

definition quality_gates :: "pydict \<Rightarrow> pydict \<Rightarrow> pydict \<Rightarrow> bool \<Rightarrow> pydict" where
  "quality_gates b d cross variant = [(''baseline'', PDict b), (''candidate'', PDict d), (''cross_profile'', PDict cross),
     (''provenance'', PStr (if variant then ''declared-variant'' else ''matching''))]"

definition quality_passed :: "pydict \<Rightarrow> pydict \<Rightarrow> pydict \<Rightarrow> bool \<Rightarrow> bool" where
  "quality_passed b d cross variant = (all_passed b \<and> all_passed d \<and> dget cross ''status'' = PStr ''passed'' \<and> \<not> variant)"

definition judge :: "pydict \<Rightarrow> pydict list \<Rightarrow> bool \<Rightarrow> gate_results \<Rightarrow> judged" where
  "judge alignment rows quality g =
     \<lparr>u_matching = (dget alignment ''status'' = PStr ''matching''), u_equivalent = (\<not> non_equivalent rows), u_quality = quality,
      u_startup = dget (g_startup g) ''status'', u_latency = dget (g_latency g) ''status'', u_memory = dget (g_memory g) ''status'',
      u_throughput = dget (g_throughput g) ''status'', u_gains = g_gains g\<rparr>"

definition LIMITATIONS :: "string list" where
  "LIMITATIONS =
     [''Small/noisy changes are inconclusive; do not select by a single token-rate maximum.'',
      ''A candidate recommendation requires complete startup and serving latency/TTFT evidence, and no known adverse memory evidence.'',
      ''Cold/warm startup, load/JIT/warmup and steady serving remain separately reported where evidence exists.'',
      ''A selected profile is configuration only and never deploys or restarts a workload.'']"

definition report_value ::
  "pyv \<Rightarrow> pyv \<Rightarrow> pyv \<Rightarrow> pydict list \<Rightarrow> pydict \<Rightarrow> pydict \<Rightarrow> string \<times> bool \<times> pyv \<Rightarrow> pydict \<Rightarrow> gate_results \<Rightarrow> pydict" where
  "report_value first second declared rows alignment limits verdict quality g =
     [(''schema'', PInt 1), (''kind'', PStr ''workstation-performance-comparison''), (''status'', PStr ''comparison-not-qualified''),
      (''baseline'', first), (''candidate'', second), (''declared_variables'', declared), (''differences'', PList (map PDict rows)),
      (''case_alignment'', PDict alignment), (''thresholds'', PDict limits), (''outcome'', PStr (fst verdict)),
      (''minimum_case_throughput_gain_percent'', snd (snd verdict)), (''quality_gates'', PDict quality),
      (''performance_gates'', gates_value g),
      (''recommendation'', PStr (if fst (snd verdict) then ''candidate'' else ''retain-baseline'')),
      (''limitations'', PList (map PStr LIMITATIONS))]"

definition declared_rows :: "pyv \<Rightarrow> pyv \<Rightarrow> pyv \<Rightarrow> (pydict list \<times> bool) res" where
  "declared_rows first second declared =
     bnd (differences first second declared) (\<lambda>rows. bnd (coding_differences first second declared) (\<lambda>coding.
     Inr (rows @ coding, coding \<noteq> [])))"

definition both_sides :: "pyv \<Rightarrow> pyv \<Rightarrow> (pydict \<times> pydict) res" where
  "both_sides first second = bnd (side_gates first) (\<lambda>b. bnd (side_gates second) (\<lambda>d. Inr (b, d)))"

definition comparison_record :: "penv \<Rightarrow> pyv \<Rightarrow> pyv \<Rightarrow> pyv \<Rightarrow> pyv \<Rightarrow> pydict res" where
  "comparison_record e first second declared thresholds =
     bnd (py_item first ''profile_id'') (\<lambda>b_id. bnd (py_item second ''profile_id'') (\<lambda>d_id.
     guard (\<not> py_eq b_id d_id) ''baseline and candidate profile IDs must differ'' (
     bnd (declared_rows first second declared) (\<lambda>(rows, variant).
     bnd (cross_profile_quality e first second rows) (\<lambda>cross.
     bnd (policy thresholds) (\<lambda>limits.
     bnd (align_cases first second) (\<lambda>(alignment, pairs).
     bnd (both_sides first second) (\<lambda>(b, d).
     bnd (performance_gates first second pairs limits) (\<lambda>g.
     bnd (measurements_ready first second pairs) (\<lambda>ready.
     bnd (decide limits (judge alignment rows (quality_passed b d cross variant) g) (ready \<and> pairs \<noteq> []) (dget alignment ''status'')) (\<lambda>verdict.
     Inr (report_value first second declared rows alignment limits verdict (quality_gates b d cross variant) g))))))))))))"

section \<open>Checking, selecting and later status\<close>

definition thresholds_again :: "pyv \<Rightarrow> pyv" where
  "thresholds_again v = (case v of PDict d \<Rightarrow> PDict (foldl (\<lambda>a kv. dset a (fst kv) (snd kv)) [(''schema'', PInt 1)] d) | _ \<Rightarrow> PNone)"

definition recomputed :: "penv \<Rightarrow> pydict \<Rightarrow> (pydict \<times> string \<times> string) res" where
  "recomputed e d =
     bnd (item d ''thresholds'') (\<lambda>thresholds.
     bnd (item d ''baseline'') (\<lambda>first. bnd (item d ''candidate'') (\<lambda>second. bnd (item d ''declared_variables'') (\<lambda>declared.
     bnd (comparison_record e first second declared (thresholds_again thresholds)) (\<lambda>expected.
     bnd (c_dumps (p_codec e) (sort_keys (PDict d))) (\<lambda>actual. bnd (c_dumps (p_codec e) (sort_keys (PDict expected))) (\<lambda>canonical_text.
     Inr (expected, actual, canonical_text))))))))"

definition validate_comparison :: "penv \<Rightarrow> pyv \<Rightarrow> pydict res" where
  "validate_comparison e comparison =
     guard (is_dict comparison) ''unsupported comparison record'' (
     case recomputed e (dict_of_v comparison) of
       Inl x \<Rightarrow> Inl (if malformed x then ValueError ''comparison record is malformed'' else x)
     | Inr (expected, actual, canonical_text) \<Rightarrow>
         guard (actual = canonical_text) ''comparison record does not match its inspected evidence and declared policy'' (Inr expected))"

definition lenient_digest :: "penv \<Rightarrow> pyv \<Rightarrow> string" where
  "lenient_digest e v = c_digest (p_codec e) (p_lenient e (sort_keys v))"

definition kv_selectable :: "penv \<Rightarrow> pyv \<Rightarrow> pyv \<Rightarrow> unit res" where
  "kv_selectable e candidate descriptor =
     (if descriptor = PNone then Inr ()
      else bnd (py_get_or candidate ''quality_run'' (PDict [])) (\<lambda>run. bnd (py_get_or run ''identity'' (PDict [])) (\<lambda>ident.
           bnd (py_get ident ''runtime'') (\<lambda>runtime.
           guard (is_dict runtime \<and> py_eq (dget (dict_of_v runtime) ''experimental_kv'') descriptor)
             ''experimental KV selection lacks retained checked runtime evidence'' (
           bnd (experimental_kv_descriptor (p_codec e) runtime True) (\<lambda>_. Inr ()))))))"

definition previous_value :: "penv \<Rightarrow> pyv \<Rightarrow> pyv res" where
  "previous_value e previous =
     (if previous = PNone then Inr PNone
      else bnd (py_get previous ''schema'') (\<lambda>schema. let d = dict_of_v previous in
           guard (py_eq schema (PInt 1) \<and> dget d ''kind'' = PStr ''workstation-measured-profile-selection'') ''unsupported previous selection'' (
           bnd (item d ''selected_profile_id'') (\<lambda>profile.
           Inr (PDict [(''profile_id'', profile), (''selection_sha256'', PStr (lenient_digest e previous))])))))"

definition SELECTION_LIMITATIONS :: "string list" where
  "SELECTION_LIMITATIONS =
     [''Owner selection retains the prior baseline and does not apply a source patch or start a workload.'',
      ''Qualification is stale after a relevant runtime, model, launch, software, or hardware identity change.'']"

definition selection_value :: "penv \<Rightarrow> pydict \<Rightarrow> string \<Rightarrow> string \<Rightarrow> pyv \<Rightarrow> pyv \<Rightarrow> pydict res" where
  "selection_value e d owner candidate_id previous descriptor =
     bnd (item d ''baseline'') (\<lambda>baseline. bnd (item d ''candidate'') (\<lambda>candidate.
     bnd (py_item baseline ''profile_id'') (\<lambda>baseline_id.
     bnd (py_item candidate ''identity'') (\<lambda>ident.
     bnd (py_item candidate ''manifest_sha256'') (\<lambda>candidate_manifest. bnd (py_item baseline ''manifest_sha256'') (\<lambda>baseline_manifest.
     bnd (py_item candidate ''producer_conditions'') (\<lambda>conditions.
     Inr ([(''schema'', PInt 1), (''kind'', PStr ''workstation-measured-profile-selection''), (''status'', PStr ''selected-unqualified''),
        (''owner'', PStr owner), (''selected_profile_id'', PStr candidate_id), (''baseline_profile_id'', baseline_id),
        (''previous_selection'', previous), (''comparison_sha256'', PStr (lenient_digest e (PDict d))),
        (''runtime_identity'', ident),
        (''evidence'', PDict [(''candidate_manifest_sha256'', candidate_manifest), (''baseline_manifest_sha256'', baseline_manifest)]),
        (''producer_conditions'', conditions), (''selection_reason'', dget d ''recommendation''),
        (''limitations'', PList (map PStr SELECTION_LIMITATIONS))]
        @ (if descriptor = PNone then [] else [(''experimental_kv'', descriptor)])))))))))"

definition select :: "penv \<Rightarrow> pyv \<Rightarrow> pyv \<Rightarrow> pyv \<Rightarrow> pyv \<Rightarrow> pydict res" where
  "select e comparison owner candidate_id previous =
     bnd (validate_comparison e comparison) (\<lambda>d.
     bnd (safe_id owner ''owner'') (\<lambda>own. bnd (safe_id candidate_id ''candidate ID'') (\<lambda>chosen.
     bnd (bnd (item d ''candidate'') (\<lambda>v. py_item v ''profile_id'')) (\<lambda>profile.
     guard (py_eq (PStr chosen) profile) ''selection must name the comparison candidate exactly'' (
     guard (dget d ''recommendation'' = PStr ''candidate'') ''candidate is not eligible for selection from this comparison'' (
     bnd (detail (dget d ''candidate'') ''experimental_kv'') (\<lambda>descriptor.
     bnd (kv_selectable e (dget d ''candidate'') descriptor) (\<lambda>_.
     bnd (previous_value e previous) (\<lambda>prior.
     selection_value e d own chosen prior descriptor)))))))))"

definition join :: "string \<Rightarrow> string list \<Rightarrow> string" where
  "join sep xs = (case xs of [] \<Rightarrow> [] | y # ys \<Rightarrow> y @ concat (map (\<lambda>z. sep @ z) ys))"

definition status_value :: "string \<Rightarrow> pydict \<Rightarrow> string list \<Rightarrow> pydict \<Rightarrow> string \<Rightarrow> pydict res" where
  "status_value status selection changed conditions reason =
     bnd (item selection ''selected_profile_id'') (\<lambda>profile.
     Inr ([(''schema'', PInt 1), (''kind'', PStr ''workstation-measured-profile-status''), (''status'', PStr status),
      (''selected_profile_id'', profile), (''changed_identity_fields'', PList (map PStr changed))] @ conditions @ [(''reason'', PStr reason)]))"

definition changed_conditions :: "string list \<Rightarrow> pydict" where
  "changed_conditions names = [(''changed_condition_fields'', PList (map PStr names))]"

text \<open>The part after the identities have been found equal.\<close>

definition current_status :: "codec \<Rightarrow> pydict \<Rightarrow> pyv \<Rightarrow> pyv \<Rightarrow> pydict res" where
  "current_status c selection conditions descriptor =
     (let chosen = dget selection ''producer_conditions''; chosen_kv = dget selection ''experimental_kv'';
          unknown = (\<lambda>reason. status_value ''unknown'' selection [] [] reason) in
      if \<not> valid_producer_conditions chosen then unknown ''selected profile lacks normalized source conditions''
      else if \<not> valid_producer_conditions conditions then unknown ''current identity observation lacks normalized source conditions''
      else bnd (if chosen_kv = PNone then Inr True else valid_stable_experimental_kv_descriptor c chosen_kv) (\<lambda>chosen_ok.
      if \<not> chosen_ok then unknown ''selected profile experimental KV descriptor is malformed''
      else if chosen_kv \<noteq> PNone \<and> descriptor = PNone then unknown ''current identity observation lacks experimental KV execution descriptor''
      else bnd (if descriptor = PNone then Inr True else valid_stable_experimental_kv_descriptor c descriptor) (\<lambda>current_ok.
      if \<not> current_ok then unknown ''current identity experimental KV descriptor is malformed''
      else if \<not> py_eq chosen_kv descriptor
      then status_value ''stale'' selection [] (changed_conditions [''experimental_kv'']) ''selected profile experimental KV descriptor changed''
      else let names = filter (\<lambda>key. \<not> py_eq (dget (dict_of_v conditions) key) (dget (dict_of_v chosen) key)) (sort (map fst (dict_of_v chosen))) in
           status_value (if names = [] then ''selected-unqualified-current'' else ''stale'') selection [] (changed_conditions names)
             (if names = [] then ''current identity matches the selected unqualified profile''
              else ''selected profile source conditions changed: '' @ join '', '' names))))"

definition selection_status :: "codec \<Rightarrow> pyv \<Rightarrow> pyv \<Rightarrow> pyv \<Rightarrow> pyv \<Rightarrow> pydict res" where
  "selection_status c selection identity_now conditions descriptor =
     bnd (py_get selection ''schema'') (\<lambda>schema. let d = dict_of_v selection; now = dict_of_v identity_now in
     guard (py_eq schema (PInt 1) \<and> dget d ''kind'' = PStr ''workstation-measured-profile-selection'') ''unsupported selection'' (
     guard (is_dict identity_now \<and> has_keys now IDENTITY) ''current identity is incomplete'' (
     bnd (item d ''runtime_identity'') (\<lambda>chosen. bnd (py_get chosen ''model_revision'') (\<lambda>_.
     let changed = filter (\<lambda>key. \<not> py_eq (dget now key) (dget (dict_of_v chosen) key)) IDENTITY in
     if changed \<noteq> []
     then status_value ''stale'' d changed (changed_conditions []) (''selected profile identity changed: '' @ join '', '' changed)
     else current_status c d conditions descriptor)))))"

section \<open>Lemmas\<close>

lemma gain_outcome_True:
  "gain_outcome limits gains gain = Inr (outcome, True) \<Longrightarrow>
     anyM noisy_gain gains = Inr False \<and> py_le (dget limits ''minimum_practical_gain_percent'') gain = Inr True"
  by (auto simp: gain_outcome_def split: if_splits)

lemma measured_outcome_True:
  "measured_outcome limits u gain = Inr (outcome, True) \<Longrightarrow>
     u_matching u \<and> u_equivalent u \<and> u_quality u \<and> u_startup u = PStr ''passed'' \<and> u_latency u = PStr ''passed''
     \<and> u_memory u = PStr ''passed'' \<and> u_throughput u = PStr ''passed'' \<and> gain \<noteq> PNone
     \<and> gain_outcome limits (u_gains u) gain = Inr (outcome, True)"
  by (auto simp: measured_outcome_def split: if_splits)

lemma decide_True:
  "decide limits u ready alignment = Inr (outcome, True, gain) \<Longrightarrow>
     ready \<and> smallest_gain (u_gains u) = Inr gain \<and> measured_outcome limits u gain = Inr (outcome, True)"
  by (auto simp: decide_def split: if_splits)

lemma comparison_record_Inr:
  assumes "comparison_record e first second declared thresholds = Inr d"
  shows "\<exists>rows variant cross limits alignment pairs b c g ready verdict.
     declared_rows first second declared = Inr (rows, variant) \<and> cross_profile_quality e first second rows = Inr cross
     \<and> policy thresholds = Inr limits \<and> align_cases first second = Inr (alignment, pairs) \<and> both_sides first second = Inr (b, c)
     \<and> performance_gates first second pairs limits = Inr g \<and> measurements_ready first second pairs = Inr ready
     \<and> decide limits (judge alignment rows (quality_passed b c cross variant) g) (ready \<and> pairs \<noteq> []) (dget alignment ''status'') = Inr verdict
     \<and> d = report_value first second declared rows alignment limits verdict (quality_gates b c cross variant) g"
proof -
  obtain rows variant cross limits alignment pairs b c g ready verdict where
    "declared_rows first second declared = Inr (rows, variant)" "cross_profile_quality e first second rows = Inr cross"
    "policy thresholds = Inr limits" "align_cases first second = Inr (alignment, pairs)" "both_sides first second = Inr (b, c)"
    "performance_gates first second pairs limits = Inr g" "measurements_ready first second pairs = Inr ready"
    "decide limits (judge alignment rows (quality_passed b c cross variant) g) (ready \<and> pairs \<noteq> []) (dget alignment ''status'') = Inr verdict"
    "d = report_value first second declared rows alignment limits verdict (quality_gates b c cross variant) g"
    using assms unfolding comparison_record_def by (auto split: prod.splits)
  then show ?thesis by blast
qed

lemma report_value_keys:
  "dget (report_value first second declared rows alignment limits verdict quality g) ''candidate'' = second"
  "dget (report_value first second declared rows alignment limits verdict quality g) ''baseline'' = first"
  "dget (report_value first second declared rows alignment limits verdict quality g) ''recommendation''
     = PStr (if fst (snd verdict) then ''candidate'' else ''retain-baseline'')"
  by (simp_all add: report_value_def dget_rec)

lemma validate_comparison_Inr:
  "validate_comparison e comparison = Inr d \<Longrightarrow>
     \<exists>c first second declared thresholds. comparison = PDict c \<and> map_of c ''baseline'' = Some first \<and> map_of c ''candidate'' = Some second
       \<and> map_of c ''declared_variables'' = Some declared \<and> map_of c ''thresholds'' = Some thresholds
       \<and> comparison_record e first second declared (thresholds_again thresholds) = Inr d"
  by (auto simp: validate_comparison_def recomputed_def type_test_iff split: sum.splits)

lemma safe_id_Inr: "safe_id v name = Inr s \<Longrightarrow> v = PStr s \<and> id_token s"
  by (auto simp: safe_id_def split: pyv.splits)

lemma select_Inr:
  assumes "select e comparison owner candidate_id previous = Inr sel"
  shows "\<exists>d own chosen descriptor prior v. validate_comparison e comparison = Inr d \<and> candidate_id = PStr chosen \<and> id_token chosen
     \<and> map_of d ''candidate'' = Some v \<and> py_item v ''profile_id'' = Inr (PStr chosen)
     \<and> dget d ''recommendation'' = PStr ''candidate''
     \<and> detail v ''experimental_kv'' = Inr descriptor \<and> kv_selectable e v descriptor = Inr ()
     \<and> selection_value e d own chosen prior descriptor = Inr sel"
proof -
  obtain d own chosen descriptor prior profile v where d: "validate_comparison e comparison = Inr d" "safe_id candidate_id ''candidate ID'' = Inr chosen"
    "map_of d ''candidate'' = Some v" "py_item v ''profile_id'' = Inr profile" "py_eq (PStr chosen) profile"
    "dget d ''recommendation'' = PStr ''candidate''"
    "detail (dget d ''candidate'') ''experimental_kv'' = Inr descriptor" "kv_selectable e (dget d ''candidate'') descriptor = Inr ()"
    "selection_value e d own chosen prior descriptor = Inr sel"
    using assms unfolding select_def by (auto simp del: py_eq.simps dget_Some)
  have v: "dget d ''candidate'' = v" using d(3) by simp
  have profile: "profile = PStr chosen" using d(5) by simp
  show ?thesis
    using d(1) safe_id_Inr [OF d(2)] d(3) d(4) [unfolded profile] d(6) d(7) [unfolded v] d(8) [unfolded v] d(9) by blast
qed

lemma both_sides_Inr:
  "both_sides first second = Inr (b, d) \<Longrightarrow> all_passed b \<Longrightarrow> all_passed d \<Longrightarrow>
     list_all (\<lambda>v. py_path v [''metrics'', ''numerical_quality'', ''status''] = Inr (PStr ''passed'')
       \<and> py_path v [''metrics'', ''coding'', ''status''] = Inr (PStr ''passed'')) [first, second]"
  by (auto simp: both_sides_def side_gates_def all_passed_def simp del: py_path_simps)

lemma performance_gates_Inr:
  "performance_gates first second pairs limits = Inr g \<Longrightarrow>
     startup_gate first second (dget limits ''maximum_regression_percent'') = Inr (g_startup g)
     \<and> serving_latency_gate pairs (dget limits ''maximum_regression_percent'') = Inr (g_latency g)
     \<and> memory_gate first second = Inr (g_memory g)
     \<and> throughput_gate pairs (dget limits ''noise_percent'') = Inr (g_gains g, g_throughput g)"
  by (auto simp: performance_gates_def)

text \<open>What a recommending comparison says of its two records.\<close>

lemma recommended_outcome:
  assumes "decide limits (judge alignment rows quality g) ready a = Inr (outcome, True, gain)"
  shows "ready \<and> dget alignment ''status'' = PStr ''matching'' \<and> \<not> non_equivalent rows \<and> quality
     \<and> dget (g_startup g) ''status'' = PStr ''passed'' \<and> dget (g_latency g) ''status'' = PStr ''passed''
     \<and> dget (g_memory g) ''status'' = PStr ''passed'' \<and> dget (g_throughput g) ''status'' = PStr ''passed''
     \<and> smallest_gain (g_gains g) = Inr gain \<and> list_all (\<lambda>row. noisy_gain row = Inr False) (g_gains g)
     \<and> py_le (dget limits ''minimum_practical_gain_percent'') gain = Inr True"
proof -
  note judged = decide_True [OF assms]
  note passed = measured_outcome_True [OF conjunct2 [OF conjunct2 [OF judged]]]
  show ?thesis
    using judged passed gain_outcome_True [of limits "g_gains g" gain outcome] by (simp add: judge_def list_all_iff)
qed

lemma recommended_record:
  assumes "comparison_record e first second declared thresholds = Inr d" "dget d ''recommendation'' = PStr ''candidate''"
  shows "\<exists>rows variant cross limits alignment pairs b b' g gain.
     declared_rows first second declared = Inr (rows, variant) \<and> policy thresholds = Inr limits
     \<and> cross_profile_quality e first second rows = Inr cross \<and> measurements_ready first second pairs = Inr True
     \<and> align_cases first second = Inr (alignment, pairs) \<and> both_sides first second = Inr (b, b')
     \<and> performance_gates first second pairs limits = Inr g \<and> pairs \<noteq> []
     \<and> dget alignment ''status'' = PStr ''matching'' \<and> \<not> non_equivalent rows \<and> quality_passed b b' cross variant
     \<and> dget (g_startup g) ''status'' = PStr ''passed'' \<and> dget (g_latency g) ''status'' = PStr ''passed''
     \<and> dget (g_memory g) ''status'' = PStr ''passed'' \<and> dget (g_throughput g) ''status'' = PStr ''passed''
     \<and> smallest_gain (g_gains g) = Inr gain \<and> list_all (\<lambda>row. noisy_gain row = Inr False) (g_gains g)
     \<and> py_le (dget limits ''minimum_practical_gain_percent'') gain = Inr True \<and> dget d ''candidate'' = second"
proof -
  obtain rows variant cross limits alignment pairs b b' g ready verdict where k:
    "declared_rows first second declared = Inr (rows, variant)" "policy thresholds = Inr limits"
    "cross_profile_quality e first second rows = Inr cross" "measurements_ready first second pairs = Inr ready"
    "align_cases first second = Inr (alignment, pairs)" "both_sides first second = Inr (b, b')"
    "performance_gates first second pairs limits = Inr g"
    "decide limits (judge alignment rows (quality_passed b b' cross variant) g) (ready \<and> pairs \<noteq> []) (dget alignment ''status'') = Inr verdict"
    "d = report_value first second declared rows alignment limits verdict (quality_gates b b' cross variant) g"
    using comparison_record_Inr [OF assms(1)] by blast
  have "fst (snd verdict)"
    using assms(2) unfolding k(9) report_value_keys by (auto split: if_splits)
  then obtain outcome gain where v: "verdict = (outcome, True, gain)" by (cases verdict) auto
  have "dget d ''candidate'' = second" unfolding k(9) by (rule report_value_keys)
  have out: "(ready \<and> pairs \<noteq> []) \<and> dget alignment ''status'' = PStr ''matching'' \<and> \<not> non_equivalent rows \<and> quality_passed b b' cross variant
     \<and> dget (g_startup g) ''status'' = PStr ''passed'' \<and> dget (g_latency g) ''status'' = PStr ''passed''
     \<and> dget (g_memory g) ''status'' = PStr ''passed'' \<and> dget (g_throughput g) ''status'' = PStr ''passed''
     \<and> smallest_gain (g_gains g) = Inr gain \<and> list_all (\<lambda>row. noisy_gain row = Inr False) (g_gains g)
     \<and> py_le (dget limits ''minimum_practical_gain_percent'') gain = Inr True"
    by (rule recommended_outcome [OF k(8) [unfolded v]])
  then have "measurements_ready first second pairs = Inr True" using k(4) by simp
  with k out \<open>dget d ''candidate'' = second\<close> show ?thesis by blast
qed

text \<open>The two retained numerical runs agree with each other under the tolerances of both quality results.\<close>

definition quality_agrees :: "penv \<Rightarrow> pyv \<Rightarrow> pyv \<Rightarrow> bool" where
  "quality_agrees e first second =
     (case (retained_quality_run e first, retained_quality_run e second) of
        (Inr a, Inr b) \<Rightarrow> is_dict a \<and> is_dict b
          \<and> \<not> isl (cross_result e a b (dict_of_v (dget (dict_of_v first) ''quality_result'')) (dict_of_v (dget (dict_of_v second) ''quality_result'')))
      | _ \<Rightarrow> False)"

text \<open>A record is measured, and a case of it has no failed request.\<close>

definition is_measured :: "pyv \<Rightarrow> bool" where
  "is_measured v = (py_item v ''status'' = Inr (PStr ''measured-not-qualified'')
     \<and> bnd (py_path v [''metrics'', ''serving'']) (\<lambda>s. py_get s ''source_status'') = Inr (PStr ''measured-not-qualified''))"

definition without_failures :: "pyv \<Rightarrow> bool" where
  "without_failures row = (case py_item row ''failures'' of Inr n \<Rightarrow> py_eq n (PInt 0) | Inl _ \<Rightarrow> False)"

definition evidence_passed :: "penv \<Rightarrow> pyv \<Rightarrow> pyv \<Rightarrow> pyv \<Rightarrow> pydict \<Rightarrow> bool" where
  "evidence_passed e first second declared limits =
     (is_measured first \<and> is_measured second \<and> quality_agrees e first second
      \<and> coding_differences first second declared = Inr [] \<and>
      (case (bnd (py_path first [''metrics'', ''serving'', ''cases'']) py_iter, bnd (py_path second [''metrics'', ''serving'', ''cases'']) py_iter,
            align_cases first second, differences first second declared, memory_gate first second) of
        (Inr left_rows, Inr right_rows, Inr (_, pairs), Inr rows, Inr memory) \<Rightarrow>
          well_paired left_rows right_rows pairs \<and> pairs \<noteq> [] \<and> \<not> non_equivalent rows
          \<and> list_all (\<lambda>(_, l, r). without_failures l \<and> without_failures r) pairs
          \<and> list_all (\<lambda>v. py_path v [''metrics'', ''numerical_quality'', ''status''] = Inr (PStr ''passed'')
               \<and> py_path v [''metrics'', ''coding'', ''status''] = Inr (PStr ''passed'')) [first, second]
          \<and> list_all (startup_no_worse first second (dget limits ''maximum_regression_percent'')) [''cold'', ''warm'']
          \<and> list_all (\<lambda>p. list_all (latency_no_worse (dget limits ''maximum_regression_percent'') p) [''latency'', ''ttft'']) pairs
          \<and> dget memory ''status'' = PStr ''passed''
          \<and> (case throughput_gate pairs (dget limits ''noise_percent'') of
               Inr (gains, throughput) \<Rightarrow> dget throughput ''status'' = PStr ''passed'' \<and> list_all (\<lambda>row. noisy_gain row = Inr False) gains
                 \<and> bnd (smallest_gain gains) (py_le (dget limits ''minimum_practical_gain_percent'')) = Inr True
             | Inl _ \<Rightarrow> False)
      | _ \<Rightarrow> False))"

lemma cross_passed:
  assumes "cross_profile_quality e first second rows = Inr cross" "dget cross ''status'' = PStr ''passed''"
  shows "quality_agrees e first second"
  using assms by (auto simp: cross_profile_quality_def quality_agrees_def incomplete_quality_def dget_rec attempt_def Let_def
      split: if_splits sum.splits option.splits)

lemma ready_measured:
  assumes "measurements_ready first second pairs = Inr True"
  shows "is_measured first \<and> is_measured second \<and> list_all (\<lambda>(_, l, r). without_failures l \<and> without_failures r) pairs"
  using assms by (fastforce simp: measurements_ready_def both_measured_def is_measured_def without_failures_def zero_failures_def list_all_iff)

lemma recommended_evidence:
  assumes "comparison_record e first second declared thresholds = Inr d" "dget d ''recommendation'' = PStr ''candidate''"
  shows "\<exists>limits. policy thresholds = Inr limits \<and> evidence_passed e first second declared limits"
proof -
  obtain rows variant cross limits alignment pairs b b' g gain where k:
    "declared_rows first second declared = Inr (rows, variant)" "policy thresholds = Inr limits"
    "align_cases first second = Inr (alignment, pairs)" "both_sides first second = Inr (b, b')"
    "performance_gates first second pairs limits = Inr g" "pairs \<noteq> []"
    and cross: "cross_profile_quality e first second rows = Inr cross" and ready: "measurements_ready first second pairs = Inr True"
    and al: "dget alignment ''status'' = PStr ''matching''" "\<not> non_equivalent rows" "quality_passed b b' cross variant"
    "dget (g_startup g) ''status'' = PStr ''passed''" "dget (g_latency g) ''status'' = PStr ''passed''"
    "dget (g_memory g) ''status'' = PStr ''passed''" "dget (g_throughput g) ''status'' = PStr ''passed''"
    and gain: "smallest_gain (g_gains g) = Inr gain" "list_all (\<lambda>row. noisy_gain row = Inr False) (g_gains g)"
    "py_le (dget limits ''minimum_practical_gain_percent'') gain = Inr True"
    using recommended_record [OF assms] by blast
  note gates = performance_gates_Inr [OF k(5)]
  obtain left_rows right_rows where rows: "bnd (py_path first [''metrics'', ''serving'', ''cases'']) py_iter = Inr left_rows"
    "bnd (py_path second [''metrics'', ''serving'', ''cases'']) py_iter = Inr right_rows" "well_paired left_rows right_rows pairs"
    using align_matching [OF k(3) al(1)] by blast
  obtain plain where plain: "differences first second declared = Inr plain" "\<not> non_equivalent plain"
    using k(1) al(2) by (auto simp: declared_rows_def non_equivalent_def)
  have provenance: "coding_differences first second declared = Inr []"
    using k(1) al(3) by (auto simp: declared_rows_def quality_passed_def)
  have agrees: "quality_agrees e first second"
    using cross_passed [OF cross] al(3) by (simp add: quality_passed_def)
  have sides: "list_all (\<lambda>v. py_path v [''metrics'', ''numerical_quality'', ''status''] = Inr (PStr ''passed'')
       \<and> py_path v [''metrics'', ''coding'', ''status''] = Inr (PStr ''passed'')) [first, second]"
    using al(3) by (intro both_sides_Inr [OF k(4)]) (simp_all add: quality_passed_def)
  have startup: "list_all (startup_no_worse first second (dget limits ''maximum_regression_percent'')) [''cold'', ''warm'']"
    using startup_gate_passed [OF _ al(4)] gates by simp
  have latency: "list_all (\<lambda>p. list_all (latency_no_worse (dget limits ''maximum_regression_percent'') p) [''latency'', ''ttft'']) pairs"
    using latency_gate_passed [OF conjunct1 [OF conjunct2 [OF gates]] al(5)] by (simp add: list_all_iff)
  show ?thesis
    using k rows plain sides startup latency gates gain al provenance agrees ready_measured [OF ready]
    by (intro exI conjI) (assumption | simp add: evidence_passed_def del: py_path_simps bnd_Inr_iff)+
qed

section \<open>Properties\<close>

text \<open>C33: an owner can select a profile only by a comparison that, computed again from its own evidence,
  recommends it: the selected profile is the candidate of the comparison; its workload cases are
  paired one to one by context and concurrency; no declared difference makes them incomparable, and the coding provenance is
  the same; both records and their serving results are measured, and no case has a failed request; both
  sides passed their numerical and coding quality, and their retained numerical runs agree with each other; cold and warm startup and, in every case, latency
  and time to first token are observed and no worse than the policy allows, in the median and in the
  tail where both are known; no memory plan shows failure or pressure; and the smallest throughput
  gain of a case reaches the policy's practical gain, each gain being above the noise.\<close>

theorem selection_passed_every_gate:
  assumes "select e comparison owner candidate_id previous = Inr sel"
  shows "\<exists>first second declared limits. map_of (dict_of_v comparison) ''baseline'' = Some first \<and> map_of (dict_of_v comparison) ''candidate'' = Some second
     \<and> map_of (dict_of_v comparison) ''declared_variables'' = Some declared
     \<and> py_item second ''profile_id'' = Inr candidate_id \<and> dget sel ''selected_profile_id'' = candidate_id
     \<and> policy (thresholds_again (dget (dict_of_v comparison) ''thresholds'')) = Inr limits
     \<and> evidence_passed e first second declared limits"
proof -
  obtain d own chosen descriptor prior v where s: "validate_comparison e comparison = Inr d" "candidate_id = PStr chosen"
    "map_of d ''candidate'' = Some v" "py_item v ''profile_id'' = Inr (PStr chosen)" "dget d ''recommendation'' = PStr ''candidate''"
    "selection_value e d own chosen prior descriptor = Inr sel"
    using select_Inr [OF assms] by blast
  obtain c first second declared thresholds where c: "comparison = PDict c" "map_of c ''baseline'' = Some first" "map_of c ''candidate'' = Some second"
    "map_of c ''declared_variables'' = Some declared" "map_of c ''thresholds'' = Some thresholds"
    and r: "comparison_record e first second declared (thresholds_again thresholds) = Inr d"
    using validate_comparison_Inr [OF s(1)] by blast
  have "dget d ''candidate'' = second" using recommended_record [OF r s(5)] by blast
  then have v: "v = second" using s(3) by simp
  have sel: "dget sel ''selected_profile_id'' = candidate_id"
    using s(2,6) by (auto simp: selection_value_def dget_rec dget_append)
  obtain limits where "policy (thresholds_again thresholds) = Inr limits" "evidence_passed e first second declared limits"
    using recommended_evidence [OF r s(5)] by blast
  with c s(2,4) v sel show ?thesis by auto
qed

section \<open>A comparison that allows a selection\<close>

text \<open>One workload case, one token, a candidate with twice the throughput; both records carry the same
  checked run.\<close>

definition pd_case :: "int \<Rightarrow> pyv" where
  "pd_case median = PDict [(''context_tokens'', PInt 1), (''concurrency'', PInt 1), (''failures'', PInt 0),
     (''throughput'', PDict [(''status'', PStr ''observed''), (''samples'', PInt 3), (''median'', PInt median), (''stdev'', PInt 0)]),
     (''latency'', PDict [(''status'', PStr ''observed''), (''median'', PInt 1)]),
     (''ttft'', PDict [(''status'', PStr ''observed''), (''median'', PInt 1)])]"

definition pd_phase :: pyv where
  "pd_phase = PDict [(''status'', PStr ''observed''), (''failed'', PInt 0), (''unknown'', PInt 0), (''median_seconds'', PInt 1)]"

definition pd_metrics :: "int \<Rightarrow> pyv" where
  "pd_metrics median = PDict [(''numerical_quality'', PDict [(''status'', PStr ''passed'')]), (''coding'', PDict [(''status'', PStr ''passed'')]),
     (''startup'', PDict [(''cold'', pd_phase), (''warm'', pd_phase)]), (''memory'', PDict [(''status'', PStr ''unknown'')]),
     (''serving'', PDict [(''status'', PStr ''observed''), (''source_status'', PStr ''measured-not-qualified''), (''cases'', PList [pd_case median])])]"

definition pd_record :: "string \<Rightarrow> int \<Rightarrow> pydict" where
  "pd_record profile median = [(''profile_id'', PStr profile), (''status'', PStr ''measured-not-qualified''), (''identity'', PDict pd_identity),
     (''producer_conditions'', PDict pd_conditions), (''producer_condition_details'', PDict [(''observed_launch'', PDict pd_launch)]),
     (''experiment'', PDict [(''variables'', PDict []), (''profile'', PStr ''p''), (''prefix_state'', PStr ''s'')]),
     (''quality_run'', pd_run), (''quality_baseline_run'', pd_run), (''quality_result'', PDict pd_quality),
     (''quality_run_sha256'', PStr (zeros 64)), (''quality_baseline_run_sha256'', PStr (zeros 64)),
     (''artifact_sha256'', PDict [(''kernel_runs:x'', PStr ''a'')]), (''quality_run_artifact_sha256'', PStr ''a''), (''quality_run_source'', PStr ''x''),
     (''quality_baseline_run_artifact_sha256'', PStr ''a''), (''quality_baseline_run_source'', PStr ''x''), (''manifest_sha256'', PStr ''m''),
     (''metrics'', pd_metrics median)]"

definition pd_thresholds :: pyv where
  "pd_thresholds = PDict [(''minimum_practical_gain_percent'', PInt 5), (''maximum_regression_percent'', PInt 5), (''noise_percent'', PInt 1)]"

definition pd_comparison :: pydict where
  "pd_comparison = [(''thresholds'', pd_thresholds), (''baseline'', PDict (pd_record ''b'' 1)), (''candidate'', PDict (pd_record ''c'' 2)),
     (''declared_variables'', PList [])]"

lemma pd_bound: "run_bound plain_env (pd_record ''b'' 1) pd_run pd_run pd_quality = Inr True"
  "run_bound plain_env (pd_record ''c'' 2) pd_run pd_run pd_quality = Inr True"
  by code_simp+

lemma pd_rec_keys: "dget (pd_record p m) ''quality_run'' = pd_run" "dget (pd_record p m) ''quality_baseline_run'' = pd_run"
  "dget (pd_record p m) ''quality_result'' = PDict pd_quality" "is_dict pd_run" "py_eq (PDict pd_quality) (PDict pd_quality)"
  "dget pd_quality ''comparison'' = PStr ''kernel''" "item pd_quality ''quality'' = Inr (dget pd_quality ''quality'')"
  "py_item (dget pd_quality ''quality'') ''atol'' = Inr (PInt 0)" "py_item (dget pd_quality ''quality'') ''rtol'' = Inr (PInt 0)"
  "py_get (dget pd_quality ''quality'') ''atol'' = Inr (PInt 0)" "py_get (dget pd_quality ''quality'') ''rtol'' = Inr (PInt 0)"
  by (simp_all add: pd_record_def pd_run_def pd_quality_def dget_rec item_def del: item_Inr_iff)

lemma pd_requality: "requality plain_env pd_run pd_run pd_quality = Inr pd_quality"
  by (simp add: requality_def pd_rec_keys pd_compare del: bnd_Inr_iff item_Inr_iff)

lemma pd_retained:
  assumes "(p, m) \<in> {(''b'', 1), (''c'', 2)}"
  shows "retained_quality_run plain_env (PDict (pd_record p m)) = Inr pd_run"
  using assms pd_bound by (auto simp: retained_quality_run_def Let_def pd_rec_keys pd_requality attempt_def simp del: bnd_Inr_iff py_eq.simps)

lemma pd_cross: "cross_profile_quality plain_env (PDict (pd_record ''b'' 1)) (PDict (pd_record ''c'' 2)) []
   = Inr [(''status'', PStr ''passed''), (''baseline_sha256'', PStr (zeros 64)), (''candidate_sha256'', PStr (zeros 64)), (''result'', PDict pd_quality)]"
  by (simp add: cross_profile_quality_def pd_retained pd_rec_keys Let_def non_equivalent_def cross_result_def pd_compare attempt_def pd_parts plain_env_def [THEN arg_cong [of _ _ p_codec]]
     del: bnd_Inr_iff item_Inr_iff)

lemma pd_rows: "declared_rows (PDict (pd_record ''b'' 1)) (PDict (pd_record ''c'' 2)) (PList []) = Inr ([], False)"
  by code_simp

definition pd_limits :: pydict where
  "pd_limits = [(''minimum_practical_gain_percent'', PInt 5), (''maximum_regression_percent'', PInt 5), (''noise_percent'', PInt 1)]"

lemma pd_policy: "policy (thresholds_again pd_thresholds) = Inr pd_limits"
  by code_simp

definition pd_pairs :: pairing where
  "pd_pairs = [((1, 1), pd_case 1, pd_case 2)]"

lemma pd_align: "(case align_cases (PDict (pd_record ''b'' 1)) (PDict (pd_record ''c'' 2)) of
   Inr (alignment, pairs) \<Rightarrow> dget alignment ''status'' = PStr ''matching'' \<and> pairs = pd_pairs | Inl _ \<Rightarrow> False)"
  by code_simp

lemma pd_sides: "both_sides (PDict (pd_record ''b'' 1)) (PDict (pd_record ''c'' 2))
   = Inr ([(''numerical'', PStr ''passed''), (''coding'', PStr ''passed'')], [(''numerical'', PStr ''passed''), (''coding'', PStr ''passed'')])"
  by code_simp

lemma pd_gates: "(case performance_gates (PDict (pd_record ''b'' 1)) (PDict (pd_record ''c'' 2)) pd_pairs pd_limits of
   Inr g \<Rightarrow> dget (g_startup g) ''status'' = PStr ''passed'' \<and> dget (g_latency g) ''status'' = PStr ''passed''
     \<and> dget (g_memory g) ''status'' = PStr ''passed'' \<and> dget (g_throughput g) ''status'' = PStr ''passed''
     \<and> smallest_gain (g_gains g) = Inr (PFloat (Fin 100)) \<and> gain_outcome pd_limits (g_gains g) (PFloat (Fin 100)) = Inr (''candidate-improves-throughput'', True)
   | Inl _ \<Rightarrow> False)"
  by code_simp

lemma pd_ready: "measurements_ready (PDict (pd_record ''b'' 1)) (PDict (pd_record ''c'' 2)) pd_pairs = Inr True"
  by code_simp

lemma pd_selected: "\<exists>sel. select plain_env (PDict pd_comparison) (PStr ''o'') (PStr ''c'') PNone = Inr sel"
proof -
  let ?b = "PDict (pd_record ''b'' 1)" and ?c = "PDict (pd_record ''c'' 2)"
  obtain alignment where al: "align_cases ?b ?c = Inr (alignment, pd_pairs)" "dget alignment ''status'' = PStr ''matching''"
    using pd_align by (auto split: sum.splits prod.splits)
  obtain g where g: "performance_gates ?b ?c pd_pairs pd_limits = Inr g" "dget (g_startup g) ''status'' = PStr ''passed''"
    "dget (g_latency g) ''status'' = PStr ''passed''" "dget (g_memory g) ''status'' = PStr ''passed''" "dget (g_throughput g) ''status'' = PStr ''passed''"
    "smallest_gain (g_gains g) = Inr (PFloat (Fin 100))" "gain_outcome pd_limits (g_gains g) (PFloat (Fin 100)) = Inr (''candidate-improves-throughput'', True)"
    using pd_gates by (auto split: sum.splits)
  have pairs: "pd_pairs \<noteq> []" by (simp add: pd_pairs_def)
  have ids: "item (pd_record ''b'' 1) ''profile_id'' = Inr (PStr ''b'')" "item (pd_record ''c'' 2) ''profile_id'' = Inr (PStr ''c'')" "item (pd_record ''b'' 1) ''manifest_sha256'' = Inr (PStr ''m'')"
    "item (pd_record ''c'' 2) ''manifest_sha256'' = Inr (PStr ''m'')" "item (pd_record ''c'' 2) ''identity'' = Inr (PDict pd_identity)"
    "item (pd_record ''c'' 2) ''producer_conditions'' = Inr (PDict pd_conditions)" "detail ?c ''experimental_kv'' = Inr PNone"
    by (simp_all add: pd_record_def item_def detail_def py_get_or_def dget_or_def dget_rec del: item_Inr_iff)
  have items: "item pd_comparison ''thresholds'' = Inr pd_thresholds" "item pd_comparison ''baseline'' = Inr ?b" "item pd_comparison ''candidate'' = Inr ?c"
    "item pd_comparison ''declared_variables'' = Inr (PList [])"
    by (simp_all add: pd_comparison_def item_def del: item_Inr_iff)
  let ?sides = "[(''numerical'', PStr ''passed''), (''coding'', PStr ''passed'')]"
  let ?cross = "[(''status'', PStr ''passed''), (''baseline_sha256'', PStr (zeros 64)), (''candidate_sha256'', PStr (zeros 64)), (''result'', PDict pd_quality)]"
  let ?d = "report_value ?b ?c (PList []) [] alignment pd_limits (''candidate-improves-throughput'', True, PFloat (Fin 100)) (quality_gates ?sides ?sides ?cross False) g"
  have d: "comparison_record plain_env ?b ?c (PList []) (thresholds_again pd_thresholds) = Inr ?d"
    using al(2) g by (simp add: comparison_record_def ids pd_rows pd_cross pd_policy al(1) pd_sides pd_ready decide_def judge_def measured_outcome_def
        non_equivalent_def quality_passed_def all_passed_def dget_rec pairs del: bnd_Inr_iff item_Inr_iff)
  have di: "dget ?d ''recommendation'' = PStr ''candidate''" "item ?d ''candidate'' = Inr ?c" "item ?d ''baseline'' = Inr ?b" "dget ?d ''candidate'' = ?c"
    by (simp_all add: report_value_def item_def dget_rec del: item_Inr_iff)
  have v: "validate_comparison plain_env (PDict pd_comparison) = Inr ?d"
    by (simp add: validate_comparison_def recomputed_def items d plain_env_def [THEN arg_cong [of _ _ p_codec]] plain_codec_def del: bnd_Inr_iff)
  have s: "safe_id (PStr ''o'') n = Inr ''o''" "safe_id (PStr ''c'') n = Inr ''c''" for n
    by (simp_all add: safe_id_def id_token_def token_def is_alnum_def is_lower_def del: bnd_Inr_iff)
  show ?thesis
    by (simp add: select_def v s di ids kv_selectable_def previous_value_def selection_value_def del: bnd_Inr_iff item_Inr_iff)
qed

theorem selection_passed_every_gate_witness:
  "\<exists>first second limits. map_of pd_comparison ''baseline'' = Some first \<and> map_of pd_comparison ''candidate'' = Some second
     \<and> evidence_passed plain_env first second (PList []) limits"
proof -
  obtain sel where "select plain_env (PDict pd_comparison) (PStr ''o'') (PStr ''c'') PNone = Inr sel" using pd_selected ..
  from selection_passed_every_gate [OF this] show ?thesis
    by (auto simp: pd_comparison_def)
qed

lemma current_status_selected:
  assumes "current_status c selection conditions descriptor = Inr r" "dget r ''status'' = PStr ''selected-unqualified-current''"
  shows "valid_producer_conditions (dget selection ''producer_conditions'') \<and> valid_producer_conditions conditions
     \<and> py_eq (dget selection ''experimental_kv'') descriptor
     \<and> (\<forall>key \<in> set (map fst (dict_of_v (dget selection ''producer_conditions''))).
          py_eq (dget (dict_of_v conditions) key) (dget (dict_of_v (dget selection ''producer_conditions'')) key))"
  using assms unfolding current_status_def Let_def status_value_def
  by (auto simp: dget_rec filter_empty_conv split: if_splits)

text \<open>C34: the status \<open>selected-unqualified-current\<close> is reported only when every identity field of the
  observation equals the selected one, both sides carry valid source conditions that agree on every
  field, and the experimental KV descriptors are equal.\<close>

theorem current_selection_matches:
  assumes "selection_status c selection now conditions descriptor = Inr r" "dget r ''status'' = PStr ''selected-unqualified-current''"
  shows "\<exists>chosen. map_of (dict_of_v selection) ''runtime_identity'' = Some chosen
     \<and> (\<forall>key \<in> set IDENTITY. py_eq (dget (dict_of_v now) key) (dget (dict_of_v chosen) key))
     \<and> valid_producer_conditions (dget (dict_of_v selection) ''producer_conditions'') \<and> valid_producer_conditions conditions
     \<and> (\<forall>key \<in> set PRODUCER_CONDITION_KEYS. py_eq (dget (dict_of_v conditions) key) (dget (dict_of_v (dget (dict_of_v selection) ''producer_conditions'')) key))
     \<and> py_eq (dget (dict_of_v selection) ''experimental_kv'') descriptor"
proof -
  let ?d = "dict_of_v selection"
  have stale: False if "status_value ''stale'' ?d changed cs reason = Inr r" for changed cs reason
    using that assms(2) by (auto simp: status_value_def dget_rec)
  obtain chosen where chosen: "map_of ?d ''runtime_identity'' = Some chosen"
    and same: "filter (\<lambda>key. \<not> py_eq (dget (dict_of_v now) key) (dget (dict_of_v chosen) key)) IDENTITY = []"
    and cur: "current_status c ?d conditions descriptor = Inr r"
    using assms(1) stale unfolding selection_status_def Let_def by (auto split: if_splits)
  have keys: "set (map fst (dict_of_v v)) = set PRODUCER_CONDITION_KEYS" if "valid_producer_conditions v" for v
    using that by (cases v) (simp_all add: valid_producer_conditions_def has_keys_def keyset_def)
  note selected = current_status_selected [OF cur assms(2)]
  then have "set (map fst (dict_of_v (dget ?d ''producer_conditions''))) = set PRODUCER_CONDITION_KEYS" using keys by blast
  then show ?thesis using chosen same selected unfolding filter_empty_conv by blast
qed

definition ps_selection :: pydict where
  "ps_selection = [(''schema'', PInt 1), (''kind'', PStr ''workstation-measured-profile-selection''), (''selected_profile_id'', PStr ''c''),
     (''runtime_identity'', PDict pd_identity), (''producer_conditions'', PDict pd_conditions), (''experimental_kv'', PNone)]"

lemma ps_status: "(case selection_status plain_codec (PDict ps_selection) (PDict pd_identity) (PDict pd_conditions) PNone of
   Inr r \<Rightarrow> dget r ''status'' = PStr ''selected-unqualified-current'' | Inl _ \<Rightarrow> False)"
  by code_simp

theorem current_selection_matches_witness:
  "\<exists>chosen. map_of ps_selection ''runtime_identity'' = Some chosen
     \<and> list_all (\<lambda>key. py_eq (dget (dict_of_v (PDict pd_identity)) key) (dget (dict_of_v chosen) key)) IDENTITY
     \<and> list_all (\<lambda>key. py_eq (dget pd_conditions key) (dget (dict_of_v (dget ps_selection ''producer_conditions'')) key)) PRODUCER_CONDITION_KEYS"
proof -
  obtain r where "selection_status plain_codec (PDict ps_selection) (PDict pd_identity) (PDict pd_conditions) PNone = Inr r"
    "dget r ''status'' = PStr ''selected-unqualified-current''"
    using ps_status by (auto split: sum.splits)
  from current_selection_matches [OF this] show ?thesis by (auto simp: list_all_iff)
qed

end
