(* ===== verification/Profile_Inspect.thy ===== *)
theory Profile_Inspect
  imports Profile_Selection
begin

text \<open>
  \<open>lib/workstation/performance_profiles.py\<close>, \<open>power_metrics\<close> and \<open>inspect\<close>: a sealed bundle is read,
  its manifest checked against the serving producer it names, its quality result computed again from
  the checked runs, and the record made that \<open>comparison_record\<close> works on. The bundle directory is
  the environment: what every relative name leads to.
\<close>

section \<open>Device power\<close>

type_synonym readings = "(string \<times> string \<times> pyv list) list"

text \<open>\<open>float(raw)\<close>: the parser of decimal strings is a parameter.\<close>

definition py_float :: "penv \<Rightarrow> pyv \<Rightarrow> flt res" where
  "py_float e v = (case v of PStr s \<Rightarrow> (case p_float e s of Some f \<Rightarrow> Inr f | None \<Rightarrow> Inl (ValueError ''could not convert string to float''))
     | _ \<Rightarrow> float_val v)"

definition add_reading :: "readings \<Rightarrow> string \<Rightarrow> string \<Rightarrow> pyv \<Rightarrow> readings" where
  "add_reading readings key unit v =
     (case map_of readings key of None \<Rightarrow> dset readings key (unit, [v]) | Some (u, vs) \<Rightarrow> dset readings key (u, vs @ [v]))"

definition sensor_value :: "string \<Rightarrow> flt \<Rightarrow> flt res" where
  "sensor_value name number = (if starts_with name ''power'' then flt_div number (Fin 1000000) else Inr number)"

definition take_reading :: "penv \<Rightarrow> string \<Rightarrow> readings \<Rightarrow> string \<times> pyv \<Rightarrow> readings res" where
  "take_reading e device readings = (\<lambda>(name, raw).
     if \<not> (starts_with name ''power'' \<or> starts_with name ''energy'') then Inr readings
     else (case py_float e raw of
             Inl err \<Rightarrow> if err = TypeError \<or> is_ValueError err then Inr readings else Inl err
           | Inr number \<Rightarrow>
               guard (flt_finite number \<and> flt_le (Fin 0) number) ''invalid device-power reading'' (
               bnd (sensor_value name number) (\<lambda>v.
               Inr (add_reading readings (device @ '':'' @ name) (if starts_with name ''power'' then ''W'' else ''uJ'') (PFloat v))))))"

definition take_device :: "penv \<Rightarrow> readings \<Rightarrow> string \<times> pyv \<Rightarrow> readings res" where
  "take_device e readings = (\<lambda>(device, item).
     guard (is_dict item \<and> is_dict (dget (dict_of_v item) ''values'')) ''invalid hwmon device-power evidence'' (
     foldM_res (take_reading e device) readings (dict_of_v (dget (dict_of_v item) ''values''))))"

definition take_snapshot :: "penv \<Rightarrow> readings \<Rightarrow> pyv \<Rightarrow> readings res" where
  "take_snapshot e readings snapshot =
     guard (is_dict snapshot \<and> is_dict (dget (dict_of_v snapshot) ''hwmon'')) ''unsupported device-power evidence'' (
     foldM_res (take_device e) readings (dict_of_v (dget (dict_of_v snapshot) ''hwmon'')))"

definition sensor_summary :: "string \<times> string \<times> pyv list \<Rightarrow> (string \<times> pyv) res" where
  "sensor_summary = (\<lambda>(name, unit, vs). bnd (py_median vs) (\<lambda>median.
     Inr (name, PDict [(''samples'', PInt (int (length vs))), (''median'', median), (''unit'', PStr unit),
       (''p95'', if 20 \<le> length vs then sort_key exact vs ! quantile_index (95 / 100) (length vs) else PNone)])))"

definition power_metrics :: "penv \<Rightarrow> pyv \<Rightarrow> pydict res" where
  "power_metrics e v =
     (if v = PNone then Inr [(''status'', PStr ''unknown''), (''scope'', PStr ''device-power evidence unavailable'')]
      else bnd (foldM_res (take_snapshot e) [] (case v of PList vs \<Rightarrow> vs | _ \<Rightarrow> [v])) (\<lambda>readings.
      if readings = [] then Inr [(''status'', PStr ''unknown''), (''scope'', PStr ''no readable device-power sensors'')]
      else bnd (mapM_res sensor_summary readings) (\<lambda>sensors.
      Inr [(''status'', PStr ''observed''), (''sensors'', PDict sensors),
        (''scope'', PStr ''hwmon device sensor readings; not wall power and not necessarily GPU-BDF attributed'')])))"

section \<open>Reading a bundle\<close>

text \<open>What a name in the bundle is: whether its last component is a symbolic link, whether its
  resolved path lies in the bundle, whether that is a regular file, and its bytes.\<close>

record entry =
  e_link :: bool
  e_inside :: bool
  e_regular :: bool
  e_data :: string

record sealed =
  b_link :: bool
  b_directory :: bool
  b_entry :: "string \<Rightarrow> entry"

definition MAX_FILE :: int where
  "MAX_FILE = 16 * 1024 * 1024"

definition read_json :: "codec \<Rightarrow> bool \<Rightarrow> entry \<Rightarrow> (pyv \<times> string) res" where
  "read_json c link entry =
     guard (\<not> link \<and> e_regular entry \<and> int (length (e_data entry)) \<le> MAX_FILE) ''evidence must be a regular bounded JSON file'' (
     case c_decode c (e_data entry) of
       Inr v \<Rightarrow> Inr (v, c_digest c (e_data entry))
     | Inl err \<Rightarrow> Inl (if err = JSONDecodeError \<or> err = UnicodeError then ValueError ''evidence is not valid JSON'' else err))"

definition relative_file :: "sealed \<Rightarrow> pyv \<Rightarrow> entry res" where
  "relative_file b name =
     guard (is_str name \<and> \<not> starts_with (str_of name) ''/'') ''bundle artifact must be a relative path'' (
     let entry = b_entry b (str_of name) in
     guard (\<not> e_link entry) ''bundle artifact must not be a symlink'' (
     guard (e_inside entry) ''bundle artifact escapes the evidence directory'' (Inr entry)))"

record evidence =
  v_decoded :: "(string \<times> pyv list) list"
  v_hashes :: pydict

definition artifact :: "string \<Rightarrow> pyv \<Rightarrow> string" where
  "artifact kind location = kind @ '':'' @ str_of location"

definition read_artifact :: "codec \<Rightarrow> sealed \<Rightarrow> string \<Rightarrow> pyv \<Rightarrow> (string \<times> pyv \<times> string) res" where
  "read_artifact c b kind location =
     bnd (relative_file b location) (\<lambda>entry. bnd (read_json c False entry) (\<lambda>(v, digest).
     Inr (artifact kind location, v, digest)))"

definition locations_of :: "string \<Rightarrow> pyv \<Rightarrow> pyv" where
  "locations_of kind location = (if kind \<in> {''startup'', ''kernel_runs''} then location else PList [location])"

definition read_kind :: "codec \<Rightarrow> sealed \<Rightarrow> evidence \<Rightarrow> string \<times> pyv \<Rightarrow> evidence res" where
  "read_kind c b ev = (\<lambda>(kind, location).
     let locations = locations_of kind location in
     guard (is_list locations \<and> list_of locations \<noteq> []) ''startup evidence must be a nonempty list'' (
     bnd (mapM_res (read_artifact c b kind) (list_of locations)) (\<lambda>rows.
     Inr \<lparr>v_decoded = v_decoded ev @ [(kind, map (\<lambda>(_, v, _). v) rows)],
          v_hashes = foldl (\<lambda>h (name, _, digest). dset h name (PStr digest)) (v_hashes ev) rows\<rparr>)))"

definition decoded :: "evidence \<Rightarrow> string \<Rightarrow> pyv list" where
  "decoded ev kind = (case map_of (v_decoded ev) kind of Some vs \<Rightarrow> vs | None \<Rightarrow> [])"

definition the_decoded :: "evidence \<Rightarrow> string \<Rightarrow> pyv" where
  "the_decoded ev kind = (case decoded ev kind of [] \<Rightarrow> PNone | v # _ \<Rightarrow> v)"

definition SOURCES :: "string list" where
  "SOURCES = [''serving'', ''runtime'', ''startup'', ''memory'', ''quality'', ''kernel_runs'', ''coding'', ''power'']"

section \<open>The manifest\<close>

definition check_identity :: "pyv \<Rightarrow> pydict res" where
  "check_identity v =
     guard (is_dict v \<and> has_keys (dict_of_v v) IDENTITY) ''performance identity must contain exactly the supported fields'' (
     case find (\<lambda>kv. \<not> nonempty_str (snd kv)) (dict_of_v v) of
       Some (key, _) \<Rightarrow> Inl (ValueError (''missing identity '' @ key))
     | None \<Rightarrow> Inr (dict_of_v v))"

definition check_experiment :: "pyv \<Rightarrow> pydict res" where
  "check_experiment v =
     (let x = dict_of_v v; variables = dget x ''variables'' in
      guard (is_dict v \<and> has_keys x [''variables'', ''profile'', ''prefix_state''] \<and> is_dict variables) ''invalid experiment variables'' (
      guard (keyset (dict_of_v variables) \<subseteq> set VARIABLES \<and> list_all (\<lambda>kv. is_str (snd kv)) (dict_of_v variables)) ''unsupported experiment variable'' (
      guard (nonempty_str (dget x ''profile'') \<and> (dget x ''prefix_state'' = PStr ''new-prefix'' \<or> dget x ''prefix_state'' = PStr ''warm-prefix''))
        ''invalid experiment serving labels'' (Inr x))))"

definition check_sources :: "pyv \<Rightarrow> pydict res" where
  "check_sources v =
     guard (is_dict v \<and> keyset (dict_of_v v) \<subseteq> set SOURCES) ''invalid performance evidence sources'' (
     guard ({''serving'', ''runtime'', ''startup''} \<subseteq> keyset (dict_of_v v)) ''serving, runtime and startup evidence are required''
       (Inr (dict_of_v v)))"

record manifest =
  m_status :: pyv
  m_profile :: string
  m_identity :: pydict
  m_experiment :: pydict
  m_sources :: pydict

definition check_manifest :: "pyv \<Rightarrow> manifest res" where
  "check_manifest v =
     bnd (py_get v ''schema'') (\<lambda>schema. let d = dict_of_v v in
     guard (py_eq schema (PInt 1) \<and> dget d ''kind'' = PStr ''workstation-performance-evidence''
        \<and> dget d ''status'' \<in> {PStr ''measured-not-qualified'', PStr ''failed'', PStr ''incomplete''}) ''unsupported performance evidence manifest'' (
     bnd (safe_id (dget d ''profile_id'') ''profile ID'') (\<lambda>profile.
     bnd (check_identity (dget d ''identity'')) (\<lambda>own.
     bnd (check_experiment (dget_or d ''experiment'' (PDict []))) (\<lambda>experiment.
     bnd (check_sources (dget d ''sources'')) (\<lambda>sources.
     Inr \<lparr>m_status = dget d ''status'', m_profile = profile, m_identity = own, m_experiment = experiment, m_sources = sources\<rparr>))))))"

definition cardinality_ok :: "evidence \<Rightarrow> bool" where
  "cardinality_ok ev =
     (length (decoded ev ''serving'') = 1 \<and> length (decoded ev ''runtime'') = 1
      \<and> list_all (\<lambda>key. key \<in> keyset (v_decoded ev) \<longrightarrow> length (decoded ev key) = 1) [''memory'', ''quality'', ''coding'', ''power'']
      \<and> (''quality'' \<in> keyset (v_decoded ev) \<longrightarrow> length (decoded ev ''kernel_runs'') = 2))"

section \<open>The numerical quality result\<close>

definition run_schema_differs :: "pyv \<Rightarrow> bool res" where
  "run_schema_differs run = bnd (py_get run ''schema'') (\<lambda>schema. Inr (\<not> py_eq schema (PInt 1)))"

text \<open>\<open>selected_matches_serving\<close>\<close>

definition run_matches_serving :: "codec \<Rightarrow> pyv \<Rightarrow> pyv \<Rightarrow> pydict \<Rightarrow> pydict \<Rightarrow> pydict \<Rightarrow> bool res" where
  "run_matches_serving c run serving own conditions details =
     andM (bnd (py_get run ''pod'') (\<lambda>v. bnd (py_item serving ''pod'') (\<lambda>w. Inr (py_eq v w))))
     (andM (bnd (py_get run ''workload_sha256'') (\<lambda>v. bnd (py_item serving ''workload_sha256'') (\<lambda>w. Inr (py_eq v w))))
     (andM (bnd (py_get_or run ''identity'' (PDict [])) (\<lambda>i. bnd (py_get i ''runtime'') (\<lambda>v. bnd (py_item serving ''runtime'') (\<lambda>w. Inr (py_eq v w)))))
       (checked_run_matches_profile c run (PDict own) (PDict conditions) (dget details ''experimental_kv''))))"

definition comparison_is :: "pyv \<Rightarrow> string \<Rightarrow> bool" where
  "comparison_is quality name = (is_dict quality \<and> dget (dict_of_v quality) ''comparison'' = PStr name)"

definition quality_again :: "penv \<Rightarrow> pyv \<Rightarrow> pyv \<Rightarrow> pyv \<Rightarrow> pydict res" where
  "quality_again e quality baseline run =
     (let tolerances = (if is_dict quality then dget (dict_of_v quality) ''quality'' else PNone) in
      bnd (py_item tolerances ''atol'') (\<lambda>atol. bnd (py_item tolerances ''rtol'') (\<lambda>rtol.
      compare_quality e baseline run atol rtol (comparison_is quality ''host-memory-only'') (comparison_is quality ''experimental-kv''))))"

definition quality_attempt :: "penv \<Rightarrow> pyv \<Rightarrow> pyv \<Rightarrow> pyv \<Rightarrow> pyv \<Rightarrow> pydict \<Rightarrow> pydict \<Rightarrow> pydict \<Rightarrow> (pydict \<times> bool) res" where
  "quality_attempt e quality baseline run serving own conditions details =
     guardM (notM (anyM run_schema_differs [baseline, run])) ''kernel-run schema is unsupported'' (
     bnd (quality_again e quality baseline run) (\<lambda>expected.
     bnd (run_matches_serving (p_codec e) run serving own conditions details) (\<lambda>matches. Inr (expected, matches))))"

definition digest_item :: "codec \<Rightarrow> pyv \<Rightarrow> string \<Rightarrow> pyv \<Rightarrow> bool res" where
  "digest_item c quality key run = bnd (py_item quality key) (\<lambda>v. bnd (canonical_digest c run) (\<lambda>s. Inr (v = PStr s)))"

definition check_quality :: "penv \<Rightarrow> pyv \<Rightarrow> pyv \<Rightarrow> pyv \<Rightarrow> pyv \<Rightarrow> pydict \<Rightarrow> pydict \<Rightarrow> pydict \<Rightarrow> unit res" where
  "check_quality e quality baseline run serving own conditions details =
     bnd (attempt (quality_attempt e quality baseline run serving own conditions details)) (\<lambda>found.
     guardM (case found of
         None \<Rightarrow> Inr False
       | Some (expected, matches) \<Rightarrow>
           andM (Inr (py_eq quality (PDict expected))) (andM (digest_item (p_codec e) quality ''baseline_sha256'' baseline)
             (andM (digest_item (p_codec e) quality ''candidate_sha256'' run) (Inr matches))))
       ''numerical quality does not bind retained checked kernel runs'' (Inr ()))"

section \<open>The record\<close>

definition INSPECT_LIMITATIONS :: pyv where
  "INSPECT_LIMITATIONS = PList [PStr ''Evidence remains unqualified and is not a deployment instruction.'',
     PStr ''Failed and incomplete inputs are retained, not converted to zero measurements.'', PStr ''Device power is not wall power.'']"

definition metrics_value :: "penv \<Rightarrow> evidence \<Rightarrow> pyv res" where
  "metrics_value e ev =
     bnd (serving_metrics (the_decoded ev ''serving'')) (\<lambda>serving. bnd (startup_metrics (decoded ev ''startup'')) (\<lambda>startup.
     bnd (memory_metrics (the_decoded ev ''memory'')) (\<lambda>memory. bnd (quality_metrics (the_decoded ev ''quality'')) (\<lambda>quality.
     bnd (coding_metrics (the_decoded ev ''coding'')) (\<lambda>coding. bnd (power_metrics e (the_decoded ev ''power'')) (\<lambda>power_value.
     Inr (PDict [(''serving'', PDict serving), (''startup'', PDict startup), (''memory'', PDict memory), (''numerical_quality'', PDict quality),
       (''coding'', PDict coding), (''device_power'', PDict power_value)])))))))"

text \<open>The fields of the checked runs: their digests, their names and the digests of their files.\<close>

definition run_fields :: "codec \<Rightarrow> string \<Rightarrow> pydict \<Rightarrow> pyv \<Rightarrow> pyv \<Rightarrow> pydict res" where
  "run_fields c start hashes run location =
     bnd (canonical_digest c run) (\<lambda>digest. bnd (item hashes (artifact ''kernel_runs'' location)) (\<lambda>file.
     Inr [(start, run), (start @ ''_sha256'', PStr digest), (start @ ''_artifact_sha256'', file), (start @ ''_source'', location)]))"

definition no_run_fields :: "string \<Rightarrow> pyv \<Rightarrow> pydict" where
  "no_run_fields start run = [(start, run), (start @ ''_sha256'', PNone), (start @ ''_artifact_sha256'', PNone), (start @ ''_source'', PNone)]"

definition both_run_fields :: "codec \<Rightarrow> pydict \<Rightarrow> evidence \<Rightarrow> pyv \<Rightarrow> pyv \<Rightarrow> pydict res" where
  "both_run_fields c sources ev baseline run =
     (if truthy run then
        let locations = list_of (dget sources ''kernel_runs'') in
        bnd (run_fields c ''quality_run'' (v_hashes ev) run (locations ! 1)) (\<lambda>own.
        bnd (run_fields c ''quality_baseline_run'' (v_hashes ev) baseline (locations ! 0)) (\<lambda>other. Inr (own @ other)))
      else Inr (no_run_fields ''quality_run'' run @ no_run_fields ''quality_baseline_run'' PNone))"

definition inspection_value :: "manifest \<Rightarrow> pydict \<Rightarrow> pydict \<Rightarrow> pyv \<Rightarrow> pydict \<Rightarrow> string \<Rightarrow> pydict \<Rightarrow> pyv \<Rightarrow> pydict" where
  "inspection_value m conditions details quality runs manifest_hash hashes metrics =
     [(''schema'', PInt 1), (''kind'', PStr ''workstation-performance-evidence-inspection''), (''status'', m_status m),
      (''profile_id'', PStr (m_profile m)), (''identity'', PDict (m_identity m)), (''producer_conditions'', PDict conditions),
      (''producer_condition_details'', PDict details), (''experiment'', PDict (m_experiment m)), (''quality_result'', quality)]
     @ runs @ [(''manifest_sha256'', PStr manifest_hash), (''artifact_sha256'', PDict hashes), (''metrics'', metrics),
      (''limitations'', INSPECT_LIMITATIONS)]"

text \<open>The part of \<open>inspect\<close> after the sources are read.\<close>

definition inspected_record :: "penv \<Rightarrow> manifest \<Rightarrow> string \<Rightarrow> evidence \<Rightarrow> pydict res" where
  "inspected_record e m manifest_hash ev =
     (let c = p_codec e; serving = the_decoded ev ''serving''; x = m_experiment m in
      guard (cardinality_ok ev) ''invalid performance evidence source cardinality'' (
      bnd (item (v_hashes ev) (artifact ''runtime'' (dget (m_sources m) ''runtime''))) (\<lambda>runtime_digest.
      bnd (producer_identity c serving (the_decoded ev ''runtime'') (str_of runtime_digest)) (\<lambda>derived.
      bnd (producer_conditions c serving (str_of runtime_digest)) (\<lambda>conditions.
      bnd (producer_condition_details c serving) (\<lambda>details.
      guard (py_eq (PDict (m_identity m)) (PDict derived)) ''manifest identity does not match retained serving producer evidence'' (
      bnd (startup_matches_serving (decoded ev ''startup'') serving) (\<lambda>_.
      guard (py_eq (dget x ''profile'') (dget (dict_of_v serving) ''profile'') \<and> py_eq (dget x ''prefix_state'') (dget (dict_of_v serving) ''prefix_state''))
        ''manifest experiment labels do not match retained serving producer evidence'' (
      let checked = ''quality'' \<in> keyset (v_decoded ev); runs = decoded ev ''kernel_runs'';
          quality = (if checked then the_decoded ev ''quality'' else PNone); run = (if checked then runs ! 1 else PNone) in
      bnd (if checked then check_quality e quality (runs ! 0) run serving derived conditions details else Inr ()) (\<lambda>_.
      bnd (both_run_fields c (m_sources m) ev (runs ! 0) run) (\<lambda>run_values.
      bnd (metrics_value e ev) (\<lambda>metrics.
      Inr (inspection_value m conditions details quality run_values manifest_hash (v_hashes ev) metrics)))))))))))))"

definition inspect_bundle :: "penv \<Rightarrow> sealed \<Rightarrow> pydict res" where
  "inspect_bundle e b =
     guard (\<not> b_link b \<and> b_directory b) ''evidence bundle must be a real directory'' (
     let entry = b_entry b ''manifest.json'' in
     bnd (read_json (p_codec e) (e_link entry) entry) (\<lambda>(v, manifest_hash).
     bnd (check_manifest v) (\<lambda>m.
     bnd (foldM_res (read_kind (p_codec e) b) \<lparr>v_decoded = [], v_hashes = []\<rparr> (m_sources m)) (\<lambda>ev.
     inspected_record e m manifest_hash ev))))"

definition compare_bundles :: "penv \<Rightarrow> sealed \<Rightarrow> sealed \<Rightarrow> pyv \<Rightarrow> pyv \<Rightarrow> pydict res" where
  "compare_bundles e baseline candidate declared thresholds =
     bnd (inspect_bundle e baseline) (\<lambda>first. bnd (inspect_bundle e candidate) (\<lambda>second.
     comparison_record e (PDict first) (PDict second) declared thresholds))"

section \<open>Lemmas: equality of values\<close>

text \<open>\<open>==\<close> on the values of JSON: it carries over along equal values, and turns around where the
  dictionaries of the left side have distinct keys, as Python's always have.\<close>

lemma flt_eq_sym: "flt_eq a b = flt_eq b a"
  by (cases a; cases b) auto

lemma flt_eq_trans: "flt_eq a b \<Longrightarrow> flt_eq b c \<Longrightarrow> flt_eq a c"
  by (cases a; cases b; cases c) auto

lemma in_keyset_map_of: "k \<in> keyset d \<longleftrightarrow> (\<exists>v. map_of d k = Some v)"
  by (auto simp: keyset_def weak_map_of_SomeI map_of_SomeD rev_image_eqI split: prod.splits dest: map_of_SomeD)

lemma py_eq_dict:
  "py_eq (PDict d) (PDict e) \<longleftrightarrow> length d = length e \<and> (\<forall>kv \<in> set d. \<exists>x. map_of e (fst kv) = Some x \<and> py_eq (snd kv) x)"
  by (auto simp: list_all_iff split: option.splits)

lemma py_eq_dict_keys:
  assumes "py_eq (PDict d) (PDict e)" "distinct (map fst d)"
  shows "keyset d = keyset e \<and> distinct (map fst e)"
proof -
  have sub: "keyset d \<subseteq> keyset e"
  proof
    fix k assume "k \<in> keyset d"
    then obtain kv where "kv \<in> set d" "k = fst kv" by (auto simp: keyset_def)
    then show "k \<in> keyset e" using assms(1) unfolding py_eq_dict in_keyset_map_of by blast
  qed
  have len: "length d = length e" using assms(1) by (simp add: py_eq_dict)
  have "card (keyset d) = length d" using assms(2) distinct_card by (fastforce simp: keyset_def)
  moreover have "card (keyset e) \<le> length e" unfolding keyset_def using card_length [of "map fst e"] by simp
  ultimately have eq: "keyset d = keyset e"
    using sub len by (metis card_seteq finite_set keyset_def)
  then have "card (set (map fst e)) = length (map fst e)" using \<open>card (keyset d) = length d\<close> len by (simp add: keyset_def)
  then show ?thesis using eq card_distinct by blast
qed

lemma py_eq_num: "num_of u = Some a \<Longrightarrow> py_eq u v \<longleftrightarrow> (\<exists>b. num_of v = Some b \<and> flt_eq a b)"
  by (cases u) (auto split: option.splits)

lemma py_eq_num_sym: "num_of u = Some a \<Longrightarrow> py_eq u v \<Longrightarrow> py_eq v u"
  using py_eq_num [of u a v] py_eq_num [of v] flt_eq_sym by blast

lemma py_eq_num_trans: "num_of u = Some a \<Longrightarrow> py_eq u v \<Longrightarrow> py_eq v w \<Longrightarrow> py_eq u w"
  using py_eq_num [of u a v] py_eq_num [of v _ w] py_eq_num [of u a w] flt_eq_trans by blast

lemma py_eq_trans: "py_eq u v \<Longrightarrow> py_eq v w \<Longrightarrow> py_eq u w"
proof (induction u arbitrary: v w)
  case (PList us)
  obtain vs where v: "v = PList vs" "list_all2 py_eq us vs" using PList.prems(1) by (cases v) auto
  obtain ws where w: "w = PList ws" "list_all2 py_eq vs ws" using PList.prems(2) v(1) by (cases w) auto
  show ?case using v w PList.IH by (auto simp: list_all2_conv_all_nth)
next
  case (PDict d)
  obtain e where e: "v = PDict e" using PDict.prems(1) by (cases v) auto
  obtain f where f: "w = PDict f" using PDict.prems(2) e by (cases w) auto
  have de: "py_eq (PDict d) (PDict e)" and ef: "py_eq (PDict e) (PDict f)" using PDict.prems unfolding e f by simp_all
  have "\<exists>x. map_of f (fst kv) = Some x \<and> py_eq (snd kv) x" if kv: "kv \<in> set d" for kv
  proof -
    obtain y where y: "map_of e (fst kv) = Some y" "py_eq (snd kv) y" using de kv unfolding py_eq_dict by blast
    obtain x where x: "map_of f (fst kv) = Some x" "py_eq y x"
      using ef map_of_SomeD [OF y(1)] unfolding py_eq_dict by fastforce
    have "snd kv \<in> Basic_BNFs.snds kv" by (cases kv) auto
    then show ?thesis using PDict.IH [OF kv] y(2) x by blast
  qed
  then show ?case using de ef unfolding f py_eq_dict by simp
next
  case (PBool b)
  then show ?case using py_eq_num_trans [of "PBool b"] by simp
next
  case (PInt i)
  then show ?case using py_eq_num_trans [of "PInt i"] by simp
next
  case (PFloat q)
  then show ?case using py_eq_num_trans [of "PFloat q"] by simp
qed auto

lemma py_eq_dict_row:
  assumes "py_eq (PDict d) (PDict e)" "(k, x) \<in> set d"
  shows "\<exists>y. map_of e k = Some y \<and> py_eq x y"
proof -
  have "\<forall>kv \<in> set d. \<exists>y. map_of e (fst kv) = Some y \<and> py_eq (snd kv) y" using assms(1) unfolding py_eq_dict by (rule conjunct2)
  from bspec [OF this assms(2)] show ?thesis by (simp only: fst_conv snd_conv)
qed

lemma py_eq_dictI:
  assumes "length d = length e" "\<And>k x. (k, x) \<in> set d \<Longrightarrow> \<exists>y. map_of e k = Some y \<and> py_eq x y"
  shows "py_eq (PDict d) (PDict e)"
  unfolding py_eq_dict using assms by (metis prod.collapse)

lemma py_eq_dict_sym:
  assumes de: "py_eq (PDict d) (PDict e)" and d: "distinct (map fst d)"
    and turn: "\<And>k x y. (k, x) \<in> set d \<Longrightarrow> py_eq x y \<Longrightarrow> py_eq y x"
  shows "py_eq (PDict e) (PDict d)"
proof (rule py_eq_dictI)
  show "length e = length d" using de by (simp only: py_eq_dict)
  have keys: "keyset d = keyset e" "distinct (map fst e)" using py_eq_dict_keys [OF de d] by (rule conjunct1, rule conjunct2)
  fix k y
  assume kv: "(k, y) \<in> set e"
  have "k \<in> keyset e" unfolding keyset_def set_map using kv by (rule rev_image_eqI) simp
  then have "k \<in> keyset d" unfolding keys(1) .
  then obtain x where x: "map_of d k = Some x" unfolding in_keyset_map_of ..
  have row: "(k, x) \<in> set d" by (rule map_of_SomeD [OF x])
  obtain z where z: "map_of e k = Some z" "py_eq x z" using py_eq_dict_row [OF de row] by blast
  have "py_eq x y" using z unfolding map_of_is_SomeI [OF keys(2) kv] by (simp only: option.inject)
  then show "\<exists>x. map_of d k = Some x \<and> py_eq y x" using turn [OF row] x by blast
qed

lemma py_eq_sym: "json_wf u \<Longrightarrow> py_eq u v \<Longrightarrow> py_eq v u"
proof (induction u arbitrary: v)
  case (PList us)
  obtain vs where v: "v = PList vs" "list_all2 py_eq us vs" using PList.prems(2) by (cases v) auto
  have "py_eq (vs ! i) (us ! i)" if "i < length us" for i
    using that v(2) PList.prems(1) PList.IH [of "us ! i" "vs ! i"] by (simp add: list_all2_conv_all_nth)
  then show ?case using v by (simp add: list_all2_conv_all_nth)
next
  case (PDict d)
  obtain e where e: "v = PDict e" using PDict.prems(2) by (cases v) auto
  have d: "distinct (map fst d)" "\<forall>kv \<in> set d. json_wf (snd kv)" using PDict.prems(1) by simp_all
  have "py_eq y x" if "(k, x) \<in> set d" "py_eq x y" for k x y
    using PDict.IH [OF that(1), of x y] d(2) that by force
  then show ?case using py_eq_dict_sym d(1) PDict.prems(2) unfolding e by blast
next
  case (PBool b)
  then show ?case using py_eq_num_sym [of "PBool b"] by simp
next
  case (PInt i)
  then show ?case using py_eq_num_sym [of "PInt i"] by simp
next
  case (PFloat q)
  then show ?case using py_eq_num_sym [of "PFloat q"] by simp
next
  case PNone
  then show ?case by simp
next
  case (PStr s)
  then show ?case by simp
qed


lemma json_wf_item: "json_wf (PDict d) \<Longrightarrow> map_of d k = Some v \<Longrightarrow> json_wf v"
  using map_of_SomeD by fastforce

lemma json_wf_dget: "json_wf v \<Longrightarrow> json_wf (dget (dict_of_v v) k)"
  by (cases v) (auto simp: dict_of_v_def dget_def dget_or_def split: option.splits dest: map_of_SomeD)

lemma normalized_launchD:
  assumes "normalized_observed_launch v = Inr l"
  shows "\<exists>d. v = PDict d \<and> map_of d ''launch'' = Some (PList [PDict l])"
proof -
  let ?launch = "dget (dict_of_v v) ''launch''"
  have n: "length (list_of ?launch) = 1" "is_dict (hd (list_of ?launch))" "l = dict_of_v (hd (list_of ?launch))"
    using assms unfolding normalized_observed_launch_def Let_def by auto
  obtain x where "list_of ?launch = [x]" using n(1) by (auto simp: length_Suc_conv)
  then have "?launch = PList [PDict l]" using n(2,3) by (cases ?launch; cases x) (auto simp: list_of_def dict_of_v_def)
  then show ?thesis by (cases v) (auto simp: dict_of_v_def dget_def dget_or_def split: option.splits)
qed

text \<open>Equal runtimes have equal observed launches.\<close>

lemma normalized_launch_eq:
  assumes "json_wf v" "py_eq v w" "normalized_observed_launch v = Inr l" "normalized_observed_launch w = Inr m"
  shows "py_eq (PDict m) (PDict l)"
proof -
  obtain d where d: "v = PDict d" "map_of d ''launch'' = Some (PList [PDict l])" using normalized_launchD [OF assms(3)] by blast
  obtain e where e: "w = PDict e" "map_of e ''launch'' = Some (PList [PDict m])" using normalized_launchD [OF assms(4)] by blast
  obtain y where y: "map_of e ''launch'' = Some y" "py_eq (PList [PDict l]) y"
    using py_eq_dict_row [OF assms(2) [unfolded d(1) e(1)] map_of_SomeD [OF d(2)]] by blast
  then have "py_eq (PList [PDict l]) (PList [PDict m])" using e(2) by (simp only: option.inject)
  then have eq: "py_eq (PDict l) (PDict m)" by (simp only: py_eq.simps pyv.case list.rel_inject)
  have "json_wf (PList [PDict l])" using json_wf_item assms(1) d by blast
  then have "\<forall>x \<in> set [PDict l]. json_wf x" by (simp only: json_wf.simps(1))
  then have "json_wf (PDict l)" using list.set_intros(1) by (rule bspec)
  then show ?thesis using eq by (rule py_eq_sym)
qed

section \<open>Lemmas: reading a bundle\<close>

definition proper_decode :: "codec \<Rightarrow> bool" where
  "proper_decode c = (\<forall>s v. c_decode c s = Inr v \<longrightarrow> json_wf v)"

definition evidence_ok :: "evidence \<Rightarrow> bool" where
  "evidence_ok ev = ((\<forall>kvs \<in> set (v_decoded ev). \<forall>v \<in> set (snd kvs). json_wf v) \<and> (\<forall>kv \<in> set (v_hashes ev). is_str (snd kv)))"

lemma read_json_wf: "proper_decode c \<Longrightarrow> read_json c link entry = Inr (v, digest) \<Longrightarrow> json_wf v"
  by (auto simp: read_json_def proper_decode_def split: sum.splits)

lemma read_artifactD:
  "read_artifact c b kind location = Inr (name, v, digest) \<Longrightarrow> is_str location \<and> name = artifact kind location \<and> (proper_decode c \<longrightarrow> json_wf v)"
  by (auto simp: read_artifact_def relative_file_def Let_def dest: read_json_wf)

lemma dset_str: "\<forall>kv \<in> set h. is_str (snd kv) \<Longrightarrow> \<forall>kv \<in> set (dset h n (PStr s)). is_str (snd kv)"
  by (induction h n "PStr s" rule: dset.induct) auto

lemma hashes_str:
  "\<forall>kv \<in> set h. is_str (snd kv) \<Longrightarrow> \<forall>kv \<in> set (foldl (\<lambda>h (name, _, digest). dset h name (PStr digest)) h rows). is_str (snd kv)"
proof (induction rows arbitrary: h)
  case (Cons row rows)
  obtain n v s where row: "row = (n, v, s)" by (cases row)
  show ?case unfolding foldl_Cons row prod.case by (rule Cons.IH [OF dset_str [OF Cons.prems]])
qed simp

lemma read_kindD:
  assumes "read_kind c b ev (kind, location) = Inr ev'"
  shows "\<exists>rows. mapM_res (read_artifact c b kind) (list_of (locations_of kind location)) = Inr rows
     \<and> v_decoded ev' = v_decoded ev @ [(kind, map (\<lambda>(_, v, _). v) rows)]
     \<and> v_hashes ev' = foldl (\<lambda>h (name, _, digest). dset h name (PStr digest)) (v_hashes ev) rows"
  using assms by (auto simp: read_kind_def Let_def)

lemma read_kind_ok:
  assumes "proper_decode c" "evidence_ok ev" "read_kind c b ev (kind, location) = Inr ev'"
  shows "evidence_ok ev'"
proof -
  obtain rows where r: "mapM_res (read_artifact c b kind) (list_of (locations_of kind location)) = Inr rows"
    "v_decoded ev' = v_decoded ev @ [(kind, map (\<lambda>(_, v, _). v) rows)]"
    "v_hashes ev' = foldl (\<lambda>h (name, _, digest). dset h name (PStr digest)) (v_hashes ev) rows"
    using read_kindD [OF assms(3)] by blast
  have "json_wf v" if "(name, v, digest) \<in> set rows" for name v digest
    using mapM_res_set [OF r(1) that] read_artifactD assms(1) by blast
  then show ?thesis using assms(2) hashes_str [of "v_hashes ev" rows] unfolding evidence_ok_def r(2,3) by auto
qed

lemma read_kinds_ok:
  "proper_decode c \<Longrightarrow> evidence_ok ev \<Longrightarrow> foldM_res (read_kind c b) ev sources = Inr ev' \<Longrightarrow> evidence_ok ev'"
  by (induction sources arbitrary: ev) (auto split: sum.splits dest: read_kind_ok)

lemma read_kinds_keep:
  "foldM_res (read_kind c b) ev sources = Inr ev' \<Longrightarrow> map_of (v_decoded ev) k = Some vs \<Longrightarrow> map_of (v_decoded ev') k = Some vs"
proof (induction sources arbitrary: ev)
  case (Cons kl sources)
  obtain ev1 where "read_kind c b ev kl = Inr ev1" "foldM_res (read_kind c b) ev1 sources = Inr ev'"
    using Cons.prems(1) by (auto split: sum.splits)
  then show ?case using Cons read_kindD [of c b ev "fst kl" "snd kl"] by (fastforce simp: map_add_def)
qed simp

lemma read_kinds_source:
  "foldM_res (read_kind c b) ev sources = Inr ev' \<Longrightarrow> map_of (v_decoded ev) k = None \<Longrightarrow> map_of (v_decoded ev') k = Some vs
   \<Longrightarrow> \<exists>location rows. map_of sources k = Some location
     \<and> mapM_res (read_artifact c b k) (list_of (locations_of k location)) = Inr rows \<and> vs = map (\<lambda>(_, v, _). v) rows"
proof (induction sources arbitrary: ev)
  case (Cons kl sources)
  obtain kind location where kl: "kl = (kind, location)" by (cases kl)
  obtain ev1 where ev1: "read_kind c b ev (kind, location) = Inr ev1" "foldM_res (read_kind c b) ev1 sources = Inr ev'"
    using Cons.prems(1) unfolding kl by (auto split: sum.splits)
  obtain rows where rows: "mapM_res (read_artifact c b kind) (list_of (locations_of kind location)) = Inr rows"
    "v_decoded ev1 = v_decoded ev @ [(kind, map (\<lambda>(_, v, _). v) rows)]"
    using read_kindD [OF ev1(1)] by blast
  show ?case
  proof (cases "kind = k")
    case True
    then have "map_of (v_decoded ev1) k = Some (map (\<lambda>(_, v, _). v) rows)" using rows(2) Cons.prems(2) by (simp add: map_add_def)
    then have "vs = map (\<lambda>(_, v, _). v) rows" using read_kinds_keep [OF ev1(2)] Cons.prems(3) by fastforce
    then show ?thesis using rows(1) True kl by auto
  next
    case False
    then have "map_of (v_decoded ev1) k = None" using rows(2) Cons.prems(2) by (simp add: map_add_def)
    then show ?thesis using Cons.IH [OF ev1(2)] Cons.prems(3) False kl by simp
  qed
qed simp

section \<open>Lemmas: an inspected quality result\<close>

lemma check_qualityD:
  assumes "check_quality e quality baseline run serving own conditions details = Inr u"
  shows "\<exists>expected. py_eq quality (PDict expected) \<and> quality_again e quality baseline run = Inr expected
     \<and> run_matches_serving (p_codec e) run serving own conditions details = Inr True
     \<and> digest_item (p_codec e) quality ''baseline_sha256'' baseline = Inr True \<and> digest_item (p_codec e) quality ''candidate_sha256'' run = Inr True"
proof -
  obtain found where f: "attempt (quality_attempt e quality baseline run serving own conditions details) = Inr found"
    and g: "(case found of None \<Rightarrow> Inr False | Some (expected, matches) \<Rightarrow>
           andM (Inr (py_eq quality (PDict expected))) (andM (digest_item (p_codec e) quality ''baseline_sha256'' baseline)
             (andM (digest_item (p_codec e) quality ''candidate_sha256'' run) (Inr matches)))) = Inr True"
    using assms unfolding check_quality_def by auto
  obtain expected matches where s: "found = Some (expected, matches)" using g by (cases found) auto
  have "quality_attempt e quality baseline run serving own conditions details = Inr (expected, matches)"
    using f s by (auto simp: attempt_def split: sum.splits if_splits)
  then show ?thesis using g s by (auto simp: quality_attempt_def)
qed

lemma check_run_dict: "check_run run = Inr u \<Longrightarrow> is_dict run"
  by (cases run) (auto simp: check_run_def py_item_def)

lemma compared_dicts: "compare_quality e baseline run atol rtol h k = Inr q \<Longrightarrow> is_dict baseline \<and> is_dict run"
  by (auto simp: compare_quality_def dest: check_run_dict)

lemma checked_runD:
  assumes "checked_run_matches_profile c run profile conditions descriptor = Inr True"
  shows "\<exists>runtime derived found. derived_run c run (dict_of_v conditions) = Inr (runtime, derived, found) \<and> py_eq (PDict derived) profile
     \<and> (\<forall>profile'. py_eq (PDict derived) profile' \<longrightarrow> checked_run_matches_profile c run profile' conditions descriptor = Inr True)"
  using assms unfolding checked_run_matches_profile_def Let_def by (auto split: if_splits sum.splits)

lemma derived_runD:
  assumes "derived_run c run conditions = Inr (runtime, derived, found)"
  shows "\<exists>ident launch. py_item run ''identity'' = Inr ident \<and> py_item ident ''runtime'' = Inr runtime \<and> normalized_observed_launch runtime = Inr launch"
  using assms unfolding derived_run_def producer_conditions_def by (auto simp: item_def)

lemma producer_conditions_launch:
  assumes "producer_conditions c serving rd = Inr conditions" "producer_condition_details c serving = Inr details"
  shows "\<exists>runtime launch digest. py_item serving ''runtime'' = Inr runtime \<and> normalized_observed_launch runtime = Inr launch
     \<and> canonical_digest c (PDict launch) = Inr digest \<and> dget conditions ''observed_launch_sha256'' = PStr digest
     \<and> dget details ''observed_launch'' = PDict launch"
proof -
  obtain runtime launch digest where "py_item serving ''runtime'' = Inr runtime" "normalized_observed_launch runtime = Inr launch"
    "observed_launch_digest c runtime = Inr digest" "dget conditions ''observed_launch_sha256'' = PStr digest"
    using assms(1) unfolding producer_conditions_def Let_def conditions_value_def by (auto simp: dget_rec simp del: item_Inr_iff)
  moreover have "dget details ''observed_launch'' = PDict launch"
    using assms(2) calculation(1,2) unfolding producer_condition_details_def by (auto simp: dget_rec simp del: item_Inr_iff)
  ultimately show ?thesis unfolding observed_launch_digest_def by auto
qed

lemma run_matches_servingD:
  assumes "run_matches_serving c run serving own conditions details = Inr True"
  shows "\<exists>ident runtime served launch. py_item run ''identity'' = Inr ident \<and> py_item ident ''runtime'' = Inr runtime
     \<and> py_item serving ''runtime'' = Inr served \<and> py_eq runtime served \<and> normalized_observed_launch runtime = Inr launch"
proof -
  have checked: "checked_run_matches_profile c run (PDict own) (PDict conditions) (dget details ''experimental_kv'') = Inr True"
    using assms unfolding run_matches_serving_def by simp
  obtain runtime derived found where "derived_run c run (dict_of_v (PDict conditions)) = Inr (runtime, derived, found)"
    using checked_runD [OF checked] by blast
  then obtain ident launch where i: "py_item run ''identity'' = Inr ident" "py_item ident ''runtime'' = Inr runtime"
    "normalized_observed_launch runtime = Inr launch"
    using derived_runD by blast
  obtain served v where s: "py_item serving ''runtime'' = Inr served" "py_eq v served"
    "bnd (py_get_or run ''identity'' (PDict [])) (\<lambda>i. py_get i ''runtime'') = Inr v"
    using assms unfolding run_matches_serving_def by auto
  have "v = runtime"
    using s(3) i(1,2) by (cases run; cases ident) (auto simp: py_item_def py_get_or_def py_get_def dget_or_def dget_def)
  then show ?thesis using i s by blast
qed

lemma requality_again:
  "quality_again e (PDict q) baseline run = Inr expected \<Longrightarrow> requality e baseline run q = Inr expected"
  by (auto simp: quality_again_def requality_def comparison_is_def Let_def py_item_def dget_def dget_or_def item_def split: option.splits pyv.splits)

lemma inspected_recordD:
  assumes "inspected_record e m mh ev = Inr r" "''quality'' \<in> keyset (v_decoded ev)"
  shows "\<exists>rd derived conditions details run_values metrics. cardinality_ok ev
     \<and> producer_conditions (p_codec e) (the_decoded ev ''serving'') rd = Inr conditions
     \<and> producer_condition_details (p_codec e) (the_decoded ev ''serving'') = Inr details \<and> py_eq (PDict (m_identity m)) (PDict derived)
     \<and> check_quality e (the_decoded ev ''quality'') (decoded ev ''kernel_runs'' ! 0) (decoded ev ''kernel_runs'' ! 1) (the_decoded ev ''serving'') derived conditions details = Inr ()
     \<and> both_run_fields (p_codec e) (m_sources m) ev (decoded ev ''kernel_runs'' ! 0) (decoded ev ''kernel_runs'' ! 1) = Inr run_values
     \<and> r = inspection_value m conditions details (the_decoded ev ''quality'') run_values mh (v_hashes ev) metrics"
  using assms unfolding inspected_record_def Let_def by (simp del: item_Inr_iff) blast

lemma run_fieldsD:
  assumes "run_fields c name hashes run location = Inr made"
  shows "\<exists>digest file. canonical_digest c run = Inr digest \<and> map_of hashes (artifact ''kernel_runs'' location) = Some file
     \<and> made = [(name, run), (name @ ''_sha256'', PStr digest), (name @ ''_artifact_sha256'', file), (name @ ''_source'', location)]"
  using assms unfolding run_fields_def by auto

lemma artifact_namedI:
  assumes "map_of hashes (artifact ''kernel_runs'' location) = Some file" "\<forall>kv \<in> set hashes. is_str (snd kv)" "is_str location"
  shows "artifact_named hashes file location"
proof -
  have "is_str file" using assms(2) map_of_SomeD [OF assms(1)] by fastforce
  then show ?thesis using assms(1,3) by (simp add: artifact_named_def dget_def dget_or_def artifact_def)
qed

text \<open>The record that \<open>inspect\<close> makes passes the check that a comparison makes on every record.\<close>

lemma inspection_bound:
  assumes q: "check_quality e (PDict q) baseline run serving derived conditions details = Inr ()" and wf: "json_wf run" "json_wf (PDict (m_identity m))"
    and ident: "py_eq (PDict (m_identity m)) (PDict derived)" and locations: "is_str l0" "is_str l1" and hashes: "\<forall>kv \<in> set hashes. is_str (snd kv)"
    and conditions: "producer_conditions (p_codec e) serving rd = Inr conditions" "producer_condition_details (p_codec e) serving = Inr details"
    and made: "run_fields (p_codec e) ''quality_run'' hashes run l1 = Inr own" "run_fields (p_codec e) ''quality_baseline_run'' hashes baseline l0 = Inr other"
  shows "run_bound e (inspection_value m conditions details (PDict q) (own @ other) mh hashes metrics) run baseline q = Inr True"
proof -
  obtain d1 f1 where f1: "canonical_digest (p_codec e) run = Inr d1" "map_of hashes (artifact ''kernel_runs'' l1) = Some f1"
    "own = [(''quality_run'', run), (''quality_run_sha256'', PStr d1), (''quality_run_artifact_sha256'', f1), (''quality_run_source'', l1)]"
    using run_fieldsD [OF made(1)] by auto
  obtain d0 f0 where f0: "canonical_digest (p_codec e) baseline = Inr d0" "map_of hashes (artifact ''kernel_runs'' l0) = Some f0"
    "other = [(''quality_baseline_run'', baseline), (''quality_baseline_run_sha256'', PStr d0), (''quality_baseline_run_artifact_sha256'', f0), (''quality_baseline_run_source'', l0)]"
    using run_fieldsD [OF made(2)] by auto
  have matches: "run_matches_serving (p_codec e) run serving derived conditions details = Inr True"
    and digests: "digest_item (p_codec e) (PDict q) ''baseline_sha256'' baseline = Inr True" "digest_item (p_codec e) (PDict q) ''candidate_sha256'' run = Inr True"
    using check_qualityD [OF q] by blast+
  obtain runtime launch digest where served: "py_item serving ''runtime'' = Inr runtime" "normalized_observed_launch runtime = Inr launch"
    "canonical_digest (p_codec e) (PDict launch) = Inr digest" "dget conditions ''observed_launch_sha256'' = PStr digest"
    "dget details ''observed_launch'' = PDict launch"
    using producer_conditions_launch [OF conditions] by blast
  obtain i v w l where r: "py_item run ''identity'' = Inr i" "py_item i ''runtime'' = Inr v" "py_item serving ''runtime'' = Inr w" "py_eq v w"
    "normalized_observed_launch v = Inr l"
    using run_matches_servingD [OF matches] by blast
  have "json_wf v" using wf(1) r(1,2) json_wf_item by (cases run; cases i) (auto simp: py_item_def)
  then have eq: "py_eq (PDict launch) (PDict l)" using normalized_launch_eq r(3,4,5) served(1,2) by simp
  have "checked_run_matches_profile (p_codec e) run (PDict derived) (PDict conditions) (dget details ''experimental_kv'') = Inr True"
    using matches unfolding run_matches_serving_def by simp
  then have checked: "checked_run_matches_profile (p_codec e) run (PDict (m_identity m)) (PDict conditions) (dget details ''experimental_kv'') = Inr True"
    using checked_runD py_eq_trans py_eq_sym [OF wf(2) ident] by blast
  have path: "py_path run [''identity'', ''runtime''] = Inr v" using r(1,2) by (simp add: py_path_def)
  have named: "artifact_named hashes f1 l1" "artifact_named hashes f0 l0" using artifact_namedI f1(2) f0(2) hashes locations by blast+
  have dq: "dget q ''baseline_sha256'' = PStr d0" "dget q ''candidate_sha256'' = PStr d1"
    using digests f0(1) f1(1) by (auto simp: digest_item_def dget_def dget_or_def)
  let ?r = "inspection_value m conditions details (PDict q) (own @ other) mh hashes metrics"
  have get: "dget ?r ''quality_run_sha256'' = PStr d1" "dget ?r ''quality_baseline_run_sha256'' = PStr d0" "dget ?r ''artifact_sha256'' = PDict hashes"
    "dget ?r ''quality_run_artifact_sha256'' = f1" "dget ?r ''quality_run_source'' = l1" "dget ?r ''quality_baseline_run_artifact_sha256'' = f0"
    "dget ?r ''quality_baseline_run_source'' = l0" "dget ?r ''producer_condition_details'' = PDict details" "dget ?r ''producer_conditions'' = PDict conditions"
    "dget ?r ''identity'' = PDict (m_identity m)"
    unfolding inspection_value_def f1(3) f0(3) by (simp_all add: dget_rec)
  show ?thesis
    unfolding run_bound_def Let_def get digest_is_def dq f0(1) f1(1) path bnd_simps r(5) served(3,4,5) dict_of_v_def pyv.case checked
    using named eq by (simp add: served(4,5))
qed

lemma inspected_without_quality:
  assumes "inspected_record e m mh ev = Inr r" "''quality'' \<notin> keyset (v_decoded ev)"
  shows "dget r ''quality_result'' = PNone"
  using assms unfolding inspected_record_def Let_def inspection_value_def by (auto simp: dget_rec simp del: item_Inr_iff)

lemma both_run_fieldsD:
  assumes "both_run_fields c sources ev baseline run = Inr run_values" "truthy run" "list_of (dget sources ''kernel_runs'') = [l0, l1]"
  shows "\<exists>own other. run_values = own @ other \<and> run_fields c ''quality_run'' (v_hashes ev) run l1 = Inr own
     \<and> run_fields c ''quality_baseline_run'' (v_hashes ev) baseline l0 = Inr other"
  using assms unfolding both_run_fields_def Let_def by auto

lemma checked_quality_dicts:
  assumes "check_quality e quality baseline run serving derived conditions details = Inr ()"
  shows "is_dict quality \<and> is_dict baseline \<and> is_dict run \<and> truthy run"
proof -
  obtain expected where x: "py_eq quality (PDict expected)" "quality_again e quality baseline run = Inr expected"
    "run_matches_serving (p_codec e) run serving derived conditions details = Inr True"
    using check_qualityD [OF assms] by blast
  have "is_dict baseline" "is_dict run" using x(2) compared_dicts unfolding quality_again_def Let_def by fastforce+
  moreover have "truthy run" using run_matches_servingD [OF x(3)] calculation(2) by (cases run) (auto simp: item_def)
  moreover have "is_dict quality" using x(1) by (cases quality) (auto split: option.splits)
  ultimately show ?thesis by blast
qed

lemma inspection_run_fields:
  assumes "run_fields c ''quality_run'' hashes run l1 = Inr own" "run_fields c ''quality_baseline_run'' hashes baseline l0 = Inr other"
  shows "dget (inspection_value m conditions details quality (own @ other) mh hashes metrics) ''quality_run'' = run"
    "dget (inspection_value m conditions details quality (own @ other) mh hashes metrics) ''quality_baseline_run'' = baseline"
    "dget (inspection_value m conditions details quality (own @ other) mh hashes metrics) ''quality_result'' = quality"
  using run_fieldsD [OF assms(1)] run_fieldsD [OF assms(2)] by (auto simp: inspection_value_def dget_rec)

lemma inspected_retained:
  assumes "evidence_ok ev" "json_wf (PDict (m_identity m))"
    and l: "list_of (dget (m_sources m) ''kernel_runs'') = [l0, l1]" "is_str l0" "is_str l1"
    and r: "inspected_record e m mh ev = Inr r" "''quality'' \<in> keyset (v_decoded ev)"
  shows "retained_quality_run e (PDict r) = Inr (dget r ''quality_run'') \<and> is_dict (dget r ''quality_run'')"
proof -
  let ?quality = "the_decoded ev ''quality''" and ?runs = "decoded ev ''kernel_runs''"
  obtain rd derived conditions details run_values metrics where d: "cardinality_ok ev"
    "producer_conditions (p_codec e) (the_decoded ev ''serving'') rd = Inr conditions"
    "producer_condition_details (p_codec e) (the_decoded ev ''serving'') = Inr details" "py_eq (PDict (m_identity m)) (PDict derived)"
    "check_quality e ?quality (?runs ! 0) (?runs ! 1) (the_decoded ev ''serving'') derived conditions details = Inr ()"
    "both_run_fields (p_codec e) (m_sources m) ev (?runs ! 0) (?runs ! 1) = Inr run_values"
    "r = inspection_value m conditions details ?quality run_values mh (v_hashes ev) metrics"
    using inspected_recordD [OF r] by blast
  have n: "length ?runs = 2" "length (decoded ev ''quality'') = 1" using d(1) r(2) by (auto simp: cardinality_ok_def)
  have member: "v \<in> set (decoded ev k) \<Longrightarrow> json_wf v" for v k
    using assms(1) map_of_SomeD [of "v_decoded ev" k] by (cases "map_of (v_decoded ev) k") (fastforce simp: evidence_ok_def decoded_def)+
  have "?runs ! 1 \<in> set ?runs" "?quality \<in> set (decoded ev ''quality'')"
    using n by (auto simp: the_decoded_def length_Suc_conv)
  then have wf: "json_wf (?runs ! 1)" "json_wf ?quality" using member by blast+
  obtain q where q: "?quality = PDict q" using checked_quality_dicts [OF d(5)] by (cases ?quality) auto
  obtain own other where f: "run_values = own @ other" "run_fields (p_codec e) ''quality_run'' (v_hashes ev) (?runs ! 1) l1 = Inr own"
    "run_fields (p_codec e) ''quality_baseline_run'' (v_hashes ev) (?runs ! 0) l0 = Inr other"
    using both_run_fieldsD [OF d(6) _ l(1)] checked_quality_dicts [OF d(5)] by blast
  have bound: "run_bound e r (?runs ! 1) (?runs ! 0) q = Inr True"
    using inspection_bound [OF d(5) [unfolded q] wf(1) assms(2) d(4) l(2,3) _ d(2,3) f(2,3)] assms(1)
    unfolding d(7) f(1) q evidence_ok_def by blast
  obtain expected where x: "py_eq ?quality (PDict expected)" "quality_again e ?quality (?runs ! 0) (?runs ! 1) = Inr expected"
    using check_qualityD [OF d(5)] by blast
  have again: "requality e (?runs ! 0) (?runs ! 1) q = Inr expected" using x(2) unfolding q by (rule requality_again)
  have same: "py_eq (PDict expected) (PDict q)" using py_eq_sym [OF wf(2) x(1)] q by simp
  have get: "dget r ''quality_run'' = ?runs ! 1" "dget r ''quality_baseline_run'' = ?runs ! 0" "dget r ''quality_result'' = PDict q"
    using inspection_run_fields [OF f(2,3)] unfolding d(7) f(1) q by blast+
  show ?thesis
    unfolding retained_quality_run_def py_get_def pyv.case bnd_simps Let_def dict_of_v_def get
    using checked_quality_dicts [OF d(5)] bound again same by (simp add: attempt_def del: py_eq.simps)
qed

lemma check_manifest_identity: "check_manifest v = Inr m \<Longrightarrow> PDict (m_identity m) = dget (dict_of_v v) ''identity''"
  by (cases "dget (dict_of_v v) ''identity''") (auto simp: check_manifest_def check_identity_def Let_def split: option.splits)

text \<open>C38: whatever bundle is inspected, a record with a quality result is one that the comparison
  accepts: the check that \<open>comparison_record\<close> makes again on the record finds its checked run, and
  never calls it unavailable.\<close>

theorem inspected_quality_is_retained:
  assumes "proper_decode (p_codec e)" "inspect_bundle e b = Inr r" "dget r ''quality_result'' \<noteq> PNone"
  shows "retained_quality_run e (PDict r) = Inr (dget r ''quality_run'') \<and> is_dict (dget r ''quality_run'')"
proof -
  obtain v mh m ev where v: "read_json (p_codec e) (e_link (b_entry b ''manifest.json'')) (b_entry b ''manifest.json'') = Inr (v, mh)"
    and m: "check_manifest v = Inr m" and ev: "foldM_res (read_kind (p_codec e) b) \<lparr>v_decoded = [], v_hashes = []\<rparr> (m_sources m) = Inr ev"
    and r: "inspected_record e m mh ev = Inr r"
    using assms(2) unfolding inspect_bundle_def Let_def by auto
  have quality: "''quality'' \<in> keyset (v_decoded ev)" using inspected_without_quality [OF r] assms(3) by blast
  have ok: "evidence_ok ev" using read_kinds_ok [OF assms(1) _ ev] by (simp add: evidence_ok_def)
  have wf: "json_wf (PDict (m_identity m))" using check_manifest_identity [OF m] json_wf_dget [OF read_json_wf [OF assms(1) v]] by metis
  have two: "length (decoded ev ''kernel_runs'') = 2" using inspected_recordD [OF r quality] quality by (auto simp: cardinality_ok_def)
  then obtain vs where vs: "map_of (v_decoded ev) ''kernel_runs'' = Some vs" "length vs = 2" by (auto simp: decoded_def split: option.splits)
  obtain location rows where l: "map_of (m_sources m) ''kernel_runs'' = Some location"
    "mapM_res (read_artifact (p_codec e) b ''kernel_runs'') (list_of location) = Inr rows" "vs = map (\<lambda>(_, v, _). v) rows"
    using read_kinds_source [OF ev _ vs(1)] by (auto simp: locations_of_def)
  have "length (list_of location) = 2" using mapM_res_length [OF l(2)] l(3) vs(2) by simp
  then obtain l0 l1 where ll: "list_of location = [l0, l1]" by (auto simp: length_Suc_conv numeral_2_eq_2)
  have "is_str l0" "is_str l1" using l(2) read_artifactD unfolding ll by (auto split: sum.splits)
  then show ?thesis using inspected_retained [OF ok wf _ _ _ r quality] ll l(1) by (simp add: dget_def dget_or_def)
qed

section \<open>A bundle with a quality result\<close>

definition in_pod :: pyv where
  "in_pod = PDict [(''node'', PStr ''n''), (''image'', PStr (''i@sha256:'' @ zeros 64)), (''image_id'', PStr (''sha256:'' @ zeros 64)),
     (''resources'', PDict [(''requests'', PDict [(''memory'', PStr ''1Gi'')]), (''limits'', PDict [(''memory'', PStr ''1Gi'')])]),
     (''launch_spec_sha256'', PStr (zeros 64))]"

definition in_runtime :: pyv where
  "in_runtime = PDict [(''settings'', PDict [(''MODEL_REVISION'', PStr ''r''), (''MODEL_DTYPE'', PStr ''b'')]),
     (''model_files'', PDict [(''vocab.json'', PDict [(''bytes'', PInt 1), (''sha256'', PStr (zeros 64))])]),
     (''launch'', PList [PDict pd_launch]), (''devices'', PList [PDict [(''uuid'', PStr ''u''), (''gfx'', PStr ''gfx1201'')]]),
     (''packages'', PDict (map (\<lambda>p. (p, PStr ''1'')) PACKAGES)), (''hip'', PStr ''h''), (''model_contract'', PDict [(''quant_method'', PStr ''q'')])]"

definition in_serving :: pyv where
  "in_serving = PDict [(''schema'', PInt 1), (''status'', PStr ''failed''), (''profile'', PStr ''p''), (''prefix_state'', PStr ''new-prefix''),
     (''runtime'', in_runtime), (''pod'', in_pod), (''workload_sha256'', PStr (zeros 64)), (''runtime_sha256'', PStr (zeros 64))]"

definition in_run :: pyv where
  "in_run = PDict [(''schema'', PInt 1), (''status'', PStr ''measured-not-qualified''), (''kind'', PStr ''kernel-warmup''), (''memory'', PDict [(''status'', PStr ''checked'')]),
     (''identity'', PDict [(''runtime'', in_runtime), (''image'', dget (dict_of_v in_pod) ''image''), (''image_id'', dget (dict_of_v in_pod) ''image_id''),
        (''resources'', dget (dict_of_v in_pod) ''resources'')]), (''pod'', in_pod), (''workload_sha256'', PStr (zeros 64)),
     (''warmup_contract'', dget (dict_of_v pd_run) ''warmup_contract''), (''quality'', dget (dict_of_v pd_run) ''quality'')]"

definition in_manifest :: pyv where
  "in_manifest = PDict [(''schema'', PInt 1), (''kind'', PStr ''workstation-performance-evidence''), (''status'', PStr ''incomplete''), (''profile_id'', PStr ''b''),
     (''identity'', PDict (identity_value (PStr ''r'') (zeros 64) (PStr (zeros 64)) (zeros 64) (zeros 64) (PStr (zeros 64)) (PStr ''q''))),
     (''experiment'', PDict [(''variables'', PDict []), (''profile'', PStr ''p''), (''prefix_state'', PStr ''new-prefix'')]),
     (''sources'', PDict [(''serving'', PStr ''s''), (''runtime'', PStr ''r''), (''startup'', PList [PStr ''u'']), (''quality'', PStr ''q''),
        (''kernel_runs'', PList [PStr ''k'', PStr ''l''])])]"

definition in_files :: "(string \<times> pyv) list" where
  "in_files = [(''manifest.json'', in_manifest), (''s'', in_serving), (''r'', in_runtime), (''u'', PDict [(''schema'', PInt 1), (''cache_state'', PStr ''cold'')]),
     (''q'', PDict pd_quality), (''k'', in_run), (''l'', in_run)]"

text \<open>A file holds its own name; the parser gives the value of that name.\<close>

definition in_codec :: codec where
  "in_codec = \<lparr>c_dumps = (\<lambda>_. Inr []), c_decode = (\<lambda>s. case map_of in_files s of Some v \<Rightarrow> Inr v | None \<Rightarrow> Inl JSONDecodeError), c_digest = (\<lambda>_. zeros 64)\<rparr>"

definition in_env :: penv where
  "in_env = plain_env\<lparr>p_codec := in_codec\<rparr>"

definition in_bundle :: sealed where
  "in_bundle = \<lparr>b_link = False, b_directory = True, b_entry = (\<lambda>name. \<lparr>e_link = False, e_inside = True, e_regular = True, e_data = name\<rparr>)\<rparr>"

lemma in_decode: "proper_decode (p_codec in_env)"
proof -
  have "list_all (\<lambda>kv. json_wf (snd kv)) in_files" by code_simp
  then have "\<forall>kv \<in> set in_files. json_wf (snd kv)" by (simp only: list_all_iff)
  then show ?thesis
    by (auto simp: proper_decode_def in_env_def in_codec_def split: option.splits dest!: map_of_SomeD)
qed

lemma in_quality_compare: "quality_compare in_env as bs atol rtol = quality_compare plain_env as bs atol rtol"
proof -
  have "py_stdev in_env = py_stdev plain_env" by (rule ext) (simp add: py_stdev_def in_env_def)
  then have "summary in_env = summary plain_env" unfolding summary_def [abs_def] by (simp only:)
  then show ?thesis unfolding quality_compare_def by (simp only:)
qed

lemma in_parts: "check_run in_run = Inr ()" "same_item in_run in_run m ''workload_sha256'' = Inr ()" "same_item in_run in_run m ''warmup_contract'' = Inr ()"
  "py_item in_run ''identity'' = Inr (dget (dict_of_v in_run) ''identity'')" "canonical_digest (p_codec in_env) v = Inr (zeros 64)"
  "identities_ok in_env (dget (dict_of_v in_run) ''identity'') (dget (dict_of_v in_run) ''identity'') False False = Inr ()"
  "py_item in_run ''quality'' = Inr (dget (dict_of_v pd_run) ''quality'')"
  by code_simp+

lemma in_compare: "compare_quality in_env in_run in_run (PInt 0) (PInt 0) False False = Inr pd_quality"
  by (simp add: compare_quality_def in_parts in_quality_compare pd_quality_compare comparison_name_def pd_quality_def dget_rec del: bnd_Inr_iff)

definition in_evidence :: evidence where
  "in_evidence = \<lparr>v_decoded = [(''serving'', [in_serving]), (''runtime'', [in_runtime]), (''startup'', [dget in_files ''u'']), (''quality'', [PDict pd_quality]),
       (''kernel_runs'', [in_run, in_run])],
     v_hashes = map (\<lambda>name. (name, PStr (zeros 64))) [''serving:s'', ''runtime:r'', ''startup:u'', ''quality:q'', ''kernel_runs:k'', ''kernel_runs:l'']\<rparr>"

lemma in_read: "(case read_json (p_codec in_env) False (b_entry in_bundle ''manifest.json'') of Inr (v, mh) \<Rightarrow> v = in_manifest \<and> mh = zeros 64 | Inl _ \<Rightarrow> False)"
  by code_simp

lemma in_kinds: "(case check_manifest in_manifest of
    Inr m \<Rightarrow> foldM_res (read_kind (p_codec in_env) in_bundle) \<lparr>v_decoded = [], v_hashes = []\<rparr> (m_sources m) = Inr in_evidence | Inl _ \<Rightarrow> False)"
  by code_simp

lemma in_serving_ok:
  "producer_identity (p_codec in_env) in_serving in_runtime (zeros 64) = Inr (dict_of_v (dget (dict_of_v in_manifest) ''identity''))"
  "producer_condition_details (p_codec in_env) in_serving = Inr [(''observed_launch'', PDict pd_launch)]"
  "producer_conditions (p_codec in_env) in_serving (zeros 64) = Inr pd_conditions"
  "run_matches_serving (p_codec in_env) in_run in_serving (dict_of_v (dget (dict_of_v in_manifest) ''identity'')) pd_conditions [(''observed_launch'', PDict pd_launch)] = Inr True"
  "startup_matches_serving (decoded in_evidence ''startup'') in_serving = Inr ()"
  by code_simp+

lemma in_again: "quality_again in_env (PDict pd_quality) in_run in_run = Inr pd_quality"
proof -
  have "py_item (dget pd_quality ''quality'') ''atol'' = Inr (PInt 0)" "py_item (dget pd_quality ''quality'') ''rtol'' = Inr (PInt 0)"
    "comparison_is (PDict pd_quality) ''host-memory-only'' = False" "comparison_is (PDict pd_quality) ''experimental-kv'' = False"
    by code_simp+
  then show ?thesis by (simp add: quality_again_def in_compare del: bnd_Inr_iff item_Inr_iff py_item_simps)
qed

lemma in_checked: "check_quality in_env (PDict pd_quality) in_run in_run in_serving (dict_of_v (dget (dict_of_v in_manifest) ''identity'')) pd_conditions
   [(''observed_launch'', PDict pd_launch)] = Inr ()"
proof -
  have a: "notM (anyM run_schema_differs [in_run, in_run]) = Inr True" "py_eq (PDict pd_quality) (PDict pd_quality)"
    "digest_item (p_codec in_env) (PDict pd_quality) ''baseline_sha256'' in_run = Inr True"
    "digest_item (p_codec in_env) (PDict pd_quality) ''candidate_sha256'' in_run = Inr True"
    by code_simp+
  show ?thesis
    unfolding check_quality_def quality_attempt_def a(1) guardM_simps guard_simps in_again bnd_simps in_serving_ok(4)
    using a(2,3,4) by (simp add: attempt_def del: py_eq.simps)
qed

lemma in_rest: "cardinality_ok in_evidence" "item (v_hashes in_evidence) ''runtime:r'' = Inr (PStr (zeros 64))" "''quality'' \<in> keyset (v_decoded in_evidence)"
  "the_decoded in_evidence ''serving'' = in_serving" "the_decoded in_evidence ''runtime'' = in_runtime" "the_decoded in_evidence ''quality'' = PDict pd_quality"
  "decoded in_evidence ''kernel_runs'' = [in_run, in_run]"
  by code_simp+

lemma in_manifest_ok: "(case check_manifest in_manifest of
    Inr m \<Rightarrow> PDict (m_identity m) = dget (dict_of_v in_manifest) ''identity'' \<and> artifact ''runtime'' (dget (m_sources m) ''runtime'') = ''runtime:r''
      \<and> py_eq (PDict (m_identity m)) (PDict (m_identity m))
      \<and> py_eq (dget (m_experiment m) ''profile'') (dget (dict_of_v in_serving) ''profile'')
      \<and> py_eq (dget (m_experiment m) ''prefix_state'') (dget (dict_of_v in_serving) ''prefix_state'')
      \<and> (case both_run_fields (p_codec in_env) (m_sources m) in_evidence in_run in_run of Inr _ \<Rightarrow> True | Inl _ \<Rightarrow> False)
      \<and> (case metrics_value in_env in_evidence of Inr _ \<Rightarrow> True | Inl _ \<Rightarrow> False)
  | Inl _ \<Rightarrow> False)"
  by code_simp

lemma in_inspected: "\<exists>r. inspect_bundle in_env in_bundle = Inr r \<and> dget r ''quality_result'' = PDict pd_quality"
proof -
  obtain m where m: "check_manifest in_manifest = Inr m" "foldM_res (read_kind (p_codec in_env) in_bundle) \<lparr>v_decoded = [], v_hashes = []\<rparr> (m_sources m) = Inr in_evidence"
    using in_kinds by (auto split: sum.splits)
  have k: "PDict (m_identity m) = dget (dict_of_v in_manifest) ''identity''" "artifact ''runtime'' (dget (m_sources m) ''runtime'') = ''runtime:r''"
    "py_eq (PDict (m_identity m)) (PDict (m_identity m))"
    "py_eq (dget (m_experiment m) ''profile'') (dget (dict_of_v in_serving) ''profile'')"
    "py_eq (dget (m_experiment m) ''prefix_state'') (dget (dict_of_v in_serving) ''prefix_state'')"
    and b: "case both_run_fields (p_codec in_env) (m_sources m) in_evidence in_run in_run of Inr _ \<Rightarrow> True | Inl _ \<Rightarrow> False"
    and x: "case metrics_value in_env in_evidence of Inr _ \<Rightarrow> True | Inl _ \<Rightarrow> False"
    using in_manifest_ok unfolding m(1) sum.case by blast+
  obtain runs where runs: "both_run_fields (p_codec in_env) (m_sources m) in_evidence in_run in_run = Inr runs" using b by (auto split: sum.splits)
  obtain metrics where metrics: "metrics_value in_env in_evidence = Inr metrics" using x by (auto split: sum.splits)
  have own: "dict_of_v (dget (dict_of_v in_manifest) ''identity'') = m_identity m" using k(1) [symmetric] by simp
  have r: "inspected_record in_env m (zeros 64) in_evidence
     = Inr (inspection_value m pd_conditions [(''observed_launch'', PDict pd_launch)] (PDict pd_quality) runs (zeros 64) (v_hashes in_evidence) metrics)"
    using k(3,4,5) in_checked in_rest
    by (simp add: inspected_record_def k(2) in_serving_ok own runs metrics Let_def del: bnd_Inr_iff item_Inr_iff py_eq.simps)
  have f: "read_json (p_codec in_env) (e_link (b_entry in_bundle ''manifest.json'')) (b_entry in_bundle ''manifest.json'') = Inr (in_manifest, zeros 64)"
    using in_read by (auto simp: in_bundle_def split: sum.splits prod.splits)
  have "inspect_bundle in_env in_bundle = inspected_record in_env m (zeros 64) in_evidence"
    by (simp add: inspect_bundle_def Let_def f m del: bnd_Inr_iff) (simp add: in_bundle_def)
  then show ?thesis unfolding r by (auto simp: inspection_value_def dget_rec)
qed

theorem inspected_quality_is_retained_witness:
  "\<exists>r. inspect_bundle in_env in_bundle = Inr r \<and> retained_quality_run in_env (PDict r) = Inr (dget r ''quality_run'')"
proof -
  obtain r where r: "inspect_bundle in_env in_bundle = Inr r" "dget r ''quality_result'' = PDict pd_quality" using in_inspected by blast
  then show ?thesis using inspected_quality_is_retained [OF in_decode r(1)] by auto
qed

end
