(* ===== verification/Controller.thy ===== *)
theory Controller
  imports Exchange_Host
begin

text \<open>
  \<open>infrastructure/hyperloom/sglang-owner-adapter/controller.py\<close>: the trusted external controller of
  one campaign. It checks a grant, takes one queued job at a time through the exchange, has the owner
  operation prepared, proposed and executed, publishes the outcome and parks the campaign on every
  doubt. The transport \<open>rpc\<close>, the two operations and the clocks are arguments of the class or of the
  system: here they are oracles over the trace of everything that has happened so far.
\<close>

section \<open>The world of the controller\<close>

text \<open>One entry per effect, in order. A \<open>Started\<close> and a \<open>Finished\<close> entry surround the call
  \<open>operation.execute\<close>, with the job, its kind and the digest of its source set.\<close>

datatype event =
    Clock
  | Looked string
  | Wrote string string
  | Made string
  | Slept pyv
  | Call nat string pyv pyv pyv
  | Prepared bool pyv pyv
  | Proposed bool pyv
  | Started string string string
  | Finished string string pyv

record outside =
  o_host :: host_env
  o_mono :: "event list \<Rightarrow> flt"
  o_wall :: "event list \<Rightarrow> flt"
  o_fault :: "event list \<Rightarrow> bool"
  o_source :: "event list \<Rightarrow> string \<Rightarrow> member option"
  o_resolved :: "string \<Rightarrow> bool"
  o_rpc :: "event list \<Rightarrow> pyv res"
  o_prepare :: "event list \<Rightarrow> pyv res"
  o_propose :: "event list \<Rightarrow> pyv res"
  o_polls :: "event list \<Rightarrow> nat"
  o_execute :: "event list \<Rightarrow> pyv res"
  o_stop :: "event list \<Rightarrow> bool"
  o_utc :: "pyv \<Rightarrow> string"
  o_str :: "pyv \<Rightarrow> string"
  o_message :: "exn \<Rightarrow> string"

text \<open>The attributes that change, with the files the controller writes under its root and under the
  directory of each job; \<open>q_outcome\<close> is the local \<open>outcome\<close> of \<open>_step\<close>.\<close>

record controller =
  q_trace :: "event list"
  q_root :: members
  q_jobs :: "(string \<times> members) list"
  q_sequence :: nat
  q_parked :: bool
  q_terminal :: bool
  q_components :: pydict
  q_outcome :: pydict

text \<open>The attributes fixed by the constructor.\<close>

record fixed =
  k_config :: pydict
  k_bound :: pydict
  k_grant :: pydict
  k_path :: string
  k_deadline :: pyv

definition code :: "outside \<Rightarrow> codec" where
  "code env = n_codec (o_host env)"

text \<open>An effect: it is recorded, and the system may fail it.\<close>

definition occur :: "outside \<Rightarrow> event \<Rightarrow> (controller, unit) st" where
  "occur env ev s = (s\<lparr>q_trace := q_trace s @ [ev]\<rparr>, if o_fault env (q_trace s @ [ev]) then Inl OSError else Inr ())"

definition note_event :: "event \<Rightarrow> (controller, unit) st" where
  "note_event ev = supd (\<lambda>s. s\<lparr>q_trace := q_trace s @ [ev]\<rparr>)"

definition clock :: "(event list \<Rightarrow> flt) \<Rightarrow> (controller, pyv) st" where
  "clock reading = sbnd (note_event Clock) (\<lambda>_. sget (\<lambda>s. PFloat (reading (q_trace s))))"

section \<open>Pinned inputs\<close>

definition INFRA_CAP :: nat where
  "INFRA_CAP = 2 ^ 20"

definition ADAPTER :: string where
  "ADAPTER = ''infrastructure/hyperloom/sglang-owner-adapter/''"

definition REQUIRED_SOURCES :: "string list" where
  "REQUIRED_SOURCES =
     map (\<lambda>name. ADAPTER @ name @ ''.py'') [''controller'', ''owner_operation'', ''exchange_ssh'', ''build_owner'', ''build_support'', ''build_profile'',
       ''profile_c2'', ''component_operation'', ''compile_component'', ''component_dispatch'', ''component_scope'', ''build_component'', ''verify_serving'']
     @ map (\<lambda>name. ''lib/workstation/'' @ name @ ''.py'') [''hyperloom_sglang'', ''hyperloom_exchange'', ''hyperloom_exchange_host'',
       ''hyperloom_owner_backend'', ''hyperloom_owner_result'', ''hyperloom_latency'', ''hyperloom_workload'']"

definition GRANT_IDENTITIES :: "string list" where
  "GRANT_IDENTITIES = [''campaign_sha256'', ''selection_sha256'', ''controller_sha256'', ''runtime_sha256'', ''workload_sha256'', ''selected_source_set_sha256'']"

definition CAMPAIGN_SECONDS :: int where
  "CAMPAIGN_SECONDS = 14400"

definition look :: "outside \<Rightarrow> string \<Rightarrow> (controller, member option) st" where
  "look env path = sbnd (note_event (Looked path)) (\<lambda>_. sget (\<lambda>s. o_source env (q_trace s) path))"

definition read_pinned :: "outside \<Rightarrow> pyv \<Rightarrow> (controller, pyv) st" where
  "read_pinned env reference =
     sguard (is_dict reference \<and> has_keys (dict_of_v reference) [''path'', ''sha256'']) ''explicit pinned input required'' (
     case dget (dict_of_v reference) ''path'' of
       PStr path \<Rightarrow>
         sguard (o_resolved env path) ''canonical pinned input required'' (
         sbnd (look env path) (\<lambda>m. slift (checked_json (code env) m (dget (dict_of_v reference) ''sha256'') (4 * 2 ^ 20))))
     | _ \<Rightarrow> slift (Inl TypeError))"

fun check_pins :: "outside \<Rightarrow> (string \<times> pyv) list \<Rightarrow> (controller, unit) st" where
  "check_pins env [] = slift (Inr ())"
| "check_pins env ((name, digest) # pins) =
     sbnd (look env name) (\<lambda>m. sbnd (slift (checked_bytes (code env) m digest INFRA_CAP)) (\<lambda>_. check_pins env pins))"

definition source_closure :: "outside \<Rightarrow> pyv \<Rightarrow> (controller, string) st" where
  "source_closure env pins =
     sguard (is_dict pins \<and> has_keys (dict_of_v pins) REQUIRED_SOURCES) ''closed controller and builder sources required'' (
     sbnd (check_pins env (dict_of_v pins)) (\<lambda>_. slift (digest_of (code env) pins)))"

section \<open>Files\<close>

text \<open>\<open>write\<close>: a canonical member, published once, and its pin.\<close>

definition pin_value :: "outside \<Rightarrow> string \<Rightarrow> string \<Rightarrow> pyv" where
  "pin_value env path raw = PDict [(''path'', PStr path), (''sha256'', PStr (c_digest (code env) raw))]"

definition write_root :: "outside \<Rightarrow> fixed \<Rightarrow> string \<Rightarrow> pyv \<Rightarrow> (controller, pyv) st" where
  "write_root env k name v =
     sbnd (slift (canonical (code env) v)) (\<lambda>raw.
     sbnd (sget q_root) (\<lambda>members.
     sbnd (slift (publish members name raw)) (\<lambda>members'.
     sbnd (occur env (Wrote name raw)) (\<lambda>_.
     sbnd (supd (\<lambda>s. s\<lparr>q_root := members'\<rparr>)) (\<lambda>_.
     slift (Inr (pin_value env (k_path k @ ''/'' @ name) raw)))))))"

definition job_members :: "controller \<Rightarrow> string \<Rightarrow> members" where
  "job_members s job = (case map_of (q_jobs s) job of Some ms \<Rightarrow> ms | None \<Rightarrow> [])"

definition write_job :: "outside \<Rightarrow> fixed \<Rightarrow> string \<Rightarrow> string \<Rightarrow> pyv \<Rightarrow> (controller, pyv) st" where
  "write_job env k job name v =
     sbnd (slift (canonical (code env) v)) (\<lambda>raw.
     sbnd (sget (\<lambda>s. job_members s job)) (\<lambda>members.
     sbnd (slift (publish members name raw)) (\<lambda>members'.
     sbnd (occur env (Wrote (job @ ''/'' @ name) raw)) (\<lambda>_.
     sbnd (supd (\<lambda>s. s\<lparr>q_jobs := dset (q_jobs s) job members'\<rparr>)) (\<lambda>_.
     slift (Inr (pin_value env (k_path k @ ''/jobs/'' @ job @ ''/'' @ name) raw)))))))"

text \<open>\<open>root.mkdir(mode=0o700)\<close> refuses a directory that exists.\<close>

definition make_job :: "outside \<Rightarrow> string \<Rightarrow> (controller, unit) st" where
  "make_job env job =
     sbnd (sget (\<lambda>s. map_of (q_jobs s) job)) (\<lambda>known.
     sbnd (slift (if known = None then Inr () else Inl FileExistsError)) (\<lambda>_.
     sbnd (occur env (Made job)) (\<lambda>_.
     supd (\<lambda>s. s\<lparr>q_jobs := (job, []) # q_jobs s\<rparr>))))"

section \<open>Time and transport\<close>

definition remaining :: "outside \<Rightarrow> fixed \<Rightarrow> (controller, pyv) st" where
  "remaining env k =
     sbnd (clock (o_mono env)) (\<lambda>mono. sbnd (clock (o_wall env)) (\<lambda>wall.
     slift (bnd (py_sub (k_deadline k) mono) (\<lambda>a.
       bnd (py_truediv (dget (k_grant k) ''deadline_unix_ms'') (PInt 1000)) (\<lambda>end_seconds.
       bnd (py_sub (PFloat end_seconds) wall) (\<lambda>b. bnd (py_min2 a b) (\<lambda>m. py_max2 (PInt 0) m)))))))"

definition trunc_value :: "pyv \<Rightarrow> int res" where
  "trunc_value v = (case v of PFloat f \<Rightarrow> trunc_flt f | PInt i \<Rightarrow> Inr i | _ \<Rightarrow> Inl TypeError)"

definition rpc_deadline :: "fixed \<Rightarrow> pyv \<Rightarrow> pyv \<Rightarrow> pyv \<Rightarrow> pyv res" where
  "rpc_deadline k expires now left =
     (let deadline = dget (k_grant k) ''deadline_unix_ms'' in
      bnd (py_add now left) (\<lambda>moment. bnd (py_mul moment (PInt 1000)) (\<lambda>ms. bnd (trunc_value ms) (\<lambda>limit.
      py_min [deadline, if truthy expires then expires else deadline, PInt limit]))))"

definition rpc_send :: "outside \<Rightarrow> fixed \<Rightarrow> string \<Rightarrow> pyv \<Rightarrow> pyv \<Rightarrow> pyv \<Rightarrow> (controller, pyv) st" where
  "rpc_send env k action job_id result expires =
     sbnd (remaining env k) (\<lambda>budget. sbnd (slift (py_lt (PInt 10) budget)) (\<lambda>enough.
     sguard enough ''campaign has no remaining transport budget'' (
     sbnd (supd (\<lambda>s. s\<lparr>q_sequence := Suc (q_sequence s)\<rparr>)) (\<lambda>_.
     sbnd (clock (o_wall env)) (\<lambda>now. sbnd (remaining env k) (\<lambda>left.
     sbnd (slift (rpc_deadline k expires now left)) (\<lambda>deadline.
     sbnd (sget q_sequence) (\<lambda>number.
     sbnd (note_event (Call number action job_id result deadline)) (\<lambda>_.
     sbnd (sget q_trace) (\<lambda>t. slift (o_rpc env t)))))))))))"

definition is_cancelled :: "outside \<Rightarrow> fixed \<Rightarrow> pydict \<Rightarrow> (controller, bool) st" where
  "is_cancelled env k request =
     sbnd (slift (item request ''id'')) (\<lambda>job_id. sbnd (slift (item request ''expires_unix_ms'')) (\<lambda>expires.
     sbnd (rpc_send env k ''cancelled'' job_id PNone expires) (\<lambda>response.
     sbnd (slift (py_get response ''cancelled'')) (\<lambda>answer.
     sguard (is_bool answer) ''explicit cancellation observation required'' (
     if answer = PBool True then slift (Inr True)
     else sbnd (slift (digest_of (code env) (PDict request))) (\<lambda>digest.
          sguard (dget (dict_of_v response) ''request_sha256'' = PStr digest) ''request changed after the private snapshot''
            (slift (Inr False))))))))"

section \<open>The constructor\<close>

text \<open>\<open>owner_operation._bound\<close>\<close>

definition check_bound :: "pyv \<Rightarrow> pydict res" where
  "check_bound v =
     (let b = dict_of_v v; caps = dget b ''caller_seconds'' in
      guard (is_dict v \<and> dget b ''backend'' = PStr NAME) ''owner backend binding required'' (
      bnd (mapM_res (\<lambda>name. identity (dget b name) name) GRANT_IDENTITIES) (\<lambda>_.
      guard (is_dict caps \<and> py_eq (dget (dict_of_v caps) ''serving'') (dget (dict_of_v caps) ''profile'') \<and> py_eq (dget (dict_of_v caps) ''profile'') (PInt 7160))
        ''serving and profile caller ceilings must be the registered 7,160 seconds'' (
      guard (pos_int (dget b ''campaign_deadline_unix_ms'')) ''campaign deadline required'' (
      guard (is_dict (dget b ''benchmark'') \<and> is_str (dget (dict_of_v (dget b ''benchmark'')) ''model'')) ''fixed selected benchmark required'' (
      bnd (check_policy (dget b ''latency_policy'')) (\<lambda>_.
      guard (dget b ''automatic_retry'' = PBool False \<and> dget b ''adoption_authorized'' = PBool False) ''binding cannot retry or adopt'' (Inr b))))))))"

definition kinds_value :: "string list \<Rightarrow> pyv" where
  "kinds_value names = PList (map PStr names)"

definition grant_explicit :: "pydict \<Rightarrow> bool" where
  "grant_explicit g =
     (py_eq (dget g ''schema'') (PInt 1) \<and> dget g ''kind'' = PStr ''hyperloom-sglang-campaign'' \<and> dget g ''execution_authorized'' = PBool True
      \<and> py_eq (dget g ''campaign_seconds'') (PInt CAMPAIGN_SECONDS) \<and> dget g ''objective'' = PStr ''balanced-c1-c2-no-regressions''
      \<and> dget g ''automatic_retry'' = PBool False \<and> dget g ''adoption_authorized'' = PBool False
      \<and> dget g ''existing_observer_only'' = PBool True \<and> py_eq (dget g ''watts_per_card'') (PInt 235))"

definition deadline_ok :: "pydict \<Rightarrow> pydict \<Rightarrow> bool res" where
  "deadline_ok g bound =
     (let started = dget g ''started_unix_ms''; deadline = dget g ''deadline_unix_ms'' in
      andM (Inr (is_int started \<and> is_int deadline \<and> 0 < int_of deadline - int_of started \<and> int_of deadline - int_of started \<le> CAMPAIGN_SECONDS * 1000))
        (bnd (item bound ''campaign_deadline_unix_ms'') (\<lambda>v. Inr (py_eq deadline v))))"

definition has_text :: "pyv \<Rightarrow> bool" where
  "has_text v = (case v of PStr s \<Rightarrow> strip s \<noteq> [] | _ \<Rightarrow> False)"

definition check_grant :: "pyv \<Rightarrow> pydict \<Rightarrow> pydict res" where
  "check_grant v bound =
     bnd (py_get v ''schema'') (\<lambda>_. let g = dict_of_v v in
     guard (grant_explicit g) ''explicit bounded campaign grant required'' (
     guardM (allM (\<lambda>key. bnd (item bound key) (\<lambda>b. Inr (py_eq (dget g key) b))) GRANT_IDENTITIES) ''campaign grant belongs to another stack'' (
     guardM (deadline_ok g bound) ''four-hour campaign deadline required'' (
     guard (has_text (dget g ''owner'') \<and> has_text (dget g ''user_instruction'')) ''retained user instruction required'' (
     guard (dget g ''allowed_kinds'' \<in> {kinds_value [''serving'', ''profile''], kinds_value [''serving'', ''profile'', ''component'']})
       ''explicit serving/profile/component owner kinds required'' (Inr g))))))"

definition started_value :: "pyv \<Rightarrow> string \<Rightarrow> pydict \<Rightarrow> pydict \<Rightarrow> pydict" where
  "started_value grant_reference config_sha bound grant =
     [(''schema'', PInt 1), (''config_sha256'', PStr config_sha), (''campaign_grant'', grant_reference),
      (''controller_sha256'', dget bound ''controller_sha256''), (''deadline_unix_ms'', dget grant ''deadline_unix_ms''),
      (''qualification'', PBool False), (''adoption_authorized'', PBool False)]"

definition bindings_agree :: "pydict \<Rightarrow> pyv \<Rightarrow> bool res" where
  "bindings_agree config reference =
     bnd (item config ''rpc'') (\<lambda>rpc. bnd (py_item rpc ''native_binding'') (\<lambda>native. bnd (py_item native ''sha256'') (\<lambda>sha.
     bnd (py_item reference ''sha256'') (\<lambda>local_sha. Inr (py_eq sha local_sha)))))"

definition monotonic_deadline :: "outside \<Rightarrow> pydict \<Rightarrow> (controller, pyv) st" where
  "monotonic_deadline env grant =
     sbnd (clock (o_mono env)) (\<lambda>mono. sbnd (clock (o_wall env)) (\<lambda>wall.
     slift (bnd (py_truediv (dget grant ''deadline_unix_ms'') (PInt 1000)) (\<lambda>end_seconds.
       bnd (py_sub (PFloat end_seconds) wall) (\<lambda>left. bnd (py_max2 (PInt 0) left) (\<lambda>budget. py_add mono budget))))))"

definition controller_root :: "outside \<Rightarrow> pyv \<Rightarrow> string res" where
  "controller_root env v = (case v of
     PStr path \<Rightarrow> guard (o_resolved env path) ''canonical existing controller directory required'' (Inr path) | _ \<Rightarrow> Inl TypeError)"

definition construct :: "outside \<Rightarrow> pyv \<Rightarrow> (controller, fixed) st" where
  "construct env v =
     (let config = dict_of_v v in
      sguard (is_dict v \<and> py_eq (dget config ''schema'') (PInt 1)) ''controller configuration schema'' (
      sbnd (slift (item config ''binding'')) (\<lambda>reference.
      sbnd (read_pinned env reference) (\<lambda>b.
      sbnd (slift (check_bound b)) (\<lambda>bound.
      sbnd (slift (bindings_agree config reference)) (\<lambda>agree.
      sguard agree ''local and native exchange bindings differ'' (
      sbnd (slift (item config ''source_pins'')) (\<lambda>pins.
      sbnd (source_closure env pins) (\<lambda>closure.
      sguard (dget bound ''controller_sha256'' = PStr closure) ''controller identity differs from the current source closure'' (
      sbnd (slift (item config ''campaign_grant'')) (\<lambda>grant_reference.
      sbnd (read_pinned env grant_reference) (\<lambda>g.
      sbnd (slift (check_grant g bound)) (\<lambda>grant.
      sbnd (slift (item config ''root'')) (\<lambda>root. sbnd (slift (controller_root env root)) (\<lambda>path.
      sbnd (occur env (Made ''rpc'')) (\<lambda>_. sbnd (occur env (Made ''jobs'')) (\<lambda>_.
      sbnd (monotonic_deadline env grant) (\<lambda>deadline.
      sbnd (slift (digest_of (code env) v)) (\<lambda>config_sha.
      let k = \<lparr>k_config = config, k_bound = bound, k_grant = grant, k_path = path, k_deadline = deadline\<rparr> in
      sbnd (write_root env k ''CONTROLLER-STARTED.json'' (PDict (started_value grant_reference config_sha bound grant))) (\<lambda>_.
      slift (Inr k)))))))))))))))))))))"

definition fresh_controller :: controller where
  "fresh_controller = \<lparr>q_trace = [], q_root = [], q_jobs = [], q_sequence = 0, q_parked = False, q_terminal = False, q_components = [], q_outcome = []\<rparr>"

section \<open>Errors\<close>

text \<open>\<open>type(error).__name__\<close> is \<open>exn_name\<close> of \<open>Job_Exchange\<close>; the text of an exception of the system is a parameter.\<close>

definition error_text :: "outside \<Rightarrow> exn \<Rightarrow> string" where
  "error_text env err = exn_name err @ '': '' @ take 512 (case err of ValueError s \<Rightarrow> s | RuntimeError s \<Rightarrow> s | _ \<Rightarrow> o_message env err)"

text \<open>\<open>except Exception\<close>: everything but the cancellation of a task.\<close>

definition attempt_st :: "(controller, 'a) st \<Rightarrow> (exn \<Rightarrow> (controller, 'a) st) \<Rightarrow> (controller, 'a) st" where
  "attempt_st m handler s =
     (case m s of (s', Inl err) \<Rightarrow> if err = CancelledError then (s', Inl err) else handler err s' | (s', Inr x) \<Rightarrow> (s', Inr x))"

section \<open>Closing the campaign\<close>

definition set_parked :: "bool \<Rightarrow> (controller, unit) st" where
  "set_parked p = supd (\<lambda>s. s\<lparr>q_parked := p\<rparr>)"

definition failure_value :: "outside \<Rightarrow> exn \<Rightarrow> pydict" where
  "failure_value env err = [(''reason'', PStr (error_text env err)), (''automatic_retry'', PBool False)]"

definition reason_text :: "outside \<Rightarrow> pyv \<Rightarrow> string" where
  "reason_text env reason = take 2048 (case reason of PStr s \<Rightarrow> s | _ \<Rightarrow> o_str env reason)"

definition park_campaign :: "outside \<Rightarrow> fixed \<Rightarrow> pyv \<Rightarrow> (controller, unit) st" where
  "park_campaign env k reason =
     sbnd (set_parked True) (\<lambda>_. sbnd (sget q_terminal) (\<lambda>attempted.
     if attempted then slift (Inr ())
     else sbnd (supd (\<lambda>s. s\<lparr>q_terminal := True\<rparr>)) (\<lambda>_.
       attempt_st
         (sbnd (rpc_send env k ''park'' PNone (PDict [(''reason'', PStr (reason_text env reason))]) PNone) (\<lambda>published.
          sbnd (write_root env k ''TERMINAL-PUBLICATION.json'' published) (\<lambda>_. slift (Inr ()))))
         (\<lambda>err. sbnd (write_root env k ''TERMINAL-PUBLICATION-FAILURE.json'' (PDict (failure_value env err))) (\<lambda>_. slift (Inr ()))))))"

definition publication_failure :: "outside \<Rightarrow> exn \<Rightarrow> pyv \<Rightarrow> pyv" where
  "publication_failure env err retained =
     PDict [(''reason'', PStr (error_text env err)), (''retained'', retained), (''automatic_retry'', PBool False), (''park_campaign'', PBool True)]"

definition publish_outcome :: "outside \<Rightarrow> fixed \<Rightarrow> string \<Rightarrow> pydict \<Rightarrow> (controller, pydict) st" where
  "publish_outcome env k job request =
     sbnd (slift (item request ''id'')) (\<lambda>job_id.
     sbnd (sget q_outcome) (\<lambda>outcome.
     sbnd (write_job env k job ''OUTCOME.json'' (PDict outcome)) (\<lambda>retained.
     sbnd (slift (item outcome ''park_campaign'')) (\<lambda>park_now.
     sbnd (set_parked (truthy park_now)) (\<lambda>_.
     sbnd (attempt_st
        (sbnd (slift (item request ''expires_unix_ms'')) (\<lambda>expires.
         sbnd (rpc_send env k ''publish'' job_id (PDict outcome) expires) (\<lambda>published.
         sbnd (slift (py_get published ''published_sha256'')) (\<lambda>sha.
         sguard (py_eq sha (dget (dict_of_v retained) ''sha256'')) ''published result identity mismatch'' (
         sbnd (write_job env k job ''PUBLICATION.json'' published) (\<lambda>_. slift (Inr ())))))))
        (\<lambda>err. sbnd (set_parked True) (\<lambda>_.
               sbnd (write_job env k job ''PUBLICATION-FAILURE.json'' (publication_failure env err retained)) (\<lambda>_. slift (Inl err))))) (\<lambda>_.
     sbnd (sget q_parked) (\<lambda>parked.
     sbnd (if parked
           then park_campaign env k (if truthy (dget outcome ''reason'') then dget outcome ''reason'' else PStr ''owner operation requires campaign closeout'')
           else slift (Inr ())) (\<lambda>_.
     slift (Inr outcome)))))))))"

section \<open>One job\<close>

text \<open>\<open>outcome.update\<close> with a mapping.\<close>

definition update_with :: "pydict \<Rightarrow> pydict \<Rightarrow> pydict" where
  "update_with d more_items = foldl (\<lambda>acc kv. dset acc (fst kv) (snd kv)) d more_items"

definition set_outcome :: "pydict \<Rightarrow> (controller, unit) st" where
  "set_outcome fields_now = supd (\<lambda>s. s\<lparr>q_outcome := update_with (q_outcome s) fields_now\<rparr>)"

definition outcome_value :: "fixed \<Rightarrow> string \<Rightarrow> pydict \<Rightarrow> string \<Rightarrow> pydict" where
  "outcome_value k job request request_sha =
     [(''schema'', PInt 1), (''id'', PStr job), (''campaign_sha256'', dget (k_bound k) ''campaign_sha256''),
      (''controller_sha256'', dget (k_bound k) ''controller_sha256''), (''request_sha256'', PStr request_sha),
      (''config_sha256'', dget request ''config_sha256''), (''source_set_sha256'', dget request ''source_set_sha256''),
      (''status'', PStr ''FAILED''), (''independent_release'', PBool False), (''owner_seal_sha256'', PNone), (''payload'', PDict []),
      (''owner_started'', PBool False), (''adoption_authorized'', PBool False), (''automatic_retry'', PBool False), (''qualification'', PBool False),
      (''park_campaign'', PBool True), (''reason'', PNone)]"

definition is_component :: "pydict \<Rightarrow> bool" where
  "is_component request = (dget request ''kind'' = PStr ''component'')"

definition allowed_kind :: "fixed \<Rightarrow> pydict \<Rightarrow> bool" where
  "allowed_kind k request = (dget request ''kind'' \<in> set (list_of (dget (k_grant k) ''allowed_kinds'')))"

text \<open>\<open>self.components.get(source_set, {}).get("eligible_for_serving") is True\<close>\<close>

definition eligible :: "pydict \<Rightarrow> pyv \<Rightarrow> bool res" where
  "eligible components sources_sha =
     (case sources_sha of
        PStr key \<Rightarrow> bnd (py_get (dget_or components key (PDict [])) ''eligible_for_serving'') (\<lambda>v. Inr (v = PBool True))
      | _ \<Rightarrow> Inl TypeError)"

definition screen_guard :: "fixed \<Rightarrow> pydict \<Rightarrow> (controller, unit) st" where
  "screen_guard k request =
     (let sources_sha = dget request ''source_set_sha256'' in
      if is_component request \<or> py_eq sources_sha (dget (k_bound k) ''selected_source_set_sha256'') then slift (Inr ())
      else sbnd (sget q_components) (\<lambda>components. sbnd (slift (eligible components sources_sha)) (\<lambda>ok.
           sguard ok ''changed source needs a successful component screen in this campaign'' (slift (Inr ())))))"

definition whole_budget :: "outside \<Rightarrow> fixed \<Rightarrow> pydict \<Rightarrow> (controller, bool) st" where
  "whole_budget env k request =
     sbnd (slift (bnd (item request ''caller_seconds'') (\<lambda>a. bnd (item request ''post_release_seconds'') (\<lambda>b. py_add a b)))) (\<lambda>need.
     sbnd (remaining env k) (\<lambda>left. sbnd (slift (py_le need left)) (\<lambda>fits.
     if \<not> fits then slift (Inr False)
     else sbnd (clock (o_wall env)) (\<lambda>now.
       slift (bnd (py_add now need) (\<lambda>finish. bnd (item request ''expires_unix_ms'') (\<lambda>expires.
         bnd (py_truediv expires (PInt 1000)) (\<lambda>limit. py_le finish (PFloat limit)))))))))"

definition EVALUABLE :: string where
  "EVALUABLE = ''extend_attention_fwd_candidate.py''"

definition rejected_fields :: "pyv \<Rightarrow> pyv \<Rightarrow> pydict" where
  "rejected_fields preparation reason =
     [(''status'', PStr ''FAILED''), (''park_campaign'', PBool False), (''reason'', reason), (''payload'', PDict [(''component_compile'', preparation)])]"

text \<open>\<open>operation.prepare\<close>; a candidate the compiler rejects ends the job here: no owner is admitted.\<close>

definition prepare_owner :: "outside \<Rightarrow> fixed \<Rightarrow> string \<Rightarrow> pydict \<Rightarrow> (controller, pyv option) st" where
  "prepare_owner env k job request =
     sbnd (slift (bnd (item (k_config k) ''inputs'') (\<lambda>v. py_item v (str_of (dget request ''kind''))))) (\<lambda>inputs.
     sbnd (slift (py_item inputs ''owner'')) (\<lambda>owner. sbnd (slift (py_item inputs ''support'')) (\<lambda>support.
     sbnd (note_event (Prepared (is_component request) owner support)) (\<lambda>_.
     sbnd (sget q_trace) (\<lambda>t. sbnd (slift (o_prepare env t)) (\<lambda>preparation.
     sbnd (write_job env k job ''PREPARATION-RESULT.json'' preparation) (\<lambda>_.
     sbnd (slift (py_item preparation ''status'')) (\<lambda>status.
     if status = PStr ''CPU_CANDIDATE_REJECTED''
     then sbnd (slift (py_item preparation ''reason'')) (\<lambda>reason.
          sbnd (set_outcome (rejected_fields preparation reason)) (\<lambda>_. slift (Inr None)))
     else sguard (status = PStr ''PREPARED_NOT_REGISTERED_OR_RUN'')
            (''owner preparation refused: '' @ o_str env (dget (dict_of_v preparation) ''reason'')) (
          sbnd (slift (py_item preparation ''record'')) (\<lambda>r. slift (Inr (Some r))))))))))))"

definition propose_owner :: "outside \<Rightarrow> fixed \<Rightarrow> string \<Rightarrow> pydict \<Rightarrow> pyv \<Rightarrow> (controller, pyv) st" where
  "propose_owner env k job request prepared =
     sbnd (slift (item (k_config k) ''checkpoint_root'')) (\<lambda>_. sbnd (slift (item (k_config k) ''run_parent'')) (\<lambda>_.
     sbnd (note_event (Proposed (is_component request) prepared)) (\<lambda>_.
     sbnd (sget q_trace) (\<lambda>t. sbnd (slift (o_propose env t)) (\<lambda>proposal.
     sbnd (write_job env k job ''PROPOSAL-RESULT.json'' proposal) (\<lambda>_.
     sbnd (slift (py_item proposal ''status'')) (\<lambda>status.
     sguard (status = PStr ''PROPOSED_NOT_REGISTERED_OR_RUN'')
       (''owner proposal refused: '' @ o_str env (dget (dict_of_v proposal) ''reason'')) (slift (Inr proposal)))))))))"

text \<open>\<open>_authorization\<close>\<close>

definition proposal_pin :: "pyv \<Rightarrow> string \<Rightarrow> pyv res" where
  "proposal_pin proposal name = bnd (py_item proposal name) (\<lambda>v. py_item v ''sha256'')"

definition authority_value :: "fixed \<Rightarrow> pydict \<Rightarrow> pyv \<Rightarrow> pyv \<Rightarrow> string \<Rightarrow> pyv \<Rightarrow> string \<Rightarrow> pydict res" where
  "authority_value k request proposal candidate_sha request_sha approval utc =
     bnd (py_item proposal ''campaign_root'') (\<lambda>campaign. bnd (proposal_pin proposal ''proposal'') (\<lambda>proposal_sha.
     bnd (proposal_pin proposal ''execute_once'') (\<lambda>once_sha. bnd (py_item proposal ''nonce'') (\<lambda>nonce. bnd (py_item proposal ''index'') (\<lambda>index.
     Inr [(''schema'', PInt 1), (''kind'', dget request ''kind''), (''campaign'', campaign), (''proposal_sha256'', proposal_sha),
       (''execute_once_sha256'', once_sha), (''nonce'', nonce), (''global_gpu_attempt_index'', index), (''request_sha256'', PStr request_sha),
       (''source_set_sha256'', dget request ''source_set_sha256''), (''candidate_sha256'', candidate_sha),
       (''campaign_sha256'', dget (k_bound k) ''campaign_sha256''), (''controller_sha256'', dget (k_bound k) ''controller_sha256''),
       (''owner'', dget (k_grant k) ''owner''),
       (''owner_answer'', PStr (''Derived from the retained campaign instruction: '' @ str_of (dget (k_grant k) ''user_instruction''))),
       (''approval'', approval), (''no_retry'', PBool True), (''one_invocation'', PBool True), (''deployment'', PBool False),
       (''promotion'', PBool False), (''publication'', PBool False), (''adoption_authorized'', PBool False), (''qualification'', PBool False),
       (''utc'', PStr utc)])))))"

definition candidate_of :: "pydict \<Rightarrow> pyv res" where
  "candidate_of request =
     bnd (item request ''sources'') (\<lambda>v. let rows = list_of v in
     guardM (andM (Inr (length rows = 1)) (bnd (py_item (hd rows) ''name'') (\<lambda>name. Inr (name = PStr EVALUABLE)))) ''undeclared optimization surface''
       (py_item (hd rows) ''sha256''))"

definition authorize :: "outside \<Rightarrow> fixed \<Rightarrow> string \<Rightarrow> pydict \<Rightarrow> pyv \<Rightarrow> (controller, pyv) st" where
  "authorize env k job request proposal =
     sguard (allowed_kind k request) ''campaign does not cover this owner kind'' (
     sbnd (slift (candidate_of request)) (\<lambda>candidate_sha.
     sbnd (slift (digest_of (code env) (PDict request))) (\<lambda>request_sha.
     sbnd (slift (item (k_config k) ''campaign_grant'')) (\<lambda>approval.
     sbnd (clock (o_wall env)) (\<lambda>now.
     sbnd (slift (authority_value k request proposal candidate_sha request_sha approval (o_utc env now))) (\<lambda>authority.
     write_job env k job ''DERIVED-OPERATION-AUTHORITY.json'' (PDict authority)))))))"

text \<open>While it runs, the operation may ask the controller any number of times whether the job is
  cancelled; what it makes of an answer, or of an exception, is its own.\<close>

primrec poll :: "outside \<Rightarrow> fixed \<Rightarrow> pydict \<Rightarrow> nat \<Rightarrow> controller \<Rightarrow> controller" where
  "poll env k request 0 s = s"
| "poll env k request (Suc n) s = poll env k request n (fst (is_cancelled env k request s))"

definition run_operation :: "outside \<Rightarrow> fixed \<Rightarrow> string \<Rightarrow> pydict \<Rightarrow> (controller, pyv) st" where
  "run_operation env k job request =
     (let kind = str_of (dget request ''kind''); sources_sha = str_of (dget request ''source_set_sha256'') in
      sbnd (note_event (Started job kind sources_sha)) (\<lambda>_.
      sbnd (sget q_trace) (\<lambda>t.
      sbnd (supd (poll env k request (o_polls env t))) (\<lambda>_.
      sbnd (sget q_trace) (\<lambda>t'.
      sbnd (slift (o_execute env t')) (\<lambda>observed.
      sbnd (note_event (Finished kind sources_sha observed)) (\<lambda>_. slift (Inr observed))))))))"

definition same_request :: "outside \<Rightarrow> fixed \<Rightarrow> pydict \<Rightarrow> pydict \<Rightarrow> bool res" where
  "same_request env k outcome request =
     andM (allM (\<lambda>key. bnd (item outcome key) (\<lambda>a. bnd (item request key) (\<lambda>b. Inr (py_eq a b))))
             [''id'', ''campaign_sha256'', ''config_sha256'', ''source_set_sha256''])
     (andM (bnd (item outcome ''request_sha256'') (\<lambda>a. bnd (digest_of (code env) (PDict request)) (\<lambda>b. Inr (a = PStr b))))
           (bnd (item outcome ''controller_sha256'') (\<lambda>a. Inr (py_eq a (dget (k_bound k) ''controller_sha256'')))))"

definition keep_component :: "pydict \<Rightarrow> (controller, unit) st" where
  "keep_component request =
     sbnd (sget q_outcome) (\<lambda>outcome.
     sbnd (slift (item outcome ''status'')) (\<lambda>status.
     if is_component request \<and> status = PStr ''SUCCEEDED''
     then sbnd (slift (bnd (item outcome ''payload'') (\<lambda>v. py_item v ''component_report''))) (\<lambda>report.
          supd (\<lambda>s. s\<lparr>q_components := dset (q_components s) (str_of (dget request ''source_set_sha256'')) report\<rparr>))
     else slift (Inr ())))"

definition take_outcome :: "outside \<Rightarrow> fixed \<Rightarrow> pydict \<Rightarrow> pyv \<Rightarrow> (controller, unit) st" where
  "take_outcome env k request observed =
     sbnd (slift (case observed of PDict d \<Rightarrow> Inr d | _ \<Rightarrow> Inl TypeError)) (\<lambda>d.
     sbnd (set_outcome d) (\<lambda>_.
     sbnd (sget q_outcome) (\<lambda>outcome.
     sbnd (slift (same_request env k outcome request)) (\<lambda>same.
     sguard same ''operation returned another request'' (
     sbnd (slift (item outcome ''status'')) (\<lambda>status.
     sbnd (if status = PStr ''REFUSED'' then set_outcome [(''status'', PStr ''FAILED''), (''park_campaign'', PBool True)] else slift (Inr ())) (\<lambda>_.
     keep_component request)))))))"

definition execute_owner :: "outside \<Rightarrow> fixed \<Rightarrow> string \<Rightarrow> pydict \<Rightarrow> pyv \<Rightarrow> (controller, unit) st" where
  "execute_owner env k job request proposal =
     sbnd (authorize env k job request proposal) (\<lambda>_.
     sbnd (slift (item (k_config k) ''source_pins'')) (\<lambda>pins. sbnd (source_closure env pins) (\<lambda>_.
     sbnd (set_outcome [(''owner_started'', PNone), (''release_disposition'', PStr ''UNVERIFIED_PARK_CAMPAIGN'')]) (\<lambda>_.
     sbnd (slift (py_item proposal ''record'')) (\<lambda>_. sbnd (slift (item (k_config k) ''checkpoint_root'')) (\<lambda>_.
     sbnd (run_operation env k job request) (\<lambda>observed. take_outcome env k request observed)))))))"

definition admit_job :: "outside \<Rightarrow> fixed \<Rightarrow> string \<Rightarrow> pydict \<Rightarrow> (controller, unit) st" where
  "admit_job env k job request =
     sbnd (slift (item (k_config k) ''source_pins'')) (\<lambda>pins. sbnd (source_closure env pins) (\<lambda>_.
     sbnd (screen_guard k request) (\<lambda>_.
     sbnd (prepare_owner env k job request) (\<lambda>prepared. case prepared of
         None \<Rightarrow> slift (Inr ())
       | Some r \<Rightarrow> sbnd (propose_owner env k job request r) (\<lambda>proposal. execute_owner env k job request proposal)))))"

definition job_body :: "outside \<Rightarrow> fixed \<Rightarrow> string \<Rightarrow> pydict \<Rightarrow> (controller, unit) st" where
  "job_body env k job request =
     sbnd (whole_budget env k request) (\<lambda>fits.
     sguard fits ''whole owner and closeout no longer fit the campaign'' (
     sbnd (is_cancelled env k request) (\<lambda>cancelled_now.
     if cancelled_now
     then set_outcome [(''status'', PStr ''CANCELLED''), (''reason'', PStr ''cancelled before packet preparation''), (''park_campaign'', PBool False)]
     else if \<not> allowed_kind k request
     then set_outcome [(''status'', PStr ''UNSUPPORTED''), (''reason'', PStr ''owner kind outside the campaign grant'')]
     else admit_job env k job request)))"

section \<open>One step and the loop\<close>

definition exhausted_value :: pydict where
  "exhausted_value = [(''schema'', PInt 1), (''status'', PStr ''BUDGET_EXHAUSTED''), (''owner_started'', PBool False), (''park_campaign'', PBool True)]"

definition idle_value :: "pyv \<Rightarrow> pydict" where
  "idle_value left = [(''schema'', PInt 1), (''status'', PStr ''IDLE''), (''remaining_seconds'', left)]"

definition dispatch_failure :: "string \<Rightarrow> pydict" where
  "dispatch_failure reason =
     [(''schema'', PInt 1), (''status'', PStr ''FAILED''), (''owner_started'', PNone), (''park_campaign'', PBool True), (''reason'', PStr reason),
      (''automatic_retry'', PBool False), (''adoption_authorized'', PBool False), (''independent_release'', PBool False)]"

definition jobs_ok :: "pyv \<Rightarrow> bool" where
  "jobs_ok v = (is_list v \<and> length (list_of v) \<le> MAX_QUEUED \<and> list_all (hex_value 32) (list_of v) \<and> distinct (list_of v))"

definition handle_job :: "outside \<Rightarrow> fixed \<Rightarrow> string \<Rightarrow> pyv \<Rightarrow> (controller, pydict) st" where
  "handle_job env k job snap =
     sbnd (make_job env job) (\<lambda>_.
     sbnd (slift (retain_snapshot (o_host env) snap True (k_bound k))) (\<lambda>_.
     sbnd (occur env (Wrote (job @ ''/snapshot'') [])) (\<lambda>_.
     sbnd (slift (bnd (py_item snap ''request'') py_dict)) (\<lambda>request.
     sbnd (slift (digest_of (code env) (PDict request))) (\<lambda>request_sha.
     sbnd (supd (\<lambda>s. s\<lparr>q_outcome := outcome_value k job request request_sha\<rparr>)) (\<lambda>_.
     sbnd (attempt_st (job_body env k job request)
        (\<lambda>err. set_outcome [(''status'', PStr ''FAILED''), (''park_campaign'', PBool True), (''reason'', PStr (error_text env err))])) (\<lambda>_.
     publish_outcome env k job request)))))))"

definition step_body :: "outside \<Rightarrow> fixed \<Rightarrow> (controller, pydict) st" where
  "step_body env k =
     sbnd (slift (item (k_config k) ''source_pins'')) (\<lambda>pins. sbnd (source_closure env pins) (\<lambda>_.
     sbnd (remaining env k) (\<lambda>left. sbnd (slift (py_le left (PInt 30))) (\<lambda>over.
     if over then sbnd (set_parked True) (\<lambda>_. slift (Inr exhausted_value))
     else
     sbnd (rpc_send env k ''list'' PNone PNone PNone) (\<lambda>listing_value.
     sbnd (slift (py_get listing_value ''jobs'')) (\<lambda>jobs.
     sguard (jobs_ok jobs) ''bounded distinct exchange jobs required'' (
     case list_of jobs of
       [] \<Rightarrow> sbnd (remaining env k) (\<lambda>now_left. slift (Inr (idle_value now_left)))
     | job_id # _ \<Rightarrow>
         sbnd (rpc_send env k ''take'' job_id PNone PNone) (\<lambda>snap. handle_job env k (str_of job_id) snap)))))))) "

definition controller_step :: "outside \<Rightarrow> fixed \<Rightarrow> (controller, pydict) st" where
  "controller_step env k =
     sbnd (sget q_parked) (\<lambda>parked.
     sguard (\<not> parked) ''campaign is parked'' (
     attempt_st (step_body env k)
       (\<lambda>err. let result = dispatch_failure (error_text env err) in
         sbnd (write_root env k ''DISPATCH-FAILURE.json'' (PDict result)) (\<lambda>_.
         sbnd (park_campaign env k (dget result ''reason'')) (\<lambda>_. slift (Inr result))))))"

text \<open>The loop of \<open>serve\<close>, for a number of rounds: whether it has ended by then. An exception ends it
  as well.\<close>

primrec serve_rounds :: "outside \<Rightarrow> fixed \<Rightarrow> nat \<Rightarrow> (controller, bool) st" where
  "serve_rounds env k 0 = slift (Inr False)"
| "serve_rounds env k (Suc n) =
     sbnd (sget q_parked) (\<lambda>parked.
     if parked then slift (Inr True)
     else sbnd (remaining env k) (\<lambda>left. sbnd (slift (py_lt (PInt 30) left)) (\<lambda>more_time.
       if \<not> more_time then slift (Inr True)
       else sbnd (sget (\<lambda>s. o_stop env (q_trace s))) (\<lambda>stop.
         if stop then sbnd (park_campaign env k (PStr ''campaign supervisor requested closeout'')) (\<lambda>_. slift (Inr True))
         else sbnd (controller_step env k) (\<lambda>result.
           if dget result ''status'' = PStr ''IDLE''
           then sbnd (remaining env k) (\<lambda>idle_left. sbnd (slift (py_min2 (PInt 2) idle_left)) (\<lambda>pause.
                sbnd (occur env (Slept pause)) (\<lambda>_. serve_rounds env k n)))
           else serve_rounds env k n)))))"

definition stopped_value :: "outside \<Rightarrow> pyv \<Rightarrow> pyv \<Rightarrow> pydict" where
  "stopped_value env left now =
     [(''schema'', PInt 1), (''remaining_seconds'', left), (''utc'', PStr (o_utc env now)), (''adoption_authorized'', PBool False), (''automatic_retry'', PBool False)]"

definition serve_end :: "outside \<Rightarrow> fixed \<Rightarrow> (controller, unit) st" where
  "serve_end env k =
     sbnd (park_campaign env k (PStr ''campaign controller stopped'')) (\<lambda>_.
     sbnd (remaining env k) (\<lambda>left. sbnd (clock (o_wall env)) (\<lambda>now.
     sbnd (write_root env k ''CONTROLLER-STOPPED.json'' (PDict (stopped_value env left now))) (\<lambda>_. slift (Inr ())))))"

definition serve :: "outside \<Rightarrow> fixed \<Rightarrow> nat \<Rightarrow> (controller, bool) st" where
  "serve env k rounds s =
     (case serve_rounds env k rounds s of
        (s', Inr False) \<Rightarrow> (s', Inr False)
      | (s', Inr True) \<Rightarrow> sbnd (serve_end env k) (\<lambda>_. slift (Inr True)) s'
      | (s', Inl err) \<Rightarrow> sbnd (serve_end env k) (\<lambda>_. slift (Inl err)) s')"

datatype controller_call = Step | Serve nat

fun controller_call_result :: "outside \<Rightarrow> fixed \<Rightarrow> controller \<Rightarrow> controller_call \<Rightarrow> controller" where
  "controller_call_result env k s Step = fst (controller_step env k s)"
| "controller_call_result env k s (Serve n) = fst (serve env k n s)"

text \<open>A controller made from a configuration and then called in any order.\<close>

definition run_controller :: "outside \<Rightarrow> pyv \<Rightarrow> controller_call list \<Rightarrow> controller" where
  "run_controller env config calls =
     (case construct env config fresh_controller of
        (s, Inl err) \<Rightarrow> s
      | (s, Inr k) \<Rightarrow> foldl (controller_call_result env k) s calls)"

end
