(* ===== verification/Controller_Runs.thy ===== *)
theory Controller_Runs
  imports Controller
begin

text \<open>
  What every run of the controller keeps, whatever the transport, the operations, the clocks and the
  file system do: which owner operations are started, after which component reports, and that nothing
  is asked of anybody once the campaign is closed.
\<close>

section \<open>What a trace must look like\<close>

text \<open>The jobs whose owner operation was started.\<close>

fun started_jobs :: "event list \<Rightarrow> string list" where
  "started_jobs [] = []"
| "started_jobs (Started job _ _ # t) = job # started_jobs t"
| "started_jobs (_ # t) = started_jobs t"

text \<open>A report of a component job that clears its source set for serving.\<close>

definition clears :: "string \<Rightarrow> pyv \<Rightarrow> bool" where
  "clears kind answer =
     (kind = ''component'' \<and> (case answer of
        PDict d \<Rightarrow> (let outcome = update_with [] d in dget outcome ''status'' = PStr ''SUCCEEDED''
          \<and> bnd (bnd (item outcome ''payload'') (\<lambda>v. py_item v ''component_report'')) (\<lambda>report. py_get report ''eligible_for_serving'') = Inr (PBool True))
      | _ \<Rightarrow> False))"

text \<open>Reading a trace from the left, with the source sets cleared so far: every operation started is a
  component job, or is about the selected sources, or its source set has been cleared.\<close>

fun screened :: "pyv \<Rightarrow> string list \<Rightarrow> event list \<Rightarrow> bool" where
  "screened selected cleared [] = True"
| "screened selected cleared (Started _ kind sources # t) =
     ((kind = ''component'' \<or> py_eq (PStr sources) selected \<or> sources \<in> set cleared) \<and> screened selected cleared t)"
| "screened selected cleared (Finished kind sources answer # t) =
     screened selected (if clears kind answer then sources # cleared else cleared) t"
| "screened selected cleared (_ # t) = screened selected cleared t"

fun cleared_by :: "event list \<Rightarrow> string list" where
  "cleared_by [] = []"
| "cleared_by (Finished kind sources answer # t) = (if clears kind answer then [sources] else []) @ cleared_by t"
| "cleared_by (_ # t) = cleared_by t"

text \<open>Effects that ask nothing of anybody, and effects other than an execution and the closing call.\<close>

fun silent :: "event \<Rightarrow> bool" where
  "silent (Call _ _ _ _ _) = False"
| "silent (Prepared _ _ _) = False"
| "silent (Proposed _ _) = False"
| "silent (Started _ _ _) = False"
| "silent (Finished _ _ _) = False"
| "silent _ = True"

fun calm :: "event \<Rightarrow> bool" where
  "calm (Call _ action _ _ _) = (action \<noteq> ''park'')"
| "calm (Started _ _ _) = False"
| "calm (Finished _ _ _) = False"
| "calm _ = True"

fun is_park :: "event \<Rightarrow> bool" where
  "is_park (Call _ action _ _ _) = (action = ''park'')"
| "is_park _ = False"

fun quiet_after_park :: "event list \<Rightarrow> bool" where
  "quiet_after_park [] = True"
| "quiet_after_park (ev # t) = (if is_park ev then list_all silent t else quiet_after_park t)"

section \<open>Lemmas: traces\<close>

lemma silent_calm: "silent ev \<Longrightarrow> calm ev"
  by (cases ev) auto

lemma started_append [simp]: "started_jobs (t @ u) = started_jobs t @ started_jobs u"
  by (induction t rule: started_jobs.induct) auto

lemma cleared_append [simp]: "cleared_by (t @ u) = cleared_by t @ cleared_by u"
  by (induction t rule: cleared_by.induct) auto

lemma calm_started: "list_all calm t \<Longrightarrow> started_jobs t = []"
  by (induction t rule: started_jobs.induct) auto

lemma calm_cleared: "list_all calm t \<Longrightarrow> cleared_by t = []"
  by (induction t rule: cleared_by.induct) auto

lemma calm_screened: "list_all calm t \<Longrightarrow> screened selected cleared t"
  by (induction selected cleared t rule: screened.induct) auto

lemma calm_park: "list_all calm t \<Longrightarrow> \<not> list_ex is_park t"
  by (induction t) (auto elim!: is_park.elims)

lemma screened_mono: "set xs \<subseteq> set ys \<Longrightarrow> screened selected xs t \<Longrightarrow> screened selected ys t"
proof (induction selected xs t arbitrary: ys rule: screened.induct)
  case (3 selected cleared kind sources answer t)
  let ?keep = "\<lambda>zs. if clears kind answer then sources # zs else zs"
  have sub: "set (?keep cleared) \<subseteq> set (?keep ys)" using "3.prems"(1) by auto
  have "screened selected (?keep cleared) t" using "3.prems"(2) by (simp only: screened.simps)
  with sub have "screened selected (?keep ys) t" by (rule "3.IH")
  then show ?case by (simp only: screened.simps)
qed auto

lemma screened_append: "screened selected xs (t @ u) \<longleftrightarrow> screened selected xs t \<and> screened selected (cleared_by t @ xs) u"
proof (induction selected xs t rule: screened.induct)
  case (3 selected cleared kind sources answer t)
  have "screened selected (cleared_by t @ sources # cleared) u \<longleftrightarrow> screened selected (sources # cleared_by t @ cleared) u"
    using screened_mono [of "cleared_by t @ sources # cleared" "sources # cleared_by t @ cleared"]
      screened_mono [of "sources # cleared_by t @ cleared" "cleared_by t @ sources # cleared"] by auto
  then show ?case using 3 by auto
qed auto

lemma quiet_append: "\<not> list_ex is_park t \<Longrightarrow> quiet_after_park (t @ u) = quiet_after_park u"
  by (induction t) auto

lemma quiet_silent: "quiet_after_park t \<Longrightarrow> list_all silent u \<Longrightarrow> quiet_after_park (t @ u)"
  by (induction t) (auto simp: list_all_iff elim!: is_park.elims, induction u, auto elim!: is_park.elims)


section \<open>Lemmas: what an operation leaves alone\<close>

text \<open>\<open>adds P\<close>: the trace grows by events of \<open>P\<close>, job directories are only added, and nothing else of
  the controller changes.\<close>

definition adds :: "(event \<Rightarrow> bool) \<Rightarrow> controller \<Rightarrow> controller \<Rightarrow> bool" where
  "adds P s s' = ((\<exists>evs. q_trace s' = q_trace s @ evs \<and> list_all P evs) \<and> keyset (q_jobs s) \<subseteq> keyset (q_jobs s')
     \<and> q_parked s' = q_parked s \<and> q_terminal s' = q_terminal s \<and> q_components s' = q_components s \<and> q_outcome s' = q_outcome s)"

lemma adds_refl: "reflp (adds P)"
  by (auto simp: reflp_def adds_def)

lemma adds_trans: "transp (adds P)"
proof (rule transpI)
  fix a b c
  assume "adds P a b" "adds P b c"
  then show "adds P a c" by (auto simp: adds_def)
qed

lemma adds_mono: "(\<And>ev. P ev \<Longrightarrow> R ev) \<Longrightarrow> adds P s s' \<Longrightarrow> adds R s s'"
  by (auto simp: adds_def list_all_iff)

lemmas adds_sbnd = keeps_sbnd [OF adds_trans]
lemmas adds_basic = keeps_slift [OF adds_refl] keeps_sget [OF adds_refl] keeps_sguard [OF adds_refl]

lemma adds_supd: "(\<And>s. adds P s (f s)) \<Longrightarrow> keeps (adds P) (supd f)"
  by (rule keeps_supd)

lemma adds_if: "(c \<Longrightarrow> keeps R m) \<Longrightarrow> (\<not> c \<Longrightarrow> keeps R n) \<Longrightarrow> keeps R (if c then m else n)"
  by simp

lemma adds_note: "P ev \<Longrightarrow> keeps (adds P) (note_event ev)"
  unfolding note_event_def by (rule adds_supd) (simp add: adds_def)

lemma adds_occur: "P ev \<Longrightarrow> keeps (adds P) (occur env ev)"
  by (simp add: keeps_def occur_def adds_def)

lemma adds_silent: "keeps (adds silent) m \<Longrightarrow> keeps (adds calm) m"
  using adds_mono [of silent calm] silent_calm by (auto simp: keeps_def)

lemma keyset_dset_sub: "keyset d \<subseteq> keyset (dset d k v)"
  by auto

lemmas adds_rules = adds_sbnd adds_basic adds_note adds_occur adds_if

lemma clock_adds: "keeps (adds silent) (clock r)"
  unfolding clock_def by (intro adds_rules) simp

lemma look_adds: "keeps (adds silent) (look env path)"
  unfolding look_def by (intro adds_rules) simp

lemma read_pinned_adds: "keeps (adds silent) (read_pinned env reference)"
  unfolding read_pinned_def by (cases "dget (dict_of_v reference) ''path''") (auto intro!: adds_rules look_adds)

lemma check_pins_adds: "keeps (adds silent) (check_pins env pins)"
  by (induction env pins rule: check_pins.induct) (auto intro!: adds_rules look_adds)

lemma source_closure_adds: "keeps (adds silent) (source_closure env pins)"
  unfolding source_closure_def by (intro adds_rules check_pins_adds)

lemma write_root_adds: "keeps (adds silent) (write_root env k name v)"
  unfolding write_root_def by (intro adds_rules adds_supd) (simp_all add: adds_def)

lemma write_job_adds: "keeps (adds silent) (write_job env k job name v)"
  unfolding write_job_def by (intro adds_rules adds_supd) (auto simp: adds_def)

lemma remaining_adds: "keeps (adds silent) (remaining env k)"
  unfolding remaining_def by (intro adds_rules clock_adds)

lemmas silent_ops = clock_adds look_adds read_pinned_adds source_closure_adds write_root_adds write_job_adds remaining_adds
lemmas calm_ops = silent_ops [THEN adds_silent]

lemma rpc_send_adds: "action \<noteq> ''park'' \<Longrightarrow> keeps (adds calm) (rpc_send env k action job_id result expires)"
  unfolding rpc_send_def by (intro adds_rules adds_supd calm_ops) (simp_all add: adds_def)

lemma is_cancelled_adds: "keeps (adds calm) (is_cancelled env k request)"
  unfolding is_cancelled_def by (intro adds_rules rpc_send_adds) simp_all

lemma whole_budget_adds: "keeps (adds calm) (whole_budget env k request)"
  unfolding whole_budget_def by (intro adds_rules calm_ops)

lemma poll_adds: "adds calm s (poll env k request n s)"
proof (induction n arbitrary: s)
  case 0
  then show ?case using adds_refl by (simp add: reflp_def)
next
  case (Suc n)
  have "adds calm s (fst (is_cancelled env k request s))" using is_cancelled_adds by (simp add: keeps_def)
  then show ?case using Suc.IH adds_trans by (auto simp: transp_def)
qed

section \<open>The invariant\<close>

definition whole :: "pyv \<Rightarrow> controller \<Rightarrow> bool" where
  "whole selected s =
     (distinct (started_jobs (q_trace s)) \<and> set (started_jobs (q_trace s)) \<subseteq> keyset (q_jobs s)
      \<and> (q_terminal s \<longrightarrow> q_parked s) \<and> (\<not> q_terminal s \<longrightarrow> \<not> list_ex is_park (q_trace s)) \<and> quiet_after_park (q_trace s)
      \<and> screened selected [] (q_trace s)
      \<and> (\<forall>key report. map_of (q_components s) key = Some report \<longrightarrow> py_get report ''eligible_for_serving'' = Inr (PBool True)
           \<longrightarrow> key \<in> set (cleared_by (q_trace s))))"

definition open_run :: "pyv \<Rightarrow> controller \<Rightarrow> bool" where
  "open_run selected s = (whole selected s \<and> \<not> q_terminal s)"

text \<open>The state in which the job of a fresh directory is prepared, before its operation is started.\<close>

definition fresh_job :: "pyv \<Rightarrow> string \<Rightarrow> controller \<Rightarrow> bool" where
  "fresh_job selected job s =
     (open_run selected s \<and> job \<in> keyset (q_jobs s) \<and> job \<notin> set (started_jobs (q_trace s))
      \<and> dget (q_outcome s) ''status'' = PStr ''FAILED'' \<and> dget (q_outcome s) ''payload'' = PDict [])"

lemma whole_silent:
  assumes "whole selected s" "adds silent s s'"
  shows "whole selected s'"
proof -
  obtain evs where e: "q_trace s' = q_trace s @ evs" "list_all silent evs" using assms(2) by (auto simp: adds_def)
  have c: "list_all calm evs" using e(2) silent_calm by (auto simp: list_all_iff)
  show ?thesis
    using assms calm_started [OF c] calm_cleared [OF c] calm_screened [OF c] calm_park [OF c] quiet_silent e
    by (auto simp: whole_def adds_def screened_append)
qed

lemma open_calm:
  assumes "open_run selected s" "adds calm s s'"
  shows "open_run selected s'"
proof -
  obtain evs where e: "q_trace s' = q_trace s @ evs" "list_all calm evs" using assms(2) by (auto simp: adds_def)
  have "quiet_after_park (evs @ [])" using calm_park [OF e(2)] quiet_append by fastforce
  then show ?thesis
    using assms calm_started [OF e(2)] calm_cleared [OF e(2)] calm_screened [OF e(2)] calm_park [OF e(2)] quiet_append e
    by (auto simp: open_run_def whole_def adds_def screened_append)
qed

lemma fresh_calm:
  assumes "fresh_job selected job s" "adds calm s s'"
  shows "fresh_job selected job s'"
proof -
  obtain evs where e: "q_trace s' = q_trace s @ evs" "list_all calm evs" using assms(2) by (auto simp: adds_def)
  show ?thesis
    using assms open_calm [of selected s s'] calm_started [OF e(2)] e(1) by (auto simp: fresh_job_def adds_def)
qed

section \<open>Lemmas: before and after\<close>

text \<open>\<open>leads P m Q E\<close>: from a state of \<open>P\<close>, \<open>m\<close> returns into \<open>Q\<close> or raises into \<open>E\<close>.\<close>

definition leads :: "('s \<Rightarrow> bool) \<Rightarrow> ('s, 'a) st \<Rightarrow> ('a \<Rightarrow> 's \<Rightarrow> bool) \<Rightarrow> ('s \<Rightarrow> bool) \<Rightarrow> bool" where
  "leads P m Q E = (\<forall>s. P s \<longrightarrow> (case m s of (s', r) \<Rightarrow> (case r of Inr x \<Rightarrow> Q x s' | Inl _ \<Rightarrow> E s')))"

lemma leads_sbnd: "leads P m R E \<Longrightarrow> (\<And>x. leads (R x) (f x) Q E) \<Longrightarrow> leads P (sbnd m f) Q E"
  by (fastforce simp: leads_def sbnd_def split: prod.splits sum.splits)

lemma leads_slift: "(\<And>x s. P s \<Longrightarrow> r = Inr x \<Longrightarrow> Q x s) \<Longrightarrow> (\<And>s. P s \<Longrightarrow> E s) \<Longrightarrow> leads P (slift r) Q E"
  by (auto simp: leads_def slift_def split: sum.splits)

lemma leads_sget: "(\<And>s. P s \<Longrightarrow> Q (g s) s) \<Longrightarrow> leads P (sget g) Q E"
  by (auto simp: leads_def sget_def)

lemma leads_supd: "(\<And>s. P s \<Longrightarrow> Q () (g s)) \<Longrightarrow> leads P (supd g) Q E"
  by (auto simp: leads_def supd_def)

lemma leads_sguard: "(c \<Longrightarrow> leads P m Q E) \<Longrightarrow> (\<And>s. P s \<Longrightarrow> E s) \<Longrightarrow> leads P (sguard c msg m) Q E"
  by (auto simp: leads_def sguard_def)

lemma leads_if: "(c \<Longrightarrow> leads P m Q E) \<Longrightarrow> (\<not> c \<Longrightarrow> leads P n Q E) \<Longrightarrow> leads P (if c then m else n) Q E"
  by simp

lemma leads_keeps: "keeps R m \<Longrightarrow> (\<And>s s'. P s \<Longrightarrow> R s s' \<Longrightarrow> Q s') \<Longrightarrow> (\<And>s. Q s \<Longrightarrow> E s) \<Longrightarrow> leads P m (\<lambda>_. Q) E"
  by (fastforce simp: leads_def keeps_def split: prod.splits sum.splits)

lemma leads_weaken:
  "leads P m Q E \<Longrightarrow> (\<And>s. P' s \<Longrightarrow> P s) \<Longrightarrow> (\<And>x s. Q x s \<Longrightarrow> Q' x s) \<Longrightarrow> (\<And>s. E s \<Longrightarrow> E' s) \<Longrightarrow> leads P' m Q' E'"
  by (fastforce simp: leads_def split: prod.splits sum.splits)

lemma leads_attempt:
  "leads P m Q E \<Longrightarrow> (\<And>err. leads E (handler err) Q E) \<Longrightarrow> leads P (attempt_st m handler) Q E"
  by (fastforce simp: leads_def attempt_st_def split: prod.splits sum.splits)

lemma leads_false: "leads (\<lambda>_. False) m Q E"
  by (simp add: leads_def)

lemma leads_pure: "(c \<Longrightarrow> leads P m Q E) \<Longrightarrow> leads (\<lambda>s. c \<and> P s) m Q E"
  by (auto simp: leads_def)

lemma leads_fst: "leads P m (\<lambda>_. Q) Q \<Longrightarrow> P s \<Longrightarrow> Q (fst (m s))"
proof -
  assume m: "leads P m (\<lambda>_. Q) Q" and s: "P s"
  obtain s' r where r: "m s = (s', r)" by (cases "m s")
  show ?thesis using m s r by (cases r) (force simp: leads_def)+
qed

section \<open>Lemmas: one job\<close>

lemma fresh_open: "fresh_job selected job s \<Longrightarrow> open_run selected s"
  by (simp add: fresh_job_def)

lemma open_whole: "open_run selected s \<Longrightarrow> whole selected s"
  by (simp add: open_run_def)

lemma open_update:
  "open_run selected s \<Longrightarrow> open_run selected (s\<lparr>q_outcome := d\<rparr>)" "open_run selected s \<Longrightarrow> open_run selected (s\<lparr>q_parked := p\<rparr>)"
  by (simp_all add: open_run_def whole_def)

lemma set_outcome_leads: "leads (open_run selected) (set_outcome d) (\<lambda>_. open_run selected) E"
  unfolding set_outcome_def by (rule leads_supd) (rule open_update)

lemma open_keeps: "keeps (adds calm) m \<Longrightarrow> leads (open_run selected) m (\<lambda>_. open_run selected) (open_run selected)"
  by (rule leads_keeps [of "adds calm"]) (auto intro: open_calm)

lemma fresh_keeps: "keeps (adds calm) m \<Longrightarrow> leads (fresh_job selected job) m (\<lambda>_. fresh_job selected job) (open_run selected)"
  by (rule leads_keeps [of "adds calm"]) (auto intro: fresh_calm fresh_open)

text \<open>After the screen: the job may be started.\<close>

definition cleared_job :: "pyv \<Rightarrow> string \<Rightarrow> pydict \<Rightarrow> controller \<Rightarrow> bool" where
  "cleared_job selected job request s =
     (fresh_job selected job s
      \<and> (is_component request \<or> py_eq (dget request ''source_set_sha256'') selected
         \<or> (\<exists>key. dget request ''source_set_sha256'' = PStr key \<and> key \<in> set (cleared_by (q_trace s)))))"

lemma cleared_calm: "cleared_job selected job request s \<Longrightarrow> adds calm s s' \<Longrightarrow> cleared_job selected job request s'"
  using fresh_calm [of selected job s s'] by (auto simp: cleared_job_def adds_def)

lemma cleared_open: "cleared_job selected job request s \<Longrightarrow> open_run selected s"
  using fresh_open by (auto simp: cleared_job_def)

lemma cleared_keeps:
  "keeps (adds calm) m \<Longrightarrow> leads (cleared_job selected job request) m (\<lambda>_. cleared_job selected job request) (open_run selected)"
  by (rule leads_keeps [of "adds calm"]) (auto intro: cleared_calm cleared_open)

lemma eligibleD:
  assumes "eligible components source_key = Inr True"
  shows "\<exists>key report. source_key = PStr key \<and> map_of components key = Some report \<and> py_get report ''eligible_for_serving'' = Inr (PBool True)"
proof -
  obtain key where "source_key = PStr key" "py_get (dget_or components key (PDict [])) ''eligible_for_serving'' = Inr (PBool True)"
    using assms by (auto simp: eligible_def split: pyv.splits)
  then show ?thesis by (cases "map_of components key") (auto simp: dget_or_def py_get_def dget_def)
qed

lemma screen_guard_leads:
  assumes "selected = dget (k_bound k) ''selected_source_set_sha256''"
  shows "leads (fresh_job selected job) (screen_guard k request) (\<lambda>_. cleared_job selected job request) (open_run selected)"
proof -
  let ?free = "is_component request \<or> py_eq (dget request ''source_set_sha256'') selected"
  have "(case screen_guard k request s of (s', Inr _) \<Rightarrow> cleared_job selected job request s' | (s', Inl _) \<Rightarrow> open_run selected s')"
    if f: "fresh_job selected job s" for s
  proof (cases ?free)
    case True
    then show ?thesis using f assms by (auto simp: screen_guard_def Let_def slift_def cleared_job_def)
  next
    case False
    let ?ok = "eligible (q_components s) (dget request ''source_set_sha256'')"
    show ?thesis
    proof (cases "?ok = Inr True")
      case True
      then obtain key report where "dget request ''source_set_sha256'' = PStr key" "map_of (q_components s) key = Some report"
        "py_get report ''eligible_for_serving'' = Inr (PBool True)" using eligibleD by blast
      then have "cleared_job selected job request s" using f by (auto simp: cleared_job_def fresh_job_def open_run_def whole_def)
      then show ?thesis using False True assms by (simp add: screen_guard_def Let_def sbnd_def sget_def slift_def)
    next
      case no: False
      then show ?thesis
        using False assms fresh_open [OF f] by (cases ?ok) (auto simp: screen_guard_def Let_def sbnd_def sget_def slift_def sguard_def)
    qed
  qed
  then show ?thesis unfolding leads_def by (fastforce split: prod.splits sum.splits)
qed

lemmas leads_rules = leads_sbnd leads_slift leads_sguard leads_if

text \<open>Before the operation is started: calls of the outside, and files.\<close>

lemma note_calm: "calm ev \<Longrightarrow> keeps (adds calm) (note_event ev)"
  by (rule adds_note)

lemma set_outcome_cleared: "leads (cleared_job selected job request) (set_outcome d) (\<lambda>_. open_run selected) E"
  by (rule leads_weaken [OF set_outcome_leads [where E = E]]) (auto intro: cleared_open)

lemmas cleared_step = leads_sbnd [OF cleared_keeps]
lemmas cleared_slift = cleared_step [OF adds_basic(1)]
lemmas cleared_sget = cleared_step [OF adds_basic(2)]
lemmas cleared_note = cleared_step [OF note_calm]
lemmas cleared_write = cleared_step [OF write_job_adds [THEN adds_silent]]

lemma prepare_owner_leads:
  "leads (cleared_job selected job request) (prepare_owner env k j request)
     (\<lambda>prepared s. case prepared of None \<Rightarrow> open_run selected s | Some _ \<Rightarrow> cleared_job selected job request s) (open_run selected)"
    (is "leads ?P _ ?Q ?E")
proof -
  have rejected: "leads ?P (sbnd (set_outcome d) (\<lambda>_. slift (Inr None))) ?Q ?E" for d
    by (rule leads_sbnd [OF set_outcome_cleared], rule leads_slift) auto
  have accepted: "leads ?P (sguard c msg (sbnd (slift r) (\<lambda>v. slift (Inr (Some v))))) ?Q ?E" for c msg and r :: "pyv res"
    by (rule leads_sguard, rule cleared_slift, rule leads_slift) (auto intro: cleared_open)
  show ?thesis
    unfolding prepare_owner_def
    by (rule cleared_slift, rule cleared_slift, rule cleared_slift, rule cleared_note, simp, rule cleared_sget, rule cleared_slift,
        rule cleared_write, rule cleared_slift, rule leads_if, rule cleared_slift, rule rejected, rule accepted)
qed

lemma propose_owner_leads:
  "leads (cleared_job selected job request) (propose_owner env k j request r) (\<lambda>_. cleared_job selected job request) (open_run selected)"
  unfolding propose_owner_def
  by (rule cleared_keeps) (intro adds_rules note_calm write_job_adds [THEN adds_silent], simp)

lemma authorize_leads:
  "leads (cleared_job selected job request) (authorize env k j request proposal) (\<lambda>_. cleared_job selected job request) (open_run selected)"
  unfolding authorize_def
  by (rule cleared_keeps) (intro adds_rules calm_ops)

text \<open>The start of the operation, and what its answer clears.\<close>

definition answered :: "pyv \<Rightarrow> pydict \<Rightarrow> pyv \<Rightarrow> controller \<Rightarrow> bool" where
  "answered selected request observed s =
     (open_run selected s \<and> dget (q_outcome s) ''status'' = PStr ''FAILED'' \<and> dget (q_outcome s) ''payload'' = PDict []
      \<and> (clears (str_of (dget request ''kind'')) observed \<longrightarrow> str_of (dget request ''source_set_sha256'') \<in> set (cleared_by (q_trace s))))"

lemma kind_component: "is_component request \<Longrightarrow> str_of (dget request ''kind'') = ''component''"
  by (simp add: is_component_def)

lemma start_job:
  assumes "cleared_job selected job request s" "is_str selected"
  shows "open_run selected (s\<lparr>q_trace := q_trace s @ [Started job (str_of (dget request ''kind'')) (str_of (dget request ''source_set_sha256''))]\<rparr>)"
proof -
  let ?kind = "str_of (dget request ''kind'')" and ?key = "str_of (dget request ''source_set_sha256'')"
  have f: "open_run selected s" "job \<in> keyset (q_jobs s)" "job \<notin> set (started_jobs (q_trace s))"
    using assms(1) by (auto simp: cleared_job_def fresh_job_def)
  obtain sel where sel: "selected = PStr sel" using assms(2) by (cases selected) auto
  have "?kind = ''component'' \<or> py_eq (PStr ?key) selected \<or> ?key \<in> set (cleared_by (q_trace s))"
    using assms(1) kind_component unfolding cleared_job_def sel by (auto simp del: py_eq.simps)
  then show ?thesis
    using f by (auto simp: open_run_def whole_def screened_append quiet_append simp del: py_eq.simps)
qed

lemma finish_job:
  assumes "open_run selected s" "q_outcome s = oc" "dget oc ''status'' = PStr ''FAILED''" "dget oc ''payload'' = PDict []"
  shows "answered selected request observed (s\<lparr>q_trace := q_trace s @ [Finished (str_of (dget request ''kind'')) (str_of (dget request ''source_set_sha256'')) observed]\<rparr>)"
  using assms by (auto simp: answered_def open_run_def whole_def screened_append quiet_append)

lemma run_operation_leads:
  assumes "is_str selected"
  shows "leads (cleared_job selected job request) (run_operation env k job request) (answered selected request) (open_run selected)"
proof -
  let ?ev = "Started job (str_of (dget request ''kind'')) (str_of (dget request ''source_set_sha256''))"
  have "(case run_operation env k job request s of (s', Inr x) \<Rightarrow> answered selected request x s' | (s', Inl _) \<Rightarrow> open_run selected s')"
    if c: "cleared_job selected job request s" for s
  proof -
    let ?s1 = "s\<lparr>q_trace := q_trace s @ [?ev]\<rparr>"
    let ?s2 = "poll env k request (o_polls env (q_trace ?s1)) ?s1"
    have s1: "open_run selected ?s1" using start_job [OF c assms] .
    have p: "adds calm ?s1 ?s2" by (rule poll_adds)
    have s2: "open_run selected ?s2" using s1 p by (rule open_calm)
    have oc: "q_outcome ?s2 = q_outcome s" using p by (simp add: adds_def)
    have st: "dget (q_outcome s) ''status'' = PStr ''FAILED''" "dget (q_outcome s) ''payload'' = PDict []"
      using c by (auto simp: cleared_job_def fresh_job_def)
    show ?thesis
      using s2 finish_job [OF s2 oc st]
      by (cases "o_execute env (q_trace ?s2)")
        (simp_all add: run_operation_def Let_def sbnd_def note_event_def supd_def sget_def slift_def)
  qed
  then show ?thesis unfolding leads_def by (fastforce split: prod.splits sum.splits)
qed

section \<open>Lemmas: the outcome\<close>

lemma update_with_map: "map_of (update_with d e) k = (case map_of (rev e) k of Some v \<Rightarrow> Some v | None \<Rightarrow> map_of d k)"
proof (induction e arbitrary: d)
  case Nil
  then show ?case by (simp add: update_with_def)
next
  case (Cons kv e)
  have "update_with d (kv # e) = update_with (dset d (fst kv) (snd kv)) e" by (simp add: update_with_def)
  then show ?case using Cons by (cases kv) (auto simp: map_add_def split: option.splits)
qed

text \<open>A report kept as a component report is one that clears: the answer itself must hold it.\<close>

lemma kept_report_clears:
  assumes "dget oc ''status'' = PStr ''FAILED''" "dget oc ''payload'' = PDict []"
    and "item (update_with oc d) ''status'' = Inr (PStr ''SUCCEEDED'')"
    and "bnd (item (update_with oc d) ''payload'') (\<lambda>v. py_item v ''component_report'') = Inr report"
    and "py_get report ''eligible_for_serving'' = Inr (PBool True)"
  shows "clears ''component'' (PDict d)"
proof -
  have s: "map_of (rev d) ''status'' = Some (PStr ''SUCCEEDED'')"
    using assms(1,3) by (auto simp: update_with_map dget_def dget_or_def split: option.splits)
  obtain payload where p: "map_of (update_with oc d) ''payload'' = Some payload" "py_item payload ''component_report'' = Inr report"
    using assms(4) by auto
  have "payload \<noteq> PDict []" using p(2) by auto
  then have "map_of (rev d) ''payload'' = Some payload"
    using assms(2) p(1) by (auto simp: update_with_map dget_def dget_or_def split: option.splits)
  then show ?thesis
    using s p(2) assms(5) by (auto simp: clears_def Let_def update_with_map dget_def dget_or_def)
qed

lemma keep_component_state:
  assumes "answered selected request (PDict d) s" "oc = update_with (q_outcome s) d"
    and "q_outcome s' = oc" "q_trace s' = q_trace s" "open_run selected s'"
  shows "open_run selected (fst (keep_component request s'))"
proof -
  let ?key = "str_of (dget request ''source_set_sha256'')"
  have a: "dget (q_outcome s) ''status'' = PStr ''FAILED''" "dget (q_outcome s) ''payload'' = PDict []"
    "clears (str_of (dget request ''kind'')) (PDict d) \<longrightarrow> ?key \<in> set (cleared_by (q_trace s'))"
    using assms(1,4) by (auto simp: answered_def)
  show ?thesis
  proof (cases "\<exists>report. is_component request \<and> item oc ''status'' = Inr (PStr ''SUCCEEDED'')
      \<and> bnd (item oc ''payload'') (\<lambda>v. py_item v ''component_report'') = Inr report")
    case True
    then obtain report where r: "is_component request" "item oc ''status'' = Inr (PStr ''SUCCEEDED'')"
      "bnd (item oc ''payload'') (\<lambda>v. py_item v ''component_report'') = Inr report" by blast
    have "py_get report ''eligible_for_serving'' = Inr (PBool True) \<Longrightarrow> ?key \<in> set (cleared_by (q_trace s'))"
      using kept_report_clears [OF a(1,2)] r(2,3) a(3) kind_component [OF r(1)] unfolding assms(2) by simp
    then have "open_run selected (s'\<lparr>q_components := dset (q_components s') ?key report\<rparr>)"
      using assms(5) by (auto simp: open_run_def whole_def)
    then show ?thesis
      using r assms(3) by (simp add: keep_component_def sbnd_def sget_def slift_def supd_def del: bnd_Inr_iff item_Inr_iff)
  next
    case False
    then show ?thesis
      using assms(3,5)
      by (cases "item oc ''status''"; cases "bnd (item oc ''payload'') (\<lambda>v. py_item v ''component_report'')")
        (auto simp: keep_component_def sbnd_def sget_def slift_def simp del: bnd_Inr_iff item_Inr_iff)
  qed
qed

lemma keep_component_other:
  "item (q_outcome s) ''status'' \<noteq> Inr (PStr ''SUCCEEDED'') \<Longrightarrow> fst (keep_component request s) = s"
  by (cases "item (q_outcome s) ''status''") (auto simp: keep_component_def sbnd_def sget_def slift_def simp del: item_Inr_iff)

lemma fst_leads: "(\<And>s. P s \<Longrightarrow> Q (fst (m s))) \<Longrightarrow> leads P m (\<lambda>_. Q) Q"
  by (force simp: leads_def split: prod.splits sum.splits)

lemma sbnd_slift_Inr: "sbnd (slift (Inr x)) f = f x"
  by (rule ext) (simp add: sbnd_def slift_def)

lemma take_outcome_leads:
  "leads (answered selected request observed) (take_outcome env k request observed) (\<lambda>_. open_run selected) (open_run selected)"
proof (rule fst_leads)
  fix s
  assume a: "answered selected request observed s"
  then have run: "open_run selected s" by (simp add: answered_def)
  show "open_run selected (fst (take_outcome env k request observed s))"
  proof (cases observed)
    case (PDict d)
    let ?oc = "update_with (q_outcome s) d"
    let ?s1 = "s\<lparr>q_outcome := ?oc\<rparr>"
    let ?s2 = "?s1\<lparr>q_outcome := update_with ?oc [(''status'', PStr ''FAILED''), (''park_campaign'', PBool True)]\<rparr>"
    have s1: "open_run selected ?s1" and s2: "open_run selected ?s2" using run by (simp_all add: open_update)
    have "item (q_outcome ?s2) ''status'' \<noteq> Inr (PStr ''SUCCEEDED'')" by (simp add: update_with_map)
    then have k2: "open_run selected (fst (keep_component request ?s2))" using s2 keep_component_other [of ?s2 request] by simp
    have k1: "open_run selected (fst (keep_component request ?s1))" using keep_component_state [OF a [unfolded PDict], of ?oc ?s1] s1 by simp
    have rest: "open_run selected (fst (sbnd (slift r) (\<lambda>same. sguard same msg (sbnd (slift status) (\<lambda>st.
        sbnd (if st = PStr ''REFUSED'' then set_outcome [(''status'', PStr ''FAILED''), (''park_campaign'', PBool True)] else slift (Inr ())) (\<lambda>_.
        keep_component request)))) ?s1))" for r msg status
    proof (cases r)
      case (Inr same)
      then show ?thesis
        using s1 k1 k2 by (cases same; cases status) (auto simp: sbnd_def slift_def set_outcome_def supd_def simp del: item_Inr_iff)
    qed (use s1 in \<open>simp add: sbnd_def slift_def\<close>)
    show ?thesis
      using rest unfolding take_outcome_def PDict pyv.case
      by (simp add: set_outcome_def sbnd_slift_Inr)
  qed (use run in \<open>simp_all add: take_outcome_def sbnd_def slift_def\<close>)
qed

lemma announce_leads:
  "leads (cleared_job selected job request) (set_outcome [(''owner_started'', v), (''release_disposition'', w)])
     (\<lambda>_. cleared_job selected job request) E"
  unfolding set_outcome_def
  by (rule leads_supd)
    (auto simp: cleared_job_def fresh_job_def open_run_def whole_def dget_def dget_or_def update_with_map)

lemma execute_owner_leads:
  assumes "is_str selected"
  shows "leads (cleared_job selected job request) (execute_owner env k job request proposal) (\<lambda>_. open_run selected) (open_run selected)"
  unfolding execute_owner_def
  by (rule leads_sbnd [OF authorize_leads], rule cleared_slift, rule cleared_step [OF calm_ops(4)], rule leads_sbnd [OF announce_leads],
      rule cleared_slift, rule cleared_slift, rule leads_sbnd [OF run_operation_leads [OF assms] take_outcome_leads])

lemma admit_job_leads:
  assumes "is_str selected" "selected = dget (k_bound k) ''selected_source_set_sha256''"
  shows "leads (fresh_job selected job) (admit_job env k job request) (\<lambda>_. open_run selected) (open_run selected)"
proof -
  have rest: "leads (\<lambda>s. case prepared of None \<Rightarrow> open_run selected s | Some _ \<Rightarrow> cleared_job selected job request s)
      (case prepared of None \<Rightarrow> slift (Inr ()) | Some r \<Rightarrow> sbnd (propose_owner env k job request r) (\<lambda>proposal. execute_owner env k job request proposal))
      (\<lambda>_. open_run selected) (open_run selected)" for prepared
    by (cases prepared) (auto intro!: leads_slift leads_sbnd [OF propose_owner_leads execute_owner_leads [OF assms(1)]])
  show ?thesis
    unfolding admit_job_def
    by (rule leads_sbnd [OF fresh_keeps [OF adds_basic(1)]], rule leads_sbnd [OF fresh_keeps [OF calm_ops(4)]],
        rule leads_sbnd [OF screen_guard_leads [OF assms(2)]], rule leads_sbnd [OF prepare_owner_leads rest])
qed

lemma set_outcome_fresh: "leads (fresh_job selected job) (set_outcome d) (\<lambda>_. open_run selected) E"
  by (rule leads_weaken [OF set_outcome_leads [where E = E]]) (auto intro: fresh_open)

lemma job_body_leads:
  assumes "is_str selected" "selected = dget (k_bound k) ''selected_source_set_sha256''"
  shows "leads (fresh_job selected job) (job_body env k job request) (\<lambda>_. open_run selected) (open_run selected)"
  unfolding job_body_def
  by (rule leads_sbnd [OF fresh_keeps [OF whole_budget_adds]], rule leads_sguard, rule leads_sbnd [OF fresh_keeps [OF is_cancelled_adds]],
      rule leads_if, rule set_outcome_fresh, rule leads_if, rule set_outcome_fresh, rule admit_job_leads [OF assms], rule fresh_open)

section \<open>Lemmas: closing the campaign\<close>

lemma whole_keeps: "keeps (adds silent) m \<Longrightarrow> leads (whole selected) m (\<lambda>_. whole selected) (whole selected)"
  by (rule leads_keeps [of "adds silent"]) (auto intro: whole_silent)

definition closing :: "pyv \<Rightarrow> controller \<Rightarrow> bool" where
  "closing selected s = (whole selected s \<and> q_terminal s \<and> \<not> list_ex is_park (q_trace s))"

lemma closing_silent:
  assumes "closing selected s" "adds silent s s'"
  shows "closing selected s'"
proof -
  obtain evs where e: "q_trace s' = q_trace s @ evs" "list_all silent evs" using assms(2) by (auto simp: adds_def)
  have "list_all calm evs" using e(2) silent_calm by (auto simp: list_all_iff)
  then have "\<not> list_ex is_park evs" by (rule calm_park)
  moreover have "whole selected s'" using assms(1) whole_silent [OF _ assms(2)] by (simp add: closing_def)
  ultimately show ?thesis using assms e(1) by (simp add: closing_def adds_def)
qed

lemma closing_whole: "closing selected s \<Longrightarrow> whole selected s"
  by (simp add: closing_def)

lemma closing_keeps: "keeps (adds silent) m \<Longrightarrow> leads (closing selected) m (\<lambda>_. closing selected) (whole selected)"
  by (rule leads_keeps [of "adds silent"]) (auto intro: closing_silent closing_whole)

lemma closing_call: "closing selected s \<Longrightarrow> whole selected (s\<lparr>q_trace := q_trace s @ [Call n ''park'' j r d]\<rparr>)"
  by (auto simp: closing_def whole_def screened_append quiet_append)

lemmas closing_step = leads_sbnd [OF closing_keeps]

lemma rpc_park_leads: "leads (closing selected) (rpc_send env k ''park'' j r x) (\<lambda>_. whole selected) (whole selected)"
proof -
  have count: "keeps (adds silent) (supd (\<lambda>s. s\<lparr>q_sequence := Suc (q_sequence s)\<rparr>))" by (rule adds_supd) (simp add: adds_def)
  have call: "leads (closing selected) (note_event (Call n ''park'' j r d)) (\<lambda>_. whole selected) (whole selected)" for n d
    unfolding note_event_def by (rule leads_supd) (rule closing_call)
  show ?thesis
    unfolding rpc_send_def
    by (rule closing_step [OF remaining_adds], rule closing_step [OF adds_basic(1)], rule leads_sguard, rule closing_step [OF count],
        rule closing_step [OF clock_adds], rule closing_step [OF remaining_adds], rule closing_step [OF adds_basic(1)], rule closing_step [OF adds_basic(2)],
        rule leads_sbnd [OF call], rule leads_sbnd [OF whole_keeps [OF adds_basic(2)]], rule whole_keeps [OF adds_basic(1)], rule closing_whole)
qed

lemma write_end_leads: "leads (whole selected) (sbnd (write_root env k name v) (\<lambda>_. slift (Inr x))) (\<lambda>_. whole selected) (whole selected)"
  by (rule leads_sbnd [OF whole_keeps [OF write_root_adds] whole_keeps [OF adds_basic(1)]])

lemma close_call_leads:
  "leads (closing selected) (attempt_st (sbnd (rpc_send env k ''park'' PNone result PNone)
        (\<lambda>published. sbnd (write_root env k name published) (\<lambda>_. slift (Inr x))))
      (\<lambda>err. sbnd (write_root env k name' (v err)) (\<lambda>_. slift (Inr y)))) (\<lambda>_. whole selected) (whole selected)"
proof (rule leads_attempt)
  show "leads (closing selected) (sbnd (rpc_send env k ''park'' PNone result PNone)
        (\<lambda>published. sbnd (write_root env k name published) (\<lambda>_. slift (Inr x)))) (\<lambda>_. whole selected) (whole selected)"
    by (rule leads_sbnd [OF rpc_park_leads write_end_leads])
qed (rule write_end_leads)

lemma whole_park: "whole selected s \<Longrightarrow> whole selected (s\<lparr>q_parked := True\<rparr>)"
  by (simp add: whole_def)

lemma whole_closing: "whole selected s \<Longrightarrow> \<not> q_terminal s \<Longrightarrow> closing selected (s\<lparr>q_parked := True, q_terminal := True\<rparr>)"
  by (simp add: closing_def whole_def)

lemma park_campaign_leads: "leads (whole selected) (park_campaign env k reason) (\<lambda>_. whole selected) (whole selected)"
proof (rule fst_leads)
  fix s
  assume w: "whole selected s"
  show "whole selected (fst (park_campaign env k reason s))"
  proof (cases "q_terminal s")
    case True
    then show ?thesis using whole_park [OF w] by (simp add: park_campaign_def set_parked_def)
  next
    case False
    have "closing selected (s\<lparr>q_parked := True, q_terminal := True\<rparr>)" by (rule whole_closing [OF w False])
    then show ?thesis
      unfolding park_campaign_def set_parked_def fst_sbnd_supd fst_sbnd_sget controller.simps controller.update_convs
      using False by (simp add: leads_fst [OF close_call_leads])
  qed
qed

lemmas open_step = leads_sbnd [OF open_keeps]

lemma set_parked_leads: "leads (open_run selected) (set_parked p) (\<lambda>_. open_run selected) (open_run selected)"
  unfolding set_parked_def by (rule leads_supd) (rule open_update(2))

lemma raises_to_whole: "leads P m (\<lambda>_. open_run selected) (open_run selected) \<Longrightarrow> leads P m (\<lambda>_. open_run selected) (whole selected)"
  by (erule leads_weaken) (auto intro: open_whole)

lemma publish_outcome_leads: "leads (open_run selected) (publish_outcome env k job request) (\<lambda>_. whole selected) (whole selected)"
proof -
  note calm_write = write_job_adds [THEN adds_silent]
  have handler: "leads (open_run selected) (sbnd (set_parked True) (\<lambda>_. sbnd (write_job env k job ''PUBLICATION-FAILURE.json'' v) (\<lambda>_. slift (Inl err))))
      (\<lambda>_. open_run selected) (open_run selected)" for v err
    by (rule leads_sbnd [OF set_parked_leads], rule open_step [OF calm_write], rule open_keeps [OF adds_basic(1)])
  have published: "leads (open_run selected) (sbnd (slift (item request ''expires_unix_ms'')) (\<lambda>expires.
         sbnd (rpc_send env k ''publish'' job_id v expires) (\<lambda>published.
         sbnd (slift (py_get published ''published_sha256'')) (\<lambda>sha.
         sguard (py_eq sha (dget (dict_of_v retained) ''sha256'')) ''published result identity mismatch'' (
         sbnd (write_job env k job ''PUBLICATION.json'' published) (\<lambda>_. slift (Inr ()))))))) (\<lambda>_. open_run selected) (open_run selected)" for job_id v retained
    by (rule open_keeps) (intro adds_rules rpc_send_adds calm_write, simp)
  have close: "leads (open_run selected) (sbnd (if c then park_campaign env k r else slift (Inr ())) (\<lambda>_. slift (Inr x))) (\<lambda>_. whole selected) (whole selected)"
    for c r and x :: pydict
  proof (rule leads_sbnd)
    show "leads (open_run selected) (if c then park_campaign env k r else slift (Inr ())) (\<lambda>_. whole selected) (whole selected)"
      by (rule leads_if, rule leads_weaken [OF park_campaign_leads]) (auto intro: open_whole leads_slift)
  qed (rule whole_keeps [OF adds_basic(1)])
  note raises = raises_to_whole [OF open_keeps, THEN leads_sbnd]
  show ?thesis
    unfolding publish_outcome_def
    by (rule raises, rule adds_basic(1), rule raises, rule adds_basic(2), rule raises, rule calm_write, rule raises, rule adds_basic(1),
        rule leads_sbnd [OF raises_to_whole [OF set_parked_leads]], rule leads_sbnd [OF raises_to_whole [OF leads_attempt [OF published handler]]],
        rule raises, rule adds_basic(2), rule close)
qed

section \<open>Lemmas: a step and a run\<close>

definition empty_dir :: "pyv \<Rightarrow> string \<Rightarrow> controller \<Rightarrow> bool" where
  "empty_dir selected job s = (open_run selected s \<and> job \<in> keyset (q_jobs s) \<and> job \<notin> set (started_jobs (q_trace s)))"

lemma make_job_leads: "leads (open_run selected) (make_job env job) (\<lambda>_. empty_dir selected job) (open_run selected)"
proof -
  have "(case make_job env job s of (s', Inr _) \<Rightarrow> empty_dir selected job s' | (s', Inl _) \<Rightarrow> open_run selected s')" if r: "open_run selected s" for s
  proof (cases "map_of (q_jobs s) job")
    case None
    let ?s = "s\<lparr>q_trace := q_trace s @ [Made job]\<rparr>"
    have made: "open_run selected ?s" by (rule open_calm [OF r]) (simp add: adds_def)
    have "job \<notin> keyset (q_jobs s)" using None by (simp add: keyset_def map_of_eq_None_iff)
    then have "job \<notin> set (started_jobs (q_trace s))" using r by (auto simp: open_run_def whole_def)
    then have "empty_dir selected job (?s\<lparr>q_jobs := (job, []) # q_jobs s\<rparr>)"
      using made by (auto simp: empty_dir_def open_run_def whole_def keyset_def)
    then show ?thesis using None made by (simp add: make_job_def sbnd_def sget_def slift_def occur_def supd_def)
  qed (use r in \<open>simp add: make_job_def sbnd_def sget_def slift_def\<close>)
  then show ?thesis unfolding leads_def by (fastforce split: prod.splits sum.splits)
qed

lemma empty_keeps: "keeps (adds calm) m \<Longrightarrow> leads (empty_dir selected job) m (\<lambda>_. empty_dir selected job) (open_run selected)"
proof (rule leads_keeps)
  fix s s'
  assume e: "empty_dir selected job s" and c: "adds calm s s'"
  obtain evs where evs: "q_trace s' = q_trace s @ evs" "list_all calm evs" using c by (auto simp: adds_def)
  show "empty_dir selected job s'"
    using e c evs(1) calm_started [OF evs(2)] open_calm [of selected s s'] by (auto simp: empty_dir_def adds_def)
qed (auto simp: empty_dir_def)

lemma set_outcome_value: "leads (empty_dir selected job) (supd (\<lambda>s. s\<lparr>q_outcome := outcome_value k job request sha\<rparr>)) (\<lambda>_. fresh_job selected job) E"
  by (rule leads_supd) (auto simp: empty_dir_def fresh_job_def outcome_value_def dget_rec open_run_def whole_def)

lemma handle_job_leads:
  assumes "is_str selected" "selected = dget (k_bound k) ''selected_source_set_sha256''"
  shows "leads (open_run selected) (handle_job env k job snap) (\<lambda>_. whole selected) (whole selected)"
proof -
  have raise: "leads P m Q (open_run selected) \<Longrightarrow> leads P m Q (whole selected)" for P and Q :: "'b \<Rightarrow> controller \<Rightarrow> bool" and m
    by (erule leads_weaken) (auto intro: open_whole)
  have body: "leads (fresh_job selected job) (attempt_st (job_body env k job request) (\<lambda>err. set_outcome (fields_of err))) (\<lambda>_. open_run selected) (open_run selected)"
    for request fields_of
    by (rule leads_attempt [OF job_body_leads [OF assms] set_outcome_leads])
  note empty_step = leads_sbnd [OF raise [OF empty_keeps]]
  show ?thesis
    unfolding handle_job_def
    by (rule leads_sbnd [OF raise [OF make_job_leads]], rule empty_step, rule adds_basic(1), rule empty_step, rule adds_occur, simp,
        rule empty_step, rule adds_basic(1), rule empty_step, rule adds_basic(1), rule leads_sbnd [OF set_outcome_value],
        rule leads_sbnd [OF raise [OF body] publish_outcome_leads])
qed

lemma step_body_leads:
  assumes "is_str selected" "selected = dget (k_bound k) ''selected_source_set_sha256''"
  shows "leads (open_run selected) (step_body env k) (\<lambda>_. whole selected) (whole selected)"
proof -
  have raise: "leads P m Q (open_run selected) \<Longrightarrow> leads P m Q (whole selected)" for P and Q :: "'b \<Rightarrow> controller \<Rightarrow> bool" and m
    by (erule leads_weaken) (auto intro: open_whole)
  note ops = leads_sbnd [OF raise [OF open_keeps]]
  have done_now: "leads (open_run selected) (slift (Inr x)) (\<lambda>_. whole selected) (whole selected)" for x :: pydict
    by (rule leads_slift) (auto intro: open_whole)
  have exhausted: "leads (open_run selected) (sbnd (set_parked True) (\<lambda>_. slift (Inr x))) (\<lambda>_. whole selected) (whole selected)" for x :: pydict
    by (rule leads_sbnd [OF raise [OF set_parked_leads] done_now])
  have idle: "leads (open_run selected) (sbnd (remaining env k) (\<lambda>l. slift (Inr (f l)))) (\<lambda>_. whole selected) (whole selected)" for f :: "pyv \<Rightarrow> pydict"
    by (rule ops, rule remaining_adds [THEN adds_silent], rule done_now)
  have jobs: "leads (open_run selected) (case list_of jobs of [] \<Rightarrow> sbnd (remaining env k) (\<lambda>now_left. slift (Inr (idle_value now_left)))
     | job_id # _ \<Rightarrow> sbnd (rpc_send env k ''take'' job_id PNone PNone) (\<lambda>snap. handle_job env k (str_of job_id) snap)) (\<lambda>_. whole selected) (whole selected)" for jobs
  proof (cases "list_of jobs")
    case (Cons job_id rest)
    have "leads (open_run selected) (sbnd (rpc_send env k ''take'' job_id PNone PNone) (\<lambda>snap. handle_job env k (str_of job_id) snap)) (\<lambda>_. whole selected) (whole selected)"
      by (rule ops, rule rpc_send_adds, simp, rule handle_job_leads [OF assms])
    then show ?thesis by (simp add: Cons)
  qed (simp add: idle)
  show ?thesis
    unfolding step_body_def
    by (rule ops, rule adds_basic(1), rule ops, rule source_closure_adds [THEN adds_silent], rule ops, rule remaining_adds [THEN adds_silent],
        rule ops, rule adds_basic(1), rule leads_if, rule exhausted, rule ops, rule rpc_send_adds, simp, rule ops, rule adds_basic(1),
        rule leads_sguard, rule jobs, rule open_whole)
qed

lemma controller_step_leads:
  assumes "is_str selected" "selected = dget (k_bound k) ''selected_source_set_sha256''"
  shows "leads (whole selected) (controller_step env k) (\<lambda>_. whole selected) (whole selected)"
proof (rule fst_leads)
  fix s
  assume w: "whole selected s"
  have handler: "leads (whole selected) (sbnd (write_root env k n v) (\<lambda>_. sbnd (park_campaign env k r) (\<lambda>_. slift (Inr x)))) (\<lambda>_. whole selected) (whole selected)"
    for n v r and x :: pydict
    by (rule leads_sbnd [OF whole_keeps [OF write_root_adds]], rule leads_sbnd [OF park_campaign_leads whole_keeps [OF adds_basic(1)]])
  have tried: "leads (open_run selected) (attempt_st (step_body env k) (\<lambda>err. let result = dispatch_failure (error_text env err) in
         sbnd (write_root env k ''DISPATCH-FAILURE.json'' (PDict result)) (\<lambda>_. sbnd (park_campaign env k (dget result ''reason'')) (\<lambda>_. slift (Inr result)))))
       (\<lambda>_. whole selected) (whole selected)"
    unfolding Let_def by (rule leads_attempt [OF step_body_leads [OF assms] handler])
  show "whole selected (fst (controller_step env k s))"
  proof (cases "q_parked s")
    case True
    then show ?thesis using w by (simp add: controller_step_def sguard_def)
  next
    case False
    then have "open_run selected s" using w by (auto simp: open_run_def whole_def)
    then show ?thesis unfolding controller_step_def fst_sbnd_sget using False leads_fst [OF tried] by simp
  qed
qed

lemma serve_rounds_leads:
  assumes "is_str selected" "selected = dget (k_bound k) ''selected_source_set_sha256''"
  shows "leads (whole selected) (serve_rounds env k n) (\<lambda>_. whole selected) (whole selected)"
proof (induction n)
  case 0
  show ?case unfolding serve_rounds.simps by (rule whole_keeps [OF adds_basic(1)])
next
  case (Suc n)
  note ops = leads_sbnd [OF whole_keeps]
  have stop: "leads (whole selected) (sbnd (park_campaign env k r) (\<lambda>_. slift (Inr b))) (\<lambda>_. whole selected) (whole selected)" for r and b :: bool
    by (rule leads_sbnd [OF park_campaign_leads whole_keeps [OF adds_basic(1)]])
  have pause: "leads (whole selected) (sbnd (remaining env k) (\<lambda>l. sbnd (slift (py_min2 (PInt 2) l)) (\<lambda>p. sbnd (occur env (Slept p)) (\<lambda>_. serve_rounds env k n))))
      (\<lambda>_. whole selected) (whole selected)"
    by (rule ops, rule remaining_adds, rule ops, rule adds_basic(1), rule ops, rule adds_occur, simp, rule Suc.IH)
  show ?case
    unfolding serve_rounds.simps
    by (rule ops, rule adds_basic(2), rule leads_if, rule whole_keeps [OF adds_basic(1)], rule ops, rule remaining_adds, rule ops, rule adds_basic(1),
        rule leads_if, rule whole_keeps [OF adds_basic(1)], rule ops, rule adds_basic(2), rule leads_if, rule stop,
        rule leads_sbnd [OF controller_step_leads [OF assms]], rule leads_if, rule pause, rule Suc.IH)
qed

lemma serve_end_leads: "leads (whole selected) (serve_end env k) (\<lambda>_. whole selected) (whole selected)"
  unfolding serve_end_def
  by (rule leads_sbnd [OF park_campaign_leads], rule leads_sbnd [OF whole_keeps [OF remaining_adds]],
      rule leads_sbnd [OF whole_keeps [OF clock_adds]], rule write_end_leads)

lemma serve_whole:
  assumes "is_str selected" "selected = dget (k_bound k) ''selected_source_set_sha256''" "whole selected s"
  shows "whole selected (fst (serve env k n s))"
proof -
  obtain s' r where r: "serve_rounds env k n s = (s', r)" by (cases "serve_rounds env k n s")
  have s': "whole selected s'" using leads_fst [OF serve_rounds_leads [OF assms(1,2), where env = env and n = n] assms(3)] by (simp add: r)
  have closed: "whole selected (fst (sbnd (serve_end env k) (\<lambda>_. slift x) s'))" for x :: "bool res"
    by (rule leads_fst [where P = "whole selected"], rule leads_sbnd [OF serve_end_leads whole_keeps [OF adds_basic(1)]], rule s')
  show ?thesis
    using s' closed by (cases r) (auto simp: serve_def r split: bool.splits)
qed

lemma controller_call_whole:
  assumes "is_str selected" "selected = dget (k_bound k) ''selected_source_set_sha256''" "whole selected s"
  shows "whole selected (controller_call_result env k s c)"
  using serve_whole [OF assms] leads_fst [OF controller_step_leads [OF assms(1,2)] assms(3)] by (cases c) auto

text \<open>The constructor only reads and writes files.\<close>

lemma construct_adds: "keeps (adds silent) (construct env v)"
  unfolding construct_def monotonic_deadline_def Let_def
  by (intro adds_rules silent_ops) simp_all

lemma check_bound_selected: "check_bound b = Inr bound \<Longrightarrow> is_str (dget bound ''selected_source_set_sha256'')"
proof -
  assume a: "check_bound b = Inr bound"
  then obtain us where us: "mapM_res (\<lambda>name. identity (dget bound name) name) GRANT_IDENTITIES = Inr us"
    unfolding check_bound_def Let_def by auto
  have "''selected_source_set_sha256'' \<in> set GRANT_IDENTITIES" by (simp add: GRANT_IDENTITIES_def)
  from mapM_res_image [OF us this] have "hex_value 64 (dget bound ''selected_source_set_sha256'')" by (auto simp: identity_def)
  then show ?thesis by (cases "dget bound ''selected_source_set_sha256''") (auto simp: hex_value_def)
qed

lemma construct_bound:
  assumes "construct env v s = (s', Inr k)"
  shows "is_str (dget (k_bound k) ''selected_source_set_sha256'')"
proof -
  obtain b bound where "check_bound b = Inr bound" "k_bound k = bound"
    using assms unfolding construct_def Let_def
    by (auto simp: slift_def sguard_def split: if_splits simp del: bnd_Inr_iff item_Inr_iff guard_Inr_iff)
  then show ?thesis using check_bound_selected by simp
qed

definition kept :: "fixed \<Rightarrow> controller \<Rightarrow> bool" where
  "kept k s = (let selected = dget (k_bound k) ''selected_source_set_sha256'' in is_str selected \<longrightarrow> whole selected s)"

interpretation controller_run: run_invariant "controller_call_result env k" "kept k" for env k
  by unfold_locales (auto simp: kept_def Let_def intro: controller_call_whole)

lemma fresh_whole: "whole selected fresh_controller"
  by (simp add: whole_def fresh_controller_def)

text \<open>The source set the binding of the campaign names as the selected one.\<close>

definition selected_sources :: "outside \<Rightarrow> pyv \<Rightarrow> pyv" where
  "selected_sources env config =
     (case construct env config fresh_controller of (_, Inr k) \<Rightarrow> dget (k_bound k) ''selected_source_set_sha256'' | _ \<Rightarrow> PNone)"

lemma run_controller_whole: "whole (selected_sources env config) (run_controller env config calls)"
proof -
  obtain s r where c: "construct env config fresh_controller = (s, r)" by (cases "construct env config fresh_controller")
  have s: "whole selected s" for selected
    using construct_adds whole_silent [OF fresh_whole] c unfolding keeps_def by (metis fst_conv)
  show ?thesis
  proof (cases r)
    case (Inr k)
    let ?sel = "dget (k_bound k) ''selected_source_set_sha256''"
    have "is_str ?sel" using construct_bound c Inr by blast
    moreover have "kept k (foldl (controller_call_result env k) s calls)" by (rule controller_run.run_inv) (simp add: kept_def s)
    ultimately have "whole ?sel (foldl (controller_call_result env k) s calls)" by (simp add: kept_def)
    then show ?thesis by (simp add: run_controller_def selected_sources_def c Inr)
  qed (simp add: run_controller_def selected_sources_def c s)
qed

section \<open>Properties\<close>

text \<open>C39: whatever the transport, the operations, the clocks and the files do, and however the
  controller is called after its construction: an owner operation about changed sources is started only
  when it is a component job itself, or after a component job about exactly these sources that
  succeeded with a report eligible for serving.\<close>

theorem changed_sources_are_screened:
  "screened (selected_sources env config) [] (q_trace (run_controller env config calls))"
  using run_controller_whole [of env config calls] by (simp add: whole_def)

text \<open>C40: in the same runs no job is started twice, and once the campaign has been closed by the park
  call nothing is asked of anybody any more: no transport call, no preparation and no operation.\<close>

theorem jobs_run_once_until_parked:
  "distinct (started_jobs (q_trace (run_controller env config calls))) \<and> quiet_after_park (q_trace (run_controller env config calls))"
  using run_controller_whole [of env config calls] by (simp add: whole_def)

end
