(* ===== verification/Spec2Isabelle.thy ===== *)
theory Spec2Isabelle
  imports Py_Json Psu_Energy Cache_Pool Gateway Web_Search Job_Exchange Latency Memory_Plan Owner_Backend Owner_Result Workload_Menu Exchange_Host
    Profile_Metrics Profile_Identity Quality_Compare Profile_Gates Profile_Selection Profile_Inspect Controller Controller_Runs
begin

text \<open>
  A verification of the decision logic of the workstation repository: the Python programs that measure a
  workstation, guard the shared inference interface, and run bounded optimisation campaigns whose
  results an owner may select. All paths below are relative to \<open>src/\<close>.

  \<^bold>\<open>The program and its theories.\<close> The parts and the way they work together:

  \<^item> \<open>lib/workstation/telemetry_power.py\<close> (\<open>Psu_Energy\<close>) finds the sensor of the power supply and
    keeps an energy counter that survives restarts and refuses to count over gaps.
  \<^item> \<open>apps/base/shared-api/boundary.py\<close> (\<open>Gateway\<close>) is the ASGI boundary before the model server: keys,
    the phases of the model, admission of a chat and the accounting of its end.
    \<open>apps/base/shared-api/web_search.py\<close> (\<open>Web_Search\<close>) is the web tool with its durable request ceiling.
  \<^item> \<open>infrastructure/hyperloom/sglang-owner-adapter/cache_policy_model.py\<close> (\<open>Cache_Pool\<close>) is the
    simulation by which a cache policy of the model server is chosen: checkpoints in a pool, eviction,
    trimming, locks and the replay of a menu of requests.
  \<^item> The campaign: the optimizer's side \<open>lib/workstation/hyperloom_owner_backend.py\<close>
    (\<open>Owner_Backend\<close>) submits write-once jobs through \<open>lib/workstation/hyperloom_exchange.py\<close>
    (\<open>Job_Exchange\<close>) and waits for results. The controller's end of the same two trees is
    \<open>lib/workstation/hyperloom_exchange_host.py\<close> (\<open>Exchange_Host\<close>); the controller itself,
    \<open>infrastructure/hyperloom/sglang-owner-adapter/controller.py\<close>, takes a job, has it executed,
    publishes the outcome and parks the campaign on every doubt (\<open>Controller\<close> for the code,
    \<open>Controller_Runs\<close> for what holds in every run). Both sides demand an eligible report about exactly
    the changed sources before anything is served. What is measured is the menu of requests that
    \<open>lib/workstation/hyperloom_workload.py\<close> derives (\<open>Workload_Menu\<close>); the report about it is projected by
    \<open>lib/workstation/hyperloom_owner_result.py\<close> (\<open>Owner_Result\<close>), and the last step of the owner's operation
    passes that report through the validators of the optimizer's side.
  \<^item> \<open>lib/workstation/hyperloom_latency.py\<close> (\<open>Latency\<close>) decides from balanced latency series whether a
    candidate is kept. \<open>lib/workstation/serving_memory.py\<close> (\<open>Memory_Plan\<close>) derives the memory limit of the
    serving pod from the windows that were observed while it served.
  \<^item> \<open>lib/workstation/performance_profiles.py\<close> reads sealed bundles of evidence and lets an owner
    select a profile: summaries in \<open>Profile_Metrics\<close>, producer identity and the experimental KV
    descriptor in \<open>Profile_Identity\<close>, the gates in \<open>Profile_Gates\<close>, comparison, validation,
    selection and status in \<open>Profile_Selection\<close>, the reading of a bundle in \<open>Profile_Inspect\<close>.
    The numerical comparison it relies on, \<open>compare_quality\<close> of \<open>lib/workstation/model_kernels.py\<close>, is
    \<open>Quality_Compare\<close>.

  \<^bold>\<open>How Python is modelled.\<close> \<open>Py_Prelude\<close> has the exceptions as a datatype, code that may
  raise as \<open>exn + 'a\<close>, the values of JSON with Python's equality across bool, int and float,
  dictionaries as association lists in insertion order, and the two locales for runs
  (\<open>run_invariant\<close>, \<open>monotone_run\<close>), interpreted on the step functions of the gateway, the energy
  counter, the exchange endpoint and the controller. \<open>Py_Float\<close> is binary64 over exact rationals with
  rounding to even; its locale \<open>rounding\<close> is what the components use of it and is interpreted on the
  rounding function itself. \<open>Py_Ops\<close> sequences code that may raise, with a state (\<open>st\<close>) and without.
  \<open>Py_Json\<close> has the hooks the sources give to \<open>json.loads\<close>. Integers are unbounded as in Python; the
  widths that matter (body sizes, counters, byte budgets) are the comparisons of the code. A class with
  attributes is a \<open>record\<close>, each of its methods one definition of the same name, each \<open>raise\<close> and early
  return one branch. Where two programs write the same trees at the same time, every observation of a
  shared file is a value of its own (\<open>submission\<close>, \<open>write_env\<close>, \<open>wait_start\<close>, \<open>host_env\<close>, \<open>backend_env\<close>, \<open>poll\<close>), so that
  the other side may change it between any two of them.

  \<^bold>\<open>Loops.\<close> Nearly all recursion is structural: over the rows, tokens, samples or observations
  the loop consumes. Two loops of the code wait for the outside world. \<open>wait_loop\<close> (\<open>wait_result\<close>)
  takes the list of its observations and answers \<open>None\<close> while it would still wait; it ends at the latest at
  the first observation at or after the deadline. \<open>serve_rounds\<close> (\<open>serve\<close>) takes the number of rounds and
  says whether the loop has ended by then; the theorems about runs of the controller hold for every
  number. \<open>run\<close> of the owner backend recurses for the component screen; it takes the depth as an argument and
  a depth of two is enough for every input. The greedy trimming loop of the cache pool and its eviction are
  functions of the node list, and the replay of a menu is proved to return.

  \<^bold>\<open>What the theorems show.\<close>

  \<^item> Energy: \<open>advance\<close> counts a trapezoid exactly when two samples belong together and otherwise names
    the reason, its total never decreases, it raises nothing but \<open>ValueError\<close>; through every state of the
    directory between the system calls of \<open>write\<close> (\<open>write_temp\<close>, \<open>write_replace\<close>), whichever of them fail and
    whatever another process puts there meanwhile, the state file is complete; \<open>collect\<close> turns every
    failure into a reason, except that resolving a loop of links escapes from it.
  \<^item> Gateway and web tool: an invariant of every run (concurrency limit, phases, image switch), the
    conditions under which the backend is ever launched, the accounting of every end, the key that every
    change of state needs; the request ceiling over any sequence of attempts, all-or-nothing
    reservations, bounds on what search and extraction return, and that an extraction asks the provider
    for exactly the checked public URLs (\<open>w_sent\<close> of \<open>service\<close> keeps the requests that were sent).
  \<^item> Cache pool: the replay of a menu terminates and serves every request from an aligned prefix; groups
    leave nothing locked or pinned; eviction takes a least recently used unlocked value, trimming respects
    its cap, a match is the deepest valued node.
  \<^item> Campaign: round trips of a job and of its result through the exchange, the admission window, a claim at
    most once, the three ways a wait can end, binding of accepted results and retained snapshots by digest, write-once endpoint under any
    sequence of calls; the component screen on the optimizer's side; and for the controller, over every
    behaviour of transport, operations, clocks and file system: changed sources are served only after an
    eligible component report about exactly these sources, no job starts twice, nothing follows parking. A
    projected report, of either kind, passes the optimizer's validator; a derived menu follows one
    schedule whatever its donor (each warm request reads the namespace of one earlier cold request), and its
    samples cover exactly the requests the report must score.
  \<^item> Evidence: what the latency verdict and the paired comparison decide, what the numerical comparison
    accepts, that serving summaries can always be aligned and are paired by label whatever their order,
    that startup accounting is complete, that a KV descriptor is bound to its runtime, that a bundle's own
    quality check agrees with the later one, that a selected profile passed every gate when computed again
    (provenance, the agreement of both numerical runs and the absence of failed requests included),
    that a selection is current only on the observed identity, and that a memory plan only lowers the limit
    and covers every sample of every accepted window with its headroom.

  \<^bold>\<open>Parameters.\<close> Code that is not in the repository is an argument: the codec of a component
  (\<open>json.dumps\<close>, the strict decoder, SHA-256; the sorting of keys by \<open>canonical\<close> is modelled), \<open>exp\<close>,
  \<open>log\<close> and \<open>sqrt\<close> of the C library (\<open>libm\<close>, \<open>p_sqrt\<close>), parsing and printing of floats,
  \<open>ipaddress\<close>, base64, zlib, the HTTP client, the wrapped application, clocks, random identifiers, and what the file
  system answers. The round trips assume that the decoder inverts the encoder on what is encoded and nothing more
  of it; their witnesses give such a codec. For the controller every answer of the outside is a function of
  the whole trace so far, so nothing is assumed of it.

  \<^bold>\<open>Not modelled.\<close> Command lines and printing; directory descriptors, locking, \<open>fsync\<close> and
  path canonicalisation (system calls whose outcomes appear as the observed members); scripts that drive
  containers, compilers, GPU kernels, downloads and network services; the parsers of profiler traces; of
  memory planning the reading of evidence and the comparison of launch descriptions; of the owner's operation everything but
  the report it returns; the modules that back up services, sample telemetry, refresh tariffs and import
  tuning evidence, which are mostly system calls and subprocesses around small checks.
\<close>

end
